(* ===== verification/Errno.thy ===== *)
theory Errno
  imports Main
begin

text \<open>
  The error codes of \<open>internal/errno/errno.go\<close>.  An \<open>ErrorCode\<close> is its number: the
  description and the clue (\<open>E\<close>, \<open>S\<close>, \<open>F\<close>) only reach the message shown to the user.
  \<open>elist\<close> is the registry that \<open>EC\<close> fills while the package is initialised, in source
  order, and \<open>List\<close> is the command that prints it and names the codes registered twice.
\<close>

section \<open>The codes\<close>

datatype errno = EC int

primrec GetCode :: "errno \<Rightarrow> int" where
  "GetCode (EC c) = c"

abbreviation ERR_OK :: errno where "ERR_OK \<equiv> EC 0"
abbreviation ERR_GET_USER_HOME_DIR_FAILED :: errno where "ERR_GET_USER_HOME_DIR_FAILED \<equiv> EC 1"
abbreviation ERR_CREATE_DINGOADM_SUBDIRECTORY_FAILED :: errno where "ERR_CREATE_DINGOADM_SUBDIRECTORY_FAILED \<equiv> EC 2"
abbreviation ERR_INIT_LOGGER_FAILED :: errno where "ERR_INIT_LOGGER_FAILED \<equiv> EC 3"
abbreviation ERR_INIT_SQL_DATABASE_FAILED :: errno where "ERR_INIT_SQL_DATABASE_FAILED \<equiv> EC 100000"
abbreviation ERR_GET_HOSTS_FAILED :: errno where "ERR_GET_HOSTS_FAILED \<equiv> EC 110000"
abbreviation ERR_UPDATE_HOSTS_FAILED :: errno where "ERR_UPDATE_HOSTS_FAILED \<equiv> EC 110001"
abbreviation ERR_INSERT_CLUSTER_FAILED :: errno where "ERR_INSERT_CLUSTER_FAILED \<equiv> EC 111000"
abbreviation ERR_GET_CURRENT_CLUSTER_FAILED :: errno where "ERR_GET_CURRENT_CLUSTER_FAILED \<equiv> EC 111001"
abbreviation ERR_GET_CLUSTER_BY_NAME_FAILED :: errno where "ERR_GET_CLUSTER_BY_NAME_FAILED \<equiv> EC 111002"
abbreviation ERR_GET_ALL_CLUSTERS_FAILED :: errno where "ERR_GET_ALL_CLUSTERS_FAILED \<equiv> EC 111003"
abbreviation ERR_CHECKOUT_CLUSTER_FAILED :: errno where "ERR_CHECKOUT_CLUSTER_FAILED \<equiv> EC 111004"
abbreviation ERR_DELETE_CLUSTER_FAILED :: errno where "ERR_DELETE_CLUSTER_FAILED \<equiv> EC 111005"
abbreviation ERR_UPDATE_CLUSTER_TOPOLOGY_FAILED :: errno where "ERR_UPDATE_CLUSTER_TOPOLOGY_FAILED \<equiv> EC 111006"
abbreviation ERR_UPDATE_CLUSTER_POOL_FAILED :: errno where "ERR_UPDATE_CLUSTER_POOL_FAILED \<equiv> EC 111007"
abbreviation ERR_RENAME_CLUSTER_FAILED :: errno where "ERR_RENAME_CLUSTER_FAILED \<equiv> EC 111008"
abbreviation ERR_INSERT_SERVICE_CONTAINER_ID_FAILED :: errno where "ERR_INSERT_SERVICE_CONTAINER_ID_FAILED \<equiv> EC 112000"
abbreviation ERR_SET_SERVICE_CONTAINER_ID_FAILED :: errno where "ERR_SET_SERVICE_CONTAINER_ID_FAILED \<equiv> EC 112001"
abbreviation ERR_GET_SERVICE_CONTAINER_ID_FAILED :: errno where "ERR_GET_SERVICE_CONTAINER_ID_FAILED \<equiv> EC 112002"
abbreviation ERR_GET_ALL_SERVICES_CONTAINER_ID_FAILED :: errno where "ERR_GET_ALL_SERVICES_CONTAINER_ID_FAILED \<equiv> EC 112003"
abbreviation ERR_INSERT_CLIENT_FAILED :: errno where "ERR_INSERT_CLIENT_FAILED \<equiv> EC 113000"
abbreviation ERR_GET_CLIENT_CONTAINER_ID_FAILED :: errno where "ERR_GET_CLIENT_CONTAINER_ID_FAILED \<equiv> EC 113001"
abbreviation ERR_GET_CLIENT_BY_ID_FAILED :: errno where "ERR_GET_CLIENT_BY_ID_FAILED \<equiv> EC 113002"
abbreviation ERR_GET_ALL_CLIENTS_FAILED :: errno where "ERR_GET_ALL_CLIENTS_FAILED \<equiv> EC 113003"
abbreviation ERR_DELETE_CLIENT_FAILED :: errno where "ERR_DELETE_CLIENT_FAILED \<equiv> EC 113004"
abbreviation ERR_SET_CLIENT_AUX_INFO_FAILED :: errno where "ERR_SET_CLIENT_AUX_INFO_FAILED \<equiv> EC 113005"
abbreviation ERR_INSERT_PLAYGROUND_FAILED :: errno where "ERR_INSERT_PLAYGROUND_FAILED \<equiv> EC 114000"
abbreviation ERR_GET_ALL_PLAYGROUND_FAILED :: errno where "ERR_GET_ALL_PLAYGROUND_FAILED \<equiv> EC 114001"
abbreviation ERR_GET_PLAYGROUND_BY_NAME_FAILED :: errno where "ERR_GET_PLAYGROUND_BY_NAME_FAILED \<equiv> EC 114002"
abbreviation ERR_DELETE_PLAYGROUND_FAILED :: errno where "ERR_DELETE_PLAYGROUND_FAILED \<equiv> EC 114003"
abbreviation ERR_GET_AUDIT_LOGS_FAILE :: errno where "ERR_GET_AUDIT_LOGS_FAILE \<equiv> EC 115000"
abbreviation ERR_INSERT_CLIENT_CONFIG_FAILED :: errno where "ERR_INSERT_CLIENT_CONFIG_FAILED \<equiv> EC 116000"
abbreviation ERR_SELECT_CLIENT_CONFIG_FAILED :: errno where "ERR_SELECT_CLIENT_CONFIG_FAILED \<equiv> EC 116001"
abbreviation ERR_DELETE_CLIENT_CONFIG_FAILED :: errno where "ERR_DELETE_CLIENT_CONFIG_FAILED \<equiv> EC 116002"
abbreviation ERR_GET_MONITOR_FAILED :: errno where "ERR_GET_MONITOR_FAILED \<equiv> EC 117000"
abbreviation ERR_REPLACE_MONITOR_FAILED :: errno where "ERR_REPLACE_MONITOR_FAILED \<equiv> EC 117001"
abbreviation ERR_UPDATE_MONITOR_FAILED :: errno where "ERR_UPDATE_MONITOR_FAILED \<equiv> EC 117002"
abbreviation ERR_ID_NOT_FOUND :: errno where "ERR_ID_NOT_FOUND \<equiv> EC 210000"
abbreviation ERR_UNSUPPORT_DINGOFS_ROLE :: errno where "ERR_UNSUPPORT_DINGOFS_ROLE \<equiv> EC 210002"
abbreviation ERR_UNSUPPORT_SKIPPED_SERVICE_ROLE :: errno where "ERR_UNSUPPORT_SKIPPED_SERVICE_ROLE \<equiv> EC 210003"
abbreviation ERR_UNSUPPORT_SKIPPED_CHECK_ITEM :: errno where "ERR_UNSUPPORT_SKIPPED_CHECK_ITEM \<equiv> EC 210004"
abbreviation ERR_UNSUPPORT_CLEAN_ITEM :: errno where "ERR_UNSUPPORT_CLEAN_ITEM \<equiv> EC 210005"
abbreviation ERR_NO_SERVICES_MATCHED :: errno where "ERR_NO_SERVICES_MATCHED \<equiv> EC 210006"
abbreviation ERR_UNSUPPORT_DINGODB_ROLE :: errno where "ERR_UNSUPPORT_DINGODB_ROLE \<equiv> EC 210007"
abbreviation ERR_UNSUPPORT_DINGOSTORE_ROLE :: errno where "ERR_UNSUPPORT_DINGOSTORE_ROLE \<equiv> EC 210008"
abbreviation ERR_INVALID_DISK_TYPE :: errno where "ERR_INVALID_DISK_TYPE \<equiv> EC 210007"
abbreviation ERR_UNSUPPORT_CLIENT_KIND :: errno where "ERR_UNSUPPORT_CLIENT_KIND \<equiv> EC 220000"
abbreviation ERR_INVALID_VOLUME_FORMAT :: errno where "ERR_INVALID_VOLUME_FORMAT \<equiv> EC 221000"
abbreviation ERR_ROOT_VOLUME_USER_NOT_ALLOWED :: errno where "ERR_ROOT_VOLUME_USER_NOT_ALLOWED \<equiv> EC 221001"
abbreviation ERR_VOLUME_NAME_MUST_START_WITH_SLASH_PREFIX :: errno where "ERR_VOLUME_NAME_MUST_START_WITH_SLASH_PREFIX \<equiv> EC 221002"
abbreviation ERR_VOLUME_SIZE_MUST_END_WITH_GiB_SUFFIX :: errno where "ERR_VOLUME_SIZE_MUST_END_WITH_GiB_SUFFIX \<equiv> EC 221003"
abbreviation ERR_VOLUME_SIZE_REQUIRES_POSITIVE_INTEGER :: errno where "ERR_VOLUME_SIZE_REQUIRES_POSITIVE_INTEGER \<equiv> EC 221004"
abbreviation ERR_VOLUME_SIZE_MUST_BE_MULTIPLE_OF_10_GiB :: errno where "ERR_VOLUME_SIZE_MUST_BE_MULTIPLE_OF_10_GiB \<equiv> EC 221005"
abbreviation ERR_CLIENT_CONFIGURE_FILE_NOT_EXIST :: errno where "ERR_CLIENT_CONFIGURE_FILE_NOT_EXIST \<equiv> EC 221006"
abbreviation ERR_NO_CLIENT_MATCHED :: errno where "ERR_NO_CLIENT_MATCHED \<equiv> EC 221007"
abbreviation ERR_VOLUME_NAME_CAN_NOT_CONTAIN_UNDERSCORE :: errno where "ERR_VOLUME_NAME_CAN_NOT_CONTAIN_UNDERSCORE \<equiv> EC 221008"
abbreviation ERR_VOLUME_BLOCKSIZE_MUST_END_WITH_BYTE_SUFFIX :: errno where "ERR_VOLUME_BLOCKSIZE_MUST_END_WITH_BYTE_SUFFIX \<equiv> EC 201009"
abbreviation ERR_VOLUME_BLOCKSIZE_REQUIRES_POSITIVE_INTEGER :: errno where "ERR_VOLUME_BLOCKSIZE_REQUIRES_POSITIVE_INTEGER \<equiv> EC 221010"
abbreviation ERR_VOLUME_BLOCKSIZE_BE_MULTIPLE_OF_512 :: errno where "ERR_VOLUME_BLOCKSIZE_BE_MULTIPLE_OF_512 \<equiv> EC 221011"
abbreviation ERR_FS_MOUNTPOINT_REQUIRE_ABSOLUTE_PATH :: errno where "ERR_FS_MOUNTPOINT_REQUIRE_ABSOLUTE_PATH \<equiv> EC 222000"
abbreviation ERR_UNSUPPORT_CONFIGURE_VALUE_TYPE :: errno where "ERR_UNSUPPORT_CONFIGURE_VALUE_TYPE \<equiv> EC 301000"
abbreviation ERR_CONFIGURE_VALUE_REQUIRES_BOOL :: errno where "ERR_CONFIGURE_VALUE_REQUIRES_BOOL \<equiv> EC 301002"
abbreviation ERR_CONFIGURE_VALUE_REQUIRES_INTEGER :: errno where "ERR_CONFIGURE_VALUE_REQUIRES_INTEGER \<equiv> EC 301003"
abbreviation ERR_CONFIGURE_VALUE_REQUIRES_NON_EMPTY_STRING :: errno where "ERR_CONFIGURE_VALUE_REQUIRES_NON_EMPTY_STRING \<equiv> EC 301004"
abbreviation ERR_CONFIGURE_VALUE_REQUIRES_POSITIVE_INTEGER :: errno where "ERR_CONFIGURE_VALUE_REQUIRES_POSITIVE_INTEGER \<equiv> EC 301005"
abbreviation ERR_CONFIGURE_VALUE_REQUIRES_STRING_SLICE :: errno where "ERR_CONFIGURE_VALUE_REQUIRES_STRING_SLICE \<equiv> EC 301006"
abbreviation ERR_CONFIGURE_VALUE_REQUIRES_MAP :: errno where "ERR_CONFIGURE_VALUE_REQUIRES_MAP \<equiv> EC 301007"
abbreviation ERR_UNSUPPORT_VARIABLE_VALUE_TYPE :: errno where "ERR_UNSUPPORT_VARIABLE_VALUE_TYPE \<equiv> EC 301100"
abbreviation ERR_INVALID_VARIABLE_VALUE :: errno where "ERR_INVALID_VARIABLE_VALUE \<equiv> EC 301101"
abbreviation ERR_PARSE_DINGOADM_CONFIGURE_FAILED :: errno where "ERR_PARSE_DINGOADM_CONFIGURE_FAILED \<equiv> EC 310000"
abbreviation ERR_UNSUPPORT_DINGOADM_LOG_LEVEL :: errno where "ERR_UNSUPPORT_DINGOADM_LOG_LEVEL \<equiv> EC 311000"
abbreviation ERR_UNSUPPORT_DINGOADM_CONFIGURE_ITEM :: errno where "ERR_UNSUPPORT_DINGOADM_CONFIGURE_ITEM \<equiv> EC 311001"
abbreviation ERR_UNSUPPORT_DINGOADM_DATABASE_URL :: errno where "ERR_UNSUPPORT_DINGOADM_DATABASE_URL \<equiv> EC 311002"
abbreviation ERR_HOSTS_FILE_NOT_FOUND :: errno where "ERR_HOSTS_FILE_NOT_FOUND \<equiv> EC 320000"
abbreviation ERR_READ_HOSTS_FILE_FAILED :: errno where "ERR_READ_HOSTS_FILE_FAILED \<equiv> EC 320001"
abbreviation ERR_EMPTY_HOSTS :: errno where "ERR_EMPTY_HOSTS \<equiv> EC 320002"
abbreviation ERR_PARSE_HOSTS_FAILED :: errno where "ERR_PARSE_HOSTS_FAILED \<equiv> EC 320003"
abbreviation ERR_UNSUPPORT_HOSTS_CONFIGURE_ITEM :: errno where "ERR_UNSUPPORT_HOSTS_CONFIGURE_ITEM \<equiv> EC 321000"
abbreviation ERR_HOST_FIELD_MISSING :: errno where "ERR_HOST_FIELD_MISSING \<equiv> EC 321001"
abbreviation ERR_HOSTNAME_FIELD_MISSING :: errno where "ERR_HOSTNAME_FIELD_MISSING \<equiv> EC 321002"
abbreviation ERR_HOSTS_SSH_PORT_EXCEED_MAX_PORT_NUMBER :: errno where "ERR_HOSTS_SSH_PORT_EXCEED_MAX_PORT_NUMBER \<equiv> EC 321003"
abbreviation ERR_PRIVATE_KEY_FILE_REQUIRE_ABSOLUTE_PATH :: errno where "ERR_PRIVATE_KEY_FILE_REQUIRE_ABSOLUTE_PATH \<equiv> EC 321004"
abbreviation ERR_PRIVATE_KEY_FILE_NOT_EXIST :: errno where "ERR_PRIVATE_KEY_FILE_NOT_EXIST \<equiv> EC 321005"
abbreviation ERR_PRIVATE_KEY_FILE_REQUIRE_600_PERMISSIONS :: errno where "ERR_PRIVATE_KEY_FILE_REQUIRE_600_PERMISSIONS \<equiv> EC 321006"
abbreviation ERR_DUPLICATE_HOST :: errno where "ERR_DUPLICATE_HOST \<equiv> EC 321007"
abbreviation ERR_HOSTNAME_REQUIRES_VALID_IP_ADDRESS :: errno where "ERR_HOSTNAME_REQUIRES_VALID_IP_ADDRESS \<equiv> EC 321008"
abbreviation ERR_PARSE_MONITOR_CONFIGURE_FAILED :: errno where "ERR_PARSE_MONITOR_CONFIGURE_FAILED \<equiv> EC 322000"
abbreviation ERR_READ_MONITOR_FILE_FAILED :: errno where "ERR_READ_MONITOR_FILE_FAILED \<equiv> EC 322001"
abbreviation ERR_PARSE_PROMETHEUS_TARGET_FAILED :: errno where "ERR_PARSE_PROMETHEUS_TARGET_FAILED \<equiv> EC 322002"
abbreviation ERR_TOPOLOGY_FILE_NOT_FOUND :: errno where "ERR_TOPOLOGY_FILE_NOT_FOUND \<equiv> EC 330000"
abbreviation ERR_READ_TOPOLOGY_FILE_FAILED :: errno where "ERR_READ_TOPOLOGY_FILE_FAILED \<equiv> EC 330001"
abbreviation ERR_EMPTY_CLUSTER_TOPOLOGY :: errno where "ERR_EMPTY_CLUSTER_TOPOLOGY \<equiv> EC 330002"
abbreviation ERR_PARSE_TOPOLOGY_FAILED :: errno where "ERR_PARSE_TOPOLOGY_FAILED \<equiv> EC 330003"
abbreviation ERR_REGISTER_VARIABLE_FAILED :: errno where "ERR_REGISTER_VARIABLE_FAILED \<equiv> EC 330004"
abbreviation ERR_RESOLVE_VARIABLE_FAILED :: errno where "ERR_RESOLVE_VARIABLE_FAILED \<equiv> EC 330005"
abbreviation ERR_SET_VARIABLE_VALUE_FAILED :: errno where "ERR_SET_VARIABLE_VALUE_FAILED \<equiv> EC 330006"
abbreviation ERR_RENDERING_VARIABLE_FAILED :: errno where "ERR_RENDERING_VARIABLE_FAILED \<equiv> EC 330007"
abbreviation ERR_CREATE_HASH_FOR_TOPOLOGY_FAILED :: errno where "ERR_CREATE_HASH_FOR_TOPOLOGY_FAILED \<equiv> EC 330008"
abbreviation ERR_UNSUPPORT_CLUSTER_KIND :: errno where "ERR_UNSUPPORT_CLUSTER_KIND \<equiv> EC 331000"
abbreviation ERR_NO_SERVICES_IN_TOPOLOGY :: errno where "ERR_NO_SERVICES_IN_TOPOLOGY \<equiv> EC 331001"
abbreviation ERR_INSTANCES_REQUIRES_POSITIVE_INTEGER :: errno where "ERR_INSTANCES_REQUIRES_POSITIVE_INTEGER \<equiv> EC 331002"
abbreviation ERR_INVALID_VARIABLE_SECTION :: errno where "ERR_INVALID_VARIABLE_SECTION \<equiv> EC 331003"
abbreviation ERR_DUPLICATE_SERVICE_ID :: errno where "ERR_DUPLICATE_SERVICE_ID \<equiv> EC 331004"
abbreviation ERR_DELETE_SERVICE_WHILE_COMMIT_TOPOLOGY_IS_DENIED :: errno where "ERR_DELETE_SERVICE_WHILE_COMMIT_TOPOLOGY_IS_DENIED \<equiv> EC 332000"
abbreviation ERR_ADD_SERVICE_WHILE_COMMIT_TOPOLOGY_IS_DENIED :: errno where "ERR_ADD_SERVICE_WHILE_COMMIT_TOPOLOGY_IS_DENIED \<equiv> EC 332001"
abbreviation ERR_DELETE_SERVICE_WHILE_SCALE_OUT_CLUSTER_IS_DENIED :: errno where "ERR_DELETE_SERVICE_WHILE_SCALE_OUT_CLUSTER_IS_DENIED \<equiv> EC 332002"
abbreviation ERR_NO_SERVICES_FOR_SCALE_OUT_CLUSTER :: errno where "ERR_NO_SERVICES_FOR_SCALE_OUT_CLUSTER \<equiv> EC 332003"
abbreviation ERR_REQUIRE_SAME_ROLE_SERVICES_FOR_SCALE_OUT_CLUSTER :: errno where "ERR_REQUIRE_SAME_ROLE_SERVICES_FOR_SCALE_OUT_CLUSTER \<equiv> EC 332004"
abbreviation ERR_CHUNKSERVER_REQUIRES_3_HOSTS_WHILE_SCALE_OUT :: errno where "ERR_CHUNKSERVER_REQUIRES_3_HOSTS_WHILE_SCALE_OUT \<equiv> EC 332005"
abbreviation ERR_METASERVER_REQUIRES_3_HOSTS_WHILE_SCALE_OUT :: errno where "ERR_METASERVER_REQUIRES_3_HOSTS_WHILE_SCALE_OUT \<equiv> EC 332006"
abbreviation ERR_ADD_SERVICE_WHILE_MIGRATING_IS_DENIED :: errno where "ERR_ADD_SERVICE_WHILE_MIGRATING_IS_DENIED \<equiv> EC 332007"
abbreviation ERR_DELETE_SERVICE_WHILE_MIGRATING_IS_DENIED :: errno where "ERR_DELETE_SERVICE_WHILE_MIGRATING_IS_DENIED \<equiv> EC 332008"
abbreviation ERR_NO_SERVICES_FOR_MIGRATING :: errno where "ERR_NO_SERVICES_FOR_MIGRATING \<equiv> EC 332009"
abbreviation ERR_REQUIRE_SAME_ROLE_SERVICES_FOR_MIGRATING :: errno where "ERR_REQUIRE_SAME_ROLE_SERVICES_FOR_MIGRATING \<equiv> EC 332010"
abbreviation ERR_REQUIRE_WHOLE_HOST_SERVICES_FOR_MIGRATING :: errno where "ERR_REQUIRE_WHOLE_HOST_SERVICES_FOR_MIGRATING \<equiv> EC 332011"
abbreviation ERR_FORMAT_CONFIGURE_FILE_NOT_EXIST :: errno where "ERR_FORMAT_CONFIGURE_FILE_NOT_EXIST \<equiv> EC 340000"
abbreviation ERR_PARSE_FORMAT_CONFIGURE_FAILED :: errno where "ERR_PARSE_FORMAT_CONFIGURE_FAILED \<equiv> EC 340001"
abbreviation ERR_INVALID_DISK_FORMAT :: errno where "ERR_INVALID_DISK_FORMAT \<equiv> EC 341000"
abbreviation ERR_INVALID_DEVICE :: errno where "ERR_INVALID_DEVICE \<equiv> EC 341001"
abbreviation ERR_MOUNT_POINT_REQUIRE_ABSOLUTE_PATH :: errno where "ERR_MOUNT_POINT_REQUIRE_ABSOLUTE_PATH \<equiv> EC 341002"
abbreviation ERR_FORMAT_PERCENT_REQUIRES_INTERGET :: errno where "ERR_FORMAT_PERCENT_REQUIRES_INTERGET \<equiv> EC 341003"
abbreviation ERR_FORMAT_PERCENT_MUST_BE_BETWEEN_1_AND_100 :: errno where "ERR_FORMAT_PERCENT_MUST_BE_BETWEEN_1_AND_100 \<equiv> EC 341004"
abbreviation ERR_INVALID_BLOCK_SIZE :: errno where "ERR_INVALID_BLOCK_SIZE \<equiv> EC 341005"
abbreviation ERR_PARSE_CLIENT_CONFIGURE_FAILED :: errno where "ERR_PARSE_CLIENT_CONFIGURE_FAILED \<equiv> EC 350000"
abbreviation ERR_RESOLVE_CLIENT_VARIABLE_FAILED :: errno where "ERR_RESOLVE_CLIENT_VARIABLE_FAILED \<equiv> EC 350001"
abbreviation ERR_UNSUPPORT_CLIENT_CONFIGURE_KIND :: errno where "ERR_UNSUPPORT_CLIENT_CONFIGURE_KIND \<equiv> EC 351000"
abbreviation ERR_UNSUPPORT_CLIENT_CONFIGURE_VALUE_TYPE :: errno where "ERR_UNSUPPORT_CLIENT_CONFIGURE_VALUE_TYPE \<equiv> EC 351001"
abbreviation ERR_REQUIRE_DINGOFS_KIND_CLIENT_CONFIGURE_FILE :: errno where "ERR_REQUIRE_DINGOFS_KIND_CLIENT_CONFIGURE_FILE \<equiv> EC 351003"
abbreviation ERR_INVALID_CLUSTER_LISTEN_MDS_ADDRESS :: errno where "ERR_INVALID_CLUSTER_LISTEN_MDS_ADDRESS \<equiv> EC 351004"
abbreviation ERR_PARSE_GATEWAY_CONFIGURE_FAILED :: errno where "ERR_PARSE_GATEWAY_CONFIGURE_FAILED \<equiv> EC 360000"
abbreviation ERR_GATEWAY_MDSADDR_EMPTY :: errno where "ERR_GATEWAY_MDSADDR_EMPTY \<equiv> EC 360001"
abbreviation ERR_HOST_NOT_FOUND :: errno where "ERR_HOST_NOT_FOUND \<equiv> EC 400000"
abbreviation ERR_NO_CLUSTER_SPECIFIED :: errno where "ERR_NO_CLUSTER_SPECIFIED \<equiv> EC 410001"
abbreviation ERR_NO_DISK_FOR_FORMATTING :: errno where "ERR_NO_DISK_FOR_FORMATTING \<equiv> EC 410002"
abbreviation ERR_GET_DEVICE_UUID_FAILED :: errno where "ERR_GET_DEVICE_UUID_FAILED \<equiv> EC 410003"
abbreviation ERR_NOT_A_BLOCK_DEVICE :: errno where "ERR_NOT_A_BLOCK_DEVICE \<equiv> EC 410004"
abbreviation ERR_INVALID_UUID :: errno where "ERR_INVALID_UUID \<equiv> EC 410005"
abbreviation ERR_NO_SERVICES_FOR_PRECHECK :: errno where "ERR_NO_SERVICES_FOR_PRECHECK \<equiv> EC 410006"
abbreviation ERR_NO_SERVICES_FOR_DEPLOY :: errno where "ERR_NO_SERVICES_FOR_DEPLOY \<equiv> EC 410007"
abbreviation ERR_SERVICE_CONTAINER_ID_NOT_FOUND :: errno where "ERR_SERVICE_CONTAINER_ID_NOT_FOUND \<equiv> EC 410008"
abbreviation ERR_CLUSTER_ALREADY_EXIST :: errno where "ERR_CLUSTER_ALREADY_EXIST \<equiv> EC 410009"
abbreviation ERR_CLUSTER_NOT_FOUND :: errno where "ERR_CLUSTER_NOT_FOUND \<equiv> EC 410010"
abbreviation ERR_ACTIVE_SERVICE_IN_CLUSTER :: errno where "ERR_ACTIVE_SERVICE_IN_CLUSTER \<equiv> EC 410011"
abbreviation ERR_UNSUPPORT_CONFIG_TYPE :: errno where "ERR_UNSUPPORT_CONFIG_TYPE \<equiv> EC 410012"
abbreviation ERR_UNKNOWN_TASK_TYPE :: errno where "ERR_UNKNOWN_TASK_TYPE \<equiv> EC 410013"
abbreviation ERR_CONTAINER_ALREADT_REMOVED :: errno where "ERR_CONTAINER_ALREADT_REMOVED \<equiv> EC 410014"
abbreviation ERR_CONTAINER_IS_ABNORMAL :: errno where "ERR_CONTAINER_IS_ABNORMAL \<equiv> EC 410015"
abbreviation ERR_DECODE_CLUSTER_POOL_JSON_FAILED :: errno where "ERR_DECODE_CLUSTER_POOL_JSON_FAILED \<equiv> EC 410016"
abbreviation ERR_WAIT_MDS_ELECTION_SUCCESS_TIMEOUT :: errno where "ERR_WAIT_MDS_ELECTION_SUCCESS_TIMEOUT \<equiv> EC 410017"
abbreviation ERR_WAIT_ALL_CHUNKSERVERS_ONLINE_TIMEOUT :: errno where "ERR_WAIT_ALL_CHUNKSERVERS_ONLINE_TIMEOUT \<equiv> EC 410018"
abbreviation ERR_CREATE_LOGICAL_POOL_FAILED :: errno where "ERR_CREATE_LOGICAL_POOL_FAILED \<equiv> EC 410019"
abbreviation ERR_INVALID_DEVICE_USAGE :: errno where "ERR_INVALID_DEVICE_USAGE \<equiv> EC 410020"
abbreviation ERR_ENCRYPT_FILE_FAILED :: errno where "ERR_ENCRYPT_FILE_FAILED \<equiv> EC 410021"
abbreviation ERR_CLIENT_ID_NOT_FOUND :: errno where "ERR_CLIENT_ID_NOT_FOUND \<equiv> EC 410022"
abbreviation ERR_ENABLE_ETCD_AUTH_FAILED :: errno where "ERR_ENABLE_ETCD_AUTH_FAILED \<equiv> EC 410023"
abbreviation ERR_FS_PATH_ALREADY_MOUNTED :: errno where "ERR_FS_PATH_ALREADY_MOUNTED \<equiv> EC 430000"
abbreviation ERR_CREATE_FILESYSTEM_FAILED :: errno where "ERR_CREATE_FILESYSTEM_FAILED \<equiv> EC 430001"
abbreviation ERR_MOUNT_FILESYSTEM_FAILED :: errno where "ERR_MOUNT_FILESYSTEM_FAILED \<equiv> EC 430002"
abbreviation ERR_UMOUNT_FILESYSTEM_FAILED :: errno where "ERR_UMOUNT_FILESYSTEM_FAILED \<equiv> EC 430003"
abbreviation ERR_ENCODE_INFO_TO_JSON_FAILED :: errno where "ERR_ENCODE_INFO_TO_JSON_FAILED \<equiv> EC 420004"
abbreviation ERR_GET_OS_REELASE_FAILED :: errno where "ERR_GET_OS_REELASE_FAILED \<equiv> EC 440000"
abbreviation ERR_UNSUPPORT_LINUX_OS_REELASE :: errno where "ERR_UNSUPPORT_LINUX_OS_REELASE \<equiv> EC 440001"
abbreviation ERR_INSTALL_PFSD_PACKAGE_FAILED :: errno where "ERR_INSTALL_PFSD_PACKAGE_FAILED \<equiv> EC 440002"
abbreviation ERR_PLAYGROUND_NOT_FOUND :: errno where "ERR_PLAYGROUND_NOT_FOUND \<equiv> EC 450000"
abbreviation ERR_INVALID_S3_ACCESS_KEY :: errno where "ERR_INVALID_S3_ACCESS_KEY \<equiv> EC 500000"
abbreviation ERR_INVALID_S3_SECRET_KEY :: errno where "ERR_INVALID_S3_SECRET_KEY \<equiv> EC 500001"
abbreviation ERR_INVALID_S3_ADDRESS :: errno where "ERR_INVALID_S3_ADDRESS \<equiv> EC 500002"
abbreviation ERR_INVALID_S3_BUCKET_NAME :: errno where "ERR_INVALID_S3_BUCKET_NAME \<equiv> EC 500003"
abbreviation ERR_DIRECTORY_REQUIRE_ABSOLUTE_PATH :: errno where "ERR_DIRECTORY_REQUIRE_ABSOLUTE_PATH \<equiv> EC 501000"
abbreviation ERR_DATA_DIRECTORY_ALREADY_IN_USE :: errno where "ERR_DATA_DIRECTORY_ALREADY_IN_USE \<equiv> EC 501001"
abbreviation ERR_DUPLICATE_LISTEN_ADDRESS :: errno where "ERR_DUPLICATE_LISTEN_ADDRESS \<equiv> EC 502000"
abbreviation ERR_ETCD_REQUIRES_3_SERVICES :: errno where "ERR_ETCD_REQUIRES_3_SERVICES \<equiv> EC 503000"
abbreviation ERR_MDS_REQUIRES_3_SERVICES :: errno where "ERR_MDS_REQUIRES_3_SERVICES \<equiv> EC 503001"
abbreviation ERR_CHUNKSERVER_REQUIRES_3_SERVICES :: errno where "ERR_CHUNKSERVER_REQUIRES_3_SERVICES \<equiv> EC 503002"
abbreviation ERR_SNAPSHOTCLONE_REQUIRES_3_SERVICES :: errno where "ERR_SNAPSHOTCLONE_REQUIRES_3_SERVICES \<equiv> EC 503003"
abbreviation ERR_METASERVER_REQUIRES_3_SERVICES :: errno where "ERR_METASERVER_REQUIRES_3_SERVICES \<equiv> EC 503004"
abbreviation ERR_ETCD_REQUIRES_3_HOSTS :: errno where "ERR_ETCD_REQUIRES_3_HOSTS \<equiv> EC 503005"
abbreviation ERR_MDS_REQUIRES_3_HOSTS :: errno where "ERR_MDS_REQUIRES_3_HOSTS \<equiv> EC 503006"
abbreviation ERR_CHUNKSERVER_REQUIRES_3_HOSTS :: errno where "ERR_CHUNKSERVER_REQUIRES_3_HOSTS \<equiv> EC 503007"
abbreviation ERR_SNAPSHOTCLONE_REQUIRES_3_HOSTS :: errno where "ERR_SNAPSHOTCLONE_REQUIRES_3_HOSTS \<equiv> EC 503008"
abbreviation ERR_METASERVER_REQUIRES_3_HOSTS :: errno where "ERR_METASERVER_REQUIRES_3_HOSTS \<equiv> EC 503009"
abbreviation ERR_COORDINATOR_REQUIRES_3_SERVICES :: errno where "ERR_COORDINATOR_REQUIRES_3_SERVICES \<equiv> EC 503010"
abbreviation ERR_STORE_REQUIRES_3_SERVICES :: errno where "ERR_STORE_REQUIRES_3_SERVICES \<equiv> EC 503011"
abbreviation ERR_SSH_CONNECT_FAILED :: errno where "ERR_SSH_CONNECT_FAILED \<equiv> EC 510000"
abbreviation ERR_USER_NOT_FOUND :: errno where "ERR_USER_NOT_FOUND \<equiv> EC 520000"
abbreviation ERR_HOSTNAME_NOT_RESOLVED :: errno where "ERR_HOSTNAME_NOT_RESOLVED \<equiv> EC 520001"
abbreviation ERR_CREATE_DIRECOTRY_PERMISSION_DENIED :: errno where "ERR_CREATE_DIRECOTRY_PERMISSION_DENIED \<equiv> EC 520002"
abbreviation ERR_EXECUTE_CONTAINER_ENGINE_COMMAND_PERMISSION_DENIED :: errno where "ERR_EXECUTE_CONTAINER_ENGINE_COMMAND_PERMISSION_DENIED \<equiv> EC 520003"
abbreviation ERR_UNRECOGNIZED_KERNEL_VERSION :: errno where "ERR_UNRECOGNIZED_KERNEL_VERSION \<equiv> EC 530000"
abbreviation ERR_RENAMEAT_NOT_SUPPORTED_IN_CURRENT_KERNEL :: errno where "ERR_RENAMEAT_NOT_SUPPORTED_IN_CURRENT_KERNEL \<equiv> EC 530001"
abbreviation ERR_KERNEL_NBD_MODULE_NOT_LOADED :: errno where "ERR_KERNEL_NBD_MODULE_NOT_LOADED \<equiv> EC 530002"
abbreviation ERR_KERNEL_FUSE_MODULE_NOT_LOADED :: errno where "ERR_KERNEL_FUSE_MODULE_NOT_LOADED \<equiv> EC 530003"
abbreviation ERR_PORT_ALREADY_IN_USE :: errno where "ERR_PORT_ALREADY_IN_USE \<equiv> EC 540000"
abbreviation ERR_DESTINATION_UNREACHABLE :: errno where "ERR_DESTINATION_UNREACHABLE \<equiv> EC 540001"
abbreviation ERR_CONNET_MOCK_SERVICE_ADDRESS_FAILED :: errno where "ERR_CONNET_MOCK_SERVICE_ADDRESS_FAILED \<equiv> EC 540002"
abbreviation ERR_INVALID_DATE_FORMAT :: errno where "ERR_INVALID_DATE_FORMAT \<equiv> EC 550000"
abbreviation ERR_HOST_TIME_DIFFERENCE_OVER_30_SECONDS :: errno where "ERR_HOST_TIME_DIFFERENCE_OVER_30_SECONDS \<equiv> EC 550001"
abbreviation ERR_CHUNKFILE_POOL_NOT_EXIST :: errno where "ERR_CHUNKFILE_POOL_NOT_EXIST \<equiv> EC 560000"
abbreviation ERR_INVALID_DINGOFS_CLIENT_S3_ACCESS_KEY :: errno where "ERR_INVALID_DINGOFS_CLIENT_S3_ACCESS_KEY \<equiv> EC 570000"
abbreviation ERR_INVALID_DINGOFS_CLIENT_S3_SECRET_KEY :: errno where "ERR_INVALID_DINGOFS_CLIENT_S3_SECRET_KEY \<equiv> EC 570001"
abbreviation ERR_INVALID_DINGOFS_CLIENT_S3_ADDRESS :: errno where "ERR_INVALID_DINGOFS_CLIENT_S3_ADDRESS \<equiv> EC 570002"
abbreviation ERR_INVALID_DINGOFS_CLIENT_S3_BUCKET_NAME :: errno where "ERR_INVALID_DINGOFS_CLIENT_S3_BUCKET_NAME \<equiv> EC 570003"
abbreviation ERR_CONTAINER_ENGINE_NOT_INSTALLED :: errno where "ERR_CONTAINER_ENGINE_NOT_INSTALLED \<equiv> EC 590000"
abbreviation ERR_DOCKER_DAEMON_IS_NOT_RUNNING :: errno where "ERR_DOCKER_DAEMON_IS_NOT_RUNNING \<equiv> EC 590001"
abbreviation ERR_NO_SPACE_LEFT_ON_DEVICE :: errno where "ERR_NO_SPACE_LEFT_ON_DEVICE \<equiv> EC 590002"
abbreviation ERR_EXECUTE_COMMAND_TIMED_OUT :: errno where "ERR_EXECUTE_COMMAND_TIMED_OUT \<equiv> EC 600000"
abbreviation ERR_READ_FILE_FAILED :: errno where "ERR_READ_FILE_FAILED \<equiv> EC 600001"
abbreviation ERR_WRITE_FILE_FAILED :: errno where "ERR_WRITE_FILE_FAILED \<equiv> EC 600002"
abbreviation ERR_BUILD_REGEX_FAILED :: errno where "ERR_BUILD_REGEX_FAILED \<equiv> EC 600003"
abbreviation ERR_BUILD_TEMPLATE_FAILED :: errno where "ERR_BUILD_TEMPLATE_FAILED \<equiv> EC 600004"
abbreviation ERR_DOWNLOAD_FILE_FROM_REMOTE_BY_SSH_FAILED :: errno where "ERR_DOWNLOAD_FILE_FROM_REMOTE_BY_SSH_FAILED \<equiv> EC 610000"
abbreviation ERR_UPLOAD_FILE_TO_REMOTE_BY_SSH_FAILED :: errno where "ERR_UPLOAD_FILE_TO_REMOTE_BY_SSH_FAILED \<equiv> EC 610001"
abbreviation ERR_CONNECT_REMOTE_HOST_WITH_INTERACT_BY_SSH_FAILED :: errno where "ERR_CONNECT_REMOTE_HOST_WITH_INTERACT_BY_SSH_FAILED \<equiv> EC 610002"
abbreviation ERR_EDIT_FILE_FAILED :: errno where "ERR_EDIT_FILE_FAILED \<equiv> EC 620000"
abbreviation ERR_LIST_DIRECTORY_CONTENTS_FAILED :: errno where "ERR_LIST_DIRECTORY_CONTENTS_FAILED \<equiv> EC 620001"
abbreviation ERR_CREATE_DIRECTORY_FAILED :: errno where "ERR_CREATE_DIRECTORY_FAILED \<equiv> EC 620002"
abbreviation ERR_REMOVE_FILES_OR_DIRECTORIES_FAILED :: errno where "ERR_REMOVE_FILES_OR_DIRECTORIES_FAILED \<equiv> EC 620003"
abbreviation ERR_RENAME_FILE_OR_DIRECTORY_FAILED :: errno where "ERR_RENAME_FILE_OR_DIRECTORY_FAILED \<equiv> EC 620004"
abbreviation ERR_COPY_FILES_AND_DIRECTORIES_FAILED :: errno where "ERR_COPY_FILES_AND_DIRECTORIES_FAILED \<equiv> EC 620005"
abbreviation ERR_CHANGE_FILE_MODE_FAILED :: errno where "ERR_CHANGE_FILE_MODE_FAILED \<equiv> EC 620006"
abbreviation ERR_GET_FILE_STATUS_FAILED :: errno where "ERR_GET_FILE_STATUS_FAILED \<equiv> EC 620007"
abbreviation ERR_CONCATENATE_FILE_FAILED :: errno where "ERR_CONCATENATE_FILE_FAILED \<equiv> EC 620008"
abbreviation ERR_BUILD_A_LINUX_FILE_SYSTEM_FAILED :: errno where "ERR_BUILD_A_LINUX_FILE_SYSTEM_FAILED \<equiv> EC 620009"
abbreviation ERR_MOUNT_A_FILESYSTEM_FAILED :: errno where "ERR_MOUNT_A_FILESYSTEM_FAILED \<equiv> EC 620010"
abbreviation ERR_UNMOUNT_FILE_SYSTEMS_FAILED :: errno where "ERR_UNMOUNT_FILE_SYSTEMS_FAILED \<equiv> EC 620011"
abbreviation ERR_FIND_WHICH_PROCESS_USING_FILE_FAILED :: errno where "ERR_FIND_WHICH_PROCESS_USING_FILE_FAILED \<equiv> EC 620012"
abbreviation ERR_GET_DISK_SPACE_USAGE_FAILED :: errno where "ERR_GET_DISK_SPACE_USAGE_FAILED \<equiv> EC 620013"
abbreviation ERR_LIST_BLOCK_DEVICES_FAILED :: errno where "ERR_LIST_BLOCK_DEVICES_FAILED \<equiv> EC 620014"
abbreviation ERR_GET_CONNECTION_INFORMATION_FAILED :: errno where "ERR_GET_CONNECTION_INFORMATION_FAILED \<equiv> EC 620015"
abbreviation ERR_SEND_ICMP_ECHO_REQUEST_TO_HOST_FAILED :: errno where "ERR_SEND_ICMP_ECHO_REQUEST_TO_HOST_FAILED \<equiv> EC 620016"
abbreviation ERR_TRANSFERRING_DATA_FROM_OR_TO_SERVER_FAILED :: errno where "ERR_TRANSFERRING_DATA_FROM_OR_TO_SERVER_FAILED \<equiv> EC 620017"
abbreviation ERR_GET_SYSTEM_TIME_FAILED :: errno where "ERR_GET_SYSTEM_TIME_FAILED \<equiv> EC 620018"
abbreviation ERR_GET_SYSTEM_INFORMATION_FAILED :: errno where "ERR_GET_SYSTEM_INFORMATION_FAILED \<equiv> EC 620019"
abbreviation ERR_GET_KERNEL_MODULE_INFO_FAILED :: errno where "ERR_GET_KERNEL_MODULE_INFO_FAILED \<equiv> EC 620020"
abbreviation ERR_ADD_MODUDLE_FROM_LINUX_KERNEL_FAILED :: errno where "ERR_ADD_MODUDLE_FROM_LINUX_KERNEL_FAILED \<equiv> EC 620021"
abbreviation ERR_GET_HOSTNAME_FAILED :: errno where "ERR_GET_HOSTNAME_FAILED \<equiv> EC 620022"
abbreviation ERR_STORES_AND_EXTRACTS_FILES_FAILED :: errno where "ERR_STORES_AND_EXTRACTS_FILES_FAILED \<equiv> EC 620023"
abbreviation ERR_INSTALL_OR_REMOVE_DEBIAN_PACKAGE_FAILED :: errno where "ERR_INSTALL_OR_REMOVE_DEBIAN_PACKAGE_FAILED \<equiv> EC 620024"
abbreviation ERR_INSTALL_OR_REMOVE_RPM_PACKAGE_FAILED :: errno where "ERR_INSTALL_OR_REMOVE_RPM_PACKAGE_FAILED \<equiv> EC 620025"
abbreviation ERR_SECURE_COPY_FILE_TO_REMOTE_FAILED :: errno where "ERR_SECURE_COPY_FILE_TO_REMOTE_FAILED \<equiv> EC 620026"
abbreviation ERR_GET_BLOCK_DEVICE_UUID_FAILED :: errno where "ERR_GET_BLOCK_DEVICE_UUID_FAILED \<equiv> EC 620027"
abbreviation ERR_RESERVE_FILESYSTEM_BLOCKS_FAILED :: errno where "ERR_RESERVE_FILESYSTEM_BLOCKS_FAILED \<equiv> EC 620028"
abbreviation ERR_RUN_SCRIPT_FAILED :: errno where "ERR_RUN_SCRIPT_FAILED \<equiv> EC 620998"
abbreviation ERR_RUN_A_BASH_COMMAND_FAILED :: errno where "ERR_RUN_A_BASH_COMMAND_FAILED \<equiv> EC 620999"
abbreviation ERR_GET_CONTAINER_ENGINE_INFO_FAILED :: errno where "ERR_GET_CONTAINER_ENGINE_INFO_FAILED \<equiv> EC 630000"
abbreviation ERR_PULL_IMAGE_FAILED :: errno where "ERR_PULL_IMAGE_FAILED \<equiv> EC 630001"
abbreviation ERR_CREATE_CONTAINER_FAILED :: errno where "ERR_CREATE_CONTAINER_FAILED \<equiv> EC 630002"
abbreviation ERR_START_CONTAINER_FAILED :: errno where "ERR_START_CONTAINER_FAILED \<equiv> EC 630003"
abbreviation ERR_STOP_CONTAINER_FAILED :: errno where "ERR_STOP_CONTAINER_FAILED \<equiv> EC 630004"
abbreviation ERR_RESTART_CONTAINER_FAILED :: errno where "ERR_RESTART_CONTAINER_FAILED \<equiv> EC 630005"
abbreviation ERR_WAIT_CONTAINER_STOP_FAILED :: errno where "ERR_WAIT_CONTAINER_STOP_FAILED \<equiv> EC 630006"
abbreviation ERR_REMOVE_CONTAINER_FAILED :: errno where "ERR_REMOVE_CONTAINER_FAILED \<equiv> EC 630007"
abbreviation ERR_LIST_CONTAINERS_FAILED :: errno where "ERR_LIST_CONTAINERS_FAILED \<equiv> EC 630008"
abbreviation ERR_RUN_COMMAND_IN_CONTAINER_FAILED :: errno where "ERR_RUN_COMMAND_IN_CONTAINER_FAILED \<equiv> EC 630009"
abbreviation ERR_COPY_FROM_CONTAINER_FAILED :: errno where "ERR_COPY_FROM_CONTAINER_FAILED \<equiv> EC 630010"
abbreviation ERR_COPY_INTO_CONTAINER_FAILED :: errno where "ERR_COPY_INTO_CONTAINER_FAILED \<equiv> EC 630011"
abbreviation ERR_INSPECT_CONTAINER_FAILED :: errno where "ERR_INSPECT_CONTAINER_FAILED \<equiv> EC 630012"
abbreviation ERR_GET_CONTAINER_LOGS_FAILED :: errno where "ERR_GET_CONTAINER_LOGS_FAILED \<equiv> EC 630013"
abbreviation ERR_UPDATE_CONTAINER_FAILED :: errno where "ERR_UPDATE_CONTAINER_FAILED \<equiv> EC 630014"
abbreviation ERR_CONTAINER_NOT_EXISTED :: errno where "ERR_CONTAINER_NOT_EXISTED \<equiv> EC 630015"
abbreviation ERR_NO_HOST_FOR_GATEWAY :: errno where "ERR_NO_HOST_FOR_GATEWAY \<equiv> EC 640000"
abbreviation ERR_START_GATEWAY_FAILED :: errno where "ERR_START_GATEWAY_FAILED \<equiv> EC 640001"
abbreviation ERR_CREATE_META_TABLE_FAILED :: errno where "ERR_CREATE_META_TABLE_FAILED \<equiv> EC 650000"
abbreviation ERR_RPC_FAILED :: errno where "ERR_RPC_FAILED \<equiv> EC 660000"
abbreviation ERR_START_CRONTAB_IN_CONTAINER_FAILED :: errno where "ERR_START_CRONTAB_IN_CONTAINER_FAILED \<equiv> EC 690000"
abbreviation ERR_CANCEL_OPERATION :: errno where "ERR_CANCEL_OPERATION \<equiv> EC 900000"
abbreviation ERR_UNKNOWN :: errno where "ERR_UNKNOWN \<equiv> EC 999999"

section \<open>The registry\<close>

definition elist_init_db_options :: "errno list" where
  "elist_init_db_options =
     [ERR_OK, ERR_GET_USER_HOME_DIR_FAILED, ERR_CREATE_DINGOADM_SUBDIRECTORY_FAILED,
      ERR_INIT_LOGGER_FAILED, ERR_INIT_SQL_DATABASE_FAILED, ERR_GET_HOSTS_FAILED,
      ERR_UPDATE_HOSTS_FAILED, ERR_INSERT_CLUSTER_FAILED, ERR_GET_CURRENT_CLUSTER_FAILED,
      ERR_GET_CLUSTER_BY_NAME_FAILED, ERR_GET_ALL_CLUSTERS_FAILED, ERR_CHECKOUT_CLUSTER_FAILED,
      ERR_DELETE_CLUSTER_FAILED, ERR_UPDATE_CLUSTER_TOPOLOGY_FAILED,
      ERR_UPDATE_CLUSTER_POOL_FAILED, ERR_RENAME_CLUSTER_FAILED,
      ERR_INSERT_SERVICE_CONTAINER_ID_FAILED, ERR_SET_SERVICE_CONTAINER_ID_FAILED,
      ERR_GET_SERVICE_CONTAINER_ID_FAILED, ERR_GET_ALL_SERVICES_CONTAINER_ID_FAILED,
      ERR_INSERT_CLIENT_FAILED, ERR_GET_CLIENT_CONTAINER_ID_FAILED,
      ERR_GET_CLIENT_BY_ID_FAILED, ERR_GET_ALL_CLIENTS_FAILED, ERR_DELETE_CLIENT_FAILED,
      ERR_SET_CLIENT_AUX_INFO_FAILED, ERR_INSERT_PLAYGROUND_FAILED,
      ERR_GET_ALL_PLAYGROUND_FAILED, ERR_GET_PLAYGROUND_BY_NAME_FAILED,
      ERR_DELETE_PLAYGROUND_FAILED, ERR_GET_AUDIT_LOGS_FAILE, ERR_INSERT_CLIENT_CONFIG_FAILED,
      ERR_SELECT_CLIENT_CONFIG_FAILED, ERR_DELETE_CLIENT_CONFIG_FAILED, ERR_GET_MONITOR_FAILED,
      ERR_REPLACE_MONITOR_FAILED, ERR_UPDATE_MONITOR_FAILED, ERR_ID_NOT_FOUND,
      ERR_UNSUPPORT_DINGOFS_ROLE, ERR_UNSUPPORT_SKIPPED_SERVICE_ROLE,
      ERR_UNSUPPORT_SKIPPED_CHECK_ITEM, ERR_UNSUPPORT_CLEAN_ITEM, ERR_NO_SERVICES_MATCHED,
      ERR_UNSUPPORT_DINGODB_ROLE, ERR_UNSUPPORT_DINGOSTORE_ROLE, ERR_INVALID_DISK_TYPE,
      ERR_UNSUPPORT_CLIENT_KIND, ERR_INVALID_VOLUME_FORMAT, ERR_ROOT_VOLUME_USER_NOT_ALLOWED,
      ERR_VOLUME_NAME_MUST_START_WITH_SLASH_PREFIX, ERR_VOLUME_SIZE_MUST_END_WITH_GiB_SUFFIX,
      ERR_VOLUME_SIZE_REQUIRES_POSITIVE_INTEGER, ERR_VOLUME_SIZE_MUST_BE_MULTIPLE_OF_10_GiB,
      ERR_CLIENT_CONFIGURE_FILE_NOT_EXIST, ERR_NO_CLIENT_MATCHED,
      ERR_VOLUME_NAME_CAN_NOT_CONTAIN_UNDERSCORE,
      ERR_VOLUME_BLOCKSIZE_MUST_END_WITH_BYTE_SUFFIX,
      ERR_VOLUME_BLOCKSIZE_REQUIRES_POSITIVE_INTEGER, ERR_VOLUME_BLOCKSIZE_BE_MULTIPLE_OF_512,
      ERR_FS_MOUNTPOINT_REQUIRE_ABSOLUTE_PATH]"

definition elist_configure :: "errno list" where
  "elist_configure =
     [ERR_UNSUPPORT_CONFIGURE_VALUE_TYPE, ERR_CONFIGURE_VALUE_REQUIRES_BOOL,
      ERR_CONFIGURE_VALUE_REQUIRES_INTEGER, ERR_CONFIGURE_VALUE_REQUIRES_NON_EMPTY_STRING,
      ERR_CONFIGURE_VALUE_REQUIRES_POSITIVE_INTEGER, ERR_CONFIGURE_VALUE_REQUIRES_STRING_SLICE,
      ERR_CONFIGURE_VALUE_REQUIRES_MAP, ERR_UNSUPPORT_VARIABLE_VALUE_TYPE,
      ERR_INVALID_VARIABLE_VALUE, ERR_PARSE_DINGOADM_CONFIGURE_FAILED,
      ERR_UNSUPPORT_DINGOADM_LOG_LEVEL, ERR_UNSUPPORT_DINGOADM_CONFIGURE_ITEM,
      ERR_UNSUPPORT_DINGOADM_DATABASE_URL, ERR_HOSTS_FILE_NOT_FOUND,
      ERR_READ_HOSTS_FILE_FAILED, ERR_EMPTY_HOSTS, ERR_PARSE_HOSTS_FAILED,
      ERR_UNSUPPORT_HOSTS_CONFIGURE_ITEM, ERR_HOST_FIELD_MISSING, ERR_HOSTNAME_FIELD_MISSING,
      ERR_HOSTS_SSH_PORT_EXCEED_MAX_PORT_NUMBER, ERR_PRIVATE_KEY_FILE_REQUIRE_ABSOLUTE_PATH,
      ERR_PRIVATE_KEY_FILE_NOT_EXIST, ERR_PRIVATE_KEY_FILE_REQUIRE_600_PERMISSIONS,
      ERR_DUPLICATE_HOST, ERR_HOSTNAME_REQUIRES_VALID_IP_ADDRESS,
      ERR_PARSE_MONITOR_CONFIGURE_FAILED, ERR_READ_MONITOR_FILE_FAILED,
      ERR_PARSE_PROMETHEUS_TARGET_FAILED, ERR_TOPOLOGY_FILE_NOT_FOUND,
      ERR_READ_TOPOLOGY_FILE_FAILED, ERR_EMPTY_CLUSTER_TOPOLOGY, ERR_PARSE_TOPOLOGY_FAILED,
      ERR_REGISTER_VARIABLE_FAILED, ERR_RESOLVE_VARIABLE_FAILED, ERR_SET_VARIABLE_VALUE_FAILED,
      ERR_RENDERING_VARIABLE_FAILED, ERR_CREATE_HASH_FOR_TOPOLOGY_FAILED,
      ERR_UNSUPPORT_CLUSTER_KIND, ERR_NO_SERVICES_IN_TOPOLOGY,
      ERR_INSTANCES_REQUIRES_POSITIVE_INTEGER, ERR_INVALID_VARIABLE_SECTION,
      ERR_DUPLICATE_SERVICE_ID, ERR_DELETE_SERVICE_WHILE_COMMIT_TOPOLOGY_IS_DENIED,
      ERR_ADD_SERVICE_WHILE_COMMIT_TOPOLOGY_IS_DENIED,
      ERR_DELETE_SERVICE_WHILE_SCALE_OUT_CLUSTER_IS_DENIED,
      ERR_NO_SERVICES_FOR_SCALE_OUT_CLUSTER,
      ERR_REQUIRE_SAME_ROLE_SERVICES_FOR_SCALE_OUT_CLUSTER,
      ERR_CHUNKSERVER_REQUIRES_3_HOSTS_WHILE_SCALE_OUT,
      ERR_METASERVER_REQUIRES_3_HOSTS_WHILE_SCALE_OUT,
      ERR_ADD_SERVICE_WHILE_MIGRATING_IS_DENIED, ERR_DELETE_SERVICE_WHILE_MIGRATING_IS_DENIED,
      ERR_NO_SERVICES_FOR_MIGRATING, ERR_REQUIRE_SAME_ROLE_SERVICES_FOR_MIGRATING,
      ERR_REQUIRE_WHOLE_HOST_SERVICES_FOR_MIGRATING, ERR_FORMAT_CONFIGURE_FILE_NOT_EXIST,
      ERR_PARSE_FORMAT_CONFIGURE_FAILED, ERR_INVALID_DISK_FORMAT, ERR_INVALID_DEVICE,
      ERR_MOUNT_POINT_REQUIRE_ABSOLUTE_PATH, ERR_FORMAT_PERCENT_REQUIRES_INTERGET,
      ERR_FORMAT_PERCENT_MUST_BE_BETWEEN_1_AND_100, ERR_INVALID_BLOCK_SIZE,
      ERR_PARSE_CLIENT_CONFIGURE_FAILED, ERR_RESOLVE_CLIENT_VARIABLE_FAILED,
      ERR_UNSUPPORT_CLIENT_CONFIGURE_KIND, ERR_UNSUPPORT_CLIENT_CONFIGURE_VALUE_TYPE,
      ERR_REQUIRE_DINGOFS_KIND_CLIENT_CONFIGURE_FILE, ERR_INVALID_CLUSTER_LISTEN_MDS_ADDRESS,
      ERR_PARSE_GATEWAY_CONFIGURE_FAILED, ERR_GATEWAY_MDSADDR_EMPTY]"

definition elist_common_checker :: "errno list" where
  "elist_common_checker =
     [ERR_HOST_NOT_FOUND, ERR_NO_CLUSTER_SPECIFIED, ERR_NO_DISK_FOR_FORMATTING,
      ERR_GET_DEVICE_UUID_FAILED, ERR_NOT_A_BLOCK_DEVICE, ERR_INVALID_UUID,
      ERR_NO_SERVICES_FOR_PRECHECK, ERR_NO_SERVICES_FOR_DEPLOY,
      ERR_SERVICE_CONTAINER_ID_NOT_FOUND, ERR_CLUSTER_ALREADY_EXIST, ERR_CLUSTER_NOT_FOUND,
      ERR_ACTIVE_SERVICE_IN_CLUSTER, ERR_UNSUPPORT_CONFIG_TYPE, ERR_UNKNOWN_TASK_TYPE,
      ERR_CONTAINER_ALREADT_REMOVED, ERR_CONTAINER_IS_ABNORMAL,
      ERR_DECODE_CLUSTER_POOL_JSON_FAILED, ERR_WAIT_MDS_ELECTION_SUCCESS_TIMEOUT,
      ERR_WAIT_ALL_CHUNKSERVERS_ONLINE_TIMEOUT, ERR_CREATE_LOGICAL_POOL_FAILED,
      ERR_INVALID_DEVICE_USAGE, ERR_ENCRYPT_FILE_FAILED, ERR_CLIENT_ID_NOT_FOUND,
      ERR_ENABLE_ETCD_AUTH_FAILED, ERR_FS_PATH_ALREADY_MOUNTED, ERR_CREATE_FILESYSTEM_FAILED,
      ERR_MOUNT_FILESYSTEM_FAILED, ERR_UMOUNT_FILESYSTEM_FAILED,
      ERR_ENCODE_INFO_TO_JSON_FAILED, ERR_GET_OS_REELASE_FAILED,
      ERR_UNSUPPORT_LINUX_OS_REELASE, ERR_INSTALL_PFSD_PACKAGE_FAILED,
      ERR_PLAYGROUND_NOT_FOUND, ERR_INVALID_S3_ACCESS_KEY, ERR_INVALID_S3_SECRET_KEY,
      ERR_INVALID_S3_ADDRESS, ERR_INVALID_S3_BUCKET_NAME, ERR_DIRECTORY_REQUIRE_ABSOLUTE_PATH,
      ERR_DATA_DIRECTORY_ALREADY_IN_USE, ERR_DUPLICATE_LISTEN_ADDRESS,
      ERR_ETCD_REQUIRES_3_SERVICES, ERR_MDS_REQUIRES_3_SERVICES,
      ERR_CHUNKSERVER_REQUIRES_3_SERVICES, ERR_SNAPSHOTCLONE_REQUIRES_3_SERVICES,
      ERR_METASERVER_REQUIRES_3_SERVICES, ERR_ETCD_REQUIRES_3_HOSTS, ERR_MDS_REQUIRES_3_HOSTS,
      ERR_CHUNKSERVER_REQUIRES_3_HOSTS, ERR_SNAPSHOTCLONE_REQUIRES_3_HOSTS,
      ERR_METASERVER_REQUIRES_3_HOSTS, ERR_COORDINATOR_REQUIRES_3_SERVICES,
      ERR_STORE_REQUIRES_3_SERVICES, ERR_SSH_CONNECT_FAILED, ERR_USER_NOT_FOUND,
      ERR_HOSTNAME_NOT_RESOLVED, ERR_CREATE_DIRECOTRY_PERMISSION_DENIED,
      ERR_EXECUTE_CONTAINER_ENGINE_COMMAND_PERMISSION_DENIED, ERR_UNRECOGNIZED_KERNEL_VERSION,
      ERR_RENAMEAT_NOT_SUPPORTED_IN_CURRENT_KERNEL, ERR_KERNEL_NBD_MODULE_NOT_LOADED,
      ERR_KERNEL_FUSE_MODULE_NOT_LOADED, ERR_PORT_ALREADY_IN_USE, ERR_DESTINATION_UNREACHABLE,
      ERR_CONNET_MOCK_SERVICE_ADDRESS_FAILED, ERR_INVALID_DATE_FORMAT,
      ERR_HOST_TIME_DIFFERENCE_OVER_30_SECONDS, ERR_CHUNKFILE_POOL_NOT_EXIST,
      ERR_INVALID_DINGOFS_CLIENT_S3_ACCESS_KEY, ERR_INVALID_DINGOFS_CLIENT_S3_SECRET_KEY,
      ERR_INVALID_DINGOFS_CLIENT_S3_ADDRESS, ERR_INVALID_DINGOFS_CLIENT_S3_BUCKET_NAME,
      ERR_CONTAINER_ENGINE_NOT_INSTALLED, ERR_DOCKER_DAEMON_IS_NOT_RUNNING,
      ERR_NO_SPACE_LEFT_ON_DEVICE, ERR_EXECUTE_COMMAND_TIMED_OUT, ERR_READ_FILE_FAILED,
      ERR_WRITE_FILE_FAILED, ERR_BUILD_REGEX_FAILED, ERR_BUILD_TEMPLATE_FAILED,
      ERR_DOWNLOAD_FILE_FROM_REMOTE_BY_SSH_FAILED, ERR_UPLOAD_FILE_TO_REMOTE_BY_SSH_FAILED,
      ERR_CONNECT_REMOTE_HOST_WITH_INTERACT_BY_SSH_FAILED]"

definition elist_execute_others :: "errno list" where
  "elist_execute_others =
     [ERR_EDIT_FILE_FAILED, ERR_LIST_DIRECTORY_CONTENTS_FAILED, ERR_CREATE_DIRECTORY_FAILED,
      ERR_REMOVE_FILES_OR_DIRECTORIES_FAILED, ERR_RENAME_FILE_OR_DIRECTORY_FAILED,
      ERR_COPY_FILES_AND_DIRECTORIES_FAILED, ERR_CHANGE_FILE_MODE_FAILED,
      ERR_GET_FILE_STATUS_FAILED, ERR_CONCATENATE_FILE_FAILED,
      ERR_BUILD_A_LINUX_FILE_SYSTEM_FAILED, ERR_MOUNT_A_FILESYSTEM_FAILED,
      ERR_UNMOUNT_FILE_SYSTEMS_FAILED, ERR_FIND_WHICH_PROCESS_USING_FILE_FAILED,
      ERR_GET_DISK_SPACE_USAGE_FAILED, ERR_LIST_BLOCK_DEVICES_FAILED,
      ERR_GET_CONNECTION_INFORMATION_FAILED, ERR_SEND_ICMP_ECHO_REQUEST_TO_HOST_FAILED,
      ERR_TRANSFERRING_DATA_FROM_OR_TO_SERVER_FAILED, ERR_GET_SYSTEM_TIME_FAILED,
      ERR_GET_SYSTEM_INFORMATION_FAILED, ERR_GET_KERNEL_MODULE_INFO_FAILED,
      ERR_ADD_MODUDLE_FROM_LINUX_KERNEL_FAILED, ERR_GET_HOSTNAME_FAILED,
      ERR_STORES_AND_EXTRACTS_FILES_FAILED, ERR_INSTALL_OR_REMOVE_DEBIAN_PACKAGE_FAILED,
      ERR_INSTALL_OR_REMOVE_RPM_PACKAGE_FAILED, ERR_SECURE_COPY_FILE_TO_REMOTE_FAILED,
      ERR_GET_BLOCK_DEVICE_UUID_FAILED, ERR_RESERVE_FILESYSTEM_BLOCKS_FAILED,
      ERR_RUN_SCRIPT_FAILED, ERR_RUN_A_BASH_COMMAND_FAILED,
      ERR_GET_CONTAINER_ENGINE_INFO_FAILED, ERR_PULL_IMAGE_FAILED, ERR_CREATE_CONTAINER_FAILED,
      ERR_START_CONTAINER_FAILED, ERR_STOP_CONTAINER_FAILED, ERR_RESTART_CONTAINER_FAILED,
      ERR_WAIT_CONTAINER_STOP_FAILED, ERR_REMOVE_CONTAINER_FAILED, ERR_LIST_CONTAINERS_FAILED,
      ERR_RUN_COMMAND_IN_CONTAINER_FAILED, ERR_COPY_FROM_CONTAINER_FAILED,
      ERR_COPY_INTO_CONTAINER_FAILED, ERR_INSPECT_CONTAINER_FAILED,
      ERR_GET_CONTAINER_LOGS_FAILED, ERR_UPDATE_CONTAINER_FAILED, ERR_CONTAINER_NOT_EXISTED,
      ERR_NO_HOST_FOR_GATEWAY, ERR_START_GATEWAY_FAILED, ERR_CREATE_META_TABLE_FAILED,
      ERR_RPC_FAILED, ERR_START_CRONTAB_IN_CONTAINER_FAILED, ERR_CANCEL_OPERATION, ERR_UNKNOWN]"

definition elist :: "errno list" where
  "elist = elist_init_db_options @ elist_configure @ elist_common_checker @ elist_execute_others"

text \<open>
  \<open>List\<close>: the counts per code (\<open>count[e.Code]++\<close>), the number of different codes it prints,
  and the codes it reports as duplicates.
\<close>

fun count_codes :: "errno list \<Rightarrow> (int \<times> nat) list \<Rightarrow> (int \<times> nat) list" where
  "count_codes [] count = count"
| "count_codes (e # es) count =
     count_codes es
       (case map_of count (GetCode e) of
          None \<Rightarrow> count @ [(GetCode e, 1)]
        | Some n \<Rightarrow> map (\<lambda>(c, m). if c = GetCode e then (c, Suc m) else (c, m)) count)"

definition List_duplicates :: "errno list \<Rightarrow> int list" where
  "List_duplicates es = map fst (filter (\<lambda>(code, num). num > 1) (count_codes es []))"

section \<open>What List reports\<close>

lemma count_codes_lookup:
  "map_of (count_codes es count) c =
     (let n = count_list (map GetCode es) c in
      case map_of count c of
        None \<Rightarrow> if n = 0 then None else Some n
      | Some k \<Rightarrow> Some (k + n))"
proof (induction es arbitrary: count)
  case (Cons e es)
  have bump: "map_of (map (\<lambda>(c, m). if c = d then (c, Suc m) else (c, m)) cs) x =
      (if x = d then map_option Suc (map_of cs x) else map_of cs x)" for cs :: "(int \<times> nat) list" and d x
    by (induction cs) auto
  show ?case
    by (cases "map_of count (GetCode e)")
       (auto simp: Cons.IH bump map_add_Some_iff Let_def split: option.splits)
qed (auto split: option.splits)

lemma distinct_count_codes:
  "distinct (map fst count) \<Longrightarrow> distinct (map fst (count_codes es count))"
proof (induction es arbitrary: count)
  case (Cons e es)
  have keys: "map fst (map (\<lambda>(c, m). if c = d then (c, Suc m) else (c, m)) cs) = map fst cs"
    for cs :: "(int \<times> nat) list" and d
    by (induction cs) auto
  show ?case
    using Cons.prems
    by (auto intro!: Cons.IH simp: keys map_of_eq_None_iff simp del: map_map split: option.splits)
qed auto

text \<open>\<open>List\<close> reports exactly the codes that are registered more than once.\<close>

lemma List_duplicates_set:
  "set (List_duplicates es) = {c. count_list (map GetCode es) c > 1}"
proof -
  have d: "distinct (map fst (count_codes es []))"
    by (rule distinct_count_codes) simp
  have "c \<in> set (List_duplicates es) \<longleftrightarrow> (\<exists>n > 1. map_of (count_codes es []) c = Some n)" for c
    unfolding List_duplicates_def using d
    by (auto simp: image_iff Bex_def map_of_eq_Some_iff)
  then show ?thesis
    by (auto simp: count_codes_lookup Let_def split: if_splits)
qed

text \<open>A reference for evaluating the registry: on a sorted list equal codes are neighbours.\<close>

fun adjacent_equal :: "int list \<Rightarrow> int list" where
  "adjacent_equal (x # y # zs) =
     (if x = y then x # adjacent_equal (y # zs) else adjacent_equal (y # zs))"
| "adjacent_equal _ = []"

lemma count_list_pos: "0 < count_list xs c \<longleftrightarrow> c \<in> set xs"
  by (induction xs) auto

lemma adjacent_equal_sorted:
  "sorted xs \<Longrightarrow> set (adjacent_equal xs) = {c. count_list xs c > 1}"
proof (induction xs rule: adjacent_equal.induct)
  case (1 x y zs)
  from "1.prems" have s: "sorted (y # zs)" "x \<le> y" "\<forall>z \<in> set zs. y \<le> z" by auto
  have IH: "set (adjacent_equal (y # zs)) = {c. count_list (y # zs) c > 1}"
    using "1.IH" s(1) by (cases "x = y") auto
  show ?case
  proof (cases "x = y")
    case True
    with IH show ?thesis by (auto simp: count_list_pos)
  next
    case False
    with s have "count_list zs x = 0"
      using count_list_pos [of zs x] by (metis antisym gr0I)
    with False IH show ?thesis by auto
  qed
qed auto

lemma count_list_sort: "count_list (sort xs) c = count_list xs c"
proof -
  have ins: "count_list (insort x ys) c = (if x = c then 1 else 0) + count_list ys c" for x ys
    by (induction ys) auto
  show ?thesis by (induction xs) (auto simp: ins)
qed

text \<open>
  Of the 267 codes the package registers, \<open>210007\<close> is the only one used twice: by
  \<open>ERR_UNSUPPORT_DINGODB_ROLE\<close> and by \<open>ERR_INVALID_DISK_TYPE\<close>.
\<close>

theorem elist_duplicates: "length elist = 267 \<and> set (List_duplicates elist) = {210007}"
proof -
  have "adjacent_equal (sort (map GetCode elist)) = [210007]"
    by code_simp
  then have "set (List_duplicates elist) = {210007}"
    unfolding List_duplicates_set
    using adjacent_equal_sorted [of "sort (map GetCode elist)"]
    by (simp add: count_list_sort)
  moreover have "length elist = 267"
    by code_simp
  ultimately show ?thesis by simp
qed

end
