(* ===== verification/Go_Base.thy ===== *)
theory Go_Base
  imports Errno "HOL-Library.AList"
begin

text \<open>
  The base of the development: what the components use of Go and of its standard
  library, and the generic lemmas their proofs share.

  \<^item> Strings are byte lists (\<open>string\<close>), as Go's are.  Character classes are the ASCII
    ones.  A Go \<open>int\<close> is 64 bits wide: it is an \<open>int\<close> here, and the places where the
    width matters (parsing and arithmetic) say so with \<open>int64_range\<close> and \<open>wrap64\<close>.
  \<^item> \<open>gval\<close> is Go's \<open>interface{}\<close> as far as the configuration code tells values apart
    (\<open>utils.Type\<close>): a map value is an association list, \<open>GStrs\<close> a \<open>[]string\<close>, \<open>GOther\<close> is
    any other dynamic type (a float, a struct).
  \<^item> A Go map is an association list; \<open>map_of\<close> reads it, \<open>AList.update\<close> writes it.  The
    order of the list is one iteration order: Go leaves that order open, and the components
    prove where it does not matter.
  \<^item> Errors are the left summand of a sum; \<open>GoPanic\<close> is a run-time panic.  \<open>bindR\<close>, \<open>mapR\<close>
    and \<open>foldR\<close> are the early returns of straight-line code and of loops.
\<close>

section \<open>Collections of rewrite rules\<close>

named_theorems res_simps \<open>inversion of computations that can fail\<close>
named_theorems str_simps \<open>facts on the string functions of Go\<close>

section \<open>Computations that can fail\<close>

text \<open>
  The error of a call: a run-time panic, an error code of \<open>internal/errno\<close> (without the
  text attached to it), a loop or recursion that does not return, the plain errors of
  \<open>pkg/variable\<close>, or any other plain error (\<open>RawErr\<close>, with a word that says where it comes from).
\<close>

datatype gerr =
    GoPanic
  | Ec errno
  | NoReturn
  | VarDuplicate string
  | VarNotFound string
  | VarUnresolved string
  | VarNotDefined string
  | RawErr string

type_synonym 'a res = "gerr + 'a"

fun bindR :: "'e + 'a \<Rightarrow> ('a \<Rightarrow> 'e + 'b) \<Rightarrow> 'e + 'b" where
  "bindR (Inl e) f = Inl e"
| "bindR (Inr x) f = f x"

fun mapR :: "('a \<Rightarrow> 'e + 'b) \<Rightarrow> 'a list \<Rightarrow> 'e + 'b list" where
  "mapR f [] = Inr []"
| "mapR f (x # xs) = bindR (f x) (\<lambda>y. bindR (mapR f xs) (\<lambda>ys. Inr (y # ys)))"

fun foldR :: "('a \<Rightarrow> 's \<Rightarrow> 'e + 's) \<Rightarrow> 'a list \<Rightarrow> 's \<Rightarrow> 'e + 's" where
  "foldR f [] s = Inr s"
| "foldR f (x # xs) s = bindR (f x s) (foldR f xs)"

text \<open>\<open>E(err)\<close> of \<open>internal/errno\<close>: an error wrapped into an error code; a panic and a
  recursion that does not return are not errors of Go and pass through.\<close>

fun wrapE :: "errno \<Rightarrow> 'a res \<Rightarrow> 'a res" where
  "wrapE c (Inr x) = Inr x"
| "wrapE c (Inl GoPanic) = Inl GoPanic"
| "wrapE c (Inl NoReturn) = Inl NoReturn"
| "wrapE c (Inl e) = Inl (Ec c)"

section \<open>Values\<close>

datatype gval =
    GNil
  | GBool bool
  | GStr string
  | GInt int
  | GInt64 int
  | GMap "(string \<times> gval) list"
  | GList "gval list"
  | GStrs "string list"
  | GOther

type_synonym gmap = "(string \<times> gval) list"

text \<open>Reading a Go map: the value, nil for a missing key.\<close>

definition gget :: "gmap \<Rightarrow> string \<Rightarrow> gval" where
  "gget m k = (case map_of m k of None \<Rightarrow> GNil | Some v \<Rightarrow> v)"

section \<open>Integers and text\<close>

definition int64_range :: "int \<Rightarrow> bool" where
  "int64_range i \<longleftrightarrow> - (2 ^ 63) \<le> i \<and> i < 2 ^ 63"

definition wrap64 :: "int \<Rightarrow> int" where
  "wrap64 i = (i + 2 ^ 63) mod 2 ^ 64 - 2 ^ 63"

definition digit_char :: "int \<Rightarrow> char" where
  "digit_char d = ''0123456789'' ! nat d"

definition is_digit :: "char \<Rightarrow> bool" where
  "is_digit c \<longleftrightarrow> 48 \<le> (of_char c :: int) \<and> (of_char c :: int) \<le> 57"

definition digit_val :: "char \<Rightarrow> int" where
  "digit_val c = of_char c - 48"

text \<open>The digits of a number that is not negative.\<close>

function show_dec :: "int \<Rightarrow> string" where
  "show_dec n =
     (if n < 10 then [digit_char n] else show_dec (n div 10) @ [digit_char (n mod 10)])"
  by auto
termination by (relation "measure nat") auto

declare show_dec.simps [simp del]

text \<open>\<open>strconv.Itoa\<close> and the \<open>%d\<close> of \<open>fmt.Sprintf\<close>.\<close>

definition itoa :: "int \<Rightarrow> string" where
  "itoa i = (if i < 0 then CHR ''-'' # show_dec (- i) else show_dec i)"

text \<open>\<open>%02d\<close>: padded with zeros to two characters, the sign counted.\<close>

definition fmt02d :: "int \<Rightarrow> string" where
  "fmt02d i = (let s = itoa i in if length s < 2 then CHR ''0'' # s else s)"

fun read_dec :: "int \<Rightarrow> string \<Rightarrow> int option" where
  "read_dec acc [] = Some acc"
| "read_dec acc (c # cs) =
     (if is_digit c then read_dec (10 * acc + digit_val c) cs else None)"

text \<open>\<open>strconv.Atoi\<close>: an optional sign, at least one digit, nothing else, in range.\<close>

definition unsigned :: "string \<Rightarrow> int option" where
  "unsigned s = (if s = [] then None else read_dec 0 s)"

definition atoi :: "string \<Rightarrow> int option" where
  "atoi s =
     (let r = (case s of
                 [] \<Rightarrow> None
               | c # cs \<Rightarrow>
                   if c = CHR ''-'' then map_option uminus (unsigned cs)
                   else if c = CHR ''+'' then unsigned cs
                   else unsigned s)
      in case r of
           None \<Rightarrow> None
         | Some i \<Rightarrow> if int64_range i then Some i else None)"

text \<open>\<open>strconv.FormatBool\<close> and \<open>strconv.ParseBool\<close>.\<close>

definition format_bool :: "bool \<Rightarrow> string" where
  "format_bool b = (if b then ''true'' else ''false'')"

definition parse_bool :: "string \<Rightarrow> bool option" where
  "parse_bool s =
     (if s \<in> set [''1'', ''t'', ''T'', ''TRUE'', ''true'', ''True''] then Some True
      else if s \<in> set [''0'', ''f'', ''F'', ''FALSE'', ''false'', ''False''] then Some False
      else None)"

text \<open>The functions of package \<open>strings\<close>.\<close>

definition has_prefix :: "string \<Rightarrow> string \<Rightarrow> bool" where
  "has_prefix s p \<longleftrightarrow> take (length p) s = p"

definition trim_prefix :: "string \<Rightarrow> string \<Rightarrow> string" where
  "trim_prefix s p = (if has_prefix s p then drop (length p) s else s)"

definition is_space :: "char \<Rightarrow> bool" where
  "is_space c \<longleftrightarrow> (of_char c :: nat) \<in> {9, 10, 11, 12, 13, 32}"

definition trim_space :: "string \<Rightarrow> string" where
  "trim_space s = rev (dropWhile is_space (rev (dropWhile is_space s)))"

fun join :: "string \<Rightarrow> string list \<Rightarrow> string" where
  "join sep [] = []"
| "join sep [s] = s"
| "join sep (s # t # ss) = s @ sep @ join sep (t # ss)"

text \<open>\<open>strings.Split\<close> with a one-byte separator.\<close>

fun split_on :: "char \<Rightarrow> string \<Rightarrow> string list" where
  "split_on c [] = [[]]"
| "split_on c (x # xs) =
     (if x = c then [] # split_on c xs
      else case split_on c xs of [] \<Rightarrow> [[x]] | p # ps \<Rightarrow> (x # p) # ps)"

text \<open>\<open>path.Clean\<close> and \<open>path.Join\<close>: the components of a path are processed from the left;
  empty ones and \<open>.\<close> are dropped, \<open>..\<close> removes the component before it.\<close>

fun clean_step :: "bool \<Rightarrow> string list \<Rightarrow> string list \<Rightarrow> string list" where
  "clean_step rooted st [] = rev st"
| "clean_step rooted st (c # cs) =
     (if c = [] \<or> c = ''.'' then clean_step rooted st cs
      else if c = ''..'' then
        (case st of
           [] \<Rightarrow> if rooted then clean_step rooted [] cs else clean_step rooted [''..''] cs
         | t # ts \<Rightarrow>
             if t = ''..'' then clean_step rooted (''..'' # st) cs
             else clean_step rooted ts cs)
      else clean_step rooted (c # st) cs)"

definition path_clean :: "string \<Rightarrow> string" where
  "path_clean s =
     (let rooted = has_prefix s ''/'';
          body = join ''/'' (clean_step rooted [] (split_on (CHR ''/'') s))
      in if rooted then CHR ''/'' # body else if body = [] then ''.'' else body)"

definition path_join :: "string list \<Rightarrow> string" where
  "path_join ps =
     (let qs = filter (\<lambda>p. p \<noteq> []) ps in if qs = [] then [] else path_clean (join ''/'' qs))"

section \<open>Lemmas on failing computations\<close>

lemma bindR_eq_Inr [res_simps]:
  "bindR m f = Inr y \<longleftrightarrow> (\<exists>x. m = Inr x \<and> f x = Inr y)"
  by (cases m) auto

lemma bindR_eq_Inl [res_simps]:
  "bindR m f = Inl e \<longleftrightarrow> m = Inl e \<or> (\<exists>x. m = Inr x \<and> f x = Inl e)"
  by (cases m) auto

lemma bindR_Inr_right [simp]: "bindR m Inr = m"
  by (cases m) auto

lemma bindR_assoc: "bindR (bindR m f) g = bindR m (\<lambda>x. bindR (f x) g)"
  by (cases m) auto

lemma wrapE_Inr [res_simps]: "wrapE c r = Inr x \<longleftrightarrow> r = Inr x"
  by (cases "(c, r)" rule: wrapE.cases) auto

lemma bindR_cong [fundef_cong]:
  assumes "m = m'" and "\<And>x. m' = Inr x \<Longrightarrow> f x = f' x"
  shows "bindR m f = bindR m' f'"
  using assms by (cases m') auto

lemma mapR_Inr_iff [res_simps]:
  "mapR f xs = Inr ys \<longleftrightarrow> list_all2 (\<lambda>x y. f x = Inr y) xs ys"
proof (induction xs arbitrary: ys)
  case (Cons x xs)
  then show ?case by (cases ys) (auto simp: res_simps)
qed auto

lemma mapR_length: "mapR f xs = Inr ys \<Longrightarrow> length ys = length xs"
  by (simp add: mapR_Inr_iff list_all2_lengthD)

lemma mapR_Inr_ex: "(\<exists>ys. mapR f xs = Inr ys) \<longleftrightarrow> (\<forall>x \<in> set xs. \<exists>y. f x = Inr y)"
  by (induction xs) (auto simp: res_simps)

lemma mapR_map: "mapR f (map g xs) = mapR (f \<circ> g) xs"
  by (induction xs) auto

lemma mapR_all_Inr: "(\<And>x. x \<in> set xs \<Longrightarrow> f x = Inr (g x)) \<Longrightarrow> mapR f xs = Inr (map g xs)"
  by (induction xs) auto

lemma mapR_concat_set:
  assumes "mapR f xs = Inr l" and "\<forall>x \<in> set xs. \<forall>ys. f x = Inr ys \<longrightarrow> set ys = g x"
  shows "set (concat l) = (\<Union>x \<in> set xs. g x)"
  using assms(1) [unfolded mapR_Inr_iff] assms(2)
  by (induction rule: list_all2_induct) auto

lemma foldR_append: "foldR f (xs @ ys) s = bindR (foldR f xs s) (foldR f ys)"
  by (induction xs arbitrary: s) (auto simp: bindR_assoc intro: bindR_cong)

text \<open>The invariant rule of a loop that can fail.\<close>

lemma foldR_invariant:
  assumes "foldR f xs s = Inr t" and "P s"
    and "\<And>x s t. x \<in> set xs \<Longrightarrow> P s \<Longrightarrow> f x s = Inr t \<Longrightarrow> P t"
  shows "P t"
  using assms
proof (induction xs arbitrary: s)
  case Nil
  then show ?case by simp
next
  case (Cons x xs)
  from Cons.prems(1) obtain u where u: "f x s = Inr u" "foldR f xs u = Inr t"
    by (auto simp: res_simps)
  have "P u" using Cons.prems(3) [OF _ Cons.prems(2) u(1)] by simp
  with Cons.prems(3) show ?case by (auto intro: Cons.IH [OF u(2)])
qed

section \<open>Lemmas on maps\<close>

lemma map_of_update [simp]: "map_of (AList.update k v m) = (map_of m)(k \<mapsto> v)"
  by (rule update_conv')

lemma gget_update [simp]: "gget (AList.update k v m) k' = (if k' = k then v else gget m k')"
  by (simp add: gget_def)

lemma distinct_keys_update [simp]:
  "distinct (map fst m) \<Longrightarrow> distinct (map fst (AList.update k v m))"
  by (rule distinct_update)

lemma keys_update_same [simp]:
  "k \<in> set (map fst m) \<Longrightarrow> map fst (AList.update k v m) = map fst m"
  by (induction m) auto

lemma keys_update_known [simp]:
  "map_of m k = Some w \<Longrightarrow> map fst (AList.update k v m) = map fst m"
  by (rule keys_update_same) (force dest: map_of_SomeD)

lemma map_of_distinct_in_set:
  "distinct (map fst m) \<Longrightarrow> (k, v) \<in> set m \<longleftrightarrow> map_of m k = Some v"
  by simp

lemma same_keys_None: "map fst m' = map fst m \<Longrightarrow> map_of m' k = None \<longleftrightarrow> map_of m k = None"
  unfolding map_of_eq_None_iff by (metis list.set_map)

text \<open>An association list is determined by its keys, if they differ, and its lookups.\<close>

lemma alist_eqI:
  assumes "distinct (map fst m)" and "map fst m' = map fst m"
    and "\<And>k v. map_of m k = Some v \<Longrightarrow> map_of m' k = Some (f k v)"
  shows "m' = map (\<lambda>(k, v). (k, f k v)) m"
proof (rule nth_equalityI)
  show len: "length m' = length (map (\<lambda>(k, v). (k, f k v)) m)"
    using assms(2) by (metis length_map)
  fix i assume i: "i < length m'"
  obtain k v where kv: "m ! i = (k, v)" by fastforce
  have im: "i < length m" using i len by simp
  with kv have "(k, v) \<in> set m" by (metis nth_mem)
  with assms(1) have "map_of m k = Some v" by simp
  then have "map_of m' k = Some (f k v)" by (rule assms(3))
  moreover obtain v' where kv': "m' ! i = (k, v')"
    using assms(2) i im kv by (metis fst_conv nth_map surj_pair)
  then have "map_of m' k = Some v'"
    using assms(1,2) i by (metis map_of_eq_Some_iff nth_mem)
  ultimately show "m' ! i = map (\<lambda>(k, v). (k, f k v)) m ! i"
    using kv kv' im by simp
qed

lemma set_keys_update [simp]: "fst ` set (AList.update k v m) = insert k (fst ` set m)"
  by (induction m) auto

lemma map_of_eq_None_keys: "map_of m k = None \<longleftrightarrow> k \<notin> fst ` set m"
  by (rule map_of_eq_None_iff)

lemma map_of_in_keys: "map_of m k = Some v \<Longrightarrow> k \<in> fst ` set m"
  by (force dest: map_of_SomeD)

section \<open>Lemmas on text\<close>

lemma digit_roundtrip:
  assumes "0 \<le> d" and "d < 10"
  shows "is_digit (digit_char d)" and "digit_val (digit_char d) = d"
proof -
  from assms have "d = 0 \<or> d = 1 \<or> d = 2 \<or> d = 3 \<or> d = 4 \<or> d = 5 \<or> d = 6 \<or> d = 7 \<or> d = 8 \<or> d = 9"
    by presburger
  then show "is_digit (digit_char d)" and "digit_val (digit_char d) = d"
    by (auto simp: is_digit_def digit_val_def digit_char_def)
qed

lemma read_dec_append:
  "read_dec acc (s @ t) = (case read_dec acc s of None \<Rightarrow> None | Some n \<Rightarrow> read_dec n t)"
  by (induction acc s rule: read_dec.induct) auto

lemma show_dec_not_Nil [simp]: "show_dec n \<noteq> []"
  by (subst show_dec.simps) simp

lemma read_show_dec: "0 \<le> n \<Longrightarrow> read_dec 0 (show_dec n) = Some n"
proof (induction n rule: show_dec.induct)
  case (1 n)
  show ?case
  proof (cases "n < 10")
    case True
    with "1.prems" show ?thesis by (subst show_dec.simps) (simp add: digit_roundtrip)
  next
    case False
    with "1.IH" show ?thesis
      by (subst show_dec.simps) (simp add: read_dec_append digit_roundtrip)
  qed
qed

lemma show_dec_digits: "0 \<le> n \<Longrightarrow> c \<in> set (show_dec n) \<Longrightarrow> is_digit c"
proof (induction n rule: show_dec.induct)
  case (1 n)
  then show ?case
    by (subst (asm) (2) show_dec.simps) (auto simp: digit_roundtrip split: if_splits)
qed

lemma show_dec_inj: "0 \<le> m \<Longrightarrow> 0 \<le> n \<Longrightarrow> show_dec m = show_dec n \<longleftrightarrow> m = n"
  by (metis option.inject read_show_dec)

lemma hd_show_dec: "0 \<le> n \<Longrightarrow> is_digit (hd (show_dec n))"
  by (rule show_dec_digits [of n]) simp_all

lemma sign_not_digit: "\<not> is_digit (CHR ''-'')" "\<not> is_digit (CHR ''+'')"
  by (simp_all add: is_digit_def)

text \<open>Printing and reading back a number in range.\<close>

lemma atoi_itoa [str_simps]: "int64_range i \<Longrightarrow> atoi (itoa i) = Some i"
proof (cases "i < 0")
  case True
  moreover assume "int64_range i"
  ultimately show ?thesis
    by (simp add: atoi_def itoa_def unsigned_def read_show_dec)
next
  case False
  moreover assume "int64_range i"
  moreover obtain c cs where s: "show_dec i = c # cs"
    by (cases "show_dec i") auto
  moreover from s False have "is_digit c"
    using hd_show_dec [of i] by simp
  then have "c \<noteq> CHR ''-''" "c \<noteq> CHR ''+''"
    using sign_not_digit by auto
  moreover have "read_dec 0 (c # cs) = Some i"
    using read_show_dec [of i] s False by simp
  ultimately show ?thesis
    by (simp add: atoi_def itoa_def unsigned_def)
qed

lemma atoi_range: "atoi s = Some i \<Longrightarrow> int64_range i"
  by (auto simp: atoi_def Let_def split: option.splits if_splits)

lemma itoa_inj [str_simps]: "itoa i = itoa j \<longleftrightarrow> i = j"
proof -
  have d: "show_dec n \<noteq> CHR ''-'' # s" if "0 \<le> n" for n s
    using hd_show_dec [OF that] sign_not_digit by auto
  have "i = j" if eq: "itoa i = itoa j"
  proof (cases "i < 0"; cases "j < 0")
    assume "i < 0" "j < 0"
    with eq show ?thesis by (simp add: itoa_def show_dec_inj)
  next
    assume "i < 0" "\<not> j < 0"
    with eq d [of j] show ?thesis by (auto simp: itoa_def dest: sym)
  next
    assume "\<not> i < 0" "j < 0"
    with eq d [of i] show ?thesis by (auto simp: itoa_def)
  next
    assume "\<not> i < 0" "\<not> j < 0"
    with eq show ?thesis by (simp add: itoa_def show_dec_inj)
  qed
  then show ?thesis by auto
qed

lemma itoa_not_Nil [simp]: "itoa i \<noteq> []"
  by (simp add: itoa_def)

lemma parse_format_bool [str_simps]: "parse_bool (format_bool b) = Some b"
  by (cases b) (simp_all add: parse_bool_def format_bool_def)

lemma format_bool_not_Nil [simp]: "format_bool b \<noteq> []"
  by (simp add: format_bool_def)

lemma int64_range_code [code]:
  "int64_range i \<longleftrightarrow> -9223372036854775808 \<le> i \<and> i < 9223372036854775808"
  by (simp add: int64_range_def)

lemma wrap64_code [code]:
  "wrap64 i = (i + 9223372036854775808) mod 18446744073709551616 - 9223372036854775808"
  by (simp add: wrap64_def)

lemma wrap64_id: "int64_range i \<Longrightarrow> wrap64 i = i"
  by (simp add: int64_range_def wrap64_def)

lemma wrap64_range: "int64_range (wrap64 i)"
  by (simp add: int64_range_def wrap64_def)

lemma has_prefix_append [simp]: "has_prefix (p @ s) p"
  by (simp add: has_prefix_def)

lemma has_prefix_Nil [simp]: "has_prefix s []"
  by (simp add: has_prefix_def)

lemma has_prefix_iff: "has_prefix s p \<longleftrightarrow> (\<exists>t. s = p @ t)"
  by (metis append_eq_conv_conj append_take_drop_id has_prefix_def)

lemma split_on_join_free: "c \<notin> set s \<Longrightarrow> split_on c s = [s]"
  by (induction s) auto

lemma split_on_append: "c \<notin> set p \<Longrightarrow> split_on c (p @ c # rest) = p # split_on c rest"
  by (induction p) auto

end
