(* ===== verification/Variables.thy ===== *)
theory Variables
  imports Go_Base
begin

text \<open>
  \<open>pkg/variable/variables.go\<close>: named variables whose values may refer to other variables
  as \<open>${name}\<close>, resolved by \<open>Build\<close> and substituted into text by \<open>Rendering\<close>.

  The regular expression \<open>\${([^${}]+)}\<close> is the scanner \<open>match_at\<close>/\<open>pieces\<close>: leftmost,
  non-overlapping matches.  \<open>resolve\<close> is recursive in the references of a value and nothing in
  the code bounds it (the map \<open>marked\<close> is written and never read), so the model takes fuel and
  returns \<open>None\<close> when it runs out; \<open>Build\<close> gives it one unit more than there are variables,
  which is enough whenever the references are acyclic, and on a cycle no amount is enough.
  The range over the Go map is \<open>Build_in\<close>, with the iteration order as an argument.
\<close>

section \<open>References in a text\<close>

definition name_char :: "char \<Rightarrow> bool" where
  "name_char c \<longleftrightarrow> c \<noteq> CHR ''$'' \<and> c \<noteq> CHR ''{'' \<and> c \<noteq> CHR ''}''"

text \<open>A match of the expression at the head of the text: the name and the rest.\<close>

definition match_at :: "string \<Rightarrow> (string \<times> string) option" where
  "match_at s =
     (case s of
        d # b # t \<Rightarrow>
          if d = CHR ''$'' \<and> b = CHR ''{'' then
            (let n = takeWhile name_char t; r = dropWhile name_char t in
             case r of
               [] \<Rightarrow> None
             | e # r' \<Rightarrow> if n \<noteq> [] \<and> e = CHR ''}'' then Some (n, r') else None)
          else None
      | _ \<Rightarrow> None)"

datatype piece = Lit char | Ref string

lemma match_at_shorter: "match_at s = Some (n, r) \<Longrightarrow> length r < length s"
proof -
  assume "match_at s = Some (n, r)"
  then obtain d b t where s: "s = d # b # t" and "length r \<le> length (dropWhile name_char t)"
    by (auto simp: match_at_def Let_def split: list.splits if_splits)
  moreover have "length (dropWhile name_char t) \<le> length t"
    by (rule length_dropWhile_le)
  ultimately show ?thesis by simp
qed

function pieces :: "string \<Rightarrow> piece list" where
  "pieces s =
     (case s of
        [] \<Rightarrow> []
      | c # cs \<Rightarrow>
          (case match_at s of
             Some (n, r) \<Rightarrow> Ref n # pieces r
           | None \<Rightarrow> Lit c # pieces cs))"
  by pat_completeness auto
termination
  by (relation "measure length") (auto dest: match_at_shorter)

declare pieces.simps [simp del]

text \<open>\<open>FindAllStringSubmatch\<close> (the first group of each match) and \<open>ReplaceAllStringFunc\<close>.\<close>

definition refs :: "string \<Rightarrow> string list" where
  "refs s = concat (map (\<lambda>p. case p of Lit _ \<Rightarrow> [] | Ref n \<Rightarrow> [n]) (pieces s))"

definition replace_refs :: "(string \<Rightarrow> string) \<Rightarrow> string \<Rightarrow> string" where
  "replace_refs f s = concat (map (\<lambda>p. case p of Lit c \<Rightarrow> [c] | Ref n \<Rightarrow> f n) (pieces s))"

section \<open>The variable table\<close>

record variable =
  var_Name :: string
  var_Description :: string
  var_Value :: string
  var_Resolved :: bool

text \<open>\<open>vars_r\<close>: whether the regular expression has been compiled (\<open>r\<close> is not nil).\<close>

record variables =
  vars_m :: "(string \<times> variable) list"
  vars_r :: bool

definition NewVariables :: variables where
  "NewVariables = \<lparr>vars_m = [], vars_r = False\<rparr>"

definition Register :: "variable \<Rightarrow> variables \<Rightarrow> variables res" where
  "Register v vars =
     (case map_of (vars_m vars) (var_Name v) of
        Some _ \<Rightarrow> Inl (VarDuplicate (var_Name v))
      | None \<Rightarrow> Inr (vars\<lparr>vars_m := AList.update (var_Name v) v (vars_m vars)\<rparr>))"

definition Get :: "variables \<Rightarrow> string \<Rightarrow> string res" where
  "Get vars name =
     (case map_of (vars_m vars) name of
        None \<Rightarrow> Inl (VarNotFound name)
      | Some v \<Rightarrow> if \<not> var_Resolved v then Inl (VarUnresolved name) else Inr (var_Value v))"

definition Set_var :: "string \<Rightarrow> string \<Rightarrow> variables \<Rightarrow> variables res" where
  "Set_var name value vars =
     (case map_of (vars_m vars) name of
        None \<Rightarrow> Inl (VarNotFound name)
      | Some v \<Rightarrow>
          Inr (vars\<lparr>vars_m := AList.update name (v\<lparr>var_Value := value, var_Resolved := True\<rparr>)
                               (vars_m vars)\<rparr>))"

text \<open>The value a reference is replaced by; \<open>resolve\<close> has found every reference by then.\<close>

definition value_of :: "variables \<Rightarrow> string \<Rightarrow> string" where
  "value_of vars n = (case map_of (vars_m vars) n of None \<Rightarrow> [] | Some v \<Rightarrow> var_Value v)"

definition settle :: "string \<Rightarrow> string \<Rightarrow> variables \<Rightarrow> variables" where
  "settle name value vars =
     (case map_of (vars_m vars) name of
        None \<Rightarrow> vars
      | Some v \<Rightarrow>
          vars\<lparr>vars_m := AList.update name (v\<lparr>var_Value := value, var_Resolved := True\<rparr>)
                           (vars_m vars)\<rparr>)"

fun resolve :: "nat \<Rightarrow> string \<Rightarrow> variables \<Rightarrow> (variables \<times> string res) option"
  and resolve_all :: "nat \<Rightarrow> string list \<Rightarrow> variables \<Rightarrow> (variables \<times> unit res) option"
where
  "resolve 0 name vars = None"
| "resolve (Suc fuel) name vars =
     (case map_of (vars_m vars) name of
        None \<Rightarrow> Some (vars, Inl (VarNotDefined name))
      | Some v \<Rightarrow>
          if var_Resolved v then Some (vars, Inr (var_Value v))
          else if refs (var_Value v) = [] then
            Some (settle name (var_Value v) vars, Inr (var_Value v))
          else
            (case resolve_all fuel (refs (var_Value v)) vars of
               None \<Rightarrow> None
             | Some (vars', Inl e) \<Rightarrow> Some (vars', Inl e)
             | Some (vars', Inr _) \<Rightarrow>
                 (let value = replace_refs (value_of vars') (value_of vars' name)
                  in Some (settle name value vars', Inr value))))"
| "resolve_all fuel [] vars = Some (vars, Inr ())"
| "resolve_all fuel (n # ns) vars =
     (case resolve fuel n vars of
        None \<Rightarrow> None
      | Some (vars', Inl e) \<Rightarrow> Some (vars', Inl e)
      | Some (vars', Inr _) \<Rightarrow> resolve_all fuel ns vars')"

text \<open>\<open>Build\<close>, the variables visited in the order \<open>ks\<close>.\<close>

definition Build_in :: "nat \<Rightarrow> string list \<Rightarrow> variables \<Rightarrow> (variables \<times> unit res) option" where
  "Build_in fuel ks vars = resolve_all fuel ks (vars\<lparr>vars_r := True\<rparr>)"

definition Build_vars :: "variables \<Rightarrow> variables \<times> unit res" where
  "Build_vars vars =
     (case Build_in (Suc (length (vars_m vars))) (map fst (vars_m vars)) vars of
        None \<Rightarrow> (vars, Inl NoReturn)
      | Some r \<Rightarrow> r)"

text \<open>\<open>Rendering\<close>: the value and the first error of the replacements; its callers use the
  value when there is no error.  A call before \<open>Build\<close> dereferences a nil expression.\<close>

definition Rendering :: "variables \<Rightarrow> string \<Rightarrow> string res" where
  "Rendering vars s =
     (if \<not> vars_r vars then Inl GoPanic
      else if refs s = [] then Inr s
      else bindR (mapR (Get vars) (refs s))
             (\<lambda>_. Inr (replace_refs (\<lambda>n. case Get vars n of Inl _ \<Rightarrow> [] | Inr v \<Rightarrow> v) s)))"

section \<open>The reference semantics\<close>

text \<open>
  The value of a variable by plain expansion, without the table of results that \<open>resolve\<close>
  keeps; \<open>k\<close> bounds the depth.
\<close>

fun expand :: "nat \<Rightarrow> variables \<Rightarrow> string \<Rightarrow> string" where
  "expand 0 vars n = []"
| "expand (Suc k) vars n =
     (case map_of (vars_m vars) n of
        None \<Rightarrow> []
      | Some v \<Rightarrow>
          if var_Resolved v then var_Value v else replace_refs (expand k vars) (var_Value v))"

text \<open>Every reference of an unresolved variable is defined.\<close>

definition closed :: "variables \<Rightarrow> bool" where
  "closed vars \<longleftrightarrow>
     (\<forall>(n, v) \<in> set (vars_m vars). \<not> var_Resolved v \<longrightarrow>
        list_all (\<lambda>y. y \<in> fst ` set (vars_m vars)) (refs (var_Value v)))"

text \<open>The references go down in rank: no variable refers to itself, even indirectly.\<close>

definition ranked :: "(string \<Rightarrow> nat) \<Rightarrow> variables \<Rightarrow> bool" where
  "ranked rank vars \<longleftrightarrow>
     (\<forall>(n, v) \<in> set (vars_m vars). \<not> var_Resolved v \<longrightarrow>
        list_all (\<lambda>y. rank y < rank n) (refs (var_Value v)))"

definition acyclic_vars :: "variables \<Rightarrow> bool" where
  "acyclic_vars vars \<longleftrightarrow> (\<exists>rank. ranked rank vars)"

definition wf_vars :: "variables \<Rightarrow> bool" where
  "wf_vars vars \<longleftrightarrow> distinct (map fst (vars_m vars))"

text \<open>The table with every variable at its expanded value.\<close>

definition built :: "variables \<Rightarrow> variables" where
  "built vars =
     vars\<lparr>vars_m := map (\<lambda>(n, v). (n, v\<lparr>var_Value := expand (Suc (length (vars_m vars))) vars n,
                                       var_Resolved := True\<rparr>)) (vars_m vars),
          vars_r := True\<rparr>"

section \<open>Scanning\<close>

lemma pieces_Nil [simp]: "pieces [] = []"
  by (subst pieces.simps) simp

lemma refs_Nil [simp]: "refs [] = []"
  by (simp add: refs_def)

lemma replace_refs_cong:
  "(\<And>n. n \<in> set (refs s) \<Longrightarrow> f n = g n) \<Longrightarrow> replace_refs f s = replace_refs g s"
  unfolding replace_refs_def refs_def
  by (rule arg_cong [where f = concat], rule map_cong [OF refl]) (auto split: piece.splits)

lemma match_at_spec:
  "match_at s = Some (n, r) \<longleftrightarrow> s = ''${'' @ n @ ''}'' @ r \<and> n \<noteq> [] \<and> (\<forall>c \<in> set n. name_char c)"
proof
  assume "match_at s = Some (n, r)"
  then obtain t where s: "s = CHR ''$'' # CHR ''{'' # t" and n: "n = takeWhile name_char t"
    and r: "dropWhile name_char t = CHR ''}'' # r" and ne: "n \<noteq> []"
    by (auto simp: match_at_def Let_def split: list.splits if_splits)
  have "t = n @ ''}'' @ r"
    using takeWhile_dropWhile_id [of name_char t] n r by simp
  moreover have "\<forall>c \<in> set n. name_char c"
    unfolding n by (auto dest: set_takeWhileD)
  ultimately show "s = ''${'' @ n @ ''}'' @ r \<and> n \<noteq> [] \<and> (\<forall>c \<in> set n. name_char c)"
    using s ne by simp
next
  assume a: "s = ''${'' @ n @ ''}'' @ r \<and> n \<noteq> [] \<and> (\<forall>c \<in> set n. name_char c)"
  have b: "\<not> name_char (CHR ''}'')" by (simp add: name_char_def)
  have "takeWhile name_char (n @ CHR ''}'' # r) = n" and "dropWhile name_char (n @ CHR ''}'' # r) = CHR ''}'' # r"
    using a b by (simp_all add: takeWhile_append2 dropWhile_append2)
  with a show "match_at s = Some (n, r)"
    by (auto simp: match_at_def Let_def)
qed

lemma match_at_no_dollar: "CHR ''$'' \<noteq> c \<Longrightarrow> match_at (c # s) = None"
  by (auto simp: match_at_def split: list.splits)

lemma pieces_Ref:
  "n \<noteq> [] \<Longrightarrow> (\<forall>c \<in> set n. name_char c) \<Longrightarrow> pieces (''${'' @ n @ ''}'' @ r) = Ref n # pieces r"
  using match_at_spec [of "''${'' @ n @ ''}'' @ r" n r] by (subst pieces.simps) simp

lemma pieces_plain: "CHR ''$'' \<notin> set s \<Longrightarrow> pieces (s @ t) = map Lit s @ pieces t"
proof (induction s)
  case (Cons c s)
  then show ?case by (subst pieces.simps) (simp add: match_at_no_dollar)
qed simp

lemma refs_plain: "CHR ''$'' \<notin> set s \<Longrightarrow> refs s = []"
  using pieces_plain [of s "[]"] by (simp add: refs_def)

lemma replace_no_refs: "refs s = [] \<Longrightarrow> replace_refs f s = s"
proof (induction s rule: pieces.induct)
  case (1 s)
  show ?case
  proof (cases s)
    case Nil
    then show ?thesis by (simp add: replace_refs_def)
  next
    case (Cons c cs)
    show ?thesis
    proof (cases "match_at s")
      case None
      with Cons have p: "pieces s = Lit c # pieces cs" by (subst pieces.simps) simp
      with "1.prems" have "refs cs = []" by (simp add: refs_def)
      with "1.IH"(1) [OF Cons None] p Cons show ?thesis by (simp add: replace_refs_def)
    next
      case (Some nr)
      with Cons "1.prems" have False
        by (cases nr, subst (asm) refs_def, subst (asm) pieces.simps) simp
      then show ?thesis ..
    qed
  qed
qed

section \<open>Resolution computes the expansion\<close>

abbreviation lookup_var :: "variables \<Rightarrow> string \<Rightarrow> variable option" where
  "lookup_var vars n \<equiv> map_of (vars_m vars) n"

lemma lookup_settle [simp]:
  "lookup_var (settle n x s) m =
     (if m = n then map_option (\<lambda>v. v\<lparr>var_Value := x, var_Resolved := True\<rparr>) (lookup_var s m)
      else lookup_var s m)"
  by (simp add: settle_def split: option.splits)

lemma keys_settle [simp]: "map fst (vars_m (settle n x s)) = map fst (vars_m s)"
  by (cases "lookup_var s n") (auto simp: settle_def)

lemma vars_r_settle [simp]: "vars_r (settle n x s) = vars_r s"
  by (simp add: settle_def split: option.splits)

text \<open>
  \<open>sol\<close> assigns each variable its value: that of a resolved one, and for an unresolved one its
  text with the references, all defined and of smaller rank, replaced by their values.
\<close>

definition solves :: "(string \<Rightarrow> nat) \<Rightarrow> (string \<Rightarrow> string) \<Rightarrow> variables \<Rightarrow> bool" where
  "solves rank sol s \<longleftrightarrow>
     (\<forall>n v. lookup_var s n = Some v \<longrightarrow>
        (if var_Resolved v then sol n = var_Value v
         else sol n = replace_refs sol (var_Value v) \<and>
              (\<forall>y \<in> set (refs (var_Value v)). lookup_var s y \<noteq> None \<and> rank y < rank n)))"

text \<open>What a call may change: unresolved variables of rank below \<open>b\<close> become resolved, at
  their value under \<open>sol\<close>.\<close>

definition progress ::
  "(string \<Rightarrow> nat) \<Rightarrow> (string \<Rightarrow> string) \<Rightarrow> nat \<Rightarrow> variables \<Rightarrow> variables \<Rightarrow> bool" where
  "progress rank sol b s s' \<longleftrightarrow>
     map fst (vars_m s') = map fst (vars_m s) \<and> vars_r s' = vars_r s \<and>
     (\<forall>n v. lookup_var s n = Some v \<longrightarrow>
        lookup_var s' n = Some v \<or>
        \<not> var_Resolved v \<and> rank n < b \<and>
        lookup_var s' n = Some (v\<lparr>var_Value := sol n, var_Resolved := True\<rparr>))"

definition resolved_in :: "variables \<Rightarrow> string \<Rightarrow> bool" where
  "resolved_in s n \<longleftrightarrow> (\<exists>v. lookup_var s n = Some v \<and> var_Resolved v)"

lemma progress_refl: "progress rank sol b s s"
  by (simp add: progress_def)

lemma progress_mono: "progress rank sol b s s' \<Longrightarrow> b \<le> b' \<Longrightarrow> progress rank sol b' s s'"
  by (force simp: progress_def)

lemma progress_trans:
  "progress rank sol b s t \<Longrightarrow> progress rank sol b t u \<Longrightarrow> progress rank sol b s u"
  unfolding progress_def by fastforce

lemma progress_keys: "progress rank sol b s s' \<Longrightarrow> lookup_var s' n = None \<longleftrightarrow> lookup_var s n = None"
  by (rule same_keys_None) (simp add: progress_def)

lemma progress_resolved: "progress rank sol b s s' \<Longrightarrow> resolved_in s n \<Longrightarrow> resolved_in s' n"
  unfolding progress_def resolved_in_def by fastforce

lemma progress_solves:
  assumes "progress rank sol b s s'" and "solves rank sol s"
  shows "solves rank sol s'"
  unfolding solves_def
proof (intro allI impI)
  fix n v' assume v': "lookup_var s' n = Some v'"
  then obtain v where v: "lookup_var s n = Some v"
    using progress_keys [OF assms(1), of n] by (cases "lookup_var s n") auto
  have "v' = v \<or> v' = v\<lparr>var_Value := sol n, var_Resolved := True\<rparr>"
    using assms(1) v v' unfolding progress_def by fastforce
  then show "if var_Resolved v' then sol n = var_Value v'
    else sol n = replace_refs sol (var_Value v') \<and>
         (\<forall>y \<in> set (refs (var_Value v')). lookup_var s' y \<noteq> None \<and> rank y < rank n)"
    using assms(2) [unfolded solves_def, rule_format, OF v]
    by (auto simp: progress_keys [OF assms(1)] simp del: not_None_eq)
qed

lemma value_of_resolved: "solves rank sol s \<Longrightarrow> resolved_in s n \<Longrightarrow> value_of s n = sol n"
  by (auto simp: solves_def resolved_in_def value_of_def)

lemma settle_progress:
  assumes "lookup_var s n = Some v" and "\<not> var_Resolved v"
  shows "progress rank sol (Suc (rank n)) s (settle n (sol n) s)"
  using assms by (auto simp: progress_def)

lemma resolved_settle: "lookup_var s n \<noteq> None \<Longrightarrow> resolved_in (settle n x s) n"
  by (auto simp: resolved_in_def)

text \<open>With fuel above the rank, a call returns the value and leaves the variable resolved.\<close>

lemma resolve_correct:
  "solves rank sol s \<Longrightarrow> lookup_var s name \<noteq> None \<Longrightarrow> rank name < fuel \<Longrightarrow>
     \<exists>s'. resolve fuel name s = Some (s', Inr (sol name)) \<and>
          progress rank sol (Suc (rank name)) s s' \<and> resolved_in s' name"
  "solves rank sol s \<Longrightarrow> \<forall>n \<in> set ns. lookup_var s n \<noteq> None \<and> rank n < fuel \<and> rank n < b \<Longrightarrow>
     \<exists>s'. resolve_all fuel ns s = Some (s', Inr ()) \<and>
          progress rank sol b s s' \<and> (\<forall>n \<in> set ns. resolved_in s' n)"
proof (induction fuel name s and fuel ns s arbitrary: and b rule: resolve_resolve_all.induct)
  case (2 fuel name s)
  from "2.prems"(2) obtain v where v: "lookup_var s name = Some v" by auto
  show ?case
  proof (cases "var_Resolved v \<or> refs (var_Value v) = []")
    case True
    have "if var_Resolved v then sol name = var_Value v else sol name = replace_refs sol (var_Value v)"
      using "2.prems"(1) v by (auto simp: solves_def)
    with True have sol: "var_Value v = sol name"
      by (auto simp: replace_no_refs split: if_splits)
    show ?thesis
    proof (cases "var_Resolved v")
      case True
      with v sol show ?thesis by (simp add: progress_refl resolved_in_def)
    next
      case False
      with v sol True show ?thesis
        by (simp add: settle_progress [OF v False] resolved_settle)
    qed
  next
    case False
    with v "2.prems"(1) have sol: "sol name = replace_refs sol (var_Value v)"
      and refs: "\<forall>y \<in> set (refs (var_Value v)). lookup_var s y \<noteq> None \<and> rank y < rank name"
      by (auto simp: solves_def)
    with "2.prems"(3) have "\<forall>y \<in> set (refs (var_Value v)).
        lookup_var s y \<noteq> None \<and> rank y < fuel \<and> rank y < rank name" by fastforce
    with "2.IH" [OF v] False "2.prems"(1) obtain t where
      t: "resolve_all fuel (refs (var_Value v)) s = Some (t, Inr ())"
        "progress rank sol (rank name) s t" "\<forall>y \<in> set (refs (var_Value v)). resolved_in t y"
      by blast
    have vt: "lookup_var t name = Some v"
      using t(2) v unfolding progress_def by fastforce
    have "replace_refs (value_of t) (value_of t name) = sol name"
      unfolding sol using vt t(3) value_of_resolved [OF progress_solves [OF t(2) "2.prems"(1)]]
      by (auto simp: value_of_def [of t name] intro: replace_refs_cong)
    moreover have "progress rank sol (Suc (rank name)) s (settle name (sol name) t)"
      using progress_trans [OF progress_mono [OF t(2)] settle_progress [OF vt]] False by simp
    ultimately show ?thesis
      using False v t(1) vt by (simp add: Let_def resolved_settle)
  qed
next
  case (4 fuel n ns s)
  from "4.prems"(2) have n: "lookup_var s n \<noteq> None" "rank n < fuel" "Suc (rank n) \<le> b" by auto
  from "4.IH"(1) [OF "4.prems"(1) n(1,2)] obtain t where
    t: "resolve fuel n s = Some (t, Inr (sol n))" "progress rank sol (Suc (rank n)) s t"
      "resolved_in t n" by blast
  have p: "progress rank sol b s t" by (rule progress_mono [OF t(2) n(3)])
  have "\<forall>m \<in> set ns. lookup_var t m \<noteq> None \<and> rank m < fuel \<and> rank m < b"
    using "4.prems"(2) progress_keys [OF p] by auto
  from "4.IH"(2) [OF t(1) refl refl progress_solves [OF p "4.prems"(1)] this]
  obtain u where u: "resolve_all fuel ns t = Some (u, Inr ())" "progress rank sol b t u"
    "\<forall>m \<in> set ns. resolved_in u m" by blast
  have "progress rank sol b s u" by (rule progress_trans [OF p u(2)])
  with u t show ?case by (auto intro: progress_resolved)
qed (auto simp: progress_refl)

section \<open>Acyclic tables have a solution\<close>

lemma expand_stable:
  assumes "\<And>n v. lookup_var s n = Some v \<Longrightarrow> \<not> var_Resolved v \<Longrightarrow>
             \<forall>y \<in> set (refs (var_Value v)). rank y < rank n"
  shows "rank n < j \<Longrightarrow> rank n < k \<Longrightarrow> expand j s n = expand k s n"
proof (induction j arbitrary: k n)
  case (Suc j)
  then obtain k' where k: "k = Suc k'" by (cases k) auto
  show ?case
  proof (cases "lookup_var s n")
    case (Some v)
    have "replace_refs (expand j s) (var_Value v) = replace_refs (expand k' s) (var_Value v)"
      if "\<not> var_Resolved v"
    proof (rule replace_refs_cong)
      fix y assume "y \<in> set (refs (var_Value v))"
      with assms Some that have "rank y < rank n" by blast
      with Suc.prems k show "expand j s y = expand k' s y" by (intro Suc.IH) auto
    qed
    with Some k show ?thesis by simp
  qed (simp add: k)
qed simp

lemma closed_lookup:
  "closed s \<Longrightarrow> lookup_var s n = Some v \<Longrightarrow> \<not> var_Resolved v \<Longrightarrow> y \<in> set (refs (var_Value v)) \<Longrightarrow>
     lookup_var s y \<noteq> None"
  unfolding closed_def list_all_iff map_of_eq_None_iff by (blast dest: map_of_SomeD)

lemma ranked_lookup:
  "ranked rank s \<Longrightarrow> lookup_var s n = Some v \<Longrightarrow> \<not> var_Resolved v \<Longrightarrow> y \<in> set (refs (var_Value v)) \<Longrightarrow>
     rank y < rank n"
  unfolding ranked_def list_all_iff by (blast dest: map_of_SomeD)

text \<open>Ranks can be chosen below the number of variables: count the variables of lower rank.\<close>

definition compressed :: "(string \<Rightarrow> nat) \<Rightarrow> variables \<Rightarrow> string \<Rightarrow> nat" where
  "compressed rank s n = card {m \<in> fst ` set (vars_m s). rank m < rank n}"

lemma compressed_less:
  assumes "lookup_var s y \<noteq> None" and "rank y < rank n"
  shows "compressed rank s y < compressed rank s n"
  unfolding compressed_def
proof (rule psubset_card_mono)
  have "y \<in> fst ` set (vars_m s)" using assms(1) by (auto simp: map_of_eq_None_iff)
  then show "{m \<in> fst ` set (vars_m s). rank m < rank y} \<subset> {m \<in> fst ` set (vars_m s). rank m < rank n}"
    using assms(2) by fastforce
qed simp

lemma compressed_bound: "lookup_var s n \<noteq> None \<Longrightarrow> compressed rank s n < length (vars_m s)"
proof -
  assume "lookup_var s n \<noteq> None"
  then have "{m \<in> fst ` set (vars_m s). rank m < rank n} \<subset> fst ` set (vars_m s)"
    by (auto simp: map_of_eq_None_iff)
  then have "compressed rank s n < card (fst ` set (vars_m s))"
    unfolding compressed_def by (intro psubset_card_mono) auto
  also have "\<dots> \<le> length (vars_m s)"
    by (metis card_length length_map list.set_map)
  finally show ?thesis .
qed

lemma acyclic_solves:
  assumes "closed s" and "ranked rank s"
  shows "solves (compressed rank s) (expand (Suc (length (vars_m s))) s) s"
  unfolding solves_def
proof (intro allI impI)
  fix n v assume v: "lookup_var s n = Some v"
  let ?sol = "expand (Suc (length (vars_m s))) s"
  have down: "\<forall>y \<in> set (refs (var_Value v)). lookup_var s y \<noteq> None \<and> compressed rank s y < compressed rank s n"
    if "lookup_var s n = Some v" "\<not> var_Resolved v" for n v
    using that closed_lookup [OF assms(1)] ranked_lookup [OF assms(2)] compressed_less by blast
  have "replace_refs (expand (length (vars_m s)) s) (var_Value v) = replace_refs ?sol (var_Value v)"
    if "\<not> var_Resolved v"
    by (rule replace_refs_cong, rule expand_stable [where rank = "compressed rank s"])
       (use down v that compressed_bound in \<open>auto intro: less_SucI simp del: not_None_eq\<close>)
  with v down [OF v] show "if var_Resolved v then ?sol n = var_Value v
     else ?sol n = replace_refs ?sol (var_Value v) \<and>
          (\<forall>y \<in> set (refs (var_Value v)). lookup_var s y \<noteq> None \<and>
             compressed rank s y < compressed rank s n)"
    by simp
qed

section \<open>What Build does\<close>

lemma built_unique:
  assumes "wf_vars s" and p: "progress rank (expand (Suc (length (vars_m s))) s) b s s'"
    and sol: "solves rank (expand (Suc (length (vars_m s))) s) s"
    and res: "\<And>n. lookup_var s n \<noteq> None \<Longrightarrow> resolved_in s' n"
  shows "s'\<lparr>vars_r := True\<rparr> = built s"
proof -
  let ?e = "expand (Suc (length (vars_m s))) s"
  have "vars_m s' = map (\<lambda>(n, v). (n, v\<lparr>var_Value := ?e n, var_Resolved := True\<rparr>)) (vars_m s)"
  proof (rule alist_eqI)
    show "distinct (map fst (vars_m s))" using assms(1) by (simp add: wf_vars_def)
    show "map fst (vars_m s') = map fst (vars_m s)" using p by (simp add: progress_def)
    fix n v assume v: "lookup_var s n = Some v"
    then obtain v' where v': "lookup_var s' n = Some v'" "var_Resolved v'"
      using res [of n] by (auto simp: resolved_in_def)
    have "v' = v \<or> v' = v\<lparr>var_Value := ?e n, var_Resolved := True\<rparr>"
      using p v v'(1) unfolding progress_def by fastforce
    moreover have "v = v\<lparr>var_Value := ?e n, var_Resolved := True\<rparr>" if "v' = v"
    proof -
      have "?e n = var_Value v" using sol v v'(2) that unfolding solves_def by fastforce
      with v'(2) that show ?thesis by simp
    qed
    ultimately show "lookup_var s' n = Some (v\<lparr>var_Value := ?e n, var_Resolved := True\<rparr>)"
      using v'(1) by metis
  qed
  then show ?thesis by (simp add: built_def)
qed

lemma progress_vars_r: "progress rank sol b s s' \<Longrightarrow> vars_r s' = vars_r s"
  by (simp add: progress_def)

lemma expand_vars_r [simp]: "expand k (s\<lparr>vars_r := b\<rparr>) = expand k s"
proof (rule ext)
  show "expand k (s\<lparr>vars_r := b\<rparr>) n = expand k s n" for n
    by (induction k arbitrary: n) (auto intro: replace_refs_cong split: option.splits)
qed

text \<open>The order in which the variables are visited does not matter.\<close>

lemma Build_in_built:
  assumes "wf_vars s" and "closed s" and "acyclic_vars s"
    and "set ks = fst ` set (vars_m s)" and "length (vars_m s) \<le> fuel"
  shows "Build_in fuel ks s = Some (built s, Inr ())"
proof -
  let ?s = "s\<lparr>vars_r := True\<rparr>" and ?e = "expand (Suc (length (vars_m s))) s"
  obtain rank where r: "ranked rank ?s"
    using assms(3) by (auto simp: acyclic_vars_def ranked_def)
  have c: "closed ?s" using assms(2) by (simp add: closed_def)
  let ?r = "compressed rank ?s"
  have sol: "solves ?r ?e ?s" using acyclic_solves [OF c r] by simp
  have "lookup_var ?s n \<noteq> None \<and> ?r n < fuel" if "n \<in> set ks" for n
    using assms(4,5) compressed_bound [of ?s n rank] that
    by (simp add: map_of_eq_None_iff del: not_None_eq)
  then have "\<forall>n \<in> set ks. lookup_var ?s n \<noteq> None \<and> ?r n < fuel \<and> ?r n < fuel" by blast
  from resolve_correct(2) [OF sol this] obtain s' where
    s': "resolve_all fuel ks ?s = Some (s', Inr ())" "progress ?r ?e fuel ?s s'"
      "\<forall>n \<in> set ks. resolved_in s' n" by blast
  have "s'\<lparr>vars_r := True\<rparr> = built ?s"
  proof (rule built_unique)
    show "wf_vars ?s" using assms(1) by (simp add: wf_vars_def)
    show "progress ?r (expand (Suc (length (vars_m ?s))) ?s) fuel ?s s'" using s'(2) by simp
    show "solves ?r (expand (Suc (length (vars_m ?s))) ?s) ?s" using sol by simp
    show "resolved_in s' n" if "lookup_var ?s n \<noteq> None" for n
      using that s'(3) assms(4) by (auto simp: map_of_eq_None_iff simp del: not_None_eq)
  qed
  moreover have "s'\<lparr>vars_r := True\<rparr> = s'"
    using progress_vars_r [OF s'(2)] by simp
  ultimately show ?thesis
    using s'(1) by (simp add: Build_in_def built_def)
qed

section \<open>Cycles and undefined references\<close>

text \<open>Every variable of the set is unresolved and refers to a variable of the set.\<close>

definition cyclic_in :: "string set \<Rightarrow> variables \<Rightarrow> bool" where
  "cyclic_in C s \<longleftrightarrow>
     (\<forall>n \<in> C. case lookup_var s n of
        None \<Rightarrow> False
      | Some v \<Rightarrow> \<not> var_Resolved v \<and> set (refs (var_Value v)) \<inter> C \<noteq> {})"

definition closed_at :: "variables \<Rightarrow> bool" where
  "closed_at s \<longleftrightarrow>
     (\<forall>n v y. lookup_var s n = Some v \<longrightarrow> \<not> var_Resolved v \<longrightarrow> y \<in> set (refs (var_Value v)) \<longrightarrow>
        lookup_var s y \<noteq> None)"

lemma closed_at_settle: "closed_at s \<Longrightarrow> closed_at (settle n x s)"
  unfolding closed_at_def by (auto split: if_splits simp del: not_None_eq)

lemma cyclic_in_settle: "cyclic_in C s \<Longrightarrow> n \<notin> C \<Longrightarrow> cyclic_in C (settle n x s)"
  unfolding cyclic_in_def by (auto split: option.splits)

lemma resolve_stuck:
  "cyclic_in C s \<Longrightarrow> closed_at s \<Longrightarrow> lookup_var s name \<noteq> None \<Longrightarrow>
     (name \<in> C \<longrightarrow> resolve fuel name s = None) \<and>
     (\<forall>s' r. resolve fuel name s = Some (s', r) \<longrightarrow>
        (\<exists>x. r = Inr x) \<and> cyclic_in C s' \<and> closed_at s' \<and> map fst (vars_m s') = map fst (vars_m s))"
  "cyclic_in C s \<Longrightarrow> closed_at s \<Longrightarrow> \<forall>n \<in> set ns. lookup_var s n \<noteq> None \<Longrightarrow>
     (set ns \<inter> C \<noteq> {} \<longrightarrow> resolve_all fuel ns s = None) \<and>
     (\<forall>s' r. resolve_all fuel ns s = Some (s', r) \<longrightarrow>
        r = Inr () \<and> cyclic_in C s' \<and> closed_at s' \<and> map fst (vars_m s') = map fst (vars_m s))"
proof (induction fuel name s and fuel ns s rule: resolve_resolve_all.induct)
  case (2 fuel name s)
  from "2.prems"(3) obtain v where v: "lookup_var s name = Some v" by auto
  show ?case
  proof (cases "var_Resolved v \<or> refs (var_Value v) = []")
    case True
    with "2.prems"(1) v have "name \<notin> C" by (auto simp: cyclic_in_def)
    with True v "2.prems"(1,2) show ?thesis
      by (auto simp: closed_at_settle cyclic_in_settle)
  next
    case False
    have "\<forall>y \<in> set (refs (var_Value v)). lookup_var s y \<noteq> None"
      using "2.prems"(2) v False unfolding closed_at_def by blast
    note IH = "2.IH" [OF v _ _ "2.prems"(1,2) this]
    have "resolve_all fuel (refs (var_Value v)) s = None" if "name \<in> C"
      using IH False that "2.prems"(1) v by (auto simp: cyclic_in_def)
    moreover have "cyclic_in C (settle name x t)" "closed_at (settle name x t)"
      "map fst (vars_m (settle name x t)) = map fst (vars_m s)"
      if "resolve_all fuel (refs (var_Value v)) s = Some (t, q)" for t q x
      using IH False that calculation by (auto intro: cyclic_in_settle closed_at_settle)
    moreover have "q = Inr ()" if "resolve_all fuel (refs (var_Value v)) s = Some (t, q)" for t q
      using IH False that by auto
    ultimately show ?thesis
      using False v
      by (cases "resolve_all fuel (refs (var_Value v)) s") (auto simp: Let_def)
  qed
next
  case (4 fuel n ns s)
  then have n: "lookup_var s n \<noteq> None" by simp
  note IH1 = "4.IH"(1) [OF "4.prems"(1,2) n]
  show ?case
  proof (cases "resolve fuel n s")
    case None
    then show ?thesis by simp
  next
    case (Some p)
    then obtain t x where t: "resolve fuel n s = Some (t, Inr x)" "cyclic_in C t" "closed_at t"
      "map fst (vars_m t) = map fst (vars_m s)" and "n \<notin> C"
      using IH1 by (cases p) auto
    have "\<forall>m \<in> set ns. lookup_var t m \<noteq> None"
      using "4.prems"(3) by (simp add: same_keys_None [OF t(4)] del: not_None_eq)
    note IH2 = "4.IH"(2) [OF t(1) refl refl t(2,3) this]
    with t \<open>n \<notin> C\<close> show ?thesis
      by (simp del: not_None_eq)
  qed
qed auto

text \<open>A reference to a name that is not defined is never resolved.\<close>

lemma resolve_frame:
  "resolve fuel name s = Some (s', r) \<Longrightarrow>
     map fst (vars_m s') = map fst (vars_m s) \<and> vars_r s' = vars_r s \<and>
     (\<forall>n v. lookup_var s n = Some v \<and> var_Resolved v \<longrightarrow> lookup_var s' n = Some v) \<and>
     (\<forall>x. r = Inr x \<longrightarrow> lookup_var s name \<noteq> None)"
  "resolve_all fuel ns s = Some (s', q) \<Longrightarrow>
     map fst (vars_m s') = map fst (vars_m s) \<and> vars_r s' = vars_r s \<and>
     (\<forall>n v. lookup_var s n = Some v \<and> var_Resolved v \<longrightarrow> lookup_var s' n = Some v) \<and>
     (q = Inr () \<longrightarrow> (\<forall>n \<in> set ns. lookup_var s n \<noteq> None))"
proof (induction fuel name s and fuel ns s arbitrary: s' r and s' q rule: resolve_resolve_all.induct)
  case (2 fuel name s)
  show ?case
  proof (cases "lookup_var s name")
    case None
    with "2.prems" show ?thesis by auto
  next
    case (Some v)
    show ?thesis
    proof (cases "var_Resolved v \<or> refs (var_Value v) = []")
      case True
      with "2.prems" Some show ?thesis by (auto split: if_splits)
    next
      case False
      with "2.prems" Some obtain t q where t: "resolve_all fuel (refs (var_Value v)) s = Some (t, q)"
        by (auto split: option.splits)
      note IH = "2.IH" [OF Some _ _ t]
      from IH False have vt: "lookup_var t name \<noteq> None"
        using Some same_keys_None [of "vars_m t" "vars_m s" name] by auto
      from t False Some "2.prems" IH vt show ?thesis
        by (cases q) (auto simp: Let_def)
    qed
  qed
next
  case (4 fuel n ns s)
  from "4.prems" obtain t x where t: "resolve fuel n s = Some (t, x)"
    by (auto split: option.splits)
  note IH1 = "4.IH"(1) [OF t]
  show ?case
  proof (cases x)
    case (Inl e)
    with t "4.prems" IH1 show ?thesis by auto
  next
    case (Inr y)
    with t "4.prems" have u: "resolve_all fuel ns t = Some (s', q)" by simp
    note IH2 = "4.IH"(2) [OF t refl Inr u]
    have "lookup_var t m = None \<longleftrightarrow> lookup_var s m = None" for m
      using IH1 by (intro same_keys_None) simp
    with IH1 IH2 Inr show ?thesis by auto
  qed
qed auto

section \<open>The promises of the package\<close>

definition demo_vars :: variables where
  "demo_vars =
     \<lparr>vars_m =
        [(''a'', \<lparr>var_Name = ''a'', var_Description = [], var_Value = ''x${b}'', var_Resolved = False\<rparr>),
         (''b'', \<lparr>var_Name = ''b'', var_Description = [], var_Value = ''y'', var_Resolved = False\<rparr>)],
      vars_r = False\<rparr>"

definition demo_rank :: "string \<Rightarrow> nat" where
  "demo_rank n = (if n = ''a'' then 1 else 0)"

lemma demo_vars_ok:
  "wf_vars demo_vars" "closed demo_vars" "acyclic_vars demo_vars"
proof -
  show "wf_vars demo_vars" by code_simp
  show "closed demo_vars" by code_simp
  have "ranked demo_rank demo_vars" by code_simp
  then show "acyclic_vars demo_vars" by (auto simp: acyclic_vars_def)
qed

text \<open>
  C9: when every reference is defined and no variable refers to itself, even indirectly,
  \<open>Build\<close> succeeds whatever the order in which it ranges over the map, and leaves each
  variable resolved at its full expansion.
\<close>

theorem Build_expands:
  assumes "wf_vars s" and "closed s" and "acyclic_vars s"
  shows "(\<forall>fuel ks. set ks = fst ` set (vars_m s) \<and> length (vars_m s) \<le> fuel \<longrightarrow>
            Build_in fuel ks s = Some (built s, Inr ())) \<and>
         Build_vars s = (built s, Inr ())"
  using Build_in_built [OF assms] by (auto simp: Build_vars_def)

theorem Build_expands_witness:
  "Build_vars demo_vars = (built demo_vars, Inr ()) \<and>
   Build_in 2 [''b'', ''a''] demo_vars = Some (built demo_vars, Inr ()) \<and>
   map (\<lambda>(n, v). (n, var_Value v)) (vars_m (built demo_vars)) = [(''a'', ''xy''), (''b'', ''y'')]"
proof -
  have "set [''b'', ''a''] = fst ` set (vars_m demo_vars)" "length (vars_m demo_vars) \<le> 2"
    by code_simp+
  with Build_expands [OF demo_vars_ok] have "Build_in 2 [''b'', ''a''] demo_vars = Some (built demo_vars, Inr ())"
    by blast
  moreover have "map (\<lambda>(n, v). (n, var_Value v)) (vars_m (built demo_vars)) = [(''a'', ''xy''), (''b'', ''y'')]"
    by code_simp
  ultimately show ?thesis
    using Build_expands [OF demo_vars_ok] by simp
qed

lemma lookup_built:
  "lookup_var (built s) n =
     map_option (\<lambda>v. v\<lparr>var_Value := expand (Suc (length (vars_m s))) s n, var_Resolved := True\<rparr>)
       (lookup_var s n)"
proof -
  have "map_of (map (\<lambda>(k, v). (k, f k v)) m) n = map_option (f n) (map_of m n)"
    for f :: "string \<Rightarrow> variable \<Rightarrow> variable" and m
    by (induction m) auto
  then show ?thesis by (simp add: built_def)
qed

text \<open>
  The table that \<open>Build\<close> leaves is a fixed point: the value of each variable is the text
  it was registered with, each reference replaced by the final value of the variable it names.
\<close>

theorem Build_fixpoint:
  assumes "wf_vars s" and "closed s" and "acyclic_vars s" and "lookup_var s n = Some v"
    and "Build_vars s = (s', r)"
  shows "Get s' n =
           Inr (if var_Resolved v then var_Value v else replace_refs (value_of s') (var_Value v))"
proof -
  let ?e = "expand (Suc (length (vars_m s))) s"
  obtain rank where "ranked rank s" using assms(3) by (auto simp: acyclic_vars_def)
  from acyclic_solves [OF assms(2) this] have
    sol: "?e n = (if var_Resolved v then var_Value v else replace_refs ?e (var_Value v))"
    using assms(4) by (auto simp: solves_def simp del: expand.simps)
  have s': "s' = built s"
    using Build_in_built [OF assms(1-3)] assms(5) by (simp add: Build_vars_def)
  have "value_of s' y = ?e y" if "y \<in> set (refs (var_Value v))" "\<not> var_Resolved v" for y
    using closed_lookup [OF assms(2,4) that(2,1)] by (auto simp: s' value_of_def lookup_built simp del: expand.simps)
  then have "replace_refs (value_of s') (var_Value v) = replace_refs ?e (var_Value v)"
    if "\<not> var_Resolved v"
    using that by (intro replace_refs_cong) auto
  then show ?thesis
    using sol assms(4) by (auto simp: Get_def s' lookup_built simp del: expand.simps)
qed

theorem Build_fixpoint_witness:
  "Get (fst (Build_vars demo_vars)) ''a'' =
     Inr (replace_refs (value_of (fst (Build_vars demo_vars))) ''x${b}'')"
proof -
  obtain v where v: "lookup_var demo_vars ''a'' = Some v" "\<not> var_Resolved v" "var_Value v = ''x${b}''"
    by (simp add: demo_vars_def)
  show ?thesis
    using Build_fixpoint [OF demo_vars_ok v(1) surjective_pairing] v(2,3) by simp
qed


definition cycle_vars :: variables where
  "cycle_vars =
     \<lparr>vars_m =
        [(''service_port'', \<lparr>var_Name = ''service_port'', var_Description = [],
            var_Value = ''${service_port}'', var_Resolved = False\<rparr>)],
      vars_r = False\<rparr>"


text \<open>A variable with a reference to a name that is not defined stays as it is.\<close>

definition dangling :: "string \<Rightarrow> string \<Rightarrow> variables \<Rightarrow> bool" where
  "dangling n y s \<longleftrightarrow>
     (case lookup_var s n of
        None \<Rightarrow> False
      | Some v \<Rightarrow> \<not> var_Resolved v \<and> y \<in> set (refs (var_Value v))) \<and>
     lookup_var s y = None"

lemma dangling_settle: "dangling n y s \<Longrightarrow> m \<noteq> n \<Longrightarrow> dangling n y (settle m x s)"
  by (auto simp: dangling_def split: option.splits)

lemma resolve_dangling:
  "dangling n y s \<Longrightarrow> resolve fuel m s = Some (s', r) \<Longrightarrow>
     dangling n y s' \<and> (\<forall>x. r = Inr x \<longrightarrow> m \<noteq> n \<and> m \<noteq> y)"
  "dangling n y s \<Longrightarrow> resolve_all fuel ns s = Some (s', q) \<Longrightarrow>
     dangling n y s' \<and> (q = Inr () \<longrightarrow> n \<notin> set ns \<and> y \<notin> set ns)"
proof (induction fuel m s and fuel ns s arbitrary: s' r and s' q rule: resolve_resolve_all.induct)
  case (2 fuel m s)
  show ?case
  proof (cases "lookup_var s m")
    case None
    with "2.prems" show ?thesis by (auto simp: dangling_def)
  next
    case (Some v)
    with "2.prems"(1) have y: "m \<noteq> y" by (auto simp: dangling_def)
    show ?thesis
    proof (cases "var_Resolved v \<or> refs (var_Value v) = []")
      case True
      with Some "2.prems"(1) have "m \<noteq> n" by (auto simp: dangling_def)
      with True Some "2.prems" y show ?thesis by (auto simp: dangling_settle split: if_splits)
    next
      case False
      with "2.prems"(2) Some obtain t q where t: "resolve_all fuel (refs (var_Value v)) s = Some (t, q)"
        by (auto split: option.splits)
      from "2.IH" [OF Some _ _ "2.prems"(1) t] False
      have IH: "dangling n y t" "q = Inr () \<longrightarrow> y \<notin> set (refs (var_Value v))" by auto
      with Some "2.prems"(1) have "q = Inr () \<longrightarrow> m \<noteq> n" by (auto simp: dangling_def)
      with IH t False Some "2.prems"(2) y show ?thesis
        by (cases q) (auto simp: Let_def dangling_settle)
    qed
  qed
next
  case (4 fuel m ns s)
  from "4.prems"(2) obtain t x where t: "resolve fuel m s = Some (t, x)"
    by (auto split: option.splits)
  note IH1 = "4.IH"(1) [OF "4.prems"(1) t]
  show ?case
  proof (cases x)
    case (Inl e)
    with t "4.prems" IH1 show ?thesis by auto
  next
    case (Inr z)
    with t "4.prems"(2) have "resolve_all fuel ns t = Some (s', q)" by simp
    with "4.IH"(2) [OF t refl Inr] IH1 Inr show ?thesis by auto
  qed
qed auto

text \<open>
  A variable that refers to a name that is not registered is never resolved: no call
  returns a value for it, and \<open>Build\<close> does not succeed.
\<close>

theorem undefined_reference_fails:
  assumes "dangling n y s"
  shows "resolve fuel n s \<noteq> Some (s', Inr x) \<and> snd (Build_vars s) \<noteq> Inr ()"
proof -
  have "dangling n y (s\<lparr>vars_r := True\<rparr>)" using assms by (simp add: dangling_def)
  note all = resolve_dangling(2) [OF this]
  have "n \<in> set (map fst (vars_m s))"
    using assms by (force simp: dangling_def split: option.splits dest: map_of_SomeD)
  then have "Build_in f (map fst (vars_m s)) s \<noteq> Some (t, Inr ())" for f t
    using all [of f "map fst (vars_m s)" t "Inr ()"] by (auto simp: Build_in_def)
  then show ?thesis
    using resolve_dangling(1) [OF assms, of fuel n s' "Inr x"]
    by (auto simp: Build_vars_def split: option.splits)
qed

theorem undefined_reference_fails_witness:
  "resolve 5 ''a'' (demo_vars\<lparr>vars_m := [hd (vars_m demo_vars)]\<rparr>) =
     Some (demo_vars\<lparr>vars_m := [hd (vars_m demo_vars)]\<rparr>, Inl (VarNotDefined ''b'')) \<and>
   snd (Build_vars (demo_vars\<lparr>vars_m := [hd (vars_m demo_vars)]\<rparr>)) \<noteq> Inr ()"
proof -
  have "dangling ''a'' ''b'' (demo_vars\<lparr>vars_m := [hd (vars_m demo_vars)]\<rparr>)" by code_simp
  from undefined_reference_fails [OF this] show ?thesis by code_simp
qed

text \<open>
  Once \<open>Build\<close> has succeeded on a table without cycles and undefined references,
  \<open>Rendering\<close> replaces the references of any text by the values of the variables, and its
  error is that of the first name the text uses that is not registered.
\<close>

theorem Rendering_after_Build:
  assumes "wf_vars s" and "closed s" and "acyclic_vars s" and "Build_vars s = (s', r)"
  shows "Rendering s' t =
           (case filter (\<lambda>n. lookup_var s n = None) (refs t) of
              [] \<Rightarrow> Inr (replace_refs (value_of s') t)
            | n # _ \<Rightarrow> Inl (VarNotFound n))"
proof -
  have s': "s' = built s"
    using Build_in_built [OF assms(1-3)] assms(4) by (simp add: Build_vars_def)
  have get: "Get s' n = (if lookup_var s n = None then Inl (VarNotFound n) else Inr (value_of s' n))" for n
    by (auto simp: Get_def s' lookup_built value_of_def split: option.splits simp del: expand.simps)
  have all: "mapR (Get s') ns = (case filter (\<lambda>n. lookup_var s n = None) ns of
      [] \<Rightarrow> Inr (map (value_of s') ns) | n # _ \<Rightarrow> Inl (VarNotFound n))" for ns
    by (induction ns) (auto simp: get split: list.splits)
  have "replace_refs (\<lambda>n. case Get s' n of Inl _ \<Rightarrow> [] | Inr v \<Rightarrow> v) t = replace_refs (value_of s') t"
    if "filter (\<lambda>n. lookup_var s n = None) (refs t) = []"
    using that by (intro replace_refs_cong) (auto simp: get filter_empty_conv)
  then show ?thesis
    by (auto simp: Rendering_def all replace_no_refs s' [THEN arg_cong [where f = vars_r]] built_def
             split: list.splits)
qed

theorem Rendering_after_Build_witness:
  "Rendering (fst (Build_vars demo_vars)) ''v=${a}'' = Inr ''v=xy'' \<and>
   Rendering (fst (Build_vars demo_vars)) ''${a}${c}${d}'' = Inl (VarNotFound ''c'')"
proof -
  note R = Rendering_after_Build [OF demo_vars_ok surjective_pairing]
  show ?thesis unfolding R by code_simp
qed

text \<open>
  A resolution, whether it succeeds, fails or meets a cycle, never adds or removes a
  variable and never touches one that is already resolved, and it can only succeed for a
  registered name.
\<close>

theorem resolve_preserves:
  assumes "resolve fuel name s = Some (s', r)"
  shows "map fst (vars_m s') = map fst (vars_m s) \<and> vars_r s' = vars_r s \<and>
         (\<forall>n v. lookup_var s n = Some v \<and> var_Resolved v \<longrightarrow> lookup_var s' n = Some v) \<and>
         (lookup_var s name = None \<longrightarrow> r = Inl (VarNotDefined name))"
proof -
  have "r = Inl (VarNotDefined name)" if "lookup_var s name = None"
    using assms that by (cases fuel) auto
  then show ?thesis using resolve_frame(1) [OF assms] by blast
qed

theorem resolve_preserves_witness:
  "\<exists>s' r. resolve 3 ''a'' demo_vars = Some (s', r) \<and> map fst (vars_m s') = [''a'', ''b'']"
proof -
  have "resolve 3 ''a'' demo_vars \<noteq> None" by code_simp
  then obtain s' r where r: "resolve 3 ''a'' demo_vars = Some (s', r)" by auto
  have "map fst (vars_m demo_vars) = [''a'', ''b'']" by (simp add: demo_vars_def)
  with resolve_preserves [OF r] r show ?thesis by metis
qed

end
