(* ===== verification/Utils.thy ===== *)
theory Utils
  imports Go_Base
begin

text \<open>
  \<open>internal/utils/common.go\<close>, and the functions of \<open>internal/utils/string.go\<close> on text: the
  dynamic type of a configuration value and its conversions, the copy of nested maps, and the
  small list and set helpers the commands use.  The functions that run a shell, read files or
  encrypt are not modelled.
\<close>

section \<open>Dynamic types and conversions\<close>

definition Type :: "gval \<Rightarrow> string" where
  "Type v =
     (case v of
        GBool _ \<Rightarrow> ''bool''
      | GStr _ \<Rightarrow> ''string''
      | GInt _ \<Rightarrow> ''int''
      | GInt64 _ \<Rightarrow> ''int64''
      | GMap _ \<Rightarrow> ''string_interface_map''
      | _ \<Rightarrow> ''unknown'')"

definition IsBool :: "gval \<Rightarrow> bool" where "IsBool v \<longleftrightarrow> Type v = ''bool''"
definition IsString :: "gval \<Rightarrow> bool" where "IsString v \<longleftrightarrow> Type v = ''string''"
definition IsInt :: "gval \<Rightarrow> bool" where "IsInt v \<longleftrightarrow> Type v = ''int''"
definition IsInt64 :: "gval \<Rightarrow> bool" where "IsInt64 v \<longleftrightarrow> Type v = ''int64''"
definition IsStringAnyMap :: "gval \<Rightarrow> bool" where
  "IsStringAnyMap v \<longleftrightarrow> Type v = ''string_interface_map''"

text \<open>The type assertions \<open>v.(string)\<close>, \<open>v.(int)\<close>, \<open>v.(bool)\<close> and \<open>v.(map[string]interface{})\<close>:
  a panic on any other dynamic type, nil included.\<close>

definition as_string :: "gval \<Rightarrow> string res" where
  "as_string v = (case v of GStr s \<Rightarrow> Inr s | _ \<Rightarrow> Inl GoPanic)"
definition as_int :: "gval \<Rightarrow> int res" where
  "as_int v = (case v of GInt i \<Rightarrow> Inr i | _ \<Rightarrow> Inl GoPanic)"
definition as_bool :: "gval \<Rightarrow> bool res" where
  "as_bool v = (case v of GBool b \<Rightarrow> Inr b | _ \<Rightarrow> Inl GoPanic)"
definition as_map :: "gval \<Rightarrow> gmap res" where
  "as_map v = (case v of GMap m \<Rightarrow> Inr m | _ \<Rightarrow> Inl GoPanic)"

definition All2Str :: "gval \<Rightarrow> string \<times> bool" where
  "All2Str v =
     (if IsString v then (case v of GStr s \<Rightarrow> (s, True) | _ \<Rightarrow> ([], True))
      else if IsInt v then (case v of GInt i \<Rightarrow> (itoa i, True) | _ \<Rightarrow> ([], True))
      else if IsBool v then (case v of GBool b \<Rightarrow> (format_bool b, True) | _ \<Rightarrow> ([], True))
      else ([], False))"

definition Atoa :: "gval \<Rightarrow> string" where
  "Atoa v = fst (All2Str v)"

definition Str2Int :: "string \<Rightarrow> int \<times> bool" where
  "Str2Int s = (case atoi s of None \<Rightarrow> (0, False) | Some i \<Rightarrow> (i, True))"

definition Str2Bool :: "string \<Rightarrow> bool \<times> bool" where
  "Str2Bool s = (case parse_bool s of None \<Rightarrow> (False, False) | Some b \<Rightarrow> (b, True))"

definition IsTrueStr :: "string \<Rightarrow> bool" where
  "IsTrueStr s = (let (v, yes) = Str2Bool s in yes \<and> v = True)"

section \<open>Text\<close>

definition has_suffix :: "string \<Rightarrow> string \<Rightarrow> bool" where
  "has_suffix s p \<longleftrightarrow> length p \<le> length s \<and> drop (length s - length p) s = p"

definition trim_suffix :: "string \<Rightarrow> string \<Rightarrow> string" where
  "trim_suffix s p = (if has_suffix s p then take (length s - length p) s else s)"

text \<open>The loop of \<open>TrimSuffixRepeat\<close>; with the empty suffix it does not end.\<close>

partial_function (option) TrimSuffixRepeat :: "string \<Rightarrow> string \<Rightarrow> string option" where
  "TrimSuffixRepeat s suffix =
     (if \<not> has_suffix s suffix then Some s
      else TrimSuffixRepeat (trim_suffix s suffix) suffix)"

definition Choose :: "bool \<Rightarrow> string \<Rightarrow> string \<Rightarrow> string" where
  "Choose ok first second = (if ok then first else second)"

definition IsDigit :: "char \<Rightarrow> bool" where
  "IsDigit r \<longleftrightarrow> (of_char (CHR ''0'') :: nat) \<le> of_char r \<and> (of_char r :: nat) \<le> of_char (CHR ''9'')"

definition IsUpper :: "char \<Rightarrow> bool" where
  "IsUpper r \<longleftrightarrow> (of_char (CHR ''A'') :: nat) \<le> of_char r \<and> (of_char r :: nat) \<le> of_char (CHR ''Z'')"

definition IsAlpha :: "char \<Rightarrow> bool" where
  "IsAlpha r \<longleftrightarrow>
     ((of_char (CHR ''a'') :: nat) \<le> of_char r \<and> (of_char r :: nat) \<le> of_char (CHR ''z'')) \<or> IsUpper r"

section \<open>Lists, sets and maps\<close>

fun Min_loop :: "int \<Rightarrow> int list \<Rightarrow> int" where
  "Min_loop ret [] = ret"
| "Min_loop ret (n # ns) = Min_loop (if n < ret then n else ret) ns"

definition Min_ints :: "int list \<Rightarrow> int res" where
  "Min_ints nums = (case nums of [] \<Rightarrow> Inl GoPanic | n # _ \<Rightarrow> Inr (Min_loop n nums))"

fun copy_value :: "gval \<Rightarrow> gval"
  and copy :: "gmap \<Rightarrow> gmap \<Rightarrow> gmap"
where
  "copy_value (GMap m) = GMap (copy m [])"
| "copy_value v = v"
| "copy [] dest = dest"
| "copy ((key, value) # src) dest = copy src (AList.update key (copy_value value) dest)"

definition DeepCopy :: "gmap \<Rightarrow> gmap" where
  "DeepCopy src = copy src []"

text \<open>A \<open>map[string]bool\<close> and its read.\<close>

type_synonym bmap = "(string \<times> bool) list"

definition bget :: "bmap \<Rightarrow> string \<Rightarrow> bool" where
  "bget m k = (case map_of m k of None \<Rightarrow> False | Some b \<Rightarrow> b)"

definition Slice2Map :: "string list \<Rightarrow> bmap" where
  "Slice2Map s = fold (\<lambda>item m. AList.update item True m) s []"

fun Locate_from :: "int \<Rightarrow> string list \<Rightarrow> (string \<times> int) list \<Rightarrow> (string \<times> int) list" where
  "Locate_from i [] m = m"
| "Locate_from i (item # s) m = Locate_from (i + 1) s (AList.update item i m)"

definition Locate :: "string list \<Rightarrow> (string \<times> int) list" where
  "Locate s = Locate_from 0 s []"

fun Contains :: "string list \<Rightarrow> string \<Rightarrow> bool" where
  "Contains [] str = False"
| "Contains (v # list) str = (if trim_space v = trim_space str then True else Contains list str)"

fun ContainsList :: "string list \<Rightarrow> string list \<Rightarrow> bool" where
  "ContainsList list [] = True"
| "ContainsList list (str # strs) = (if \<not> Contains list str then False else ContainsList list strs)"

fun Existed :: "string list \<Rightarrow> string list \<Rightarrow> bool" where
  "Existed list [] = False"
| "Existed list (str # strs) = (if Contains list str then True else Existed list strs)"

fun Filter_strs :: "string list \<Rightarrow> (string \<Rightarrow> bool) \<Rightarrow> string list" where
  "Filter_strs [] filterFunc = []"
| "Filter_strs (item # list) filterFunc =
     (if filterFunc item then item # Filter_strs list filterFunc else Filter_strs list filterFunc)"

section \<open>The conversions\<close>

lemma All2Str_simps [simp]:
  "All2Str (GStr s) = (s, True)" "All2Str (GInt i) = (itoa i, True)"
  "All2Str (GBool b) = (format_bool b, True)" "All2Str GNil = ([], False)"
  "All2Str (GInt64 j) = ([], False)" "All2Str (GMap m) = ([], False)"
  "All2Str (GList l) = ([], False)" "All2Str (GStrs ss) = ([], False)" "All2Str GOther = ([], False)"
  by (simp_all add: All2Str_def IsString_def IsInt_def IsBool_def Type_def)

lemma All2Str_ok: "snd (All2Str v) \<longleftrightarrow> (\<exists>s. v = GStr s) \<or> (\<exists>i. v = GInt i) \<or> (\<exists>b. v = GBool b)"
  by (cases v) auto

lemma All2Str_idem: "snd (All2Str v) \<Longrightarrow> All2Str (GStr (fst (All2Str v))) = All2Str v"
  by (cases v) auto

lemma Str2Int_range: "Str2Int s = (i, True) \<Longrightarrow> int64_range i"
  by (auto simp: Str2Int_def atoi_range split: option.splits)

lemma Type_map [simp]: "IsStringAnyMap (GMap m)" "\<not> IsStringAnyMap GNil"
  by (simp_all add: IsStringAnyMap_def Type_def)

lemma IsStringAnyMap_iff: "IsStringAnyMap v \<longleftrightarrow> (\<exists>m. v = GMap m)"
  by (cases v) (auto simp: IsStringAnyMap_def Type_def)

lemma as_simps [simp]:
  "as_string (GStr s) = Inr s" "as_int (GInt i) = Inr i" "as_bool (GBool b) = Inr b"
  "as_map (GMap m) = Inr m"
  by (simp_all add: as_string_def as_int_def as_bool_def as_map_def)

text \<open>
  A configuration value of a supported type is recovered from its text: an integer in
  range through \<open>Str2Int\<close>, a boolean through \<open>Str2Bool\<close>, a string as it is.
\<close>

theorem All2Str_roundtrip:
  "All2Str v = (s, True) \<Longrightarrow>
     (case v of
        GStr t \<Rightarrow> s = t
      | GInt i \<Rightarrow> int64_range i \<longrightarrow> Str2Int s = (i, True)
      | GBool b \<Rightarrow> Str2Bool s = (b, True)
      | _ \<Rightarrow> False)"
  by (cases v) (auto simp: Str2Int_def Str2Bool_def str_simps)

theorem All2Str_roundtrip_witness:
  "Str2Int (fst (All2Str (GInt (-42)))) = (-42, True) \<and> Str2Bool (fst (All2Str (GBool True))) = (True, True)"
  using All2Str_roundtrip [of "GInt (-42)" "itoa (-42)"] All2Str_roundtrip [of "GBool True" "format_bool True"]
  by (simp add: int64_range_def)

section \<open>The copy of a map\<close>

text \<open>A map value whose keys differ, at every level.\<close>

fun wf_value :: "gval \<Rightarrow> bool"
  and wf_map :: "gmap \<Rightarrow> bool"
where
  "wf_value (GMap m) = (distinct (map fst m) \<and> wf_map m)"
| "wf_value v = True"
| "wf_map [] = True"
| "wf_map ((k, v) # m) = (wf_value v \<and> wf_map m)"

lemma update_new: "k \<notin> fst ` set m \<Longrightarrow> AList.update k v m = m @ [(k, v)]"
  by (induction m) auto

lemma copy_identity:
  "wf_value v \<Longrightarrow> copy_value v = v"
  "wf_map src \<Longrightarrow> distinct (map fst (dest @ src)) \<Longrightarrow> copy src dest = dest @ src"
proof (induction v and src dest rule: copy_value_copy.induct)
  case (4 k v src dest)
  then have "AList.update k v dest = dest @ [(k, v)]"
    by (intro update_new) auto
  with 4 show ?case by simp
qed auto

text \<open>
  \<open>DeepCopy\<close> returns a map with the same keys and values as its argument, at every
  level of nesting.
\<close>

theorem DeepCopy_identity:
  assumes "distinct (map fst m)" and "wf_map m"
  shows "DeepCopy m = m"
  using copy_identity(2) [of m "[]"] assms by (simp add: DeepCopy_def)

theorem DeepCopy_identity_witness:
  "DeepCopy [(''variable'', GMap [(''a'', GInt 1)]), (''b'', GBool True)] =
     [(''variable'', GMap [(''a'', GInt 1)]), (''b'', GBool True)]"
  by (rule DeepCopy_identity) simp_all

section \<open>The helpers\<close>

lemma bget_update [simp]: "bget (AList.update k b m) k' = (if k' = k then b else bget m k')"
  by (simp add: bget_def)

lemma bget_Nil [simp]: "bget [] k = False"
  by (simp add: bget_def)

lemma bget_Slice2Map [simp]: "bget (Slice2Map s) k \<longleftrightarrow> k \<in> set s"
proof -
  have "bget (fold (\<lambda>item m. AList.update item True m) s m) k \<longleftrightarrow> k \<in> set s \<or> bget m k" for m
    by (induction s arbitrary: m) auto
  then show ?thesis by (simp add: Slice2Map_def)
qed

lemma Contains_iff: "Contains list str \<longleftrightarrow> (\<exists>v \<in> set list. trim_space v = trim_space str)"
  by (induction list) auto

lemma ContainsList_iff: "ContainsList list strs \<longleftrightarrow> (\<forall>s \<in> set strs. Contains list s)"
  by (induction strs) auto

lemma Existed_iff: "Existed list strs \<longleftrightarrow> (\<exists>s \<in> set strs. Contains list s)"
  by (induction strs) auto

lemma Filter_strs_filter: "Filter_strs list f = filter f list"
  by (induction list) auto

lemma Min_loop_le: "Min_loop r ns \<le> r \<and> (\<forall>n \<in> set ns. Min_loop r ns \<le> n) \<and> Min_loop r ns \<in> insert r (set ns)"
proof (induction ns arbitrary: r)
  case (Cons n ns)
  from Cons.IH [of "if n < r then n else r"] show ?case by auto
qed simp

lemma takeWhile_shorter: "x \<in> set xs \<Longrightarrow> length (takeWhile (\<lambda>y. y \<noteq> x) xs) < length xs"
  by (induction xs) auto

text \<open>\<open>Locate\<close> finds the last position of each item.\<close>

lemma Locate_from_lookup:
  "map_of (Locate_from i s m) x =
     (if x \<in> set s then Some (i + int (length s - 1 - length (takeWhile (\<lambda>y. y \<noteq> x) (rev s)))) else map_of m x)"
proof (induction s arbitrary: i m)
  case (Cons a s)
  show ?case
  proof (cases "x \<in> set s")
    case True
    then have "takeWhile (\<lambda>y. y \<noteq> x) (rev s @ [a]) = takeWhile (\<lambda>y. y \<noteq> x) (rev s)"
      by (intro takeWhile_append1 [of x]) auto
    moreover have "length (takeWhile (\<lambda>y. y \<noteq> x) (rev s)) < length s"
      using takeWhile_shorter [of x "rev s"] True by simp
    ultimately show ?thesis using True Cons.IH by simp
  next
    case False
    then have "takeWhile (\<lambda>y. y \<noteq> x) (rev s @ [a]) = rev s @ (if a = x then [] else [a])"
      by (subst takeWhile_append2) auto
    with False Cons.IH show ?thesis by auto
  qed
qed simp

text \<open>
  \<open>TrimSuffixRepeat\<close> with a non-empty suffix returns; the result is the argument without
  some number of copies of the suffix at its end, and does not end in the suffix.  With the
  empty suffix the loop does not return.
\<close>

theorem TrimSuffixRepeat_spec:
  "(suffix \<noteq> [] \<longrightarrow>
      (\<exists>t k. TrimSuffixRepeat s suffix = Some t \<and> s = t @ concat (replicate k suffix) \<and> \<not> has_suffix t suffix)) \<and>
   TrimSuffixRepeat s [] = None"
proof
  show "suffix \<noteq> [] \<longrightarrow>
      (\<exists>t k. TrimSuffixRepeat s suffix = Some t \<and> s = t @ concat (replicate k suffix) \<and> \<not> has_suffix t suffix)"
  proof
    assume ne: "suffix \<noteq> []"
    show "\<exists>t k. TrimSuffixRepeat s suffix = Some t \<and> s = t @ concat (replicate k suffix) \<and> \<not> has_suffix t suffix"
    proof (induction s rule: length_induct)
      case (1 s)
      show ?case
      proof (cases "has_suffix s suffix")
        case False
        then have "TrimSuffixRepeat s suffix = Some s" by (subst TrimSuffixRepeat.simps) simp
        with False show ?thesis by (intro exI [of _ s] exI [of _ 0]) simp
      next
        case True
        then have s: "s = trim_suffix s suffix @ suffix" and "suffix \<noteq> []"
          using ne by (auto simp: has_suffix_def trim_suffix_def) (metis append_take_drop_id)
        then have "length (trim_suffix s suffix) < length s"
          by (metis length_append length_greater_0_conv less_add_same_cancel1)
        with 1 obtain t k where t: "TrimSuffixRepeat (trim_suffix s suffix) suffix = Some t"
          "trim_suffix s suffix = t @ concat (replicate k suffix)" "\<not> has_suffix t suffix" by blast
        have "s = t @ concat (replicate (Suc k) suffix)"
          using s t(2) by (metis append.assoc concat.simps(2) concat_append append_Nil2 concat.simps(1)
            replicate_Suc replicate_append_same)
        moreover have "TrimSuffixRepeat s suffix = Some t"
          using True t(1) by (subst TrimSuffixRepeat.simps) simp
        ultimately show ?thesis using t(3) by blast
      qed
    qed
  qed
  show "TrimSuffixRepeat s [] = None"
  proof (cases "TrimSuffixRepeat s []")
    case (Some t)
    have "False"
    proof (rule TrimSuffixRepeat.raw_induct [where P = "\<lambda>s p r. p = [] \<longrightarrow> False", OF _ Some, THEN mp])
      fix f s p r
      assume IH: "\<And>s p r. f s p = Some r \<Longrightarrow> p = [] \<longrightarrow> False"
        and eq: "(if \<not> has_suffix s p then Some s else f (trim_suffix s p) p) = Some r"
      show "p = [] \<longrightarrow> False"
      proof
        assume "p = []"
        then have "has_suffix s p" by (simp add: has_suffix_def)
        with eq have "f (trim_suffix s p) p = Some r" by simp
        with IH \<open>p = []\<close> show False by blast
      qed
    qed simp
    then show ?thesis ..
  qed
qed

theorem TrimSuffixRepeat_spec_witness:
  "TrimSuffixRepeat ''a//'' ''/'' = Some ''a''"
proof -
  have "\<exists>t k. TrimSuffixRepeat ''a//'' ''/'' = Some t \<and> ''a//'' = t @ concat (replicate k ''/'') \<and> \<not> has_suffix t ''/''"
    using TrimSuffixRepeat_spec [of "''/''" "''a//''"] by blast
  then show ?thesis
    by (simp add: TrimSuffixRepeat.simps has_suffix_def trim_suffix_def)
qed

end
