(* ===== verification/Deploy_Config.thy ===== *)
theory Deploy_Config
  imports Variables Utils
begin

text \<open>
  The deploy configuration of one service and its configuration items:
  \<open>internal/configure/topology/context.go\<close>, \<open>dc_item.go\<close>, \<open>dc_get.go\<close> and the data
  types and constants of \<open>dc.go\<close>.

  An item has a kind of cluster, a key, a required type, a flag that keeps it out of the
  service configuration, and a default value: none, a constant, or a function of the deploy
  configuration.  The getters read the configuration map, fall back on the default, and assert
  the dynamic type; a failed assertion and a nil pointer are \<open>GoPanic\<close>.
\<close>

section \<open>Constants\<close>

abbreviation KIND_DINGO :: string where "KIND_DINGO \<equiv> ''dingo''"
abbreviation KIND_DINGOFS :: string where "KIND_DINGOFS \<equiv> ''dingofs''"
abbreviation KIND_DINGOSTORE :: string where "KIND_DINGOSTORE \<equiv> ''dingo-store''"
abbreviation KIND_DINGODB :: string where "KIND_DINGODB \<equiv> ''dingodb''"

abbreviation ROLE_ETCD :: string where "ROLE_ETCD \<equiv> ''etcd''"
abbreviation ROLE_CHUNKSERVER :: string where "ROLE_CHUNKSERVER \<equiv> ''chunkserver''"
abbreviation ROLE_SNAPSHOTCLONE :: string where "ROLE_SNAPSHOTCLONE \<equiv> ''snapshotclone''"
abbreviation ROLE_METASERVER :: string where "ROLE_METASERVER \<equiv> ''metaserver''"
abbreviation ROLE_FS_MDS :: string where "ROLE_FS_MDS \<equiv> ''mds''"
abbreviation ROLE_FS_MDS_CLI :: string where "ROLE_FS_MDS_CLI \<equiv> ''mds-client''"
abbreviation ROLE_COORDINATOR :: string where "ROLE_COORDINATOR \<equiv> ''coordinator''"
abbreviation ROLE_STORE :: string where "ROLE_STORE \<equiv> ''store''"
abbreviation ROLE_DINGODB_DOCUMENT :: string where "ROLE_DINGODB_DOCUMENT \<equiv> ''document''"
abbreviation ROLE_DINGODB_DISKANN :: string where "ROLE_DINGODB_DISKANN \<equiv> ''diskann''"
abbreviation ROLE_DINGODB_INDEX :: string where "ROLE_DINGODB_INDEX \<equiv> ''index''"
abbreviation ROLE_DINGODB_PROXY :: string where "ROLE_DINGODB_PROXY \<equiv> ''proxy''"
abbreviation ROLE_DINGODB_WEB :: string where "ROLE_DINGODB_WEB \<equiv> ''web''"
abbreviation ROLE_DINGODB_EXECUTOR :: string where "ROLE_DINGODB_EXECUTOR \<equiv> ''executor''"

abbreviation CTX_KEY_MDS_VERSION :: string where "CTX_KEY_MDS_VERSION \<equiv> ''mds.version''"
abbreviation CTX_VAL_MDS_V1 :: string where "CTX_VAL_MDS_V1 \<equiv> ''v1''"
abbreviation CTX_VAL_MDS_V2 :: string where "CTX_VAL_MDS_V2 \<equiv> ''v2''"

section \<open>Context: host to address\<close>

type_synonym ctx_map = "(string \<times> string) list"

definition NewContext :: ctx_map where
  "NewContext = []"

definition ctx_Add :: "string \<Rightarrow> string \<Rightarrow> ctx_map \<Rightarrow> ctx_map" where
  "ctx_Add host hostname ctx = AList.update host hostname ctx"

definition ctx_Lookup :: "ctx_map \<Rightarrow> string \<Rightarrow> string" where
  "ctx_Lookup ctx host = (case map_of ctx host of None \<Rightarrow> [] | Some h \<Rightarrow> h)"

section \<open>The deploy configuration\<close>

record deploy_config =
  dc_kind :: string
  dc_id :: string
  dc_parentId :: string
  dc_role :: string
  dc_host :: string
  dc_hostname :: string
  dc_name :: string
  dc_instances :: int
  dc_hostSequence :: int
  dc_instancesSequence :: int
  dc_config :: gmap
  dc_serviceConfig :: "(string \<times> string) list"
  dc_variables :: "variables option"
  dc_ctx :: "ctx_map option"

definition dc_lookup_ctx :: "deploy_config \<Rightarrow> string \<Rightarrow> string res" where
  "dc_lookup_ctx dc k = (case dc_ctx dc of None \<Rightarrow> Inl GoPanic | Some c \<Rightarrow> Inr (ctx_Lookup c k))"

datatype require =
    REQUIRE_ANY | REQUIRE_INT | REQUIRE_STRING | REQUIRE_BOOL | REQUIRE_POSITIVE_INTEGER | REQUIRE_MAP

datatype dflt = NoDefault | Const gval | Fn "deploy_config \<Rightarrow> gval res"

record item =
  item_kind :: string
  item_key :: string
  item_require :: require
  item_exclude :: bool
  item_default :: dflt

definition mk_item :: "string \<Rightarrow> string \<Rightarrow> require \<Rightarrow> bool \<Rightarrow> dflt \<Rightarrow> item" where
  "mk_item kind key req exclude dv =
     \<lparr>item_kind = kind, item_key = key, item_require = req, item_exclude = exclude, item_default = dv\<rparr>"

record itemSet =
  is_items :: "item list"
  is_key2item :: "(string \<times> item) list"

definition itemset_insert :: "item \<Rightarrow> itemSet \<Rightarrow> itemSet" where
  "itemset_insert i s =
     s\<lparr>is_key2item := AList.update (item_key i) i (is_key2item s), is_items := is_items s @ [i]\<rparr>"

section \<open>Reading an item\<close>

definition dc_get :: "deploy_config \<Rightarrow> item \<Rightarrow> gval res" where
  "dc_get dc i =
     (case map_of (dc_config dc) (item_key i) of
        Some v \<Rightarrow> Inr v
      | None \<Rightarrow>
          (case item_default i of
             NoDefault \<Rightarrow> Inr GNil
           | Const v \<Rightarrow> Inr v
           | Fn f \<Rightarrow> f dc))"

definition dc_getString :: "deploy_config \<Rightarrow> item \<Rightarrow> string res" where
  "dc_getString dc i =
     bindR (dc_get dc i) (\<lambda>v. if v = GNil then Inr [] else as_string v)"

definition dc_getInt :: "deploy_config \<Rightarrow> item \<Rightarrow> int res" where
  "dc_getInt dc i =
     bindR (dc_get dc i) (\<lambda>v. Inr
       (case v of
          GInt n \<Rightarrow> n
        | GStr s \<Rightarrow> (case atoi s of Some n \<Rightarrow> n | None \<Rightarrow> 0)
        | _ \<Rightarrow> 0))"

definition dc_getBool :: "deploy_config \<Rightarrow> item \<Rightarrow> bool res" where
  "dc_getBool dc i =
     bindR (dc_get dc i) (\<lambda>v. if v = GNil then Inr False else as_bool v)"

definition dc_getMap :: "deploy_config \<Rightarrow> item \<Rightarrow> gmap res" where
  "dc_getMap dc i =
     bindR (dc_get dc i) (\<lambda>v. if v = GNil then Inr [] else as_map v)"

section \<open>The items\<close>

definition prefix_default :: "deploy_config \<Rightarrow> gval res" where
  "prefix_default dc =
     (let role = dc_role dc in
      if dc_kind dc = KIND_DINGOFS then
        (if role = ROLE_FS_MDS then
           bindR (dc_lookup_ctx dc CTX_KEY_MDS_VERSION) (\<lambda>ver.
             if ver = CTX_VAL_MDS_V2 then Inr (GStr (path_join [''/dingofs'', ''dist'', ROLE_FS_MDS]))
             else Inr (GStr (path_join [''/dingofs'', role])))
         else if role = ROLE_COORDINATOR \<or> role = ROLE_STORE then Inr (GStr ''/opt/dingo-store'')
         else if role = ROLE_DINGODB_EXECUTOR then Inr (GStr ''/opt/dingo'')
         else Inr (GStr (path_join [''/dingofs'', role])))
      else if dc_kind dc = KIND_DINGOSTORE then
        (if role = ROLE_COORDINATOR \<or> role = ROLE_STORE then Inr (GStr ''/opt/dingo-store'')
         else if role = ROLE_DINGODB_EXECUTOR then Inr (GStr ''/opt/dingo'')
         else Inr (GStr ''/opt/dingo-store/dist''))
      else if dc_kind dc = KIND_DINGODB then
        (if role \<in> set [ROLE_COORDINATOR, ROLE_STORE, ROLE_DINGODB_DOCUMENT, ROLE_DINGODB_INDEX,
                        ROLE_DINGODB_DISKANN] then Inr (GStr ''/opt/dingo-store'')
         else if role \<in> set [ROLE_DINGODB_PROXY, ROLE_DINGODB_WEB, ROLE_DINGODB_EXECUTOR] then
           Inr (GStr ''/opt/dingo'')
         else Inr (GStr ''/dingo''))
      else Inr (GStr (path_join [''/dingo'', role])))"

definition CONFIG_PREFIX :: item where
  "CONFIG_PREFIX = mk_item KIND_DINGO ''prefix'' REQUIRE_STRING True (Fn prefix_default)"

definition CONFIG_REPORT_USAGE :: item where
  "CONFIG_REPORT_USAGE = mk_item KIND_DINGOFS ''report_usage'' REQUIRE_BOOL True (Const (GBool False))"

definition CONFIG_CONTAINER_IMAGE :: item where
  "CONFIG_CONTAINER_IMAGE = mk_item KIND_DINGO ''container_image'' REQUIRE_STRING True
     (Fn (\<lambda>dc. Inr (GStr ''dingodatabase/dingofs:latest'')))"

definition CONFIG_LOG_DIR :: item where
  "CONFIG_LOG_DIR = mk_item KIND_DINGO ''log_dir'' REQUIRE_STRING True NoDefault"

definition CONFIG_DATA_DIR :: item where
  "CONFIG_DATA_DIR = mk_item KIND_DINGO ''data_dir'' REQUIRE_STRING True NoDefault"

definition CONFIG_SEQ_OFFSET :: item where
  "CONFIG_SEQ_OFFSET = mk_item KIND_DINGO ''sequence_offset'' REQUIRE_POSITIVE_INTEGER True NoDefault"

definition CONFIG_SOURCE_CORE_DIR :: item where
  "CONFIG_SOURCE_CORE_DIR = mk_item KIND_DINGO ''source_core_dir'' REQUIRE_STRING True NoDefault"

definition CONFIG_TARGET_CORE_DIR :: item where
  "CONFIG_TARGET_CORE_DIR = mk_item KIND_DINGO ''target_core_dir'' REQUIRE_STRING True NoDefault"

definition CONFIG_ENV :: item where
  "CONFIG_ENV = mk_item KIND_DINGO ''env'' REQUIRE_STRING True NoDefault"

definition CONFIG_LISTEN_IP :: item where
  "CONFIG_LISTEN_IP = mk_item KIND_DINGO ''listen.ip'' REQUIRE_STRING True
     (Fn (\<lambda>dc. Inr (GStr (dc_hostname dc))))"

definition listen_port_default :: "deploy_config \<Rightarrow> gval res" where
  "listen_port_default dc =
     (let role = dc_role dc in
      Inr (if role = ROLE_ETCD then GInt 2380
           else if role = ROLE_CHUNKSERVER then GInt 8200
           else if role = ROLE_SNAPSHOTCLONE then GInt 5555
           else if role = ROLE_METASERVER then GInt 6800
           else if role = ROLE_FS_MDS \<or> role = ROLE_FS_MDS_CLI then GInt 6900
           else if role = ROLE_COORDINATOR then GInt 6500
           else if role = ROLE_STORE then GInt 6600
           else if role = ROLE_DINGODB_EXECUTOR then GInt 3307
           else GNil))"

definition CONFIG_LISTEN_PORT :: item where
  "CONFIG_LISTEN_PORT = mk_item KIND_DINGOFS ''listen.port'' REQUIRE_POSITIVE_INTEGER True
     (Fn listen_port_default)"

definition CONFIG_LISTEN_CLIENT_PORT :: item where
  "CONFIG_LISTEN_CLIENT_PORT = mk_item KIND_DINGOFS ''listen.client_port'' REQUIRE_POSITIVE_INTEGER True
     (Const (GInt 2379))"

definition CONFIG_LISTEN_DUMMY_PORT :: item where
  "CONFIG_LISTEN_DUMMY_PORT = mk_item KIND_DINGOFS ''listen.dummy_port'' REQUIRE_POSITIVE_INTEGER True
     (Fn (\<lambda>dc. Inr (if dc_role dc = ROLE_FS_MDS then GInt 7700
                    else if dc_role dc = ROLE_SNAPSHOTCLONE then GInt 8081
                    else GNil)))"

definition CONFIG_LISTEN_PROXY_PORT :: item where
  "CONFIG_LISTEN_PROXY_PORT = mk_item KIND_DINGOFS ''listen.proxy_port'' REQUIRE_POSITIVE_INTEGER True
     (Const (GInt 8080))"

definition CONFIG_LISTEN_EXTERNAL_IP :: item where
  "CONFIG_LISTEN_EXTERNAL_IP = mk_item KIND_DINGOFS ''listen.external_ip'' REQUIRE_STRING True
     (Fn (\<lambda>dc. Inr (GStr (dc_hostname dc))))"

definition CONFIG_LISTEN_EXTERNAL_PORT :: item where
  "CONFIG_LISTEN_EXTERNAL_PORT = mk_item KIND_DINGOFS ''listen.external_port'' REQUIRE_POSITIVE_INTEGER True
     (Fn (\<lambda>dc. if dc_role dc = ROLE_METASERVER then Inr (GInt 7800)
               else bindR (dc_getInt dc CONFIG_LISTEN_PORT) (\<lambda>p. Inr (GInt p))))"

definition CONFIG_ENABLE_EXTERNAL_SERVER :: item where
  "CONFIG_ENABLE_EXTERNAL_SERVER = mk_item KIND_DINGOFS ''global.enable_external_server'' REQUIRE_BOOL False
     (Const (GBool False))"

definition CONFIG_COPYSETS :: item where
  "CONFIG_COPYSETS = mk_item KIND_DINGOFS ''copysets'' REQUIRE_POSITIVE_INTEGER True
     (Fn (\<lambda>dc. Inr (if dc_role dc = ROLE_CHUNKSERVER then GInt 100 else GInt 100)))"

definition CONFIG_S3_ACCESS_KEY :: item where
  "CONFIG_S3_ACCESS_KEY = mk_item KIND_DINGOFS ''s3.ak'' REQUIRE_STRING False NoDefault"

definition CONFIG_S3_SECRET_KEY :: item where
  "CONFIG_S3_SECRET_KEY = mk_item KIND_DINGOFS ''s3.sk'' REQUIRE_STRING False NoDefault"

definition CONFIG_S3_ADDRESS :: item where
  "CONFIG_S3_ADDRESS = mk_item KIND_DINGOFS ''s3.nos_address'' REQUIRE_STRING False NoDefault"

definition CONFIG_S3_BUCKET_NAME :: item where
  "CONFIG_S3_BUCKET_NAME = mk_item KIND_DINGOFS ''s3.snapshot_bucket_name'' REQUIRE_STRING False NoDefault"

definition CONFIG_ENABLE_RDMA :: item where
  "CONFIG_ENABLE_RDMA = mk_item KIND_DINGOFS ''enable_rdma'' REQUIRE_BOOL True (Const (GBool False))"

definition CONFIG_ENABLE_RENAMEAT2 :: item where
  "CONFIG_ENABLE_RENAMEAT2 = mk_item KIND_DINGOFS ''fs.enable_renameat2'' REQUIRE_BOOL False
     (Const (GBool True))"

definition CONFIG_ENABLE_CHUNKFILE_POOL :: item where
  "CONFIG_ENABLE_CHUNKFILE_POOL =
     mk_item KIND_DINGOFS ''chunkfilepool.enable_get_chunk_from_pool'' REQUIRE_BOOL False
       (Const (GBool True))"

definition CONFIG_VARIABLE :: item where
  "CONFIG_VARIABLE = mk_item KIND_DINGO ''variable'' REQUIRE_STRING True NoDefault"

definition CONFIG_ETCD_AUTH_ENABLE :: item where
  "CONFIG_ETCD_AUTH_ENABLE = mk_item KIND_DINGOFS ''etcd.auth.enable'' REQUIRE_BOOL False
     (Const (GBool False))"

definition CONFIG_ETCD_AUTH_USERNAME :: item where
  "CONFIG_ETCD_AUTH_USERNAME = mk_item KIND_DINGOFS ''etcd.auth.username'' REQUIRE_STRING False NoDefault"

definition CONFIG_ETCD_AUTH_PASSWORD :: item where
  "CONFIG_ETCD_AUTH_PASSWORD = mk_item KIND_DINGOFS ''etcd.auth.password'' REQUIRE_STRING False NoDefault"

definition CONFIG_DINGO_STORE_RAFT_DIR :: item where
  "CONFIG_DINGO_STORE_RAFT_DIR = mk_item KIND_DINGO ''raft_dir'' REQUIRE_STRING True NoDefault"

definition CONFIG_DINGO_STORE_SERVER_PORT :: item where
  "CONFIG_DINGO_STORE_SERVER_PORT = mk_item KIND_DINGO ''server.port'' REQUIRE_POSITIVE_INTEGER True
     (Fn (\<lambda>dc. let role = dc_role dc in
        Inr (if role = ROLE_COORDINATOR then GInt 6500
             else if role = ROLE_STORE then GInt 6600
             else if role = ROLE_FS_MDS then GInt 6900
             else if role = ROLE_DINGODB_DOCUMENT then GInt 23001
             else if role = ROLE_DINGODB_INDEX then GInt 21001
             else if role = ROLE_DINGODB_DISKANN then GInt 24001
             else GNil)))"

definition CONFIG_DINGO_STORE_RAFT_PORT :: item where
  "CONFIG_DINGO_STORE_RAFT_PORT = mk_item KIND_DINGO ''raft.port'' REQUIRE_POSITIVE_INTEGER True
     (Fn (\<lambda>dc. let role = dc_role dc in
        Inr (if role = ROLE_COORDINATOR then GInt 7500
             else if role = ROLE_STORE then GInt 7600
             else if role = ROLE_DINGODB_DOCUMENT then GInt 23101
             else if role = ROLE_DINGODB_INDEX then GInt 21101
             else GNil)))"

definition CONFFIG_DINGO_STORE_SERVER_LISTEN_HOST :: item where
  "CONFFIG_DINGO_STORE_SERVER_LISTEN_HOST = mk_item KIND_DINGO ''server_listen_host'' REQUIRE_STRING True
     (Fn (\<lambda>dc. Inr (GStr ''0.0.0.0'')))"

definition CONFFIG_DINGO_STORE_RAFT_LISTEN_HOST :: item where
  "CONFFIG_DINGO_STORE_RAFT_LISTEN_HOST = mk_item KIND_DINGO ''raft_listen_host'' REQUIRE_STRING True
     (Fn (\<lambda>dc. Inr (GStr ''0.0.0.0'')))"

definition CONFIG_DINGO_STORE_REPLICA_NUM :: item where
  "CONFIG_DINGO_STORE_REPLICA_NUM = mk_item KIND_DINGO ''default_replica_num'' REQUIRE_POSITIVE_INTEGER True
     (Fn (\<lambda>dc. Inr (GInt 3)))"

definition instance_start_id :: "deploy_config \<Rightarrow> int" where
  "instance_start_id dc =
     (if dc_instances dc > 0 then
        wrap64 (1001 + dc_hostSequence dc * dc_instances dc + dc_instancesSequence dc)
      else wrap64 (1001 + dc_hostSequence dc + dc_instancesSequence dc))"

definition CONFIG_INSTANCE_START_ID :: item where
  "CONFIG_INSTANCE_START_ID = mk_item KIND_DINGO ''instance_start_id'' REQUIRE_POSITIVE_INTEGER True
     (Fn (\<lambda>dc. Inr (GInt (instance_start_id dc))))"

definition CONFIG_DINGOSTORE_COORDINATOR_ADDR :: item where
  "CONFIG_DINGOSTORE_COORDINATOR_ADDR = mk_item KIND_DINGO ''coordinator_addr'' REQUIRE_STRING True
     (Fn (\<lambda>dc. case dc_variables dc of
        None \<Rightarrow> Inl GoPanic
      | Some vars \<Rightarrow>
          Inr (case Get vars ''coordinator_addr'' of Inl _ \<Rightarrow> GStr ''-'' | Inr s \<Rightarrow> GStr s)))"

definition CONFFIG_DINGO_SERVER_LISTEN_HOST :: item where
  "CONFFIG_DINGO_SERVER_LISTEN_HOST = mk_item KIND_DINGO ''server_listen_host'' REQUIRE_STRING True
     (Fn (\<lambda>dc. Inr (GStr ''0.0.0.0'')))"

definition CONFIG_DINGO_STORE_DOCUMENT_DIR :: item where
  "CONFIG_DINGO_STORE_DOCUMENT_DIR = mk_item KIND_DINGODB ''doc_dir'' REQUIRE_STRING True NoDefault"

definition CONFIG_DINGO_STORE_VECTOR_DIR :: item where
  "CONFIG_DINGO_STORE_VECTOR_DIR = mk_item KIND_DINGODB ''vector_dir'' REQUIRE_STRING True NoDefault"

definition java_opts_default :: "deploy_config \<Rightarrow> gval res" where
  "java_opts_default dc =
     Inr (GMap (fold (\<lambda>(k, v) opts.
       if has_prefix k ''java.'' then AList.update (trim_prefix k ''java.'') (GStr v) opts else opts)
       (dc_serviceConfig dc) []))"

definition CONFIG_DINGO_EXECUTOR_JAVA_OPTS :: item where
  "CONFIG_DINGO_EXECUTOR_JAVA_OPTS = mk_item KIND_DINGO ''java_opts'' REQUIRE_MAP True
     (Fn java_opts_default)"

definition CONFIG_DINGODB_SERVER_PORT :: item where
  "CONFIG_DINGODB_SERVER_PORT = mk_item KIND_DINGODB ''port'' REQUIRE_POSITIVE_INTEGER False
     (Fn (\<lambda>dc. let role = dc_role dc in
        Inr (if role = ROLE_DINGODB_EXECUTOR then GInt 8765
             else if role = ROLE_DINGODB_WEB then GInt 13001
             else if role = ROLE_DINGODB_PROXY then GInt 13000
             else GNil)))"

definition CONFIG_DINGODB_EXECUTOR_MYSQL_PORT :: item where
  "CONFIG_DINGODB_EXECUTOR_MYSQL_PORT = mk_item KIND_DINGODB ''mysqlPort'' REQUIRE_POSITIVE_INTEGER False
     (Const (GInt 3307))"

definition CONFIG_DINGODB_WEB_EXPORT_PORT :: item where
  "CONFIG_DINGODB_WEB_EXPORT_PORT = mk_item KIND_DINGODB ''exportPort'' REQUIRE_POSITIVE_INTEGER False
     (Const (GInt 19100))"

definition CONFIG_DINGO_MDS_CLUSTER_ID :: item where
  "CONFIG_DINGO_MDS_CLUSTER_ID = mk_item KIND_DINGOFS ''cluster_id'' REQUIRE_INT True
     (Fn (\<lambda>dc. case dc_variables dc of
        None \<Rightarrow> Inl GoPanic
      | Some vars \<Rightarrow>
          Inr (case Get vars ''cluster_id'' of
                 Inl _ \<Rightarrow> GInt 0
               | Inr s \<Rightarrow> if s = [] then GInt 0 else GStr s)))"

definition all_items :: "item list" where
  "all_items =
     [CONFIG_PREFIX, CONFIG_REPORT_USAGE, CONFIG_CONTAINER_IMAGE, CONFIG_LOG_DIR, CONFIG_DATA_DIR,
      CONFIG_SEQ_OFFSET, CONFIG_SOURCE_CORE_DIR, CONFIG_TARGET_CORE_DIR, CONFIG_ENV, CONFIG_LISTEN_IP,
      CONFIG_LISTEN_PORT, CONFIG_LISTEN_CLIENT_PORT, CONFIG_LISTEN_DUMMY_PORT, CONFIG_LISTEN_PROXY_PORT,
      CONFIG_LISTEN_EXTERNAL_IP, CONFIG_LISTEN_EXTERNAL_PORT, CONFIG_ENABLE_EXTERNAL_SERVER,
      CONFIG_COPYSETS, CONFIG_S3_ACCESS_KEY, CONFIG_S3_SECRET_KEY, CONFIG_S3_ADDRESS,
      CONFIG_S3_BUCKET_NAME, CONFIG_ENABLE_RDMA, CONFIG_ENABLE_RENAMEAT2, CONFIG_ENABLE_CHUNKFILE_POOL,
      CONFIG_VARIABLE, CONFIG_ETCD_AUTH_ENABLE, CONFIG_ETCD_AUTH_USERNAME, CONFIG_ETCD_AUTH_PASSWORD,
      CONFIG_DINGO_STORE_RAFT_DIR, CONFIG_DINGO_STORE_SERVER_PORT, CONFIG_DINGO_STORE_RAFT_PORT,
      CONFFIG_DINGO_STORE_SERVER_LISTEN_HOST, CONFFIG_DINGO_STORE_RAFT_LISTEN_HOST,
      CONFIG_DINGO_STORE_REPLICA_NUM, CONFIG_INSTANCE_START_ID, CONFIG_DINGOSTORE_COORDINATOR_ADDR,
      CONFFIG_DINGO_SERVER_LISTEN_HOST, CONFIG_DINGO_STORE_DOCUMENT_DIR, CONFIG_DINGO_STORE_VECTOR_DIR,
      CONFIG_DINGO_EXECUTOR_JAVA_OPTS, CONFIG_DINGODB_SERVER_PORT, CONFIG_DINGODB_EXECUTOR_MYSQL_PORT,
      CONFIG_DINGODB_WEB_EXPORT_PORT, CONFIG_DINGO_MDS_CLUSTER_ID]"

definition itemset :: itemSet where
  "itemset = fold itemset_insert all_items \<lparr>is_items = [], is_key2item = []\<rparr>"

definition itemset_get :: "string \<Rightarrow> item option" where
  "itemset_get key = map_of (is_key2item itemset) key"

definition itemset_getAll :: "item list" where
  "itemset_getAll = is_items itemset"

lemmas item_defs =
  CONFIG_PREFIX_def CONFIG_REPORT_USAGE_def CONFIG_CONTAINER_IMAGE_def CONFIG_LOG_DIR_def
  CONFIG_DATA_DIR_def CONFIG_SEQ_OFFSET_def CONFIG_SOURCE_CORE_DIR_def CONFIG_TARGET_CORE_DIR_def
  CONFIG_ENV_def CONFIG_LISTEN_IP_def CONFIG_LISTEN_PORT_def CONFIG_LISTEN_CLIENT_PORT_def
  CONFIG_LISTEN_DUMMY_PORT_def CONFIG_LISTEN_PROXY_PORT_def CONFIG_LISTEN_EXTERNAL_IP_def
  CONFIG_LISTEN_EXTERNAL_PORT_def CONFIG_ENABLE_EXTERNAL_SERVER_def CONFIG_COPYSETS_def
  CONFIG_S3_ACCESS_KEY_def CONFIG_S3_SECRET_KEY_def CONFIG_S3_ADDRESS_def CONFIG_S3_BUCKET_NAME_def
  CONFIG_ENABLE_RDMA_def CONFIG_ENABLE_RENAMEAT2_def CONFIG_ENABLE_CHUNKFILE_POOL_def
  CONFIG_VARIABLE_def CONFIG_ETCD_AUTH_ENABLE_def CONFIG_ETCD_AUTH_USERNAME_def
  CONFIG_ETCD_AUTH_PASSWORD_def CONFIG_DINGO_STORE_RAFT_DIR_def CONFIG_DINGO_STORE_SERVER_PORT_def
  CONFIG_DINGO_STORE_RAFT_PORT_def CONFFIG_DINGO_STORE_SERVER_LISTEN_HOST_def
  CONFFIG_DINGO_STORE_RAFT_LISTEN_HOST_def CONFIG_DINGO_STORE_REPLICA_NUM_def
  CONFIG_INSTANCE_START_ID_def CONFIG_DINGOSTORE_COORDINATOR_ADDR_def
  CONFFIG_DINGO_SERVER_LISTEN_HOST_def CONFIG_DINGO_STORE_DOCUMENT_DIR_def
  CONFIG_DINGO_STORE_VECTOR_DIR_def CONFIG_DINGO_EXECUTOR_JAVA_OPTS_def CONFIG_DINGODB_SERVER_PORT_def
  CONFIG_DINGODB_EXECUTOR_MYSQL_PORT_def CONFIG_DINGODB_WEB_EXPORT_PORT_def
  CONFIG_DINGO_MDS_CLUSTER_ID_def

end
