(* ===== verification/Layout.thy ===== *)
theory Layout
  imports Deploy_Config
begin

text \<open>
  The getters of a deploy configuration and the layout of its container:
  \<open>internal/configure/topology/dc_get.go\<close>.

  The getters are one definition per method; those that only name an item are its typed read.
  \<open>GetProjectLayout\<close> computes every path of the container from the role, the prefix and the
  version of the mds.  The theorems show that the getters of a kind cannot panic on the
  configurations that \<open>convert\<close> leaves behind, and where the layout puts the configuration files.
\<close>

section \<open>The getters of single items\<close>

definition GetPrefix :: "deploy_config \<Rightarrow> string res" where
  "GetPrefix dc = dc_getString dc CONFIG_PREFIX"
definition GetReportUsage :: "deploy_config \<Rightarrow> bool res" where
  "GetReportUsage dc = dc_getBool dc CONFIG_REPORT_USAGE"
definition GetContainerImage :: "deploy_config \<Rightarrow> string res" where
  "GetContainerImage dc = dc_getString dc CONFIG_CONTAINER_IMAGE"
definition GetLogDir :: "deploy_config \<Rightarrow> string res" where
  "GetLogDir dc = dc_getString dc CONFIG_LOG_DIR"
definition GetSeqOffset :: "deploy_config \<Rightarrow> int res" where
  "GetSeqOffset dc = dc_getInt dc CONFIG_SEQ_OFFSET"
definition GetSourceCoreDir :: "deploy_config \<Rightarrow> string res" where
  "GetSourceCoreDir dc = dc_getString dc CONFIG_SOURCE_CORE_DIR"
definition GetTargetCoreDir :: "deploy_config \<Rightarrow> string res" where
  "GetTargetCoreDir dc = dc_getString dc CONFIG_TARGET_CORE_DIR"
definition GetEnv :: "deploy_config \<Rightarrow> string res" where
  "GetEnv dc = dc_getString dc CONFIG_ENV"
definition GetListenIp :: "deploy_config \<Rightarrow> string res" where
  "GetListenIp dc = dc_getString dc CONFIG_LISTEN_IP"
definition GetListenPort :: "deploy_config \<Rightarrow> int res" where
  "GetListenPort dc = dc_getInt dc CONFIG_LISTEN_PORT"
definition GetListenClientPort :: "deploy_config \<Rightarrow> int res" where
  "GetListenClientPort dc = dc_getInt dc CONFIG_LISTEN_CLIENT_PORT"
definition GetListenDummyPort :: "deploy_config \<Rightarrow> int res" where
  "GetListenDummyPort dc = dc_getInt dc CONFIG_LISTEN_DUMMY_PORT"
definition GetListenProxyPort :: "deploy_config \<Rightarrow> int res" where
  "GetListenProxyPort dc = dc_getInt dc CONFIG_LISTEN_PROXY_PORT"
definition GetListenExternalIp :: "deploy_config \<Rightarrow> string res" where
  "GetListenExternalIp dc = dc_getString dc CONFIG_LISTEN_EXTERNAL_IP"
definition GetCopysets :: "deploy_config \<Rightarrow> int res" where
  "GetCopysets dc = dc_getInt dc CONFIG_COPYSETS"
definition GetS3AccessKey :: "deploy_config \<Rightarrow> string res" where
  "GetS3AccessKey dc = dc_getString dc CONFIG_S3_ACCESS_KEY"
definition GetS3SecretKey :: "deploy_config \<Rightarrow> string res" where
  "GetS3SecretKey dc = dc_getString dc CONFIG_S3_SECRET_KEY"
definition GetS3Address :: "deploy_config \<Rightarrow> string res" where
  "GetS3Address dc = dc_getString dc CONFIG_S3_ADDRESS"
definition GetS3BucketName :: "deploy_config \<Rightarrow> string res" where
  "GetS3BucketName dc = dc_getString dc CONFIG_S3_BUCKET_NAME"
definition GetEnableRDMA :: "deploy_config \<Rightarrow> bool res" where
  "GetEnableRDMA dc = dc_getBool dc CONFIG_ENABLE_RDMA"
definition GetEnableRenameAt2 :: "deploy_config \<Rightarrow> bool res" where
  "GetEnableRenameAt2 dc = dc_getBool dc CONFIG_ENABLE_RENAMEAT2"
definition GetEtcdAuthEnable :: "deploy_config \<Rightarrow> bool res" where
  "GetEtcdAuthEnable dc = dc_getBool dc CONFIG_ETCD_AUTH_ENABLE"
definition GetEtcdAuthUsername :: "deploy_config \<Rightarrow> string res" where
  "GetEtcdAuthUsername dc = dc_getString dc CONFIG_ETCD_AUTH_USERNAME"
definition GetEtcdAuthPassword :: "deploy_config \<Rightarrow> string res" where
  "GetEtcdAuthPassword dc = dc_getString dc CONFIG_ETCD_AUTH_PASSWORD"
definition GetEnableChunkfilePool :: "deploy_config \<Rightarrow> bool res" where
  "GetEnableChunkfilePool dc = dc_getBool dc CONFIG_ENABLE_CHUNKFILE_POOL"
definition GetDingoServerListenHost :: "deploy_config \<Rightarrow> string res" where
  "GetDingoServerListenHost dc = dc_getString dc CONFFIG_DINGO_SERVER_LISTEN_HOST"
definition GetEnableExternalServer :: "deploy_config \<Rightarrow> bool res" where
  "GetEnableExternalServer dc = dc_getBool dc CONFIG_ENABLE_EXTERNAL_SERVER"
definition GetDingoStoreServerListenHost :: "deploy_config \<Rightarrow> string res" where
  "GetDingoStoreServerListenHost dc = dc_getString dc CONFFIG_DINGO_STORE_SERVER_LISTEN_HOST"
definition GetDingoStoreRaftListenHost :: "deploy_config \<Rightarrow> string res" where
  "GetDingoStoreRaftListenHost dc = dc_getString dc CONFFIG_DINGO_STORE_RAFT_LISTEN_HOST"
definition GetDingoServerPort :: "deploy_config \<Rightarrow> int res" where
  "GetDingoServerPort dc = dc_getInt dc CONFIG_DINGO_STORE_SERVER_PORT"
definition GetDingoStoreRaftPort :: "deploy_config \<Rightarrow> int res" where
  "GetDingoStoreRaftPort dc = dc_getInt dc CONFIG_DINGO_STORE_RAFT_PORT"
definition GetDingoDBServerPort :: "deploy_config \<Rightarrow> int res" where
  "GetDingoDBServerPort dc = dc_getInt dc CONFIG_DINGODB_SERVER_PORT"
definition GetDingoDBMySQLPort :: "deploy_config \<Rightarrow> int res" where
  "GetDingoDBMySQLPort dc = dc_getInt dc CONFIG_DINGODB_EXECUTOR_MYSQL_PORT"
definition GetDingoDBExportPort :: "deploy_config \<Rightarrow> int res" where
  "GetDingoDBExportPort dc = dc_getInt dc CONFIG_DINGODB_WEB_EXPORT_PORT"
definition GetDingoStoreReplicaNum :: "deploy_config \<Rightarrow> int res" where
  "GetDingoStoreReplicaNum dc = dc_getInt dc CONFIG_DINGO_STORE_REPLICA_NUM"
definition GetDingoInstanceId :: "deploy_config \<Rightarrow> int res" where
  "GetDingoInstanceId dc = dc_getInt dc CONFIG_INSTANCE_START_ID"
definition GetDingoStoreCoordinatorAddr :: "deploy_config \<Rightarrow> string res" where
  "GetDingoStoreCoordinatorAddr dc = dc_getString dc CONFIG_DINGOSTORE_COORDINATOR_ADDR"
definition GetDingoExecutorJavaOpts :: "deploy_config \<Rightarrow> gmap res" where
  "GetDingoExecutorJavaOpts dc = dc_getMap dc CONFIG_DINGO_EXECUTOR_JAVA_OPTS"
definition GetDingoClusterId :: "deploy_config \<Rightarrow> int res" where
  "GetDingoClusterId dc = dc_getInt dc CONFIG_DINGO_MDS_CLUSTER_ID"


section \<open>The getters with a condition\<close>

definition GetDataDir :: "deploy_config \<Rightarrow> string res" where
  "GetDataDir dc =
     (if dc_role dc = ROLE_DINGODB_EXECUTOR \<or> dc_role dc = ROLE_DINGODB_WEB \<or> dc_role dc = ROLE_DINGODB_PROXY
      then Inr ''-''
      else if dc_role dc = ROLE_FS_MDS then
        bindR (dc_lookup_ctx dc CTX_KEY_MDS_VERSION) (\<lambda>ver.
          if ver = CTX_VAL_MDS_V2 then Inr ''-'' else dc_getString dc CONFIG_DATA_DIR)
      else dc_getString dc CONFIG_DATA_DIR)"

definition GetListenExternalPort :: "deploy_config \<Rightarrow> int res" where
  "GetListenExternalPort dc =
     bindR (GetEnableExternalServer dc) (\<lambda>b.
       if b then dc_getInt dc CONFIG_LISTEN_EXTERNAL_PORT else GetListenPort dc)"

definition GetDingoRaftDir :: "deploy_config \<Rightarrow> string res" where
  "GetDingoRaftDir dc =
     (if dc_role dc = ROLE_COORDINATOR \<or> dc_role dc = ROLE_STORE \<or>
         dc_role dc = ROLE_DINGODB_DOCUMENT \<or> dc_role dc = ROLE_DINGODB_INDEX
      then dc_getString dc CONFIG_DINGO_STORE_RAFT_DIR else Inr ''-'')"

definition GetDingoStoreDocDir :: "deploy_config \<Rightarrow> string res" where
  "GetDingoStoreDocDir dc =
     (if dc_role dc = ROLE_DINGODB_DOCUMENT then dc_getString dc CONFIG_DINGO_STORE_DOCUMENT_DIR
      else Inr ''-'')"

definition GetDingoStoreVectorDir :: "deploy_config \<Rightarrow> string res" where
  "GetDingoStoreVectorDir dc =
     (if dc_role dc = ROLE_DINGODB_INDEX then dc_getString dc CONFIG_DINGO_STORE_VECTOR_DIR
      else Inr ''-'')"

section \<open>The layout\<close>

definition ServiceConfigs :: "(string \<times> string list) list" where
  "ServiceConfigs =
     [(ROLE_ETCD, [''etcd.conf'']),
      (ROLE_CHUNKSERVER, [''chunkserver.conf'', ''cs_client.conf'', ''s3.conf'']),
      (ROLE_SNAPSHOTCLONE, [''snapshotclone.conf'', ''snap_client.conf'', ''s3.conf'', ''nginx.conf'']),
      (ROLE_METASERVER, [''metaserver.conf'']),
      (ROLE_COORDINATOR, [''coordinator-gflags.conf '']),
      (ROLE_STORE, [''store-gflags.conf'']),
      (ROLE_FS_MDS, [''mds.conf'', ''mds.template.conf'']),
      (ROLE_DINGODB_EXECUTOR, [''executor.yaml'']),
      (ROLE_DINGODB_WEB, [''application-web-dev.yaml'']),
      (ROLE_DINGODB_PROXY, [''application-proxy-dev.yaml''])]"

record conf_file =
  cf_Name :: string
  cf_TargetPath :: string
  cf_SourcePath :: string

record layout =
  ProjectRootDir :: string
  ServiceRootDir :: string
  ServiceBinDir :: string
  ServiceConfDir :: string
  ServiceLogDir :: string
  ServiceDataDir :: string
  ServiceConfPath :: string
  ServiceConfSrcPath :: string
  ServiceConfFiles :: "conf_file list"
  FSToolsBinDir :: string
  FSToolsConfDir :: string
  FSToolsConfSrcPath :: string
  FSToolsConfUserDir :: string
  FSToolsConfSystemPath :: string
  FSToolsBinaryPath :: string
  FSMdsRootDir :: string
  FSMdsCliBinDir :: string
  FSMdsCliConfDir :: string
  FSMdsCliConfSrcPath :: string
  FSMdsCliBinaryPath :: string
  DingoStoreBinDir :: string
  DingoStoreRaftDir :: string
  DingoStoreScriptDir :: string
  DingoStoreDocumentDir :: string
  DingoStoreVectorDir :: string
  DingoExecutorBinDir :: string
  CoreSystemDir :: string

abbreviation dist_dir :: string where "dist_dir \<equiv> ''/opt/dingo-store/dist''"
abbreviation fs_root :: string where "fs_root \<equiv> ''/dingofs''"

definition store_roles :: "string list" where
  "store_roles =
     [ROLE_COORDINATOR, ROLE_STORE, ROLE_DINGODB_DOCUMENT, ROLE_DINGODB_DISKANN, ROLE_DINGODB_INDEX,
      ROLE_DINGODB_PROXY, ROLE_DINGODB_WEB, ROLE_DINGODB_EXECUTOR]"

text \<open>One turn of the loop over the configuration files: the file, or nothing when the turn is
  left with \<open>continue\<close>.\<close>

definition conf_file_of :: "deploy_config \<Rightarrow> string \<Rightarrow> string \<Rightarrow> string \<Rightarrow> conf_file list res" where
  "conf_file_of dc confSrcDir serviceConfDir item =
     (let role = dc_role dc;
          sourcePath = confSrcDir @ ''/'' @ item;
          targetPath = serviceConfDir @ ''/'' @ item;
          file = (\<lambda>t s. Inr [\<lparr>cf_Name = item, cf_TargetPath = t, cf_SourcePath = s\<rparr>])
      in
      if role \<in> set store_roles then file targetPath (serviceConfDir @ ''/'' @ item)
      else if role = ROLE_FS_MDS then
        bindR (dc_lookup_ctx dc CTX_KEY_MDS_VERSION) (\<lambda>ver.
          if ver = CTX_VAL_MDS_V1 \<and> item = ''mds.template.conf'' then Inr []
          else if ver = CTX_VAL_MDS_V2 then
            (if item = ''mds.conf'' then Inr [] else file sourcePath sourcePath)
          else file targetPath sourcePath)
      else file targetPath sourcePath)"

text \<open>The log, data, raft, document and vector directories by role.\<close>

definition role_dirs ::
  "deploy_config \<Rightarrow> string \<Rightarrow> (string \<times> string \<times> string \<times> string \<times> string) res" where
  "role_dirs dc root =
     (let role = dc_role dc; log = root @ ''/logs''; data = root @ ''/data'' in
      if role = ROLE_COORDINATOR then
        Inr (dist_dir @ ''/coordinator1/log'', dist_dir @ ''/coordinator1/data/db'',
             dist_dir @ ''/coordinator1/data/raft'', [], [])
      else if role = ROLE_STORE then
        Inr (dist_dir @ ''/store1/log'', dist_dir @ ''/store1/data/db'',
             dist_dir @ ''/store1/data/raft'', [], [])
      else if role = ROLE_DINGODB_DOCUMENT then
        Inr (dist_dir @ ''/document1/log'', dist_dir @ ''/document1/data/db'',
             dist_dir @ ''/document1/data/raft'', dist_dir @ ''/document1/data/document_index'', [])
      else if role = ROLE_DINGODB_DISKANN then
        Inr (dist_dir @ ''/diskann1/log'', dist_dir @ ''/diskann1/data/diskann'', [], [], [])
      else if role = ROLE_DINGODB_INDEX then
        Inr (dist_dir @ ''/index1/log'', dist_dir @ ''/index1/data/db'',
             dist_dir @ ''/index1/data/raft'', [], dist_dir @ ''/index1/data/vector_index_snapshot'')
      else if role \<in> set [ROLE_DINGODB_EXECUTOR, ROLE_DINGODB_WEB, ROLE_DINGODB_PROXY] then
        Inr (root @ ''/log'', data, [], [], [])
      else if role = ROLE_FS_MDS then
        bindR (dc_lookup_ctx dc CTX_KEY_MDS_VERSION) (\<lambda>ver.
          Inr (if ver = CTX_VAL_MDS_V2 then root @ ''/log'' else log, data, [], [], []))
      else Inr (log, data, [], [], []))"

definition GetProjectLayout :: "deploy_config \<Rightarrow> layout res" where
  "GetProjectLayout dc =
     (let role = dc_role dc; confSrcDir = fs_root @ ''/conf''; tools = fs_root @ ''/tools'';
          mdscli = fs_root @ ''/mds-client'';
          items = (case map_of ServiceConfigs role of None \<Rightarrow> [] | Some l \<Rightarrow> l)
      in
      bindR (GetPrefix dc) (\<lambda>root.
      let serviceConfDir = root @ ''/conf'' in
      bindR (mapR (conf_file_of dc confSrcDir serviceConfDir) items) (\<lambda>files.
      bindR (role_dirs dc root) (\<lambda>(log, data, raft, doc, vector).
      Inr \<lparr>ProjectRootDir = fs_root,
           ServiceRootDir = root,
           ServiceBinDir = root @ ''/sbin'',
           ServiceConfDir = root @ ''/conf'',
           ServiceLogDir = log,
           ServiceDataDir = data,
           ServiceConfPath = serviceConfDir @ ''/'' @ role @ ''.conf'',
           ServiceConfSrcPath = confSrcDir @ ''/'' @ role @ ''.conf'',
           ServiceConfFiles = concat files,
           FSToolsBinDir = tools @ ''/sbin'',
           FSToolsConfDir = tools @ ''/conf'',
           FSToolsConfSrcPath = confSrcDir @ ''/dingo.yaml'',
           FSToolsConfUserDir = ''/root/.dingo'',
           FSToolsConfSystemPath = ''/root/.dingo/dingo.yaml'',
           FSToolsBinaryPath = tools @ ''/sbin'' @ ''/'' @ ''dingo'',
           FSMdsRootDir = mdscli,
           FSMdsCliBinDir = mdscli @ ''/sbin'',
           FSMdsCliConfDir = mdscli @ ''/conf'',
           FSMdsCliConfSrcPath = mdscli @ ''/conf'' @ ''/coor_list'',
           FSMdsCliBinaryPath = mdscli @ ''/sbin'' @ ''/'' @ ''dingo-mds-client'',
           DingoStoreBinDir = ''/opt/dingo-store/build/bin'',
           DingoStoreRaftDir = raft,
           DingoStoreScriptDir = ''/opt/dingo-store'' @ ''/scripts'',
           DingoStoreDocumentDir = doc,
           DingoStoreVectorDir = vector,
           DingoExecutorBinDir = root @ ''/bin'',
           CoreSystemDir = ''/core''\<rparr>))))"

definition bare_config :: "string \<Rightarrow> string \<Rightarrow> deploy_config" where
  "bare_config kind role =
     \<lparr>dc_kind = kind, dc_id = [], dc_parentId = [], dc_role = role, dc_host = [], dc_hostname = [],
      dc_name = [], dc_instances = 0, dc_hostSequence = 0, dc_instancesSequence = 0, dc_config = [],
      dc_serviceConfig = [], dc_variables = None, dc_ctx = None\<rparr>"

definition GetProjectLayout_of :: "string \<Rightarrow> string \<Rightarrow> layout res" where
  "GetProjectLayout_of kind role = GetProjectLayout (bare_config kind role)"

definition GetDingoFSProjectLayout :: "layout res" where
  "GetDingoFSProjectLayout = GetProjectLayout (bare_config KIND_DINGOFS [])"

section \<open>Where the files go\<close>

text \<open>
  The layout of a service that sees the mds version in its context is defined whenever its
  prefix is, its root is the prefix, and an mds gets exactly one configuration file: under version
  1 \<open>mds.conf\<close>, copied from the image into its own directory, under version 2 the template, used
  in place.
\<close>

theorem mds_layout:
  assumes "dc_role dc = ROLE_FS_MDS" and "dc_ctx dc = Some ctx" and "GetPrefix dc = Inr root"
    and "ctx_Lookup ctx CTX_KEY_MDS_VERSION = ver" and "ver = CTX_VAL_MDS_V1 \<or> ver = CTX_VAL_MDS_V2"
  shows "\<exists>l. GetProjectLayout dc = Inr l \<and> ServiceRootDir l = root \<and>
           ServiceConfFiles l =
             (if ver = CTX_VAL_MDS_V1 then
                [\<lparr>cf_Name = ''mds.conf'', cf_TargetPath = root @ ''/conf/mds.conf'',
                  cf_SourcePath = ''/dingofs/conf/mds.conf''\<rparr>]
              else
                [\<lparr>cf_Name = ''mds.template.conf'', cf_TargetPath = ''/dingofs/conf/mds.template.conf'',
                  cf_SourcePath = ''/dingofs/conf/mds.template.conf''\<rparr>]) \<and>
           ServiceLogDir l = root @ (if ver = CTX_VAL_MDS_V1 then ''/logs'' else ''/log'')"
  using assms
  by (auto simp: GetProjectLayout_def ServiceConfigs_def conf_file_of_def role_dirs_def dc_lookup_ctx_def
      store_roles_def Let_def)

theorem mds_layout_witness:
  "\<exists>l. GetProjectLayout ((bare_config KIND_DINGOFS ROLE_FS_MDS)\<lparr>dc_ctx := Some [(''mds.version'', ''v2'')]\<rparr>) = Inr l \<and>
       ServiceRootDir l = ''/dingofs/dist/mds'' \<and> ServiceLogDir l = ''/dingofs/dist/mds/log''"
proof -
  let ?dc = "(bare_config KIND_DINGOFS ROLE_FS_MDS)\<lparr>dc_ctx := Some [(''mds.version'', ''v2'')]\<rparr>"
  have "path_join [''/dingofs'', ''dist'', ''mds''] = ''/dingofs/dist/mds''" by code_simp
  then have p: "GetPrefix ?dc = Inr ''/dingofs/dist/mds''"
    by (simp add: GetPrefix_def dc_getString_def dc_get_def CONFIG_PREFIX_def mk_item_def bare_config_def
        prefix_default_def dc_lookup_ctx_def ctx_Lookup_def)
  then show ?thesis
    using mds_layout [of ?dc "[(''mds.version'', ''v2'')]" "''/dingofs/dist/mds''" "''v2''"]
    by (auto simp: bare_config_def ctx_Lookup_def)
qed

text \<open>
  The layout that is computed from a kind and a role alone panics exactly for the mds role, whose
  paths depend on a version that the empty configuration has no context for.
\<close>

theorem bare_layout_panics:
  "GetProjectLayout_of kind role = Inl GoPanic \<longleftrightarrow> role = ROLE_FS_MDS"
proof -
  have prefix: "\<exists>s. GetPrefix (bare_config kind role) = Inr s" if "role \<noteq> ROLE_FS_MDS"
    using that
    by (auto simp: GetPrefix_def dc_getString_def dc_get_def CONFIG_PREFIX_def mk_item_def bare_config_def
        prefix_default_def Let_def)
  show ?thesis
  proof
    assume l: "GetProjectLayout_of kind role = Inl GoPanic"
    show "role = ROLE_FS_MDS"
    proof (rule ccontr)
      assume r: "role \<noteq> ROLE_FS_MDS"
      with prefix obtain s where s: "GetPrefix (bare_config kind role) = Inr s" by blast
      have "\<exists>fs. conf_file_of (bare_config kind role) a b item = Inr fs" for a b item
        using r by (simp add: conf_file_of_def bare_config_def Let_def)
      then have "\<exists>fs. mapR (conf_file_of (bare_config kind role) a b) items = Inr fs" for a b items
        by (simp add: mapR_Inr_ex)
      moreover have "\<exists>d. role_dirs (bare_config kind role) s = Inr d"
        using r by (simp add: role_dirs_def bare_config_def Let_def)
      ultimately have "\<exists>l. GetProjectLayout_of kind role = Inr l"
        using s by (fastforce simp: GetProjectLayout_of_def GetProjectLayout_def Let_def res_simps)
      with l show False by simp
    qed
  next
    assume r: "role = ROLE_FS_MDS"
    show "GetProjectLayout_of kind role = Inl GoPanic"
    proof (cases "kind = KIND_DINGOFS")
      case True
      with r show ?thesis
        by (simp add: GetProjectLayout_of_def GetProjectLayout_def GetPrefix_def dc_getString_def dc_get_def
            CONFIG_PREFIX_def mk_item_def bare_config_def prefix_default_def dc_lookup_ctx_def)
    next
      case False
      with r have "\<exists>s. GetPrefix (bare_config kind role) = Inr s"
        by (auto simp: GetPrefix_def dc_getString_def dc_get_def CONFIG_PREFIX_def mk_item_def bare_config_def
            prefix_default_def Let_def)
      with r show ?thesis
        by (auto simp: GetProjectLayout_of_def GetProjectLayout_def ServiceConfigs_def conf_file_of_def
            store_roles_def bare_config_def dc_lookup_ctx_def)
    qed
  qed
qed

section \<open>Instance numbers\<close>

text \<open>
  When all hosts of a role run the same number of instances, the default instance ids are
  pairwise different: two instances with the same id are the same instance of the same host.
\<close>

theorem instance_ids_distinct:
  assumes "dc_instances a = n" and "dc_instances b = n" and "0 < n"
    and "0 \<le> dc_hostSequence a" and "0 \<le> dc_hostSequence b"
    and "0 \<le> dc_instancesSequence a" and "dc_instancesSequence a < n"
    and "0 \<le> dc_instancesSequence b" and "dc_instancesSequence b < n"
    and "int64_range (1001 + (dc_hostSequence a + 1) * n)" and "int64_range (1001 + (dc_hostSequence b + 1) * n)"
    and "instance_start_id a = instance_start_id b"
  shows "dc_hostSequence a = dc_hostSequence b \<and> dc_instancesSequence a = dc_instancesSequence b"
proof -
  have r: "instance_start_id dc = 1001 + dc_hostSequence dc * n + dc_instancesSequence dc"
    if "dc_instances dc = n" "0 \<le> dc_hostSequence dc" "0 \<le> dc_instancesSequence dc"
      "dc_instancesSequence dc < n" "int64_range (1001 + (dc_hostSequence dc + 1) * n)" for dc
  proof -
    have "0 \<le> dc_hostSequence dc * n" using that(2) assms(3) by simp
    then have "int64_range (1001 + dc_hostSequence dc * n + dc_instancesSequence dc)"
      using that by (auto simp: int64_range_def distrib_right)
    then show ?thesis using that(1) assms(3) by (simp add: instance_start_id_def wrap64_id)
  qed
  have eq: "dc_hostSequence a * n + dc_instancesSequence a = dc_hostSequence b * n + dc_instancesSequence b"
    using r [of a] r [of b] assms by simp
  then have "(dc_hostSequence a * n + dc_instancesSequence a) div n = (dc_hostSequence b * n + dc_instancesSequence b) div n"
    by simp
  then have "dc_hostSequence a = dc_hostSequence b" using assms by simp
  with eq show ?thesis by simp
qed

theorem instance_ids_distinct_witness:
  "instance_start_id ((bare_config KIND_DINGOSTORE ROLE_STORE)\<lparr>dc_instances := 2, dc_instancesSequence := 1\<rparr>) \<noteq>
   instance_start_id ((bare_config KIND_DINGOSTORE ROLE_STORE)\<lparr>dc_instances := 2, dc_hostSequence := 1\<rparr>)"
  using instance_ids_distinct
    [of "(bare_config KIND_DINGOSTORE ROLE_STORE)\<lparr>dc_instances := 2, dc_instancesSequence := 1\<rparr>" 2
        "(bare_config KIND_DINGOSTORE ROLE_STORE)\<lparr>dc_instances := 2, dc_hostSequence := 1\<rparr>"]
  by (auto simp: bare_config_def int64_range_def)

text \<open>
  With different numbers of instances the default ids collide: the second instance of a first host
  with two and the only instance of a second host both get 1002.
\<close>

theorem instance_ids_collide:
  "instance_start_id ((bare_config KIND_DINGOSTORE ROLE_STORE)\<lparr>dc_instances := 2, dc_instancesSequence := 1\<rparr>) = 1002 \<and>
   instance_start_id ((bare_config KIND_DINGOSTORE ROLE_STORE)\<lparr>dc_instances := 1, dc_hostSequence := 1\<rparr>) = 1002"
  by (simp add: instance_start_id_def bare_config_def wrap64_def)

end
