(* ===== verification/Service_Vars.thy ===== *)
theory Service_Vars
  imports Layout
begin

text \<open>
  The variables a deployed service may use in its configuration:
  \<open>internal/configure/topology/variables.go\<close>.

  \<open>serviceVars\<close> and \<open>clusterVars\<close> are the two tables; \<open>getValue\<close> computes the value of one
  variable for the \<open>idx\<close>-th service from the configurations of all services, and
  \<open>addVariables\<close> registers the ones that apply to its kind and role.  \<open>uuid i\<close> stands for the
  string that \<open>uuid.NewString\<close> of the \<open>google/uuid\<close> package returns for the \<open>i\<close>-th service.
\<close>

section \<open>The tables\<close>

datatype select_port =
    SELECT_LISTEN_PORT
  | SELECT_LISTEN_CLIENT_PORT
  | SELECT_LISTEN_DUMMY_PORT
  | SELECT_LISTEN_PROXY_PORT
  | SELECT_LISTEN_COOR_SERVER_PORT
  | SELECT_LISTEN_COOR_RAFT_PORT
  | SELECT_SERVER_PORT

record Var =
  var_name :: string
  var_kind :: "string list"
  var_role :: "string list"
  var_lookup :: bool

definition mk_Var :: "string \<Rightarrow> string list \<Rightarrow> string list \<Rightarrow> bool \<Rightarrow> Var" where
  "mk_Var n ks rs l = \<lparr>var_name = n, var_kind = ks, var_role = rs, var_lookup = l\<rparr>"

definition serviceVars :: "Var list" where
  "serviceVars =
     [mk_Var ''prefix'' [] [] False,
      mk_Var ''service_id'' [] [] False,
      mk_Var ''service_role'' [] [] False,
      mk_Var ''service_host'' [] [] True,
      mk_Var ''service_host_sequence'' [] [] False,
      mk_Var ''service_replica_sequence'' [] [] False,
      mk_Var ''service_replica_sequence_with_offset'' [] [] False,
      mk_Var ''sequence_offset'' [] [] False,
      mk_Var ''service_replicas_sequence'' [] [] False,
      mk_Var ''service_instances_sequence'' [] [] False,
      mk_Var ''format_replica_sequence'' [] [] False,
      mk_Var ''format_replicas_sequence'' [] [] False,
      mk_Var ''format_instances_sequence'' [] [] False,
      mk_Var ''service_addr'' [] [] True,
      mk_Var ''service_port'' [] [] False,
      mk_Var ''service_client_port'' [] [ROLE_ETCD] False,
      mk_Var ''service_dummy_port'' [] [ROLE_SNAPSHOTCLONE, ROLE_FS_MDS] False,
      mk_Var ''service_proxy_port'' [] [ROLE_SNAPSHOTCLONE] False,
      mk_Var ''service_external_addr'' [] [ROLE_CHUNKSERVER, ROLE_METASERVER] True,
      mk_Var ''service_external_port'' [] [ROLE_METASERVER] False,
      mk_Var ''log_dir'' [] [] False,
      mk_Var ''data_dir'' [] [] False,
      mk_Var ''raft_dir'' [] [ROLE_COORDINATOR, ROLE_STORE] False,
      mk_Var ''random_uuid'' [] [] False]"

definition clusterVars :: "Var list" where
  "clusterVars =
     [mk_Var ''cluster_mds_dummy_addr'' [] [] False,
      mk_Var ''cluster_mds_dummy_port'' [] [] False,
      mk_Var ''cluster_metaserver_addr'' [KIND_DINGOFS] [] False,
      mk_Var ''cluster_coor_srv_peers'' [KIND_DINGOSTORE, KIND_DINGOFS, KIND_DINGODB] [] False,
      mk_Var ''cluster_coor_raft_peers'' [KIND_DINGOSTORE, KIND_DINGOFS, KIND_DINGODB] [] False,
      mk_Var ''cluster_mds_addr'' [KIND_DINGOFS] [] False,
      mk_Var ''coordinator_addr'' [KIND_DINGOFS, KIND_DINGOSTORE, KIND_DINGODB] [] False,
      mk_Var ''diskann_server_start_port'' [KIND_DINGODB] [] False]"

definition skip :: "deploy_config \<Rightarrow> Var \<Rightarrow> bool" where
  "skip dc v =
     (let role = dc_role dc; kind = dc_kind dc in
      if length (var_kind v) \<noteq> 0 \<and> \<not> bget (Slice2Map (var_kind v)) kind then True
      else if length (var_role v) \<noteq> 0 \<and> \<not> bget (Slice2Map (var_role v)) role then True
      else False)"

section \<open>Lists of peers\<close>

text \<open>The services of one role, each turned into a string, joined.\<close>

definition join_role ::
  "string \<Rightarrow> (deploy_config \<Rightarrow> string res) \<Rightarrow> deploy_config list \<Rightarrow> string \<Rightarrow> string res" where
  "join_role role f dcs sep =
     bindR (mapR f (filter (\<lambda>dc. dc_role dc = role) dcs)) (\<lambda>peers. Inr (join sep peers))"

definition joinEtcdPeer :: "deploy_config list \<Rightarrow> string res" where
  "joinEtcdPeer dcs =
     join_role ROLE_ETCD (\<lambda>dc.
       bindR (GetListenIp dc) (\<lambda>peerHost.
       bindR (GetListenPort dc) (\<lambda>peerPort.
       Inr (''etcd'' @ itoa (dc_hostSequence dc) @ itoa (dc_instancesSequence dc) @ ''=http://'' @
            peerHost @ '':'' @ itoa peerPort)))) dcs '',''"

definition peer_port :: "select_port \<Rightarrow> deploy_config \<Rightarrow> int res" where
  "peer_port selectPort dc =
     bindR (GetListenPort dc) (\<lambda>peerPort.
       case selectPort of
         SELECT_LISTEN_PORT \<Rightarrow> Inr peerPort
       | SELECT_LISTEN_CLIENT_PORT \<Rightarrow> GetListenClientPort dc
       | SELECT_LISTEN_DUMMY_PORT \<Rightarrow> GetListenDummyPort dc
       | SELECT_LISTEN_PROXY_PORT \<Rightarrow> GetListenProxyPort dc
       | SELECT_LISTEN_COOR_SERVER_PORT \<Rightarrow> GetDingoServerPort dc
       | SELECT_LISTEN_COOR_RAFT_PORT \<Rightarrow> GetDingoStoreRaftPort dc
       | SELECT_SERVER_PORT \<Rightarrow> GetDingoServerPort dc)"

definition joinPeer :: "deploy_config list \<Rightarrow> string \<Rightarrow> select_port \<Rightarrow> string res" where
  "joinPeer dcs selectRole selectPort =
     join_role selectRole (\<lambda>dc.
       bindR (GetListenIp dc) (\<lambda>peerHost.
       bindR (peer_port selectPort dc) (\<lambda>peerPort.
       Inr (peerHost @ '':'' @ itoa peerPort)))) dcs '',''"

definition joinDummyPort :: "deploy_config list \<Rightarrow> string \<Rightarrow> string res" where
  "joinDummyPort dcs selectRole =
     join_role selectRole (\<lambda>dc. bindR (GetListenDummyPort dc) (\<lambda>p. Inr (itoa p))) dcs '',''"

definition joinNginxUpstreamServer :: "deploy_config list \<Rightarrow> string res" where
  "joinNginxUpstreamServer dcs =
     join_role ROLE_SNAPSHOTCLONE (\<lambda>dc.
       bindR (GetListenIp dc) (\<lambda>peerHost.
       bindR (GetListenPort dc) (\<lambda>peerPort.
       Inr (''server '' @ peerHost @ '':'' @ itoa peerPort @ '';'')))) dcs '' ''"

fun locateDiskannPort :: "deploy_config list \<Rightarrow> int res" where
  "locateDiskannPort [] = Inr 0"
| "locateDiskannPort (dc # dcs) =
     (if dc_role dc \<noteq> ROLE_DINGODB_DISKANN then locateDiskannPort dcs else GetDingoServerPort dc)"

section \<open>The value of a variable\<close>

definition with_layout :: "(layout \<Rightarrow> string) \<Rightarrow> deploy_config \<Rightarrow> string res" where
  "with_layout f dc = bindR (GetProjectLayout dc) (\<lambda>l. Inr (f l))"

definition item_text :: "item \<Rightarrow> deploy_config \<Rightarrow> string res" where
  "item_text i dc = bindR (dc_get dc i) (\<lambda>v. Inr (Atoa v))"

definition service_value :: "string \<Rightarrow> string \<Rightarrow> deploy_config \<Rightarrow> string res option" where
  "service_value uuid_string name dc =
     (let seq = dc_instancesSequence dc;
          with_offset = bindR (GetSeqOffset dc) (\<lambda>off. Inr (itoa (wrap64 (seq + off))))
      in
      if name = ''prefix'' then Some (with_layout ServiceRootDir dc)
      else if name = ''service_id'' then Some (Inr (dc_id dc))
      else if name = ''service_role'' then Some (Inr (dc_role dc))
      else if name = ''service_host'' then Some (Inr (dc_hostname dc))
      else if name = ''service_host_sequence'' then Some (Inr (itoa (dc_hostSequence dc)))
      else if name = ''service_replica_sequence'' then Some (Inr (itoa seq))
      else if name = ''service_replica_sequence_with_offset'' then Some with_offset
      else if name = ''service_replicas_sequence'' then Some (Inr (itoa seq))
      else if name = ''service_replicas_sequence_with_offset'' then Some with_offset
      else if name = ''service_instances_sequence'' then Some (Inr (itoa seq))
      else if name = ''format_replica_sequence'' then Some (Inr (fmt02d seq))
      else if name = ''format_replicas_sequence'' then Some (Inr (fmt02d seq))
      else if name = ''format_instances_sequence'' then Some (Inr (fmt02d seq))
      else if name = ''service_addr'' then Some (item_text CONFIG_LISTEN_IP dc)
      else if name = ''service_port'' then Some (item_text CONFIG_LISTEN_PORT dc)
      else if name = ''service_client_port'' then Some (item_text CONFIG_LISTEN_CLIENT_PORT dc)
      else if name = ''service_dummy_port'' then Some (item_text CONFIG_LISTEN_DUMMY_PORT dc)
      else if name = ''service_proxy_port'' then Some (item_text CONFIG_LISTEN_PROXY_PORT dc)
      else if name = ''service_external_addr'' then Some (item_text CONFIG_LISTEN_EXTERNAL_IP dc)
      else if name = ''service_external_port'' then
        Some (bindR (item_text CONFIG_ENABLE_EXTERNAL_SERVER dc) (\<lambda>b.
                if b = ''true'' then item_text CONFIG_LISTEN_EXTERNAL_PORT dc
                else item_text CONFIG_LISTEN_PORT dc))
      else if name = ''log_dir'' then Some (with_layout ServiceLogDir dc)
      else if name = ''data_dir'' then Some (with_layout ServiceDataDir dc)
      else if name = ''raft_dir'' then Some (with_layout DingoStoreRaftDir dc)
      else if name = ''random_uuid'' then Some (Inr uuid_string)
      else None)"

definition cluster_value :: "string \<Rightarrow> deploy_config list \<Rightarrow> string res" where
  "cluster_value name dcs =
     (if name = ''cluster_mds_addr'' then joinPeer dcs ROLE_FS_MDS SELECT_SERVER_PORT
      else if name = ''cluster_mds_dummy_addr'' then joinPeer dcs ROLE_FS_MDS SELECT_LISTEN_DUMMY_PORT
      else if name = ''cluster_mds_dummy_port'' then joinDummyPort dcs ROLE_FS_MDS
      else if name = ''cluster_chunkserver_addr'' then joinPeer dcs ROLE_CHUNKSERVER SELECT_LISTEN_PORT
      else if name = ''cluster_snapshotclone_addr'' then
        joinPeer dcs ROLE_SNAPSHOTCLONE SELECT_LISTEN_PORT
      else if name = ''cluster_snapshotclone_proxy_addr'' then
        joinPeer dcs ROLE_SNAPSHOTCLONE SELECT_LISTEN_PROXY_PORT
      else if name = ''cluster_snapshotclone_dummy_port'' then joinDummyPort dcs ROLE_SNAPSHOTCLONE
      else if name = ''cluster_snapshotclone_nginx_upstream'' then joinNginxUpstreamServer dcs
      else if name = ''cluster_metaserver_addr'' then joinPeer dcs ROLE_METASERVER SELECT_LISTEN_PORT
      else if name = ''cluster_coor_srv_peers'' \<or> name = ''coordinator_addr'' then
        joinPeer dcs ROLE_COORDINATOR SELECT_LISTEN_COOR_SERVER_PORT
      else if name = ''cluster_coor_raft_peers'' then
        joinPeer dcs ROLE_COORDINATOR SELECT_LISTEN_COOR_RAFT_PORT
      else if name = ''diskann_server_start_port'' then
        bindR (locateDiskannPort dcs) (\<lambda>p. Inr (itoa p))
      else Inr [])"

definition getValue :: "(nat \<Rightarrow> string) \<Rightarrow> string \<Rightarrow> deploy_config list \<Rightarrow> nat \<Rightarrow> string res" where
  "getValue uuid name dcs idx =
     (if length dcs \<le> idx then Inl GoPanic
      else case service_value (uuid idx) name (dcs ! idx) of
             Some r \<Rightarrow> r
           | None \<Rightarrow> cluster_value name dcs)"

section \<open>Registering\<close>

definition mk_variable :: "string \<Rightarrow> string \<Rightarrow> variable" where
  "mk_variable n v = \<lparr>var_Name = n, var_Description = [], var_Value = v, var_Resolved = False\<rparr>"

text \<open>One turn of the loop of \<open>addVariables\<close>, which changes the variables of the \<open>idx\<close>-th
  service only.\<close>

definition add_one :: "(nat \<Rightarrow> string) \<Rightarrow> nat \<Rightarrow> Var \<Rightarrow> deploy_config list \<Rightarrow> deploy_config list res" where
  "add_one uuid idx v dcs =
     (let dc = dcs ! idx in
      if skip dc v then Inr dcs
      else bindR (getValue uuid (var_name v) dcs idx) (\<lambda>val.
        case dc_variables dc of
          None \<Rightarrow> Inl GoPanic
        | Some vars \<Rightarrow>
            bindR (wrapE ERR_REGISTER_VARIABLE_FAILED
                     (Register (mk_variable (var_name v) val) vars))
              (\<lambda>vars'. Inr (dcs[idx := dc\<lparr>dc_variables := Some vars'\<rparr>]))))"

definition addVariables ::
  "(nat \<Rightarrow> string) \<Rightarrow> deploy_config list \<Rightarrow> nat \<Rightarrow> Var list \<Rightarrow> deploy_config list res" where
  "addVariables uuid dcs idx vars =
     (if length dcs \<le> idx then Inl GoPanic else foldR (add_one uuid idx) vars dcs)"

definition AddServiceVariables ::
  "(nat \<Rightarrow> string) \<Rightarrow> deploy_config list \<Rightarrow> nat \<Rightarrow> deploy_config list res" where
  "AddServiceVariables uuid dcs idx = addVariables uuid dcs idx serviceVars"

definition AddClusterVariables ::
  "(nat \<Rightarrow> string) \<Rightarrow> deploy_config list \<Rightarrow> nat \<Rightarrow> deploy_config list res" where
  "AddClusterVariables uuid dcs idx = addVariables uuid dcs idx clusterVars"

end
