(* ===== verification/Topology.thy ===== *)
theory Topology
  imports Service_Vars
begin

text \<open>
  From a topology file to the deploy configurations of its services:
  \<open>internal/configure/topology/topology.go\<close> and the operations of \<open>dc.go\<close>.

  \<open>merge\<close> hands configuration down from the global section to a service section to one host;
  \<open>NewDeployConfig\<close> makes the configuration of one instance; \<open>renderVariables\<close> and \<open>convert\<close>
  substitute the variables and give the items their types; \<open>ParseTopology\<close> is the whole pipeline.

  The YAML reader (\<open>spf13/viper\<close> with \<open>mapstructure\<close>) is the argument \<open>parse\<close>: the decoded
  topology, or nothing when reading fails.  A nil Go slice or map is \<open>None\<close>, an absent map value
  \<open>GNil\<close>.  The configurations are pointers in Go; the list of them is passed along and its
  element replaced where the code writes through the pointer.
\<close>

section \<open>The topology\<close>

record deploy =
  dep_Host :: string
  dep_Name :: string
  dep_Replica :: int
  dep_Replicas :: int
  dep_Instances :: int
  dep_Config :: "gmap option"

record service =
  svc_Config :: "gmap option"
  svc_Deploy :: "deploy list option"

record topology =
  topo_Kind :: string
  topo_Global :: "gmap option"
  EtcdServices :: service
  MdsServices :: service
  MetaserverServices :: service
  ChunkserverServices :: service
  SnapshotcloneServices :: service
  MdsV2Services :: service
  CoordinatorServices :: service
  StoreServices :: service
  DocumentServices :: service
  IndexServices :: service
  DiskannServices :: service
  ExecutorServices :: service
  WebServices :: service
  ProxyServices :: service

definition DINGOFS_ROLES :: "string list" where
  "DINGOFS_ROLES =
     [ROLE_ETCD, ROLE_METASERVER, ROLE_COORDINATOR, ROLE_STORE, ROLE_FS_MDS, ROLE_DINGODB_EXECUTOR]"

definition DINGOFS_MDSV2_ONLY_ROLES :: "string list" where
  "DINGOFS_MDSV2_ONLY_ROLES = [ROLE_FS_MDS, ROLE_FS_MDS_CLI]"

definition DINGOFS_MDSV2_FOLLOW_ROLES :: "string list" where
  "DINGOFS_MDSV2_FOLLOW_ROLES = [ROLE_FS_MDS, ROLE_COORDINATOR, ROLE_STORE, ROLE_FS_MDS_CLI]"

definition DINGOSTORE_ROLES :: "string list" where
  "DINGOSTORE_ROLES = [ROLE_COORDINATOR, ROLE_STORE, ROLE_DINGODB_EXECUTOR]"

definition DINGODB_ROLES :: "string list" where
  "DINGODB_ROLES =
     [ROLE_COORDINATOR, ROLE_STORE, ROLE_DINGODB_DOCUMENT, ROLE_DINGODB_INDEX, ROLE_DINGODB_DISKANN,
      ROLE_DINGODB_EXECUTOR, ROLE_DINGODB_PROXY, ROLE_DINGODB_WEB]"

section \<open>Handing configuration down\<close>

text \<open>The entries of the parent are visited in the order of the list; \<open>levels\<close> is 2 minus \<open>deep\<close>,
  so that the recursion into the variable section is open for 1 and closed for 0.\<close>

fun merge_in :: "nat \<Rightarrow> gmap \<Rightarrow> gmap \<Rightarrow> gmap res" where
  "merge_in levels [] child = Inr child"
| "merge_in levels ((k, v) # parent) child =
     bindR
       (if gget child k = GNil then Inr (AList.update k v child)
        else if k = item_key CONFIG_VARIABLE \<and> levels \<noteq> 0 \<and> \<not> IsString v \<and> \<not> IsInt v then
          bindR (as_map v) (\<lambda>subparent.
          bindR (as_map (gget child k)) (\<lambda>subchild.
          bindR (merge_in (levels - 1) subparent subchild) (\<lambda>sub.
          Inr (AList.update k (GMap sub) child))))
        else Inr child)
       (merge_in levels parent)"

definition merge :: "gmap \<Rightarrow> gmap \<Rightarrow> nat \<Rightarrow> gmap res" where
  "merge parent child deep = merge_in (2 - deep) parent child"

definition newIfNil :: "gmap option \<Rightarrow> gmap" where
  "newIfNil config = (case config of None \<Rightarrow> [] | Some c \<Rightarrow> c)"

section \<open>One deploy configuration\<close>

definition formatId :: "string \<Rightarrow> string \<Rightarrow> string \<Rightarrow> int \<Rightarrow> string" where
  "formatId role host name instancesSequence =
     role @ ''_'' @ host @ ''_'' @ name @ ''_'' @ itoa instancesSequence"

definition formatName :: "string \<Rightarrow> int \<Rightarrow> string" where
  "formatName name hostSequence = (if length name = 0 then itoa hostSequence else name)"

definition newVariables :: "gmap \<Rightarrow> variables res" where
  "newVariables m =
     foldR (\<lambda>(k, v) vars.
       let (value, ok) = All2Str v in
       if \<not> ok then Inl (Ec ERR_UNSUPPORT_VARIABLE_VALUE_TYPE)
       else if length value = 0 then Inl (Ec ERR_INVALID_VARIABLE_VALUE)
       else Inr (case Register (mk_variable k value) vars of Inl _ \<Rightarrow> vars | Inr vars' \<Rightarrow> vars'))
       m NewVariables"

definition config_strings :: "gmap \<Rightarrow> gmap res" where
  "config_strings config =
     mapR (\<lambda>(k, v). let (strv, ok) = All2Str v in
       if ok then Inr (k, GStr strv) else Inl (Ec ERR_UNSUPPORT_CONFIGURE_VALUE_TYPE)) config"

definition NewDeployConfig ::
  "ctx_map option \<Rightarrow> string \<Rightarrow> string \<Rightarrow> string \<Rightarrow> string \<Rightarrow> int \<Rightarrow> int \<Rightarrow> int \<Rightarrow> gmap \<Rightarrow> deploy_config res" where
  "NewDeployConfig ctx kind role host name0 instances hostSequence instancesSequence config =
     (let v = gget config (item_key CONFIG_VARIABLE) in
      if \<not> IsStringAnyMap v \<and> v \<noteq> GNil then Inl (Ec ERR_INVALID_VARIABLE_SECTION)
      else
        bindR (if v \<noteq> GNil then as_map v else Inr []) (\<lambda>m.
        bindR (newVariables m) (\<lambda>vars.
        bindR (config_strings (AList.delete (item_key CONFIG_VARIABLE) config)) (\<lambda>config'.
        let name = formatName name0 hostSequence in
        Inr \<lparr>dc_kind = kind,
             dc_id = formatId role host name instancesSequence,
             dc_parentId = formatId role host name 0,
             dc_role = role,
             dc_host = host,
             dc_hostname = [],
             dc_name = name,
             dc_instances = instances,
             dc_hostSequence = hostSequence,
             dc_instancesSequence = instancesSequence,
             dc_config = config',
             dc_serviceConfig = [],
             dc_variables = Some vars,
             dc_ctx = ctx\<rparr>))))"

text \<open>\<open>vars.Build\<close> of the variables of a configuration, its error wrapped.\<close>

definition build_variables :: "deploy_config \<Rightarrow> (deploy_config \<times> variables) res" where
  "build_variables dc =
     (case dc_variables dc of
        None \<Rightarrow> Inl GoPanic
      | Some vars \<Rightarrow>
          (let (vars', r) = Build_vars vars in
           bindR (wrapE ERR_RESOLVE_VARIABLE_FAILED r)
             (\<lambda>_. Inr (dc\<lparr>dc_variables := Some vars'\<rparr>, vars'))))"

definition render :: "variables \<Rightarrow> string \<Rightarrow> string res" where
  "render vars s = wrapE ERR_RENDERING_VARIABLE_FAILED (Rendering vars s)"

definition renderVariables :: "deploy_config \<Rightarrow> deploy_config res" where
  "renderVariables dc0 =
     bindR (build_variables dc0) (\<lambda>(dc, vars).
     bindR (render vars (dc_name dc)) (\<lambda>name.
     bindR (render vars (dc_id dc)) (\<lambda>id.
     bindR (render vars (dc_parentId dc)) (\<lambda>parentId.
     bindR (mapR (\<lambda>(k, v). bindR (as_string v) (\<lambda>s. bindR (render vars s) (\<lambda>r. Inr (k, GStr r))))
              (dc_config dc)) (\<lambda>config.
     Inr (dc\<lparr>dc_name := name, dc_id := id, dc_parentId := parentId, dc_config := config\<rparr>))))))"

definition init_service_config :: "deploy_config \<Rightarrow> deploy_config res" where
  "init_service_config dc =
     bindR (foldR (\<lambda>(k, v) sc.
       case itemset_get k of
         None \<Rightarrow> bindR (as_string v) (\<lambda>s. Inr (AList.update k s sc))
       | Some i \<Rightarrow>
           if item_exclude i = False then bindR (as_string v) (\<lambda>s. Inr (AList.update k s sc)) else Inr sc)
       (dc_config dc) (dc_serviceConfig dc))
       (\<lambda>sc. Inr (dc\<lparr>dc_serviceConfig := sc\<rparr>))"

definition set_config :: "string \<Rightarrow> gval \<Rightarrow> deploy_config \<Rightarrow> deploy_config" where
  "set_config k v dc = dc\<lparr>dc_config := AList.update k v (dc_config dc)\<rparr>"

definition convert_item :: "item \<Rightarrow> deploy_config \<Rightarrow> deploy_config res" where
  "convert_item i dc =
     (if item_require i = REQUIRE_MAP then Inr dc
      else if item_kind i \<noteq> KIND_DINGO \<and> item_kind i \<noteq> dc_kind dc then Inr dc
      else
        bindR (dc_get dc i) (\<lambda>val.
        if val = GNil then Inr dc
        else
          let k = item_key i; (v, ok) = All2Str val in
          if \<not> ok then Inl (Ec ERR_UNSUPPORT_CONFIGURE_VALUE_TYPE)
          else
            (case item_require i of
               REQUIRE_ANY \<Rightarrow> Inr dc
             | REQUIRE_INT \<Rightarrow>
                 (let (intv, ok) = Str2Int v in
                  if \<not> ok then Inl (Ec ERR_CONFIGURE_VALUE_REQUIRES_INTEGER)
                  else Inr (set_config k (GInt intv) dc))
             | REQUIRE_STRING \<Rightarrow>
                 if length v = 0 then Inl (Ec ERR_CONFIGURE_VALUE_REQUIRES_NON_EMPTY_STRING) else Inr dc
             | REQUIRE_BOOL \<Rightarrow>
                 (let (boolv, ok) = Str2Bool v in
                  if \<not> ok then Inl (Ec ERR_CONFIGURE_VALUE_REQUIRES_BOOL)
                  else Inr (set_config k (GBool boolv) dc))
             | REQUIRE_POSITIVE_INTEGER \<Rightarrow>
                 (let (intv, ok) = Str2Int v in
                  if \<not> ok then Inl (Ec ERR_CONFIGURE_VALUE_REQUIRES_INTEGER)
                  else if intv \<le> 0 then Inl (Ec ERR_CONFIGURE_VALUE_REQUIRES_POSITIVE_INTEGER)
                  else Inr (set_config k (GInt intv) dc))
             | REQUIRE_MAP \<Rightarrow>
                 if \<not> IsStringAnyMap val then Inl (Ec ERR_CONFIGURE_VALUE_REQUIRES_MAP) else Inr dc)))"

definition convert :: "deploy_config \<Rightarrow> deploy_config res" where
  "convert dc = bindR (init_service_config dc) (foldR convert_item itemset_getAll)"

definition ResolveHost :: "deploy_config \<Rightarrow> deploy_config res" where
  "ResolveHost dc0 =
     (case dc_ctx dc0 of
        None \<Rightarrow> Inr (dc0\<lparr>dc_hostname := dc_host dc0\<rparr>)
      | Some ctx \<Rightarrow>
          bindR (build_variables dc0) (\<lambda>(dc, vars).
          bindR (render vars (dc_host dc)) (\<lambda>host.
          let hostname = ctx_Lookup ctx host in
          if length hostname = 0 then Inl (Ec ERR_HOST_NOT_FOUND)
          else Inr (dc\<lparr>dc_host := host, dc_hostname := hostname\<rparr>))))"

definition dc_Build :: "deploy_config \<Rightarrow> deploy_config res" where
  "dc_Build dc = bindR (renderVariables dc) convert"

definition SKIP_ALL_ROLES :: "string list" where
  "SKIP_ALL_ROLES =
     [ROLE_COORDINATOR, ROLE_STORE, ROLE_FS_MDS, ROLE_ETCD, ROLE_METASERVER, ROLE_DINGODB_EXECUTOR]"

definition FetchSkipRoles :: "string \<Rightarrow> deploy_config list \<Rightarrow> string list \<Rightarrow> string list res" where
  "FetchSkipRoles kind dcs roles =
     (if kind = KIND_DINGOFS then
        (case dcs of
           [] \<Rightarrow> Inl GoPanic
         | dc # _ \<Rightarrow>
             bindR (dc_lookup_ctx dc CTX_KEY_MDS_VERSION) (\<lambda>ver.
             Inr (if ver = CTX_VAL_MDS_V1 then [ROLE_COORDINATOR, ROLE_STORE, ROLE_FS_MDS]
                  else if Contains roles ROLE_COORDINATOR then [ROLE_ETCD, ROLE_METASERVER, ROLE_FS_MDS]
                  else SKIP_ALL_ROLES)))
      else Inr [])"

section \<open>Parsing a topology\<close>

definition ctx_add_nil :: "string \<Rightarrow> string \<Rightarrow> ctx_map option \<Rightarrow> ctx_map option res" where
  "ctx_add_nil k v ctx = (case ctx of None \<Rightarrow> Inl GoPanic | Some c \<Rightarrow> Inr (Some (ctx_Add k v c)))"

text \<open>The roles of a kind of cluster, and the mds version recorded in the context.\<close>

definition topology_roles :: "topology \<Rightarrow> ctx_map option \<Rightarrow> (string list \<times> ctx_map option) res" where
  "topology_roles t ctx =
     (if topo_Kind t = KIND_DINGOFS then
        (if svc_Deploy (CoordinatorServices t) \<noteq> None then
           (if svc_Deploy (ExecutorServices t) \<noteq> None then
              bindR (ctx_add_nil CTX_KEY_MDS_VERSION CTX_VAL_MDS_V2 ctx) (\<lambda>ctx'.
                Inr (DINGOFS_MDSV2_FOLLOW_ROLES @ [ROLE_DINGODB_EXECUTOR], ctx'))
            else Inr (DINGOFS_MDSV2_FOLLOW_ROLES, ctx))
         else if svc_Deploy (EtcdServices t) = None then
           bindR (ctx_add_nil CTX_KEY_MDS_VERSION CTX_VAL_MDS_V2 ctx) (\<lambda>ctx'.
             Inr (DINGOFS_MDSV2_ONLY_ROLES, ctx'))
         else
           bindR (ctx_add_nil CTX_KEY_MDS_VERSION CTX_VAL_MDS_V1 ctx) (\<lambda>ctx'.
             Inr (DINGOFS_ROLES, ctx')))
      else if topo_Kind t = KIND_DINGOSTORE then Inr (DINGOSTORE_ROLES, ctx)
      else if topo_Kind t = KIND_DINGODB then Inr (DINGODB_ROLES, ctx)
      else Inl (Ec ERR_UNSUPPORT_CLUSTER_KIND))"

definition role_service :: "topology \<Rightarrow> string \<Rightarrow> service res" where
  "role_service t role =
     (if role = ROLE_ETCD then Inr (EtcdServices t)
      else if role = ROLE_CHUNKSERVER then Inr (ChunkserverServices t)
      else if role = ROLE_SNAPSHOTCLONE then Inr (SnapshotcloneServices t)
      else if role = ROLE_METASERVER then Inr (MetaserverServices t)
      else if role = ROLE_FS_MDS then Inr (MdsServices t)
      else if role = ROLE_COORDINATOR then Inr (CoordinatorServices t)
      else if role = ROLE_STORE then Inr (StoreServices t)
      else if role = ROLE_DINGODB_DOCUMENT then Inr (DocumentServices t)
      else if role = ROLE_DINGODB_INDEX then Inr (IndexServices t)
      else if role = ROLE_DINGODB_DISKANN then Inr (DiskannServices t)
      else if role = ROLE_DINGODB_EXECUTOR then Inr (ExecutorServices t)
      else if role = ROLE_FS_MDS_CLI then
        (case svc_Deploy (MdsServices t) of
           Some (d # _) \<Rightarrow>
             Inr \<lparr>svc_Config = Some (newIfNil (svc_Config (MdsServices t))),
                  svc_Deploy = Some [d\<lparr>dep_Replicas := 0\<rparr>]\<rparr>
         | _ \<Rightarrow> Inl GoPanic)
      else if role = ROLE_DINGODB_WEB then Inr (WebServices t)
      else if role = ROLE_DINGODB_PROXY then Inr (ProxyServices t)
      else Inr \<lparr>svc_Config = None, svc_Deploy = None\<rparr>)"

definition deploy_instances :: "deploy \<Rightarrow> int res" where
  "deploy_instances d =
     (if dep_Replicas d < 0 then Inl (Ec ERR_INSTANCES_REQUIRES_POSITIVE_INTEGER)
      else if dep_Replica d < 0 then Inl (Ec ERR_INSTANCES_REQUIRES_POSITIVE_INTEGER)
      else if dep_Instances d < 0 then Inl (Ec ERR_INSTANCES_REQUIRES_POSITIVE_INTEGER)
      else Inr (if dep_Instances d > 0 then dep_Instances d
                else if dep_Replicas d > 0 then dep_Replicas d
                else if dep_Replica d > 0 then dep_Replica d
                else 1))"

definition deploy_host ::
  "ctx_map option \<Rightarrow> string \<Rightarrow> string \<Rightarrow> gmap \<Rightarrow> nat \<times> deploy \<Rightarrow> deploy_config list res" where
  "deploy_host ctx kind role servicesConfig = (\<lambda>(hostSequence, d).
     bindR (merge servicesConfig (newIfNil (dep_Config d)) 1) (\<lambda>deployConfig.
     bindR (deploy_instances d) (\<lambda>instances.
     mapR (\<lambda>instancesSequence.
       NewDeployConfig ctx kind role (dep_Host d) (dep_Name d) instances (int hostSequence)
         instancesSequence (DeepCopy deployConfig)) [0..instances - 1])))"

text \<open>
  The deploy configurations of one role.  In Go the merge writes into the maps of the decoded
  topology, and the mds section is visited twice (for \<open>mds\<close> and \<open>mds-client\<close>); merging the same
  parent again changes nothing (lemma \<open>merge_idem\<close> below), so the section is read unmerged here.
\<close>

definition deploy_role ::
  "ctx_map option \<Rightarrow> topology \<Rightarrow> string \<Rightarrow> deploy_config list res" where
  "deploy_role ctx t role =
     bindR (role_service t role) (\<lambda>services.
     bindR (merge (newIfNil (topo_Global t)) (newIfNil (svc_Config services)) 1) (\<lambda>servicesConfig.
     bindR (mapR (deploy_host ctx (topo_Kind t) role servicesConfig)
              (List.enumerate 0 (case svc_Deploy services of None \<Rightarrow> [] | Some ds \<Rightarrow> ds)))
       (\<lambda>l. Inr (concat l))))"

definition deploy_all :: "ctx_map option \<Rightarrow> topology \<Rightarrow> string list \<Rightarrow> deploy_config list res" where
  "deploy_all ctx t roles = bindR (mapR (deploy_role ctx t) roles) (\<lambda>l. Inr (concat l))"

text \<open>One turn of each of the two passes over the services.  The map \<open>exist\<close> of the first is
  created empty and never written.\<close>

definition service_turn ::
  "(nat \<Rightarrow> string) \<Rightarrow> bmap \<Rightarrow> nat \<Rightarrow> deploy_config list \<Rightarrow> deploy_config list res" where
  "service_turn uuid exist idx dcs =
     bindR (ResolveHost (dcs ! idx)) (\<lambda>dc.
     bindR (AddServiceVariables uuid (dcs[idx := dc]) idx) (\<lambda>dcs1.
     bindR (dc_Build (dcs1 ! idx)) (\<lambda>dc2.
     if bget exist (dc_id dc2) then Inl (Ec ERR_DUPLICATE_SERVICE_ID)
     else Inr (dcs1[idx := dc2]))))"

definition cluster_turn ::
  "(nat \<Rightarrow> string) \<Rightarrow> nat \<Rightarrow> deploy_config list \<Rightarrow> deploy_config list res" where
  "cluster_turn uuid idx dcs =
     bindR (AddClusterVariables uuid dcs idx) (\<lambda>dcs1.
     bindR (build_variables (dcs1 ! idx)) (\<lambda>(dc, _).
     Inr (dcs1[idx := dc])))"

definition ParseTopology ::
  "(string \<Rightarrow> topology option) \<Rightarrow> (nat \<Rightarrow> string) \<Rightarrow> string \<Rightarrow> ctx_map option \<Rightarrow>
   (deploy_config list \<times> ctx_map option) res" where
  "ParseTopology parse uuid data ctx0 =
     (if length data = 0 then Inl (Ec ERR_EMPTY_CLUSTER_TOPOLOGY)
      else case parse data of
        None \<Rightarrow> Inl (Ec ERR_PARSE_TOPOLOGY_FAILED)
      | Some t \<Rightarrow>
          bindR (topology_roles t ctx0) (\<lambda>(roles, ctx).
          bindR (deploy_all ctx t roles) (\<lambda>dcs0.
          bindR (foldR (service_turn uuid []) [0..<length dcs0] dcs0) (\<lambda>dcs1.
          bindR (foldR (cluster_turn uuid) [0..<length dcs1] dcs1) (\<lambda>dcs2.
          Inr (dcs2, ctx))))))"

end
