(* ===== verification/Topology_Correct.thy ===== *)
theory Topology_Correct
  imports Topology
begin

text \<open>
  What the topology pipeline of \<open>Topology\<close> guarantees: how configuration is handed down, which
  types the items have after \<open>convert\<close>, which services a topology gives, and what holds of each of
  them when \<open>ParseTopology\<close> returns.  The two passes of \<open>ParseTopology\<close> over the services are
  instances of one locale, \<open>indexed_pass\<close>.
\<close>

section \<open>Merging\<close>

definition merged_value :: "nat \<Rightarrow> string \<Rightarrow> gval \<Rightarrow> gval \<Rightarrow> gval res" where
  "merged_value levels k v w =
     (if w = GNil then Inr v
      else if k = item_key CONFIG_VARIABLE \<and> levels \<noteq> 0 \<and> \<not> IsString v \<and> \<not> IsInt v then
        bindR (as_map v) (\<lambda>p. bindR (as_map w) (\<lambda>c. bindR (merge_in (levels - 1) p c) (\<lambda>s. Inr (GMap s))))
      else Inr w)"

lemma update_same: "map_of m k = Some v \<Longrightarrow> AList.update k v m = m"
  by (induction m) auto

lemma gget_not_nil: "gget m k \<noteq> GNil \<Longrightarrow> map_of m k = Some (gget m k)"
  by (cases "map_of m k") (auto simp: gget_def)

lemma update_gget: "gget m k \<noteq> GNil \<Longrightarrow> AList.update k (gget m k) m = m"
  by (rule update_same) (rule gget_not_nil)

lemma merged_value_section:
  "merged_value (Suc l) ''variable'' (GMap p) w =
     (if w = GNil then Inr (GMap p)
      else bindR (as_map w) (\<lambda>c. bindR (merge_in l p c) (\<lambda>s. Inr (GMap s))))"
  by (simp add: merged_value_def CONFIG_VARIABLE_def mk_item_def IsString_def IsInt_def Type_def)

lemma as_map_eq_Inr [res_simps]: "as_map v = Inr m \<longleftrightarrow> v = GMap m"
  by (cases v) (auto simp: as_map_def)

lemma merge_in_step:
  "merge_in levels ((k, v) # parent) child =
     bindR (merged_value levels k v (gget child k)) (\<lambda>x. merge_in levels parent (AList.update k x child))"
  by (auto simp: merged_value_def bindR_assoc update_gget intro!: bindR_cong)

lemma merge_in_frame:
  "map_of parent j = None \<Longrightarrow> merge_in levels parent c = Inr q \<Longrightarrow> map_of q j = map_of c j"
proof (induction parent arbitrary: c)
  case (Cons kv parent)
  obtain k v where kv: "kv = (k, v)" by (cases kv)
  from Cons.prems(2) obtain x where "merge_in levels parent (AList.update k x c) = Inr q"
    by (auto simp: kv merge_in_step res_simps simp del: merge_in.simps)
  with Cons show ?case by (auto simp: kv split: if_splits)
qed simp

lemma merge_in_lookup:
  assumes "distinct (map fst parent)" and "merge_in levels parent child = Inr r"
  shows "gget r k =
           (case map_of parent k of
              None \<Rightarrow> gget child k
            | Some v \<Rightarrow> projr (merged_value levels k v (gget child k)))
         \<and> (\<forall>v. map_of parent k = Some v \<longrightarrow>
              (\<exists>x. merged_value levels k v (gget child k) = Inr x \<and> map_of r k = Some x))"
  using assms
proof (induction parent arbitrary: child)
  case Nil
  then show ?case by simp
next
  case (Cons kv parent)
  obtain k' v' where kv: "kv = (k', v')" by (cases kv)
  from Cons.prems(2) obtain x where x: "merged_value levels k' v' (gget child k') = Inr x"
    and rest: "merge_in levels parent (AList.update k' x child) = Inr r"
    by (auto simp: kv merge_in_step res_simps simp del: merge_in.simps)
  from Cons.prems(1) have d: "distinct (map fst parent)" "k' \<notin> fst ` set parent" by (auto simp: kv)
  have none: "map_of parent k' = None" using d(2) by (simp add: map_of_eq_None_iff)
  show ?case
  proof (cases "k = k'")
    case True
    have "map_of r k' = Some x" using merge_in_frame [OF none rest] by simp
    with x True show ?thesis by (simp add: kv gget_def)
  next
    case False
    with Cons.IH [OF d(1) rest] show ?thesis by (auto simp: kv split: option.splits)
  qed
qed

lemma merged_value_idem:
  assumes "merged_value 0 k v w = Inr x"
  shows "merged_value 0 k v x = Inr x"
  using assms by (auto simp: merged_value_def split: if_splits)

lemma merge_in_same:
  assumes "\<And>k v. (k, v) \<in> set parent \<Longrightarrow> merged_value levels k v (gget r k) = Inr (gget r k) \<and> map_of r k \<noteq> None"
  shows "merge_in levels parent r = Inr r"
  using assms
proof (induction parent)
  case (Cons kv parent)
  obtain k v where kv: "kv = (k, v)" by (cases kv)
  have "merged_value levels k v (gget r k) = Inr (gget r k)" "map_of r k = Some (gget r k)"
    using Cons.prems [of k v] by (auto simp: kv gget_def)
  moreover have "merge_in levels parent r = Inr r"
    by (rule Cons.IH) (use Cons.prems in \<open>auto simp: kv\<close>)
  ultimately show ?case by (simp add: kv merge_in_step update_same del: merge_in.simps)
qed simp

lemma merge_in_0_idem:
  assumes "distinct (map fst parent)" and "merge_in 0 parent child = Inr r"
  shows "merge_in 0 parent r = Inr r"
proof (rule merge_in_same)
  fix k v assume "(k, v) \<in> set parent"
  with assms(1) have "map_of parent k = Some v" by simp
  with merge_in_lookup [OF assms, of k] obtain x
    where "merged_value 0 k v (gget child k) = Inr x" "map_of r k = Some x" by blast
  then show "merged_value 0 k v (gget r k) = Inr (gget r k) \<and> map_of r k \<noteq> None"
    using merged_value_idem by (simp add: gget_def)
qed

lemma merge_in_0_refl: "distinct (map fst m) \<Longrightarrow> merge_in 0 m m = Inr m"
  by (rule merge_in_same) (auto simp: merged_value_def gget_def)

text \<open>Merging the same parent a second time changes nothing.\<close>

lemma merge_idem:
  assumes "distinct (map fst parent)" and "merge parent child 1 = Inr r"
    and "map_of parent ''variable'' = None \<or> (\<exists>p. gget parent ''variable'' = GMap p \<and> distinct (map fst p))"
  shows "merge parent r 1 = Inr r"
  unfolding merge_def
proof (rule merge_in_same)
  fix k v assume kv: "(k, v) \<in> set parent"
  with assms(1) have v: "map_of parent k = Some v" by simp
  with merge_in_lookup [OF assms(1) assms(2) [unfolded merge_def], of k] obtain x
    where x: "merged_value (2 - 1) k v (gget child k) = Inr x" "map_of r k = Some x" by blast
  have "merged_value (2 - 1) k v x = Inr x"
  proof (cases "k = ''variable''")
    case False
    with x(1) show ?thesis
      by (auto simp: merged_value_def CONFIG_VARIABLE_def mk_item_def split: if_splits)
  next
    case True
    with v assms(3) obtain p where p: "v = GMap p" "distinct (map fst p)" by (auto simp: gget_def)
    with True x(1) consider "x = GMap p" | c s where "merge_in 0 p c = Inr s" "x = GMap s"
      by (auto simp: merged_value_section res_simps split: if_splits)
    then obtain s where "x = GMap s" "merge_in 0 p s = Inr s"
      by cases (use p(2) merge_in_0_idem merge_in_0_refl in blast)+
    with True p(1) show ?thesis by (simp add: merged_value_section)
  qed
  with x(2) show "merged_value (2 - 1) k v (gget r k) = Inr (gget r k) \<and> map_of r k \<noteq> None"
    by (simp add: gget_def)
qed

text \<open>
  Configuration is handed down key by key: where the child has a value it wins, elsewhere the
  parent's value is taken; in the variable section the same holds of each single variable, so a
  service or host may override one variable and keep the others.
\<close>

theorem merge_precedence:
  assumes "distinct (map fst parent)" and "merge parent child 1 = Inr r"
  shows "(\<forall>k. k \<noteq> ''variable'' \<or> gget child k = GNil \<longrightarrow>
            gget r k = (if gget child k \<noteq> GNil then gget child k else gget parent k)) \<and>
         (\<forall>pv cv n. gget parent ''variable'' = GMap pv \<and> gget child ''variable'' = GMap cv \<and>
              distinct (map fst pv) \<longrightarrow>
            (\<exists>rv. gget r ''variable'' = GMap rv \<and>
               gget rv n = (if gget cv n \<noteq> GNil then gget cv n else gget pv n)))"
proof (intro conjI allI impI)
  note lk = merge_in_lookup [OF assms(1) assms(2) [unfolded merge_def]]
  fix k assume k: "k \<noteq> ''variable'' \<or> gget child k = GNil"
  show "gget r k = (if gget child k \<noteq> GNil then gget child k else gget parent k)"
    using lk [of k] k
    by (auto simp: merged_value_def CONFIG_VARIABLE_def mk_item_def gget_def split: option.splits if_splits)
next
  note lk = merge_in_lookup [OF assms(1) assms(2) [unfolded merge_def]]
  fix pv cv n
  assume a: "gget parent ''variable'' = GMap pv \<and> gget child ''variable'' = GMap cv \<and> distinct (map fst pv)"
  then have "map_of parent ''variable'' = Some (GMap pv)" by (auto simp: gget_def split: option.splits)
  with lk [of "''variable''"] a obtain rv where rv: "merge_in 0 pv cv = Inr rv"
    and r: "map_of r ''variable'' = Some (GMap rv)"
    by (auto simp: merged_value_section res_simps)
  from merge_in_lookup [OF _ rv, of n] a
  have "gget rv n = (if gget cv n \<noteq> GNil then gget cv n else gget pv n)"
    by (auto simp: merged_value_def gget_def split: option.splits)
  with r show "\<exists>rv. gget r ''variable'' = GMap rv \<and>
      gget rv n = (if gget cv n \<noteq> GNil then gget cv n else gget pv n)"
    by (auto simp: gget_def)
qed

theorem merge_precedence_witness:
  "\<exists>r. merge [(''log_dir'', GStr ''/l''), (''variable'', GMap [(''a'', GInt 1), (''b'', GInt 2)])]
         [(''variable'', GMap [(''a'', GInt 7)])] 1 = Inr r \<and>
       gget r ''log_dir'' = GStr ''/l'' \<and>
       (\<exists>rv. gget r ''variable'' = GMap rv \<and> gget rv ''a'' = GInt 7 \<and> gget rv ''b'' = GInt 2)"
proof -
  let ?p = "[(''log_dir'', GStr ''/l''), (''variable'', GMap [(''a'', GInt 1), (''b'', GInt 2)])]"
  let ?c = "[(''variable'', GMap [(''a'', GInt 7)])]"
  let ?r = "[(''variable'', GMap [(''a'', GInt 7), (''b'', GInt 2)]), (''log_dir'', GStr ''/l'')]"
  have m: "merge ?p ?c 1 = Inr ?r"
    by (simp add: merge_def CONFIG_VARIABLE_def mk_item_def gget_def IsString_def IsInt_def Type_def as_map_def)
  have d: "distinct (map fst ?p)" by simp
  note t = merge_precedence [OF d m]
  have "gget ?r ''log_dir'' = GStr ''/l''"
    using t [THEN conjunct1, rule_format, of "''log_dir''"] by (simp add: gget_def)
  moreover have "\<exists>rv. gget ?r ''variable'' = GMap rv \<and> gget rv ''a'' = GInt 7"
    using t [THEN conjunct2, rule_format, of "[(''a'', GInt 1), (''b'', GInt 2)]" "[(''a'', GInt 7)]" "''a''"]
    by (simp add: gget_def)
  ultimately show ?thesis using m by (auto simp: gget_def)
qed

section \<open>The types of the items after convert\<close>

definition applies :: "item \<Rightarrow> string \<Rightarrow> bool" where
  "applies i kind \<longleftrightarrow> item_require i \<noteq> REQUIRE_MAP \<and> (item_kind i = KIND_DINGO \<or> item_kind i = kind)"

text \<open>What an item of a required type may hold: \<open>old\<close> is the configured text, \<open>new\<close> the value after
  the conversion.\<close>

definition converted :: "require \<Rightarrow> gval option \<Rightarrow> gval option \<Rightarrow> bool" where
  "converted req old new =
     (case req of
        REQUIRE_INT \<Rightarrow>
          (\<forall>v. new = Some v \<longrightarrow> (\<exists>n. v = GInt n \<and> int64_range n)) \<and>
          (\<forall>s. old = Some (GStr s) \<longrightarrow> (\<exists>n. atoi s = Some n \<and> new = Some (GInt n)))
      | REQUIRE_POSITIVE_INTEGER \<Rightarrow>
          (\<forall>v. new = Some v \<longrightarrow> (\<exists>n. v = GInt n \<and> 0 < n \<and> int64_range n)) \<and>
          (\<forall>s. old = Some (GStr s) \<longrightarrow> (\<exists>n. atoi s = Some n \<and> new = Some (GInt n)))
      | REQUIRE_BOOL \<Rightarrow>
          (\<forall>v. new = Some v \<longrightarrow> (\<exists>b. v = GBool b)) \<and>
          (\<forall>s. old = Some (GStr s) \<longrightarrow> (\<exists>b. parse_bool s = Some b \<and> new = Some (GBool b)))
      | REQUIRE_STRING \<Rightarrow> new = old \<and> new \<noteq> Some (GStr [])
      | _ \<Rightarrow> new = old)"

definition all_strings :: "gmap \<Rightarrow> bool" where
  "all_strings m \<longleftrightarrow> (\<forall>v \<in> snd ` set m. \<exists>s. v = GStr s)"

lemma all_strings_lookup: "all_strings m \<Longrightarrow> map_of m k = Some v \<Longrightarrow> \<exists>s. v = GStr s"
  unfolding all_strings_def by (force dest: map_of_SomeD)

text \<open>The fields that no step of the pipeline after \<open>NewDeployConfig\<close> writes.\<close>

definition signature :: "deploy_config \<Rightarrow> string \<times> string \<times> int \<times> int \<times> int" where
  "signature dc = (dc_kind dc, dc_role dc, dc_hostSequence dc, dc_instances dc, dc_instancesSequence dc)"

text \<open>The fields \<open>convert_item\<close> leaves alone: all but the configuration map.\<close>

lemma convert_item_result:
  assumes "convert_item i dc = Inr dc'"
  shows "(\<not> applies i (dc_kind dc) \<and> dc' = dc) \<or>
    (applies i (dc_kind dc) \<and>
     (\<exists>val. dc_get dc i = Inr val \<and>
       (val = GNil \<and> dc' = dc \<or>
        val \<noteq> GNil \<and>
        (case item_require i of
           REQUIRE_INT \<Rightarrow> \<exists>n. Str2Int (Atoa val) = (n, True) \<and> dc' = set_config (item_key i) (GInt n) dc
         | REQUIRE_POSITIVE_INTEGER \<Rightarrow>
             \<exists>n. Str2Int (Atoa val) = (n, True) \<and> 0 < n \<and> dc' = set_config (item_key i) (GInt n) dc
         | REQUIRE_BOOL \<Rightarrow> \<exists>b. Str2Bool (Atoa val) = (b, True) \<and> dc' = set_config (item_key i) (GBool b) dc
         | REQUIRE_STRING \<Rightarrow> Atoa val \<noteq> [] \<and> dc' = dc
         | _ \<Rightarrow> dc' = dc))))"
proof (cases "applies i (dc_kind dc)")
  case False
  with assms show ?thesis by (auto simp: applies_def convert_item_def split: if_splits)
next
  case True
  then have g: "item_require i \<noteq> REQUIRE_MAP" "\<not> (item_kind i \<noteq> KIND_DINGO \<and> item_kind i \<noteq> dc_kind dc)"
    by (auto simp: applies_def)
  with assms obtain val where val: "dc_get dc i = Inr val"
    by (auto simp: convert_item_def res_simps)
  show ?thesis
    using assms g val True
    by (cases "item_require i"; cases "All2Str val"; cases "Str2Int (Atoa val)"; cases "Str2Bool (Atoa val)")
      (auto simp: convert_item_def Atoa_def Let_def split: if_splits)
qed

lemma convert_item_frame:
  assumes "convert_item i dc = Inr dc'"
  shows "dc'\<lparr>dc_config := []\<rparr> = dc\<lparr>dc_config := []\<rparr> \<and>
         (k \<noteq> item_key i \<or> item_require i = REQUIRE_STRING \<longrightarrow>
            map_of (dc_config dc') k = map_of (dc_config dc) k)"
  using convert_item_result [OF assms]
  by (cases "item_require i") (auto simp: set_config_def)

lemma Str2Int_iff [res_simps]: "Str2Int s = (n, True) \<longleftrightarrow> atoi s = Some n"
  by (auto simp: Str2Int_def split: option.splits)

lemma Str2Bool_iff [res_simps]: "Str2Bool s = (b, True) \<longleftrightarrow> parse_bool s = Some b"
  by (auto simp: Str2Bool_def split: option.splits)

lemma convert_item_converts:
  assumes "convert_item i dc = Inr dc'" and "applies i (dc_kind dc)"
    and "\<And>v. map_of (dc_config dc) (item_key i) = Some v \<Longrightarrow> \<exists>s. v = GStr s"
  shows "converted (item_require i) (map_of (dc_config dc) (item_key i)) (map_of (dc_config dc') (item_key i))"
proof (cases "map_of (dc_config dc) (item_key i)")
  case None
  with convert_item_result [OF assms(1)] assms(2) show ?thesis
    by (cases "item_require i") (auto simp: converted_def set_config_def res_simps atoi_range)
next
  case (Some v)
  with assms(3) obtain s where "v = GStr s" by blast
  with Some have "dc_get dc i = Inr (GStr s)" by (simp add: dc_get_def)
  with convert_item_result [OF assms(1)] assms(2) Some \<open>v = GStr s\<close> show ?thesis
    by (cases "item_require i") (auto simp: converted_def set_config_def res_simps atoi_range Atoa_def)
qed

lemma convert_items:
  assumes "foldR convert_item items dc = Inr dc'"
    and "sorted_wrt (\<lambda>i j. item_key i = item_key j \<longrightarrow>
           item_require i = REQUIRE_STRING \<and> item_require j = REQUIRE_STRING) items"
    and "\<forall>i \<in> set items. \<forall>v. map_of (dc_config dc) (item_key i) = Some v \<longrightarrow> (\<exists>s. v = GStr s)"
  shows "dc'\<lparr>dc_config := []\<rparr> = dc\<lparr>dc_config := []\<rparr> \<and>
    (\<forall>k. (\<forall>i \<in> set items. k = item_key i \<longrightarrow> item_require i = REQUIRE_STRING) \<longrightarrow>
       map_of (dc_config dc') k = map_of (dc_config dc) k) \<and>
    (\<forall>i \<in> set items. applies i (dc_kind dc) \<longrightarrow>
       converted (item_require i) (map_of (dc_config dc) (item_key i)) (map_of (dc_config dc') (item_key i)))"
  using assms
proof (induction items arbitrary: dc)
  case Nil
  then show ?case by simp
next
  case (Cons i items)
  from Cons.prems(1) obtain d where d: "convert_item i dc = Inr d" "foldR convert_item items d = Inr dc'"
    by (auto simp: res_simps)
  note fr = convert_item_frame [OF d(1)]
  have kind: "dc_kind d = dc_kind dc"
    using fr by (metis deploy_config.select_convs(1) deploy_config.surjective deploy_config.update_convs(11))
  have other: "map_of (dc_config d) (item_key j) = map_of (dc_config dc) (item_key j)" if "j \<in> set items" for j
    using fr Cons.prems(2) that by (auto)
  have IH: "dc'\<lparr>dc_config := []\<rparr> = d\<lparr>dc_config := []\<rparr> \<and>
    (\<forall>k. (\<forall>i \<in> set items. k = item_key i \<longrightarrow> item_require i = REQUIRE_STRING) \<longrightarrow>
       map_of (dc_config dc') k = map_of (dc_config d) k) \<and>
    (\<forall>i \<in> set items. applies i (dc_kind d) \<longrightarrow>
       converted (item_require i) (map_of (dc_config d) (item_key i)) (map_of (dc_config dc') (item_key i)))"
    by (rule Cons.IH [OF d(2)]) (use Cons.prems(2,3) other in auto)
  have "map_of (dc_config dc') (item_key i) = map_of (dc_config d) (item_key i)"
    using IH Cons.prems(2) by auto
  moreover have "applies i (dc_kind dc) \<Longrightarrow>
      converted (item_require i) (map_of (dc_config dc) (item_key i)) (map_of (dc_config d) (item_key i))"
    using convert_item_converts [OF d(1)] Cons.prems(3) by auto
  ultimately show ?case using IH fr kind other by auto
qed

lemma itemset_getAll_eq: "itemset_getAll = all_items"
proof -
  have "is_items (fold itemset_insert is s) = is_items s @ is" for "is" s
    by (induction "is" arbitrary: s) (auto simp: itemset_insert_def)
  then show ?thesis by (simp add: itemset_getAll_def itemset_def)
qed

lemma all_items_table:
  "map (\<lambda>i. (item_key i, item_require i = REQUIRE_STRING)) all_items =
     [(''prefix'', True), (''report_usage'', False), (''container_image'', True),
      (''log_dir'', True), (''data_dir'', True), (''sequence_offset'', False),
      (''source_core_dir'', True), (''target_core_dir'', True), (''env'', True),
      (''listen.ip'', True), (''listen.port'', False), (''listen.client_port'', False),
      (''listen.dummy_port'', False), (''listen.proxy_port'', False), (''listen.external_ip'', True),
      (''listen.external_port'', False), (''global.enable_external_server'', False), (''copysets'', False),
      (''s3.ak'', True), (''s3.sk'', True), (''s3.nos_address'', True),
      (''s3.snapshot_bucket_name'', True), (''enable_rdma'', False), (''fs.enable_renameat2'', False),
      (''chunkfilepool.enable_get_chunk_from_pool'', False), (''variable'', True), (''etcd.auth.enable'', False),
      (''etcd.auth.username'', True), (''etcd.auth.password'', True), (''raft_dir'', True),
      (''server.port'', False), (''raft.port'', False), (''server_listen_host'', True),
      (''raft_listen_host'', True), (''default_replica_num'', False), (''instance_start_id'', False),
      (''coordinator_addr'', True), (''server_listen_host'', True), (''doc_dir'', True),
      (''vector_dir'', True), (''java_opts'', False), (''port'', False),
      (''mysqlPort'', False), (''exportPort'', False), (''cluster_id'', False)]"
  by (simp add: all_items_def item_defs mk_item_def)

text \<open>No two items share a key, but for the listen host, which two string items name.\<close>

lemma all_items_keys:
  "sorted_wrt (\<lambda>i j. item_key i = item_key j \<longrightarrow>
     item_require i = REQUIRE_STRING \<and> item_require j = REQUIRE_STRING) all_items"
proof -
  have "sorted_wrt (\<lambda>(k, a) (l, b). k = l \<longrightarrow> a \<and> b)
          (map (\<lambda>i. (item_key i, item_require i = REQUIRE_STRING)) all_items)"
    unfolding all_items_table by code_simp
  then show ?thesis by (simp add: sorted_wrt_map)
qed

lemma init_service_config_frame:
  "init_service_config dc = Inr dc' \<Longrightarrow> \<exists>sc. dc' = dc\<lparr>dc_serviceConfig := sc\<rparr>"
  by (auto simp: init_service_config_def res_simps)

lemma convert_result:
  assumes "convert dc = Inr dc'" and "all_strings (dc_config dc)"
  shows "(\<exists>sc c. dc' = dc\<lparr>dc_serviceConfig := sc, dc_config := c\<rparr>) \<and>
    (\<forall>i \<in> set all_items. applies i (dc_kind dc) \<longrightarrow>
       converted (item_require i) (map_of (dc_config dc) (item_key i)) (map_of (dc_config dc') (item_key i))) \<and>
    (\<forall>k. k \<notin> item_key ` set all_items \<longrightarrow> map_of (dc_config dc') k = map_of (dc_config dc) k)"
proof -
  from assms(1) obtain d where d: "init_service_config dc = Inr d" "foldR convert_item all_items d = Inr dc'"
    by (auto simp: convert_def itemset_getAll_eq res_simps)
  then obtain sc where d_eq: "d = dc\<lparr>dc_serviceConfig := sc\<rparr>" using init_service_config_frame by blast
  have "\<forall>i \<in> set all_items. \<forall>v. map_of (dc_config d) (item_key i) = Some v \<longrightarrow> (\<exists>s. v = GStr s)"
    using all_strings_lookup [OF assms(2)] by (simp add: d_eq)
  note c = convert_items [OF d(2) all_items_keys this]
  then have "dc'\<lparr>dc_config := []\<rparr> = d\<lparr>dc_config := []\<rparr>" by blast
  then have "dc' = dc\<lparr>dc_serviceConfig := sc, dc_config := dc_config dc'\<rparr>"
    by (cases dc'; cases dc) (simp add: d_eq)
  with c show ?thesis by (auto simp: d_eq)
qed


section \<open>One turn per service\<close>

text \<open>
  A pass over the services visits each position once, in order; a turn replaces the element at
  its position, keeps some attribute of it, and turns a precondition of it into a postcondition.
\<close>

locale indexed_pass =
  fixes turn :: "nat \<Rightarrow> 'a list \<Rightarrow> 'e + 'a list"
    and keep :: "'a \<Rightarrow> 'b"
    and pre post :: "'a \<Rightarrow> bool"
  assumes turn_local: "i < length xs \<Longrightarrow> turn i xs = Inr ys \<Longrightarrow> \<exists>y. ys = xs[i := y]"
    and turn_keep: "i < length xs \<Longrightarrow> turn i xs = Inr ys \<Longrightarrow> keep (ys ! i) = keep (xs ! i)"
    and turn_post: "i < length xs \<Longrightarrow> turn i xs = Inr ys \<Longrightarrow> pre (xs ! i) \<Longrightarrow> post (ys ! i)"
begin

lemma turns:
  assumes "n \<le> length xs" and "foldR turn [0..<n] xs = Inr ys"
  shows "length ys = length xs \<and> map keep ys = map keep xs \<and>
         (\<forall>j. n \<le> j \<longrightarrow> ys ! j = xs ! j) \<and> (\<forall>j < n. pre (xs ! j) \<longrightarrow> post (ys ! j))"
  using assms
proof (induction n arbitrary: ys)
  case 0
  then show ?case by simp
next
  case (Suc n)
  from Suc.prems obtain zs where zs: "foldR turn [0..<n] xs = Inr zs" "turn n zs = Inr ys"
    by (auto simp: foldR_append res_simps)
  have IH: "length zs = length xs \<and> map keep zs = map keep xs \<and>
      (\<forall>j. n \<le> j \<longrightarrow> zs ! j = xs ! j) \<and> (\<forall>j < n. pre (xs ! j) \<longrightarrow> post (zs ! j))"
    using Suc.IH [OF _ zs(1)] Suc.prems(1) by simp
  then have n: "n < length zs" using Suc.prems(1) by simp
  from turn_local [OF n zs(2)] obtain y where y: "ys = zs[n := y]" ..
  have "map keep ys = map keep zs"
    using turn_keep [OF n zs(2)] n by (simp add: y map_update list_update_same_conv)
  moreover have "post (ys ! n)" if "pre (xs ! n)"
    using turn_post [OF n zs(2)] IH that by simp
  ultimately show ?case using IH n by (auto simp: y less_Suc_eq)
qed

lemma pass:
  assumes "foldR turn [0..<length xs] xs = Inr ys"
  shows "map keep ys = map keep xs \<and> ((\<forall>x \<in> set xs. pre x) \<longrightarrow> (\<forall>y \<in> set ys. post y))"
  using turns [OF order_refl assms] by (metis in_set_conv_nth nth_mem)

end

section \<open>The two passes of ParseTopology\<close>

definition has_type :: "require \<Rightarrow> gval \<Rightarrow> bool" where
  "has_type req v =
     (case req of
        REQUIRE_INT \<Rightarrow> \<exists>n. v = GInt n \<and> int64_range n
      | REQUIRE_POSITIVE_INTEGER \<Rightarrow> \<exists>n. v = GInt n \<and> 0 < n \<and> int64_range n
      | REQUIRE_BOOL \<Rightarrow> \<exists>b. v = GBool b
      | REQUIRE_STRING \<Rightarrow> \<exists>s. v = GStr s \<and> s \<noteq> []
      | _ \<Rightarrow> True)"

definition typed :: "deploy_config \<Rightarrow> bool" where
  "typed dc \<longleftrightarrow>
     (\<forall>i \<in> set all_items. applies i (dc_kind dc) \<longrightarrow>
        (\<forall>v. map_of (dc_config dc) (item_key i) = Some v \<longrightarrow> has_type (item_require i) v))"

definition host_resolved :: "deploy_config \<Rightarrow> bool" where
  "host_resolved dc \<longleftrightarrow>
     (case dc_ctx dc of
        None \<Rightarrow> dc_hostname dc = dc_host dc
      | Some ctx \<Rightarrow> dc_hostname dc = ctx_Lookup ctx (dc_host dc) \<and> dc_hostname dc \<noteq> [])"

definition all_resolved :: "deploy_config \<Rightarrow> bool" where
  "all_resolved dc \<longleftrightarrow>
     (\<exists>vars. dc_variables dc = Some vars \<and> (\<forall>n v. lookup_var vars n = Some v \<longrightarrow> var_Resolved v))"

lemma converted_has_type:
  "converted req old new \<Longrightarrow> (\<And>v. old = Some v \<Longrightarrow> \<exists>s. v = GStr s) \<Longrightarrow> new = Some v \<Longrightarrow> has_type req v"
  by (cases req) (auto simp: converted_def has_type_def)

lemma build_variables_frame:
  "build_variables dc = Inr (dc', vars) \<Longrightarrow> dc' = dc\<lparr>dc_variables := Some vars\<rparr>"
  by (auto simp: build_variables_def res_simps split: option.splits prod.splits)

lemma ResolveHost_result:
  assumes "ResolveHost dc = Inr dc'"
  shows "host_resolved dc' \<and> signature dc' = signature dc \<and> dc_config dc' = dc_config dc \<and> dc_ctx dc' = dc_ctx dc"
proof (cases "dc_ctx dc")
  case None
  with assms show ?thesis by (auto simp: ResolveHost_def host_resolved_def signature_def)
next
  case (Some ctx)
  with assms obtain d vars h where "build_variables dc = Inr (d, vars)"
      "dc' = d\<lparr>dc_host := h, dc_hostname := ctx_Lookup ctx h\<rparr>" "ctx_Lookup ctx h \<noteq> []"
    by (auto simp: ResolveHost_def res_simps Let_def split: if_splits)
  with Some show ?thesis by (auto dest: build_variables_frame simp: host_resolved_def signature_def)
qed

lemma renderVariables_result:
  assumes "renderVariables dc = Inr dc'"
  shows "all_strings (dc_config dc') \<and> map fst (dc_config dc') = map fst (dc_config dc) \<and>
         signature dc' = signature dc \<and> dc_host dc' = dc_host dc \<and> dc_hostname dc' = dc_hostname dc \<and>
         dc_ctx dc' = dc_ctx dc \<and> dc_variables dc' \<noteq> None"
proof -
  from assms obtain d vars a b c config where d: "build_variables dc = Inr (d, vars)"
    and config: "mapR (\<lambda>(k, v). bindR (as_string v) (\<lambda>s. bindR (render vars s) (\<lambda>r. Inr (k, GStr r))))
                   (dc_config d) = Inr config"
    and dc': "dc' = d\<lparr>dc_name := a, dc_id := b, dc_parentId := c, dc_config := config\<rparr>"
    by (auto simp: renderVariables_def bindR_eq_Inr)
  from config [unfolded mapR_Inr_iff] have "all_strings config \<and> map fst config = map fst (dc_config d)"
    by (induction rule: list_all2_induct) (auto simp: all_strings_def res_simps)
  with dc' d show ?thesis by (auto dest!: build_variables_frame simp: signature_def)
qed

lemma dc_Build_result:
  assumes "dc_Build dc = Inr dc'"
  shows "typed dc' \<and> signature dc' = signature dc \<and> dc_host dc' = dc_host dc \<and>
         dc_hostname dc' = dc_hostname dc \<and> dc_ctx dc' = dc_ctx dc \<and> dc_variables dc' \<noteq> None"
proof -
  from assms obtain d where d: "renderVariables dc = Inr d" "convert d = Inr dc'"
    by (auto simp: dc_Build_def res_simps)
  note r = renderVariables_result [OF d(1)]
  then have strs: "all_strings (dc_config d)" by simp
  note c = convert_result [OF d(2) strs]
  then obtain sc cf where dc': "dc' = d\<lparr>dc_serviceConfig := sc, dc_config := cf\<rparr>" by blast
  have "typed dc'" unfolding typed_def
  proof (intro ballI allI impI)
    fix i v
    assume "i \<in> set all_items" "applies i (dc_kind dc')" "map_of (dc_config dc') (item_key i) = Some v"
    moreover from this have "converted (item_require i) (map_of (dc_config d) (item_key i)) (Some v)"
      using c by (auto simp: dc')
    ultimately show "has_type (item_require i) v"
      using all_strings_lookup [OF strs] by (auto intro: converted_has_type)
  qed
  with r show ?thesis by (auto simp: dc' signature_def)
qed

lemma add_one_result:
  assumes "add_one uuid i v dcs = Inr dcs'"
  shows "dcs' = dcs \<or> (\<exists>vars. dcs' = dcs[i := (dcs ! i)\<lparr>dc_variables := Some vars\<rparr>])"
  using assms by (auto simp: add_one_def Let_def res_simps split: if_splits option.splits)

lemma addVariables_result:
  assumes "addVariables uuid dcs i vs = Inr dcs'" and "i < length dcs"
  shows "\<exists>vo. dcs' = dcs[i := (dcs ! i)\<lparr>dc_variables := vo\<rparr>]"
proof (rule foldR_invariant [where P = "\<lambda>ds. \<exists>vo. ds = dcs[i := (dcs ! i)\<lparr>dc_variables := vo\<rparr>]"])
  show "foldR (add_one uuid i) vs dcs = Inr dcs'"
    using assms by (simp add: addVariables_def)
  show "\<exists>vo. dcs = dcs[i := (dcs ! i)\<lparr>dc_variables := vo\<rparr>]"
    by (rule exI [of _ "dc_variables (dcs ! i)"]) simp
  fix v ds ds'
  assume "\<exists>vo. ds = dcs[i := (dcs ! i)\<lparr>dc_variables := vo\<rparr>]" "add_one uuid i v ds = Inr ds'"
  then show "\<exists>vo. ds' = dcs[i := (dcs ! i)\<lparr>dc_variables := vo\<rparr>]"
    using assms(2) by (auto dest!: add_one_result)
qed

lemma service_turn_result:
  assumes "i < length dcs" and "service_turn uuid exist i dcs = Inr dcs'"
  shows "\<exists>y. dcs' = dcs[i := y] \<and> signature y = signature (dcs ! i) \<and> dc_ctx y = dc_ctx (dcs ! i) \<and>
             typed y \<and> host_resolved y \<and> dc_variables y \<noteq> None"
proof -
  from assms(2) obtain d dcs1 d2 where d: "ResolveHost (dcs ! i) = Inr d"
    "AddServiceVariables uuid (dcs[i := d]) i = Inr dcs1" "dc_Build (dcs1 ! i) = Inr d2" "dcs' = dcs1[i := d2]"
    by (auto simp: service_turn_def res_simps split: if_splits)
  from d(2) assms(1) obtain vo where "dcs1 = dcs[i := d\<lparr>dc_variables := vo\<rparr>]"
    by (auto simp: AddServiceVariables_def dest!: addVariables_result)
  with assms(1) ResolveHost_result [OF d(1)] dc_Build_result [OF d(3)] d(4) show ?thesis
    by (intro exI [of _ d2]) (auto simp: signature_def host_resolved_def split: option.splits)
qed

interpretation service_pass: indexed_pass "service_turn uuid exist" "\<lambda>dc. (signature dc, dc_ctx dc)"
  "\<lambda>dc. True" "\<lambda>dc. typed dc \<and> host_resolved dc"
  by unfold_locales (use service_turn_result in fastforce)+

text \<open>After a successful \<open>Build\<close> every variable is resolved.\<close>

lemma resolve_marks:
  assumes "resolve fuel n s = Some (s', Inr x)"
  shows "\<exists>v. lookup_var s' n = Some v \<and> var_Resolved v"
proof (cases fuel)
  case (Suc k)
  from resolve_frame(1) [OF assms] obtain v where v: "lookup_var s n = Some v" by auto
  show ?thesis
  proof (cases "var_Resolved v \<or> refs (var_Value v) = []")
    case True
    with assms Suc v show ?thesis by (auto split: if_splits)
  next
    case False
    with assms Suc v obtain t where t: "resolve_all k (refs (var_Value v)) s = Some (t, Inr ())"
      "s' = settle n x t"
      by (auto simp: Let_def split: option.splits sum.splits)
    have "lookup_var t n \<noteq> None"
      using resolve_frame(2) [OF t(1)] v same_keys_None [of "vars_m t" "vars_m s" n] by auto
    with t(2) show ?thesis by auto
  qed
qed (use assms in simp)

lemma resolve_all_marks:
  "resolve_all fuel ns s = Some (s', Inr ()) \<Longrightarrow> n \<in> set ns \<Longrightarrow>
     \<exists>v. lookup_var s' n = Some v \<and> var_Resolved v"
proof (induction ns arbitrary: s)
  case (Cons m ns)
  then obtain t x where t: "resolve fuel m s = Some (t, Inr x)" "resolve_all fuel ns t = Some (s', Inr ())"
    by (auto split: option.splits sum.splits)
  show ?case
  proof (cases "n \<in> set ns")
    case True
    with Cons.IH [OF t(2)] show ?thesis .
  next
    case False
    with Cons.prems(2) resolve_marks [OF t(1)] resolve_frame(2) [OF t(2)] show ?thesis by auto
  qed
qed simp

lemma build_variables_resolved:
  assumes "build_variables dc = Inr (dc', vars)"
  shows "all_resolved dc'"
proof -
  from assms obtain vs where vs: "Build_vars vs = (vars, Inr ())" and dc': "dc' = dc\<lparr>dc_variables := Some vars\<rparr>"
    by (auto simp: build_variables_def res_simps split: option.splits prod.splits)
  from vs have r: "resolve_all (Suc (length (vars_m vs))) (map fst (vars_m vs)) (vs\<lparr>vars_r := True\<rparr>) = Some (vars, Inr ())"
    by (auto simp: Build_vars_def Build_in_def split: option.splits)
  have keys: "map fst (vars_m vars) = map fst (vars_m vs)" using resolve_frame(2) [OF r] by simp
  have "var_Resolved v" if "lookup_var vars n = Some v" for n v
  proof -
    have "n \<in> set (map fst (vars_m vars))" using map_of_in_keys [OF that] by simp
    then have "n \<in> set (map fst (vars_m vs))" by (simp only: keys)
    from resolve_all_marks [OF r this] that show ?thesis by simp
  qed
  with dc' show ?thesis by (simp add: all_resolved_def)
qed

lemma cluster_turn_result:
  assumes "i < length dcs" and "cluster_turn uuid i dcs = Inr dcs'"
  shows "\<exists>y. dcs' = dcs[i := y] \<and> y\<lparr>dc_variables := None\<rparr> = (dcs ! i)\<lparr>dc_variables := None\<rparr> \<and> all_resolved y"
proof -
  from assms(2) obtain dcs1 d vars where d: "AddClusterVariables uuid dcs i = Inr dcs1"
    "build_variables (dcs1 ! i) = Inr (d, vars)" "dcs' = dcs1[i := d]"
    by (auto simp: cluster_turn_def res_simps)
  from d(1) assms(1) obtain vo where "dcs1 = dcs[i := (dcs ! i)\<lparr>dc_variables := vo\<rparr>]"
    by (auto simp: AddClusterVariables_def dest!: addVariables_result)
  with assms(1) build_variables_frame [OF d(2)] build_variables_resolved [OF d(2)] d(3) show ?thesis
    by (intro exI [of _ d]) auto
qed

interpretation cluster_pass: indexed_pass "cluster_turn uuid" "\<lambda>dc. dc\<lparr>dc_variables := None\<rparr>"
  "\<lambda>dc. True" all_resolved
  by unfold_locales (use cluster_turn_result in fastforce)+

section \<open>The services of a topology\<close>

text \<open>The services a topology asks for, in order: for each role of the kind, for each host of the
  role's section, one per instance.\<close>

definition instances_of :: "deploy \<Rightarrow> int" where
  "instances_of d =
     (if dep_Instances d > 0 then dep_Instances d
      else if dep_Replicas d > 0 then dep_Replicas d
      else if dep_Replica d > 0 then dep_Replica d else 1)"

definition deploys_of :: "topology \<Rightarrow> string \<Rightarrow> deploy list" where
  "deploys_of t role =
     (case role_service t role of
        Inl _ \<Rightarrow> []
      | Inr s \<Rightarrow> (case svc_Deploy s of None \<Rightarrow> [] | Some ds \<Rightarrow> ds))"

definition planned :: "topology \<Rightarrow> string list \<Rightarrow> (string \<times> string \<times> int \<times> int \<times> int) list" where
  "planned t roles =
     [(topo_Kind t, role, int h, instances_of d, i).
        role \<leftarrow> roles, (h, d) \<leftarrow> List.enumerate 0 (deploys_of t role), i \<leftarrow> [0..instances_of d - 1]]"

lemma NewDeployConfig_signature:
  assumes "NewDeployConfig ctx kind role host name n h i config = Inr dc"
  shows "signature dc = (kind, role, h, n, i) \<and> dc_ctx dc = ctx"
  using assms by (auto simp: NewDeployConfig_def Let_def res_simps signature_def split: if_splits)

lemma deploy_host_signature:
  assumes "deploy_host ctx kind role sc (h, d) = Inr dcs"
  shows "map signature dcs = map (\<lambda>i. (kind, role, int h, instances_of d, i)) [0..instances_of d - 1] \<and>
         (\<forall>dc \<in> set dcs. dc_ctx dc = ctx)"
proof -
  from assms obtain c n where n: "deploy_instances d = Inr n"
    and l: "list_all2 (\<lambda>i dc. NewDeployConfig ctx kind role (dep_Host d) (dep_Name d) n (int h) i (DeepCopy c) = Inr dc)
              [0..n - 1] dcs"
    by (auto simp: deploy_host_def res_simps)
  have "n = instances_of d" using n by (auto simp: deploy_instances_def instances_of_def split: if_splits)
  moreover have "map signature dcs = map (\<lambda>i. (kind, role, int h, n, i)) [0..n - 1] \<and>
      (\<forall>dc \<in> set dcs. dc_ctx dc = ctx)"
    using l by (induction rule: list_all2_induct) (auto dest: NewDeployConfig_signature)
  ultimately show ?thesis by simp
qed

lemma concat_signature:
  assumes "mapR f xs = Inr ys"
    and "\<forall>x \<in> set xs. \<forall>y. f x = Inr y \<longrightarrow> map signature y = g x \<and> (\<forall>dc \<in> set y. dc_ctx dc = ctx)"
  shows "map signature (concat ys) = concat (map g xs) \<and> (\<forall>dc \<in> set (concat ys). dc_ctx dc = ctx)"
  using assms(1) [unfolded mapR_Inr_iff] assms(2)
  by (induction rule: list_all2_induct) (auto simp: map_concat)

lemma deploy_role_signature:
  assumes "deploy_role ctx t role = Inr dcs"
  shows "map signature dcs = planned t [role] \<and> (\<forall>dc \<in> set dcs. dc_ctx dc = ctx)"
proof -
  from assms obtain s sc l where s: "role_service t role = Inr s"
    and l: "mapR (deploy_host ctx (topo_Kind t) role sc) (List.enumerate 0 (deploys_of t role)) = Inr l"
    and dcs: "dcs = concat l"
    by (auto simp: deploy_role_def deploys_of_def bindR_eq_Inr)
  let ?g = "\<lambda>(h, d). map (\<lambda>i. (topo_Kind t, role, int h, instances_of d, i)) [0..instances_of d - 1]"
  have "\<forall>x \<in> set (List.enumerate 0 (deploys_of t role)). \<forall>y.
      deploy_host ctx (topo_Kind t) role sc x = Inr y \<longrightarrow>
      map signature y = ?g x \<and> (\<forall>dc \<in> set y. dc_ctx dc = ctx)"
    using deploy_host_signature by fastforce
  from concat_signature [OF l this] show ?thesis by (auto simp: dcs planned_def)
qed

lemma deploy_all_signature:
  assumes "deploy_all ctx t roles = Inr dcs"
  shows "map signature dcs = planned t roles \<and> (\<forall>dc \<in> set dcs. dc_ctx dc = ctx)"
proof -
  from assms obtain l where l: "mapR (deploy_role ctx t) roles = Inr l" and dcs: "dcs = concat l"
    by (auto simp: deploy_all_def bindR_eq_Inr)
  show ?thesis
    using concat_signature [OF l, of "\<lambda>role. planned t [role]" ctx] deploy_role_signature
    by (auto simp: dcs planned_def)
qed

lemma ParseTopology_elim:
  assumes "ParseTopology parse uuid data ctx = Inr (dcs, ctx')"
  obtains t roles dcs0 dcs1 where "parse data = Some t" "topology_roles t ctx = Inr (roles, ctx')"
    "deploy_all ctx' t roles = Inr dcs0" "foldR (service_turn uuid []) [0..<length dcs0] dcs0 = Inr dcs1"
    "foldR (cluster_turn uuid) [0..<length dcs1] dcs1 = Inr dcs"
  using assms by (auto simp: ParseTopology_def res_simps split: if_splits option.splits)

lemma signature_variables: "signature (dc\<lparr>dc_variables := vo\<rparr>) = signature dc"
  by (simp add: signature_def)

lemma map_through: "map f xs = map f ys \<Longrightarrow> (\<And>x. g x = h (f x)) \<Longrightarrow> map g xs = map g ys"
  by (metis (no_types, lifting) list.map_comp map_eq_conv comp_apply)

lemma cluster_pass_signature:
  assumes "foldR (cluster_turn uuid) [0..<length dcs1] dcs1 = Inr dcs"
  shows "map signature dcs = map signature dcs1"
proof (rule map_through [of "\<lambda>dc. dc\<lparr>dc_variables := None\<rparr>" _ _ _ signature])
  show "map (\<lambda>dc. dc\<lparr>dc_variables := None\<rparr>) dcs = map (\<lambda>dc. dc\<lparr>dc_variables := None\<rparr>) dcs1"
    using cluster_pass.pass [OF assms] by simp
qed (simp add: signature_variables)

lemma service_pass_signature:
  assumes "foldR (service_turn uuid exist) [0..<length dcs0] dcs0 = Inr dcs1"
  shows "map signature dcs1 = map signature dcs0"
  by (rule map_through [of "\<lambda>dc. (signature dc, dc_ctx dc)" _ _ _ fst])
    (use service_pass.pass [OF assms] in auto)

lemma parsed_signature:
  assumes "ParseTopology parse uuid data ctx = Inr (dcs, ctx')"
  shows "\<exists>t roles. parse data = Some t \<and> topology_roles t ctx = Inr (roles, ctx') \<and>
           map signature dcs = planned t roles"
  using assms
  by (elim ParseTopology_elim)
    (metis deploy_all_signature service_pass_signature cluster_pass_signature)

text \<open>
  C1: a successful parse gives exactly the services the topology asks for: for each role of its kind in
  the fixed order, for each host of the role's section in the order of the file, one service per
  instance, numbered from 0, each with its kind, role, host sequence and number of instances.
\<close>

theorem ParseTopology_services:
  assumes "ParseTopology parse uuid data ctx = Inr (dcs, ctx')"
  shows "\<exists>t roles. parse data = Some t \<and> topology_roles t ctx = Inr (roles, ctx') \<and>
           map signature dcs = planned t roles"
  by (rule parsed_signature [OF assms])

lemma mem_map_eq: "map f xs = map f ys \<Longrightarrow> x \<in> set xs \<Longrightarrow> \<exists>y \<in> set ys. f y = f x"
  by (metis (no_types, lifting) imageE image_eqI list.set_map)

lemma ParseTopology_each:
  assumes "ParseTopology parse uuid data ctx = Inr (dcs, ctx')" and "dc \<in> set dcs"
  shows "dc_ctx dc = ctx' \<and> typed dc \<and> host_resolved dc \<and> all_resolved dc"
proof -
  from assms(1) obtain t roles dcs0 dcs1 where p: "deploy_all ctx' t roles = Inr dcs0"
    "foldR (service_turn uuid []) [0..<length dcs0] dcs0 = Inr dcs1"
    "foldR (cluster_turn uuid) [0..<length dcs1] dcs1 = Inr dcs"
    by (rule ParseTopology_elim)
  note c = cluster_pass.pass [OF p(3)]
  from mem_map_eq [OF conjunct1 [OF c] assms(2)] obtain d where d: "d \<in> set dcs1"
    "d\<lparr>dc_variables := None\<rparr> = dc\<lparr>dc_variables := None\<rparr>" by blast
  note s = service_pass.pass [OF p(2)]
  from mem_map_eq [OF conjunct1 [OF s] d(1)] deploy_all_signature [OF p(1)]
  have "dc_ctx d = ctx'" by auto
  moreover have "typed d \<and> host_resolved d" using s d(1) by auto
  moreover have "dc_kind dc = dc_kind d \<and> dc_config dc = dc_config d \<and> dc_ctx dc = dc_ctx d \<and>
      dc_host dc = dc_host d \<and> dc_hostname dc = dc_hostname d"
    using d(2) by (cases d; cases dc) simp
  ultimately show ?thesis using c assms(2) by (auto simp: typed_def host_resolved_def split: option.splits)
qed

text \<open>
  C2: every service of a successful parse is ready for use: it carries the shared context, its
  address is the one the context gives for its host and is not empty, the items of its kind have
  their required types, and all its variables are resolved.
\<close>

theorem ParseTopology_ready:
  assumes "ParseTopology parse uuid data ctx = Inr (dcs, ctx')"
  shows "\<forall>dc \<in> set dcs. dc_ctx dc = ctx' \<and> typed dc \<and> host_resolved dc \<and> all_resolved dc"
  using ParseTopology_each [OF assms] by blast

section \<open>Getters\<close>

definition fits :: "require \<Rightarrow> gval \<Rightarrow> bool" where
  "fits req v \<longleftrightarrow> v = GNil \<or>
     (case req of
        REQUIRE_STRING \<Rightarrow> \<exists>s. v = GStr s
      | REQUIRE_BOOL \<Rightarrow> \<exists>b. v = GBool b
      | REQUIRE_MAP \<Rightarrow> \<exists>m. v = GMap m
      | _ \<Rightarrow> True)"

definition default_fits :: "item \<Rightarrow> bool" where
  "default_fits i \<longleftrightarrow>
     (case item_default i of
        NoDefault \<Rightarrow> True
      | Const v \<Rightarrow> fits (item_require i) v
      | Fn f \<Rightarrow> \<forall>dc. dc_ctx dc \<noteq> None \<longrightarrow> dc_variables dc \<noteq> None \<longrightarrow> (\<exists>v. f dc = Inr v \<and> fits (item_require i) v))"

lemma prefix_default_string: "dc_ctx dc \<noteq> None \<Longrightarrow> \<exists>s. prefix_default dc = Inr (GStr s)"
  by (auto simp: prefix_default_def dc_lookup_ctx_def Let_def)

lemma dc_getInt_config: "dc_get dc i = Inr v \<Longrightarrow> \<exists>n. dc_getInt dc i = Inr n"
  by (simp add: dc_getInt_def)

lemma listen_port_total: "\<exists>n. dc_getInt dc CONFIG_LISTEN_PORT = Inr n"
  by (auto simp: dc_getInt_def dc_get_def CONFIG_LISTEN_PORT_def mk_item_def listen_port_default_def Let_def
      split: option.splits)

lemma all_defaults_fit: "list_all default_fits all_items"
proof -
  have p: "default_fits CONFIG_PREFIX"
    using prefix_default_string by (fastforce simp: default_fits_def fits_def CONFIG_PREFIX_def mk_item_def)
  have "\<exists>v. bindR (dc_getInt dc CONFIG_LISTEN_PORT) (\<lambda>p. Inr (GInt p)) = (Inr v :: gval res)" for dc
    using listen_port_total [of dc] by auto
  then have e: "default_fits CONFIG_LISTEN_EXTERNAL_PORT"
    by (auto simp: default_fits_def fits_def CONFIG_LISTEN_EXTERNAL_PORT_def mk_item_def)
  have c: "default_fits CONFIG_DINGOSTORE_COORDINATOR_ADDR" "default_fits CONFIG_DINGO_MDS_CLUSTER_ID"
    by (auto simp: default_fits_def fits_def CONFIG_DINGOSTORE_COORDINATOR_ADDR_def
        CONFIG_DINGO_MDS_CLUSTER_ID_def mk_item_def split: sum.splits)
  have l: "default_fits CONFIG_LISTEN_PORT" "default_fits CONFIG_DINGO_EXECUTOR_JAVA_OPTS"
    by (auto simp: default_fits_def fits_def CONFIG_LISTEN_PORT_def CONFIG_DINGO_EXECUTOR_JAVA_OPTS_def
        mk_item_def listen_port_default_def java_opts_default_def Let_def)
  note named = p e c l
  show ?thesis
    by (simp add: all_items_def named)
      (auto simp: item_defs default_fits_def fits_def mk_item_def Let_def)
qed

lemma typed_get:
  assumes "typed dc" and "dc_ctx dc \<noteq> None" and "dc_variables dc \<noteq> None"
    and "i \<in> set all_items" and "applies i (dc_kind dc)"
  shows "\<exists>v. dc_get dc i = Inr v \<and> fits (item_require i) v"
proof (cases "map_of (dc_config dc) (item_key i)")
  case None
  have "default_fits i" using all_defaults_fit assms(4) by (simp add: list_all_iff)
  with None assms(2,3) show ?thesis
    by (cases "item_default i") (auto simp: dc_get_def default_fits_def fits_def)
next
  case (Some v)
  with assms(1,4,5) have "has_type (item_require i) v" by (auto simp: typed_def)
  with Some assms(5) show ?thesis
    by (cases "item_require i") (auto simp: dc_get_def fits_def has_type_def applies_def)
qed

lemma typed_getters:
  assumes "typed dc" and "dc_ctx dc \<noteq> None" and "dc_variables dc \<noteq> None"
    and "i \<in> set all_items" and "applies i (dc_kind dc)"
  shows "(item_require i = REQUIRE_STRING \<longrightarrow> (\<exists>s. dc_getString dc i = Inr s)) \<and>
         (item_require i = REQUIRE_BOOL \<longrightarrow> (\<exists>b. dc_getBool dc i = Inr b)) \<and>
         (\<exists>n. dc_getInt dc i = Inr n)"
proof -
  from typed_get [OF assms] obtain v where "dc_get dc i = Inr v" "fits (item_require i) v" by blast
  then show ?thesis
    by (cases "item_require i") (auto simp: fits_def dc_getString_def dc_getBool_def dc_getInt_def)
qed

lemma prefix_applies: "CONFIG_PREFIX \<in> set all_items" "applies CONFIG_PREFIX kind"
    "item_require CONFIG_PREFIX = REQUIRE_STRING"
  by (simp_all add: all_items_def applies_def CONFIG_PREFIX_def mk_item_def)

lemma layout_total:
  assumes "typed dc" and "dc_ctx dc \<noteq> None" and "dc_variables dc \<noteq> None"
  shows "\<exists>l. GetProjectLayout dc = Inr l"
proof -
  obtain root where root: "GetPrefix dc = Inr root"
    using typed_getters [OF assms prefix_applies(1,2)] prefix_applies(3) by (auto simp: GetPrefix_def)
  obtain ver where ver: "dc_lookup_ctx dc CTX_KEY_MDS_VERSION = Inr ver"
    using assms(2) by (auto simp: dc_lookup_ctx_def)
  have "\<exists>fs. conf_file_of dc a b item = Inr fs" for a b item
    by (simp add: conf_file_of_def ver Let_def)
  then have "\<exists>fs. mapR (conf_file_of dc a b) items = Inr fs" for a b items
    by (simp add: mapR_Inr_ex)
  moreover have "\<exists>r. role_dirs dc root = Inr r"
    by (simp add: role_dirs_def ver Let_def)
  ultimately show ?thesis
    by (fastforce simp: GetProjectLayout_def root Let_def res_simps)
qed



text \<open>
  A dingofs topology with neither coordinators nor etcd needs an mds section: without one the
  parse does not return an error but panics, on the first host of the missing section.
\<close>

theorem missing_mds_panics:
  assumes "length data \<noteq> 0" and "parse data = Some t" and "topo_Kind t = KIND_DINGOFS"
    and "svc_Deploy (CoordinatorServices t) = None" and "svc_Deploy (EtcdServices t) = None"
    and "svc_Deploy (MdsServices t) = None" and "topo_Global t = None"
  shows "ParseTopology parse uuid data (Some ctx) = Inl GoPanic"
proof -
  have "deploy_role c t ROLE_FS_MDS = Inr []" for c
    using assms(6,7) by (simp add: deploy_role_def role_service_def merge_def newIfNil_def)
  moreover have "deploy_role c t ROLE_FS_MDS_CLI = Inl GoPanic" for c
    using assms(6) by (simp add: deploy_role_def role_service_def)
  ultimately have "deploy_all c t DINGOFS_MDSV2_ONLY_ROLES = Inl GoPanic" for c
    by (simp add: deploy_all_def DINGOFS_MDSV2_ONLY_ROLES_def)
  with assms show ?thesis
    by (simp add: ParseTopology_def topology_roles_def ctx_add_nil_def)
qed

section \<open>Errors of the parse\<close>

text \<open>The errors a computation can give.\<close>

definition errs :: "gerr set \<Rightarrow> 'a res \<Rightarrow> bool" where
  "errs S r \<longleftrightarrow> (\<forall>e. r = Inl e \<longrightarrow> e \<in> S)"

lemma errs_Inr [simp]: "errs S (Inr x)"
  by (simp add: errs_def)

lemma errs_Inl [simp]: "errs S (Inl e) \<longleftrightarrow> e \<in> S"
  by (simp add: errs_def)

lemma errs_bind [intro!]: "errs S m \<Longrightarrow> (\<And>x. m = Inr x \<Longrightarrow> errs S (f x)) \<Longrightarrow> errs S (bindR m f)"
  by (cases m) auto

lemma errs_mapR: "(\<And>x. x \<in> set xs \<Longrightarrow> errs S (f x)) \<Longrightarrow> errs S (mapR f xs)"
  by (induction xs) auto

lemma errs_foldR: "(\<And>x s. x \<in> set xs \<Longrightarrow> errs S (f x s)) \<Longrightarrow> errs S (foldR f xs s)"
  by (induction xs arbitrary: s) auto

lemma errs_wrapE: "errs (insert GoPanic (insert NoReturn (insert (Ec c) S))) (wrapE c r)"
  by (cases "(c, r)" rule: wrapE.cases) auto

lemma errs_mono: "errs S r \<Longrightarrow> S \<subseteq> T \<Longrightarrow> errs T r"
  by (auto simp: errs_def)

definition parse_errors :: "gerr set" where
  "parse_errors =
     {GoPanic, NoReturn, Ec ERR_EMPTY_CLUSTER_TOPOLOGY, Ec ERR_PARSE_TOPOLOGY_FAILED,
      Ec ERR_UNSUPPORT_CLUSTER_KIND, Ec ERR_INSTANCES_REQUIRES_POSITIVE_INTEGER,
      Ec ERR_INVALID_VARIABLE_SECTION, Ec ERR_UNSUPPORT_VARIABLE_VALUE_TYPE,
      Ec ERR_INVALID_VARIABLE_VALUE, Ec ERR_UNSUPPORT_CONFIGURE_VALUE_TYPE,
      Ec ERR_RESOLVE_VARIABLE_FAILED, Ec ERR_RENDERING_VARIABLE_FAILED, Ec ERR_HOST_NOT_FOUND,
      Ec ERR_REGISTER_VARIABLE_FAILED, Ec ERR_CONFIGURE_VALUE_REQUIRES_INTEGER,
      Ec ERR_CONFIGURE_VALUE_REQUIRES_NON_EMPTY_STRING, Ec ERR_CONFIGURE_VALUE_REQUIRES_BOOL,
      Ec ERR_CONFIGURE_VALUE_REQUIRES_POSITIVE_INTEGER, Ec ERR_CONFIGURE_VALUE_REQUIRES_MAP}"

lemma parse_errors_mem [simp]:
  "GoPanic \<in> parse_errors"
  "NoReturn \<in> parse_errors"
  "Ec ERR_EMPTY_CLUSTER_TOPOLOGY \<in> parse_errors"
  "Ec ERR_PARSE_TOPOLOGY_FAILED \<in> parse_errors"
  "Ec ERR_UNSUPPORT_CLUSTER_KIND \<in> parse_errors"
  "Ec ERR_INSTANCES_REQUIRES_POSITIVE_INTEGER \<in> parse_errors"
  "Ec ERR_INVALID_VARIABLE_SECTION \<in> parse_errors"
  "Ec ERR_UNSUPPORT_VARIABLE_VALUE_TYPE \<in> parse_errors"
  "Ec ERR_INVALID_VARIABLE_VALUE \<in> parse_errors"
  "Ec ERR_UNSUPPORT_CONFIGURE_VALUE_TYPE \<in> parse_errors"
  "Ec ERR_RESOLVE_VARIABLE_FAILED \<in> parse_errors"
  "Ec ERR_RENDERING_VARIABLE_FAILED \<in> parse_errors"
  "Ec ERR_HOST_NOT_FOUND \<in> parse_errors"
  "Ec ERR_REGISTER_VARIABLE_FAILED \<in> parse_errors"
  "Ec ERR_CONFIGURE_VALUE_REQUIRES_INTEGER \<in> parse_errors"
  "Ec ERR_CONFIGURE_VALUE_REQUIRES_NON_EMPTY_STRING \<in> parse_errors"
  "Ec ERR_CONFIGURE_VALUE_REQUIRES_BOOL \<in> parse_errors"
  "Ec ERR_CONFIGURE_VALUE_REQUIRES_POSITIVE_INTEGER \<in> parse_errors"
  "Ec ERR_CONFIGURE_VALUE_REQUIRES_MAP \<in> parse_errors"
  by (simp_all add: parse_errors_def)

lemma errs_wrap_parse: "Ec c \<in> parse_errors \<Longrightarrow> errs parse_errors (wrapE c r)"
  by (rule errs_mono [OF errs_wrapE [where S = "{}"]]) (auto simp: parse_errors_def)

lemma errs_as [simp]: "errs parse_errors (as_string v)" "errs parse_errors (as_map v)" "errs parse_errors (as_bool v)"
  by (cases v; simp add: as_string_def as_map_def as_bool_def)+

definition item_errs :: "item \<Rightarrow> bool" where
  "item_errs i \<longleftrightarrow> (\<forall>dc. errs parse_errors (dc_get dc i))"

lemma item_errsI: "(\<And>f dc. item_default i = Fn f \<Longrightarrow> errs parse_errors (f dc)) \<Longrightarrow> item_errs i"
  by (auto simp: item_errs_def dc_get_def split: option.splits dflt.splits)

lemma errs_getters [intro]:
  assumes "item_errs i"
  shows "errs parse_errors (dc_get dc i)" "errs parse_errors (dc_getString dc i)"
    "errs parse_errors (dc_getInt dc i)" "errs parse_errors (dc_getBool dc i)"
  using assms by (auto simp: item_errs_def dc_getString_def dc_getInt_def dc_getBool_def)

lemma all_items_errs: "list_all item_errs all_items"
proof -
  have p: "item_errs CONFIG_PREFIX"
    by (rule item_errsI)
      (auto simp: CONFIG_PREFIX_def mk_item_def prefix_default_def dc_lookup_ctx_def Let_def split: option.splits)
  have "errs parse_errors (dc_getInt dc CONFIG_LISTEN_PORT)" for dc
    using listen_port_total [of dc] by auto
  then have e: "item_errs CONFIG_LISTEN_EXTERNAL_PORT"
    by (intro item_errsI) (auto simp: CONFIG_LISTEN_EXTERNAL_PORT_def mk_item_def)
  have c: "item_errs CONFIG_DINGOSTORE_COORDINATOR_ADDR" "item_errs CONFIG_DINGO_MDS_CLUSTER_ID"
    "item_errs CONFIG_LISTEN_PORT" "item_errs CONFIG_DINGO_EXECUTOR_JAVA_OPTS"
    by (auto intro!: item_errsI simp: CONFIG_DINGOSTORE_COORDINATOR_ADDR_def listen_port_default_def
        CONFIG_DINGO_MDS_CLUSTER_ID_def CONFIG_LISTEN_PORT_def CONFIG_DINGO_EXECUTOR_JAVA_OPTS_def
        java_opts_default_def mk_item_def Let_def split: option.splits)
  have rest: "item_errs i" if "\<And>f dc. item_default i = Fn f \<Longrightarrow> \<exists>v. f dc = Inr v" for i
    by (rule item_errsI) (metis errs_Inr that)
  show ?thesis
    by (simp add: all_items_def p e c) (auto intro!: rest simp: item_defs mk_item_def Let_def)
qed

lemma item_errs [intro]: "i \<in> set all_items \<Longrightarrow> item_errs i"
  using all_items_errs by (simp add: list_all_iff)

lemma convert_errs: "errs parse_errors (convert dc)"
  unfolding convert_def itemset_getAll_eq
proof (rule errs_bind)
  show "errs parse_errors (init_service_config dc)"
    by (auto simp: init_service_config_def intro!: errs_foldR split: option.splits)
  fix d assume "init_service_config dc = Inr d"
  have "errs parse_errors (convert_item i s)" if "i \<in> set all_items" for i s
    using that unfolding convert_item_def
    by (cases "item_require i") (auto intro!: errs_getters item_errs simp: Let_def split_beta)
  then show "errs parse_errors (foldR convert_item all_items d)" by (auto intro: errs_foldR)
qed

lemma errs_render: "errs parse_errors (render vars s)"
  unfolding render_def by (rule errs_wrap_parse) simp

lemma build_variables_errs: "errs parse_errors (build_variables dc)"
  by (auto simp: build_variables_def split_beta intro!: errs_wrap_parse split: option.splits)

lemma dc_Build_errs: "errs parse_errors (dc_Build dc)"
  unfolding dc_Build_def renderVariables_def
  by (auto intro!: errs_mapR build_variables_errs errs_render convert_errs)

lemma ResolveHost_errs: "errs parse_errors (ResolveHost dc)"
  by (auto simp: ResolveHost_def Let_def intro!: build_variables_errs errs_render split: option.splits)

lemma used_items:
  "CONFIG_PREFIX \<in> set all_items" "CONFIG_LISTEN_IP \<in> set all_items" "CONFIG_LISTEN_PORT \<in> set all_items"
  "CONFIG_LISTEN_CLIENT_PORT \<in> set all_items" "CONFIG_LISTEN_DUMMY_PORT \<in> set all_items"
  "CONFIG_LISTEN_PROXY_PORT \<in> set all_items" "CONFIG_LISTEN_EXTERNAL_IP \<in> set all_items"
  "CONFIG_LISTEN_EXTERNAL_PORT \<in> set all_items" "CONFIG_ENABLE_EXTERNAL_SERVER \<in> set all_items"
  "CONFIG_SEQ_OFFSET \<in> set all_items" "CONFIG_DINGO_STORE_SERVER_PORT \<in> set all_items"
  "CONFIG_DINGO_STORE_RAFT_PORT \<in> set all_items"
  by (simp_all add: all_items_def)

lemmas used_errs = used_items [THEN item_errs, THEN errs_getters(1)]
  used_items [THEN item_errs, THEN errs_getters(2)] used_items [THEN item_errs, THEN errs_getters(3)]

lemma lookup_ctx_errs: "errs parse_errors (dc_lookup_ctx dc k)"
  by (auto simp: dc_lookup_ctx_def split: option.splits)

lemma layout_errs: "errs parse_errors (with_layout f dc)"
  unfolding with_layout_def GetProjectLayout_def conf_file_of_def role_dirs_def GetPrefix_def Let_def
  by (auto intro!: errs_mapR used_errs lookup_ctx_errs)

lemma join_role_errs: "(\<And>dc. errs parse_errors (f dc)) \<Longrightarrow> errs parse_errors (join_role role f dcs sep)"
  by (auto simp: join_role_def intro!: errs_mapR)

lemma item_text_errs: "i \<in> set all_items \<Longrightarrow> errs parse_errors (item_text i dc)"
  by (auto simp: item_text_def intro: errs_getters)

lemma service_value_errs: "service_value u name dc = Some r \<Longrightarrow> errs parse_errors r"
  unfolding service_value_def Let_def GetSeqOffset_def
  by (auto intro!: used_errs layout_errs item_text_errs used_items split: if_splits)

lemma peer_port_errs: "errs parse_errors (peer_port p dc)"
  by (cases p) (auto simp: peer_port_def GetListenPort_def GetListenClientPort_def GetListenDummyPort_def
    GetListenProxyPort_def GetDingoServerPort_def GetDingoStoreRaftPort_def intro!: used_errs)

lemma joinPeer_errs: "errs parse_errors (joinPeer dcs role p)"
  unfolding joinPeer_def GetListenIp_def
  by (auto intro!: join_role_errs used_errs peer_port_errs)

lemma cluster_value_errs: "errs parse_errors (cluster_value name dcs)"
proof -
  have "errs parse_errors (locateDiskannPort dcs)"
    by (induction dcs) (auto simp: GetDingoServerPort_def intro: used_errs)
  moreover have "errs parse_errors (joinDummyPort dcs role)" for role
    unfolding joinDummyPort_def GetListenDummyPort_def by (auto intro!: join_role_errs used_errs)
  moreover have "errs parse_errors (joinNginxUpstreamServer dcs)"
    unfolding joinNginxUpstreamServer_def GetListenIp_def GetListenPort_def
    by (auto intro!: join_role_errs used_errs)
  ultimately show ?thesis by (auto simp: cluster_value_def joinPeer_errs)
qed

lemma addVariables_errs: "errs parse_errors (addVariables uuid dcs i vs)"
proof -
  have "errs parse_errors (getValue uuid n ds i)" for n ds
    by (auto simp: getValue_def cluster_value_errs service_value_errs split: option.splits)
  then have "errs parse_errors (add_one uuid i v ds)" for v ds
    by (auto simp: add_one_def Let_def intro!: errs_wrap_parse split: option.splits)
  then show ?thesis by (auto simp: addVariables_def intro!: errs_foldR)
qed

lemma NewDeployConfig_errs: "errs parse_errors (NewDeployConfig ctx kind role host name n h i config)"
  by (auto simp: NewDeployConfig_def newVariables_def config_strings_def Let_def split_beta
      intro!: errs_foldR errs_mapR)

lemma merge_errs: "errs parse_errors (merge_in levels parent child)"
  by (induction levels parent child rule: merge_in.induct) auto

lemma deploy_host_errs: "errs parse_errors (deploy_host ctx kind role sc p)"
  by (cases p) (auto simp: deploy_host_def merge_def deploy_instances_def
    intro!: errs_mapR NewDeployConfig_errs merge_errs)

lemma role_service_errs: "errs parse_errors (role_service t role)"
  by (simp add: role_service_def split: option.split list.split)

lemma deploy_all_errs: "errs parse_errors (deploy_all ctx t roles)"
  unfolding deploy_all_def deploy_role_def merge_def
  by (auto intro!: errs_mapR deploy_host_errs merge_errs role_service_errs)

text \<open>
  C38: the errors a parse can give are the ones of this list; \<open>ERR_DUPLICATE_SERVICE_ID\<close> is not among
  them: two services that come out with the same id are never reported.
\<close>

theorem ParseTopology_errors:
  assumes "ParseTopology parse uuid data ctx = Inl e"
  shows "e \<in> parse_errors \<and> e \<noteq> Ec ERR_DUPLICATE_SERVICE_ID"
proof -
  have s: "errs parse_errors (service_turn uuid [] i ds)" for i ds
    unfolding service_turn_def AddServiceVariables_def
    by (auto intro!: ResolveHost_errs addVariables_errs dc_Build_errs)
  have c: "errs parse_errors (cluster_turn uuid i ds)" for i ds
    unfolding cluster_turn_def AddClusterVariables_def
    by (auto intro!: addVariables_errs build_variables_errs)
  have r: "errs parse_errors (topology_roles t ctx)" for t
    by (auto simp: topology_roles_def ctx_add_nil_def split: option.splits)
  have "errs parse_errors (ParseTopology parse uuid data ctx)"
    unfolding ParseTopology_def
    by (auto intro!: errs_foldR deploy_all_errs s c r split: option.splits)
  with assms show ?thesis by (auto simp: parse_errors_def)
qed

section \<open>A run\<close>

lemma map_of_fold_update: "map_of (fold (\<lambda>(k, v). AList.update k v) kvs m) = map_of (rev kvs @ m)"
  by (induction kvs arbitrary: m) (auto simp: fun_eq_iff split: option.splits)

lemma itemset_get_code [code]:
  "itemset_get key = map_of (rev (map (\<lambda>i. (item_key i, i)) all_items)) key"
proof -
  have "is_key2item (fold itemset_insert is s) =
     fold (\<lambda>(k, v). AList.update k v) (map (\<lambda>i. (item_key i, i)) is) (is_key2item s)" for "is" s
    by (induction "is" arbitrary: s) (auto simp: itemset_insert_def)
  then show ?thesis by (simp add: itemset_get_def itemset_def map_of_fold_update)
qed

definition no_service :: service where
  "no_service = \<lparr>svc_Config = None, svc_Deploy = None\<rparr>"

definition demo_host :: deploy where
  "demo_host = \<lparr>dep_Host = ''h1'', dep_Name = [], dep_Replica = 0, dep_Replicas = 0, dep_Instances = 1,
     dep_Config = None\<rparr>"

definition demo_topology :: "string \<Rightarrow> service \<Rightarrow> topology" where
  "demo_topology kind coordinators =
     \<lparr>topo_Kind = kind, topo_Global = None,
      EtcdServices = no_service, MdsServices = no_service, MetaserverServices = no_service,
      ChunkserverServices = no_service, SnapshotcloneServices = no_service, MdsV2Services = no_service,
      CoordinatorServices = coordinators, StoreServices = no_service, DocumentServices = no_service,
      IndexServices = no_service, DiskannServices = no_service, ExecutorServices = no_service,
      WebServices = no_service, ProxyServices = no_service\<rparr>"

text \<open>A dingo-store topology with one coordinator on host \<open>h1\<close>, whose log directory uses a variable.\<close>

definition demo_store :: topology where
  "demo_store = demo_topology KIND_DINGOSTORE
     \<lparr>svc_Config = Some [(''log_dir'', GStr ''/l/${service_role}''), (''server.port'', GInt 6501)],
      svc_Deploy = Some [demo_host]\<rparr>"

definition demo_ctx :: ctx_map where
  "demo_ctx = [(''h1'', ''10.0.0.1'')]"

lemma demo_parses:
  "case ParseTopology (\<lambda>_. Some demo_store) (\<lambda>_. ''u'') ''x'' (Some demo_ctx) of
     Inl _ \<Rightarrow> False
   | Inr (dcs, _) \<Rightarrow> (case dcs of [dc] \<Rightarrow> gget (dc_config dc) ''log_dir'' = GStr ''/l/coordinator'' | _ \<Rightarrow> False)"
  by code_simp

lemma demo_parse:
  obtains dc ctx' where "ParseTopology (\<lambda>_. Some demo_store) (\<lambda>_. ''u'') ''x'' (Some demo_ctx) = Inr ([dc], ctx')"
proof -
  obtain dcs c where p: "ParseTopology (\<lambda>_. Some demo_store) (\<lambda>_. ''u'') ''x'' (Some demo_ctx) = Inr (dcs, c)"
    and d: "case dcs of [dc] \<Rightarrow> gget (dc_config dc) ''log_dir'' = GStr ''/l/coordinator'' | _ \<Rightarrow> False"
    using demo_parses by (simp split: sum.split_asm prod.split_asm)
  from d obtain dc where "dcs = [dc]" by (cases dcs; cases "tl dcs") auto
  with p show thesis by (auto intro: that)
qed

theorem ParseTopology_services_witness:
  "\<exists>dc ctx'. ParseTopology (\<lambda>_. Some demo_store) (\<lambda>_. ''u'') ''x'' (Some demo_ctx) = Inr ([dc], ctx') \<and>
     signature dc = (KIND_DINGOSTORE, ROLE_COORDINATOR, 0, 1, 0)"
proof -
  obtain dc ctx' where p: "ParseTopology (\<lambda>_. Some demo_store) (\<lambda>_. ''u'') ''x'' (Some demo_ctx) = Inr ([dc], ctx')"
    by (rule demo_parse)
  have "planned demo_store DINGOSTORE_ROLES = [(KIND_DINGOSTORE, ROLE_COORDINATOR, 0, 1, 0)]" by code_simp
  with ParseTopology_services [OF p] p show ?thesis
    by (auto simp: topology_roles_def demo_store_def demo_topology_def)
qed

theorem ParseTopology_ready_witness:
  "\<exists>dc ctx'. ParseTopology (\<lambda>_. Some demo_store) (\<lambda>_. ''u'') ''x'' (Some demo_ctx) = Inr ([dc], ctx') \<and>
     dc_ctx dc = ctx' \<and> typed dc \<and> host_resolved dc \<and> all_resolved dc"
proof -
  obtain dc ctx' where p: "ParseTopology (\<lambda>_. Some demo_store) (\<lambda>_. ''u'') ''x'' (Some demo_ctx) = Inr ([dc], ctx')"
    by (rule demo_parse)
  with ParseTopology_ready [OF p] show ?thesis by auto
qed


theorem missing_mds_panics_witness:
  "ParseTopology (\<lambda>_. Some (demo_topology KIND_DINGOFS no_service)) (\<lambda>_. ''u'') ''x'' (Some []) = Inl GoPanic"
  by (rule missing_mds_panics [of _ _ "demo_topology KIND_DINGOFS no_service"])
    (simp_all add: demo_topology_def no_service_def)

theorem ParseTopology_errors_witness:
  "ParseTopology (\<lambda>_. None) (\<lambda>_. ''u'') ''x'' None = Inl (Ec ERR_PARSE_TOPOLOGY_FAILED) \<and>
   Ec ERR_PARSE_TOPOLOGY_FAILED \<in> parse_errors"
  using ParseTopology_errors [of "\<lambda>_. None" "\<lambda>_. ''u''" "''x''" None "Ec ERR_PARSE_TOPOLOGY_FAILED"]
  by (simp add: ParseTopology_def)

definition demo_config :: deploy_config where
  "demo_config = (bare_config KIND_DINGODB ROLE_DINGODB_WEB)
     \<lparr>dc_config := [(''log_dir'', GStr ''/l''), (''port'', GStr ''99''), (''x'', GStr ''y'')],
      dc_hostname := ''h'', dc_ctx := Some [], dc_variables := Some NewVariables\<rparr>"


end
