(* ===== verification/Item_Set.thy ===== *)
theory Item_Set
  imports Utils
begin

text \<open>
  The sets of configuration items that the host and cli configurations share:
  \<open>internal/configure/common/item_set.go\<close>.

  An item has a key, a required type and a default value; \<open>ItemSet_Build\<close> checks one value against
  the item of its key and gives it the required type.  The default is nothing, a constant, or a
  function; a function here takes the environment of the process (\<open>'env\<close>), which is all that the
  functions of the code look at.
\<close>

datatype comm_require =
    COMM_ANY | COMM_STRING | COMM_BOOL | COMM_INT | COMM_POSITIVE_INTEGER | COMM_MAP

datatype 'env comm_default = CNil | CConst gval | CFunc "'env \<Rightarrow> gval"

record 'env Item =
  Item_key :: string
  Item_require :: comm_require
  Item_exclude :: bool
  Item_defaultValue :: "'env comm_default"

record 'env ItemSet =
  Set_items :: "'env Item list"
  Set_key2item :: "(string \<times> 'env Item) list"

definition NewItemSet :: "'env ItemSet" where
  "NewItemSet = \<lparr>Set_items = [], Set_key2item = []\<rparr>"

definition mk_Item :: "string \<Rightarrow> comm_require \<Rightarrow> bool \<Rightarrow> 'env comm_default \<Rightarrow> 'env Item" where
  "mk_Item key req exclude dv =
     \<lparr>Item_key = key, Item_require = req, Item_exclude = exclude, Item_defaultValue = dv\<rparr>"

definition ItemSet_Insert :: "'env Item \<Rightarrow> 'env ItemSet \<Rightarrow> 'env ItemSet" where
  "ItemSet_Insert i s =
     s\<lparr>Set_key2item := AList.update (Item_key i) i (Set_key2item s), Set_items := Set_items s @ [i]\<rparr>"

definition ItemSet_Get :: "'env ItemSet \<Rightarrow> string \<Rightarrow> 'env Item option" where
  "ItemSet_Get s key = map_of (Set_key2item s) key"

definition ItemSet_GetAll :: "'env ItemSet \<Rightarrow> 'env Item list" where
  "ItemSet_GetAll s = Set_items s"

definition ItemSet_Build :: "'env ItemSet \<Rightarrow> string \<Rightarrow> gval \<Rightarrow> gval res" where
  "ItemSet_Build s key val =
     (case ItemSet_Get s key of
        None \<Rightarrow> Inr val
      | Some i \<Rightarrow>
          if Item_require i = COMM_MAP then Inr GNil
          else
            let (v, ok) = All2Str val in
            if \<not> ok then Inl (Ec ERR_UNSUPPORT_CONFIGURE_VALUE_TYPE)
            else
              (case Item_require i of
                 COMM_ANY \<Rightarrow> Inr val
               | COMM_STRING \<Rightarrow>
                   if length v = 0 then Inl (Ec ERR_CONFIGURE_VALUE_REQUIRES_NON_EMPTY_STRING)
                   else Inr (GStr v)
               | COMM_INT \<Rightarrow>
                   (let (n, ok) = Str2Int v in
                    if \<not> ok then Inl (Ec ERR_CONFIGURE_VALUE_REQUIRES_INTEGER) else Inr (GInt n))
               | COMM_POSITIVE_INTEGER \<Rightarrow>
                   (let (n, ok) = Str2Int v in
                    if \<not> ok then Inl (Ec ERR_CONFIGURE_VALUE_REQUIRES_INTEGER)
                    else if n \<le> 0 then Inl (Ec ERR_CONFIGURE_VALUE_REQUIRES_POSITIVE_INTEGER)
                    else Inr (GInt n))
               | COMM_BOOL \<Rightarrow>
                   (let (b, ok) = Str2Bool v in
                    if \<not> ok then Inl (Ec ERR_CONFIGURE_VALUE_REQUIRES_BOOL) else Inr (GBool b))
               | COMM_MAP \<Rightarrow> Inr val))"

text \<open>The values an item of a required type may hold.\<close>

definition comm_typed :: "comm_require \<Rightarrow> gval \<Rightarrow> bool" where
  "comm_typed req v =
     (case req of
        COMM_STRING \<Rightarrow> (\<exists>s. v = GStr s \<and> s \<noteq> [])
      | COMM_INT \<Rightarrow> (\<exists>n. v = GInt n \<and> int64_range n)
      | COMM_POSITIVE_INTEGER \<Rightarrow> (\<exists>n. v = GInt n \<and> 0 < n \<and> int64_range n)
      | COMM_BOOL \<Rightarrow> (\<exists>b. v = GBool b)
      | COMM_ANY \<Rightarrow> snd (All2Str v)
      | COMM_MAP \<Rightarrow> v = GNil)"

section \<open>Inserting and looking up\<close>

text \<open>
  A container of items by key: what a lookup returns after an insert.  From the two laws follows
  what it returns after inserting a whole table, whose keys may repeat: the last one wins.
\<close>

locale keyed_store =
  fixes empty :: 's
    and insert_item :: "'i \<Rightarrow> 's \<Rightarrow> 's"
    and find_item :: "'s \<Rightarrow> string \<Rightarrow> 'i option"
    and key_of :: "'i \<Rightarrow> string"
  assumes find_empty: "find_item empty k = None"
    and find_insert: "find_item (insert_item i s) k = (if k = key_of i then Some i else find_item s k)"
begin

lemma find_fold:
  "find_item (fold insert_item is s) k =
     (case find (\<lambda>i. key_of i = k) (rev is) of None \<Rightarrow> find_item s k | Some i \<Rightarrow> Some i)"
proof (induction "is" arbitrary: s)
  case (Cons i "is")
  have "find (\<lambda>i. key_of i = k) (xs @ [i]) =
      (case find (\<lambda>i. key_of i = k) xs of None \<Rightarrow> if key_of i = k then Some i else None | Some j \<Rightarrow> Some j)" for xs
    by (induction xs) auto
  with Cons.IH show ?case by (auto simp: find_insert split: option.splits)
qed simp

lemma find_table:
  assumes "distinct (map key_of is)"
  shows "find_item (fold insert_item is empty) k = Some i \<longleftrightarrow> i \<in> set is \<and> key_of i = k"
proof -
  have d: "distinct (map key_of (rev is))" using assms by (simp add: rev_map [symmetric])
  have "distinct (map key_of xs) \<Longrightarrow> find (\<lambda>i. key_of i = k) xs = Some i \<longleftrightarrow> i \<in> set xs \<and> key_of i = k" for xs
    by (induction xs) force+
  from this [OF d] show ?thesis by (auto simp: find_fold find_empty split: option.splits)
qed

lemma find_unknown: "k \<notin> key_of ` set is \<Longrightarrow> find_item (fold insert_item is empty) k = None"
  by (auto simp: find_fold find_empty find_None_iff split: option.splits)

end

interpretation item_store: keyed_store NewItemSet ItemSet_Insert ItemSet_Get Item_key
  by unfold_locales (simp_all add: NewItemSet_def ItemSet_Get_def ItemSet_Insert_def)

lemma ItemSet_Build_result:
  assumes "ItemSet_Get s key = Some i" and "ItemSet_Build s key v = Inr r"
  shows "comm_typed (Item_require i) r"
  using assms
  by (cases "Item_require i"; cases "All2Str v"; cases "Str2Int (fst (All2Str v))"; cases "Str2Bool (fst (All2Str v))")
    (auto simp: ItemSet_Build_def comm_typed_def Let_def Str2Int_range split: if_splits)

lemma Str2Int_itoa: "int64_range n \<Longrightarrow> Str2Int (itoa n) = (n, True)"
  by (simp add: Str2Int_def str_simps)

lemma ItemSet_Build_stable:
  assumes "ItemSet_Get s key = Some i" and "comm_typed (Item_require i) r"
  shows "ItemSet_Build s key r = Inr r"
  using assms
  by (cases "Item_require i")
    (auto simp: ItemSet_Build_def comm_typed_def Str2Int_itoa Str2Bool_def str_simps split: prod.splits)

text \<open>
  A value that passes the check of a known key has the required type of its item, and passing it
  through the check again changes nothing; a value of an unknown key passes unchanged.
\<close>

theorem ItemSet_Build_types:
  assumes "ItemSet_Build s key v = Inr r"
  shows "(case ItemSet_Get s key of None \<Rightarrow> r = v | Some i \<Rightarrow> comm_typed (Item_require i) r) \<and>
         ItemSet_Build s key r = Inr r"
proof (cases "ItemSet_Get s key")
  case None
  with assms show ?thesis by (simp add: ItemSet_Build_def)
next
  case (Some i)
  with ItemSet_Build_result [OF Some assms] ItemSet_Build_stable [OF Some] show ?thesis by simp
qed

theorem ItemSet_Build_types_witness:
  "ItemSet_Build (ItemSet_Insert (mk_Item ''ssh_port'' COMM_POSITIVE_INTEGER False (CNil :: unit comm_default)) NewItemSet) ''ssh_port'' (GStr ''22'')
     = Inr (GInt 22) \<and> comm_typed COMM_POSITIVE_INTEGER (GInt 22)"
proof -
  let ?s = "ItemSet_Insert (mk_Item ''ssh_port'' COMM_POSITIVE_INTEGER False (CNil :: unit comm_default)) NewItemSet"
  have "atoi ''22'' = Some 22" by code_simp
  then have b: "ItemSet_Build ?s ''ssh_port'' (GStr ''22'') = Inr (GInt 22)"
    by (simp add: ItemSet_Build_def ItemSet_Get_def ItemSet_Insert_def mk_Item_def NewItemSet_def Str2Int_def)
  with ItemSet_Build_types [OF b] show ?thesis
    by (simp add: ItemSet_Get_def ItemSet_Insert_def mk_Item_def NewItemSet_def)
qed

end
