(* ===== verification/Hosts.thy ===== *)
theory Hosts
  imports Item_Set
begin

text \<open>
  The hosts file: \<open>internal/configure/hosts/hosts.go\<close>, \<open>hc_get.go\<close>, \<open>hc_item.go\<close>, and
  \<open>IsValidAddress\<close> of \<open>internal/utils/common.go\<close>.

  \<open>ParseHosts\<close> merges the global section into every host, checks and types its items, and refuses a
  repeated host; \<open>Filter\<close> selects hosts by a label pattern.  The YAML reader is the argument
  \<open>parse\<close>; what the checks ask of the machine (the current user, the key files) is the
  record \<open>host_env\<close>.
\<close>

record host_env =
  env_user :: string
  env_home :: string
  env_exists :: "string \<Rightarrow> bool"
  env_permissions :: "string \<Rightarrow> int"

section \<open>Addresses\<close>

text \<open>The expression \<open>^(((25[0-5]|2[0-4][0-9]|[01]?[0-9][0-9]?)(\.|$)){4})\<close> as the list of what can be
  left of the text after a match; a text is accepted when the list is not empty.\<close>

definition char_in :: "char \<Rightarrow> char \<Rightarrow> char \<Rightarrow> bool" where
  "char_in lo hi c \<longleftrightarrow> (of_char lo :: int) \<le> of_char c \<and> (of_char c :: int) \<le> of_char hi"

definition re_class :: "char \<Rightarrow> char \<Rightarrow> string \<Rightarrow> string list" where
  "re_class lo hi s = (case s of [] \<Rightarrow> [] | c # cs \<Rightarrow> if char_in lo hi c then [cs] else [])"

definition re_opt :: "(string \<Rightarrow> string list) \<Rightarrow> string \<Rightarrow> string list" where
  "re_opt r s = r s @ [s]"

definition re_seq :: "(string \<Rightarrow> string list) \<Rightarrow> (string \<Rightarrow> string list) \<Rightarrow> string \<Rightarrow> string list" where
  "re_seq r q s = concat (map q (r s))"

definition re_octet :: "string \<Rightarrow> string list" where
  "re_octet s =
     re_seq (re_class (CHR ''2'') (CHR ''2'')) (re_seq (re_class (CHR ''5'') (CHR ''5'')) (re_class (CHR ''0'') (CHR ''5''))) s @
     re_seq (re_class (CHR ''2'') (CHR ''2'')) (re_seq (re_class (CHR ''0'') (CHR ''4'')) (re_class (CHR ''0'') (CHR ''9''))) s @
     re_seq (re_opt (re_class (CHR ''0'') (CHR ''1'')))
       (re_seq (re_class (CHR ''0'') (CHR ''9'')) (re_opt (re_class (CHR ''0'') (CHR ''9'')))) s"

definition re_dot_or_end :: "string \<Rightarrow> string list" where
  "re_dot_or_end s = (if s = [] then [[]] else re_class (CHR ''.'') (CHR ''.'') s)"

fun re_times :: "nat \<Rightarrow> (string \<Rightarrow> string list) \<Rightarrow> string \<Rightarrow> string list" where
  "re_times 0 r s = [s]"
| "re_times (Suc n) r s = re_seq r (re_times n r) s"

definition IsValidAddress :: "string \<Rightarrow> bool" where
  "IsValidAddress address \<longleftrightarrow> re_times 4 (re_seq re_octet re_dot_or_end) address \<noteq> []"

section \<open>Items\<close>

abbreviation KEY_LABELS :: string where "KEY_LABELS \<equiv> ''labels''"
abbreviation KEY_ENVS :: string where "KEY_ENVS \<equiv> ''envs''"
abbreviation PERMISSIONS_600 :: int where "PERMISSIONS_600 \<equiv> 384"
abbreviation MAX_PORT :: int where "MAX_PORT \<equiv> 65535"

definition CONFIG_HOST :: "host_env Item" where
  "CONFIG_HOST = mk_Item ''host'' COMM_STRING False CNil"
definition CONFIG_HOSTNAME :: "host_env Item" where
  "CONFIG_HOSTNAME = mk_Item ''hostname'' COMM_STRING False CNil"
definition CONFIG_SSH_HOSTNAME :: "host_env Item" where
  "CONFIG_SSH_HOSTNAME = mk_Item ''ssh_hostname'' COMM_STRING False CNil"
definition CONFIG_USER :: "host_env Item" where
  "CONFIG_USER = mk_Item ''user'' COMM_STRING False (CFunc (\<lambda>e. GStr (env_user e)))"
definition CONFIG_SSH_PORT :: "host_env Item" where
  "CONFIG_SSH_PORT = mk_Item ''ssh_port'' COMM_POSITIVE_INTEGER False (CConst (GInt 22))"
definition CONFIG_PRIVATE_CONFIG_FILE :: "host_env Item" where
  "CONFIG_PRIVATE_CONFIG_FILE = mk_Item ''private_key_file'' COMM_STRING False
     (CFunc (\<lambda>e. GStr (env_home e @ ''/.ssh/id_rsa'')))"
definition CONFIG_FORWARD_AGENT :: "host_env Item" where
  "CONFIG_FORWARD_AGENT = mk_Item ''forward_agent'' COMM_BOOL False (CConst (GBool False))"
definition CONFIG_BECOME_USER :: "host_env Item" where
  "CONFIG_BECOME_USER = mk_Item ''become_user'' COMM_STRING False CNil"

definition host_items :: "host_env Item list" where
  "host_items = [CONFIG_HOST, CONFIG_HOSTNAME, CONFIG_SSH_HOSTNAME, CONFIG_USER, CONFIG_SSH_PORT,
     CONFIG_PRIVATE_CONFIG_FILE, CONFIG_FORWARD_AGENT, CONFIG_BECOME_USER]"

definition host_itemset :: "host_env ItemSet" where
  "host_itemset = fold ItemSet_Insert host_items NewItemSet"

lemmas host_item_defs =
  CONFIG_HOST_def CONFIG_HOSTNAME_def CONFIG_SSH_HOSTNAME_def CONFIG_USER_def CONFIG_SSH_PORT_def
  CONFIG_PRIVATE_CONFIG_FILE_def CONFIG_FORWARD_AGENT_def CONFIG_BECOME_USER_def

section \<open>A host\<close>

record host_config =
  hc_sequence :: int
  hc_config :: gmap
  hc_labels :: "string list"
  hc_envs :: "string list"

definition hc_get :: "host_env \<Rightarrow> host_config \<Rightarrow> host_env Item \<Rightarrow> gval" where
  "hc_get e hc i =
     (case map_of (hc_config hc) (Item_key i) of
        Some v \<Rightarrow> v
      | None \<Rightarrow>
          (case Item_defaultValue i of CNil \<Rightarrow> GNil | CConst v \<Rightarrow> v | CFunc f \<Rightarrow> f e))"

definition hc_getString :: "host_env \<Rightarrow> host_config \<Rightarrow> host_env Item \<Rightarrow> string res" where
  "hc_getString e hc i = (let v = hc_get e hc i in if v = GNil then Inr [] else as_string v)"

definition hc_getInt :: "host_env \<Rightarrow> host_config \<Rightarrow> host_env Item \<Rightarrow> int res" where
  "hc_getInt e hc i = (let v = hc_get e hc i in if v = GNil then Inr 0 else as_int v)"

definition hc_getBool :: "host_env \<Rightarrow> host_config \<Rightarrow> host_env Item \<Rightarrow> bool res" where
  "hc_getBool e hc i = (let v = hc_get e hc i in if v = GNil then Inr False else as_bool v)"

definition hc_GetHost :: "host_env \<Rightarrow> host_config \<Rightarrow> string res" where
  "hc_GetHost e hc = hc_getString e hc CONFIG_HOST"
definition hc_GetHostname :: "host_env \<Rightarrow> host_config \<Rightarrow> string res" where
  "hc_GetHostname e hc = hc_getString e hc CONFIG_HOSTNAME"
definition hc_GetSSHHostname :: "host_env \<Rightarrow> host_config \<Rightarrow> string res" where
  "hc_GetSSHHostname e hc = hc_getString e hc CONFIG_SSH_HOSTNAME"
definition hc_GetSSHPort :: "host_env \<Rightarrow> host_config \<Rightarrow> int res" where
  "hc_GetSSHPort e hc = hc_getInt e hc CONFIG_SSH_PORT"
definition hc_GetPrivateKeyFile :: "host_env \<Rightarrow> host_config \<Rightarrow> string res" where
  "hc_GetPrivateKeyFile e hc = hc_getString e hc CONFIG_PRIVATE_CONFIG_FILE"
definition hc_GetForwardAgent :: "host_env \<Rightarrow> host_config \<Rightarrow> bool res" where
  "hc_GetForwardAgent e hc = hc_getBool e hc CONFIG_FORWARD_AGENT"
definition hc_GetBecomeUser :: "host_env \<Rightarrow> host_config \<Rightarrow> string res" where
  "hc_GetBecomeUser e hc = hc_getString e hc CONFIG_BECOME_USER"

definition hc_GetLabels :: "host_env \<Rightarrow> host_config \<Rightarrow> string list res" where
  "hc_GetLabels e hc =
     (if length (hc_labels hc) = 0 then bindR (hc_GetHost e hc) (\<lambda>h. Inr [h]) else Inr (hc_labels hc))"

definition hc_GetUser :: "host_env \<Rightarrow> host_config \<Rightarrow> string res" where
  "hc_GetUser e hc =
     bindR (hc_getString e hc CONFIG_USER) (\<lambda>user. Inr (if user = ''${user}'' then env_user e else user))"

record ssh_config =
  ssh_User :: string
  ssh_Host :: string
  ssh_Port :: int
  ssh_PrivateKeyPath :: string
  ssh_ForwardAgent :: bool
  ssh_BecomeMethod :: string
  ssh_BecomeFlags :: string
  ssh_BecomeUser :: string

definition hc_GetSSHConfig :: "host_env \<Rightarrow> host_config \<Rightarrow> ssh_config res" where
  "hc_GetSSHConfig e hc =
     bindR (hc_GetSSHHostname e hc) (\<lambda>sshname.
     bindR (if length sshname = 0 then hc_GetHostname e hc else Inr sshname) (\<lambda>hostname.
     bindR (hc_GetUser e hc) (\<lambda>user.
     bindR (hc_GetSSHPort e hc) (\<lambda>port.
     bindR (hc_GetPrivateKeyFile e hc) (\<lambda>key.
     bindR (hc_GetForwardAgent e hc) (\<lambda>agent.
     bindR (hc_GetBecomeUser e hc) (\<lambda>become.
     Inr \<lparr>ssh_User = user, ssh_Host = hostname, ssh_Port = port mod 2 ^ 64, ssh_PrivateKeyPath = key,
          ssh_ForwardAgent = agent, ssh_BecomeMethod = ''sudo'', ssh_BecomeFlags = ''-iu'',
          ssh_BecomeUser = become\<rparr>)))))))"

section \<open>Building a host\<close>

definition hosts_newIfNil :: "gmap option \<Rightarrow> gmap" where
  "hosts_newIfNil config = (case config of None \<Rightarrow> [] | Some c \<Rightarrow> c)"

definition hosts_merge :: "gmap \<Rightarrow> gmap \<Rightarrow> gmap" where
  "hosts_merge parent child =
     fold (\<lambda>(k, v) child. if gget child k = GNil then AList.update k v child else child) parent child"

text \<open>The common body of \<open>convertLables\<close> and \<open>convertEnvs\<close>: the strings of a list value.\<close>

definition string_slice :: "gval \<Rightarrow> string list res" where
  "string_slice v =
     (case v of
        GList l \<Rightarrow>
          mapR (\<lambda>x. let (s, ok) = All2Str x in
            if \<not> ok then Inl (Ec ERR_CONFIGURE_VALUE_REQUIRES_STRING_SLICE) else Inr s) l
      | _ \<Rightarrow> Inl (Ec ERR_CONFIGURE_VALUE_REQUIRES_STRING_SLICE))"

definition convertLables :: "host_config \<Rightarrow> host_config res" where
  "convertLables hc =
     bindR (string_slice (gget (hc_config hc) KEY_LABELS)) (\<lambda>l. Inr (hc\<lparr>hc_labels := hc_labels hc @ l\<rparr>))"

definition convertEnvs :: "host_config \<Rightarrow> host_config res" where
  "convertEnvs hc =
     bindR (string_slice (gget (hc_config hc) KEY_ENVS)) (\<lambda>l. Inr (hc\<lparr>hc_envs := hc_envs hc @ l\<rparr>))"

definition hc_put :: "string \<Rightarrow> gval \<Rightarrow> host_config \<Rightarrow> host_config" where
  "hc_put k v hc = hc\<lparr>hc_config := AList.update k v (hc_config hc)\<rparr>"

definition build_key :: "string \<times> gval \<Rightarrow> host_config \<Rightarrow> host_config res" where
  "build_key = (\<lambda>(key, val) hc.
     if key = KEY_LABELS then bindR (convertLables hc) (\<lambda>hc'. Inr (hc_put key GNil hc'))
     else if key = KEY_ENVS then bindR (convertEnvs hc) (\<lambda>hc'. Inr (hc_put key GNil hc'))
     else if ItemSet_Get host_itemset key = None then Inl (Ec ERR_UNSUPPORT_HOSTS_CONFIGURE_ITEM)
     else bindR (ItemSet_Build host_itemset key val) (\<lambda>v. Inr (hc_put key v hc)))"

definition check_host :: "host_env \<Rightarrow> host_config \<Rightarrow> unit res" where
  "check_host e hc =
     bindR (hc_GetPrivateKeyFile e hc) (\<lambda>key.
     bindR (hc_GetHost e hc) (\<lambda>host.
     if length host = 0 then Inl (Ec ERR_HOST_FIELD_MISSING)
     else bindR (hc_GetHostname e hc) (\<lambda>hostname.
     if length hostname = 0 then Inl (Ec ERR_HOSTNAME_FIELD_MISSING)
     else if \<not> IsValidAddress hostname then Inl (Ec ERR_HOSTNAME_REQUIRES_VALID_IP_ADDRESS)
     else bindR (hc_GetSSHPort e hc) (\<lambda>port.
     if port > MAX_PORT then Inl (Ec ERR_HOSTS_SSH_PORT_EXCEED_MAX_PORT_NUMBER)
     else if \<not> has_prefix key ''/'' then Inl (Ec ERR_PRIVATE_KEY_FILE_REQUIRE_ABSOLUTE_PATH)
     else bindR (hc_GetForwardAgent e hc) (\<lambda>agent.
     if agent = False then
       (if \<not> env_exists e key then Inl (Ec ERR_PRIVATE_KEY_FILE_NOT_EXIST)
        else if env_permissions e key \<noteq> PERMISSIONS_600 then Inl (Ec ERR_PRIVATE_KEY_FILE_REQUIRE_600_PERMISSIONS)
        else Inr ())
     else Inr ())))))"

definition hc_Build :: "host_env \<Rightarrow> host_config \<Rightarrow> host_config res" where
  "hc_Build e hc0 =
     bindR (foldR build_key (hc_config hc0) hc0) (\<lambda>hc.
     bindR (check_host e hc) (\<lambda>_. Inr hc))"

definition NewHostConfig :: "int \<Rightarrow> gmap \<Rightarrow> host_config" where
  "NewHostConfig sequence config =
     \<lparr>hc_sequence = sequence, hc_config = config, hc_labels = [], hc_envs = []\<rparr>"

section \<open>The hosts file\<close>

record hosts =
  hosts_Global :: "gmap option"
  hosts_Host :: "gmap option list"

fun parse_each :: "host_env \<Rightarrow> gmap \<Rightarrow> nat \<Rightarrow> bmap \<Rightarrow> gmap option list \<Rightarrow> host_config list res" where
  "parse_each e global i exist [] = Inr []"
| "parse_each e global i exist (host # rest) =
     bindR (hc_Build e (NewHostConfig (int i) (hosts_merge global (hosts_newIfNil host)))) (\<lambda>hc.
     bindR (hc_GetHost e hc) (\<lambda>h.
     if map_of exist h \<noteq> None then Inl (Ec ERR_DUPLICATE_HOST)
     else bindR (parse_each e global (Suc i) (AList.update h True exist) rest) (\<lambda>hcs. Inr (hc # hcs))))"

definition ParseHosts :: "host_env \<Rightarrow> (string \<Rightarrow> hosts option) \<Rightarrow> string \<Rightarrow> host_config list res" where
  "ParseHosts e parse data =
     (if length data = 0 then Inl (Ec ERR_EMPTY_HOSTS)
      else case parse data of
        None \<Rightarrow> Inl (Ec ERR_PARSE_HOSTS_FAILED)
      | Some h \<Rightarrow> parse_each e (hosts_newIfNil (hosts_Global h)) 0 [] (hosts_Host h))"

section \<open>Selecting hosts\<close>

definition excludeOne :: "string list \<Rightarrow> bmap \<Rightarrow> bool" where
  "excludeOne labels exclude =
     (if length exclude = 0 then False else list_ex (\<lambda>label. bget exclude label) labels)"

definition includeOne :: "string list \<Rightarrow> bmap \<Rightarrow> bool" where
  "includeOne labels include =
     (if length include = 0 then True else list_ex (\<lambda>label. bget include label) labels)"

definition intersectOne :: "string list \<Rightarrow> bmap \<Rightarrow> bool" where
  "intersectOne labels intersect =
     (if length intersect = 0 then True
      else length (fold (\<lambda>label exist. if bget intersect label then AList.update label True exist else exist)
                     labels ([] :: bmap)) = length intersect)"

fun parse_label :: "string \<Rightarrow> bmap \<times> bmap \<times> bmap \<Rightarrow> bmap \<times> bmap \<times> bmap" where
  "parse_label [] p = p"
| "parse_label (c # cs) (include, exclude, intersect) =
     (if c = CHR ''!'' then (include, AList.update cs True exclude, intersect)
      else if c = CHR ''&'' then (include, exclude, AList.update cs True intersect)
      else (AList.update (c # cs) True include, exclude, intersect))"

definition parsePattern :: "string list \<Rightarrow> bmap \<times> bmap \<times> bmap" where
  "parsePattern labels = fold parse_label labels ([], [], [])"

definition selected :: "bmap \<times> bmap \<times> bmap \<Rightarrow> string list \<Rightarrow> bool" where
  "selected = (\<lambda>(include, exclude, intersect) labels.
     if excludeOne labels exclude then False
     else if \<not> includeOne labels include then False
     else if \<not> intersectOne labels intersect then False
     else True)"

definition hosts_Filter :: "host_env \<Rightarrow> (string \<Rightarrow> hosts option) \<Rightarrow> string \<Rightarrow> string list \<Rightarrow> host_config list res" where
  "hosts_Filter e parse data labels =
     bindR (ParseHosts e parse data) (\<lambda>hcs.
     if length labels = 0 then Inr hcs
     else bindR (mapR (\<lambda>hc. bindR (hc_GetLabels e hc) (\<lambda>ls.
            Inr (if selected (parsePattern labels) ls then [hc] else []))) hcs)
          (\<lambda>l. Inr (concat l)))"

section \<open>Which addresses are accepted\<close>

text \<open>What is left after a match of a prefix is also left when text is appended.\<close>

definition appends :: "(string \<Rightarrow> string list) \<Rightarrow> bool" where
  "appends r \<longleftrightarrow> (\<forall>s t u. u \<in> set (r s) \<longrightarrow> u @ t \<in> set (r (s @ t)))"

lemma appends_class [intro]: "appends (re_class lo hi)"
  by (auto simp: appends_def re_class_def split: list.splits)

lemma appends_opt [intro]: "appends r \<Longrightarrow> appends (re_opt r)"
  by (auto simp: appends_def re_opt_def)

lemma appends_seq [intro]: "appends r \<Longrightarrow> appends q \<Longrightarrow> appends (re_seq r q)"
  unfolding appends_def re_seq_def by fastforce

lemma appends_octet: "appends re_octet"
proof -
  have un: "appends (\<lambda>s. r s @ q s)" if "appends r" "appends q" for r q
    using that by (auto simp: appends_def)
  show ?thesis
    unfolding re_octet_def [abs_def] by (intro un appends_seq appends_opt appends_class)
qed

lemma octet_number: "0 \<le> n \<Longrightarrow> n \<le> 255 \<Longrightarrow> r \<in> set (re_octet (itoa n @ r))"
proof -
  assume n: "0 \<le> n" "n \<le> 255"
  have "list_all (\<lambda>n. [] \<in> set (re_octet (itoa n))) [0..255]" by code_simp
  with n have "[] \<in> set (re_octet (itoa n))" by (simp add: list_all_iff)
  then show ?thesis using appends_octet unfolding appends_def by fastforce
qed

lemma dot_rest: "r \<in> set (re_dot_or_end (''.'' @ r))" "[] \<in> set (re_dot_or_end [])"
  by (simp_all add: re_dot_or_end_def re_class_def char_in_def)

lemma re_times_step:
  "u \<in> set (r s) \<Longrightarrow> v \<in> set (re_times n r u) \<Longrightarrow> v \<in> set (re_times (Suc n) r s)"
  by (auto simp: re_seq_def)

lemma octet_dot:
  assumes "0 \<le> n" "n \<le> 255"
  shows "r \<in> set (re_seq re_octet re_dot_or_end (itoa n @ ''.'' @ r))"
    and "[] \<in> set (re_seq re_octet re_dot_or_end (itoa n))"
  using octet_number [OF assms, of "''.'' @ r"] octet_number [OF assms, of "[]"] dot_rest
  by (auto simp: re_seq_def)

lemma quad_step:
  assumes "0 \<le> n" "n \<le> 255"
  shows "v \<in> set (re_times k (re_seq re_octet re_dot_or_end) r) \<Longrightarrow>
           v \<in> set (re_times (Suc k) (re_seq re_octet re_dot_or_end) (itoa n @ ''.'' @ r))"
    and "[] \<in> set (re_times (Suc 0) (re_seq re_octet re_dot_or_end) (itoa n))"
  using re_times_step [where r = "re_seq re_octet re_dot_or_end"] octet_dot [OF assms] by force+

text \<open>
  Every dotted quad of numbers up to 255 is accepted as an address, and so is a dotted quad
  followed by a dot and any text whatever: the expression is not anchored at the end.
\<close>

theorem IsValidAddress_quads:
  assumes "{a, b, c, d} \<subseteq> {0..255}"
  shows "IsValidAddress (itoa a @ ''.'' @ itoa b @ ''.'' @ itoa c @ ''.'' @ itoa d) \<and>
         IsValidAddress (itoa a @ ''.'' @ itoa b @ ''.'' @ itoa c @ ''.'' @ itoa d @ ''.'' @ rest)"
proof -
  let ?r = "re_seq re_octet re_dot_or_end"
  have four: "(4 :: nat) = Suc (Suc (Suc (Suc 0)))" by simp
  have "[] \<in> set (re_times 4 ?r (itoa a @ ''.'' @ itoa b @ ''.'' @ itoa c @ ''.'' @ itoa d))"
    unfolding four using assms
    by (intro quad_step) auto
  moreover have "rest \<in> set (re_times 4 ?r (itoa a @ ''.'' @ itoa b @ ''.'' @ itoa c @ ''.'' @ itoa d @ ''.'' @ rest))"
    unfolding four using assms
    by (intro quad_step(1)) auto
  ultimately show ?thesis by (auto simp: IsValidAddress_def)
qed

theorem IsValidAddress_quads_witness:
  "IsValidAddress ''10.0.0.1'' \<and> IsValidAddress ''10.0.0.1.not-an-address''"
proof -
  have "itoa 10 = ''10''" "itoa 0 = ''0''" "itoa 1 = ''1''" by code_simp+
  then show ?thesis using IsValidAddress_quads [of 10 0 0 1 "''not-an-address''"] by simp
qed

section \<open>Label patterns\<close>

definition included :: "string list \<Rightarrow> string set" where
  "included labels = {l \<in> set labels. l \<noteq> [] \<and> hd l \<noteq> CHR ''!'' \<and> hd l \<noteq> CHR ''&''}"

definition excluded :: "string list \<Rightarrow> string set" where
  "excluded labels = {l. CHR ''!'' # l \<in> set labels}"

definition intersected :: "string list \<Rightarrow> string set" where
  "intersected labels = {l. CHR ''&'' # l \<in> set labels}"

text \<open>A map used as a set: all its values are true and its keys differ.\<close>

definition set_map :: "bmap \<Rightarrow> bool" where
  "set_map m \<longleftrightarrow> distinct (map fst m) \<and> (\<forall>b \<in> snd ` set m. b)"

definition keys :: "bmap \<Rightarrow> string set" where
  "keys m = fst ` set m"

lemma set_map_Nil [simp]: "set_map []" "keys [] = {}"
  by (simp_all add: set_map_def keys_def)

lemma keys_put [simp]: "keys (AList.update k True m) = insert k (keys m)"
  by (simp add: keys_def)

lemma snd_update: "snd ` set (AList.update k v m) \<subseteq> insert v (snd ` set m)"
  by (induction m) auto

lemma set_map_put [simp]: "set_map m \<Longrightarrow> set_map (AList.update k True m)"
  using snd_update [of k True m] by (auto simp: set_map_def)

lemma bget_keys: "set_map m \<Longrightarrow> bget m k \<longleftrightarrow> k \<in> keys m"
  by (auto simp: bget_def set_map_def keys_def map_of_eq_None_iff split: option.splits)
    (force dest: map_of_SomeD)

lemma keys_empty: "length m = 0 \<longleftrightarrow> keys m = {}"
  by (simp add: keys_def)

lemma card_keys: "set_map m \<Longrightarrow> card (keys m) = length m"
  using distinct_card [of "map fst m"] by (simp add: set_map_def keys_def)

lemma parsePattern_sets:
  assumes "parsePattern labels = (i, x, n)"
  shows "set_map i \<and> set_map x \<and> set_map n \<and>
         keys i = included labels \<and> keys x = excluded labels \<and> keys n = intersected labels"
proof -
  have "set_map i \<and> set_map x \<and> set_map n \<and>
      keys i = included labels \<union> keys i0 \<and> keys x = excluded labels \<union> keys x0 \<and> keys n = intersected labels \<union> keys n0"
    if "fold parse_label labels (i0, x0, n0) = (i, x, n)" "set_map i0" "set_map x0" "set_map n0" for i0 x0 n0
    using that
  proof (induction labels arbitrary: i0 x0 n0)
    case Nil
    then show ?case by (auto simp: included_def excluded_def intersected_def)
  next
    case (Cons l labels)
    obtain i1 x1 n1 where p: "parse_label l (i0, x0, n0) = (i1, x1, n1)" by (metis prod_cases3)
    then have "set_map i1 \<and> set_map x1 \<and> set_map n1 \<and> keys i1 = included [l] \<union> keys i0 \<and>
        keys x1 = excluded [l] \<union> keys x0 \<and> keys n1 = intersected [l] \<union> keys n0"
      using Cons.prems(2-4)
      by (cases l) (auto simp: included_def excluded_def intersected_def split: if_splits)
    moreover have "fold parse_label labels (i1, x1, n1) = (i, x, n)" using Cons.prems(1) p by simp
    ultimately show ?case
      using Cons.IH [of i1 x1 n1] by (auto simp: included_def excluded_def intersected_def)
  qed
  from this [of "[]" "[]" "[]"] assms show ?thesis by (simp add: parsePattern_def)
qed

lemma intersectOne_iff:
  assumes "set_map n"
  shows "intersectOne labels n \<longleftrightarrow> keys n \<subseteq> set labels"
proof -
  let ?f = "fold (\<lambda>label exist. if bget n label then AList.update label True exist else exist) labels"
  have "set_map m \<Longrightarrow> set_map (?f m) \<and> keys (?f m) = (set labels \<inter> keys n) \<union> keys m" for m
    by (induction labels arbitrary: m) (auto simp: bget_keys [OF assms])
  from this [of "[]"] have f: "set_map (?f [])" "keys (?f []) = set labels \<inter> keys n" by auto
  have fin: "finite (keys n)" by (simp add: keys_def)
  have "length (?f []) = length n \<longleftrightarrow> card (set labels \<inter> keys n) = card (keys n)"
    using card_keys [OF f(1)] card_keys [OF assms] f(2) by simp
  also have "\<dots> \<longleftrightarrow> keys n \<subseteq> set labels"
    using card_subset_eq [OF fin, of "set labels \<inter> keys n"] by (metis inf.absorb_iff2 inf_le2)
  finally show ?thesis by (auto simp: intersectOne_def keys_def)
qed

lemma selected_iff:
  "selected (parsePattern labels) ls \<longleftrightarrow>
     set ls \<inter> excluded labels = {} \<and>
     (included labels = {} \<or> set ls \<inter> included labels \<noteq> {}) \<and>
     intersected labels \<subseteq> set ls"
proof -
  obtain i x n where p: "parsePattern labels = (i, x, n)" by (metis prod_cases3)
  note s = parsePattern_sets [OF p]
  have "excludeOne ls x \<longleftrightarrow> set ls \<inter> excluded labels \<noteq> {}"
    using s by (auto simp: excludeOne_def keys_empty [simplified] bget_keys list_ex_iff keys_def)
  moreover have "includeOne ls i \<longleftrightarrow> included labels = {} \<or> set ls \<inter> included labels \<noteq> {}"
    using s by (auto simp: includeOne_def bget_keys list_ex_iff keys_def)
  moreover have "intersectOne ls n \<longleftrightarrow> intersected labels \<subseteq> set ls"
    using s by (simp add: intersectOne_iff)
  ultimately show ?thesis by (auto simp: selected_def p)
qed

section \<open>What a parsed host satisfies\<close>

definition built_key :: "string \<Rightarrow> gval option \<Rightarrow> bool" where
  "built_key k vo \<longleftrightarrow>
     (\<exists>v. vo = Some v \<and>
        (if k = KEY_LABELS \<or> k = KEY_ENVS then v = GNil
         else \<exists>i. ItemSet_Get host_itemset k = Some i \<and> comm_typed (Item_require i) v))"

lemma build_key_result:
  assumes "build_key (k, v) hc = Inr hc'"
  shows "built_key k (map_of (hc_config hc') k) \<and>
         (\<forall>j. j \<noteq> k \<longrightarrow> map_of (hc_config hc') j = map_of (hc_config hc) j) \<and> hc_sequence hc' = hc_sequence hc"
  using assms
  by (auto simp: build_key_def built_key_def hc_put_def convertLables_def convertEnvs_def res_simps
      ItemSet_Build_result split: if_splits)

lemma build_keys_result:
  assumes "foldR build_key xs hc = Inr hc'"
  shows "(\<forall>k \<in> fst ` set xs. built_key k (map_of (hc_config hc') k)) \<and>
         (\<forall>k. k \<notin> fst ` set xs \<longrightarrow> map_of (hc_config hc') k = map_of (hc_config hc) k)"
  using assms
proof (induction xs arbitrary: hc)
  case (Cons x xs)
  obtain k v where x: "x = (k, v)" by (cases x)
  from Cons.prems obtain h where h: "build_key (k, v) hc = Inr h" "foldR build_key xs h = Inr hc'"
    by (auto simp: x res_simps)
  note b = build_key_result [OF h(1)] and IH = Cons.IH [OF h(2)]
  show ?case using b IH by (cases "k \<in> fst ` set xs") (auto simp: x)
qed simp

lemma host_itemset_get:
  "ItemSet_Get host_itemset k = Some i \<longleftrightarrow> i \<in> set host_items \<and> Item_key i = k"
  unfolding host_itemset_def
  by (rule item_store.find_table) (simp add: host_items_def host_item_defs mk_Item_def)

text \<open>The value of an item of a built host: of its required type, or its default.\<close>

lemma built_get:
  assumes "foldR build_key (hc_config hc0) hc0 = Inr hc" and "i \<in> set host_items"
  shows "comm_typed (Item_require i) (hc_get e hc i) \<or>
         map_of (hc_config hc) (Item_key i) = None"
proof (cases "map_of (hc_config hc) (Item_key i)")
  case (Some v)
  note b = build_keys_result [OF assms(1)]
  have "Item_key i \<in> fst ` set (hc_config hc0)"
    using b Some by (metis map_of_in_keys)
  then have "built_key (Item_key i) (Some v)" using b Some by metis
  moreover have "Item_key i \<noteq> KEY_LABELS" "Item_key i \<noteq> KEY_ENVS"
    using assms(2) by (auto simp: host_items_def host_item_defs mk_Item_def)
  ultimately obtain j where "ItemSet_Get host_itemset (Item_key i) = Some j" "comm_typed (Item_require j) v"
    by (auto simp: built_key_def)
  moreover have "ItemSet_Get host_itemset (Item_key i) = Some i" using assms(2) by (simp add: host_itemset_get)
  ultimately show ?thesis using Some by (simp add: hc_get_def)
qed simp

text \<open>A host that passed all checks, as its getters show it.\<close>

definition valid_host :: "host_env \<Rightarrow> host_config \<Rightarrow> bool" where
  "valid_host e hc \<longleftrightarrow>
     (\<exists>host hostname port key agent.
        hc_GetHost e hc = Inr host \<and> host \<noteq> [] \<and>
        hc_GetHostname e hc = Inr hostname \<and> IsValidAddress hostname \<and>
        hc_GetSSHPort e hc = Inr port \<and> 0 < port \<and> port \<le> MAX_PORT \<and>
        hc_GetPrivateKeyFile e hc = Inr key \<and> has_prefix key ''/'' \<and>
        hc_GetForwardAgent e hc = Inr agent \<and>
        (\<not> agent \<longrightarrow> env_exists e key \<and> env_permissions e key = PERMISSIONS_600))"

lemma check_host_result:
  assumes "check_host e hc = Inr ()"
  shows "\<exists>host hostname port key agent.
        hc_GetHost e hc = Inr host \<and> host \<noteq> [] \<and> hc_GetHostname e hc = Inr hostname \<and> IsValidAddress hostname \<and>
        hc_GetSSHPort e hc = Inr port \<and> port \<le> MAX_PORT \<and>
        hc_GetPrivateKeyFile e hc = Inr key \<and> has_prefix key ''/'' \<and> hc_GetForwardAgent e hc = Inr agent \<and>
        (\<not> agent \<longrightarrow> env_exists e key \<and> env_permissions e key = PERMISSIONS_600)"
  using assms by (auto simp: check_host_def res_simps split: if_splits)

lemma hc_Build_valid:
  assumes "hc_Build e hc0 = Inr hc"
  shows "valid_host e hc"
proof -
  from assms have b: "foldR build_key (hc_config hc0) hc0 = Inr hc" "check_host e hc = Inr ()"
    by (auto simp: hc_Build_def res_simps)
  have "CONFIG_SSH_PORT \<in> set host_items" by (simp add: host_items_def)
  from built_get [OF b(1) this, of e] have "\<forall>p. hc_GetSSHPort e hc = Inr p \<longrightarrow> 0 < p"
    by (auto simp: hc_GetSSHPort_def hc_getInt_def hc_get_def CONFIG_SSH_PORT_def mk_Item_def comm_typed_def
        Let_def split: if_splits option.splits)
  with check_host_result [OF b(2)] show ?thesis unfolding valid_host_def by blast
qed

definition host_name :: "host_env \<Rightarrow> host_config \<Rightarrow> string" where
  "host_name e hc = (case hc_GetHost e hc of Inl _ \<Rightarrow> [] | Inr h \<Rightarrow> h)"

lemma parse_each_result:
  assumes "parse_each e global i exist hs = Inr hcs"
  shows "length hcs = length hs \<and> (\<forall>hc \<in> set hcs. valid_host e hc) \<and>
         distinct (map (host_name e) hcs) \<and> (\<forall>hc \<in> set hcs. map_of exist (host_name e hc) = None)"
  using assms
proof (induction hs arbitrary: i exist hcs)
  case (Cons h hs)
  from Cons.prems obtain hc n rest where p:
    "hc_Build e (NewHostConfig (int i) (hosts_merge global (hosts_newIfNil h))) = Inr hc"
    "hc_GetHost e hc = Inr n" "map_of exist n = None"
    "parse_each e global (Suc i) (AList.update n True exist) hs = Inr rest" "hcs = hc # rest"
    by (auto simp: res_simps split: if_splits)
  have "host_name e hc = n" using p(2) by (simp add: host_name_def)
  with Cons.IH [OF p(4)] hc_Build_valid [OF p(1)] p(3,5) show ?case
    by (auto split: if_splits)
qed simp

lemma ParseHosts_result:
  assumes "ParseHosts e parse data = Inr hcs"
  shows "\<exists>h. parse data = Some h \<and> length hcs = length (hosts_Host h) \<and>
           (\<forall>hc \<in> set hcs. valid_host e hc) \<and> distinct (map (host_name e) hcs)"
  using assms parse_each_result
  by (fastforce simp: ParseHosts_def split: if_splits option.splits)

text \<open>
  C34: a successful parse of a hosts file gives one configuration per entry, no two with the same
  host name, and every one is usable: it has a host name and an accepted address, a port between 1
  and 65535, an absolute key path, and without agent forwarding the key file exists with
  permissions 600.
\<close>

theorem ParseHosts_valid:
  assumes "ParseHosts e parse data = Inr hcs"
  shows "\<exists>h. parse data = Some h \<and> length hcs = length (hosts_Host h) \<and>
           (\<forall>hc \<in> set hcs. valid_host e hc) \<and> distinct (map (host_name e) hcs)"
  by (rule ParseHosts_result [OF assms])

text \<open>
  C35: filtering by a label pattern keeps, in order, exactly the hosts none of whose labels is excluded,
  one of whose labels is included (if the pattern includes any), and whose labels contain all
  intersected ones; a host without labels has its name as its only label.
\<close>

theorem Filter_selects:
  assumes "ParseHosts e parse data = Inr hcs" and "labels \<noteq> []"
  shows "hosts_Filter e parse data labels =
    Inr (filter (\<lambda>hc. let ls = set (if hc_labels hc = [] then [host_name e hc] else hc_labels hc) in
      ls \<inter> excluded labels = {} \<and> (included labels = {} \<or> ls \<inter> included labels \<noteq> {}) \<and>
      intersected labels \<subseteq> ls) hcs)"
proof -
  let ?ls = "\<lambda>hc. if hc_labels hc = [] then [host_name e hc] else hc_labels hc"
  let ?f = "\<lambda>hc. bindR (hc_GetLabels e hc) (\<lambda>ls. Inr (if selected (parsePattern labels) ls then [hc] else []))"
  have "hc_GetLabels e hc = Inr (?ls hc)" if "hc \<in> set hcs" for hc
    using ParseHosts_result [OF assms(1)] that
    by (auto simp: hc_GetLabels_def valid_host_def host_name_def)
  then have "mapR ?f hcs = Inr (map (\<lambda>hc. if selected (parsePattern labels) (?ls hc) then [hc] else []) hcs)"
    by (intro mapR_all_Inr) simp
  moreover have "concat (map (\<lambda>hc. if P hc then [hc] else []) hcs) = filter P hcs" for P
    by (induction hcs) auto
  ultimately show ?thesis
    using assms by (simp add: hosts_Filter_def selected_iff Let_def)
qed

section \<open>A run\<close>

definition demo_env :: host_env where
  "demo_env = \<lparr>env_user = ''u'', env_home = ''/h'', env_exists = (\<lambda>_. True), env_permissions = (\<lambda>_. 384)\<rparr>"

definition demo_hosts :: hosts where
  "demo_hosts =
     \<lparr>hosts_Global = Some [(''ssh_port'', GInt 23)],
      hosts_Host = [Some [(''host'', GStr ''a''), (''hostname'', GStr ''10.0.0.1''), (''labels'', GList [GStr ''x'', GStr ''y''])],
                    Some [(''host'', GStr ''b''), (''hostname'', GStr ''10.0.0.2'')]]\<rparr>"

lemma demo_hosts_parse:
  obtains hcs where "ParseHosts demo_env (\<lambda>_. Some demo_hosts) ''d'' = Inr hcs"
proof -
  have "case ParseHosts demo_env (\<lambda>_. Some demo_hosts) ''d'' of Inl _ \<Rightarrow> False | Inr _ \<Rightarrow> True" by code_simp
  then show thesis using that by (auto split: sum.split_asm)
qed

theorem ParseHosts_valid_witness:
  "\<exists>hcs. ParseHosts demo_env (\<lambda>_. Some demo_hosts) ''d'' = Inr hcs \<and> length hcs = 2 \<and>
     (\<forall>hc \<in> set hcs. valid_host demo_env hc)"
proof -
  obtain hcs where p: "ParseHosts demo_env (\<lambda>_. Some demo_hosts) ''d'' = Inr hcs" by (rule demo_hosts_parse)
  with ParseHosts_valid [OF p] show ?thesis by (auto simp: demo_hosts_def)
qed

theorem Filter_selects_witness:
  "\<exists>hcs. ParseHosts demo_env (\<lambda>_. Some demo_hosts) ''d'' = Inr hcs \<and>
     hosts_Filter demo_env (\<lambda>_. Some demo_hosts) ''d'' [''x'', ''&y''] =
       Inr (filter (\<lambda>hc. {''x'', ''y''} \<subseteq> set (if hc_labels hc = [] then [host_name demo_env hc] else hc_labels hc)) hcs)"
proof -
  obtain hcs where p: "ParseHosts demo_env (\<lambda>_. Some demo_hosts) ''d'' = Inr hcs" by (rule demo_hosts_parse)
  have "excluded [''x'', ''&y''] = {}" "included [''x'', ''&y''] = {''x''}" "intersected [''x'', ''&y''] = {''y''}"
    by (auto simp: excluded_def included_def intersected_def)
  then have "hosts_Filter demo_env (\<lambda>_. Some demo_hosts) ''d'' [''x'', ''&y''] =
      Inr (filter (\<lambda>hc. {''x'', ''y''} \<subseteq> set (if hc_labels hc = [] then [host_name demo_env hc] else hc_labels hc)) hcs)"
    using Filter_selects [OF p, of "[''x'', ''&y'']"] by (simp add: Let_def)
  with p show ?thesis by blast
qed

end
