(* ===== verification/Tasks.thy ===== *)
theory Tasks
  imports Go_Base "HOL-Library.Multiset"
begin

text \<open>
  Tasks and their concurrent execution: \<open>internal/task/task/task.go\<close>, \<open>internal/tasks/monitor.go\<close>
  and \<open>internal/tasks/tasks.go\<close>.

  A step is a function on the world it acts on (the type \<open>'w\<close>), with an error or none: \<open>Step\<close> is an
  interface in the code.  A task runs its steps on one connection, then its post steps.
  \<open>Tasks\<close> runs a list of tasks, at most \<open>Concurrency\<close> of them at a time; here that is a step
  relation with one rule for the loop that starts workers and one for a worker that finishes, and
  the outcome of each task is a function of its position.  The progress bars are identified by
  the ids that the \<open>mpb\<close> package hands out: the argument \<open>bar_id\<close> gives the id of the bar of a
  parent task id.
\<close>

section \<open>Tasks\<close>

datatype terr = ERR_SKIP_TASK | ERR_TASK_DONE | TErr gerr

type_synonym 'w step = "'w \<Rightarrow> 'w \<times> terr option"

record 'w task =
  t_tid :: string
  t_ptid :: string
  t_name :: string
  t_subname :: string
  t_steps :: "'w step list"
  t_postSteps :: "'w step list"
  t_ssh :: "('w \<Rightarrow> 'w \<times> bool) option"

definition NewTask :: "string \<Rightarrow> string \<Rightarrow> string \<Rightarrow> ('w \<Rightarrow> 'w \<times> bool) option \<Rightarrow> 'w task" where
  "NewTask uuid name subname ssh =
     (let tid = take 12 uuid in
      \<lparr>t_tid = tid, t_ptid = tid, t_name = name, t_subname = subname, t_steps = [], t_postSteps = [], t_ssh = ssh\<rparr>)"

definition SetTid :: "string \<Rightarrow> 'w task \<Rightarrow> 'w task" where
  "SetTid tid t = t\<lparr>t_tid := tid\<rparr>"

definition SetPtid :: "string \<Rightarrow> 'w task \<Rightarrow> 'w task" where
  "SetPtid ptid t = t\<lparr>t_ptid := ptid\<rparr>"

definition SetSubname :: "string \<Rightarrow> 'w task \<Rightarrow> 'w task" where
  "SetSubname name t = t\<lparr>t_subname := name\<rparr>"

definition AddStep :: "'w step \<Rightarrow> 'w task \<Rightarrow> 'w task" where
  "AddStep s t = t\<lparr>t_steps := t_steps t @ [s]\<rparr>"

definition AddPostStep :: "'w step \<Rightarrow> 'w task \<Rightarrow> 'w task" where
  "AddPostStep s t = t\<lparr>t_postSteps := t_postSteps t @ [s]\<rparr>"

fun executePost :: "'w step list \<Rightarrow> 'w \<Rightarrow> 'w" where
  "executePost [] w = w"
| "executePost (s # ss) w = (case s w of (w', None) \<Rightarrow> executePost ss w' | (w', Some _) \<Rightarrow> w')"

fun run_steps :: "'w step list \<Rightarrow> 'w \<Rightarrow> 'w \<times> terr option" where
  "run_steps [] w = (w, None)"
| "run_steps (s # ss) w =
     (case s w of
        (w', None) \<Rightarrow> run_steps ss w'
      | (w', Some e) \<Rightarrow> if e = ERR_TASK_DONE \<or> e = ERR_SKIP_TASK then (w', None) else (w', Some e))"

text \<open>The connection is refused with an error code before the post steps are deferred; after that the post
  steps run in every case.\<close>

definition Task_Execute :: "'w task \<Rightarrow> 'w \<Rightarrow> 'w \<times> terr option" where
  "Task_Execute t w =
     (let (w1, connected) = (case t_ssh t of None \<Rightarrow> (w, True) | Some connect \<Rightarrow> connect w) in
      if \<not> connected then (w1, Some (TErr (Ec ERR_SSH_CONNECT_FAILED)))
      else let (w2, err) = run_steps (t_steps t) w1 in (executePost (t_postSteps t) w2, err))"

section \<open>The monitor\<close>

datatype status = STATUS_OK | STATUS_SKIP | STATUS_ERROR

record monitor =
  m_err :: "terr option"
  m_result :: "(int \<times> terr option list) list"

definition newMonitor :: monitor where
  "newMonitor = \<lparr>m_err = None, m_result = []\<rparr>"

definition m_results :: "monitor \<Rightarrow> int \<Rightarrow> terr option list" where
  "m_results m bid = (case map_of (m_result m) bid of None \<Rightarrow> [] | Some l \<Rightarrow> l)"

fun sum_loop :: "terr option list \<Rightarrow> int \<times> int \<times> int \<Rightarrow> int \<times> int \<times> int" where
  "sum_loop [] c = c"
| "sum_loop (err # errs) (nsucc, nskip, nerr) =
     sum_loop errs (if err = None then (nsucc + 1, nskip, nerr)
                    else if err = Some ERR_SKIP_TASK then (nsucc, nskip + 1, nerr)
                    else (nsucc, nskip, nerr + 1))"

definition m_sum :: "monitor \<Rightarrow> int \<Rightarrow> int \<times> int \<times> int" where
  "m_sum m bid = sum_loop (m_results m bid) (0, 0, 0)"

definition m_set :: "int \<Rightarrow> terr option \<Rightarrow> monitor \<Rightarrow> monitor" where
  "m_set bid err m =
     (let m' = m\<lparr>m_result := AList.update bid (m_results m bid @ [err]) (m_result m)\<rparr> in
      if err \<noteq> None \<and> err \<noteq> Some ERR_SKIP_TASK then m'\<lparr>m_err := err\<rparr> else m')"

definition m_get :: "monitor \<Rightarrow> int \<Rightarrow> status" where
  "m_get m bid =
     (let (nsucc, nskip, nerr) = m_sum m bid; total = nsucc + nskip + nerr in
      if nerr \<noteq> 0 then STATUS_ERROR
      else if nskip = total then STATUS_SKIP
      else STATUS_OK)"

section \<open>Executing tasks\<close>

record exec_options =
  eo_Concurrency :: int
  eo_SilentMainBar :: bool
  eo_SilentSubBar :: bool
  eo_SkipError :: bool

definition initOptions :: "exec_options \<Rightarrow> exec_options" where
  "initOptions options = (if eo_Concurrency options = 0 then options\<lparr>eo_Concurrency := 10\<rparr> else options)"

definition CountPtid :: "'w task list \<Rightarrow> string \<Rightarrow> int" where
  "CountPtid ts ptid = fold (\<lambda>t sum. if t_ptid t = ptid then sum + 1 else sum) ts 0"

text \<open>
  The state of \<open>Execute\<close>: the positions still to start, the positions of the running workers, the
  parent ids that have a bar, and the monitor.
\<close>

record exec_state =
  es_pending :: "nat list"
  es_running :: "nat list"
  es_subBar :: "string list"
  es_monitor :: monitor

definition addSubBar :: "string \<Rightarrow> string list \<Rightarrow> string list" where
  "addSubBar ptid bars = (if ptid \<in> set bars then bars else bars @ [ptid])"

definition result_id :: "(string \<Rightarrow> int) \<Rightarrow> string list \<Rightarrow> string \<Rightarrow> int" where
  "result_id bar_id bars ptid = (if ptid \<in> set bars then bar_id ptid else 0)"

inductive exec_step ::
  "(nat \<Rightarrow> string) \<Rightarrow> (nat \<Rightarrow> terr option) \<Rightarrow> (string \<Rightarrow> int) \<Rightarrow> exec_options \<Rightarrow> exec_state \<Rightarrow> exec_state \<Rightarrow> bool"
  for ptid outcome bar_id opts
where
  spawn: "es_pending s = i # rest \<Longrightarrow> int (length (es_running s)) < eo_Concurrency opts \<Longrightarrow>
    exec_step ptid outcome bar_id opts s
      (s\<lparr>es_pending := rest, es_running := i # es_running s,
         es_subBar := (if eo_SilentSubBar opts then es_subBar s else addSubBar (ptid i) (es_subBar s))\<rparr>)"
| finish: "i \<in> set (es_running s) \<Longrightarrow>
    exec_step ptid outcome bar_id opts s
      (s\<lparr>es_running := remove1 i (es_running s),
         es_monitor := m_set (result_id bar_id (es_subBar s) (ptid i)) (outcome i) (es_monitor s)\<rparr>)"

definition exec_start :: "nat \<Rightarrow> exec_state" where
  "exec_start n = \<lparr>es_pending = [0..<n], es_running = [], es_subBar = [], es_monitor = newMonitor\<rparr>"

definition exec_final :: "exec_state \<Rightarrow> bool" where
  "exec_final s \<longleftrightarrow> es_pending s = [] \<and> es_running s = []"

text \<open>\<open>setMainBarStatus\<close> visits the bars in the order of the list.\<close>

fun main_bar_loop :: "monitor \<Rightarrow> int \<Rightarrow> (string \<Rightarrow> int) \<Rightarrow> string list \<Rightarrow> int \<Rightarrow> monitor" where
  "main_bar_loop m mid bar_id [] nsucc =
     (if nsucc = 0 then m_set mid (Some ERR_SKIP_TASK) m else m_set mid None m)"
| "main_bar_loop m mid bar_id (b # bars) nsucc =
     (let status = m_get m (bar_id b) in
      if status = STATUS_ERROR then m_set mid (m_err m) m
      else if status = STATUS_OK then main_bar_loop m mid bar_id bars (nsucc + 1)
      else main_bar_loop m mid bar_id bars nsucc)"

definition setMainBarStatus :: "int \<Rightarrow> (string \<Rightarrow> int) \<Rightarrow> string list \<Rightarrow> monitor \<Rightarrow> monitor" where
  "setMainBarStatus mid bar_id bars m = main_bar_loop m mid bar_id bars 0"

text \<open>\<open>Execute\<close>: the error it can return, over all schedules of the workers.\<close>

definition Tasks_Execute ::
  "'w task list \<Rightarrow> (nat \<Rightarrow> terr option) \<Rightarrow> (string \<Rightarrow> int) \<Rightarrow> int \<Rightarrow> exec_options \<Rightarrow> terr option \<Rightarrow> bool" where
  "Tasks_Execute ts outcome bar_id mid options r \<longleftrightarrow>
     (if ts = [] then r = None
      else \<exists>s. (exec_step (\<lambda>i. t_ptid (ts ! i)) outcome bar_id (initOptions options))\<^sup>*\<^sup>* (exec_start (length ts)) s \<and>
             exec_final s \<and>
             r = m_err (if eo_SilentMainBar options then es_monitor s
                        else setMainBarStatus mid bar_id (es_subBar s) (es_monitor s)))"

section \<open>What one task does\<close>

definition failure :: "terr option \<Rightarrow> bool" where
  "failure r \<longleftrightarrow> r \<noteq> None \<and> r \<noteq> Some ERR_SKIP_TASK"

text \<open>The run of a list of steps: those before the first one with an error, and that error.\<close>

fun first_error :: "'w step list \<Rightarrow> 'w \<Rightarrow> terr option" where
  "first_error [] w = None"
| "first_error (s # ss) w = (case s w of (w', None) \<Rightarrow> first_error ss w' | (w', Some e) \<Rightarrow> Some e)"

fun after_steps :: "'w step list \<Rightarrow> 'w \<Rightarrow> 'w" where
  "after_steps [] w = w"
| "after_steps (s # ss) w = (case s w of (w', None) \<Rightarrow> after_steps ss w' | (w', Some e) \<Rightarrow> w')"

lemma run_steps_spec:
  "run_steps ss w =
     (after_steps ss w,
      if first_error ss w \<in> {Some ERR_TASK_DONE, Some ERR_SKIP_TASK} then None else first_error ss w)"
  by (induction ss arbitrary: w) (auto split: prod.splits option.splits)

lemma executePost_spec: "executePost ss w = after_steps ss w"
  by (induction ss arbitrary: w) (auto split: prod.splits option.splits)

text \<open>
  Once connected, a task runs its steps up to the first that gives an error, then its post steps up to
  the first that gives an error, whatever the steps gave.  It succeeds when no step fails or the
  first error is "done" or "skip", and otherwise returns that first error; it never returns "done"
  or "skip" itself.
\<close>

theorem Task_Execute_spec:
  assumes "(case t_ssh t of None \<Rightarrow> (w, True) | Some connect \<Rightarrow> connect w) = (w1, True)"
  shows "fst (Task_Execute t w) = after_steps (t_postSteps t) (after_steps (t_steps t) w1) \<and>
         (snd (Task_Execute t w) = None \<longleftrightarrow>
            first_error (t_steps t) w1 \<in> {None, Some ERR_TASK_DONE, Some ERR_SKIP_TASK}) \<and>
         (snd (Task_Execute t w) \<noteq> None \<longrightarrow> snd (Task_Execute t w) = first_error (t_steps t) w1) \<and>
         snd (Task_Execute t w) \<notin> {Some ERR_TASK_DONE, Some ERR_SKIP_TASK}"
  using assms by (auto simp: Task_Execute_def run_steps_spec executePost_spec)

definition log_step :: "nat \<Rightarrow> terr option \<Rightarrow> nat list step" where
  "log_step n e = (\<lambda>w. (w @ [n], e))"

definition demo_task :: "nat list task" where
  "demo_task = AddPostStep (log_step 9 None) (AddStep (log_step 2 None) (AddStep (log_step 1 (Some ERR_SKIP_TASK))
     (NewTask ''0123456789abcdef'' ''t'' ''s'' None)))"

theorem Task_Execute_spec_witness:
  "Task_Execute demo_task [] = ([1, 9], None)"
proof -
  have c: "(case t_ssh demo_task of None \<Rightarrow> ([], True) | Some connect \<Rightarrow> connect []) = ([], True)"
    by (simp add: demo_task_def AddPostStep_def AddStep_def NewTask_def Let_def)
  note t = Task_Execute_spec [OF c]
  have "t_steps demo_task = [log_step 1 (Some ERR_SKIP_TASK), log_step 2 None]" "t_postSteps demo_task = [log_step 9 None]"
    by (simp_all add: demo_task_def AddPostStep_def AddStep_def NewTask_def Let_def)
  with t show ?thesis by (auto simp: log_step_def intro: prod_eqI)
qed

section \<open>The monitor\<close>

lemma m_results_set [simp]:
  "m_results (m_set bid e m) b = (if b = bid then m_results m b @ [e] else m_results m b)"
  by (simp add: m_results_def m_set_def Let_def)

lemma m_err_set: "m_err (m_set bid e m) = (if failure e then e else m_err m)"
  by (simp add: m_set_def failure_def Let_def)

lemma m_results_new [simp]: "m_results newMonitor b = []"
  by (simp add: m_results_def newMonitor_def)

lemma sum_loop_counts:
  "sum_loop l (a, b, c) =
     (a + int (length (filter (\<lambda>e. e = None) l)), b + int (length (filter (\<lambda>e. e = Some ERR_SKIP_TASK) l)),
      c + int (length (filter failure l)))"
  by (induction l arbitrary: a b c) (auto simp: failure_def)

lemma m_sum_counts:
  "m_sum m bid =
     (let l = m_results m bid in
      (int (length (filter (\<lambda>e. e = None) l)), int (length (filter (\<lambda>e. e = Some ERR_SKIP_TASK) l)),
       int (length (filter failure l))))"
  by (simp add: m_sum_def sum_loop_counts Let_def)

lemma count_total:
  "length (filter (\<lambda>e. e = None) l) + length (filter (\<lambda>e. e = Some ERR_SKIP_TASK) l) + length (filter failure l) = length l"
  by (induction l) (auto simp: failure_def)

text \<open>
  The status of a progress bar is ERROR exactly when a task of it failed, SKIP exactly when no task of it
  did anything but skip (in particular when none has reported), and OK otherwise.
\<close>

theorem m_get_status:
  "m_get m bid =
     (if \<exists>e \<in> set (m_results m bid). failure e then STATUS_ERROR
      else if \<forall>e \<in> set (m_results m bid). e = Some ERR_SKIP_TASK then STATUS_SKIP
      else STATUS_OK)"
proof -
  let ?l = "m_results m bid"
  have "length (filter failure ?l) = 0 \<longleftrightarrow> \<not> (\<exists>e \<in> set ?l. failure e)"
    by (auto simp: filter_empty_conv)
  moreover have "length (filter (\<lambda>e. e = None) ?l) = 0 \<longleftrightarrow> (\<forall>e \<in> set ?l. e \<noteq> None)"
    by (auto simp: filter_empty_conv)
  ultimately show ?thesis
    by (auto simp: m_get_def m_sum_counts Let_def failure_def)
qed

theorem m_get_status_witness:
  "m_get (m_set 3 (Some ERR_SKIP_TASK) (m_set 2 (Some ERR_SKIP_TASK) (m_set 2 None newMonitor))) 2 = STATUS_OK"
  by (simp add: m_get_status failure_def)

section \<open>Every schedule\<close>

text \<open>The bar a task reports to.\<close>

definition task_bar :: "(nat \<Rightarrow> string) \<Rightarrow> (string \<Rightarrow> int) \<Rightarrow> exec_options \<Rightarrow> nat \<Rightarrow> int" where
  "task_bar ptid bar_id opts i = (if eo_SilentSubBar opts then 0 else bar_id (ptid i))"

text \<open>
  The invariant, with the positions that have finished, in order, as a ghost: every position is pending,
  running or finished, the workers are within the limit, the bars are those of the tasks started, and the
  monitor holds exactly the outcomes of the finished tasks.
\<close>

definition exec_inv ::
  "(nat \<Rightarrow> string) \<Rightarrow> (nat \<Rightarrow> terr option) \<Rightarrow> (string \<Rightarrow> int) \<Rightarrow> exec_options \<Rightarrow> nat \<Rightarrow> exec_state \<Rightarrow> nat list \<Rightarrow> bool" where
  "exec_inv ptid outcome bar_id opts n s done \<longleftrightarrow>
     mset (es_pending s) + mset (es_running s) + mset done = mset [0..<n] \<and>
     int (length (es_running s)) \<le> eo_Concurrency opts \<and>
     set (es_subBar s) = (if eo_SilentSubBar opts then {} else ptid ` (set (es_running s) \<union> set done)) \<and>
     (\<forall>b. m_results (es_monitor s) b = map outcome (filter (\<lambda>i. task_bar ptid bar_id opts i = b) done)) \<and>
     m_err (es_monitor s) = (case filter (\<lambda>i. failure (outcome i)) done of [] \<Rightarrow> None | l \<Rightarrow> outcome (last l))"

lemma exec_inv_start: "0 \<le> eo_Concurrency opts \<Longrightarrow> exec_inv ptid outcome bar_id opts n (exec_start n) []"
  by (simp add: exec_inv_def exec_start_def newMonitor_def m_results_def)

lemma exec_inv_step:
  assumes "exec_step ptid outcome bar_id opts s s'" and "exec_inv ptid outcome bar_id opts n s done"
  shows "\<exists>done'. exec_inv ptid outcome bar_id opts n s' done'"
  using assms(1)
proof cases
  case (spawn i rest)
  with assms(2) have "exec_inv ptid outcome bar_id opts n s' done"
    by (auto simp: exec_inv_def addSubBar_def)
  then show ?thesis ..
next
  case (finish i)
  note 2 = finish
  let ?b = "result_id bar_id (es_subBar s) (ptid i)"
  have b: "?b = task_bar ptid bar_id opts i"
    using assms(2) 2(2) by (auto simp: exec_inv_def result_id_def task_bar_def)
  have run: "mset (es_running s) = add_mset i (mset (remove1 i (es_running s)))"
    using 2(2) by simp
  have set_run: "set (es_running s) = insert i (set (remove1 i (es_running s)))"
    using run by (metis set_mset_add_mset_insert set_mset_mset)
  have "exec_inv ptid outcome bar_id opts n s' (done @ [i])"
    unfolding exec_inv_def
  proof (intro conjI allI)
    show "mset (es_pending s') + mset (es_running s') + mset (done @ [i]) = mset [0..<n]"
    proof -
      have "mset (es_pending s) + mset (es_running s) + mset done = mset [0..<n]"
        using assms(2) by (simp add: exec_inv_def)
      then have "mset (es_pending s) + add_mset i (mset (remove1 i (es_running s))) + mset done = mset [0..<n]"
        by (simp only: run)
      then show ?thesis by (simp add: 2(1) del: mset_remove1)
    qed
    show "int (length (es_running s')) \<le> eo_Concurrency opts"
      using assms(2) 2 by (auto simp: exec_inv_def length_remove1)
    show "set (es_subBar s') = (if eo_SilentSubBar opts then {} else ptid ` (set (es_running s') \<union> set (done @ [i])))"
      using assms(2) set_run 2(1) by (auto simp: exec_inv_def)
    show "m_results (es_monitor s') b = map outcome (filter (\<lambda>i. task_bar ptid bar_id opts i = b) (done @ [i]))" for b
      using assms(2) 2(1) b by (auto simp: exec_inv_def)
    show "m_err (es_monitor s') = (case filter (\<lambda>i. failure (outcome i)) (done @ [i]) of [] \<Rightarrow> None | l \<Rightarrow> outcome (last l))"
      using assms(2) 2(1) by (auto simp: exec_inv_def m_err_set split: list.splits)
  qed
  then show ?thesis ..
qed

lemma exec_inv_reachable:
  assumes "(exec_step ptid outcome bar_id opts)\<^sup>*\<^sup>* (exec_start n) s" and "0 \<le> eo_Concurrency opts"
  shows "\<exists>done. exec_inv ptid outcome bar_id opts n s done"
  using assms(1)
proof induction
  case base
  show ?case using exec_inv_start [OF assms(2)] by blast
next
  case (step s s')
  then show ?case using exec_inv_step by blast
qed

lemma exec_inv_final:
  assumes "exec_inv ptid outcome bar_id opts n s done" and "exec_final s"
  shows "mset done = mset [0..<n]" and "set done = {0..<n}"
proof -
  show "mset done = mset [0..<n]" using assms by (simp add: exec_inv_def exec_final_def)
  then show "set done = {0..<n}" by (metis atLeast_upt set_mset_mset atLeast0LessThan)
qed

lemma main_bar_err: "(\<forall>e. m_err m = Some e \<longrightarrow> failure (Some e)) \<Longrightarrow> m_err (main_bar_loop m mid bar_id bars k) = m_err m"
  by (induction bars arbitrary: k) (auto simp: m_err_set failure_def Let_def)

lemma exec_inv_err:
  assumes "exec_inv ptid outcome bar_id opts n s done"
  shows "m_err (es_monitor s) = None \<longleftrightarrow> (\<forall>i \<in> set done. \<not> failure (outcome i))"
    and "m_err (es_monitor s) = Some e \<Longrightarrow> failure (Some e) \<and> (\<exists>i \<in> set done. outcome i = Some e)"
proof -
  have m: "m_err (es_monitor s) = (case filter (\<lambda>i. failure (outcome i)) done of [] \<Rightarrow> None | l \<Rightarrow> outcome (last l))"
    using assms by (simp add: exec_inv_def)
  have l: "last (filter (\<lambda>i. failure (outcome i)) done) \<in> {i \<in> set done. failure (outcome i)}"
    if "filter (\<lambda>i. failure (outcome i)) done \<noteq> []"
    using last_in_set [OF that] by auto
  show "m_err (es_monitor s) = None \<longleftrightarrow> (\<forall>i \<in> set done. \<not> failure (outcome i))"
  proof (cases "filter (\<lambda>i. failure (outcome i)) done")
    case Nil
    then show ?thesis by (simp add: m filter_empty_conv)
  next
    case (Cons a as)
    with l have "last (a # as) \<in> set done \<and> failure (outcome (last (a # as)))" by simp
    with Cons show ?thesis by (auto simp: m failure_def)
  qed
  assume e: "m_err (es_monitor s) = Some e"
  then show "failure (Some e) \<and> (\<exists>i \<in> set done. outcome i = Some e)"
    using m l by (cases "filter (\<lambda>i. failure (outcome i)) done") auto
qed

lemma initOptions_positive: "0 \<le> eo_Concurrency opts \<Longrightarrow> 0 < eo_Concurrency (initOptions opts)"
  by (simp add: initOptions_def)

text \<open>
  C10: whatever the interleaving of the workers, \<open>Execute\<close> reports success exactly when no task failed
  (a skipped task is no failure), and an error it returns is the error of one of the tasks.
\<close>

theorem Execute_result:
  assumes "Tasks_Execute ts outcome bar_id mid options r" and "0 \<le> eo_Concurrency options"
  shows "(r = None \<longleftrightarrow> (\<forall>i < length ts. \<not> failure (outcome i))) \<and>
         (\<forall>e. r = Some e \<longrightarrow> failure (Some e) \<and> (\<exists>i < length ts. outcome i = Some e))"
proof (cases "ts = []")
  case True
  with assms(1) show ?thesis by (simp add: Tasks_Execute_def)
next
  case False
  let ?step = "exec_step (\<lambda>i. t_ptid (ts ! i)) outcome bar_id (initOptions options)"
  from assms(1) False obtain s where s: "?step\<^sup>*\<^sup>* (exec_start (length ts)) s" "exec_final s"
    and r: "r = m_err (if eo_SilentMainBar options then es_monitor s
                        else setMainBarStatus mid bar_id (es_subBar s) (es_monitor s))"
    by (auto simp: Tasks_Execute_def)
  obtain done' where inv: "exec_inv (\<lambda>i. t_ptid (ts ! i)) outcome bar_id (initOptions options) (length ts) s done'"
    using exec_inv_reachable [OF s(1)] initOptions_positive [OF assms(2)] by fastforce
  note d = exec_inv_final(2) [OF inv s(2)] and e = exec_inv_err [OF inv]
  have "r = m_err (es_monitor s)"
    using e(2) by (auto simp: r setMainBarStatus_def intro!: main_bar_err)
  with d e show ?thesis by (auto; blast)
qed

text \<open>The work that is left: two steps for a task to start, one for a running one.\<close>

definition exec_work :: "exec_state \<Rightarrow> nat" where
  "exec_work s = 2 * length (es_pending s) + length (es_running s)"

lemma exec_step_work: "exec_step ptid outcome bar_id opts s s' \<Longrightarrow> exec_work s = Suc (exec_work s')"
proof (induction rule: exec_step.induct)
  case (finish i s)
  then have "0 < length (es_running s)" by (rule length_pos_if_in_set)
  with finish show ?case by (simp add: exec_work_def length_remove1)
qed (simp add: exec_work_def)

lemma exec_step_exists:
  assumes "\<not> exec_final s" and "0 < eo_Concurrency opts"
  shows "\<exists>s'. exec_step ptid outcome bar_id opts s s'"
proof (cases "es_running s")
  case Nil
  with assms obtain i rest where "es_pending s = i # rest" by (cases "es_pending s") (auto simp: exec_final_def)
  with Nil assms(2) show ?thesis by (intro exI) (rule spawn, simp_all)
next
  case (Cons i js)
  then have "i \<in> set (es_running s)" by simp
  then show ?thesis by (blast intro: finish)
qed

lemma exec_reaches_final:
  assumes "0 < eo_Concurrency opts"
  shows "\<exists>s'. (exec_step ptid outcome bar_id opts)\<^sup>*\<^sup>* s s' \<and> exec_final s'"
proof (induction "exec_work s" arbitrary: s rule: less_induct)
  case less
  show ?case
  proof (cases "exec_final s")
    case False
    then obtain t where t: "exec_step ptid outcome bar_id opts s t"
      using exec_step_exists [OF _ assms] by blast
    obtain s' where "(exec_step ptid outcome bar_id opts)\<^sup>*\<^sup>* t s'" "exec_final s'"
      using less [of t] exec_step_work [OF t] by auto
    with t show ?thesis by (blast intro: converse_rtranclp_into_rtranclp)
  qed auto
qed

lemma Execute_exists:
  assumes "0 \<le> eo_Concurrency options"
  shows "\<exists>r. Tasks_Execute ts outcome bar_id mid options r"
proof (cases "ts = []")
  case False
  obtain s where "(exec_step (\<lambda>i. t_ptid (ts ! i)) outcome bar_id (initOptions options))\<^sup>*\<^sup>* (exec_start (length ts)) s"
    "exec_final s"
    using exec_reaches_final [OF initOptions_positive [OF assms]] by blast
  with False show ?thesis unfolding Tasks_Execute_def by (auto simp del: split_paired_Ex)
qed (simp add: Tasks_Execute_def)

text \<open>
  C39: \<open>Execute\<close> never blocks: no reachable state is stuck before all tasks have finished, every
  transition brings the end nearer by one (so a run of n tasks has exactly 2n transitions), at no
  time do more workers run than the limit, and a result always exists.
\<close>

theorem Execute_progress:
  assumes "0 \<le> eo_Concurrency options"
    and "(exec_step ptid outcome bar_id (initOptions options))\<^sup>*\<^sup>* (exec_start n) s"
  shows "(\<not> exec_final s \<longrightarrow> (\<exists>s'. exec_step ptid outcome bar_id (initOptions options) s s')) \<and>
         (\<forall>s'. exec_step ptid outcome bar_id (initOptions options) s s' \<longrightarrow> exec_work s = Suc (exec_work s')) \<and>
         int (length (es_running s)) \<le> eo_Concurrency (initOptions options) \<and>
         (\<exists>r. Tasks_Execute ts outcome' bar_id' mid options r)"
proof (intro conjI impI allI)
  note c = initOptions_positive [OF assms(1)]
  show "\<exists>s'. exec_step ptid outcome bar_id (initOptions options) s s'" if "\<not> exec_final s"
    using exec_step_exists [OF that c] .
  show "exec_work s = Suc (exec_work s')" if "exec_step ptid outcome bar_id (initOptions options) s s'" for s'
    using exec_step_work [OF that] .
  show "int (length (es_running s)) \<le> eo_Concurrency (initOptions options)"
    using exec_inv_reachable [OF assms(2)] c by (auto simp: exec_inv_def)
  show "\<exists>r. Tasks_Execute ts outcome' bar_id' mid options r"
    by (rule Execute_exists [OF assms(1)])
qed

lemma CountPtid_filter: "CountPtid ts p = int (length (filter (\<lambda>t. t_ptid t = p) ts))"
proof -
  have "fold (\<lambda>t sum. if t_ptid t = p then sum + 1 else sum) ts k = k + int (length (filter (\<lambda>t. t_ptid t = p) ts))" for k
    by (induction ts arbitrary: k) auto
  then show ?thesis by (simp add: CountPtid_def)
qed

lemma count_positions: "length (filter (\<lambda>t. P t) ts) = card {i. i < length ts \<and> P (ts ! i)}"
  by (rule length_filter_conv_card)

lemma filter_positions:
  assumes "mset done = mset [0..<n]"
  shows "length (filter P done) = card {i. i < n \<and> P i}"
proof -
  have "mset (filter P done) = mset (filter P [0..<n])" by (simp only: mset_filter assms)
  then have "length (filter P done) = length (filter P [0..<n])" by (metis size_mset)
  also have "\<dots> = card (set (filter P [0..<n]))" by (subst distinct_card) simp_all
  also have "set (filter P [0..<n]) = {i. i < n \<and> P i}" by auto
  finally show ?thesis .
qed

text \<open>
  When all tasks have finished, the counters of the bar of a parent id add up to its number of tasks, and
  its error counter is the number of its tasks that failed; so the bar shows an error exactly when one
  of its own tasks failed.  This needs bars with different ids for different parents.
\<close>

theorem bar_counts:
  assumes "(exec_step (\<lambda>i. t_ptid (ts ! i)) outcome bar_id (initOptions options))\<^sup>*\<^sup>* (exec_start (length ts)) s"
    and "exec_final s" and "0 \<le> eo_Concurrency options" and "\<not> eo_SilentSubBar options"
    and "inj_on bar_id (t_ptid ` set ts)" and "p \<in> t_ptid ` set ts"
  shows "(case m_sum (es_monitor s) (bar_id p) of (nsucc, nskip, nerr) \<Rightarrow>
            nsucc + nskip + nerr = CountPtid ts p \<and>
            nerr = int (card {i. i < length ts \<and> t_ptid (ts ! i) = p \<and> failure (outcome i)}))"
proof -
  let ?ptid = "\<lambda>i. t_ptid (ts ! i)"
  obtain done' where inv: "exec_inv ?ptid outcome bar_id (initOptions options) (length ts) s done'"
    using exec_inv_reachable [OF assms(1)] initOptions_positive [OF assms(3)] by fastforce
  note d = exec_inv_final [OF inv assms(2)]
  have silent: "\<not> eo_SilentSubBar (initOptions options)" using assms(4) by (simp add: initOptions_def)
  have eq: "task_bar ?ptid bar_id (initOptions options) i = bar_id p \<longleftrightarrow> ?ptid i = p" if "i \<in> set done'" for i
    using that d(2) assms(5,6) silent by (auto simp: task_bar_def inj_on_def)
  have l: "m_results (es_monitor s) (bar_id p) = map outcome (filter (\<lambda>i. ?ptid i = p) done')"
    using inv eq by (simp add: exec_inv_def cong: filter_cong)
  have "length (filter failure (m_results (es_monitor s) (bar_id p))) =
      length (filter (\<lambda>i. ?ptid i = p \<and> failure (outcome i)) done')"
    by (simp add: l filter_map o_def conj_commute)
  moreover have "length (m_results (es_monitor s) (bar_id p)) = card {i. i < length ts \<and> ?ptid i = p}"
    using filter_positions [OF d(1)] by (simp add: l)
  ultimately show ?thesis
    using count_total [of "m_results (es_monitor s) (bar_id p)"] filter_positions [OF d(1)]
    by (simp add: m_sum_counts Let_def CountPtid_filter count_positions)
qed

section \<open>A run of two tasks\<close>

definition demo_options :: exec_options where
  "demo_options = \<lparr>eo_Concurrency = 0, eo_SilentMainBar = False, eo_SilentSubBar = False, eo_SkipError = False\<rparr>"

definition demo_outcome :: "nat \<Rightarrow> terr option" where
  "demo_outcome i = (if i = 1 then Some (TErr GoPanic) else None)"

abbreviation demo_exec :: "exec_state \<Rightarrow> exec_state \<Rightarrow> bool" where
  "demo_exec \<equiv> exec_step (\<lambda>i. t_ptid ([demo_task, demo_task] ! i)) demo_outcome (\<lambda>_. 1) (initOptions demo_options)"

lemma demo_options_ok: "0 \<le> eo_Concurrency demo_options" "\<not> eo_SilentSubBar demo_options"
    "0 < eo_Concurrency (initOptions demo_options)"
  by (simp_all add: demo_options_def initOptions_def)

theorem Execute_result_witness:
  "\<exists>r. Tasks_Execute [demo_task, demo_task] demo_outcome (\<lambda>_. 1) 0 demo_options r \<and> r = Some (TErr GoPanic)"
proof -
  obtain r where r: "Tasks_Execute [demo_task, demo_task] demo_outcome (\<lambda>_. 1) 0 demo_options r"
    using Execute_exists [OF demo_options_ok(1)] by blast
  note t = Execute_result [OF r demo_options_ok(1)]
  have "failure (demo_outcome 1)" by (simp add: demo_outcome_def failure_def)
  then have "r \<noteq> None" using t by auto
  moreover have "r = Some e \<Longrightarrow> e = TErr GoPanic" for e
    using t by (auto simp: demo_outcome_def split: if_splits)
  ultimately show ?thesis using r by auto
qed

theorem Execute_progress_witness:
  "(\<exists>s'. demo_exec (exec_start 2) s') \<and> (\<exists>r. Tasks_Execute [demo_task] demo_outcome (\<lambda>_. 1) 0 demo_options r)"
proof -
  have r: "demo_exec\<^sup>*\<^sup>* (exec_start 2) (exec_start 2)" by simp
  show ?thesis
    using Execute_progress [where ts = "[demo_task]" and outcome' = demo_outcome and bar_id' = "\<lambda>_. 1" and mid = 0,
        OF demo_options_ok(1) r]
    by (auto simp: exec_final_def exec_start_def)
qed

theorem bar_counts_witness:
  "\<exists>s. demo_exec\<^sup>*\<^sup>* (exec_start 2) s \<and>
     (case m_sum (es_monitor s) 1 of (nsucc, nskip, nerr) \<Rightarrow> nsucc + nskip + nerr = 2 \<and> nerr = 1)"
proof -
  obtain s where s: "demo_exec\<^sup>*\<^sup>* (exec_start 2) s" "exec_final s"
    using exec_reaches_final [OF demo_options_ok(3)] by blast
  have "{i. i < Suc (Suc 0) \<and> t_ptid ([demo_task, demo_task] ! i) = t_ptid demo_task \<and> failure (demo_outcome i)} = {1}"
    by (auto simp: demo_outcome_def failure_def less_Suc_eq)
  with bar_counts [of "[demo_task, demo_task]" demo_outcome "\<lambda>_. 1" demo_options s "t_ptid demo_task"]
    s demo_options_ok show ?thesis
    by (auto simp: CountPtid_def numeral_2_eq_2)
qed

end
