(* ===== verification/Playbook.thy ===== *)
theory Playbook
  imports Topology Hosts Tasks
begin

text \<open>
  Playbooks: \<open>internal/playbook/configs.go\<close>, \<open>factory.go\<close> and \<open>playbook.go\<close>.

  A playbook is a list of steps; each step names a kind of task and a list of configurations, from
  which \<open>createTasks\<close> makes one task per configuration that needs one; \<open>run\<close> creates and executes
  the steps in order.  The task constructors themselves (\<open>internal/task/task\<close>) are the argument
  \<open>construct\<close>: by name and configuration it gives a task, nothing (the constructor returned nil),
  or an error.  The storage that options are written to is an association list.
\<close>

section \<open>Kinds of steps\<close>

abbreviation CHECK_TOPOLOGY :: int where "CHECK_TOPOLOGY \<equiv> 0"
abbreviation CHECK_SSH_CONNECT :: int where "CHECK_SSH_CONNECT \<equiv> 1"
abbreviation CHECK_PERMISSION :: int where "CHECK_PERMISSION \<equiv> 2"
abbreviation CHECK_KERNEL_VERSION :: int where "CHECK_KERNEL_VERSION \<equiv> 3"
abbreviation CHECK_KERNEL_MODULE :: int where "CHECK_KERNEL_MODULE \<equiv> 4"
abbreviation CHECK_PORT_IN_USE :: int where "CHECK_PORT_IN_USE \<equiv> 5"
abbreviation CHECK_DESTINATION_REACHABLE :: int where "CHECK_DESTINATION_REACHABLE \<equiv> 6"
abbreviation START_HTTP_SERVER :: int where "START_HTTP_SERVER \<equiv> 7"
abbreviation CHECK_NETWORK_FIREWALL :: int where "CHECK_NETWORK_FIREWALL \<equiv> 8"
abbreviation GET_HOST_DATE :: int where "GET_HOST_DATE \<equiv> 9"
abbreviation CHECK_HOST_DATE :: int where "CHECK_HOST_DATE \<equiv> 10"
abbreviation CHECK_S3 :: int where "CHECK_S3 \<equiv> 11"
abbreviation CLEAN_PRECHECK_ENVIRONMENT :: int where "CLEAN_PRECHECK_ENVIRONMENT \<equiv> 12"
abbreviation PULL_IMAGE :: int where "PULL_IMAGE \<equiv> 13"
abbreviation CREATE_CONTAINER :: int where "CREATE_CONTAINER \<equiv> 14"
abbreviation CREATE_MDSV2_CLI_CONTAINER :: int where "CREATE_MDSV2_CLI_CONTAINER \<equiv> 15"
abbreviation SYNC_CONFIG :: int where "SYNC_CONFIG \<equiv> 16"
abbreviation START_SERVICE :: int where "START_SERVICE \<equiv> 17"
abbreviation START_ETCD :: int where "START_ETCD \<equiv> 18"
abbreviation START_MDS :: int where "START_MDS \<equiv> 19"
abbreviation START_CHUNKSERVER :: int where "START_CHUNKSERVER \<equiv> 20"
abbreviation START_SNAPSHOTCLONE :: int where "START_SNAPSHOTCLONE \<equiv> 21"
abbreviation START_METASERVER :: int where "START_METASERVER \<equiv> 22"
abbreviation START_FS_MDS :: int where "START_FS_MDS \<equiv> 23"
abbreviation START_COORDINATOR :: int where "START_COORDINATOR \<equiv> 24"
abbreviation START_STORE :: int where "START_STORE \<equiv> 25"
abbreviation START_MDSV2_CLI_CONTAINER :: int where "START_MDSV2_CLI_CONTAINER \<equiv> 26"
abbreviation START_DINGODB_EXECUTOR :: int where "START_DINGODB_EXECUTOR \<equiv> 27"
abbreviation STOP_SERVICE :: int where "STOP_SERVICE \<equiv> 28"
abbreviation RESTART_SERVICE :: int where "RESTART_SERVICE \<equiv> 29"
abbreviation CREATE_META_TABLES :: int where "CREATE_META_TABLES \<equiv> 30"
abbreviation INIT_SERVIE_STATUS :: int where "INIT_SERVIE_STATUS \<equiv> 31"
abbreviation GET_SERVICE_STATUS :: int where "GET_SERVICE_STATUS \<equiv> 32"
abbreviation CLEAN_SERVICE :: int where "CLEAN_SERVICE \<equiv> 33"
abbreviation BACKUP_ETCD_DATA :: int where "BACKUP_ETCD_DATA \<equiv> 34"
abbreviation CHECK_MDS_ADDRESS :: int where "CHECK_MDS_ADDRESS \<equiv> 35"
abbreviation CHECK_STORE_HEALTH :: int where "CHECK_STORE_HEALTH \<equiv> 36"
abbreviation INIT_CLIENT_STATUS :: int where "INIT_CLIENT_STATUS \<equiv> 37"
abbreviation GET_CLIENT_STATUS :: int where "GET_CLIENT_STATUS \<equiv> 38"
abbreviation START_DINGODB_DOCUMENT :: int where "START_DINGODB_DOCUMENT \<equiv> 39"
abbreviation START_DINGODB_INDEX :: int where "START_DINGODB_INDEX \<equiv> 40"
abbreviation START_DINGODB_DISKANN :: int where "START_DINGODB_DISKANN \<equiv> 41"
abbreviation START_DINGODB_PROXY :: int where "START_DINGODB_PROXY \<equiv> 42"
abbreviation START_DINGODB_WEB :: int where "START_DINGODB_WEB \<equiv> 43"
abbreviation FORMAT_CHUNKFILE_POOL :: int where "FORMAT_CHUNKFILE_POOL \<equiv> 44"
abbreviation GET_FORMAT_STATUS :: int where "GET_FORMAT_STATUS \<equiv> 45"
abbreviation STOP_FORMAT :: int where "STOP_FORMAT \<equiv> 46"
abbreviation BALANCE_LEADER :: int where "BALANCE_LEADER \<equiv> 47"
abbreviation START_NEBD_SERVICE :: int where "START_NEBD_SERVICE \<equiv> 48"
abbreviation CREATE_VOLUME :: int where "CREATE_VOLUME \<equiv> 49"
abbreviation MAP_IMAGE :: int where "MAP_IMAGE \<equiv> 50"
abbreviation UNMAP_IMAGE :: int where "UNMAP_IMAGE \<equiv> 51"
abbreviation PULL_MONITOR_IMAGE :: int where "PULL_MONITOR_IMAGE \<equiv> 52"
abbreviation CREATE_MONITOR_CONTAINER :: int where "CREATE_MONITOR_CONTAINER \<equiv> 53"
abbreviation SYNC_MONITOR_ORIGIN_CONFIG :: int where "SYNC_MONITOR_ORIGIN_CONFIG \<equiv> 54"
abbreviation SYNC_MONITOR_ALT_CONFIG :: int where "SYNC_MONITOR_ALT_CONFIG \<equiv> 55"
abbreviation SYNC_HOSTS_MAPPING :: int where "SYNC_HOSTS_MAPPING \<equiv> 56"
abbreviation CLEAN_CONFIG_CONTAINER :: int where "CLEAN_CONFIG_CONTAINER \<equiv> 57"
abbreviation START_MONITOR_SERVICE :: int where "START_MONITOR_SERVICE \<equiv> 58"
abbreviation RESTART_MONITOR_SERVICE :: int where "RESTART_MONITOR_SERVICE \<equiv> 59"
abbreviation STOP_MONITOR_SERVICE :: int where "STOP_MONITOR_SERVICE \<equiv> 60"
abbreviation INIT_MONITOR_STATUS :: int where "INIT_MONITOR_STATUS \<equiv> 61"
abbreviation GET_MONITOR_STATUS :: int where "GET_MONITOR_STATUS \<equiv> 62"
abbreviation CLEAN_MONITOR_SERVICE :: int where "CLEAN_MONITOR_SERVICE \<equiv> 63"
abbreviation SYNC_GRAFANA_DASHBOARD :: int where "SYNC_GRAFANA_DASHBOARD \<equiv> 64"
abbreviation CHECK_CLIENT_S3 :: int where "CHECK_CLIENT_S3 \<equiv> 65"
abbreviation CREATE_DINGOFS :: int where "CREATE_DINGOFS \<equiv> 66"
abbreviation MOUNT_FILESYSTEM :: int where "MOUNT_FILESYSTEM \<equiv> 67"
abbreviation UMOUNT_FILESYSTEM :: int where "UMOUNT_FILESYSTEM \<equiv> 68"
abbreviation CREATE_PLAYGROUND :: int where "CREATE_PLAYGROUND \<equiv> 69"
abbreviation INIT_PLAYGROUND :: int where "INIT_PLAYGROUND \<equiv> 70"
abbreviation START_PLAYGROUND :: int where "START_PLAYGROUND \<equiv> 71"
abbreviation REMOVE_PLAYGROUND :: int where "REMOVE_PLAYGROUND \<equiv> 72"
abbreviation GET_PLAYGROUND_STATUS :: int where "GET_PLAYGROUND_STATUS \<equiv> 73"
abbreviation SYNC_JAVA_OPTS :: int where "SYNC_JAVA_OPTS \<equiv> 74"
abbreviation UNKNOWN :: int where "UNKNOWN \<equiv> 75"

section \<open>Configurations\<close>

record monitor_config =
  mc_kind :: string
  mc_id :: string
  mc_role :: string
  mc_host :: string
  mc_hostSequence :: int
  mc_config :: gmap
  mc_variables :: "variables option"
  mc_ctx :: ctx_map
  mc_order :: int

abbreviation ROLE_GRAFANA :: string where "ROLE_GRAFANA \<equiv> ''grafana''"
abbreviation ROLE_MONITOR_SYNC :: string where "ROLE_MONITOR_SYNC \<equiv> ''monitor_sync''"

text \<open>The dynamic types a step's configurations can have; \<open>'cc\<close> is the type of client configurations.\<close>

datatype 'cc configs =
    HostConfigs "host_config list"
  | DeployConfigs "deploy_config list"
  | ClientConfigs "'cc list"
  | MonitorConfigs "monitor_config list"
  | AnyConfigs "gval list"
  | OneHost host_config
  | OneDeploy deploy_config
  | OneClient 'cc
  | OneMonitor monitor_config
  | NilConfigs
  | OtherConfigs

datatype ctype =
    TYPE_CONFIG_HOST | TYPE_CONFIG_FORMAT | TYPE_CONFIG_DEPLOY | TYPE_CONFIG_CLIENT | TYPE_CONFIG_PLAYGROUND
  | TYPE_CONFIG_MONITOR | TYPE_CONFIG_GATEWAY | TYPE_CONFIG_ANY | TYPE_CONFIG_NULL

record 'cc smart_config =
  sc_ctype :: ctype
  sc_len :: int
  sc_hcs :: "host_config list"
  sc_dcs :: "deploy_config list"
  sc_ccs :: "'cc list"
  sc_mcs :: "monitor_config list"
  sc_anys :: "gval list"

definition empty_smart_config :: "'cc smart_config" where
  "empty_smart_config =
     \<lparr>sc_ctype = TYPE_CONFIG_NULL, sc_len = 0, sc_hcs = [], sc_dcs = [], sc_ccs = [], sc_mcs = [], sc_anys = []\<rparr>"

text \<open>\<open>sort.Slice\<close> by order is the argument \<open>sorter\<close>: it leaves the order of equal elements open.\<close>

definition NewSmartConfig ::
  "(monitor_config list \<Rightarrow> monitor_config list) \<Rightarrow> 'cc configs \<Rightarrow> 'cc smart_config res" where
  "NewSmartConfig sorter configs =
     (let c = empty_smart_config in
      case configs of
        HostConfigs l \<Rightarrow> Inr (c\<lparr>sc_ctype := TYPE_CONFIG_HOST, sc_hcs := l, sc_len := int (length l)\<rparr>)
      | DeployConfigs l \<Rightarrow> Inr (c\<lparr>sc_ctype := TYPE_CONFIG_DEPLOY, sc_dcs := l, sc_len := int (length l)\<rparr>)
      | ClientConfigs l \<Rightarrow> Inr (c\<lparr>sc_ctype := TYPE_CONFIG_CLIENT, sc_ccs := l, sc_len := int (length l)\<rparr>)
      | MonitorConfigs l \<Rightarrow>
          (let l' = sorter l in
           Inr (c\<lparr>sc_ctype := TYPE_CONFIG_MONITOR, sc_mcs := l', sc_len := int (length l')\<rparr>))
      | AnyConfigs l \<Rightarrow> Inr (c\<lparr>sc_ctype := TYPE_CONFIG_ANY, sc_anys := l, sc_len := int (length l)\<rparr>)
      | OneHost x \<Rightarrow> Inr (c\<lparr>sc_ctype := TYPE_CONFIG_HOST, sc_hcs := [x], sc_len := 1\<rparr>)
      | OneDeploy x \<Rightarrow> Inr (c\<lparr>sc_ctype := TYPE_CONFIG_DEPLOY, sc_dcs := [x], sc_len := 1\<rparr>)
      | OneClient x \<Rightarrow> Inr (c\<lparr>sc_ctype := TYPE_CONFIG_CLIENT, sc_ccs := [x], sc_len := 1\<rparr>)
      | OneMonitor x \<Rightarrow> Inr (c\<lparr>sc_ctype := TYPE_CONFIG_MONITOR, sc_mcs := [x], sc_len := 1\<rparr>)
      | NilConfigs \<Rightarrow> Inr (c\<lparr>sc_ctype := TYPE_CONFIG_NULL, sc_len := 1\<rparr>)
      | OtherConfigs \<Rightarrow> Inl (Ec ERR_UNSUPPORT_CONFIG_TYPE))"

definition GetHC :: "'cc smart_config \<Rightarrow> int \<Rightarrow> host_config option" where
  "GetHC c index =
     (if index < 0 \<or> index \<ge> sc_len c \<or> sc_ctype c \<noteq> TYPE_CONFIG_HOST then None else Some (sc_hcs c ! nat index))"

definition GetDC :: "'cc smart_config \<Rightarrow> int \<Rightarrow> deploy_config option" where
  "GetDC c index =
     (if index < 0 \<or> index \<ge> sc_len c \<or> sc_ctype c \<noteq> TYPE_CONFIG_DEPLOY then None else Some (sc_dcs c ! nat index))"

definition GetCC :: "'cc smart_config \<Rightarrow> int \<Rightarrow> 'cc option" where
  "GetCC c index =
     (if index < 0 \<or> index \<ge> sc_len c \<or> sc_ctype c \<noteq> TYPE_CONFIG_CLIENT then None else Some (sc_ccs c ! nat index))"

definition GetMC :: "'cc smart_config \<Rightarrow> int \<Rightarrow> monitor_config option" where
  "GetMC c index =
     (if index < 0 \<or> index \<ge> sc_len c \<or> sc_ctype c \<noteq> TYPE_CONFIG_MONITOR then None else Some (sc_mcs c ! nat index))"

definition GetAny :: "'cc smart_config \<Rightarrow> int \<Rightarrow> gval" where
  "GetAny c index =
     (if index < 0 \<or> index \<ge> sc_len c \<or> sc_ctype c \<noteq> TYPE_CONFIG_ANY then GNil else sc_anys c ! nat index)"

section \<open>Creating tasks\<close>

datatype selector = SelNil | SelDC | SelCC | SelMC | SelAny

datatype 'cc target = TgtNil | TgtDC "deploy_config option" | TgtCC "'cc option" | TgtMC "monitor_config option" | TgtAny gval

definition select :: "selector \<Rightarrow> 'cc smart_config \<Rightarrow> int \<Rightarrow> 'cc target" where
  "select sel c i =
     (case sel of
        SelNil \<Rightarrow> TgtNil
      | SelDC \<Rightarrow> TgtDC (GetDC c i)
      | SelCC \<Rightarrow> TgtCC (GetCC c i)
      | SelMC \<Rightarrow> TgtMC (GetMC c i)
      | SelAny \<Rightarrow> TgtAny (GetAny c i))"

text \<open>The second switch: the constructor of each kind of step and what it is given.\<close>

definition constructors :: "(int \<times> string \<times> selector) list" where
  "constructors =
     [(CHECK_TOPOLOGY, ''checker.NewCheckTopologyTask'', SelNil),
      (CHECK_SSH_CONNECT, ''checker.NewCheckSSHConnectTask'', SelDC),
      (CHECK_PERMISSION, ''checker.NewCheckPermissionTask'', SelDC),
      (CHECK_KERNEL_VERSION, ''checker.NewCheckKernelVersionTask'', SelDC),
      (CHECK_KERNEL_MODULE, ''checker.NewCheckKernelModuleTask'', SelCC),
      (CHECK_PORT_IN_USE, ''checker.NewCheckPortInUseTask'', SelDC),
      (CHECK_DESTINATION_REACHABLE, ''checker.NewCheckDestinationReachableTask'', SelDC),
      (START_HTTP_SERVER, ''checker.NewStartHTTPServerTask'', SelDC),
      (CHECK_NETWORK_FIREWALL, ''checker.NewCheckNetworkFirewallTask'', SelDC),
      (GET_HOST_DATE, ''checker.NewGetHostDate'', SelDC),
      (CHECK_HOST_DATE, ''checker.NewCheckDate'', SelNil),
      (CHECK_S3, ''checker.NewCheckS3Task'', SelDC),
      (CHECK_MDS_ADDRESS, ''checker.NewCheckMdsAddressTask'', SelCC),
      (CHECK_STORE_HEALTH, ''comm.NewCheckStoreHealthTask'', SelDC),
      (CLEAN_PRECHECK_ENVIRONMENT, ''checker.NewCleanEnvironmentTask'', SelDC),
      (PULL_IMAGE, ''comm.NewPullImageTask'', SelDC),
      (CREATE_CONTAINER, ''comm.NewCreateContainerTask'', SelDC),
      (CREATE_MDSV2_CLI_CONTAINER, ''comm.NewCreateMdsv2CliContainerTask'', SelDC),
      (SYNC_CONFIG, ''comm.NewSyncConfigTask'', SelDC),
      (START_SERVICE, ''comm.NewStartServiceTask'', SelDC),
      (START_ETCD, ''comm.NewStartServiceTask'', SelDC),
      (START_MDS, ''comm.NewStartServiceTask'', SelDC),
      (START_CHUNKSERVER, ''comm.NewStartServiceTask'', SelDC),
      (START_SNAPSHOTCLONE, ''comm.NewStartServiceTask'', SelDC),
      (START_METASERVER, ''comm.NewStartServiceTask'', SelDC),
      (START_FS_MDS, ''comm.NewStartServiceTask'', SelDC),
      (START_COORDINATOR, ''comm.NewStartServiceTask'', SelDC),
      (START_STORE, ''comm.NewStartServiceTask'', SelDC),
      (START_DINGODB_DOCUMENT, ''comm.NewStartServiceTask'', SelDC),
      (START_DINGODB_INDEX, ''comm.NewStartServiceTask'', SelDC),
      (START_DINGODB_DISKANN, ''comm.NewStartServiceTask'', SelDC),
      (START_MDSV2_CLI_CONTAINER, ''comm.NewStartServiceTask'', SelDC),
      (START_DINGODB_EXECUTOR, ''comm.NewStartServiceTask'', SelDC),
      (START_DINGODB_PROXY, ''comm.NewStartServiceTask'', SelDC),
      (START_DINGODB_WEB, ''comm.NewStartServiceTask'', SelDC),
      (STOP_SERVICE, ''comm.NewStopServiceTask'', SelDC),
      (RESTART_SERVICE, ''comm.NewRestartServiceTask'', SelDC),
      (CREATE_META_TABLES, ''comm.NewCreateMetaTablesTask'', SelDC),
      (INIT_SERVIE_STATUS, ''comm.NewInitServiceStatusTask'', SelDC),
      (GET_SERVICE_STATUS, ''comm.NewGetServiceStatusTask'', SelDC),
      (CLEAN_SERVICE, ''comm.NewCleanServiceTask'', SelDC),
      (INIT_CLIENT_STATUS, ''comm.NewInitClientStatusTask'', SelAny),
      (GET_CLIENT_STATUS, ''comm.NewGetClientStatusTask'', SelAny),
      (CHECK_CLIENT_S3, ''checker.NewClientS3ConfigureTask'', SelCC),
      (PULL_MONITOR_IMAGE, ''monitor.NewPullImageTask'', SelMC),
      (CREATE_MONITOR_CONTAINER, ''monitor.NewCreateContainerTask'', SelMC),
      (SYNC_MONITOR_ORIGIN_CONFIG, ''monitor.NewSyncConfigTask'', SelMC),
      (SYNC_MONITOR_ALT_CONFIG, ''monitor.NewSyncConfigTask'', SelMC),
      (SYNC_HOSTS_MAPPING, ''monitor.NewSyncHostsMappingTask'', SelMC),
      (CLEAN_CONFIG_CONTAINER, ''monitor.NewCleanConfigContainerTask'', SelMC),
      (START_MONITOR_SERVICE, ''monitor.NewStartServiceTask'', SelMC),
      (RESTART_MONITOR_SERVICE, ''monitor.NewRestartServiceTask'', SelMC),
      (STOP_MONITOR_SERVICE, ''monitor.NewStopServiceTask'', SelMC),
      (INIT_MONITOR_STATUS, ''monitor.NewInitMonitorStatusTask'', SelMC),
      (GET_MONITOR_STATUS, ''monitor.NewGetMonitorStatusTask'', SelMC),
      (CLEAN_MONITOR_SERVICE, ''monitor.NewCleanMonitorTask'', SelMC),
      (SYNC_JAVA_OPTS, ''comm.NewSyncJavaOptsTask'', SelDC),
      (SYNC_GRAFANA_DASHBOARD, ''monitor.NewSyncGrafanaDashboardTask'', SelMC)]"

text \<open>Fields of a configuration behind a pointer that may be nil.\<close>

definition dc_of :: "'cc smart_config \<Rightarrow> int \<Rightarrow> deploy_config res" where
  "dc_of c i = (case GetDC c i of None \<Rightarrow> Inl GoPanic | Some dc \<Rightarrow> Inr dc)"

definition mc_of :: "'cc smart_config \<Rightarrow> int \<Rightarrow> monitor_config res" where
  "mc_of c i = (case GetMC c i of None \<Rightarrow> Inl GoPanic | Some mc \<Rightarrow> Inr mc)"

text \<open>The first switch: \<open>None\<close> when the turn is left with \<open>continue\<close>, otherwise the updated map \<open>once\<close>.\<close>

definition once_per_host :: "int \<Rightarrow> 'cc smart_config \<Rightarrow> int \<Rightarrow> bmap \<Rightarrow> bmap option res" where
  "once_per_host ty c i once =
     (if ty = CHECK_SSH_CONNECT \<or> ty = GET_HOST_DATE then
        bindR (dc_of c i) (\<lambda>dc.
          Inr (if bget once (dc_host dc) then None else Some (AList.update (dc_host dc) True once)))
      else if ty = PULL_IMAGE then
        bindR (dc_of c i) (\<lambda>dc.
        bindR (GetContainerImage dc) (\<lambda>image.
          let key = dc_host dc @ ''_'' @ image in
          Inr (if bget once key then None else Some (AList.update key True once))))
      else if ty = SYNC_MONITOR_ORIGIN_CONFIG then
        bindR (mc_of c i) (\<lambda>mc. Inr (if mc_role mc \<noteq> ROLE_MONITOR_SYNC then None else Some once))
      else if ty = SYNC_MONITOR_ALT_CONFIG then
        bindR (mc_of c i) (\<lambda>mc. Inr (if mc_role mc = ROLE_MONITOR_SYNC then None else Some once))
      else if ty = SYNC_GRAFANA_DASHBOARD then
        bindR (mc_of c i) (\<lambda>mc. Inr (if mc_role mc \<noteq> ROLE_GRAFANA then None else Some once))
      else Inr (Some once))"

definition skips_mds_cli :: "int list" where
  "skips_mds_cli =
     [CHECK_PERMISSION, CHECK_PORT_IN_USE, CHECK_DESTINATION_REACHABLE, START_HTTP_SERVER, CLEAN_PRECHECK_ENVIRONMENT]"

definition new_task ::
  "(string \<Rightarrow> 'cc target \<Rightarrow> 'w task option res) \<Rightarrow> int \<Rightarrow> 'cc smart_config \<Rightarrow> int \<Rightarrow> 'w task option res" where
  "new_task construct ty c i =
     (case map_of constructors ty of
        None \<Rightarrow> Inl (Ec ERR_UNKNOWN_TASK_TYPE)
      | Some (name, sel) \<Rightarrow>
          bindR (if ty \<in> set skips_mds_cli then
                   bindR (dc_of c i) (\<lambda>dc. Inr (dc_role dc = ROLE_FS_MDS_CLI))
                 else Inr False)
            (\<lambda>leave. if leave then Inr None else construct name (select sel c i)))"

text \<open>The last part of a turn: the ids of a task for a service.\<close>

definition merge_ids :: "'cc smart_config \<Rightarrow> int \<Rightarrow> 'w task \<Rightarrow> 'w task res" where
  "merge_ids c i t =
     (if sc_ctype c = TYPE_CONFIG_DEPLOY then
        bindR (dc_of c i) (\<lambda>dc. Inr (SetPtid (dc_parentId dc) (SetTid (dc_id dc) t)))
      else Inr t)"

fun create_loop ::
  "(string \<Rightarrow> 'cc target \<Rightarrow> 'w task option res) \<Rightarrow> int \<Rightarrow> 'cc smart_config \<Rightarrow> int list \<Rightarrow> bmap \<Rightarrow> 'w task list res" where
  "create_loop construct ty c [] once = Inr []"
| "create_loop construct ty c (i # is) once =
     bindR (once_per_host ty c i once) (\<lambda>o1.
       case o1 of
         None \<Rightarrow> create_loop construct ty c is once
       | Some once' \<Rightarrow>
           bindR (new_task construct ty c i) (\<lambda>t.
             case t of
               None \<Rightarrow> create_loop construct ty c is once'
             | Some t \<Rightarrow>
                 bindR (merge_ids c i t) (\<lambda>t'.
                 bindR (create_loop construct ty c is once') (\<lambda>ts. Inr (t' # ts)))))"

text \<open>Options are values of any type; besides the values of configurations, lists of services and of strings occur.\<close>

datatype optval = OVal gval | ODeploys "deploy_config list" | OStrs "string list"

type_synonym omap = "(string \<times> optval) list"

record 'cc playbook_step =
  ps_Name :: string
  ps_Type :: int
  ps_Configs :: "'cc configs"
  ps_Options :: omap
  ps_ExecOptions :: exec_options

definition set_options :: "omap \<Rightarrow> omap \<Rightarrow> omap" where
  "set_options options mem = fold (\<lambda>(k, v) m. AList.update k v m) options mem"

definition createTasks ::
  "(monitor_config list \<Rightarrow> monitor_config list) \<Rightarrow> (omap \<Rightarrow> string \<Rightarrow> 'cc target \<Rightarrow> 'w task option res) \<Rightarrow>
   'cc playbook_step \<Rightarrow> omap \<Rightarrow> omap \<times> 'w task list res" where
  "createTasks sorter construct step mem =
     (case NewSmartConfig sorter (ps_Configs step) of
        Inl e \<Rightarrow> (mem, Inl e)
      | Inr c \<Rightarrow>
          (let mem' = set_options (ps_Options step) mem in
           (mem', create_loop (construct mem') (ps_Type step) c [0..sc_len c - 1] [])))"

section \<open>Running\<close>

record 'cc playbook =
  pb_steps :: "'cc playbook_step list"
  pb_postSteps :: "'cc playbook_step list"

definition NewPlaybook :: "'cc playbook" where
  "NewPlaybook = \<lparr>pb_steps = [], pb_postSteps = []\<rparr>"

definition pb_AddStep :: "'cc playbook_step \<Rightarrow> 'cc playbook \<Rightarrow> 'cc playbook" where
  "pb_AddStep s p = p\<lparr>pb_steps := pb_steps p @ [s]\<rparr>"

definition pb_AddPostStep :: "'cc playbook_step \<Rightarrow> 'cc playbook \<Rightarrow> 'cc playbook" where
  "pb_AddPostStep s p = p\<lparr>pb_postSteps := pb_postSteps p @ [s]\<rparr>"

text \<open>
  The arguments \<open>create\<close> and \<open>exec\<close> are \<open>createTasks\<close> and \<open>Tasks.Execute\<close> on the state \<open>'s\<close> of the process.
  A panic is not an error value: nothing of the loop or of the caller ignores it.
\<close>

abbreviation panicked :: "terr option \<Rightarrow> bool" where
  "panicked r \<equiv> r = Some (TErr GoPanic)"

fun pb_run ::
  "('cc playbook_step \<Rightarrow> 's \<Rightarrow> 's \<times> 't res) \<Rightarrow> ('t \<Rightarrow> exec_options \<Rightarrow> 's \<Rightarrow> 's \<times> terr option) \<Rightarrow>
   'cc playbook_step list \<Rightarrow> 's \<Rightarrow> 's \<times> terr option" where
  "pb_run create exec [] s = (s, None)"
| "pb_run create exec (step # steps) s =
     (case create step s of
        (s1, Inl e) \<Rightarrow> (s1, Some (TErr e))
      | (s1, Inr ts) \<Rightarrow>
          (case exec ts (ps_ExecOptions step) s1 of
             (s2, err) \<Rightarrow>
               if panicked err \<or> err \<noteq> None \<and> ps_Type step \<noteq> CHECK_PORT_IN_USE then (s2, err)
               else pb_run create exec steps s2))"

definition pb_Run ::
  "('cc playbook_step \<Rightarrow> 's \<Rightarrow> 's \<times> 't res) \<Rightarrow> ('t \<Rightarrow> exec_options \<Rightarrow> 's \<Rightarrow> 's \<times> terr option) \<Rightarrow>
   'cc playbook \<Rightarrow> 's \<Rightarrow> 's \<times> terr option" where
  "pb_Run create exec p s =
     (let (s1, err) = pb_run create exec (pb_steps p) s in
      if length (pb_postSteps p) = 0 then (s1, err)
      else let (s2, err') = pb_run create exec (pb_postSteps p) s1 in (s2, if panicked err' then err' else err))"

section \<open>Which tasks a step gives\<close>

text \<open>One turn of the loop for the services of a deployment, without the kinds that visit each host once.\<close>

definition plain_kind :: "int \<Rightarrow> bool" where
  "plain_kind ty \<longleftrightarrow>
     ty \<notin> {CHECK_SSH_CONNECT, GET_HOST_DATE, PULL_IMAGE, SYNC_MONITOR_ORIGIN_CONFIG, SYNC_MONITOR_ALT_CONFIG,
            SYNC_GRAFANA_DASHBOARD}"

definition deploy_smart :: "deploy_config list \<Rightarrow> 'cc smart_config" where
  "deploy_smart dcs =
     empty_smart_config\<lparr>sc_ctype := TYPE_CONFIG_DEPLOY, sc_dcs := dcs, sc_len := int (length dcs)\<rparr>"

lemma NewSmartConfig_deploy: "NewSmartConfig sorter (DeployConfigs dcs) = Inr (deploy_smart dcs)"
  by (simp add: NewSmartConfig_def deploy_smart_def)

lemma deploy_smart_sel [simp]:
  "sc_ctype (deploy_smart dcs) = TYPE_CONFIG_DEPLOY" "sc_len (deploy_smart dcs) = int (length dcs)"
  "i < length dcs \<Longrightarrow> GetDC (deploy_smart dcs) (int i) = Some (dcs ! i)"
  by (simp_all add: deploy_smart_def empty_smart_config_def GetDC_def)

lemma dc_of_deploy [simp]: "i < length dcs \<Longrightarrow> dc_of (deploy_smart dcs) (int i) = Inr (dcs ! i)"
  by (simp add: dc_of_def)

lemma upto_upt: "[0..int n - 1] = map int [0..<n]"
proof (induction n)
  case (Suc n)
  have "[0..int n] = [0..int n - 1] @ [int n]" by (simp add: upto_rec2)
  with Suc show ?case by simp
qed simp

text \<open>The task of a service with the ids of the service.\<close>

definition service_task :: "(deploy_config \<Rightarrow> 'w task) \<Rightarrow> deploy_config \<Rightarrow> 'w task" where
  "service_task mk dc = SetPtid (dc_parentId dc) (SetTid (dc_id dc) (mk dc))"

lemma merge_ids_deploy [simp]:
  "i < length dcs \<Longrightarrow> merge_ids (deploy_smart dcs) (int i) (mk (dcs ! i)) = Inr (service_task mk (dcs ! i))"
  by (simp add: merge_ids_def service_task_def)

lemma new_task_deploy:
  assumes "map_of constructors ty = Some (name, SelDC)" and "construct name (TgtDC (Some (dcs ! i))) = Inr (Some t)"
    and "i < length dcs"
  shows "new_task construct ty (deploy_smart dcs) (int i) =
           Inr (if ty \<in> set skips_mds_cli \<and> dc_role (dcs ! i) = ROLE_FS_MDS_CLI then None else Some t)"
  using assms by (simp add: new_task_def select_def)

lemma create_plain:
  assumes "map_of constructors ty = Some (name, SelDC)" and "plain_kind ty"
    and "\<forall>dc \<in> set dcs. construct name (TgtDC (Some dc)) = Inr (Some (mk dc))"
    and "set is \<subseteq> {0..<length dcs}"
  shows "create_loop construct ty (deploy_smart dcs) (map int is) once =
    Inr (map (service_task mk) (filter (\<lambda>dc. \<not> (ty \<in> set skips_mds_cli \<and> dc_role dc = ROLE_FS_MDS_CLI))
           (map ((!) dcs) is)))"
  using assms(4)
proof (induction "is" arbitrary: once)
  case (Cons i "is")
  then have i: "i < length dcs" by simp
  have "construct name (TgtDC (Some (dcs ! i))) = Inr (Some (mk (dcs ! i)))" using assms(3) i by simp
  note nt = new_task_deploy [where construct = construct and dcs = dcs, OF assms(1) this i]
  have o1: "once_per_host ty (deploy_smart dcs) (int i) once = Inr (Some once)"
    using assms(2) by (simp add: once_per_host_def plain_kind_def)
  show ?case using Cons.IH Cons.prems i by (auto simp: nt o1)
qed simp


text \<open>Visiting each host once.\<close>

definition first_of_host :: "deploy_config list \<Rightarrow> nat \<Rightarrow> bool" where
  "first_of_host dcs i \<longleftrightarrow> (\<forall>j < i. dc_host (dcs ! j) \<noteq> dc_host (dcs ! i))"

lemma create_once:
  assumes "ty = CHECK_SSH_CONNECT \<or> ty = GET_HOST_DATE"
    and "map_of constructors ty = Some (name, SelDC)"
    and "\<forall>dc \<in> set dcs. construct name (TgtDC (Some dc)) = Inr (Some (mk dc))"
    and "k \<le> length dcs" and "\<forall>h. bget once h \<longleftrightarrow> (\<exists>j < k. dc_host (dcs ! j) = h)"
  shows "create_loop construct ty (deploy_smart dcs) (map int [k..<length dcs]) once =
    Inr (map (service_task mk) (map ((!) dcs) (filter (first_of_host dcs) [k..<length dcs])))"
  using assms(4,5)
proof (induction "length dcs - k" arbitrary: k once)
  case (Suc d)
  then have k: "k < length dcs" by simp
  then have upt: "[k..<length dcs] = k # [Suc k..<length dcs]" by (simp add: upt_conv_Cons)
  have "construct name (TgtDC (Some (dcs ! k))) = Inr (Some (mk (dcs ! k)))" using assms(3) k by simp
  note nt = new_task_deploy [where construct = construct and dcs = dcs, OF assms(2) this k]
  have skip: "ty \<notin> set skips_mds_cli" using assms(1) by (auto simp: skips_mds_cli_def)
  have first: "bget once (dc_host (dcs ! k)) \<longleftrightarrow> \<not> first_of_host dcs k"
    using Suc.prems(2) by (auto simp: first_of_host_def)
  show ?case
  proof (cases "first_of_host dcs k")
    case False
    have "\<forall>h. bget once h \<longleftrightarrow> (\<exists>j < Suc k. dc_host (dcs ! j) = h)"
      using Suc.prems(2) False first by (auto simp: less_Suc_eq)
    with Suc.hyps Suc.prems k have "create_loop construct ty (deploy_smart dcs) (map int [Suc k..<length dcs]) once =
        Inr (map (service_task mk) (map ((!) dcs) (filter (first_of_host dcs) [Suc k..<length dcs])))"
      by simp
    with False first assms(1) k show ?thesis by (auto simp: upt once_per_host_def)
  next
    case True
    let ?o = "AList.update (dc_host (dcs ! k)) True once"
    have "\<forall>h. bget ?o h \<longleftrightarrow> (\<exists>j < Suc k. dc_host (dcs ! j) = h)"
      using Suc.prems(2) by (auto simp: less_Suc_eq)
    with Suc.hyps Suc.prems k have "create_loop construct ty (deploy_smart dcs) (map int [Suc k..<length dcs]) ?o =
        Inr (map (service_task mk) (map ((!) dcs) (filter (first_of_host dcs) [Suc k..<length dcs])))"
      by simp
    with True first assms(1) k skip nt show ?thesis by (auto simp: upt once_per_host_def)
  qed
qed simp

text \<open>
  The connection check and the date query visit every host of the deployment exactly once, through the
  first service on it.
\<close>

theorem createTasks_once_per_host:
  assumes "ps_Type step = CHECK_SSH_CONNECT \<or> ps_Type step = GET_HOST_DATE"
    and "map_of constructors (ps_Type step) = Some (name, SelDC)" and "ps_Configs step = DeployConfigs dcs"
    and "\<forall>dc \<in> set dcs. construct (set_options (ps_Options step) mem) name (TgtDC (Some dc)) = Inr (Some (mk dc))"
  shows "\<exists>ts firsts. createTasks sorter construct step mem = (set_options (ps_Options step) mem, Inr ts) \<and>
           map t_tid ts = map dc_id firsts \<and> set firsts \<subseteq> set dcs \<and>
           distinct (map dc_host firsts) \<and> set (map dc_host firsts) = set (map dc_host dcs)"
proof -
  let ?firsts = "map ((!) dcs) (filter (first_of_host dcs) [0..<length dcs])"
  have c: "create_loop (construct (set_options (ps_Options step) mem)) (ps_Type step) (deploy_smart dcs)
      [0..int (length dcs) - 1] [] = Inr (map (service_task mk) ?firsts)"
    unfolding upto_upt by (rule create_once [where mk = mk and construct = "construct (set_options (ps_Options step) mem)", OF assms(1,2,4)]) auto
  have tids: "map t_tid (map (service_task mk) ?firsts) = map dc_id ?firsts"
    by (simp add: service_task_def SetPtid_def SetTid_def)
  have "distinct (map dc_host ?firsts)"
    by (auto simp: distinct_map comp_def first_of_host_def intro!: inj_onI) (metis linorder_neqE_nat)
  moreover have "set (map dc_host ?firsts) = set (map dc_host dcs)"
  proof -
    have "dc_host (dcs ! i) \<in> set (map dc_host ?firsts)" if "i < length dcs" for i
      using that
    proof (induction i rule: less_induct)
      case (less i)
      show ?case
      proof (cases "first_of_host dcs i")
        case True
        with less.prems show ?thesis by auto
      next
        case False
        then obtain j where "j < i" "dc_host (dcs ! j) = dc_host (dcs ! i)" by (auto simp: first_of_host_def)
        with less show ?thesis by (metis order_less_trans)
      qed
    qed
    then have "set (map dc_host dcs) \<subseteq> set (map dc_host ?firsts)" by (auto simp: in_set_conv_nth)
    moreover have "set (map dc_host ?firsts) \<subseteq> set (map dc_host dcs)" by auto
    ultimately show ?thesis by blast
  qed
  moreover have "set ?firsts \<subseteq> set dcs" by auto
  moreover have "createTasks sorter construct step mem =
      (set_options (ps_Options step) mem, Inr (map (service_task mk) ?firsts))"
    by (simp add: createTasks_def assms(3) NewSmartConfig_deploy c)
  ultimately show ?thesis using tids by blast
qed

section \<open>How a playbook ends\<close>

text \<open>One step of a playbook on its own; an error of the port check does not count.\<close>

definition step_run ::
  "('cc playbook_step \<Rightarrow> 's \<Rightarrow> 's \<times> 't res) \<Rightarrow> ('t \<Rightarrow> exec_options \<Rightarrow> 's \<Rightarrow> 's \<times> terr option) \<Rightarrow>
   'cc playbook_step \<Rightarrow> 's \<Rightarrow> 's \<times> terr option" where
  "step_run create exec step s =
     (case create step s of
        (s1, Inl e) \<Rightarrow> (s1, Some (TErr e))
      | (s1, Inr ts) \<Rightarrow>
          (case exec ts (ps_ExecOptions step) s1 of
             (s2, err) \<Rightarrow> (s2, if ps_Type step = CHECK_PORT_IN_USE \<and> \<not> panicked err then None else err)))"

inductive steps_ok ::
  "('cc playbook_step \<Rightarrow> 's \<Rightarrow> 's \<times> 't res) \<Rightarrow> ('t \<Rightarrow> exec_options \<Rightarrow> 's \<Rightarrow> 's \<times> terr option) \<Rightarrow>
   'cc playbook_step list \<Rightarrow> 's \<Rightarrow> 's \<Rightarrow> bool"
  for create exec
where
  ok_Nil: "steps_ok create exec [] s s"
| ok_Cons: "step_run create exec step s = (s1, None) \<Longrightarrow> steps_ok create exec steps s1 s2 \<Longrightarrow>
    steps_ok create exec (step # steps) s s2"

inductive_simps steps_ok_simps [simp]:
  "steps_ok create exec [] s s'" "steps_ok create exec (step # steps) s s'"

lemma pb_run_step:
  "pb_run create exec (step # steps) s =
     (case step_run create exec step s of (s1, None) \<Rightarrow> pb_run create exec steps s1 | (s1, Some e) \<Rightarrow> (s1, Some e))"
  by (auto simp: step_run_def split: prod.splits sum.splits option.splits)

lemma pb_run_ok: "pb_run create exec steps s = (s', None) \<longleftrightarrow> steps_ok create exec steps s s'"
  by (induction steps arbitrary: s)
    (auto simp: pb_run_step simp del: pb_run.simps(2) split: prod.splits option.splits)

lemma pb_run_error:
  "pb_run create exec steps s = (s', Some e) \<longleftrightarrow>
     (\<exists>pre step post s1. steps = pre @ step # post \<and> steps_ok create exec pre s s1 \<and>
        step_run create exec step s1 = (s', Some e))"
proof (induction steps arbitrary: s)
  case (Cons step steps)
  obtain s1 r where r: "step_run create exec step s = (s1, r)" by fastforce
  show ?case
  proof (cases r)
    case None
    have "(\<exists>pre st post s2. step # steps = pre @ st # post \<and> steps_ok create exec pre s s2 \<and>
            step_run create exec st s2 = (s', Some e)) \<longleftrightarrow>
          (\<exists>pre st post s2. steps = pre @ st # post \<and> steps_ok create exec pre s1 s2 \<and>
            step_run create exec st s2 = (s', Some e))" (is "?l \<longleftrightarrow> ?r")
    proof
      assume ?l
      then obtain pre st post s2 where l: "step # steps = pre @ st # post" "steps_ok create exec pre s s2"
        "step_run create exec st s2 = (s', Some e)" by blast
      with r None show ?r by (cases pre) auto
    next
      assume ?r
      then obtain pre st post s2 where "steps = pre @ st # post" "steps_ok create exec pre s1 s2"
        "step_run create exec st s2 = (s', Some e)" by blast
      with r None show ?l by (intro exI [of _ "step # pre"]) auto
    qed
    with Cons.IH r None show ?thesis by (simp add: pb_run_step del: pb_run.simps(2))
  next
    case (Some e')
    have "(\<exists>pre st post s2. step # steps = pre @ st # post \<and> steps_ok create exec pre s s2 \<and>
        step_run create exec st s2 = (s', Some e)) \<longleftrightarrow> step_run create exec step s = (s', Some e)" (is "?l \<longleftrightarrow> ?r")
    proof
      assume ?l
      then obtain pre st post s2 where l: "step # steps = pre @ st # post" "steps_ok create exec pre s s2"
        "step_run create exec st s2 = (s', Some e)" by blast
      with r Some show ?r by (cases pre) auto
    qed (rule exI [of _ "[]"], simp)
    with r Some show ?thesis by (simp add: pb_run_step del: pb_run.simps(2))
  qed
qed simp

lemma pb_run_outcome:
  assumes "pb_run create exec steps s = (s1, err)"
  shows "case err of
      None \<Rightarrow> steps_ok create exec steps s s1
    | Some e \<Rightarrow> (\<exists>pre step post s0. steps = pre @ step # post \<and> steps_ok create exec pre s s0 \<and>
         step_run create exec step s0 = (s1, Some e))"
proof (cases err)
  case None
  with assms show ?thesis by (simp add: pb_run_ok)
next
  case (Some e)
  with assms show ?thesis by (simp only: pb_run_error option.case)
qed


text \<open>
  A failed port check does not stop a playbook: if its tasks can be created, a step of that kind
  never makes the playbook fail, whatever error its tasks report.
\<close>

theorem port_check_ignored:
  assumes "ps_Type step = CHECK_PORT_IN_USE" and "create step s = (s1, Inr ts)"
    and "exec ts (ps_ExecOptions step) s1 = (s2, err)" and "\<not> panicked err"
  shows "pb_run create exec (step # steps) s = pb_run create exec steps s2"
  using assms by simp

section \<open>Kinds without a task\<close>

text \<open>The kinds of step that are declared but that \<open>createTasks\<close> has no constructor for.\<close>

definition taskless_kinds :: "int list" where
  "taskless_kinds =
     [BACKUP_ETCD_DATA, FORMAT_CHUNKFILE_POOL, GET_FORMAT_STATUS, STOP_FORMAT, BALANCE_LEADER, START_NEBD_SERVICE,
      CREATE_VOLUME, MAP_IMAGE, UNMAP_IMAGE, CREATE_DINGOFS, MOUNT_FILESYSTEM, UMOUNT_FILESYSTEM, CREATE_PLAYGROUND,
      INIT_PLAYGROUND, START_PLAYGROUND, REMOVE_PLAYGROUND, GET_PLAYGROUND_STATUS, UNKNOWN]"

lemma constructors_kinds: "set (map fst constructors) = {0..75} - set taskless_kinds"
  by code_simp

lemma no_constructor: "map_of constructors ty = None \<longleftrightarrow> ty < 0 \<or> 75 < ty \<or> ty \<in> set taskless_kinds"
proof -
  have "map_of constructors ty = None \<longleftrightarrow> ty \<notin> set (map fst constructors)" by (simp add: map_of_eq_None_iff)
  also have "\<dots> \<longleftrightarrow> ty \<notin> {0..75} - set taskless_kinds" by (simp only: constructors_kinds)
  finally show ?thesis by auto
qed

text \<open>
  A step over at least one configuration whose kind is not one of those with a constructor gives
  the error for an unknown kind of task, and no task, whatever the configurations are.  These are the
  kinds outside the declared range and eighteen declared ones.
\<close>

theorem createTasks_unknown:
  assumes "ps_Type step < 0 \<or> 75 < ps_Type step \<or> ps_Type step \<in> set taskless_kinds"
    and "NewSmartConfig sorter (ps_Configs step) = Inr c" and "0 < sc_len c"
  shows "createTasks sorter construct step mem =
           (set_options (ps_Options step) mem, Inl (Ec ERR_UNKNOWN_TASK_TYPE))"
proof -
  from assms(1) have n: "map_of constructors (ps_Type step) = None" by (simp add: no_constructor)
  have "once_per_host (ps_Type step) c 0 [] = Inr (Some [])"
    using assms(1) by (auto simp: once_per_host_def taskless_kinds_def)
  then show ?thesis
    using assms(2,3) n by (simp add: createTasks_def new_task_def upto_rec1)
qed

section \<open>A small playbook\<close>

definition demo_dc :: "string \<Rightarrow> string \<Rightarrow> string \<Rightarrow> deploy_config" where
  "demo_dc i role host =
     \<lparr>dc_kind = KIND_DINGOFS, dc_id = i, dc_parentId = i, dc_role = role, dc_host = host, dc_hostname = host,
      dc_name = role, dc_instances = 1, dc_hostSequence = 0, dc_instancesSequence = 0, dc_config = [],
      dc_serviceConfig = [], dc_variables = None, dc_ctx = None\<rparr>"

definition demo_dcs :: "deploy_config list" where
  "demo_dcs = [demo_dc ''a'' ROLE_FS_MDS ''h1'', demo_dc ''b'' ROLE_FS_MDS_CLI ''h1'', demo_dc ''c'' ROLE_FS_MDS ''h2'']"

definition demo_step :: "int \<Rightarrow> unit playbook_step" where
  "demo_step ty =
     \<lparr>ps_Name = [], ps_Type = ty, ps_Configs = DeployConfigs demo_dcs, ps_Options = [],
      ps_ExecOptions = \<lparr>eo_Concurrency = 10, eo_SilentMainBar = False, eo_SilentSubBar = False, eo_SkipError = False\<rparr>\<rparr>"

definition demo_construct :: "omap \<Rightarrow> string \<Rightarrow> unit target \<Rightarrow> unit task option res" where
  "demo_construct mem name tgt = Inr (Some (NewTask ''0123456789abcdef'' name [] None))"

lemma demo_step_sel [simp]:
  "ps_Type (demo_step ty) = ty" "ps_Configs (demo_step ty) = DeployConfigs demo_dcs" "ps_Options (demo_step ty) = []"
  by (simp_all add: demo_step_def)


theorem createTasks_once_per_host_witness:
  "\<exists>ts firsts. createTasks id demo_construct (demo_step CHECK_SSH_CONNECT) [] = ([], Inr ts) \<and>
     map t_tid ts = map dc_id firsts \<and> set firsts \<subseteq> set demo_dcs \<and>
     distinct (map dc_host firsts) \<and> set (map dc_host firsts) = {''h1'', ''h2''}"
proof -
  let ?n = "''checker.NewCheckSSHConnectTask''"
  have c: "map_of constructors (ps_Type (demo_step CHECK_SSH_CONNECT)) = Some (?n, SelDC)"
    by (simp add: constructors_def)
  have k: "\<forall>dc \<in> set demo_dcs. demo_construct (set_options (ps_Options (demo_step CHECK_SSH_CONNECT)) []) ?n
      (TgtDC (Some dc)) = Inr (Some ((\<lambda>_. NewTask ''0123456789abcdef'' ?n [] None) dc))"
    by (simp add: demo_construct_def)
  have h: "set (map dc_host demo_dcs) = {''h1'', ''h2''}" by (auto simp: demo_dcs_def demo_dc_def)
  have o1: "set_options (ps_Options (demo_step CHECK_SSH_CONNECT)) [] = []" by (simp add: set_options_def)
  have t: "ps_Type (demo_step CHECK_SSH_CONNECT) = CHECK_SSH_CONNECT \<or> ps_Type (demo_step CHECK_SSH_CONNECT) = GET_HOST_DATE"
    by simp
  have d: "ps_Configs (demo_step CHECK_SSH_CONNECT) = DeployConfigs demo_dcs" by simp
  show ?thesis
    using createTasks_once_per_host [where construct = demo_construct, OF t c d k, of id] unfolding h o1 .
qed

theorem createTasks_unknown_witness:
  "createTasks id demo_construct (demo_step BALANCE_LEADER) [] = ([], Inl (Ec ERR_UNKNOWN_TASK_TYPE))"
  using createTasks_unknown [of "demo_step BALANCE_LEADER" id "deploy_smart demo_dcs" demo_construct "[]"]
  by (simp add: taskless_kinds_def NewSmartConfig_deploy set_options_def) (simp add: demo_dcs_def)

theorem port_check_ignored_witness:
  "pb_run (\<lambda>_ s. (s, Inr ())) (\<lambda>_ _ s. (s + 1, Some (TErr (Ec ERR_PORT_ALREADY_IN_USE))))
     [demo_step CHECK_PORT_IN_USE] (0 :: int) = (1, None)"
  using port_check_ignored [of "demo_step CHECK_PORT_IN_USE" "\<lambda>_ s. (s, Inr ())" 0 0 "()"
      "\<lambda>_ _ s. (s + 1, Some (TErr (Ec ERR_PORT_ALREADY_IN_USE)))" 1 "Some (TErr (Ec ERR_PORT_ALREADY_IN_USE))" "[]"]
  by simp

end
