(* ===== verification/Topology_Diff.thy ===== *)
theory Topology_Diff
  imports Topology
begin

text \<open>
  The difference of two topologies: \<open>internal/configure/topology/diff.go\<close>.

  The services of both topologies are indexed by id; an id of the old one only is a deletion, an
  id of the new one only an addition, and a common id whose two configurations have different
  hashes is a change.  The hash is the argument \<open>hash\<close>: it stands for \<open>hashstructure.Hash\<close> of the
  \<open>mitchellh/hashstructure\<close> package, whose documentation says that unexported fields of a struct
  are ignored.  The maps are iterated in the order of the association lists; the theorems do not
  depend on it.
\<close>

datatype diff_type = DIFF_ADD | DIFF_DELETE | DIFF_CHANGE

record topology_diff =
  DiffType :: diff_type
  Diff_DeployConfig :: deploy_config

type_synonym hash_fn = "deploy_config \<Rightarrow> int option"

definition same :: "hash_fn \<Rightarrow> deploy_config \<Rightarrow> deploy_config \<Rightarrow> bool res" where
  "same hash dc1 dc2 =
     (case hash dc1 of
        None \<Rightarrow> Inl (Ec ERR_CREATE_HASH_FOR_TOPOLOGY_FAILED)
      | Some hash1 \<Rightarrow>
          (case hash dc2 of
             None \<Rightarrow> Inl (Ec ERR_CREATE_HASH_FOR_TOPOLOGY_FAILED)
           | Some hash2 \<Rightarrow> Inr (hash1 = hash2)))"

type_synonym id_map = "(string \<times> deploy_config) list"

definition difference :: "id_map \<Rightarrow> id_map \<Rightarrow> id_map" where
  "difference ids1 ids2 =
     fold (\<lambda>(k, v) ids. if map_of ids2 k = None then AList.update k v ids else ids) ids1 []"

definition ids_of :: "deploy_config list \<Rightarrow> id_map" where
  "ids_of dcs = fold (\<lambda>dc ids. AList.update (dc_id dc) dc ids) dcs []"

definition mk_diff :: "diff_type \<Rightarrow> deploy_config \<Rightarrow> topology_diff" where
  "mk_diff ty dc = \<lparr>DiffType = ty, Diff_DeployConfig = dc\<rparr>"

text \<open>One turn of the last loop.\<close>

definition change_turn ::
  "hash_fn \<Rightarrow> id_map \<Rightarrow> id_map \<Rightarrow> id_map \<Rightarrow> string \<times> deploy_config \<Rightarrow> topology_diff list res" where
  "change_turn hash deleteIds addIds ids1 = (\<lambda>(sid, dc).
     if map_of deleteIds sid \<noteq> None then Inr []
     else if map_of addIds sid \<noteq> None then Inr []
     else (case map_of ids1 sid of
             None \<Rightarrow> Inl GoPanic
           | Some dc1 \<Rightarrow> bindR (same hash dc1 dc) (\<lambda>ok. Inr (if \<not> ok then [mk_diff DIFF_CHANGE dc] else []))))"

definition changes :: "hash_fn \<Rightarrow> id_map \<Rightarrow> id_map \<Rightarrow> id_map \<Rightarrow> id_map \<Rightarrow> topology_diff list res" where
  "changes hash deleteIds addIds ids1 ids2 =
     bindR (mapR (change_turn hash deleteIds addIds ids1) ids2) (\<lambda>l. Inr (concat l))"

definition diff_services :: "hash_fn \<Rightarrow> deploy_config list \<Rightarrow> deploy_config list \<Rightarrow> topology_diff list res" where
  "diff_services hash dcs1 dcs2 =
     (let ids1 = ids_of dcs1; ids2 = ids_of dcs2;
          deleteIds = difference ids1 ids2;
          addIds = difference ids2 ids1
      in bindR (changes hash deleteIds addIds ids1 ids2) (\<lambda>ch.
         Inr (map (\<lambda>(_, dc). mk_diff DIFF_DELETE dc) deleteIds @
              map (\<lambda>(_, dc). mk_diff DIFF_ADD dc) addIds @ ch)))"

text \<open>Both parses get the same context, and the second sees what the first recorded in it.\<close>

definition DiffTopology ::
  "(string \<Rightarrow> topology option) \<Rightarrow> (nat \<Rightarrow> nat \<Rightarrow> string) \<Rightarrow> hash_fn \<Rightarrow> string \<Rightarrow> string \<Rightarrow> ctx_map option \<Rightarrow>
   topology_diff list res" where
  "DiffTopology parse uuid hash data1 data2 ctx =
     bindR (ParseTopology parse (uuid 0) data1 ctx) (\<lambda>(dcs1, ctx1).
     bindR (ParseTopology parse (uuid 1) data2 ctx1) (\<lambda>(dcs2, _).
     diff_services hash dcs1 dcs2))"

section \<open>Classification\<close>

lemma lookup_ids_of:
  "map_of (ids_of dcs) k = map_of (rev (map (\<lambda>dc. (dc_id dc, dc)) dcs)) k"
proof -
  have "map_of (fold (\<lambda>dc ids. AList.update (dc_id dc) dc ids) dcs m) k =
      map_of (rev (map (\<lambda>dc. (dc_id dc, dc)) dcs) @ m) k" for m
    by (induction dcs arbitrary: m) (auto split: option.splits)
  from this [of "[]"] show ?thesis by (simp add: ids_of_def)
qed

lemma ids_of_keys: "map_of (ids_of dcs) k = Some dc \<Longrightarrow> dc_id dc = k \<and> dc \<in> set dcs"
  by (auto simp: lookup_ids_of dest: map_of_SomeD)

lemma ids_of_None: "map_of (ids_of dcs) k = None \<longleftrightarrow> k \<notin> dc_id ` set dcs"
  by (auto simp: lookup_ids_of map_of_eq_None_iff image_image)

lemma distinct_ids_of [simp]: "distinct (map fst (ids_of dcs))"
proof -
  have "distinct (map fst m) \<Longrightarrow>
      distinct (map fst (fold (\<lambda>dc ids. AList.update (dc_id dc) dc ids) dcs m))" for m
    by (induction dcs arbitrary: m) auto
  then show ?thesis by (simp add: ids_of_def)
qed

lemma difference_lookup:
  assumes "distinct (map fst ids1)"
  shows "map_of (difference ids1 ids2) k = (if map_of ids2 k = None then map_of ids1 k else None)"
proof -
  have "map_of (fold (\<lambda>(k, v) ids. if map_of ids2 k = None then AList.update k v ids else ids) ids1 m) k =
      (if map_of ids2 k = None \<and> map_of ids1 k \<noteq> None then map_of ids1 k else map_of m k)" for m
    using assms
  proof (induction ids1 arbitrary: m)
    case (Cons a ids1)
    have "map_of ids1 (fst a) = None" using Cons.prems by (auto simp: map_of_eq_None_iff)
    with Cons show ?case by (cases a) auto
  qed simp
  from this [of "[]"] show ?thesis by (auto simp: difference_def)
qed

lemma difference_distinct [simp]: "distinct (map fst (difference ids1 ids2))"
proof -
  have "distinct (map fst m) \<Longrightarrow> distinct (map fst
      (fold (\<lambda>(k, v) ids. if map_of ids2 k = None then AList.update k v ids else ids) ids1 m))" for m
    by (induction ids1 arbitrary: m) (auto split: prod.splits)
  then show ?thesis by (simp add: difference_def)
qed

text \<open>What the difference of two lists of services should be: each of these is a set, so the order of
  iteration is out of the picture.\<close>

definition last_with :: "string \<Rightarrow> deploy_config list \<Rightarrow> deploy_config option" where
  "last_with sid dcs = List.find (\<lambda>dc. dc_id dc = sid) (rev dcs)"

definition expected_diffs :: "hash_fn \<Rightarrow> deploy_config list \<Rightarrow> deploy_config list \<Rightarrow> topology_diff set" where
  "expected_diffs hash dcs1 dcs2 =
     {mk_diff DIFF_DELETE dc | dc sid. last_with sid dcs1 = Some dc \<and> last_with sid dcs2 = None} \<union>
     {mk_diff DIFF_ADD dc | dc sid. last_with sid dcs2 = Some dc \<and> last_with sid dcs1 = None} \<union>
     {mk_diff DIFF_CHANGE dc | dc dc1 sid. last_with sid dcs2 = Some dc \<and> last_with sid dcs1 = Some dc1 \<and>
        hash dc1 \<noteq> hash dc}"

lemma find_map_of: "List.find (\<lambda>x. f x = k) xs = map_of (map (\<lambda>x. (f x, x)) xs) k"
  by (induction xs) auto

lemma last_with_ids: "last_with sid dcs = map_of (ids_of dcs) sid"
  by (simp add: last_with_def lookup_ids_of find_map_of rev_map)

lemma set_map_diffs:
  assumes "distinct (map fst m)"
  shows "set (map (\<lambda>(_, dc). mk_diff ty dc) m) = {mk_diff ty dc | dc sid. map_of m sid = Some dc}"
  using assms by force

lemma changes_result:
  assumes "changes hash del add ids1 ids2 = Inr ch" and "distinct (map fst ids2)"
    and "\<And>sid. map_of del sid = (if map_of ids2 sid = None then map_of ids1 sid else None)"
    and "\<And>sid. map_of add sid = (if map_of ids1 sid = None then map_of ids2 sid else None)"
  shows "set ch = {mk_diff DIFF_CHANGE dc | dc dc1 sid. map_of ids2 sid = Some dc \<and> map_of ids1 sid = Some dc1 \<and>
     hash dc1 \<noteq> hash dc}"
proof -
  let ?f = "change_turn hash del add ids1"
  let ?g = "\<lambda>(sid, dc). {mk_diff DIFF_CHANGE dc | dc1. map_of ids1 sid = Some dc1 \<and> hash dc1 \<noteq> hash dc}"
  obtain l where l: "mapR ?f ids2 = Inr l" and ch: "ch = concat l"
    using assms(1) by (auto simp: changes_def bindR_eq_Inr)
  have "\<forall>x \<in> set ids2. \<forall>ys. ?f x = Inr ys \<longrightarrow> set ys = ?g x"
  proof (intro ballI allI impI)
    fix x ys assume a: "x \<in> set ids2" "?f x = Inr ys"
    obtain sid dc where x: "x = (sid, dc)" by (cases x)
    with a(1) assms(2) have "map_of ids2 sid = Some dc" by simp
    with a(2) assms(3,4) show "set ys = ?g x"
      by (auto simp: x change_turn_def same_def res_simps split: if_splits option.splits)
  qed
  from mapR_concat_set [OF l this] have "set (concat l) = (\<Union>x \<in> set ids2. ?g x)" .
  also have "\<dots> = {mk_diff DIFF_CHANGE dc | dc dc1 sid. map_of ids2 sid = Some dc \<and> map_of ids1 sid = Some dc1 \<and>
     hash dc1 \<noteq> hash dc}"
    using assms(2) by force
  finally show ?thesis by (simp add: ch)
qed

lemma diff_services_set:
  assumes "diff_services hash dcs1 dcs2 = Inr ds"
  shows "set ds = expected_diffs hash dcs1 dcs2"
proof -
  let ?i1 = "ids_of dcs1" and ?i2 = "ids_of dcs2"
  from assms obtain ch where ch: "changes hash (difference ?i1 ?i2) (difference ?i2 ?i1) ?i1 ?i2 = Inr ch"
    and ds: "ds = map (\<lambda>(_, dc). mk_diff DIFF_DELETE dc) (difference ?i1 ?i2) @
                  map (\<lambda>(_, dc). mk_diff DIFF_ADD dc) (difference ?i2 ?i1) @ ch"
    by (auto simp: diff_services_def Let_def res_simps)
  have "set ch = {mk_diff DIFF_CHANGE dc | dc dc1 sid. map_of ?i2 sid = Some dc \<and> map_of ?i1 sid = Some dc1 \<and>
     hash dc1 \<noteq> hash dc}"
    by (rule changes_result [OF ch]) (simp_all add: difference_lookup)
  moreover have "(if b then x else None) = Some y \<longleftrightarrow> x = Some y \<and> b" for b and x :: "deploy_config option" and y
    by simp
  ultimately show ?thesis
    by (simp only: ds expected_diffs_def last_with_ids set_append Un_assoc
      set_map_diffs [OF difference_distinct] difference_lookup [OF distinct_ids_of])
qed


lemma diff_services_total:
  assumes "\<And>dc. hash dc \<noteq> None"
  shows "\<exists>ds. diff_services hash dcs1 dcs2 = Inr ds"
proof -
  let ?i1 = "ids_of dcs1" and ?i2 = "ids_of dcs2"
  have "\<exists>z. bindR (same hash x y) (\<lambda>b. Inr (f b)) = (Inr z :: 'z res)" for x y and f :: "bool \<Rightarrow> 'z"
    using assms [of x] assms [of y] by (auto simp: same_def)
  then have "\<exists>y. change_turn hash (difference ?i1 ?i2) (difference ?i2 ?i1) ?i1 (k, v) = Inr y"
    if "map_of ?i2 k = Some v" for k v
    using that by (cases "map_of ?i1 k") (auto simp: change_turn_def difference_lookup)
  then have "\<exists>l. mapR (change_turn hash (difference ?i1 ?i2) (difference ?i2 ?i1) ?i1) ?i2 = Inr l"
    unfolding mapR_Inr_ex by auto
  then have "\<exists>ch. changes hash (difference ?i1 ?i2) (difference ?i2 ?i1) ?i1 ?i2 = Inr ch"
    by (auto simp: changes_def)
  then show ?thesis by (auto simp: diff_services_def Let_def)
qed

text \<open>
  A hash that ignores unexported fields gives every \<open>DeployConfig\<close> the same value, because
  it has no exported field; then no change is ever reported, whatever the two topologies say.
\<close>

theorem no_change_reported:
  assumes "\<forall>dc. hash dc = Some h"
  shows "\<exists>ds. diff_services hash dcs1 dcs2 = Inr ds \<and> (\<forall>d \<in> set ds. DiffType d \<noteq> DIFF_CHANGE)"
proof -
  have "\<exists>ds. diff_services hash dcs1 dcs2 = Inr ds" by (rule diff_services_total) (simp add: assms)
  then obtain ds where d: "diff_services hash dcs1 dcs2 = Inr ds" ..
  moreover have "set ds = expected_diffs hash dcs1 dcs2" by (rule diff_services_set [OF d])
  ultimately show ?thesis using assms by (auto simp: expected_diffs_def mk_diff_def)
qed

definition demo_service :: "string \<Rightarrow> string \<Rightarrow> deploy_config" where
  "demo_service sid host = (bare_config KIND_DINGOFS ROLE_ETCD)\<lparr>dc_id := sid, dc_host := host\<rparr>"


theorem no_change_reported_witness:
  "\<exists>ds. diff_services (\<lambda>_. Some 7) [demo_service ''b'' ''h''] [demo_service ''b'' ''hh''] = Inr ds \<and>
        (\<forall>d \<in> set ds. DiffType d \<noteq> DIFF_CHANGE)"
  by (rule no_change_reported [of _ 7]) simp

end
