(* ===== verification/Storage.thy ===== *)
theory Storage
  imports Go_Base
begin

text \<open>
  The local database: \<open>internal/storage/storage.go\<close> and the statements of \<open>sql.go\<close>.

  A table is the list of its rows in the order of insertion, which is the order in which SQLite
  scans them; a table with an AUTOINCREMENT key also has the largest key handed out.  Every statement
  may fail in the driver (SQLite or rqlite): \<open>db_faults\<close> is a script of these failures, one entry
  per statement, none after its end.  A statement that fails, in the driver or by a constraint,
  changes nothing.  \<open>datetime('now','localtime')\<close> is the argument \<open>now\<close>.
\<close>

section \<open>Rows and tables\<close>

record version_row =
  ver_Id :: int
  ver_Version :: string
  ver_LastConfirm :: string

record hosts_row =
  hst_Id :: int
  hst_Data :: string
  hst_LastModifiedTime :: int

record cluster =
  clu_Id :: int
  clu_UUId :: string
  clu_Name :: string
  clu_Description :: string
  clu_CreateTime :: int
  clu_Topology :: string
  clu_Pool :: string
  clu_Current :: bool

record service_row =
  srv_Id :: string
  srv_ClusterId :: int
  srv_ContainerId :: string

record client_row =
  cli_Id :: string
  cli_Kind :: string
  cli_Host :: string
  cli_ContainerId :: string
  cli_AuxInfo :: string

record playground_row =
  pg_Id :: int
  pg_Name :: string
  pg_CreateTime :: int
  pg_MountPoint :: string
  pg_Status :: string

record audit_row =
  au_Id :: int
  au_ExecuteTime :: int
  au_WorkDirectory :: string
  au_Command :: string
  au_Status :: int
  au_ErrorCode :: int

record any_row =
  any_Id :: string
  any_Data :: string

record monitor_row =
  mon_ClusterId :: int
  mon_Monitor :: string

record 'a auto_table =
  at_rows :: "'a list"
  at_seq :: int

record db =
  db_version :: "version_row auto_table"
  db_hosts :: "hosts_row auto_table"
  db_clusters :: "cluster auto_table"
  db_containers :: "service_row list"
  db_clients :: "client_row list"
  db_playgrounds :: "playground_row auto_table"
  db_audit :: "audit_row auto_table"
  db_any :: "any_row list"
  db_monitors :: "monitor_row list"
  db_faults :: "bool list"

abbreviation empty_table :: "'a auto_table" where
  "empty_table \<equiv> \<lparr>at_rows = [], at_seq = 0\<rparr>"

definition empty_db :: db where
  "empty_db =
     \<lparr>db_version = empty_table, db_hosts = empty_table, db_clusters = empty_table, db_containers = [], db_clients = [],
      db_playgrounds = empty_table, db_audit = empty_table, db_any = [], db_monitors = [], db_faults = []\<rparr>"

section \<open>Statements\<close>

datatype storage_error = DriverFault | ConstraintFailed | ClusterNameExists | ClusterNotFound | ErrInvalidDBUrl

type_synonym 'a dbop = "db \<Rightarrow> db \<times> (storage_error + 'a)"

definition tick :: "db \<Rightarrow> db \<times> bool" where
  "tick d = (case db_faults d of [] \<Rightarrow> (d, False) | b # bs \<Rightarrow> (d\<lparr>db_faults := bs\<rparr>, b))"

definition db_Query :: "(db \<Rightarrow> 'a) \<Rightarrow> 'a dbop" where
  "db_Query sel d = (let (d', fault) = tick d in (d', if fault then Inl DriverFault else Inr (sel d')))"

definition db_Write :: "(db \<Rightarrow> storage_error + db) \<Rightarrow> unit dbop" where
  "db_Write upd d =
     (let (d', fault) = tick d in
      if fault then (d', Inl DriverFault)
      else case upd d' of Inl e \<Rightarrow> (d', Inl e) | Inr d'' \<Rightarrow> (d'', Inr ()))"

definition bindD :: "'a dbop \<Rightarrow> ('a \<Rightarrow> 'b dbop) \<Rightarrow> 'b dbop" where
  "bindD m f d = (case m d of (d', Inl e) \<Rightarrow> (d', Inl e) | (d', Inr x) \<Rightarrow> f x d')"

definition failD :: "storage_error \<Rightarrow> 'a dbop" where
  "failD e d = (d, Inl e)"

definition returnD :: "'a \<Rightarrow> 'a dbop" where
  "returnD x d = (d, Inr x)"

text \<open>The LIKE operator of SQLite: \<open>%\<close> is any text, \<open>_\<close> any character, letters match in either case.\<close>

definition sql_lower :: "char \<Rightarrow> char" where
  "sql_lower c = (if 65 \<le> (of_char c :: int) \<and> (of_char c :: int) \<le> 90 then char_of ((of_char c :: int) + 32) else c)"

fun sql_like :: "string \<Rightarrow> string \<Rightarrow> bool" where
  "sql_like [] t \<longleftrightarrow> t = []"
| "sql_like (c # p) [] \<longleftrightarrow> c = CHR ''%'' \<and> sql_like p []"
| "sql_like (c # p) (d # t) \<longleftrightarrow>
     (if c = CHR ''%'' then sql_like p (d # t) \<or> sql_like (c # p) t
      else (c = CHR ''_'' \<or> sql_lower c = sql_lower d) \<and> sql_like p t)"

text \<open>Changing the rows for which a condition holds.\<close>

definition update_where :: "('a \<Rightarrow> bool) \<Rightarrow> ('a \<Rightarrow> 'a) \<Rightarrow> 'a list \<Rightarrow> 'a list" where
  "update_where P f rows = map (\<lambda>r. if P r then f r else r) rows"

definition delete_where :: "('a \<Rightarrow> bool) \<Rightarrow> 'a list \<Rightarrow> 'a list" where
  "delete_where P rows = filter (\<lambda>r. \<not> P r) rows"

definition rows_update :: "('a list \<Rightarrow> 'a list) \<Rightarrow> 'a auto_table \<Rightarrow> 'a auto_table" where
  "rows_update f t = t\<lparr>at_rows := f (at_rows t)\<rparr>"

definition auto_insert :: "(int \<Rightarrow> 'a) \<Rightarrow> 'a auto_table \<Rightarrow> 'a auto_table" where
  "auto_insert mk t = \<lparr>at_rows = at_rows t @ [mk (at_seq t + 1)], at_seq = at_seq t + 1\<rparr>"

section \<open>Opening\<close>

text \<open>The expression \<open>^(sqlite|rqlite)://(.+)$\<close>.\<close>

definition db_url_driver :: "string \<Rightarrow> string option" where
  "db_url_driver url =
     (if take 6 url \<in> {''sqlite'', ''rqlite''} \<and> take 3 (drop 6 url) = ''://'' \<and> drop 9 url \<noteq> [] \<and>
         CHR 0x0A \<notin> set (drop 9 url)
      then Some (take 6 url) else None)"

definition storage_init :: "unit dbop" where
  "storage_init = fold (\<lambda>_ m. bindD m (\<lambda>_. db_Write (\<lambda>d. Inr d))) [0..<9] (returnD ())"

text \<open>Opening the database can fail like a statement.\<close>

definition NewStorage :: "string \<Rightarrow> unit dbop" where
  "NewStorage dbURL =
     (case db_url_driver dbURL of None \<Rightarrow> failD ErrInvalidDBUrl | Some _ \<Rightarrow> bindD (db_Query (\<lambda>_. ())) (\<lambda>_. storage_init))"

section \<open>Versions and hosts\<close>

definition GetVersions :: "version_row list dbop" where
  "GetVersions = db_Query (\<lambda>d. take 1 (at_rows (db_version d)))"

definition SetVersion :: "string \<Rightarrow> string \<Rightarrow> unit dbop" where
  "SetVersion version lastConfirm =
     bindD GetVersions (\<lambda>versions.
       case versions of
         [] \<Rightarrow> db_Write (\<lambda>d. Inr (d\<lparr>db_version :=
                 auto_insert (\<lambda>i. \<lparr>ver_Id = i, ver_Version = version, ver_LastConfirm = []\<rparr>) (db_version d)\<rparr>))
       | v # _ \<Rightarrow> db_Write (\<lambda>d. Inr (d\<lparr>db_version := rows_update (update_where (\<lambda>r. ver_Id r = ver_Id v)
                 (\<lambda>r. r\<lparr>ver_Version := version, ver_LastConfirm := lastConfirm\<rparr>)) (db_version d)\<rparr>)))"

definition GetHostses :: "hosts_row list dbop" where
  "GetHostses = db_Query (\<lambda>d. take 1 (at_rows (db_hosts d)))"

definition SetHosts :: "int \<Rightarrow> string \<Rightarrow> unit dbop" where
  "SetHosts now data =
     bindD GetHostses (\<lambda>hostses.
       case hostses of
         [] \<Rightarrow> db_Write (\<lambda>d. Inr (d\<lparr>db_hosts :=
                 auto_insert (\<lambda>i. \<lparr>hst_Id = i, hst_Data = data, hst_LastModifiedTime = now\<rparr>) (db_hosts d)\<rparr>))
       | h # _ \<Rightarrow> db_Write (\<lambda>d. Inr (d\<lparr>db_hosts := rows_update (update_where (\<lambda>r. hst_Id r = hst_Id h)
                 (\<lambda>r. r\<lparr>hst_Data := data, hst_LastModifiedTime := now\<rparr>)) (db_hosts d)\<rparr>)))"

section \<open>Clusters\<close>

abbreviation cluster_rows :: "db \<Rightarrow> cluster list" where
  "cluster_rows d \<equiv> at_rows (db_clusters d)"

definition set_cluster_rows :: "(cluster list \<Rightarrow> cluster list) \<Rightarrow> db \<Rightarrow> db" where
  "set_cluster_rows f d = d\<lparr>db_clusters := rows_update f (db_clusters d)\<rparr>"

definition InsertCluster :: "int \<Rightarrow> string \<Rightarrow> string \<Rightarrow> string \<Rightarrow> string \<Rightarrow> unit dbop" where
  "InsertCluster now name uuid description topology =
     db_Write (\<lambda>d.
       if \<exists>c \<in> set (cluster_rows d). clu_Name c = name then Inl ConstraintFailed
       else Inr (d\<lparr>db_clusters := auto_insert (\<lambda>i.
              \<lparr>clu_Id = i, clu_UUId = uuid, clu_Name = name, clu_Description = description, clu_CreateTime = now,
               clu_Topology = topology, clu_Pool = [], clu_Current = False\<rparr>) (db_clusters d)\<rparr>))"

definition DeleteCluster :: "string \<Rightarrow> unit dbop" where
  "DeleteCluster name = db_Write (\<lambda>d. Inr (set_cluster_rows (delete_where (\<lambda>c. clu_Name c = name)) d))"

definition GetClusters :: "string \<Rightarrow> cluster list dbop" where
  "GetClusters name = db_Query (\<lambda>d. filter (\<lambda>c. sql_like name (clu_Name c)) (cluster_rows d))"

definition GetClusterByName :: "string \<Rightarrow> cluster dbop" where
  "GetClusterByName name =
     bindD (db_Query (\<lambda>d. filter (\<lambda>c. clu_Name c = name) (cluster_rows d))) (\<lambda>clusters.
       case clusters of [c] \<Rightarrow> returnD c | _ \<Rightarrow> failD ClusterNotFound)"

text \<open>The UNIQUE constraint on names is checked when the update is done.\<close>

definition RenameClusterName :: "string \<Rightarrow> string \<Rightarrow> unit dbop" where
  "RenameClusterName oldName newName =
     bindD (GetClusters newName) (\<lambda>clusters.
       if length clusters > 0 then failD ClusterNameExists
       else db_Write (\<lambda>d.
              let d' = set_cluster_rows (update_where (\<lambda>c. clu_Name c = oldName) (\<lambda>c. c\<lparr>clu_Name := newName\<rparr>)) d in
              if distinct (map clu_Name (cluster_rows d')) then Inr d' else Inl ConstraintFailed))"

definition CheckoutCluster :: "string \<Rightarrow> unit dbop" where
  "CheckoutCluster name =
     db_Write (\<lambda>d. Inr (set_cluster_rows (map (\<lambda>c. c\<lparr>clu_Current := (clu_Name c = name)\<rparr>)) d))"

definition no_cluster :: cluster where
  "no_cluster =
     \<lparr>clu_Id = -1, clu_UUId = [], clu_Name = [], clu_Description = [], clu_CreateTime = 0, clu_Topology = [],
      clu_Pool = [], clu_Current = False\<rparr>"

definition GetCurrentCluster :: "cluster dbop" where
  "GetCurrentCluster =
     bindD (db_Query (\<lambda>d. filter clu_Current (cluster_rows d))) (\<lambda>clusters.
       case clusters of [c] \<Rightarrow> returnD c | _ \<Rightarrow> returnD no_cluster)"

definition SetClusterTopology :: "int \<Rightarrow> string \<Rightarrow> unit dbop" where
  "SetClusterTopology i topology =
     db_Write (\<lambda>d. Inr (set_cluster_rows (update_where (\<lambda>c. clu_Id c = i) (\<lambda>c. c\<lparr>clu_Topology := topology\<rparr>)) d))"

definition SetClusterPool :: "int \<Rightarrow> string \<Rightarrow> string \<Rightarrow> unit dbop" where
  "SetClusterPool i topology pool =
     db_Write (\<lambda>d. Inr (set_cluster_rows
       (update_where (\<lambda>c. clu_Id c = i) (\<lambda>c. c\<lparr>clu_Topology := topology, clu_Pool := pool\<rparr>)) d))"

section \<open>Services and clients\<close>

definition InsertService :: "int \<Rightarrow> string \<Rightarrow> string \<Rightarrow> unit dbop" where
  "InsertService clusterId serviceId containerId =
     db_Write (\<lambda>d.
       if \<exists>r \<in> set (db_containers d). srv_Id r = serviceId then Inl ConstraintFailed
       else Inr (d\<lparr>db_containers := db_containers d @
              [\<lparr>srv_Id = serviceId, srv_ClusterId = clusterId, srv_ContainerId = containerId\<rparr>]\<rparr>))"

definition GetServices :: "int \<Rightarrow> service_row list dbop" where
  "GetServices clusterId = db_Query (\<lambda>d. filter (\<lambda>r. srv_ClusterId r = clusterId) (db_containers d))"

definition GetContainerId :: "string \<Rightarrow> string dbop" where
  "GetContainerId serviceId =
     bindD (db_Query (\<lambda>d. filter (\<lambda>r. srv_Id r = serviceId) (db_containers d))) (\<lambda>services.
       case services of [] \<Rightarrow> returnD [] | s # _ \<Rightarrow> returnD (srv_ContainerId s))"

definition SetContainId :: "string \<Rightarrow> string \<Rightarrow> unit dbop" where
  "SetContainId serviceId containerId =
     db_Write (\<lambda>d. Inr (d\<lparr>db_containers :=
       update_where (\<lambda>r. srv_Id r = serviceId) (\<lambda>r. r\<lparr>srv_ContainerId := containerId\<rparr>) (db_containers d)\<rparr>))"

definition InsertClient :: "string \<Rightarrow> string \<Rightarrow> string \<Rightarrow> string \<Rightarrow> string \<Rightarrow> unit dbop" where
  "InsertClient i kind host containerId auxInfo =
     db_Write (\<lambda>d.
       if \<exists>r \<in> set (db_clients d). cli_Id r = i then Inl ConstraintFailed
       else Inr (d\<lparr>db_clients := db_clients d @
              [\<lparr>cli_Id = i, cli_Kind = kind, cli_Host = host, cli_ContainerId = containerId, cli_AuxInfo = auxInfo\<rparr>]\<rparr>))"

text \<open>The statement is \<open>SET aux_info = ? WHERE id = ?\<close>, and the code passes it the id first.\<close>

definition SetClientAuxInfo :: "string \<Rightarrow> string \<Rightarrow> unit dbop" where
  "SetClientAuxInfo i auxInfo =
     (let arg1 = i; arg2 = auxInfo in
      db_Write (\<lambda>d. Inr (d\<lparr>db_clients :=
        update_where (\<lambda>r. cli_Id r = arg2) (\<lambda>r. r\<lparr>cli_AuxInfo := arg1\<rparr>) (db_clients d)\<rparr>)))"

definition GetClient :: "string \<Rightarrow> client_row list dbop" where
  "GetClient i = db_Query (\<lambda>d. filter (\<lambda>r. cli_Id r = i) (db_clients d))"

definition GetClients :: "client_row list dbop" where
  "GetClients = db_Query db_clients"

definition GetClientContainerId :: "string \<Rightarrow> string dbop" where
  "GetClientContainerId i =
     bindD (GetClient i) (\<lambda>clients. case clients of [] \<Rightarrow> returnD [] | c # _ \<Rightarrow> returnD (cli_ContainerId c))"

definition DeleteClient :: "string \<Rightarrow> unit dbop" where
  "DeleteClient i = db_Write (\<lambda>d. Inr (d\<lparr>db_clients := delete_where (\<lambda>r. cli_Id r = i) (db_clients d)\<rparr>))"

section \<open>Playgrounds\<close>

definition InsertPlayground :: "int \<Rightarrow> string \<Rightarrow> string \<Rightarrow> unit dbop" where
  "InsertPlayground now name mountPoint =
     db_Write (\<lambda>d.
       if \<exists>p \<in> set (at_rows (db_playgrounds d)). pg_Name p = name then Inl ConstraintFailed
       else Inr (d\<lparr>db_playgrounds := auto_insert (\<lambda>i.
              \<lparr>pg_Id = i, pg_Name = name, pg_CreateTime = now, pg_MountPoint = mountPoint, pg_Status = []\<rparr>) (db_playgrounds d)\<rparr>))"

definition SetPlaygroundStatus :: "string \<Rightarrow> string \<Rightarrow> unit dbop" where
  "SetPlaygroundStatus name st =
     db_Write (\<lambda>d. Inr (d\<lparr>db_playgrounds :=
       rows_update (update_where (\<lambda>p. pg_Name p = name) (\<lambda>p. p\<lparr>pg_Status := st\<rparr>)) (db_playgrounds d)\<rparr>))"

definition DeletePlayground :: "string \<Rightarrow> unit dbop" where
  "DeletePlayground name =
     db_Write (\<lambda>d. Inr (d\<lparr>db_playgrounds := rows_update (delete_where (\<lambda>p. pg_Name p = name)) (db_playgrounds d)\<rparr>))"

definition GetPlaygrounds :: "string \<Rightarrow> playground_row list dbop" where
  "GetPlaygrounds name = db_Query (\<lambda>d. filter (\<lambda>p. sql_like name (pg_Name p)) (at_rows (db_playgrounds d)))"

section \<open>Audit log\<close>

definition InsertAuditLog :: "int \<Rightarrow> string \<Rightarrow> string \<Rightarrow> int \<Rightarrow> int dbop" where
  "InsertAuditLog time workDir command st =
     bindD (db_Write (\<lambda>d. Inr (d\<lparr>db_audit := auto_insert (\<lambda>i.
         \<lparr>au_Id = i, au_ExecuteTime = time, au_WorkDirectory = workDir, au_Command = command, au_Status = st,
          au_ErrorCode = 0\<rparr>) (db_audit d)\<rparr>)))
       (\<lambda>_ d. (d, Inr (at_seq (db_audit d))))"

definition SetAuditLogStatus :: "int \<Rightarrow> int \<Rightarrow> int \<Rightarrow> unit dbop" where
  "SetAuditLogStatus i st errorCode =
     db_Write (\<lambda>d. Inr (d\<lparr>db_audit :=
       rows_update (update_where (\<lambda>a. au_Id a = i) (\<lambda>a. a\<lparr>au_Status := st, au_ErrorCode := errorCode\<rparr>)) (db_audit d)\<rparr>))"

definition GetAuditLogs :: "audit_row list dbop" where
  "GetAuditLogs = db_Query (\<lambda>d. at_rows (db_audit d))"

definition GetAuditLog :: "int \<Rightarrow> audit_row list dbop" where
  "GetAuditLog i = db_Query (\<lambda>d. filter (\<lambda>a. au_Id a = i) (at_rows (db_audit d)))"

section \<open>Client configurations and monitors\<close>

abbreviation (input) PREFIX_CLIENT_CONFIG :: int where "PREFIX_CLIENT_CONFIG \<equiv> 1"

definition realId :: "int \<Rightarrow> string \<Rightarrow> string" where
  "realId prefix i = itoa prefix @ '':'' @ i"

definition InsertClientConfig :: "string \<Rightarrow> string \<Rightarrow> unit dbop" where
  "InsertClientConfig i data =
     (let i = realId PREFIX_CLIENT_CONFIG i in
      db_Write (\<lambda>d.
        if \<exists>r \<in> set (db_any d). any_Id r = i then Inl ConstraintFailed
        else Inr (d\<lparr>db_any := db_any d @ [\<lparr>any_Id = i, any_Data = data\<rparr>]\<rparr>)))"

definition GetClientConfig :: "string \<Rightarrow> any_row list dbop" where
  "GetClientConfig i =
     (let i = realId PREFIX_CLIENT_CONFIG i in db_Query (\<lambda>d. filter (\<lambda>r. any_Id r = i) (db_any d)))"

definition DeleteClientConfig :: "string \<Rightarrow> unit dbop" where
  "DeleteClientConfig i =
     (let i = realId PREFIX_CLIENT_CONFIG i in
      db_Write (\<lambda>d. Inr (d\<lparr>db_any := delete_where (\<lambda>r. any_Id r = i) (db_any d)\<rparr>)))"

definition GetMonitor :: "int \<Rightarrow> monitor_row dbop" where
  "GetMonitor clusterId =
     bindD (db_Query (\<lambda>d. filter (\<lambda>m. mon_ClusterId m = clusterId) (db_monitors d))) (\<lambda>rows.
       returnD (fold (\<lambda>r m. m\<lparr>mon_Monitor := mon_Monitor r\<rparr>) rows \<lparr>mon_ClusterId = clusterId, mon_Monitor = []\<rparr>))"

definition InsertMonitor :: "monitor_row \<Rightarrow> unit dbop" where
  "InsertMonitor m =
     db_Write (\<lambda>d.
       if \<exists>r \<in> set (db_monitors d). mon_ClusterId r = mon_ClusterId m then Inl ConstraintFailed
       else Inr (d\<lparr>db_monitors := db_monitors d @ [m]\<rparr>))"

definition UpdateMonitor :: "monitor_row \<Rightarrow> unit dbop" where
  "UpdateMonitor m =
     db_Write (\<lambda>d. Inr (d\<lparr>db_monitors := update_where (\<lambda>r. mon_ClusterId r = mon_ClusterId m)
       (\<lambda>r. r\<lparr>mon_Monitor := mon_Monitor m\<rparr>) (db_monitors d)\<rparr>))"

definition DeleteMonitor :: "int \<Rightarrow> unit dbop" where
  "DeleteMonitor clusterId =
     db_Write (\<lambda>d. Inr (d\<lparr>db_monitors := delete_where (\<lambda>r. mon_ClusterId r = clusterId) (db_monitors d)\<rparr>))"

definition ReplaceMonitor :: "monitor_row \<Rightarrow> unit dbop" where
  "ReplaceMonitor m =
     db_Write (\<lambda>d. Inr (d\<lparr>db_monitors :=
       delete_where (\<lambda>r. mon_ClusterId r = mon_ClusterId m) (db_monitors d) @ [m]\<rparr>))"

section \<open>Statements without and with faults\<close>

lemma tick_simps [simp]:
  "db_faults d = [] \<Longrightarrow> tick d = (d, False)"
  by (simp add: tick_def)

lemma tick_tables: "tick d = (d', b) \<Longrightarrow> d' = d\<lparr>db_faults := tl (db_faults d)\<rparr>"
  by (auto simp: tick_def split: list.splits)

lemma Query_ok [simp]: "db_faults d = [] \<Longrightarrow> db_Query sel d = (d, Inr (sel d))"
  by (simp add: db_Query_def)

lemma Write_ok [simp]:
  "db_faults d = [] \<Longrightarrow> db_Write upd d = (case upd d of Inl e \<Rightarrow> (d, Inl e) | Inr d' \<Rightarrow> (d', Inr ()))"
  by (simp add: db_Write_def)

lemma bindD_simps [simp]:
  "m d = (d', Inr x) \<Longrightarrow> bindD m f d = f x d'" "m d = (d', Inl e) \<Longrightarrow> bindD m f d = (d', Inl e)"
  by (simp_all add: bindD_def)

lemma returnD_simps [simp]: "returnD x d = (d, Inr x)" "failD e d = (d, Inl e)"
  by (simp_all add: returnD_def failD_def)

text \<open>A property of the tables that every statement of an operation keeps.\<close>

definition keeps :: "(db \<Rightarrow> bool) \<Rightarrow> 'a dbop \<Rightarrow> bool" where
  "keeps P m \<longleftrightarrow> (\<forall>d. P d \<longrightarrow> P (fst (m d)))"

definition tables_only :: "(db \<Rightarrow> bool) \<Rightarrow> bool" where
  "tables_only P \<longleftrightarrow> (\<forall>d fs. P (d\<lparr>db_faults := fs\<rparr>) \<longleftrightarrow> P d)"

lemma keeps_Query [intro]: "tables_only P \<Longrightarrow> keeps P (db_Query sel)"
  by (auto simp: keeps_def tables_only_def db_Query_def dest: tick_tables split: prod.splits)

lemma keeps_Write [intro]:
  "tables_only P \<Longrightarrow> (\<And>d d'. P d \<Longrightarrow> upd d = Inr d' \<Longrightarrow> P d') \<Longrightarrow> keeps P (db_Write upd)"
  by (auto simp: keeps_def tables_only_def db_Write_def dest!: tick_tables split: prod.splits sum.splits)

lemma keeps_bind [intro]: "keeps P m \<Longrightarrow> (\<And>x. keeps P (f x)) \<Longrightarrow> keeps P (bindD m f)"
  by (auto simp: keeps_def bindD_def split: prod.splits sum.splits)

lemma keeps_return [intro]: "keeps P (returnD x)" "keeps P (failD e)"
  by (simp_all add: keeps_def)

section \<open>Tables with keys\<close>

definition auto_ok :: "('a \<Rightarrow> int) \<Rightarrow> 'a auto_table \<Rightarrow> bool" where
  "auto_ok key t \<longleftrightarrow> 0 \<le> at_seq t \<and> distinct (map key (at_rows t)) \<and> (\<forall>r \<in> set (at_rows t). 1 \<le> key r \<and> key r \<le> at_seq t)"

lemma auto_ok_insert: "auto_ok key t \<Longrightarrow> (\<And>i. key (mk i) = i) \<Longrightarrow> auto_ok key (auto_insert mk t)"
  by (force simp: auto_ok_def auto_insert_def)

lemma map_update_where: "(\<And>r. key (f r) = key r) \<Longrightarrow> map key (update_where P f rows) = map key rows"
  by (simp add: update_where_def)

lemma distinct_delete_where: "distinct (map key rows) \<Longrightarrow> distinct (map key (delete_where P rows))"
  by (simp add: delete_where_def distinct_map_filter)

lemma auto_ok_update: "auto_ok key t \<Longrightarrow> (\<And>r. key (f r) = key r) \<Longrightarrow> auto_ok key (rows_update (update_where P f) t)"
  by (auto simp: auto_ok_def rows_update_def map_update_where) (auto simp: update_where_def)

lemma auto_ok_map: "auto_ok key t \<Longrightarrow> (\<And>r. key (f r) = key r) \<Longrightarrow> auto_ok key (rows_update (map f) t)"
  by (auto simp: auto_ok_def rows_update_def comp_def)

lemma auto_ok_delete: "auto_ok key t \<Longrightarrow> auto_ok key (rows_update (delete_where P) t)"
  by (auto simp: auto_ok_def rows_update_def distinct_delete_where) (auto simp: delete_where_def)

lemma filter_key:
  assumes "distinct (map key rows)" and "r \<in> set rows"
  shows "filter (\<lambda>x. key x = key r) rows = [r]"
  using assms
proof (induction rows)
  case (Cons a rows)
  show ?case
  proof (cases "key a = key r")
    case True
    then have "\<forall>x \<in> set rows. key x \<noteq> key r" using Cons.prems(1) by (metis distinct.simps(2) image_eqI list.set_map list.simps(9))
    with True Cons.prems show ?thesis by auto
  qed (use Cons in auto)
qed simp

lemma filter_key_le: "distinct (map key rows) \<Longrightarrow> length (filter (\<lambda>x. key x = k) rows) \<le> 1"
  by (cases "\<exists>r \<in> set rows. key r = k") (auto simp: filter_key)

text \<open>
  The invariant of the database: keys and unique columns are unique, handed-out numbers are within the
  counters, there is at most one row of hosts and of versions, and at most one current cluster.
\<close>

definition clusters_ok :: "cluster auto_table \<Rightarrow> bool" where
  "clusters_ok t \<longleftrightarrow> auto_ok clu_Id t \<and> distinct (map clu_Name (at_rows t)) \<and> length (filter clu_Current (at_rows t)) \<le> 1"

definition db_ok :: "db \<Rightarrow> bool" where
  "db_ok d \<longleftrightarrow>
     length (at_rows (db_version d)) \<le> 1 \<and> length (at_rows (db_hosts d)) \<le> 1 \<and> clusters_ok (db_clusters d) \<and>
     distinct (map srv_Id (db_containers d)) \<and> distinct (map cli_Id (db_clients d)) \<and>
     auto_ok pg_Id (db_playgrounds d) \<and> distinct (map pg_Name (at_rows (db_playgrounds d))) \<and>
     auto_ok au_Id (db_audit d) \<and> distinct (map any_Id (db_any d)) \<and> distinct (map mon_ClusterId (db_monitors d))"

lemma tables_only_db_ok [simp]: "tables_only db_ok"
  by (simp add: tables_only_def db_ok_def)

lemma length_update_where [simp]: "length (update_where P f rows) = length rows"
  by (simp add: update_where_def)

lemma filter_same_length: "(\<And>r. P (f r) = P r) \<Longrightarrow> length (filter P (update_where Q f rows)) = length (filter P rows)"
  by (induction rows) (auto simp: update_where_def)

lemma clusters_ok_update:
  assumes "clusters_ok t" and "\<And>r. clu_Id (f r) = clu_Id r" and "\<And>r. clu_Name (f r) = clu_Name r" and "\<And>r. clu_Current (f r) = clu_Current r"
  shows "clusters_ok (rows_update (update_where P f) t)"
  using assms
  by (simp add: clusters_ok_def auto_ok_update) (simp add: rows_update_def map_update_where filter_same_length)

lemma clusters_ok_checkout:
  assumes "clusters_ok t"
  shows "clusters_ok (rows_update (map (\<lambda>c. c\<lparr>clu_Current := (clu_Name c = name)\<rparr>)) t)"
proof -
  have "filter clu_Current (map (\<lambda>c. c\<lparr>clu_Current := (clu_Name c = name)\<rparr>) rows) =
      map (\<lambda>c. c\<lparr>clu_Current := True\<rparr>) (filter (\<lambda>c. clu_Name c = name) rows)" for rows
    by (induction rows) auto
  with assms filter_key_le [of clu_Name] show ?thesis
    by (auto simp: clusters_ok_def auto_ok_map) (simp_all add: rows_update_def comp_def)
qed

lemma clusters_ok_delete: "clusters_ok t \<Longrightarrow> clusters_ok (rows_update (delete_where P) t)"
proof -
  have "length (filter Q (delete_where P rows)) \<le> length (filter Q rows)" for Q rows
    by (induction rows) (auto simp: delete_where_def)
  then show "clusters_ok t \<Longrightarrow> ?thesis"
    by (auto simp: clusters_ok_def auto_ok_delete) (auto simp: rows_update_def distinct_delete_where intro: order_trans)
qed

section \<open>The invariant holds in every reachable state\<close>

text \<open>Write a row when there is none, change the first one otherwise.\<close>

lemma keeps_upsert:
  assumes sel: "\<And>d fs. rows (d\<lparr>db_faults := fs\<rparr>) = rows d"
    and ins: "\<And>d d'. db_ok d \<Longrightarrow> rows d = [] \<Longrightarrow> ins d = Inr d' \<Longrightarrow> db_ok d'"
    and upd: "\<And>x. keeps db_ok (db_Write (upd x))"
  shows "keeps db_ok (bindD (db_Query (\<lambda>d. take 1 (rows d))) (\<lambda>l. case l of [] \<Rightarrow> db_Write ins | x # _ \<Rightarrow> db_Write (upd x)))"
proof -
  have "db_ok (fst (bindD (db_Query (\<lambda>d. take 1 (rows d))) (\<lambda>l. case l of [] \<Rightarrow> db_Write ins | x # _ \<Rightarrow> db_Write (upd x)) d))"
    if d: "db_ok d" for d
  proof (cases "db_Query (\<lambda>d. take 1 (rows d)) d")
    case (Pair d' res)
    then have d': "db_ok d'" "\<And>l. res = Inr l \<Longrightarrow> l = take 1 (rows d')"
      using d tables_only_db_ok by (auto simp: db_Query_def tables_only_def dest!: tick_tables split: prod.splits if_splits)
    consider e where "res = Inl e" | "res = Inr []" | x l where "res = Inr (x # l)" by (cases res; cases "projr res") auto
    then show ?thesis
    proof cases
      case 2
      with d' have "rows d' = []" by force
      let ?d = "d'\<lparr>db_faults := tl (db_faults d')\<rparr>"
      have "db_ok ?d" "rows ?d = []" using d'(1) \<open>rows d' = []\<close> sel tables_only_db_ok by (auto simp: tables_only_def)
      with ins [of ?d] have "db_ok (fst (db_Write ins d'))"
        by (auto simp: db_Write_def dest!: tick_tables split: prod.splits sum.splits)
      with Pair 2 show ?thesis by simp
    next
      case 3
      with upd Pair d'(1) show ?thesis by (simp add: keeps_def)
    qed (use Pair d' in simp)
  qed
  then show ?thesis by (simp add: keeps_def)
qed

lemma keeps_SetVersion: "keeps db_ok (SetVersion v l)"
  unfolding SetVersion_def GetVersions_def
  by (rule keeps_upsert, simp, force simp: db_ok_def auto_insert_def,
      intro keeps_Write tables_only_db_ok, auto simp: db_ok_def rows_update_def)

lemma keeps_SetHosts: "keeps db_ok (SetHosts now data)"
  unfolding SetHosts_def GetHostses_def
  by (rule keeps_upsert, simp, force simp: db_ok_def auto_insert_def,
      intro keeps_Write tables_only_db_ok, auto simp: db_ok_def rows_update_def)

lemma keeps_clusters:
  assumes "\<And>t. clusters_ok t \<Longrightarrow> clusters_ok (rows_update f t)"
  shows "keeps db_ok (db_Write (\<lambda>d. Inr (set_cluster_rows f d)))"
  using assms by (intro keeps_Write) (auto simp: db_ok_def set_cluster_rows_def)

lemma keeps_DeleteCluster: "keeps db_ok (DeleteCluster name)"
  unfolding DeleteCluster_def by (intro keeps_clusters clusters_ok_delete)

lemma keeps_CheckoutCluster: "keeps db_ok (CheckoutCluster name)"
  unfolding CheckoutCluster_def by (intro keeps_clusters clusters_ok_checkout)

lemma keeps_SetClusterTopology: "keeps db_ok (SetClusterTopology i topology)"
  unfolding SetClusterTopology_def by (intro keeps_clusters clusters_ok_update) simp_all

lemma keeps_SetClusterPool: "keeps db_ok (SetClusterPool i topology pool)"
  unfolding SetClusterPool_def by (intro keeps_clusters clusters_ok_update) simp_all

lemma keeps_InsertCluster: "keeps db_ok (InsertCluster now name uuid description topology)"
  unfolding InsertCluster_def
proof (intro keeps_Write tables_only_db_ok)
  fix d d'
  let ?row = "\<lambda>i. \<lparr>clu_Id = i, clu_UUId = uuid, clu_Name = name, clu_Description = description, clu_CreateTime = now,
     clu_Topology = topology, clu_Pool = [], clu_Current = False\<rparr>"
  assume "db_ok d" and "(if \<exists>c \<in> set (cluster_rows d). clu_Name c = name then Inl ConstraintFailed
      else Inr (d\<lparr>db_clusters := auto_insert ?row (db_clusters d)\<rparr>)) = Inr d'"
  then show "db_ok d'"
    using auto_ok_insert [of clu_Id "db_clusters d" ?row]
    by (auto simp: db_ok_def clusters_ok_def split: if_splits) (auto simp: auto_insert_def)
qed

lemma keeps_RenameClusterName: "keeps db_ok (RenameClusterName old new)"
  unfolding RenameClusterName_def GetClusters_def
proof (intro keeps_bind keeps_Query tables_only_db_ok)
  fix clusters :: "cluster list"
  have "keeps db_ok (db_Write (\<lambda>d.
      let d' = set_cluster_rows (update_where (\<lambda>c. clu_Name c = old) (\<lambda>c. c\<lparr>clu_Name := new\<rparr>)) d in
      if distinct (map clu_Name (cluster_rows d')) then Inr d' else Inl ConstraintFailed))"
    by (intro keeps_Write tables_only_db_ok)
      (auto simp: db_ok_def set_cluster_rows_def clusters_ok_def Let_def auto_ok_update split: if_splits,
       simp add: rows_update_def filter_same_length)
  then show "keeps db_ok (if length clusters > 0 then failD ClusterNameExists else db_Write (\<lambda>d.
      let d' = set_cluster_rows (update_where (\<lambda>c. clu_Name c = old) (\<lambda>c. c\<lparr>clu_Name := new\<rparr>)) d in
      if distinct (map clu_Name (cluster_rows d')) then Inr d' else Inl ConstraintFailed))"
    by auto
qed

lemma keeps_InsertService: "keeps db_ok (InsertService c i k)"
  unfolding InsertService_def by (intro keeps_Write tables_only_db_ok) (auto simp: db_ok_def split: if_splits)

lemma keeps_SetContainId: "keeps db_ok (SetContainId i k)"
  unfolding SetContainId_def by (intro keeps_Write tables_only_db_ok) (auto simp: db_ok_def map_update_where)

lemma keeps_InsertClient: "keeps db_ok (InsertClient i kind host k aux)"
  unfolding InsertClient_def by (intro keeps_Write tables_only_db_ok) (auto simp: db_ok_def split: if_splits)

lemma keeps_SetClientAuxInfo: "keeps db_ok (SetClientAuxInfo i aux)"
  unfolding SetClientAuxInfo_def Let_def by (intro keeps_Write tables_only_db_ok) (auto simp: db_ok_def map_update_where)

lemma keeps_DeleteClient: "keeps db_ok (DeleteClient i)"
  unfolding DeleteClient_def by (intro keeps_Write tables_only_db_ok) (auto simp: db_ok_def distinct_delete_where)

lemma keeps_InsertPlayground: "keeps db_ok (InsertPlayground now name mount)"
  unfolding InsertPlayground_def
proof (intro keeps_Write tables_only_db_ok)
  fix d d'
  let ?row = "\<lambda>i. \<lparr>pg_Id = i, pg_Name = name, pg_CreateTime = now, pg_MountPoint = mount, pg_Status = []\<rparr>"
  assume "db_ok d" and "(if \<exists>p \<in> set (at_rows (db_playgrounds d)). pg_Name p = name then Inl ConstraintFailed
      else Inr (d\<lparr>db_playgrounds := auto_insert ?row (db_playgrounds d)\<rparr>)) = Inr d'"
  then show "db_ok d'"
    using auto_ok_insert [of pg_Id "db_playgrounds d" ?row]
    by (auto simp: db_ok_def split: if_splits) (auto simp: auto_insert_def)
qed

lemma keeps_SetPlaygroundStatus: "keeps db_ok (SetPlaygroundStatus name st)"
  unfolding SetPlaygroundStatus_def
  by (intro keeps_Write tables_only_db_ok) (auto simp: db_ok_def auto_ok_update, simp add: rows_update_def map_update_where)

lemma keeps_DeletePlayground: "keeps db_ok (DeletePlayground name)"
  unfolding DeletePlayground_def
  by (intro keeps_Write tables_only_db_ok) (auto simp: db_ok_def auto_ok_delete, simp add: rows_update_def distinct_delete_where)

lemma keeps_InsertAuditLog: "keeps db_ok (InsertAuditLog time dir command st)"
  unfolding InsertAuditLog_def
  by (intro keeps_bind keeps_Write tables_only_db_ok) (auto simp: db_ok_def auto_ok_insert keeps_def)

lemma keeps_SetAuditLogStatus: "keeps db_ok (SetAuditLogStatus i st code)"
  unfolding SetAuditLogStatus_def by (intro keeps_Write tables_only_db_ok) (auto simp: db_ok_def auto_ok_update)

lemma keeps_InsertClientConfig: "keeps db_ok (InsertClientConfig i data)"
  unfolding InsertClientConfig_def Let_def by (intro keeps_Write tables_only_db_ok) (force simp: db_ok_def split: if_splits)

lemma keeps_DeleteClientConfig: "keeps db_ok (DeleteClientConfig i)"
  unfolding DeleteClientConfig_def Let_def by (intro keeps_Write tables_only_db_ok) (auto simp: db_ok_def distinct_delete_where)

lemma keeps_InsertMonitor: "keeps db_ok (InsertMonitor m)"
  unfolding InsertMonitor_def by (intro keeps_Write tables_only_db_ok) (force simp: db_ok_def split: if_splits)

lemma keeps_UpdateMonitor: "keeps db_ok (UpdateMonitor m)"
  unfolding UpdateMonitor_def by (intro keeps_Write tables_only_db_ok) (auto simp: db_ok_def map_update_where)

lemma keeps_DeleteMonitor: "keeps db_ok (DeleteMonitor i)"
  unfolding DeleteMonitor_def by (intro keeps_Write tables_only_db_ok) (auto simp: db_ok_def distinct_delete_where)

lemma keeps_ReplaceMonitor: "keeps db_ok (ReplaceMonitor m)"
  unfolding ReplaceMonitor_def
  by (intro keeps_Write tables_only_db_ok) (auto simp: db_ok_def distinct_delete_where, auto simp: delete_where_def)

lemmas keeps_operations =
  keeps_SetVersion keeps_SetHosts keeps_InsertCluster keeps_DeleteCluster keeps_RenameClusterName keeps_CheckoutCluster
  keeps_SetClusterTopology keeps_SetClusterPool keeps_InsertService keeps_SetContainId keeps_InsertClient
  keeps_SetClientAuxInfo keeps_DeleteClient keeps_InsertPlayground keeps_SetPlaygroundStatus keeps_DeletePlayground
  keeps_InsertAuditLog keeps_SetAuditLogStatus keeps_InsertClientConfig keeps_DeleteClientConfig keeps_InsertMonitor
  keeps_UpdateMonitor keeps_DeleteMonitor keeps_ReplaceMonitor

text \<open>One operation that writes, with any arguments, on a database with any faults to come.\<close>

inductive db_step :: "db \<Rightarrow> db \<Rightarrow> bool" where
  "db_step d (fst (SetVersion v l d))"
| "db_step d (fst (SetHosts now data d))"
| "db_step d (fst (InsertCluster now name uuid description topology d))"
| "db_step d (fst (DeleteCluster name d))"
| "db_step d (fst (RenameClusterName name name' d))"
| "db_step d (fst (CheckoutCluster name d))"
| "db_step d (fst (SetClusterTopology n topology d))"
| "db_step d (fst (SetClusterPool n topology pool d))"
| "db_step d (fst (InsertService n i k d))"
| "db_step d (fst (SetContainId i k d))"
| "db_step d (fst (InsertClient i kind host k aux d))"
| "db_step d (fst (SetClientAuxInfo i aux d))"
| "db_step d (fst (DeleteClient i d))"
| "db_step d (fst (InsertPlayground now name mount d))"
| "db_step d (fst (SetPlaygroundStatus name st d))"
| "db_step d (fst (DeletePlayground name d))"
| "db_step d (fst (InsertAuditLog time dir command n d))"
| "db_step d (fst (SetAuditLogStatus n n' code d))"
| "db_step d (fst (InsertClientConfig i data d))"
| "db_step d (fst (DeleteClientConfig i d))"
| "db_step d (fst (InsertMonitor m d))"
| "db_step d (fst (UpdateMonitor m d))"
| "db_step d (fst (DeleteMonitor n d))"
| "db_step d (fst (ReplaceMonitor m d))"

lemma db_step_ok: "db_step d d' \<Longrightarrow> db_ok d \<Longrightarrow> db_ok d'"
  by (induction rule: db_step.induct) (use keeps_operations in \<open>auto simp: keeps_def\<close>)

text \<open>
  C8: whatever operations are applied to a new database, and whichever statements fail on the way, the keys and the
  names of the clusters are unique, there is at most one current cluster, and there is at most one row of hosts.
\<close>

theorem storage_invariant:
  assumes "db_step\<^sup>*\<^sup>* (empty_db\<lparr>db_faults := faults\<rparr>) d"
  shows "db_ok d"
  using assms
proof (induction rule: rtranclp_induct)
  case base
  show ?case by (simp add: db_ok_def empty_db_def clusters_ok_def auto_ok_def)
qed (rule db_step_ok)

end
