(* ===== verification/Cli.thy ===== *)
theory Cli
  imports Playbook Topology_Diff Storage
begin

text \<open>
  The client's session, \<open>cli/cli/cli.go\<close>: reading the topology of the current cluster with the
  addresses of its hosts, selecting services, checking the selection options, switching clusters.

  The readers of the two YAML formats, the uuid source, the digest, the structural hash and the file
  system are the fields of \<open>cli_env\<close>.  Getters, prompts, logging and the audit log are not modelled;
  the services that the database knows are an argument of \<open>CheckId\<close>.
\<close>

section \<open>The session\<close>

record cli_env =
  env_host :: host_env
  env_read_hosts :: "string \<Rightarrow> hosts option"
  env_read_topology :: "string \<Rightarrow> topology option"
  env_uuid :: "nat \<Rightarrow> nat \<Rightarrow> string"
  env_md5 :: "string \<Rightarrow> string"
  env_hash :: hash_fn

record dingocli =
  cl_hosts :: string
  cl_clusterId :: int
  cl_clusterUUId :: string
  cl_clusterName :: string
  cl_clusterTopologyData :: string
  cl_clusterPoolData :: string
  cl_memStorage :: omap
  cl_monitor :: monitor_row

definition SwitchCluster :: "cluster \<Rightarrow> dingocli \<Rightarrow> dingocli" where
  "SwitchCluster c cl =
     cl\<lparr>cl_memStorage := [], cl_clusterId := clu_Id c, cl_clusterUUId := clu_UUId c, cl_clusterName := clu_Name c,
        cl_clusterTopologyData := clu_Topology c, cl_clusterPoolData := clu_Pool c\<rparr>"

fun find_host :: "host_env \<Rightarrow> string \<Rightarrow> host_config list \<Rightarrow> host_config res" where
  "find_host e host [] = Inl (Ec ERR_HOST_NOT_FOUND)"
| "find_host e host (hc # hcs) =
     bindR (hc_GetHost e hc) (\<lambda>h. if h = host then Inr hc else find_host e host hcs)"

definition cli_GetHost :: "cli_env \<Rightarrow> dingocli \<Rightarrow> string \<Rightarrow> host_config res" where
  "cli_GetHost e cl host =
     (if length (cl_hosts cl) = 0 then Inl (Ec ERR_HOST_NOT_FOUND)
      else bindR (ParseHosts (env_host e) (env_read_hosts e) (cl_hosts cl)) (\<lambda>hcs. find_host (env_host e) host hcs))"

fun add_hosts :: "host_env \<Rightarrow> host_config list \<Rightarrow> ctx_map \<Rightarrow> ctx_map res" where
  "add_hosts e [] ctx = Inr ctx"
| "add_hosts e (hc # hcs) ctx =
     bindR (hc_GetHost e hc) (\<lambda>host.
     bindR (hc_GetHostname e hc) (\<lambda>hostname.
     add_hosts e hcs (ctx_Add host hostname ctx)))"

definition ParseTopologyData :: "cli_env \<Rightarrow> dingocli \<Rightarrow> string \<Rightarrow> deploy_config list res" where
  "ParseTopologyData e cl data =
     bindR (ParseHosts (env_host e) (env_read_hosts e) (cl_hosts cl)) (\<lambda>hcs.
     bindR (add_hosts (env_host e) hcs NewContext) (\<lambda>ctx.
     bindR (ParseTopology (env_read_topology e) (env_uuid e 0) data (Some ctx)) (\<lambda>(dcs, _).
     if length dcs = 0 then Inl (Ec ERR_NO_SERVICES_IN_TOPOLOGY) else Inr dcs)))"

definition cli_ParseTopology :: "cli_env \<Rightarrow> dingocli \<Rightarrow> deploy_config list res" where
  "cli_ParseTopology e cl =
     (if cl_clusterId cl = -1 then Inl (Ec ERR_NO_CLUSTER_SPECIFIED)
      else ParseTopologyData e cl (cl_clusterTopologyData cl))"

text \<open>The first data is parsed once for the check and once more for the comparison, with one context throughout.\<close>

definition cli_DiffTopology :: "cli_env \<Rightarrow> dingocli \<Rightarrow> string \<Rightarrow> string \<Rightarrow> topology_diff list res" where
  "cli_DiffTopology e cl data1 data2 =
     bindR (ParseHosts (env_host e) (env_read_hosts e) (cl_hosts cl)) (\<lambda>hcs.
     bindR (add_hosts (env_host e) hcs NewContext) (\<lambda>ctx.
     if length data1 = 0 then Inl (Ec ERR_EMPTY_CLUSTER_TOPOLOGY)
     else bindR (ParseTopology (env_read_topology e) (env_uuid e 0) data1 (Some ctx)) (\<lambda>(dcs, ctx').
     if length dcs = 0 then Inl (Ec ERR_NO_SERVICES_IN_TOPOLOGY)
     else DiffTopology (env_read_topology e) (\<lambda>n. env_uuid e (Suc n)) (env_hash e) data1 data2 ctx')))"

section \<open>Selecting services\<close>

record filter_option =
  fo_Id :: string
  fo_Role :: string
  fo_Host :: string

definition GetServiceId :: "cli_env \<Rightarrow> dingocli \<Rightarrow> string \<Rightarrow> string" where
  "GetServiceId e cl dcId = take 12 (env_md5 e (cl_clusterUUId cl @ ''_'' @ dcId))"

definition GetFilesystemId :: "cli_env \<Rightarrow> string \<Rightarrow> string \<Rightarrow> string" where
  "GetFilesystemId e host mountPoint = take 12 (env_md5 e (''dingofs_filesystem_'' @ host @ ''_'' @ mountPoint))"

fun FilterDeployConfig :: "cli_env \<Rightarrow> dingocli \<Rightarrow> deploy_config list \<Rightarrow> filter_option \<Rightarrow> deploy_config list" where
  "FilterDeployConfig e cl [] options = []"
| "FilterDeployConfig e cl (dc # dcs) options =
     (let serviceId = GetServiceId e cl (dc_id dc); rest = FilterDeployConfig e cl dcs options in
      if (fo_Id options = ''*'' \<or> fo_Id options = serviceId) \<and>
         (fo_Role options = ''*'' \<or> fo_Role options = dc_role dc) \<and>
         (fo_Host options = ''*'' \<or> fo_Host options = dc_host dc)
      then dc # rest else rest)"

fun FilterDeployConfigByGateway :: "deploy_config list \<Rightarrow> filter_option \<Rightarrow> deploy_config option" where
  "FilterDeployConfigByGateway [] options = None"
| "FilterDeployConfigByGateway (dc # dcs) options =
     (if fo_Host options = dc_host dc then Some dc else FilterDeployConfigByGateway dcs options)"

definition FilterDeployConfigByRole :: "cli_env \<Rightarrow> dingocli \<Rightarrow> deploy_config list \<Rightarrow> string \<Rightarrow> deploy_config list" where
  "FilterDeployConfigByRole e cl dcs role =
     FilterDeployConfig e cl dcs \<lparr>fo_Id = ''*'', fo_Role = role, fo_Host = ''*''\<rparr>"

definition IsSameRole :: "deploy_config list \<Rightarrow> bool res" where
  "IsSameRole dcs =
     (case dcs of [] \<Rightarrow> Inl GoPanic | dc # _ \<Rightarrow> Inr (list_all (\<lambda>d. dc_role d = dc_role dc) dcs))"

fun roles_loop :: "deploy_config list \<Rightarrow> bmap \<Rightarrow> string list \<Rightarrow> string list" where
  "roles_loop [] roleMap roles = roles"
| "roles_loop (dc # dcs) roleMap roles =
     (if map_of roleMap (dc_role dc) = None
      then roles_loop dcs (AList.update (dc_role dc) True roleMap) (roles @ [dc_role dc])
      else roles_loop dcs roleMap roles)"

definition GetRoles :: "deploy_config list \<Rightarrow> string list" where
  "GetRoles dcs = roles_loop dcs [] []"

section \<open>Checking options\<close>

definition CheckId :: "string list res \<Rightarrow> string \<Rightarrow> unit res" where
  "CheckId services i =
     bindR services (\<lambda>ids. if list_ex (\<lambda>s. s = i) ids then Inr () else Inl (Ec ERR_ID_NOT_FOUND))"

definition CheckRole :: "cli_env \<Rightarrow> dingocli \<Rightarrow> string \<Rightarrow> unit res" where
  "CheckRole e cl role =
     bindR (cli_ParseTopology e cl) (\<lambda>dcs.
       case dcs of
         [] \<Rightarrow> Inl GoPanic
       | dc # _ \<Rightarrow>
           (let kind = dc_kind dc;
                roles = (if kind = KIND_DINGODB then DINGODB_ROLES
                         else if kind = KIND_DINGOSTORE then DINGOSTORE_ROLES
                         else DINGOFS_ROLES)
            in if \<not> bget (Slice2Map roles) role then
                 (if kind = KIND_DINGOFS then Inl (Ec ERR_UNSUPPORT_DINGOFS_ROLE)
                  else if kind = KIND_DINGODB then Inl (Ec ERR_UNSUPPORT_DINGODB_ROLE)
                  else if kind = KIND_DINGOSTORE then Inl (Ec ERR_UNSUPPORT_DINGOSTORE_ROLE)
                  else Inr ())
               else Inr ()))"

definition CheckHost :: "cli_env \<Rightarrow> dingocli \<Rightarrow> string \<Rightarrow> unit res" where
  "CheckHost e cl host = bindR (cli_GetHost e cl host) (\<lambda>_. Inr ())"

section \<open>Selection lemmas\<close>

lemma FilterDeployConfig_filter:
  "FilterDeployConfig e cl dcs options =
     filter (\<lambda>dc. (fo_Id options = ''*'' \<or> fo_Id options = GetServiceId e cl (dc_id dc)) \<and>
       (fo_Role options = ''*'' \<or> fo_Role options = dc_role dc) \<and>
       (fo_Host options = ''*'' \<or> fo_Host options = dc_host dc)) dcs"
  by (induction dcs) (simp_all add: Let_def)

lemma FilterDeployConfigByRole_filter:
  "role \<noteq> ''*'' \<Longrightarrow> FilterDeployConfigByRole e cl dcs role = filter (\<lambda>dc. dc_role dc = role) dcs"
  by (auto simp: FilterDeployConfigByRole_def FilterDeployConfig_filter intro: filter_cong)

lemma roles_loop_spec:
  assumes "\<forall>r. map_of roleMap r = None \<longleftrightarrow> r \<notin> set roles" and "distinct roles"
  shows "set (roles_loop dcs roleMap roles) = set roles \<union> dc_role ` set dcs \<and> distinct (roles_loop dcs roleMap roles)"
  using assms
proof (induction dcs arbitrary: roleMap roles)
  case (Cons dc dcs)
  show ?case
  proof (cases "dc_role dc \<in> set roles")
    case True
    with Cons.prems Cons.IH [OF Cons.prems] show ?thesis by auto
  next
    case False
    have "\<forall>r. map_of (AList.update (dc_role dc) True roleMap) r = None \<longleftrightarrow> r \<notin> set (roles @ [dc_role dc])"
      using Cons.prems(1) by (auto simp: update_conv')
    from Cons.IH [OF this] False Cons.prems show ?thesis by auto
  qed
qed simp

lemma GetRoles_spec: "set (GetRoles dcs) = dc_role ` set dcs" "distinct (GetRoles dcs)"
  using roles_loop_spec [of "[]" "[]" dcs] by (simp_all add: GetRoles_def)

end
