(* ===== verification/Go_Slice.thy ===== *)
theory Go_Slice
  imports Go_Base
begin

text \<open>
  Slices that share an array: a slice is an array and a length.  The only operation the sources
  apply to a shared slice is leaving out the first occurrence of an element,
  \<open>for i, item := range s { if item == x { s = append(s[:i], s[i+1:]...); break } }\<close>
  (\<open>cluster/deploy.go\<close>, \<open>upgrade.go\<close>, \<open>precheck.go\<close>, \<open>clean.go\<close>).
\<close>

record 'a slice =
  sl_array :: "'a list"
  sl_len :: nat

abbreviation full :: "'a list \<Rightarrow> 'a slice" where
  "full xs \<equiv> \<lparr>sl_array = xs, sl_len = length xs\<rparr>"

definition view :: "'a slice \<Rightarrow> 'a list" where
  "view s = take (sl_len s) (sl_array s)"

fun first_index :: "'a \<Rightarrow> 'a list \<Rightarrow> nat option" where
  "first_index x [] = None"
| "first_index x (y # ys) = (if y = x then Some 0 else map_option Suc (first_index x ys))"

text \<open>The array keeps its length: the elements after the one left out move down, the last place keeps its value.\<close>

definition slice_remove :: "'a \<Rightarrow> 'a slice \<Rightarrow> 'a slice" where
  "slice_remove x s =
     (case first_index x (view s) of
        None \<Rightarrow> s
      | Some i \<Rightarrow>
          \<lparr>sl_array = take i (sl_array s) @ drop (Suc i) (view s) @ drop (sl_len s - 1) (sl_array s),
           sl_len = sl_len s - 1\<rparr>)"

definition slice_ok :: "'a slice \<Rightarrow> bool" where
  "slice_ok s \<longleftrightarrow> sl_len s \<le> length (sl_array s)"

section \<open>The list a slice stands for\<close>

lemma first_index_None: "first_index x xs = None \<longleftrightarrow> x \<notin> set xs"
  by (induction xs) auto

lemma first_index_Some: "first_index x xs = Some i \<Longrightarrow> i < length xs \<and> take i xs @ drop (Suc i) xs = remove1 x xs"
  by (induction xs arbitrary: i) (auto split: if_splits)

text \<open>Leaving an element out of a slice gives the list without its first occurrence.\<close>

lemma view_slice_remove:
  assumes "slice_ok s"
  shows "view (slice_remove x s) = remove1 x (view s)"
proof (cases "first_index x (view s)")
  case None
  then have "x \<notin> set (view s)" by (metis first_index_None)
  with None show ?thesis by (simp add: slice_remove_def remove1_idem)
next
  case (Some i)
  note i = first_index_Some [OF Some]
  then have "i \<le> sl_len s" by (simp add: view_def)
  then have "take i (sl_array s) = take i (view s)" by (simp add: view_def min_absorb1)
  then have "sl_array (slice_remove x s) = remove1 x (view s) @ drop (sl_len s - 1) (sl_array s)"
    using Some i by (simp add: slice_remove_def flip: append_assoc)
  moreover have "length (remove1 x (view s)) = sl_len s - 1"
    using Some assms first_index_None [of x "view s"] by (auto simp: length_remove1 view_def slice_ok_def)
  moreover have "sl_len (slice_remove x s) = sl_len s - 1" using Some by (simp add: slice_remove_def)
  ultimately show ?thesis by (simp add: view_def [of "slice_remove x s"])
qed

lemma view_full [simp]: "view (full xs) = xs"
  by (simp add: view_def)

lemma view_shorter [simp]: "view \<lparr>sl_array = xs, sl_len = length xs - Suc 0\<rparr> = butlast xs"
  by (simp add: view_def butlast_conv_take)

lemma slice_ok_full [simp]: "slice_ok (full xs)" "slice_ok \<lparr>sl_array = xs, sl_len = length xs - Suc 0\<rparr>"
  by (simp_all add: slice_ok_def)

text \<open>The array keeps its length, so whoever still holds the slice with its old length sees the last element twice.\<close>

lemma slice_remove_array:
  assumes "slice_ok s"
  shows "length (sl_array (slice_remove x s)) = length (sl_array s)"
proof (cases "first_index x (view s)")
  case (Some i)
  with first_index_Some [OF Some] assms show ?thesis
    by (auto simp: slice_remove_def view_def slice_ok_def)
qed (simp add: slice_remove_def)

lemma slice_ok_remove:
  assumes "slice_ok s"
  shows "slice_ok (slice_remove x s)"
proof -
  have "sl_len (slice_remove x s) \<le> sl_len s" by (simp add: slice_remove_def split: option.splits)
  with slice_remove_array [OF assms, of x] assms show ?thesis by (simp add: slice_ok_def)
qed

section \<open>Leaving out several elements\<close>

locale removal =
  fixes items :: "'s \<Rightarrow> 'a list" and remove :: "'a \<Rightarrow> 's \<Rightarrow> 's" and invar :: "'s \<Rightarrow> bool"
  assumes items_remove: "invar s \<Longrightarrow> items (remove x s) = remove1 x (items s)"
    and invar_remove: "invar s \<Longrightarrow> invar (remove x s)"
begin

lemma removes: "invar s \<Longrightarrow> items (fold remove xs s) = fold remove1 xs (items s) \<and> invar (fold remove xs s)"
  by (induction xs arbitrary: s) (simp_all add: items_remove invar_remove)

lemma removes_distinct:
  assumes "invar s" and "distinct (items s)"
  shows "items (fold remove xs s) = filter (\<lambda>x. x \<notin> set xs) (items s)"
proof -
  have "fold remove1 xs l = filter (\<lambda>x. x \<notin> set xs) l" if "distinct l" for l
    using that by (induction xs arbitrary: l) (auto simp: distinct_remove1_removeAll removeAll_filter_not_eq intro: filter_cong)
  with assms removes show ?thesis by simp
qed

end

interpretation slices: removal view slice_remove slice_ok
  by unfold_locales (simp_all add: view_slice_remove slice_ok_remove)

end
