(* ===== verification/Deploy.thy ===== *)
theory Deploy
  imports Cli Go_Slice
begin

text \<open>
  Deploying a cluster: \<open>cli/command/cluster/deploy.go\<close> and \<open>precheck.go\<close>.

  The lists of steps are package variables, and the code that leaves a step out with
  \<open>append(steps[:i], steps[i+1:]...)\<close> writes into the array of the variable.  So the arrays of the
  variables are a state that the generators of playbooks pass on (slices: theory \<open>Go_Slice\<close>).
\<close>

section \<open>Slices of the step tables\<close>

datatype step_table = Tab_Only | Tab_Follow | Tab_Store | Tab_Db | Tab_Precheck | Tab_Upgrade | Tab_Upgrade_Store_Fs

type_synonym step_tables = "step_table \<Rightarrow> int list"

section \<open>The tables of deploy.go\<close>

definition DINGOFS_MDSV2_ONLY_DEPLOY_STEPS :: "int list" where
  "DINGOFS_MDSV2_ONLY_DEPLOY_STEPS =
     [CLEAN_PRECHECK_ENVIRONMENT, PULL_IMAGE, CREATE_CONTAINER, CREATE_MDSV2_CLI_CONTAINER, SYNC_CONFIG,
      START_MDSV2_CLI_CONTAINER, CREATE_META_TABLES, START_FS_MDS]"

definition DINGOFS_MDSV2_FOLLOW_DEPLOY_STEPS :: "int list" where
  "DINGOFS_MDSV2_FOLLOW_DEPLOY_STEPS =
     [CLEAN_PRECHECK_ENVIRONMENT, PULL_IMAGE, CREATE_CONTAINER, CREATE_MDSV2_CLI_CONTAINER, SYNC_CONFIG,
      START_COORDINATOR, START_STORE, CHECK_STORE_HEALTH, START_MDSV2_CLI_CONTAINER, CREATE_META_TABLES,
      START_FS_MDS, START_DINGODB_EXECUTOR]"

definition DINGOSTORE_DEPLOY_STEPS :: "int list" where
  "DINGOSTORE_DEPLOY_STEPS =
     [CLEAN_PRECHECK_ENVIRONMENT, PULL_IMAGE, CREATE_CONTAINER, SYNC_CONFIG, START_COORDINATOR, START_STORE,
      CHECK_STORE_HEALTH, START_DINGODB_EXECUTOR]"

definition DINGODB_DEPLOY_STEPS :: "int list" where
  "DINGODB_DEPLOY_STEPS =
     [CLEAN_PRECHECK_ENVIRONMENT, PULL_IMAGE, CREATE_CONTAINER, SYNC_CONFIG, START_COORDINATOR, START_STORE,
      CHECK_STORE_HEALTH, START_DINGODB_DOCUMENT, START_DINGODB_DISKANN, START_DINGODB_INDEX,
      START_DINGODB_EXECUTOR, START_DINGODB_WEB, START_DINGODB_PROXY]"

definition DEPLOY_FILTER_ROLE :: "(int \<times> string) list" where
  "DEPLOY_FILTER_ROLE =
     [(START_MDS, ROLE_FS_MDS), (BALANCE_LEADER, ROLE_FS_MDS), (START_FS_MDS, ROLE_FS_MDS),
      (START_COORDINATOR, ROLE_COORDINATOR), (START_STORE, ROLE_STORE),
      (START_DINGODB_DOCUMENT, ROLE_DINGODB_DOCUMENT), (START_DINGODB_DISKANN, ROLE_DINGODB_DISKANN),
      (START_DINGODB_INDEX, ROLE_DINGODB_INDEX), (START_MDSV2_CLI_CONTAINER, ROLE_FS_MDS_CLI),
      (START_DINGODB_EXECUTOR, ROLE_DINGODB_EXECUTOR), (START_DINGODB_WEB, ROLE_DINGODB_WEB),
      (START_DINGODB_PROXY, ROLE_DINGODB_PROXY), (CHECK_STORE_HEALTH, ROLE_STORE),
      (CREATE_META_TABLES, ROLE_FS_MDS_CLI), (CREATE_MDSV2_CLI_CONTAINER, ROLE_FS_MDS_CLI),
      (SYNC_JAVA_OPTS, ROLE_DINGODB_EXECUTOR)]"

definition DEPLOY_LIMIT_SERVICE :: "(int \<times> int) list" where
  "DEPLOY_LIMIT_SERVICE =
     [(BALANCE_LEADER, 1), (CREATE_META_TABLES, 1), (CREATE_MDSV2_CLI_CONTAINER, 1), (CHECK_STORE_HEALTH, 1),
      (SYNC_JAVA_OPTS, 1)]"

abbreviation ROLE_ALT :: string where "ROLE_ALT \<equiv> ''ALT''"

definition CAN_SKIP_ROLES :: "string list" where
  "CAN_SKIP_ROLES = [ROLE_ALT]"

text \<open>Reading a missing key of a Go map gives the zero value.\<close>

definition filter_role :: "int \<Rightarrow> string" where
  "filter_role step = (case map_of DEPLOY_FILTER_ROLE step of None \<Rightarrow> [] | Some r \<Rightarrow> r)"

definition limit_service :: "int \<Rightarrow> int" where
  "limit_service step = (case map_of DEPLOY_LIMIT_SERVICE step of None \<Rightarrow> 0 | Some n \<Rightarrow> n)"

section \<open>The deploy playbook\<close>

record deploy_options =
  do_skip :: "string list"
  do_insecure :: bool
  do_poolset :: string
  do_poolsetDiskType :: string
  do_useLocalImage :: bool

definition checkDeployOptions :: "deploy_options \<Rightarrow> unit res" where
  "checkDeployOptions options =
     (if list_all (bget (Slice2Map CAN_SKIP_ROLES)) (do_skip options) then Inr ()
      else Inl (Ec ERR_UNSUPPORT_SKIPPED_SERVICE_ROLE))"

definition skipServiceRole :: "deploy_config list \<Rightarrow> deploy_options \<Rightarrow> deploy_config list" where
  "skipServiceRole deployConfigs options =
     filter (\<lambda>dc. \<not> bget (Slice2Map (do_skip options)) (dc_role dc)) deployConfigs"

definition skipDeploySteps :: "deploy_config list \<Rightarrow> int list \<Rightarrow> deploy_options \<Rightarrow> int list" where
  "skipDeploySteps dcs deploySteps options = map (\<lambda>step. step) deploySteps"

text \<open>The table of a kind of cluster and how much of it is used; none when no case of the kind applies.\<close>

definition deploy_table :: "step_tables \<Rightarrow> string \<Rightarrow> string list \<Rightarrow> (step_table \<times> int slice) option res" where
  "deploy_table tabs kind roles =
     (if kind = KIND_DINGOFS then
        (if Contains roles ROLE_COORDINATOR then
           (let steps = full (tabs Tab_Follow) in
            Inr (Some (Tab_Follow,
              if \<not> Contains roles ROLE_DINGODB_EXECUTOR then steps\<lparr>sl_len := sl_len steps - 1\<rparr> else steps)))
         else if ContainsList roles [ROLE_FS_MDS, ROLE_FS_MDS_CLI] then Inr (Some (Tab_Only, full (tabs Tab_Only)))
         else Inr None)
      else if kind = KIND_DINGOSTORE then Inr (Some (Tab_Store, full (tabs Tab_Store)))
      else if kind = KIND_DINGODB then Inr (Some (Tab_Db, full (tabs Tab_Db)))
      else Inl (Ec ERR_UNSUPPORT_CLUSTER_KIND))"

text \<open>Leaving out the step that pulls images, for a table and the slice of it in use.\<close>

definition without_pull :: "bool \<Rightarrow> step_table \<Rightarrow> int slice \<Rightarrow> step_tables \<Rightarrow> step_tables \<times> int list" where
  "without_pull local t s tabs =
     (if local then let s' = slice_remove PULL_IMAGE s in (tabs(t := sl_array s'), view s')
      else (tabs, view s))"

text \<open>
  \<open>config[:n]\<close>: the limits are all 1, and a slice without elements that the role filter made has no
  capacity, so it panics when there are fewer than \<open>n\<close> elements.
\<close>

definition slice_to :: "int \<Rightarrow> 'a list \<Rightarrow> 'a list res" where
  "slice_to n l = (if n \<le> int (length l) then Inr (take (nat n) l) else Inl GoPanic)"

definition limit_configs :: "int \<Rightarrow> deploy_config list \<Rightarrow> deploy_config list res" where
  "limit_configs step config = (if limit_service step > 0 then slice_to (limit_service step) config else Inr config)"

definition deploy_configs :: "cli_env \<Rightarrow> dingocli \<Rightarrow> deploy_config list \<Rightarrow> int \<Rightarrow> deploy_config list res" where
  "deploy_configs e cl dcs step =
     limit_configs step
       (if length (filter_role step) > 0 then FilterDeployConfigByRole e cl dcs (filter_role step) else dcs)"

definition zero_exec_options :: exec_options where
  "zero_exec_options = \<lparr>eo_Concurrency = 0, eo_SilentMainBar = False, eo_SilentSubBar = False, eo_SkipError = False\<rparr>"

definition mk_step :: "int \<Rightarrow> deploy_config list \<Rightarrow> omap \<Rightarrow> exec_options \<Rightarrow> 'cc playbook_step" where
  "mk_step ty dcs options eo =
     \<lparr>ps_Name = [], ps_Type = ty, ps_Configs = DeployConfigs dcs, ps_Options = options, ps_ExecOptions = eo\<rparr>"

definition genDeployPlaybook ::
  "cli_env \<Rightarrow> dingocli \<Rightarrow> deploy_config list \<Rightarrow> deploy_options \<Rightarrow> step_tables \<Rightarrow> step_tables \<times> 'cc playbook res" where
  "genDeployPlaybook e cl dcs options tabs =
     (case dcs of
        [] \<Rightarrow> (tabs, Inl GoPanic)
      | dc # _ \<Rightarrow>
          (case deploy_table tabs (dc_kind dc) (GetRoles dcs) of
             Inl err \<Rightarrow> (tabs, Inl err)
           | Inr t \<Rightarrow>
               (let (tabs', steps) = (case t of None \<Rightarrow> (tabs, []) | Some (t, s) \<Rightarrow> without_pull (do_useLocalImage options) t s tabs)
                in (tabs',
                    foldR (\<lambda>step pb.
                        bindR (deploy_configs e cl dcs step) (\<lambda>config.
                          Inr (pb_AddStep (mk_step step config [] zero_exec_options) pb)))
                      (skipDeploySteps dcs steps options) NewPlaybook))))"

section \<open>The precheck playbook\<close>

definition CHECK_ITEMS :: "string list" where
  "CHECK_ITEMS = [''topology'', ''ssh'', ''permission'', ''kernel'', ''network'', ''date'', ''service'']"

definition DINGOFS_PRECHECK_STEPS :: "int list" where
  "DINGOFS_PRECHECK_STEPS =
     [CHECK_TOPOLOGY, CHECK_SSH_CONNECT, CHECK_PERMISSION, CLEAN_PRECHECK_ENVIRONMENT, CHECK_PORT_IN_USE,
      START_HTTP_SERVER, CHECK_DESTINATION_REACHABLE, GET_HOST_DATE, CHECK_HOST_DATE]"

definition PRECHECK_POST_STEPS :: "int list" where
  "PRECHECK_POST_STEPS = [CLEAN_PRECHECK_ENVIRONMENT]"

definition BELONG_CHECK_ITEM :: "(int \<times> string) list" where
  "BELONG_CHECK_ITEM =
     [(CHECK_TOPOLOGY, ''topology''), (CHECK_SSH_CONNECT, ''ssh''), (CHECK_PERMISSION, ''permission''),
      (CHECK_KERNEL_VERSION, ''kernel''), (CHECK_PORT_IN_USE, ''network''), (CHECK_DESTINATION_REACHABLE, ''network''),
      (CHECK_NETWORK_FIREWALL, ''network''), (GET_HOST_DATE, ''date''), (CHECK_HOST_DATE, ''date''),
      (CHECK_S3, ''service'')]"

definition check_item :: "int \<Rightarrow> string" where
  "check_item step = (case map_of BELONG_CHECK_ITEM step of None \<Rightarrow> [] | Some i \<Rightarrow> i)"

record precheck_options =
  po_skip :: "string list"
  po_useLocalImage :: bool

definition checkPrecheckOptions :: "precheck_options \<Rightarrow> unit res" where
  "checkPrecheckOptions options =
     (if list_all (bget (Slice2Map CHECK_ITEMS)) (po_skip options) then Inr ()
      else Inl (Ec ERR_UNSUPPORT_SKIPPED_CHECK_ITEM))"

definition skipPrecheckSteps :: "precheck_options \<Rightarrow> step_tables \<Rightarrow> step_tables \<times> int list" where
  "skipPrecheckSteps options tabs =
     (let (tabs', steps) = without_pull (po_useLocalImage options) Tab_Precheck (full (tabs Tab_Precheck)) tabs
      in (tabs', filter (\<lambda>step. \<not> bget (Slice2Map (po_skip options)) (check_item step)) steps))"

definition precheck_configs :: "cli_env \<Rightarrow> dingocli \<Rightarrow> deploy_config list \<Rightarrow> int \<Rightarrow> deploy_config list res" where
  "precheck_configs e cl dcs step =
     (if step = CHECK_TOPOLOGY then slice_to 1 dcs
      else if step = CHECK_KERNEL_VERSION then Inr (FilterDeployConfigByRole e cl dcs ROLE_ALT)
      else if step = CHECK_HOST_DATE then slice_to 1 dcs
      else Inr dcs)"

definition precheck_step :: "deploy_config list \<Rightarrow> string list \<Rightarrow> int \<Rightarrow> deploy_config list \<Rightarrow> 'cc playbook_step" where
  "precheck_step dcs skipRoles step configs =
     mk_step step configs
       [(''ALL_DEPLOY_CONFIGS'', ODeploys dcs), (''CHECK_WITH_WEAK'', OVal (GBool False)),
        (''SKIP_CHECKS_ROLES'', OStrs skipRoles)]
       (zero_exec_options\<lparr>eo_SilentSubBar := (step = CHECK_HOST_DATE)\<rparr>)"

definition genPrecheckPlaybook ::
  "cli_env \<Rightarrow> dingocli \<Rightarrow> deploy_config list \<Rightarrow> precheck_options \<Rightarrow> step_tables \<Rightarrow> step_tables \<times> 'cc playbook res" where
  "genPrecheckPlaybook e cl dcs options tabs =
     (case dcs of
        [] \<Rightarrow> (tabs, Inl GoPanic)
      | dc # _ \<Rightarrow>
          (case FetchSkipRoles (dc_kind dc) dcs (GetRoles dcs) of
             Inl err \<Rightarrow> (tabs, Inl err)
           | Inr skipRoles \<Rightarrow>
               (let (tabs', steps) = skipPrecheckSteps options tabs
                in (tabs',
                    bindR (foldR (\<lambda>step pb.
                        bindR (precheck_configs e cl dcs step) (\<lambda>configs.
                          Inr (pb_AddStep (precheck_step dcs skipRoles step configs) pb))) steps NewPlaybook) (\<lambda>pb.
                    Inr (fold (\<lambda>step pb.
                          pb_AddPostStep (mk_step step dcs [] (zero_exec_options\<lparr>eo_SilentSubBar := True\<rparr>)) pb)
                        PRECHECK_POST_STEPS pb))))))"

section \<open>The initial tables\<close>

definition UPGRADE_PLAYBOOK_STEPS :: "int list" where
  "UPGRADE_PLAYBOOK_STEPS = [PULL_IMAGE, STOP_SERVICE, CLEAN_SERVICE, CREATE_CONTAINER, SYNC_CONFIG, START_SERVICE]"

definition UPGRADE_STORE_FS_STEPS :: "int list" where
  "UPGRADE_STORE_FS_STEPS =
     [PULL_IMAGE, STOP_SERVICE, CLEAN_SERVICE, CREATE_CONTAINER, SYNC_CONFIG, START_COORDINATOR, START_STORE,
      CHECK_STORE_HEALTH, START_FS_MDS, START_DINGODB_EXECUTOR]"

fun initial_tables :: step_tables where
  "initial_tables Tab_Only = DINGOFS_MDSV2_ONLY_DEPLOY_STEPS"
| "initial_tables Tab_Follow = DINGOFS_MDSV2_FOLLOW_DEPLOY_STEPS"
| "initial_tables Tab_Store = DINGOSTORE_DEPLOY_STEPS"
| "initial_tables Tab_Db = DINGODB_DEPLOY_STEPS"
| "initial_tables Tab_Precheck = DINGOFS_PRECHECK_STEPS"
| "initial_tables Tab_Upgrade = UPGRADE_PLAYBOOK_STEPS"
| "initial_tables Tab_Upgrade_Store_Fs = UPGRADE_STORE_FS_STEPS"

section \<open>Running the commands\<close>

text \<open>
  The process state \<open>'s\<close> that steps act on, and the step tables.  \<open>create\<close> and \<open>exec\<close> are those of
  \<open>pb_Run\<close>; they include everything outside the model that a step does.
\<close>

type_synonym ('cc, 's, 't) runner =
  "('cc playbook_step \<Rightarrow> 's \<Rightarrow> 's \<times> 't res) \<times> ('t \<Rightarrow> exec_options \<Rightarrow> 's \<Rightarrow> 's \<times> terr option)"

definition run_playbook :: "('cc, 's, 't) runner \<Rightarrow> 'cc playbook res \<Rightarrow> 's \<Rightarrow> 's \<times> terr option" where
  "run_playbook r pb s =
     (case pb of Inl err \<Rightarrow> (s, Some (TErr err)) | Inr p \<Rightarrow> pb_Run (fst r) (snd r) p s)"

definition runPrecheck ::
  "('cc, 's, 't) runner \<Rightarrow> cli_env \<Rightarrow> dingocli \<Rightarrow> precheck_options \<Rightarrow> step_tables \<times> 's \<Rightarrow> (step_tables \<times> 's) \<times> terr option" where
  "runPrecheck r e cl options st =
     (case cli_ParseTopology e cl of
        Inl err \<Rightarrow> (st, Some (TErr err))
      | Inr dcs \<Rightarrow>
          (let (tabs', pb) = genPrecheckPlaybook e cl dcs options (fst st);
               (s', err) = run_playbook r pb (snd st)
           in ((tabs', s'), err)))"

definition precheckBeforeDeploy ::
  "('cc, 's, 't) runner \<Rightarrow> cli_env \<Rightarrow> dingocli \<Rightarrow> deploy_config list \<Rightarrow> deploy_options \<Rightarrow>
   step_tables \<times> 's \<Rightarrow> (step_tables \<times> 's) \<times> terr option" where
  "precheckBeforeDeploy r e cl dcs options st =
     (if do_insecure options then (st, None)
      else
        (let (tabs', pb) = genPrecheckPlaybook e cl dcs \<lparr>po_skip = [], po_useLocalImage = False\<rparr> (fst st);
             (s', err) = run_playbook r pb (snd st)
         in ((tabs', s'), err)))"

definition runDeploy ::
  "('cc, 's, 't) runner \<Rightarrow> cli_env \<Rightarrow> dingocli \<Rightarrow> deploy_options \<Rightarrow> step_tables \<times> 's \<Rightarrow> (step_tables \<times> 's) \<times> terr option" where
  "runDeploy r e cl options st =
     (case cli_ParseTopology e cl of
        Inl err \<Rightarrow> (st, Some (TErr err))
      | Inr dcs0 \<Rightarrow>
          (let dcs = skipServiceRole dcs0 options in
           case precheckBeforeDeploy r e cl dcs options st of
             (st1, Some err) \<Rightarrow> (st1, Some err)
           | (st1, None) \<Rightarrow>
               (let (tabs', pb) = genDeployPlaybook e cl dcs options (fst st1);
                    (s', err) = run_playbook r pb (snd st1)
                in ((tabs', s'), err))))"

text \<open>The title of a deployment.\<close>

definition statistics :: "deploy_config list \<Rightarrow> string \<Rightarrow> int" where
  "statistics dcs role = fold (\<lambda>dc n. if dc_role dc = role then n + 1 else n) dcs 0"

definition serviceStats :: "deploy_config list \<Rightarrow> string res" where
  "serviceStats dcs =
     (let count = (\<lambda>role. show_dec (statistics dcs role)) in
      case dcs of
        [] \<Rightarrow> Inl GoPanic
      | dc # _ \<Rightarrow>
          (let kind = dc_kind dc in
           if kind = KIND_DINGOFS then
             (if Contains (GetRoles dcs) ROLE_FS_MDS_CLI then
                Inr (''coordinator*'' @ count ROLE_COORDINATOR @ '', store*'' @ count ROLE_STORE @
                     '', mds*'' @ count ROLE_FS_MDS @ '', executor*'' @ count ROLE_DINGODB_EXECUTOR)
              else
                Inr (''etcd*'' @ count ROLE_ETCD @ '', mds*'' @ count ROLE_FS_MDS @
                     '', metaserver*'' @ count ROLE_METASERVER))
           else if kind = KIND_DINGOSTORE then
             Inr (''coordinator*'' @ count ROLE_COORDINATOR @ '', store*'' @ count ROLE_STORE @
                  '', executor*'' @ count ROLE_DINGODB_EXECUTOR)
           else if kind = KIND_DINGODB then
             Inr (''coordinator*'' @ count ROLE_COORDINATOR @ '', store*'' @ count ROLE_STORE @
                  '', document*'' @ count ROLE_DINGODB_DOCUMENT @ '', diskann*'' @ count ROLE_DINGODB_DISKANN @
                  '', index*'' @ count ROLE_DINGODB_INDEX @ '', executor*'' @ count ROLE_DINGODB_EXECUTOR)
           else Inr ''unknown''))"

section \<open>What the deploy playbook holds\<close>

lemma pb_AddStep_sel [simp]:
  "pb_steps (pb_AddStep x pb) = pb_steps pb @ [x]" "(pb_AddStep x pb)\<lparr>pb_steps := l\<rparr> = pb\<lparr>pb_steps := l\<rparr>"
  by (simp_all add: pb_AddStep_def)

lemma foldR_AddStep:
  "foldR (\<lambda>step pb. bindR (f step) (\<lambda>c. Inr (pb_AddStep (g step c) pb))) steps pb =
     bindR (mapR (\<lambda>step. bindR (f step) (\<lambda>c. Inr (g step c))) steps) (\<lambda>l. Inr (pb\<lparr>pb_steps := pb_steps pb @ l\<rparr>))"
proof (induction steps arbitrary: pb)
  case (Cons step steps)
  show ?case
    by (cases "f step"; cases "mapR (\<lambda>step. bindR (f step) (\<lambda>c. Inr (g step c))) steps")
      (simp_all add: Cons.IH)
qed simp

text \<open>The services of a step, when there are enough for its limit.\<close>

definition step_services :: "deploy_config list \<Rightarrow> int \<Rightarrow> deploy_config list" where
  "step_services dcs step =
     (let l = (if filter_role step = [] then dcs else filter (\<lambda>dc. dc_role dc = filter_role step) dcs)
      in if limit_service step > 0 then take 1 l else l)"

lemma filter_role_star: "filter_role step \<noteq> ''*''"
  by (auto simp: filter_role_def DEPLOY_FILTER_ROLE_def split: option.splits dest!: map_of_SomeD)

lemma limit_service_cases: "limit_service step = 0 \<or> limit_service step = 1"
  by (auto simp: limit_service_def DEPLOY_LIMIT_SERVICE_def split: option.splits dest!: map_of_SomeD)

lemma limited_has_role: "limit_service step > 0 \<Longrightarrow> filter_role step \<noteq> []"
  by (auto simp: limit_service_def DEPLOY_LIMIT_SERVICE_def filter_role_def DEPLOY_FILTER_ROLE_def split: if_splits)

lemma deploy_configs_eq:
  "deploy_configs e cl dcs step =
     (if limit_service step > 0 \<and> (\<forall>dc \<in> set dcs. dc_role dc \<noteq> filter_role step) then Inl GoPanic
      else Inr (step_services dcs step))"
  using limit_service_cases [of step] limited_has_role [of step] filter_role_star [of step]
  by (auto simp: deploy_configs_def limit_configs_def slice_to_def step_services_def FilterDeployConfigByRole_filter
      filter_empty_conv Suc_le_eq)

definition built_step :: "deploy_config list \<Rightarrow> int \<Rightarrow> 'cc playbook_step" where
  "built_step dcs step = mk_step step (step_services dcs step) [] zero_exec_options"

lemma mapR_built:
  assumes "mapR (\<lambda>step. bindR (deploy_configs e cl dcs step)
      (\<lambda>c. Inr (mk_step step c [] zero_exec_options))) steps = Inr l"
  shows "l = map (built_step dcs) steps"
  using assms by (induction steps arbitrary: l) (auto simp: res_simps deploy_configs_eq built_step_def split: if_splits)

lemma mapR_panics:
  "mapR (\<lambda>step. bindR (deploy_configs e cl dcs step) (\<lambda>c. Inr (mk_step step c [] zero_exec_options))) steps = Inl GoPanic \<longleftrightarrow>
     (\<exists>step \<in> set steps. limit_service step > 0 \<and> (\<forall>dc \<in> set dcs. dc_role dc \<noteq> filter_role step))"
  by (induction steps) (auto simp: bindR_eq_Inl deploy_configs_eq)

text \<open>The steps that a cluster gets, from the untouched tables.\<close>

definition deploy_plan :: "string \<Rightarrow> string list \<Rightarrow> int list" where
  "deploy_plan kind roles =
     (if kind = KIND_DINGOFS then
        (if Contains roles ROLE_COORDINATOR then
           (if Contains roles ROLE_DINGODB_EXECUTOR then DINGOFS_MDSV2_FOLLOW_DEPLOY_STEPS
            else butlast DINGOFS_MDSV2_FOLLOW_DEPLOY_STEPS)
         else if ContainsList roles [ROLE_FS_MDS, ROLE_FS_MDS_CLI] then DINGOFS_MDSV2_ONLY_DEPLOY_STEPS
         else [])
      else if kind = KIND_DINGOSTORE then DINGOSTORE_DEPLOY_STEPS
      else DINGODB_DEPLOY_STEPS)"

definition known_kind :: "string \<Rightarrow> bool" where
  "known_kind kind \<longleftrightarrow> kind \<in> {KIND_DINGOFS, KIND_DINGOSTORE, KIND_DINGODB}"

lemmas deploy_tables =
  DINGOFS_MDSV2_FOLLOW_DEPLOY_STEPS_def DINGOFS_MDSV2_ONLY_DEPLOY_STEPS_def DINGOSTORE_DEPLOY_STEPS_def
  DINGODB_DEPLOY_STEPS_def

definition planned_steps :: "bool \<Rightarrow> string \<Rightarrow> string list \<Rightarrow> int list" where
  "planned_steps local kind roles =
     (if local then remove1 PULL_IMAGE (deploy_plan kind roles) else deploy_plan kind roles)"

lemma deploy_table_view:
  assumes "deploy_table initial_tables kind roles = Inr t" and "known_kind kind"
  shows "(case t of None \<Rightarrow> (tabs, []) | Some (t, s) \<Rightarrow> without_pull local t s tabs) =
     (case t of None \<Rightarrow> tabs | Some (t, s) \<Rightarrow> fst (without_pull local t s tabs), planned_steps local kind roles)"
  using assms
  by (auto simp: deploy_table_def without_pull_def planned_steps_def deploy_plan_def known_kind_def view_slice_remove
      Let_def split: if_splits)

lemma genDeployPlaybook_result:
  "snd (genDeployPlaybook e cl (dc0 # ds) options initial_tables :: step_tables \<times> 'cc playbook res) =
     (if known_kind (dc_kind dc0) then
        bindR (mapR (\<lambda>step. bindR (deploy_configs e cl (dc0 # ds) step) (\<lambda>c. Inr (mk_step step c [] zero_exec_options)))
                 (planned_steps (do_useLocalImage options) (dc_kind dc0) (GetRoles (dc0 # ds))))
          (\<lambda>l. Inr \<lparr>pb_steps = l, pb_postSteps = []\<rparr>)
      else Inl (Ec ERR_UNSUPPORT_CLUSTER_KIND))"
proof (cases "deploy_table initial_tables (dc_kind dc0) (GetRoles (dc0 # ds))")
  case (Inl err)
  then have "err = Ec ERR_UNSUPPORT_CLUSTER_KIND" "\<not> known_kind (dc_kind dc0)"
    by (auto simp: deploy_table_def known_kind_def Let_def split: if_splits)
  with Inl show ?thesis by (simp add: genDeployPlaybook_def)
next
  case (Inr t)
  then have k: "known_kind (dc_kind dc0)"
    by (auto simp: deploy_table_def known_kind_def Let_def split: if_splits)
  show ?thesis
    using deploy_table_view [OF Inr k, of initial_tables "do_useLocalImage options"] Inr k
    by (simp add: genDeployPlaybook_def foldR_AddStep skipDeploySteps_def NewPlaybook_def)
qed

text \<open>Starting services.\<close>

definition start_kinds :: "int list" where
  "start_kinds =
     [START_FS_MDS, START_COORDINATOR, START_STORE, START_DINGODB_DOCUMENT, START_DINGODB_DISKANN, START_DINGODB_INDEX,
      START_MDSV2_CLI_CONTAINER, START_DINGODB_EXECUTOR, START_DINGODB_WEB, START_DINGODB_PROXY]"

definition starts :: "deploy_config \<Rightarrow> 'cc playbook_step \<Rightarrow> bool" where
  "starts dc step \<longleftrightarrow>
     ps_Type step \<in> set start_kinds \<and> (case ps_Configs step of DeployConfigs dcs \<Rightarrow> dc \<in> set dcs | _ \<Rightarrow> False)"

text \<open>The roles that the playbook of a cluster starts.\<close>

definition start_roles :: "string \<Rightarrow> string list \<Rightarrow> string list" where
  "start_roles kind roles =
     (if kind = KIND_DINGOFS then
        (if Contains roles ROLE_COORDINATOR then
           [ROLE_COORDINATOR, ROLE_STORE, ROLE_FS_MDS_CLI, ROLE_FS_MDS, ROLE_DINGODB_EXECUTOR]
         else if Contains roles ROLE_FS_MDS \<and> Contains roles ROLE_FS_MDS_CLI then [ROLE_FS_MDS_CLI, ROLE_FS_MDS]
         else [])
      else if kind = KIND_DINGOSTORE then [ROLE_COORDINATOR, ROLE_STORE, ROLE_DINGODB_EXECUTOR]
      else [ROLE_COORDINATOR, ROLE_STORE, ROLE_DINGODB_DOCUMENT, ROLE_DINGODB_DISKANN, ROLE_DINGODB_INDEX,
            ROLE_DINGODB_EXECUTOR, ROLE_DINGODB_WEB, ROLE_DINGODB_PROXY])"

lemma filter_role_start:
  "filter_role START_FS_MDS = ROLE_FS_MDS" "filter_role START_COORDINATOR = ROLE_COORDINATOR"
  "filter_role START_STORE = ROLE_STORE" "filter_role START_DINGODB_DOCUMENT = ROLE_DINGODB_DOCUMENT"
  "filter_role START_DINGODB_DISKANN = ROLE_DINGODB_DISKANN" "filter_role START_DINGODB_INDEX = ROLE_DINGODB_INDEX"
  "filter_role START_MDSV2_CLI_CONTAINER = ROLE_FS_MDS_CLI" "filter_role START_DINGODB_EXECUTOR = ROLE_DINGODB_EXECUTOR"
  "filter_role START_DINGODB_WEB = ROLE_DINGODB_WEB" "filter_role START_DINGODB_PROXY = ROLE_DINGODB_PROXY"
  by (simp_all add: filter_role_def DEPLOY_FILTER_ROLE_def)

lemma start_unlimited: "step \<in> set start_kinds \<Longrightarrow> limit_service step = 0 \<and> filter_role step \<noteq> []"
  by (auto simp: start_kinds_def limit_service_def DEPLOY_LIMIT_SERVICE_def filter_role_start)

lemma starts_built: "starts dc (built_step dcs step) \<longleftrightarrow> step \<in> set start_kinds \<and> dc \<in> set dcs \<and> dc_role dc = filter_role step"
  using start_unlimited [of step] by (auto simp: starts_def built_step_def mk_step_def step_services_def)

lemma starts_count:
  assumes "dc \<in> set dcs"
  shows "length (filter (starts dc) (map (built_step dcs) steps)) =
     length (filter (\<lambda>r. r = dc_role dc) (map filter_role (filter (\<lambda>s. s \<in> set start_kinds) steps)))"
  using assms by (induction steps) (auto simp: starts_built)

text \<open>A plan: preparation, then the starts, one per role.\<close>

lemma deploy_plan_shape:
  assumes "deploy_plan kind roles \<noteq> []" and "known_kind kind"
  shows "\<exists>mid rest. deploy_plan kind roles = [CLEAN_PRECHECK_ENVIRONMENT, PULL_IMAGE, CREATE_CONTAINER] @ mid @ [SYNC_CONFIG] @ rest \<and>
     set mid \<subseteq> {CREATE_MDSV2_CLI_CONTAINER} \<and> PULL_IMAGE \<notin> set rest"
  using assms unfolding deploy_plan_def deploy_tables known_kind_def
  by (auto split: if_splits intro: exI [of _ "[]"] exI [of _ "[CREATE_MDSV2_CLI_CONTAINER]"])

lemma starts_of_tables:
  "map filter_role (filter (\<lambda>s. s \<in> set start_kinds) DINGOFS_MDSV2_FOLLOW_DEPLOY_STEPS) =
     [ROLE_COORDINATOR, ROLE_STORE, ROLE_FS_MDS_CLI, ROLE_FS_MDS, ROLE_DINGODB_EXECUTOR]"
  "map filter_role (filter (\<lambda>s. s \<in> set start_kinds) (butlast DINGOFS_MDSV2_FOLLOW_DEPLOY_STEPS)) =
     [ROLE_COORDINATOR, ROLE_STORE, ROLE_FS_MDS_CLI, ROLE_FS_MDS]"
  "map filter_role (filter (\<lambda>s. s \<in> set start_kinds) DINGOFS_MDSV2_ONLY_DEPLOY_STEPS) = [ROLE_FS_MDS_CLI, ROLE_FS_MDS]"
  "map filter_role (filter (\<lambda>s. s \<in> set start_kinds) DINGOSTORE_DEPLOY_STEPS) =
     [ROLE_COORDINATOR, ROLE_STORE, ROLE_DINGODB_EXECUTOR]"
  "map filter_role (filter (\<lambda>s. s \<in> set start_kinds) DINGODB_DEPLOY_STEPS) =
     [ROLE_COORDINATOR, ROLE_STORE, ROLE_DINGODB_DOCUMENT, ROLE_DINGODB_DISKANN, ROLE_DINGODB_INDEX,
      ROLE_DINGODB_EXECUTOR, ROLE_DINGODB_WEB, ROLE_DINGODB_PROXY]"
  by code_simp+

lemma plan_starts:
  "known_kind kind \<Longrightarrow> map filter_role (filter (\<lambda>s. s \<in> set start_kinds) (deploy_plan kind roles)) =
     (if kind = KIND_DINGOFS \<and> Contains roles ROLE_COORDINATOR \<and> \<not> Contains roles ROLE_DINGODB_EXECUTOR
      then [ROLE_COORDINATOR, ROLE_STORE, ROLE_FS_MDS_CLI, ROLE_FS_MDS] else start_roles kind roles)"
  by (auto simp: deploy_plan_def start_roles_def known_kind_def starts_of_tables)

lemma start_once:
  assumes "known_kind kind" and "dc \<in> set dcs"
  shows "length (filter (\<lambda>r. r = dc_role dc)
      (map filter_role (filter (\<lambda>s. s \<in> set start_kinds) (deploy_plan kind (GetRoles dcs))))) =
    (if dc_role dc \<in> set (start_roles kind (GetRoles dcs)) then 1 else 0)"
proof -
  have once: "distinct l \<Longrightarrow> length (filter (\<lambda>r. r = x) l) = (if x \<in> set l then 1 else 0)" for l and x :: string
    by (induction l) auto
  have d: "distinct (start_roles kind (GetRoles dcs))" by (simp add: start_roles_def)
  show ?thesis
  proof (cases "kind = KIND_DINGOFS \<and> Contains (GetRoles dcs) ROLE_COORDINATOR \<and> \<not> Contains (GetRoles dcs) ROLE_DINGODB_EXECUTOR")
    case True
    then have "dc_role dc \<noteq> ROLE_DINGODB_EXECUTOR" using assms(2) GetRoles_spec(1) [of dcs] by (auto simp: Contains_iff)
    with True show ?thesis unfolding plan_starts [OF assms(1)] by (auto simp: start_roles_def)
  next
    case False
    show ?thesis unfolding plan_starts [OF assms(1)] if_not_P [OF False] by (rule once [OF d])
  qed
qed
lemma deploy_steps:
  assumes "snd (genDeployPlaybook e cl (dc0 # ds) options initial_tables) = Inr pb"
  shows "known_kind (dc_kind dc0) \<and> pb_steps pb = map (built_step (dc0 # ds))
    (planned_steps (do_useLocalImage options) (dc_kind dc0) (GetRoles (dc0 # ds)))"
  using assms mapR_built by (auto simp: genDeployPlaybook_result res_simps split: if_splits)

lemma deploy_start_count:
  assumes "snd (genDeployPlaybook e cl (dc0 # ds) options initial_tables) = Inr pb" and "dc \<in> set (dc0 # ds)"
  shows "length (filter (starts dc) (pb_steps pb)) =
    (if dc_role dc \<in> set (start_roles (dc_kind dc0) (GetRoles (dc0 # ds))) then 1 else 0)"
proof -
  note d = deploy_steps [OF assms(1)]
  have "PULL_IMAGE \<notin> set start_kinds" by (simp add: start_kinds_def)
  then have "filter (\<lambda>s. s \<in> set start_kinds) (remove1 PULL_IMAGE l) = filter (\<lambda>s. s \<in> set start_kinds) l" for l
    by (induction l) auto
  then have f: "filter (\<lambda>s. s \<in> set start_kinds) (planned_steps local kind roles) =
      filter (\<lambda>s. s \<in> set start_kinds) (deploy_plan kind roles)" for local kind roles
    by (simp add: planned_steps_def)
  show ?thesis
    unfolding conjunct2 [OF d] starts_count [OF assms(2)] f by (rule start_once [OF conjunct1 [OF d] assms(2)])
qed

text \<open>
  C4: the playbook of a deployment starts every service of a role that the kind of cluster deploys in exactly one
  step, and services of other roles in none; all starts come after the step that creates the containers and
  the one that writes the configuration, which both cover all services.  This holds with and without pulling images.
\<close>

theorem deploy_starts_each_once:
  assumes "snd (genDeployPlaybook e cl (dc0 # ds) options initial_tables) = Inr pb"
    and "deploy_plan (dc_kind dc0) (GetRoles (dc0 # ds)) \<noteq> []"
  shows "\<exists>pre mid rest.
     pb_steps pb = pre @ [mk_step CREATE_CONTAINER (dc0 # ds) [] zero_exec_options] @ mid @
       [mk_step SYNC_CONFIG (dc0 # ds) [] zero_exec_options] @ rest \<and>
     (\<forall>dc \<in> set (dc0 # ds).
        filter (starts dc) (pre @ mid) = [] \<and>
        length (filter (starts dc) rest) =
          (if dc_role dc \<in> set (start_roles (dc_kind dc0) (GetRoles (dc0 # ds))) then 1 else 0))"
proof -
  let ?dcs = "dc0 # ds"
  let ?roles = "GetRoles ?dcs"
  from deploy_steps [OF assms(1)] have k: "known_kind (dc_kind dc0)"
    and st: "pb_steps pb = map (built_step ?dcs) (planned_steps (do_useLocalImage options) (dc_kind dc0) ?roles)" by auto
  obtain mid rest where p: "deploy_plan (dc_kind dc0) ?roles =
      [CLEAN_PRECHECK_ENVIRONMENT, PULL_IMAGE, CREATE_CONTAINER] @ mid @ [SYNC_CONFIG] @ rest"
    and m: "set mid \<subseteq> {CREATE_MDSV2_CLI_CONTAINER}" and r: "PULL_IMAGE \<notin> set rest"
    using deploy_plan_shape [OF assms(2) k] by blast
  define pre where "pre = (if do_useLocalImage options then [CLEAN_PRECHECK_ENVIRONMENT] else [CLEAN_PRECHECK_ENVIRONMENT, PULL_IMAGE])"
  have ps: "planned_steps (do_useLocalImage options) (dc_kind dc0) ?roles = pre @ [CREATE_CONTAINER] @ mid @ [SYNC_CONFIG] @ rest"
    by (simp add: planned_steps_def p pre_def)
  have none: "filter (\<lambda>s. s \<in> set start_kinds) (pre @ mid) = []"
    using m by (auto simp: pre_def start_kinds_def filter_empty_conv)
  have pre_start: "filter (\<lambda>s. s \<in> set start_kinds) mid = []" "SYNC_CONFIG \<notin> set start_kinds" "CREATE_CONTAINER \<notin> set start_kinds"
      "PULL_IMAGE \<notin> set start_kinds" "CLEAN_PRECHECK_ENVIRONMENT \<notin> set start_kinds"
    using m by (auto simp: start_kinds_def filter_empty_conv)
  have "built_step ?dcs CREATE_CONTAINER = mk_step CREATE_CONTAINER ?dcs [] zero_exec_options"
    "built_step ?dcs SYNC_CONFIG = mk_step SYNC_CONFIG ?dcs [] zero_exec_options"
    by (simp_all add: built_step_def step_services_def filter_role_def DEPLOY_FILTER_ROLE_def limit_service_def
        DEPLOY_LIMIT_SERVICE_def)
  with st ps have "pb_steps pb = map (built_step ?dcs) pre @ [mk_step CREATE_CONTAINER ?dcs [] zero_exec_options] @
      map (built_step ?dcs) mid @ [mk_step SYNC_CONFIG ?dcs [] zero_exec_options] @ map (built_step ?dcs) rest"
    by simp
  moreover have "filter (starts dc) (map (built_step ?dcs) pre @ map (built_step ?dcs) mid) = []"
    if "dc \<in> set ?dcs" for dc
    using none by (auto simp: filter_empty_conv starts_built)
  moreover have "length (filter (starts dc) (map (built_step ?dcs) rest)) =
      (if dc_role dc \<in> set (start_roles (dc_kind dc0) ?roles) then 1 else 0)" if "dc \<in> set ?dcs" for dc
    unfolding starts_count [OF that] using start_once [OF k that] none by (simp add: p pre_start)
  ultimately show ?thesis by blast
qed


lemma limited_in_plan:
  assumes "known_kind kind"
  shows "(\<exists>step \<in> set (planned_steps local kind roles). limit_service step > 0 \<and> P (filter_role step)) \<longleftrightarrow>
    (if kind = KIND_DINGOFS then
       (if Contains roles ROLE_COORDINATOR then P ROLE_STORE \<or> P ROLE_FS_MDS_CLI
        else Contains roles ROLE_FS_MDS \<and> Contains roles ROLE_FS_MDS_CLI \<and> P ROLE_FS_MDS_CLI)
     else P ROLE_STORE)"
proof -
  have t: "map filter_role (filter (\<lambda>s. limit_service s > 0) DINGOFS_MDSV2_FOLLOW_DEPLOY_STEPS) =
      [ROLE_FS_MDS_CLI, ROLE_STORE, ROLE_FS_MDS_CLI]"
    "map filter_role (filter (\<lambda>s. limit_service s > 0) (butlast DINGOFS_MDSV2_FOLLOW_DEPLOY_STEPS)) =
      [ROLE_FS_MDS_CLI, ROLE_STORE, ROLE_FS_MDS_CLI]"
    "map filter_role (filter (\<lambda>s. limit_service s > 0) DINGOFS_MDSV2_ONLY_DEPLOY_STEPS) =
      [ROLE_FS_MDS_CLI, ROLE_FS_MDS_CLI]"
    "map filter_role (filter (\<lambda>s. limit_service s > 0) DINGOSTORE_DEPLOY_STEPS) = [ROLE_STORE]"
    "map filter_role (filter (\<lambda>s. limit_service s > 0) DINGODB_DEPLOY_STEPS) = [ROLE_STORE]"
    by code_simp+
  have limited_roles: "map filter_role (filter (\<lambda>s. limit_service s > 0) (deploy_plan kind roles)) =
      (if kind = KIND_DINGOFS then
         (if Contains roles ROLE_COORDINATOR then [ROLE_FS_MDS_CLI, ROLE_STORE, ROLE_FS_MDS_CLI]
          else if Contains roles ROLE_FS_MDS \<and> Contains roles ROLE_FS_MDS_CLI then [ROLE_FS_MDS_CLI, ROLE_FS_MDS_CLI]
          else [])
       else [ROLE_STORE])"
    using assms by (auto simp: deploy_plan_def known_kind_def t)
  have pull: "limit_service PULL_IMAGE = 0" by code_simp
  have "(\<exists>step \<in> set (planned_steps local kind roles). limit_service step > 0 \<and> P (filter_role step)) \<longleftrightarrow>
      (\<exists>step \<in> set (deploy_plan kind roles). limit_service step > 0 \<and> P (filter_role step))"
  proof -
    have "step \<in> set (planned_steps local kind roles) \<longleftrightarrow> step \<in> set (deploy_plan kind roles)"
      if "limit_service step > 0" for step
    proof -
      from that pull have "step \<noteq> PULL_IMAGE" by auto
      then show ?thesis by (simp add: planned_steps_def)
    qed
    then show ?thesis by blast
  qed
  also have "\<dots> \<longleftrightarrow> (\<exists>r \<in> set (map filter_role (filter (\<lambda>s. limit_service s > 0) (deploy_plan kind roles))). P r)"
    by auto
  also have "\<dots> \<longleftrightarrow> (if kind = KIND_DINGOFS then
       (if Contains roles ROLE_COORDINATOR then P ROLE_STORE \<or> P ROLE_FS_MDS_CLI
        else Contains roles ROLE_FS_MDS \<and> Contains roles ROLE_FS_MDS_CLI \<and> P ROLE_FS_MDS_CLI)
     else P ROLE_STORE)"
    unfolding limited_roles by auto
  finally show ?thesis .
qed

text \<open>
  Generating the deploy playbook panics exactly when there are no services, or when a step for a single
  service finds none: no store service where the health of the stores is checked, or no temporary mds
  client where the meta tables are created.
\<close>

theorem deploy_panics:
  "snd (genDeployPlaybook e cl dcs options initial_tables :: step_tables \<times> 'cc playbook res) = Inl GoPanic \<longleftrightarrow>
     (case dcs of
        [] \<Rightarrow> True
      | dc0 # _ \<Rightarrow>
          known_kind (dc_kind dc0) \<and>
          (if dc_kind dc0 \<noteq> KIND_DINGOFS then ROLE_STORE \<notin> dc_role ` set dcs
           else Contains (GetRoles dcs) ROLE_COORDINATOR \<and> \<not> {ROLE_STORE, ROLE_FS_MDS_CLI} \<subseteq> dc_role ` set dcs \<or>
             \<not> Contains (GetRoles dcs) ROLE_COORDINATOR \<and> Contains (GetRoles dcs) ROLE_FS_MDS \<and>
             Contains (GetRoles dcs) ROLE_FS_MDS_CLI \<and> ROLE_FS_MDS_CLI \<notin> dc_role ` set dcs))"
proof (cases dcs)
  case (Cons dc0 ds)
  let ?none = "\<lambda>r. \<forall>dc \<in> set dcs. dc_role dc \<noteq> r"
  have hd: "dcs \<noteq> []" "hd dcs = dc0" by (simp_all add: Cons)
  have none: "?none r \<longleftrightarrow> r \<notin> dc_role ` set dcs" for r by auto
  show ?thesis
  proof (cases "known_kind (dc_kind dc0)")
    case True
    have "snd (genDeployPlaybook e cl dcs options initial_tables :: step_tables \<times> 'cc playbook res) = Inl GoPanic \<longleftrightarrow>
        (\<exists>step \<in> set (planned_steps (do_useLocalImage options) (dc_kind dc0) (GetRoles dcs)).
           limit_service step > 0 \<and> ?none (filter_role step))"
      using True by (simp add: Cons genDeployPlaybook_result bindR_eq_Inl mapR_panics)
    also note limited_in_plan [OF True, of _ _ ?none]
    finally have "snd (genDeployPlaybook e cl dcs options initial_tables :: step_tables \<times> 'cc playbook res) = Inl GoPanic \<longleftrightarrow>
        (if dc_kind dc0 = KIND_DINGOFS then
           (if Contains (GetRoles dcs) ROLE_COORDINATOR
            then ROLE_STORE \<notin> dc_role ` set dcs \<or> ROLE_FS_MDS_CLI \<notin> dc_role ` set dcs
            else Contains (GetRoles dcs) ROLE_FS_MDS \<and> Contains (GetRoles dcs) ROLE_FS_MDS_CLI \<and>
              ROLE_FS_MDS_CLI \<notin> dc_role ` set dcs)
         else ROLE_STORE \<notin> dc_role ` set dcs)" unfolding none .
    then show ?thesis using True hd by (simp add: list.case_eq_if)
  next
    case False
    then show ?thesis by (simp add: Cons genDeployPlaybook_result)
  qed
qed (simp add: genDeployPlaybook_def)

lemma slice_to_one: "dcs \<noteq> [] \<Longrightarrow> slice_to 1 dcs = Inr (take 1 dcs)"
  by (cases dcs) (simp_all add: slice_to_def)

definition checked_services :: "deploy_config list \<Rightarrow> int \<Rightarrow> deploy_config list" where
  "checked_services dcs step = (if step = CHECK_TOPOLOGY \<or> step = CHECK_HOST_DATE then take 1 dcs else dcs)"

lemma precheck_configs_eq:
  "dcs \<noteq> [] \<Longrightarrow> step \<noteq> CHECK_KERNEL_VERSION \<Longrightarrow> precheck_configs e cl dcs step = Inr (checked_services dcs step)"
  by (simp add: precheck_configs_def slice_to_one checked_services_def)

lemma skipPrecheckSteps_initial:
  "skipPrecheckSteps options initial_tables =
     (initial_tables, filter (\<lambda>step. check_item step \<notin> set (po_skip options)) DINGOFS_PRECHECK_STEPS)"
proof -
  have "first_index PULL_IMAGE DINGOFS_PRECHECK_STEPS = None" by code_simp
  then have r: "slice_remove PULL_IMAGE (full DINGOFS_PRECHECK_STEPS) = full DINGOFS_PRECHECK_STEPS"
    by (simp add: slice_remove_def)
  have "initial_tables(Tab_Precheck := DINGOFS_PRECHECK_STEPS) = initial_tables" by (simp add: fun_upd_idem)
  then show ?thesis by (simp add: skipPrecheckSteps_def without_pull_def Let_def r)
qed

text \<open>
  For services with a context, the precheck playbook holds the steps of the table whose item is not
  skipped, in order, each over all services (one for the topology and the dates), and the step
  that cleans the environment runs afterwards in every case.
\<close>

theorem precheck_selects:
  assumes "FetchSkipRoles (dc_kind dc0) (dc0 # ds) (GetRoles (dc0 # ds)) = Inr skipRoles"
  shows "(genPrecheckPlaybook e cl (dc0 # ds) options initial_tables :: step_tables \<times> 'cc playbook res) =
     (initial_tables,
      Inr \<lparr>pb_steps = map (\<lambda>step. precheck_step (dc0 # ds) skipRoles step (checked_services (dc0 # ds) step))
             (filter (\<lambda>step. check_item step \<notin> set (po_skip options)) DINGOFS_PRECHECK_STEPS),
           pb_postSteps = [mk_step CLEAN_PRECHECK_ENVIRONMENT (dc0 # ds) [] (zero_exec_options\<lparr>eo_SilentSubBar := True\<rparr>)]\<rparr>)"
proof -
  let ?steps = "filter (\<lambda>step. check_item step \<notin> set (po_skip options)) DINGOFS_PRECHECK_STEPS"
  have "mapR (\<lambda>step. bindR (precheck_configs e cl (dc0 # ds) step) (\<lambda>c. Inr (precheck_step (dc0 # ds) skipRoles step c :: 'cc playbook_step))) ?steps =
      Inr (map (\<lambda>step. precheck_step (dc0 # ds) skipRoles step (checked_services (dc0 # ds) step)) ?steps)"
  proof (rule mapR_all_Inr)
    fix step assume "step \<in> set ?steps"
    then have "step \<in> set DINGOFS_PRECHECK_STEPS" by simp
    then have "step \<noteq> CHECK_KERNEL_VERSION" by (auto simp: DINGOFS_PRECHECK_STEPS_def)
    then show "bindR (precheck_configs e cl (dc0 # ds) step) (\<lambda>c. Inr (precheck_step (dc0 # ds) skipRoles step c :: 'cc playbook_step)) =
        Inr (precheck_step (dc0 # ds) skipRoles step (checked_services (dc0 # ds) step))"
      by (simp add: precheck_configs_eq)
  qed
  with assms show ?thesis
    by (simp add: genPrecheckPlaybook_def skipPrecheckSteps_initial foldR_AddStep NewPlaybook_def PRECHECK_POST_STEPS_def
        pb_AddPostStep_def)
qed

lemma pb_Run_None:
  assumes "pb_Run create exec p s = (s', None)"
  shows "\<exists>s1. steps_ok create exec (pb_steps p) s s1 \<and> s' = fst (pb_run create exec (pb_postSteps p) s1)"
  using assms by (auto simp: pb_Run_def pb_run_ok split: prod.splits if_splits)

lemma run_playbook_None:
  assumes "run_playbook r pb s = (s', None)"
  shows "\<exists>p. pb = Inr p \<and> pb_Run (fst r) (snd r) p s = (s', None)"
  using assms by (cases pb) (auto simp: run_playbook_def)

lemma genDeployPlaybook_posts:
  assumes "snd (genDeployPlaybook e cl dcs options initial_tables) = Inr pb"
  shows "pb_postSteps pb = []"
  using assms by (cases dcs) (auto simp: genDeployPlaybook_result genDeployPlaybook_def [of _ _ "[]"] res_simps split: if_splits)

lemma genPrecheckPlaybook_tables:
  assumes "genPrecheckPlaybook e cl dcs options initial_tables = (tabs, pb)"
  shows "tabs = initial_tables"
  using assms
  by (auto simp: genPrecheckPlaybook_def skipPrecheckSteps_initial Let_def split: list.splits sum.splits prod.splits)


section \<open>A small cluster\<close>

definition demo_cli_env :: cli_env where
  "demo_cli_env =
     \<lparr>env_host = demo_env,
      env_read_hosts = (\<lambda>_. None), env_read_topology = (\<lambda>_. None), env_uuid = (\<lambda>_ _. ''u''), env_md5 = (\<lambda>s. s),
      env_hash = (\<lambda>_. None)\<rparr>"

definition demo_cli :: dingocli where
  "demo_cli =
     \<lparr>cl_hosts = [], cl_clusterId = 1, cl_clusterUUId = ''u'', cl_clusterName = ''c'', cl_clusterTopologyData = ''t'',
      cl_clusterPoolData = [], cl_memStorage = [], cl_monitor = \<lparr>mon_ClusterId = 1, mon_Monitor = []\<rparr>\<rparr>"

definition store_dc :: "string \<Rightarrow> string \<Rightarrow> deploy_config" where
  "store_dc i role = (demo_dc i role ''h1'')\<lparr>dc_kind := KIND_DINGOSTORE\<rparr>"

definition plain_options :: deploy_options where
  "plain_options = \<lparr>do_skip = [], do_insecure = True, do_poolset = ''default'', do_poolsetDiskType = ''ssd'', do_useLocalImage = True\<rparr>"

lemma demo_generates:
  obtains pb :: "unit playbook" where
    "snd (genDeployPlaybook demo_cli_env demo_cli (store_dc ''a'' ROLE_COORDINATOR # [store_dc ''b'' ROLE_STORE]) plain_options initial_tables) = Inr pb"
proof -
  have "case snd (genDeployPlaybook demo_cli_env demo_cli [store_dc ''a'' ROLE_COORDINATOR, store_dc ''b'' ROLE_STORE] plain_options
      initial_tables :: step_tables \<times> unit playbook res) of Inl _ \<Rightarrow> False | Inr _ \<Rightarrow> True"
    by code_simp
  then show thesis using that by (auto split: sum.splits)
qed

theorem deploy_starts_each_once_witness:
  "\<exists>(pb :: unit playbook) pre mid rest.
     snd (genDeployPlaybook demo_cli_env demo_cli (store_dc ''a'' ROLE_COORDINATOR # [store_dc ''b'' ROLE_STORE]) plain_options initial_tables) = Inr pb \<and>
     pb_steps pb = pre @ [mk_step CREATE_CONTAINER (store_dc ''a'' ROLE_COORDINATOR # [store_dc ''b'' ROLE_STORE]) [] zero_exec_options] @ mid @
       [mk_step SYNC_CONFIG (store_dc ''a'' ROLE_COORDINATOR # [store_dc ''b'' ROLE_STORE]) [] zero_exec_options] @ rest \<and>
     length (filter (starts (store_dc ''b'' ROLE_STORE)) rest) = 1"
proof -
  obtain pb :: "unit playbook" where g: "snd (genDeployPlaybook demo_cli_env demo_cli
      (store_dc ''a'' ROLE_COORDINATOR # [store_dc ''b'' ROLE_STORE]) plain_options initial_tables) = Inr pb"
    by (rule demo_generates)
  have k: "dc_kind (store_dc ''a'' ROLE_COORDINATOR) = KIND_DINGOSTORE" by (simp add: store_dc_def)
  have n: "deploy_plan (dc_kind (store_dc ''a'' ROLE_COORDINATOR)) (GetRoles (store_dc ''a'' ROLE_COORDINATOR # [store_dc ''b'' ROLE_STORE])) \<noteq> []"
    by (simp add: k deploy_plan_def DINGOSTORE_DEPLOY_STEPS_def)
  have r: "dc_role (store_dc ''b'' ROLE_STORE) \<in> set (start_roles (dc_kind (store_dc ''a'' ROLE_COORDINATOR)) roles)" for roles
    by (simp add: k start_roles_def) (simp add: store_dc_def demo_dc_def)
  from deploy_starts_each_once [OF g n] obtain pre mid rest where
    "pb_steps pb = pre @ [mk_step CREATE_CONTAINER (store_dc ''a'' ROLE_COORDINATOR # [store_dc ''b'' ROLE_STORE]) [] zero_exec_options] @ mid @
       [mk_step SYNC_CONFIG (store_dc ''a'' ROLE_COORDINATOR # [store_dc ''b'' ROLE_STORE]) [] zero_exec_options] @ rest"
    "length (filter (starts (store_dc ''b'' ROLE_STORE)) rest) = 1"
    using r by auto
  with g show ?thesis by blast
qed

theorem precheck_selects_witness:
  "map ps_Type (pb_steps (projr (snd (genPrecheckPlaybook demo_cli_env demo_cli (store_dc ''a'' ROLE_COORDINATOR # [store_dc ''b'' ROLE_STORE])
     \<lparr>po_skip = [''network'', ''date''], po_useLocalImage = False\<rparr> initial_tables :: step_tables \<times> unit playbook res)))) =
   [CHECK_TOPOLOGY, CHECK_SSH_CONNECT, CHECK_PERMISSION, CLEAN_PRECHECK_ENVIRONMENT, START_HTTP_SERVER]"
proof -
  have f: "FetchSkipRoles (dc_kind (store_dc ''a'' ROLE_COORDINATOR)) (store_dc ''a'' ROLE_COORDINATOR # [store_dc ''b'' ROLE_STORE])
      (GetRoles (store_dc ''a'' ROLE_COORDINATOR # [store_dc ''b'' ROLE_STORE])) = Inr []"
    by (simp add: FetchSkipRoles_def store_dc_def)
  show ?thesis
    unfolding precheck_selects [OF f]
    by (simp add: DINGOFS_PRECHECK_STEPS_def check_item_def BELONG_CHECK_ITEM_def precheck_step_def mk_step_def)
qed
theorem deploy_panics_witness:
  "snd (genDeployPlaybook demo_cli_env demo_cli [store_dc ''a'' ROLE_COORDINATOR] plain_options initial_tables ::
     step_tables \<times> unit playbook res) = Inl GoPanic"
  unfolding deploy_panics by (simp add: store_dc_def demo_dc_def known_kind_def)

end
