(* ===== verification/Cluster_Ops.thy ===== *)
theory Cluster_Ops
  imports Deploy
begin

text \<open>
  The commands that act on the services of a deployed cluster: \<open>start.go\<close>, \<open>stop.go\<close>, \<open>restart.go\<close>,
  \<open>clean.go\<close> and \<open>upgrade.go\<close> under \<open>cli/command/cluster\<close>.

  Each selects services by id, role and host, generates a playbook and runs it, after a confirmation
  (the argument \<open>pass\<close>, the user's answer) unless it is forced.
\<close>

section \<open>Start, stop, restart\<close>

record service_options =
  so_id :: string
  so_role :: string
  so_host :: string
  so_force :: bool

definition checkCommonOptions ::
  "cli_env \<Rightarrow> dingocli \<Rightarrow> string list res \<Rightarrow> string \<Rightarrow> string \<Rightarrow> string \<Rightarrow> unit res" where
  "checkCommonOptions e cl services i role host =
     foldR (\<lambda>(key, callback) _. if key = ''*'' then Inr () else callback key)
       [(i, CheckId services), (role, CheckRole e cl), (host, CheckHost e cl)] ()"

definition selection :: "string \<Rightarrow> string \<Rightarrow> string \<Rightarrow> filter_option" where
  "selection i role host = \<lparr>fo_Id = i, fo_Role = role, fo_Host = host\<rparr>"

definition START_PLAYBOOK_STEPS :: "int list" where "START_PLAYBOOK_STEPS = [START_SERVICE]"
definition STOP_PLAYBOOK_STEPS :: "int list" where "STOP_PLAYBOOK_STEPS = [STOP_SERVICE]"
definition RESTART_PLAYBOOK_STEPS :: "int list" where "RESTART_PLAYBOOK_STEPS = [RESTART_SERVICE]"

definition genStartPlaybook :: "cli_env \<Rightarrow> dingocli \<Rightarrow> deploy_config list \<Rightarrow> service_options \<Rightarrow> 'cc playbook res" where
  "genStartPlaybook e cl dcs options =
     (let dcs = FilterDeployConfig e cl dcs (selection (so_id options) (so_role options) (so_host options)) in
      if length dcs = 0 then Inl (Ec ERR_NO_SERVICES_MATCHED)
      else Inr (fold (\<lambda>step pb. pb_AddStep (mk_step step dcs [] zero_exec_options) pb) START_PLAYBOOK_STEPS NewPlaybook))"

definition genStopPlaybook :: "cli_env \<Rightarrow> dingocli \<Rightarrow> deploy_config list \<Rightarrow> service_options \<Rightarrow> 'cc playbook res" where
  "genStopPlaybook e cl dcs options =
     (let dcs = FilterDeployConfig e cl dcs (selection (so_id options) (so_role options) (so_host options)) in
      if length dcs = 0 then Inl (Ec ERR_NO_SERVICES_MATCHED)
      else Inr (fold (\<lambda>step pb. pb_AddStep (mk_step step dcs [] zero_exec_options) pb) STOP_PLAYBOOK_STEPS NewPlaybook))"

definition genRestartPlaybook :: "cli_env \<Rightarrow> dingocli \<Rightarrow> deploy_config list \<Rightarrow> service_options \<Rightarrow> 'cc playbook res" where
  "genRestartPlaybook e cl dcs options =
     (let dcs = FilterDeployConfig e cl dcs (selection (so_id options) (so_role options) (so_host options)) in
      if length dcs = 0 then Inl (Ec ERR_NO_SERVICES_MATCHED)
      else Inr (fold (\<lambda>step pb. pb_AddStep (mk_step step dcs [] zero_exec_options) pb) RESTART_PLAYBOOK_STEPS NewPlaybook))"

text \<open>The end of the three commands: run at once when forced, otherwise ask first.\<close>

definition confirmed_run ::
  "('cc, 's, 't) runner \<Rightarrow> bool \<Rightarrow> bool \<Rightarrow> 'cc playbook \<Rightarrow> 's \<Rightarrow> 's \<times> terr option" where
  "confirmed_run r force pass pb s =
     (if force then pb_Run (fst r) (snd r) pb s
      else if \<not> pass then (s, Some (TErr (Ec ERR_CANCEL_OPERATION)))
      else pb_Run (fst r) (snd r) pb s)"

definition run_selected ::
  "('cc, 's, 't) runner \<Rightarrow> cli_env \<Rightarrow> dingocli \<Rightarrow> bool \<Rightarrow> (deploy_config list \<Rightarrow> 'cc playbook res) \<Rightarrow> bool \<Rightarrow> 's \<Rightarrow>
   's \<times> terr option" where
  "run_selected r e cl force gen pass s =
     (case bindR (cli_ParseTopology e cl) gen of
        Inl err \<Rightarrow> (s, Some (TErr err))
      | Inr pb \<Rightarrow> confirmed_run r force pass pb s)"

definition runStart where
  "runStart r e cl options pass s = run_selected r e cl (so_force options) (\<lambda>dcs. genStartPlaybook e cl dcs options) pass s"

definition runStop where
  "runStop r e cl options pass s = run_selected r e cl (so_force options) (\<lambda>dcs. genStopPlaybook e cl dcs options) pass s"

definition runRestart where
  "runRestart r e cl options pass s = run_selected r e cl (so_force options) (\<lambda>dcs. genRestartPlaybook e cl dcs options) pass s"

section \<open>Clean\<close>

definition CLEAN_PLAYBOOK_STEPS :: "int list" where "CLEAN_PLAYBOOK_STEPS = [CLEAN_SERVICE]"

abbreviation CLEAN_ITEM_LOG :: string where "CLEAN_ITEM_LOG \<equiv> ''log''"
abbreviation CLEAN_ITEM_DATA :: string where "CLEAN_ITEM_DATA \<equiv> ''data''"
abbreviation CLEAN_ITEM_CONTAINER :: string where "CLEAN_ITEM_CONTAINER \<equiv> ''container''"
abbreviation CLEAN_ITEM_RAFT :: string where "CLEAN_ITEM_RAFT \<equiv> ''raft''"
abbreviation CLEAN_ITEM_DOC :: string where "CLEAN_ITEM_DOC \<equiv> ''doc''"
abbreviation CLEAN_ITEM_VECTOR :: string where "CLEAN_ITEM_VECTOR \<equiv> ''vector''"

definition CLEAN_ITEMS :: "string list" where
  "CLEAN_ITEMS =
     [CLEAN_ITEM_LOG, CLEAN_ITEM_DATA, CLEAN_ITEM_CONTAINER, CLEAN_ITEM_RAFT, CLEAN_ITEM_DOC, CLEAN_ITEM_VECTOR]"

record clean_options =
  co_id :: string
  co_role :: string
  co_host :: string
  co_only :: "string list"
  co_withoutRecycle :: bool
  co_force :: bool

definition checkCleanOptions :: "cli_env \<Rightarrow> dingocli \<Rightarrow> string list res \<Rightarrow> clean_options \<Rightarrow> unit res" where
  "checkCleanOptions e cl services options =
     (if \<not> list_all (bget (Slice2Map CLEAN_ITEMS)) (co_only options) then Inl (Ec ERR_UNSUPPORT_CLEAN_ITEM)
      else checkCommonOptions e cl services (co_id options) (co_role options) (co_host options))"

text \<open>
  The three removals work on the slice of the options, which shares its array with the caller: the
  result is the slice the playbook gets, and its array is what the caller's options then hold.
\<close>

definition clean_only :: "string list \<Rightarrow> string slice \<Rightarrow> string slice" where
  "clean_only roles only =
     (let only1 = (if \<not> Existed roles [ROLE_COORDINATOR, ROLE_STORE, ROLE_DINGODB_DOCUMENT, ROLE_DINGODB_INDEX]
                   then slice_remove CLEAN_ITEM_RAFT only else only);
          only2 = (if \<not> Contains roles ROLE_DINGODB_DOCUMENT then slice_remove CLEAN_ITEM_DOC only1 else only1)
      in if \<not> Contains roles ROLE_DINGODB_INDEX then slice_remove CLEAN_ITEM_VECTOR only2 else only2)"

definition clean_steps :: "string list \<Rightarrow> int list" where
  "clean_steps only = (if Contains only CLEAN_ITEM_CONTAINER then STOP_SERVICE # CLEAN_PLAYBOOK_STEPS else CLEAN_PLAYBOOK_STEPS)"

definition genCleanPlaybook ::
  "cli_env \<Rightarrow> dingocli \<Rightarrow> deploy_config list \<Rightarrow> clean_options \<Rightarrow> string list \<times> 'cc playbook res" where
  "genCleanPlaybook e cl dcs options =
     (let dcs = FilterDeployConfig e cl dcs (selection (co_id options) (co_role options) (co_host options)) in
      if length dcs = 0 then (co_only options, Inl (Ec ERR_NO_SERVICES_MATCHED))
      else
        (let only = clean_only (GetRoles dcs) (full (co_only options)) in
         (sl_array only,
          Inr (fold (\<lambda>step pb.
                 pb_AddStep (mk_step step dcs
                   [(''CLEAN_ITEMS'', OStrs (view only)), (''CLEAN_BY_RECYCLE'', OVal (GBool (co_withoutRecycle options = False)))]
                   zero_exec_options) pb) (clean_steps (view only)) NewPlaybook))))"

text \<open>The items that the confirmation shows are those of the caller's options.\<close>

definition runClean ::
  "('cc, 's, 't) runner \<Rightarrow> cli_env \<Rightarrow> dingocli \<Rightarrow> clean_options \<Rightarrow> (string list \<Rightarrow> bool) \<Rightarrow> 's \<Rightarrow> 's \<times> terr option" where
  "runClean r e cl options pass s =
     (case cli_ParseTopology e cl of
        Inl err \<Rightarrow> (s, Some (TErr err))
      | Inr dcs \<Rightarrow>
          (case genCleanPlaybook e cl dcs options of
             (only, Inl err) \<Rightarrow> (s, Some (TErr err))
           | (only, Inr pb) \<Rightarrow> confirmed_run r (co_force options) (pass only) pb s))"

section \<open>Upgrade\<close>

record upgrade_options =
  uo_id :: string
  uo_role :: string
  uo_host :: string
  uo_force :: bool
  uo_useLocalImage :: bool

definition upgrade_opts :: omap where
  "upgrade_opts =
     [(''CLEAN_ITEMS'', OStrs [CLEAN_ITEM_CONTAINER]), (''CLEAN_BY_RECYCLE'', OVal (GBool True)),
      (''SKIP_MDSV2_CLI'', OVal (GBool True)), (''UPGRADE_FLAG'', OVal (GBool True))]"

definition upgrade_step :: "cli_env \<Rightarrow> dingocli \<Rightarrow> deploy_config list \<Rightarrow> int \<Rightarrow> 'cc playbook \<Rightarrow> 'cc playbook res" where
  "upgrade_step e cl dcs step pb =
     (let filtered = (length (filter_role step) > 0);
          stepDcs = (if filtered then FilterDeployConfigByRole e cl dcs (filter_role step) else dcs)
      in if filtered \<and> length stepDcs = 0 then Inr pb
         else bindR (limit_configs step stepDcs) (\<lambda>stepDcs.
                Inr (pb_AddStep (mk_step step stepDcs upgrade_opts zero_exec_options) pb)))"

definition genUpgradePlaybook ::
  "cli_env \<Rightarrow> dingocli \<Rightarrow> deploy_config list \<Rightarrow> upgrade_options \<Rightarrow> step_tables \<Rightarrow> step_tables \<times> 'cc playbook res" where
  "genUpgradePlaybook e cl dcs options tabs =
     (let dcs = FilterDeployConfig e cl dcs (selection (uo_id options) (uo_role options) (uo_host options)) in
      if length dcs = 0 then (tabs, Inl (Ec ERR_NO_SERVICES_MATCHED))
      else
        (let t = (if Contains (GetRoles dcs) ROLE_FS_MDS_CLI then Tab_Upgrade_Store_Fs else Tab_Upgrade);
             (tabs', steps) = without_pull (uo_useLocalImage options) t (full (tabs t)) tabs
         in (tabs', foldR (upgrade_step e cl dcs) steps NewPlaybook)))"

definition upgradeAtOnce ::
  "('cc, 's, 't) runner \<Rightarrow> cli_env \<Rightarrow> dingocli \<Rightarrow> deploy_config list \<Rightarrow> upgrade_options \<Rightarrow>
   step_tables \<times> 's \<Rightarrow> (step_tables \<times> 's) \<times> terr option" where
  "upgradeAtOnce r e cl dcs options st =
     (let (tabs', pb) = genUpgradePlaybook e cl dcs options (fst st);
          (s', err) = run_playbook r pb (snd st)
      in ((tabs', s'), err))"

text \<open>One service after the other; the user is asked before each (\<open>pass\<close> is the answer for a service).\<close>

fun upgradeOneByOne ::
  "('cc, 's, 't) runner \<Rightarrow> cli_env \<Rightarrow> dingocli \<Rightarrow> (deploy_config \<Rightarrow> bool) \<Rightarrow> deploy_config list \<Rightarrow> upgrade_options \<Rightarrow>
   step_tables \<times> 's \<Rightarrow> (step_tables \<times> 's) \<times> terr option" where
  "upgradeOneByOne r e cl pass [] options st = (st, None)"
| "upgradeOneByOne r e cl pass (dc # dcs) options st =
     (case GetContainerImage dc of
        Inl err \<Rightarrow> (st, Some (TErr err))
      | Inr img \<Rightarrow>
          if \<not> pass dc then (st, Some (TErr (Ec ERR_CANCEL_OPERATION)))
          else
            (case upgradeAtOnce r e cl [dc] options st of
               (st', Some err) \<Rightarrow> (st', Some err)
             | (st', None) \<Rightarrow> upgradeOneByOne r e cl pass dcs options st'))"

definition runUpgrade ::
  "('cc, 's, 't) runner \<Rightarrow> cli_env \<Rightarrow> dingocli \<Rightarrow> (deploy_config \<Rightarrow> bool) \<Rightarrow> upgrade_options \<Rightarrow>
   step_tables \<times> 's \<Rightarrow> (step_tables \<times> 's) \<times> terr option" where
  "runUpgrade r e cl pass options st =
     (case cli_ParseTopology e cl of
        Inl err \<Rightarrow> (st, Some (TErr err))
      | Inr dcs0 \<Rightarrow>
          (let dcs = FilterDeployConfig e cl dcs0 (selection (uo_id options) (uo_role options) (uo_host options)) in
           if length dcs = 0 then (st, Some (TErr (Ec ERR_NO_SERVICES_MATCHED)))
           else if uo_force options then upgradeAtOnce r e cl dcs options st
           else upgradeOneByOne r e cl pass dcs options st))"

section \<open>Commands on selected services\<close>

text \<open>
  What the three commands rely on: their generator makes a single step over exactly the selected
  services, and refuses an empty selection.
\<close>

abbreviation chosen :: "cli_env \<Rightarrow> dingocli \<Rightarrow> service_options \<Rightarrow> deploy_config list \<Rightarrow> deploy_config list" where
  "chosen e cl options dcs \<equiv>
     FilterDeployConfig e cl dcs (selection (so_id options) (so_role options) (so_host options))"

locale selected_command =
  fixes gen :: "cli_env \<Rightarrow> dingocli \<Rightarrow> deploy_config list \<Rightarrow> service_options \<Rightarrow> 'cc playbook res" and kind :: int
  assumes gen_none: "chosen e cl options dcs = [] \<Longrightarrow> gen e cl dcs options = Inl (Ec ERR_NO_SERVICES_MATCHED)"
    and gen_some: "chosen e cl options dcs \<noteq> [] \<Longrightarrow>
      gen e cl dcs options = Inr \<lparr>pb_steps = [mk_step kind (chosen e cl options dcs) [] zero_exec_options], pb_postSteps = []\<rparr>"
begin

lemma run_one: "pb_Run create exec \<lparr>pb_steps = [step], pb_postSteps = []\<rparr> s = step_run create exec step s"
  by (auto simp: pb_Run_def step_run_def split: prod.splits sum.splits)

lemma outcome:
  "run_selected r e cl force (\<lambda>dcs. gen e cl dcs options) pass s =
     (case cli_ParseTopology e cl of
        Inl err \<Rightarrow> (s, Some (TErr err))
      | Inr dcs \<Rightarrow>
          if chosen e cl options dcs = [] then (s, Some (TErr (Ec ERR_NO_SERVICES_MATCHED)))
          else if \<not> force \<and> \<not> pass then (s, Some (TErr (Ec ERR_CANCEL_OPERATION)))
          else step_run (fst r) (snd r) (mk_step kind (chosen e cl options dcs) [] zero_exec_options) s)"
proof (cases "cli_ParseTopology e cl")
  case (Inr dcs)
  then show ?thesis
    by (cases "chosen e cl options dcs = []")
      (simp_all add: run_selected_def gen_none gen_some confirmed_run_def run_one)
qed (simp add: run_selected_def)

end

interpretation start_command: selected_command genStartPlaybook START_SERVICE
  by unfold_locales (simp_all add: genStartPlaybook_def START_PLAYBOOK_STEPS_def Let_def pb_AddStep_def NewPlaybook_def)

interpretation stop_command: selected_command genStopPlaybook STOP_SERVICE
  by unfold_locales (simp_all add: genStopPlaybook_def STOP_PLAYBOOK_STEPS_def Let_def pb_AddStep_def NewPlaybook_def)

interpretation restart_command: selected_command genRestartPlaybook RESTART_SERVICE
  by unfold_locales (simp_all add: genRestartPlaybook_def RESTART_PLAYBOOK_STEPS_def Let_def pb_AddStep_def NewPlaybook_def)

definition command_outcome where
  "command_outcome r e cl kind options pass s =
     (case cli_ParseTopology e cl of
        Inl err \<Rightarrow> (s, Some (TErr err))
      | Inr dcs \<Rightarrow>
          (let dcs' = filter (\<lambda>dc. so_id options \<in> {''*'', GetServiceId e cl (dc_id dc)} \<and>
                 so_role options \<in> {''*'', dc_role dc} \<and> so_host options \<in> {''*'', dc_host dc}) dcs in
           if dcs' = [] then (s, Some (TErr (Ec ERR_NO_SERVICES_MATCHED)))
           else if \<not> so_force options \<and> \<not> pass then (s, Some (TErr (Ec ERR_CANCEL_OPERATION)))
           else step_run (fst r) (snd r) (mk_step kind dcs' [] zero_exec_options) s))"

lemma chosen_filter:
  "chosen e cl options dcs = filter (\<lambda>dc. so_id options \<in> {''*'', GetServiceId e cl (dc_id dc)} \<and>
     so_role options \<in> {''*'', dc_role dc} \<and> so_host options \<in> {''*'', dc_host dc}) dcs"
  by (simp add: FilterDeployConfig_filter selection_def insert_iff)

text \<open>
  C13: starting, stopping and restarting services.  With a topology that does not parse, with no service
  that matches, or when the user declines, nothing is done and the error says which; otherwise one step of the
  command's kind runs over exactly the services that match id, role and host, and its result is the
  result of the command.
\<close>

theorem service_commands:
  "runStart r e cl options pass s = command_outcome r e cl START_SERVICE options pass s \<and>
   runStop r e cl options pass s = command_outcome r e cl STOP_SERVICE options pass s \<and>
   runRestart r e cl options pass s = command_outcome r e cl RESTART_SERVICE options pass s"
  unfolding command_outcome_def Let_def chosen_filter [symmetric]
  by (simp add: runStart_def runStop_def runRestart_def start_command.outcome stop_command.outcome
      restart_command.outcome split: sum.splits)

section \<open>Cleaning\<close>

definition irrelevant_items :: "string list \<Rightarrow> string list" where
  "irrelevant_items roles =
     (if Existed roles [ROLE_COORDINATOR, ROLE_STORE, ROLE_DINGODB_DOCUMENT, ROLE_DINGODB_INDEX] then [] else [CLEAN_ITEM_RAFT]) @
     (if Contains roles ROLE_DINGODB_DOCUMENT then [] else [CLEAN_ITEM_DOC]) @
     (if Contains roles ROLE_DINGODB_INDEX then [] else [CLEAN_ITEM_VECTOR])"

lemma clean_only_fold: "clean_only roles only = fold slice_remove (irrelevant_items roles) only"
  by (simp add: clean_only_def irrelevant_items_def Let_def)

lemma fold_slice_array: "slice_ok s \<Longrightarrow> length (sl_array (fold slice_remove xs s)) = length (sl_array s)"
  by (induction xs arbitrary: s) (simp_all add: slice_ok_remove slice_remove_array)

lemma fold_AddStep: "pb_steps (fold (\<lambda>step pb. pb_AddStep (f step) pb) steps pb) = pb_steps pb @ map f steps"
  by (induction steps arbitrary: pb) simp_all

text \<open>
  Cleaning removes exactly the requested items that make sense for the roles of the selected services (no
  raft, document or vector data where no service has any), and stops the services first when their containers are
  among them.  The confirmation, however, always shows as many items as were requested: it
  reads the array that the removal has shifted.
\<close>

theorem clean_items:
  assumes "genCleanPlaybook e cl dcs options = (shown, Inr pb)" and "distinct (co_only options)"
    and "dcs' = FilterDeployConfig e cl dcs (selection (co_id options) (co_role options) (co_host options))"
    and "items = filter (\<lambda>i. i \<notin> set (irrelevant_items (GetRoles dcs'))) (co_only options)"
  shows "pb_steps pb = map (\<lambda>step. mk_step step dcs'
           [(''CLEAN_ITEMS'', OStrs items), (''CLEAN_BY_RECYCLE'', OVal (GBool (\<not> co_withoutRecycle options)))] zero_exec_options)
           (if Contains items CLEAN_ITEM_CONTAINER then [STOP_SERVICE, CLEAN_SERVICE] else [CLEAN_SERVICE]) \<and>
         length shown = length (co_only options)"
proof -
  have "view (clean_only (GetRoles dcs') (full (co_only options))) = items"
    unfolding clean_only_fold using slices.removes_distinct [of "full (co_only options)"] assms(2,4) by simp
  moreover have "length (sl_array (clean_only (GetRoles dcs') (full (co_only options)))) = length (co_only options)"
    by (simp add: clean_only_fold fold_slice_array)
  ultimately show ?thesis
    using assms(1) unfolding assms(3) [symmetric] genCleanPlaybook_def Let_def
    by (auto simp: fold_AddStep clean_steps_def CLEAN_PLAYBOOK_STEPS_def NewPlaybook_def split: if_splits)
qed

section \<open>Upgrading\<close>

lemma steps_ok_append:
  "steps_ok create exec (xs @ ys) s s' \<longleftrightarrow> (\<exists>s1. steps_ok create exec xs s s1 \<and> steps_ok create exec ys s1 s')"
  by (induction xs arbitrary: s) auto

text \<open>The steps that upgrade a single service.\<close>

definition upgrade_plan :: "int list \<Rightarrow> deploy_config \<Rightarrow> 'cc playbook_step list" where
  "upgrade_plan table dc =
     map (\<lambda>step. mk_step step [dc] upgrade_opts zero_exec_options)
       (filter (\<lambda>step. filter_role step = [] \<or> filter_role step = dc_role dc) table)"

definition upgrade_table :: "deploy_config \<Rightarrow> step_table" where
  "upgrade_table dc = (if Contains [dc_role dc] ROLE_FS_MDS_CLI then Tab_Upgrade_Store_Fs else Tab_Upgrade)"

lemma GetRoles_single: "GetRoles [dc] = [dc_role dc]"
  by (simp add: GetRoles_def)

lemma upgrade_step_single:
  "upgrade_step e cl [dc] step pb =
     Inr (if filter_role step = [] \<or> filter_role step = dc_role dc
          then pb_AddStep (mk_step step [dc] upgrade_opts zero_exec_options) pb else pb)"
  using limit_service_cases [of step] filter_role_star [of step]
  by (auto simp: upgrade_step_def Let_def FilterDeployConfigByRole_filter limit_configs_def slice_to_def)

lemma upgrade_fold_single:
  "foldR (upgrade_step e cl [dc]) steps pb = Inr (pb\<lparr>pb_steps := pb_steps pb @ upgrade_plan steps dc\<rparr>)"
  by (induction steps arbitrary: pb) (simp_all add: upgrade_step_single upgrade_plan_def)

lemma genUpgradePlaybook_single:
  assumes "FilterDeployConfig e cl [dc] (selection (uo_id options) (uo_role options) (uo_host options)) = [dc]"
  shows "genUpgradePlaybook e cl [dc] options tabs =
    (let t = upgrade_table dc; s = slice_remove PULL_IMAGE (full (tabs t)) in
     if uo_useLocalImage options
     then (tabs(t := sl_array s), Inr \<lparr>pb_steps = upgrade_plan (remove1 PULL_IMAGE (tabs t)) dc, pb_postSteps = []\<rparr>)
     else (tabs, Inr \<lparr>pb_steps = upgrade_plan (tabs t) dc, pb_postSteps = []\<rparr>))"
  using assms
  by (simp add: genUpgradePlaybook_def upgrade_table_def GetRoles_single without_pull_def Let_def upgrade_fold_single
      NewPlaybook_def view_slice_remove)


text \<open>The table after the step that pulls images was left out of it.\<close>

definition shifted_steps :: "int list" where
  "shifted_steps = [STOP_SERVICE, CLEAN_SERVICE, CREATE_CONTAINER, SYNC_CONFIG, START_SERVICE, START_SERVICE]"

lemma upgrade_plan_types:
  assumes "set l \<subseteq> set UPGRADE_PLAYBOOK_STEPS"
  shows "map ps_Type (upgrade_plan l dc) = l"
proof -
  have "\<forall>step \<in> set UPGRADE_PLAYBOOK_STEPS. filter_role step = []" by code_simp
  with assms show ?thesis by (auto simp: upgrade_plan_def comp_def mk_step_def filter_id_conv subset_iff)
qed

text \<open>
  With a local image the first service is upgraded as intended, without pulling an image; but leaving that step
  out overwrites the table, so for every later service the start step is there twice.
\<close>

theorem upgrade_local_starts_twice:
  assumes "uo_useLocalImage options" and "trim_space (dc_role dc1) \<noteq> ROLE_FS_MDS_CLI" and "trim_space (dc_role dc2) \<noteq> ROLE_FS_MDS_CLI"
    and "\<forall>dc \<in> {dc1, dc2}. FilterDeployConfig e cl [dc] (selection (uo_id options) (uo_role options) (uo_host options)) = [dc]"
    and "genUpgradePlaybook e cl [dc1] options initial_tables = (tabs1, Inr pb1)"
    and "genUpgradePlaybook e cl [dc2] options tabs1 = (tabs2, Inr pb2)"
  shows "map ps_Type (pb_steps pb1) = [STOP_SERVICE, CLEAN_SERVICE, CREATE_CONTAINER, SYNC_CONFIG, START_SERVICE] \<and>
         map ps_Type (pb_steps pb2) = [STOP_SERVICE, CLEAN_SERVICE, CREATE_CONTAINER, SYNC_CONFIG, START_SERVICE, START_SERVICE] \<and>
         tabs2 = tabs1"
proof -
  have trim: "trim_space ROLE_FS_MDS_CLI = ROLE_FS_MDS_CLI" by code_simp
  have t: "upgrade_table dc1 = Tab_Upgrade" "upgrade_table dc2 = Tab_Upgrade"
    using assms(2,3) by (auto simp: upgrade_table_def trim)
  from assms(4) have s1: "FilterDeployConfig e cl [dc1] (selection (uo_id options) (uo_role options) (uo_host options)) = [dc1]"
    and s2: "FilterDeployConfig e cl [dc2] (selection (uo_id options) (uo_role options) (uo_host options)) = [dc2]" by auto
  have a1: "sl_array (slice_remove PULL_IMAGE (full UPGRADE_PLAYBOOK_STEPS)) =
      shifted_steps"
    by code_simp
  have a2: "slice_remove PULL_IMAGE (full shifted_steps) =
      full shifted_steps"
    by code_simp
  have a3: "remove1 PULL_IMAGE shifted_steps = shifted_steps" by code_simp
  have tabs1: "tabs1 = initial_tables(Tab_Upgrade := shifted_steps)"
    and pb1: "pb_steps pb1 = upgrade_plan (remove1 PULL_IMAGE UPGRADE_PLAYBOOK_STEPS) dc1"
    using assms(1,5) unfolding genUpgradePlaybook_single [OF s1] t by (auto simp: Let_def a1)
  have "tabs2 = tabs1" "pb_steps pb2 = upgrade_plan shifted_steps dc2"
    using assms(1,6) unfolding genUpgradePlaybook_single [OF s2] t tabs1 by (auto simp: Let_def a2 a3)
  then show ?thesis by (simp add: pb1 upgrade_plan_types UPGRADE_PLAYBOOK_STEPS_def shifted_steps_def)
qed

section \<open>Small runs\<close>

definition all_services :: upgrade_options where
  "all_services = \<lparr>uo_id = ''*'', uo_role = ''*'', uo_host = ''*'', uo_force = False, uo_useLocalImage = True\<rparr>"

definition clean_all :: clean_options where
  "clean_all = \<lparr>co_id = ''*'', co_role = ''*'', co_host = ''*'', co_only = CLEAN_ITEMS, co_withoutRecycle = False, co_force = False\<rparr>"

theorem clean_items_witness:
  "\<exists>shown (pb :: unit playbook). genCleanPlaybook demo_cli_env demo_cli [demo_dc ''a'' ROLE_FS_MDS ''h1''] clean_all = (shown, Inr pb) \<and>
     length shown = 6 \<and> map ps_Type (pb_steps pb) = [STOP_SERVICE, CLEAN_SERVICE]"
proof -
  obtain shown and pb :: "unit playbook" where
    g: "genCleanPlaybook demo_cli_env demo_cli [demo_dc ''a'' ROLE_FS_MDS ''h1''] clean_all = (shown, Inr pb)"
    by (simp add: genCleanPlaybook_def clean_all_def FilterDeployConfig_filter selection_def Let_def)
  have d: "distinct (co_only clean_all)" by (simp add: clean_all_def CLEAN_ITEMS_def)
  have "Contains (filter (\<lambda>i. i \<notin> set (irrelevant_items (GetRoles [demo_dc ''a'' ROLE_FS_MDS ''h1'']))) CLEAN_ITEMS) CLEAN_ITEM_CONTAINER"
    by code_simp
  with clean_items [OF g d refl refl] g show ?thesis
    by (auto simp: clean_all_def FilterDeployConfig_filter selection_def mk_step_def CLEAN_ITEMS_def)
qed


theorem upgrade_local_starts_twice_witness:
  "map ps_Type (pb_steps (projr (snd (genUpgradePlaybook demo_cli_env demo_cli [store_dc ''b'' ROLE_STORE] all_services
     (fst (genUpgradePlaybook demo_cli_env demo_cli [store_dc ''a'' ROLE_STORE] all_services initial_tables :: step_tables \<times> unit playbook res)) ::
       step_tables \<times> unit playbook res)))) =
   [STOP_SERVICE, CLEAN_SERVICE, CREATE_CONTAINER, SYNC_CONFIG, START_SERVICE, START_SERVICE]"
proof -
  have f: "FilterDeployConfig demo_cli_env demo_cli [dc] (selection (uo_id all_services) (uo_role all_services) (uo_host all_services)) = [dc]" for dc
    by (simp add: FilterDeployConfig_filter all_services_def selection_def)
  have ex: "\<exists>tabs' (pb :: unit playbook). genUpgradePlaybook demo_cli_env demo_cli [dc] all_services tabs = (tabs', Inr pb)" for dc tabs
    unfolding genUpgradePlaybook_single [OF f] Let_def by (simp add: all_services_def)
  from ex obtain tabs1 and pb1 :: "unit playbook" where
    1: "genUpgradePlaybook demo_cli_env demo_cli [store_dc ''a'' ROLE_STORE] all_services initial_tables = (tabs1, Inr pb1)" by blast
  from ex obtain tabs2 and pb2 :: "unit playbook" where
    2: "genUpgradePlaybook demo_cli_env demo_cli [store_dc ''b'' ROLE_STORE] all_services tabs1 = (tabs2, Inr pb2)" by blast
  have t: "trim_space (dc_role (store_dc i ROLE_STORE)) \<noteq> ROLE_FS_MDS_CLI" for i
    by (simp add: store_dc_def demo_dc_def) code_simp
  have l: "uo_useLocalImage all_services" by (simp add: all_services_def)
  show ?thesis using upgrade_local_starts_twice [OF l t t _ 1 2] f by (simp add: 1 2)
qed

end
