(* ===== verification/Topology_Check.thy ===== *)
theory Topology_Check
  imports Cli
begin

text \<open>
  The check of a topology before it is stored or deployed: \<open>internal/task/task/checker/topology.go\<close> and the
  helpers of \<open>checker/common.go\<close>.

  A step of the task is a computation without effect; \<open>mem\<close> is the memory storage of the session, which holds the
  options of the playbook step while its task runs.  Getters can panic, so every check is a computation that can fail.
\<close>

section \<open>Addresses and directories of a service\<close>

record address =
  ad_Role :: string
  ad_IP :: string
  ad_Port :: int

record directory =
  dir_Type :: string
  dir_Path :: string

abbreviation SERVICE_DIR_ABSENT :: string where "SERVICE_DIR_ABSENT \<equiv> ''-''"

definition CONNECT :: "(string \<times> string list) list" where
  "CONNECT =
     [(ROLE_ETCD, [ROLE_ETCD]), (ROLE_FS_MDS, [ROLE_FS_MDS, ROLE_ETCD]), (ROLE_CHUNKSERVER, [ROLE_CHUNKSERVER, ROLE_FS_MDS]),
      (ROLE_SNAPSHOTCLONE, [ROLE_SNAPSHOTCLONE]), (ROLE_METASERVER, [ROLE_METASERVER, ROLE_FS_MDS])]"

definition listen_address :: "deploy_config \<Rightarrow> (deploy_config \<Rightarrow> string res) \<Rightarrow> (deploy_config \<Rightarrow> int res) \<Rightarrow> address res" where
  "listen_address dc ip port =
     bindR (ip dc) (\<lambda>i. bindR (port dc) (\<lambda>p. Inr \<lparr>ad_Role = dc_role dc, ad_IP = i, ad_Port = p\<rparr>))"

definition own_addresses :: "deploy_config \<Rightarrow> (deploy_config \<Rightarrow> int res) list \<Rightarrow> address list res" where
  "own_addresses dc ports = mapR (listen_address dc GetListenIp) ports"

definition getServiceListenAddresses :: "deploy_config \<Rightarrow> address list res" where
  "getServiceListenAddresses dc =
     (let role = dc_role dc in
      if role = ROLE_ETCD then own_addresses dc [GetListenPort, GetListenClientPort]
      else if role = ROLE_METASERVER then
        bindR (own_addresses dc [GetListenPort]) (\<lambda>a.
        bindR (GetEnableExternalServer dc) (\<lambda>external.
          if external then bindR (listen_address dc GetListenExternalIp GetListenExternalPort) (\<lambda>b. Inr (a @ [b]))
          else Inr a))
      else if role = ROLE_FS_MDS then
        bindR (dc_lookup_ctx dc CTX_KEY_MDS_VERSION) (\<lambda>ver.
          if ver = CTX_VAL_MDS_V1 then own_addresses dc [GetListenPort, GetListenDummyPort]
          else own_addresses dc [GetDingoServerPort])
      else if role = ROLE_COORDINATOR then own_addresses dc [GetDingoServerPort, GetDingoStoreRaftPort]
      else if role = ROLE_STORE then own_addresses dc [GetDingoServerPort, GetDingoStoreRaftPort]
      else if role = ROLE_DINGODB_DOCUMENT then own_addresses dc [GetDingoServerPort, GetDingoStoreRaftPort]
      else if role = ROLE_DINGODB_DISKANN then own_addresses dc [GetDingoServerPort]
      else if role = ROLE_DINGODB_INDEX then own_addresses dc [GetDingoServerPort, GetDingoStoreRaftPort]
      else if role = ROLE_DINGODB_EXECUTOR then own_addresses dc [GetDingoDBServerPort, GetDingoDBMySQLPort]
      else if role = ROLE_DINGODB_WEB then own_addresses dc [GetDingoDBServerPort, GetDingoDBExportPort]
      else if role = ROLE_DINGODB_PROXY then own_addresses dc [GetDingoDBServerPort]
      else Inr [])"

definition getServiceConnectAddress :: "deploy_config \<Rightarrow> deploy_config list \<Rightarrow> address list res" where
  "getServiceConnectAddress from dcs =
     (let m = Slice2Map (case map_of CONNECT (dc_role from) of None \<Rightarrow> [] | Some roles \<Rightarrow> roles) in
      foldR (\<lambda>to address.
          if dc_id from = dc_id to then Inr address
          else if map_of m (dc_role to) = None then Inr address
          else bindR (getServiceListenAddresses to) (\<lambda>l. Inr (address @ l)))
        dcs [])"

definition getServiceDirectorys :: "deploy_config \<Rightarrow> directory list res" where
  "getServiceDirectorys dc =
     (let put = (\<lambda>t p. if length p > 0 then [\<lparr>dir_Type = t, dir_Path = p\<rparr>] else []) in
      bindR (GetLogDir dc) (\<lambda>logDir.
      bindR (GetDataDir dc) (\<lambda>dataDir.
      bindR (GetSourceCoreDir dc) (\<lambda>sourceCoreDir.
      bindR (GetTargetCoreDir dc) (\<lambda>targetCoreDir.
      Inr (put ''log_dir'' logDir @ put ''data_dir'' dataDir @ put ''core_dir'' sourceCoreDir @
           put ''core_dir'' targetCoreDir))))))"

section \<open>The checks\<close>

text \<open>\<open>Get(key).(bool)\<close>: a key that is not set gives nil, and the assertion panics.\<close>

definition mem_bool :: "omap \<Rightarrow> string \<Rightarrow> bool res" where
  "mem_bool mem key = (case map_of mem key of Some (OVal (GBool b)) \<Rightarrow> Inr b | _ \<Rightarrow> Inl GoPanic)"

definition mem_deploys :: "omap \<Rightarrow> string \<Rightarrow> deploy_config list res" where
  "mem_deploys mem key = (case map_of mem key of Some (ODeploys l) \<Rightarrow> Inr l | _ \<Rightarrow> Inl GoPanic)"

definition mem_strs :: "omap \<Rightarrow> string \<Rightarrow> string list res" where
  "mem_strs mem key = (case map_of mem key of Some (OStrs l) \<Rightarrow> Inr l | _ \<Rightarrow> Inl GoPanic)"

abbreviation KEY_ALL_DEPLOY_CONFIGS :: string where "KEY_ALL_DEPLOY_CONFIGS \<equiv> ''ALL_DEPLOY_CONFIGS''"
abbreviation KEY_CHECK_SKIP_SNAPSHOECLONE :: string where "KEY_CHECK_SKIP_SNAPSHOECLONE \<equiv> ''CHECK_SKIP_SNAPSHOTCLONE''"
abbreviation KEY_CHECK_WITH_WEAK :: string where "KEY_CHECK_WITH_WEAK \<equiv> ''CHECK_WITH_WEAK''"
abbreviation KEY_SKIP_CHECKS_ROLES :: string where "KEY_SKIP_CHECKS_ROLES \<equiv> ''SKIP_CHECKS_ROLES''"

definition step2CheckSSHConfigure :: "cli_env \<Rightarrow> dingocli \<Rightarrow> deploy_config \<Rightarrow> unit res" where
  "step2CheckSSHConfigure e cl dc = bindR (cli_GetHost e cl (dc_host dc)) (\<lambda>_. Inr ())"

abbreviation S3_TEMPLATE_VALUE :: string where "S3_TEMPLATE_VALUE \<equiv> ''<>''"

fun s3_loop :: "bool \<Rightarrow> (string \<times> errno) list \<Rightarrow> unit res" where
  "s3_loop weak [] = Inr ()"
| "s3_loop weak ((v, err) # items) =
     (if v = S3_TEMPLATE_VALUE then Inl (Ec err)
      else if length v = 0 \<and> \<not> weak then Inl (Ec err)
      else s3_loop weak items)"

definition step2CheckS3Configure :: "omap \<Rightarrow> deploy_config \<Rightarrow> unit res" where
  "step2CheckS3Configure mem dc =
     bindR (mem_bool mem KEY_CHECK_SKIP_SNAPSHOECLONE) (\<lambda>skip.
       if skip then Inr ()
       else
         bindR (mapR (\<lambda>(getter, err). bindR (getter dc) (\<lambda>v. Inr (v, err)))
           [(GetS3AccessKey, ERR_INVALID_S3_ACCESS_KEY), (GetS3SecretKey, ERR_INVALID_S3_SECRET_KEY),
            (GetS3Address, ERR_INVALID_S3_ADDRESS), (GetS3BucketName, ERR_INVALID_S3_BUCKET_NAME)]) (\<lambda>items.
         bindR (mem_bool mem KEY_CHECK_WITH_WEAK) (\<lambda>weak. s3_loop weak items)))"

fun directory_loop :: "directory list \<Rightarrow> unit res" where
  "directory_loop [] = Inr ()"
| "directory_loop (dir # dirs) =
     (if dir_Path dir = SERVICE_DIR_ABSENT then directory_loop dirs
      else if \<not> has_prefix (dir_Path dir) ''/'' then Inl (Ec ERR_DIRECTORY_REQUIRE_ABSOLUTE_PATH)
      else directory_loop dirs)"

definition step2CheckDirectoryPath :: "deploy_config \<Rightarrow> unit res" where
  "step2CheckDirectoryPath dc = bindR (getServiceDirectorys dc) directory_loop"

fun data_dir_loop :: "deploy_config list \<Rightarrow> bmap \<Rightarrow> unit res" where
  "data_dir_loop [] used = Inr ()"
| "data_dir_loop (dc # dcs) used =
     bindR (GetDataDir dc) (\<lambda>dataDir.
       if length dataDir = 0 \<or> dataDir = SERVICE_DIR_ABSENT then data_dir_loop dcs used
       else
         (let key = dc_host dc @ '':'' @ dataDir in
          if map_of used key \<noteq> None then Inl (Ec ERR_DATA_DIRECTORY_ALREADY_IN_USE)
          else data_dir_loop dcs (AList.update key True used)))"

definition step2CheckDataDirectoryDuplicate :: "deploy_config list \<Rightarrow> unit res" where
  "step2CheckDataDirectoryDuplicate dcs = data_dir_loop dcs []"

definition addr_string :: "address \<Rightarrow> string" where
  "addr_string a = ad_IP a @ '':'' @ itoa (ad_Port a)"

fun address_loop :: "address list \<Rightarrow> bmap \<Rightarrow> bmap res" where
  "address_loop [] m = Inr m"
| "address_loop (a # as) m =
     (if map_of m (addr_string a) \<noteq> None then Inl (Ec ERR_DUPLICATE_LISTEN_ADDRESS)
      else address_loop as (AList.update (addr_string a) True m))"

definition step2CheckAddressDuplicate :: "deploy_config list \<Rightarrow> unit res" where
  "step2CheckAddressDuplicate dcs =
     bindR (foldR (\<lambda>dc m. bindR (getServiceListenAddresses dc) (\<lambda>addresses. address_loop addresses m)) dcs []) (\<lambda>_. Inr ())"

fun host_num_loop :: "deploy_config list \<Rightarrow> int \<Rightarrow> bmap \<Rightarrow> int" where
  "host_num_loop [] num exist = num"
| "host_num_loop (dc # dcs) num exist =
     (if map_of exist (dc_parentId dc) = None
      then host_num_loop dcs (num + 1) (AList.update (dc_parentId dc) True exist)
      else host_num_loop dcs num exist)"

definition getHostNum :: "deploy_config list \<Rightarrow> int" where
  "getHostNum dcs = host_num_loop dcs 0 []"

definition check_skip :: "string list \<Rightarrow> deploy_config list \<Rightarrow> string \<Rightarrow> bool res" where
  "check_skip skipRoles dcs role =
     (case dcs of
        [] \<Rightarrow> Inl GoPanic
      | dc # _ \<Rightarrow>
          (let kind = dc_kind dc in
           Inr (if Contains skipRoles role then True
                else if kind = KIND_DINGOFS then role = ROLE_CHUNKSERVER \<or> role = ROLE_SNAPSHOTCLONE
                else if kind = KIND_DINGOSTORE \<or> kind = KIND_DINGODB then \<not> (role = ROLE_COORDINATOR \<or> role = ROLE_STORE)
                else False)))"

definition service_items :: "(string \<times> errno) list" where
  "service_items =
     [(ROLE_ETCD, ERR_ETCD_REQUIRES_3_SERVICES), (ROLE_FS_MDS, ERR_MDS_REQUIRES_3_SERVICES),
      (ROLE_CHUNKSERVER, ERR_CHUNKSERVER_REQUIRES_3_SERVICES),
      (ROLE_SNAPSHOTCLONE, ERR_SNAPSHOTCLONE_REQUIRES_3_SERVICES),
      (ROLE_METASERVER, ERR_METASERVER_REQUIRES_3_SERVICES), (ROLE_COORDINATOR, ERR_COORDINATOR_REQUIRES_3_SERVICES),
      (ROLE_STORE, ERR_STORE_REQUIRES_3_SERVICES)]"

definition host_items_3 :: "(string \<times> errno) list" where
  "host_items_3 =
     [(ROLE_ETCD, ERR_ETCD_REQUIRES_3_HOSTS), (ROLE_FS_MDS, ERR_MDS_REQUIRES_3_HOSTS),
      (ROLE_CHUNKSERVER, ERR_CHUNKSERVER_REQUIRES_3_HOSTS), (ROLE_SNAPSHOTCLONE, ERR_SNAPSHOTCLONE_REQUIRES_3_HOSTS),
      (ROLE_METASERVER, ERR_METASERVER_REQUIRES_3_HOSTS)]"

text \<open>The two loops over the roles: \<open>number\<close> counts services or hosts.\<close>

fun require_3 ::
  "(deploy_config list \<Rightarrow> int) \<Rightarrow> cli_env \<Rightarrow> dingocli \<Rightarrow> bool \<Rightarrow> string list \<Rightarrow> deploy_config list \<Rightarrow>
   (string \<times> errno) list \<Rightarrow> unit res" where
  "require_3 number e cl weak skipRoles dcs [] = Inr ()"
| "require_3 number e cl weak skipRoles dcs ((role, err) # items) =
     bindR (check_skip skipRoles dcs role) (\<lambda>skipped.
       if skipped then require_3 number e cl weak skipRoles dcs items
       else
         (let num = number (FilterDeployConfigByRole e cl dcs role) in
          if weak \<and> role = ROLE_SNAPSHOTCLONE then
            (if num = 0 \<or> num \<ge> 3 then require_3 number e cl weak skipRoles dcs items else Inl (Ec err))
          else if num < 3 then Inl (Ec err)
          else require_3 number e cl weak skipRoles dcs items))"

definition step2CheckServices :: "cli_env \<Rightarrow> dingocli \<Rightarrow> omap \<Rightarrow> string list \<Rightarrow> deploy_config list \<Rightarrow> unit res" where
  "step2CheckServices e cl mem skipRoles dcs =
     bindR (mem_bool mem KEY_CHECK_WITH_WEAK) (\<lambda>weak.
     bindR (require_3 (\<lambda>l. int (length l)) e cl weak skipRoles dcs service_items) (\<lambda>_.
     require_3 getHostNum e cl weak skipRoles dcs host_items_3))"

text \<open>A check as a step of a task.\<close>

definition check_step :: "unit res \<Rightarrow> 'w step" where
  "check_step r w = (w, case r of Inl err \<Rightarrow> Some (TErr err) | Inr _ \<Rightarrow> None)"

definition topology_checks :: "cli_env \<Rightarrow> dingocli \<Rightarrow> omap \<Rightarrow> string list \<Rightarrow> deploy_config list \<Rightarrow> unit res list" where
  "topology_checks e cl mem skipRoles dcs =
     map (step2CheckSSHConfigure e cl) dcs @ map step2CheckDirectoryPath dcs @
     [step2CheckDataDirectoryDuplicate dcs, step2CheckAddressDuplicate dcs, step2CheckServices e cl mem skipRoles dcs] @
     map (step2CheckS3Configure mem) dcs"

definition NewCheckTopologyTask :: "cli_env \<Rightarrow> dingocli \<Rightarrow> string \<Rightarrow> omap \<Rightarrow> 'w task res" where
  "NewCheckTopologyTask e cl uuid mem =
     bindR (mem_deploys mem KEY_ALL_DEPLOY_CONFIGS) (\<lambda>dcs.
       case dcs of
         [] \<Rightarrow> Inl GoPanic
       | dc # _ \<Rightarrow>
           bindR (mem_strs mem KEY_SKIP_CHECKS_ROLES) (\<lambda>skipRoles.
           Inr (fold (\<lambda>r t. AddStep (check_step r) t) (topology_checks e cl mem skipRoles dcs)
                 (NewTask uuid ''Check Topology <topology>''
                   (''cluster='' @ cl_clusterName cl @ '' kind='' @ dc_kind dc) None))))"

section \<open>What the checks accept\<close>

lemma bindR_unit: "bindR r (\<lambda>_. Inr ()) = Inr () \<longleftrightarrow> (\<exists>x. r = Inr x)"
  by (cases r) auto

definition data_key :: "deploy_config \<Rightarrow> string list res" where
  "data_key dc =
     bindR (GetDataDir dc) (\<lambda>d. Inr (if d = [] \<or> d = SERVICE_DIR_ABSENT then [] else [dc_host dc @ '':'' @ d]))"

lemma data_dir_loop_iff:
  "data_dir_loop dcs used = Inr () \<longleftrightarrow>
     (\<exists>kss. mapR data_key dcs = Inr kss \<and> distinct (concat kss) \<and> set (concat kss) \<inter> fst ` set used = {})"
proof (induction dcs arbitrary: used)
  case (Cons dc dcs)
  show ?case
  proof (cases "GetDataDir dc")
    case (Inr d)
    show ?thesis
    proof (cases "d = [] \<or> d = SERVICE_DIR_ABSENT")
      case True
      with Inr have "data_key dc = Inr []" by (simp add: data_key_def)
      with True Inr Cons.IH [of used] show ?thesis by (auto simp: bindR_eq_Inr)
    next
      case False
      let ?k = "dc_host dc @ '':'' @ d"
      have "mapR data_key (dc # dcs) = bindR (mapR data_key dcs) (\<lambda>kss. Inr ([?k] # kss))"
        using Inr False by (simp add: data_key_def)
      with Inr False Cons.IH [of "AList.update ?k True used"] show ?thesis
        by (auto simp: bindR_eq_Inr Let_def map_of_eq_None_keys)
    qed
  qed (simp add: data_key_def)
qed simp

lemma colon_not_itoa: "CHR '':'' \<notin> set (itoa i)"
proof -
  have "\<not> is_digit (CHR '':'')" by (simp add: is_digit_def)
  then show ?thesis using show_dec_digits [of "\<bar>i\<bar>" "CHR '':''"] by (auto simp: itoa_def)
qed

lemma last_colon:
  assumes "x @ CHR '':'' # u = y @ CHR '':'' # v" and "CHR '':'' \<notin> set u" and "CHR '':'' \<notin> set v"
  shows "x = y \<and> u = v"
proof -
  from assms(1) obtain z where "x = y @ z \<and> z @ CHR '':'' # u = CHR '':'' # v \<or> x @ z = y \<and> CHR '':'' # u = z @ CHR '':'' # v"
    by (auto simp: append_eq_append_conv2)
  with assms(2,3) show ?thesis by (cases z) auto
qed

lemma addr_string_inj: "addr_string a = addr_string b \<longleftrightarrow> ad_IP a = ad_IP b \<and> ad_Port a = ad_Port b"
  using last_colon [OF _ colon_not_itoa colon_not_itoa] by (auto simp: addr_string_def itoa_inj)

lemma distinct_addr:
  "distinct (map addr_string l) \<longleftrightarrow> distinct (map (\<lambda>a. (ad_IP a, ad_Port a)) l)"
  by (induction l) (auto simp: addr_string_inj image_iff)

lemma address_loop_append: "address_loop (as @ bs) m = bindR (address_loop as m) (address_loop bs)"
  by (induction as arbitrary: m) auto

lemma address_loop_iff:
  "(\<exists>m'. address_loop as m = Inr m') \<longleftrightarrow> distinct (map addr_string as) \<and> addr_string ` set as \<inter> fst ` set m = {}"
  by (induction as arbitrary: m) (auto simp: map_of_eq_None_keys image_iff)

lemma address_fold_iff:
  "foldR (\<lambda>dc m. bindR (getServiceListenAddresses dc) (\<lambda>addresses. address_loop addresses m)) dcs m = Inr m' \<longleftrightarrow>
     (\<exists>ass. mapR getServiceListenAddresses dcs = Inr ass \<and> address_loop (concat ass) m = Inr m')"
proof (induction dcs arbitrary: m)
  case (Cons dc dcs)
  then show ?case by (simp only: foldR.simps mapR.simps bindR_eq_Inr bindR_assoc) (auto simp: address_loop_append bindR_eq_Inr)
qed simp

lemma host_num_loop_card:
  "host_num_loop dcs n m = n + int (card (dc_parentId ` set dcs - fst ` set m))"
proof (induction dcs arbitrary: n m)
  case (Cons dc dcs)
  let ?p = "dc_parentId dc" and ?S = "dc_parentId ` set dcs"
  show ?case
  proof (cases "?p \<in> fst ` set m")
    case True
    then have "insert ?p ?S - fst ` set m = ?S - fst ` set m" by auto
    with True Cons.IH show ?thesis by (simp add: map_of_eq_None_keys)
  next
    case False
    then have "insert ?p ?S - fst ` set m = insert ?p (?S - insert ?p (fst ` set m))" by auto
    then have "card (insert ?p ?S - fst ` set m) = Suc (card (?S - insert ?p (fst ` set m)))" by simp
    with False Cons.IH show ?thesis by (simp add: map_of_eq_None_keys)
  qed
qed simp

lemma getHostNum_card: "getHostNum dcs = int (card (dc_parentId ` set dcs))"
  by (simp add: getHostNum_def host_num_loop_card)

lemma directory_loop_iff:
  "directory_loop dirs = Inr () \<longleftrightarrow> (\<forall>d \<in> set dirs. dir_Path d = SERVICE_DIR_ABSENT \<or> has_prefix (dir_Path d) ''/'')"
  by (induction dirs) auto

lemma s3_loop_iff:
  "s3_loop weak items = Inr () \<longleftrightarrow> (\<forall>(v, err) \<in> set items. v \<noteq> S3_TEMPLATE_VALUE \<and> (v \<noteq> [] \<or> weak))"
  by (induction items) (auto split: if_splits)

text \<open>Enough services, or hosts, of a role.\<close>

definition enough :: "bool \<Rightarrow> string \<Rightarrow> int \<Rightarrow> bool" where
  "enough weak role n \<longleftrightarrow> n \<ge> 3 \<or> weak \<and> role = ROLE_SNAPSHOTCLONE \<and> n = 0"

definition required :: "string list \<Rightarrow> string \<Rightarrow> string \<Rightarrow> bool" where
  "required skipRoles kind role \<longleftrightarrow>
     \<not> Contains skipRoles role \<and>
     (kind = KIND_DINGOFS \<longrightarrow> role \<noteq> ROLE_CHUNKSERVER \<and> role \<noteq> ROLE_SNAPSHOTCLONE) \<and>
     (kind = KIND_DINGOSTORE \<or> kind = KIND_DINGODB \<longrightarrow> role = ROLE_COORDINATOR \<or> role = ROLE_STORE)"

lemma check_skip_required: "dcs \<noteq> [] \<Longrightarrow> check_skip skipRoles dcs role = Inr (\<not> required skipRoles (dc_kind (hd dcs)) role)"
  by (cases dcs) (auto simp: check_skip_def required_def Let_def)

lemma require_3_iff:
  assumes "dcs \<noteq> []" and "\<forall>(role, err) \<in> set items. role \<noteq> ''*''"
  shows "require_3 number e cl weak skipRoles dcs items = Inr () \<longleftrightarrow>
     (\<forall>role \<in> fst ` set items. required skipRoles (dc_kind (hd dcs)) role \<longrightarrow>
        enough weak role (number (filter (\<lambda>d. dc_role d = role) dcs)))"
  using assms(2)
proof (induction items)
  case (Cons item items)
  obtain role err where [simp]: "item = (role, err)" by (cases item)
  have "FilterDeployConfigByRole e cl dcs role = filter (\<lambda>d. dc_role d = role) dcs"
    using Cons.prems by (simp add: FilterDeployConfigByRole_filter)
  with Cons assms(1) show ?case by (auto simp: check_skip_required enough_def Let_def)
qed simp

definition topology_ok :: "cli_env \<Rightarrow> dingocli \<Rightarrow> bool \<Rightarrow> string list \<Rightarrow> deploy_config list \<Rightarrow> bool" where
  "topology_ok e cl weak skipRoles dcs \<longleftrightarrow>
     (\<forall>dc \<in> set dcs. (\<exists>hc. cli_GetHost e cl (dc_host dc) = Inr hc) \<and>
        (\<exists>dirs. getServiceDirectorys dc = Inr dirs \<and>
           (\<forall>d \<in> set dirs. dir_Path d = SERVICE_DIR_ABSENT \<or> has_prefix (dir_Path d) ''/''))) \<and>
     (\<exists>kss. mapR data_key dcs = Inr kss \<and> distinct (concat kss)) \<and>
     (\<exists>ass. mapR getServiceListenAddresses dcs = Inr ass \<and> distinct (map (\<lambda>a. (ad_IP a, ad_Port a)) (concat ass))) \<and>
     (\<forall>role \<in> fst ` set service_items. required skipRoles (dc_kind (hd dcs)) role \<longrightarrow>
        enough weak role (int (length (filter (\<lambda>d. dc_role d = role) dcs)))) \<and>
     (\<forall>role \<in> fst ` set host_items_3. required skipRoles (dc_kind (hd dcs)) role \<longrightarrow>
        enough weak role (int (card (dc_parentId ` {d \<in> set dcs. dc_role d = role}))))"

definition s3_ok :: "bool \<Rightarrow> deploy_config \<Rightarrow> bool" where
  "s3_ok weak dc \<longleftrightarrow>
     (\<forall>getter \<in> {GetS3AccessKey, GetS3SecretKey, GetS3Address, GetS3BucketName}.
        \<exists>v. getter dc = Inr v \<and> v \<noteq> S3_TEMPLATE_VALUE \<and> (v \<noteq> [] \<or> weak))"

lemma checks_before_s3:
  assumes "dcs \<noteq> []" and "mem_bool mem KEY_CHECK_WITH_WEAK = Inr weak"
  shows "(\<forall>r \<in> set (map (step2CheckSSHConfigure e cl) dcs @ map step2CheckDirectoryPath dcs @
       [step2CheckDataDirectoryDuplicate dcs, step2CheckAddressDuplicate dcs, step2CheckServices e cl mem skipRoles dcs]).
       r = Inr ()) \<longleftrightarrow> topology_ok e cl weak skipRoles dcs"
proof -
  have names: "\<forall>(role, err) \<in> set service_items. role \<noteq> ''*''" "\<forall>(role, err) \<in> set host_items_3. role \<noteq> ''*''"
    by (simp_all add: service_items_def host_items_3_def)
  have "step2CheckSSHConfigure e cl d = Inr () \<longleftrightarrow> (\<exists>hc. cli_GetHost e cl (dc_host d) = Inr hc)" for d
    by (simp add: step2CheckSSHConfigure_def bindR_unit)
  moreover have "step2CheckDirectoryPath d = Inr () \<longleftrightarrow> (\<exists>dirs. getServiceDirectorys d = Inr dirs \<and>
           (\<forall>x \<in> set dirs. dir_Path x = SERVICE_DIR_ABSENT \<or> has_prefix (dir_Path x) ''/''))" for d
    by (auto simp: step2CheckDirectoryPath_def bindR_eq_Inr directory_loop_iff)
  moreover have "step2CheckDataDirectoryDuplicate dcs = Inr () \<longleftrightarrow> (\<exists>kss. mapR data_key dcs = Inr kss \<and> distinct (concat kss))"
    by (simp add: step2CheckDataDirectoryDuplicate_def data_dir_loop_iff)
  moreover have "step2CheckAddressDuplicate dcs = Inr () \<longleftrightarrow>
      (\<exists>ass. mapR getServiceListenAddresses dcs = Inr ass \<and> distinct (map (\<lambda>a. (ad_IP a, ad_Port a)) (concat ass)))"
    using address_loop_iff [of _ "[]"]
    by (auto simp: step2CheckAddressDuplicate_def bindR_unit address_fold_iff distinct_addr)
  moreover have "step2CheckServices e cl mem skipRoles dcs = Inr () \<longleftrightarrow>
     (\<forall>role \<in> fst ` set service_items. required skipRoles (dc_kind (hd dcs)) role \<longrightarrow>
        enough weak role (int (length (filter (\<lambda>d. dc_role d = role) dcs)))) \<and>
     (\<forall>role \<in> fst ` set host_items_3. required skipRoles (dc_kind (hd dcs)) role \<longrightarrow>
        enough weak role (int (card (dc_parentId ` {d \<in> set dcs. dc_role d = role}))))"
    using assms(2) require_3_iff [OF assms(1) names(1)] require_3_iff [OF assms(1) names(2)]
    by (simp add: step2CheckServices_def bindR_eq_Inr getHostNum_card)
  ultimately show ?thesis by (auto simp: topology_ok_def ball_Un)
qed

lemma s3_check_iff:
  assumes "mem_bool mem KEY_CHECK_SKIP_SNAPSHOECLONE = Inr False" and "mem_bool mem KEY_CHECK_WITH_WEAK = Inr weak"
  shows "step2CheckS3Configure mem dc = Inr () \<longleftrightarrow> s3_ok weak dc"
  using assms by (auto simp: step2CheckS3Configure_def s3_ok_def bindR_eq_Inr s3_loop_iff)

lemma check_steps_errors:
  "first_error (map check_step rs) w = (case find (\<lambda>r. r \<noteq> Inr ()) rs of None \<Rightarrow> None | Some (Inl err) \<Rightarrow> Some (TErr err) | Some _ \<Rightarrow> None)"
proof (induction rs)
  case (Cons r rs)
  then show ?case by (cases r) (auto simp: check_step_def)
qed simp

lemma fold_AddStep_steps: "t_steps (fold (\<lambda>r t. AddStep (check_step r) t) rs t) = t_steps t @ map check_step rs"
  and fold_AddStep_ssh: "t_ssh (fold (\<lambda>r t. AddStep (check_step r) t) rs t) = t_ssh t"
  by (induction rs arbitrary: t) (simp_all add: AddStep_def)

lemma run_check_task:
  assumes "mem_deploys mem KEY_ALL_DEPLOY_CONFIGS = Inr dcs" and "mem_strs mem KEY_SKIP_CHECKS_ROLES = Inr skipRoles"
    and "NewCheckTopologyTask e cl uuid mem = Inr t"
  shows "dcs \<noteq> [] \<and> snd (Task_Execute t w) =
     (case find (\<lambda>r. r \<noteq> Inr ()) (topology_checks e cl mem skipRoles dcs) of None \<Rightarrow> None | Some (Inl err) \<Rightarrow> Some (TErr err) | Some _ \<Rightarrow> None)"
  using assms
  by (auto simp: NewCheckTopologyTask_def bindR_eq_Inr Task_Execute_def fold_AddStep_steps fold_AddStep_ssh NewTask_def
      run_steps_spec check_steps_errors Let_def split: list.splits option.splits sum.splits)

lemma find_not_ok: "find (\<lambda>r. r \<noteq> Inr ()) rs = None \<longleftrightarrow> (\<forall>r \<in> set rs. r = Inr ())"
  by (induction rs) auto

lemma find_append: "find P (xs @ ys) = (case find P xs of None \<Rightarrow> find P ys | Some x \<Rightarrow> Some x)"
  by (induction xs) auto

lemma find_not_ok_Inl: "find (\<lambda>r. r \<noteq> Inr ()) rs = Some r \<Longrightarrow> \<exists>err. r = Inl err"
  by (induction rs) (auto split: if_splits, metis old.unit.exhaust sum.exhaust)


text \<open>Without the option that says whether the object storage is checked, a topology that passes everything before panics.\<close>

lemma check_without_option_panics:
  fixes w :: 'w
  assumes "topology_ok e cl False skipRoles dcs" and "dcs \<noteq> []"
    and "mem = [(KEY_ALL_DEPLOY_CONFIGS, ODeploys dcs), (KEY_CHECK_WITH_WEAK, OVal (GBool False)), (KEY_SKIP_CHECKS_ROLES, OStrs skipRoles)]"
  shows "\<exists>t. NewCheckTopologyTask e cl uuid mem = Inr t \<and> snd (Task_Execute t w) = Some (TErr GoPanic)"
proof -
  have mem: "mem_deploys mem KEY_ALL_DEPLOY_CONFIGS = Inr dcs" "mem_strs mem KEY_SKIP_CHECKS_ROLES = Inr skipRoles"
      "mem_bool mem KEY_CHECK_WITH_WEAK = Inr False" "mem_bool mem KEY_CHECK_SKIP_SNAPSHOECLONE = Inl GoPanic"
    using assms(3) by (simp_all add: mem_deploys_def mem_strs_def mem_bool_def)
  obtain t :: "'w task" where t: "NewCheckTopologyTask e cl uuid mem = Inr t"
    using mem assms(2) by (cases dcs) (auto simp: NewCheckTopologyTask_def)
  let ?before = "map (step2CheckSSHConfigure e cl) dcs @ map step2CheckDirectoryPath dcs @
       [step2CheckDataDirectoryDuplicate dcs, step2CheckAddressDuplicate dcs, step2CheckServices e cl mem skipRoles dcs]"
  have "find (\<lambda>r. r \<noteq> Inr ()) ?before = None"
    using checks_before_s3 [OF assms(2) mem(3), of e cl skipRoles] assms(1) by (simp only: find_not_ok)
  moreover have "topology_checks e cl mem skipRoles dcs = ?before @ map (step2CheckS3Configure mem) dcs"
    by (simp add: topology_checks_def)
  moreover have "step2CheckS3Configure mem dc = Inl GoPanic" for dc
    by (simp add: step2CheckS3Configure_def mem(4))
  ultimately have "find (\<lambda>r. r \<noteq> Inr ()) (topology_checks e cl mem skipRoles dcs) = Some (Inl GoPanic)"
    using assms(2) by (cases dcs) (simp_all only: find_append list.map, simp_all)
  with run_check_task [OF mem(1,2) t, of w] t show ?thesis by simp
qed

section \<open>A cluster that passes\<close>

definition check_env :: cli_env where
  "check_env =
     \<lparr>env_host = demo_env,
      env_read_hosts = (\<lambda>_. Some \<lparr>hosts_Global = None,
        hosts_Host = map (\<lambda>h. Some [(''host'', GStr h), (''hostname'', GStr ''10.0.0.1'')]) [''a'', ''b'', ''c'']\<rparr>),
      env_read_topology = (\<lambda>_. None), env_uuid = (\<lambda>_ _. ''u''), env_md5 = (\<lambda>s. s), env_hash = (\<lambda>_. None)\<rparr>"

definition check_cli :: dingocli where
  "check_cli =
     \<lparr>cl_hosts = ''d'', cl_clusterId = 1, cl_clusterUUId = ''u'', cl_clusterName = ''c'', cl_clusterTopologyData = ''t'',
      cl_clusterPoolData = [], cl_memStorage = [], cl_monitor = \<lparr>mon_ClusterId = 1, mon_Monitor = []\<rparr>\<rparr>"

definition check_dcs :: "deploy_config list" where
  "check_dcs =
     map (\<lambda>(role, host). (demo_dc (role @ host) role host)\<lparr>dc_kind := KIND_DINGOSTORE, dc_config := [(''data_dir'', GStr (''/data/'' @ role))]\<rparr>)
       [(ROLE_COORDINATOR, ''a''), (ROLE_COORDINATOR, ''b''), (ROLE_COORDINATOR, ''c''),
        (ROLE_STORE, ''a''), (ROLE_STORE, ''b''), (ROLE_STORE, ''c'')]"

definition check_mem :: omap where
  "check_mem =
     [(KEY_ALL_DEPLOY_CONFIGS, ODeploys check_dcs), (KEY_CHECK_SKIP_SNAPSHOECLONE, OVal (GBool False)),
      (KEY_CHECK_WITH_WEAK, OVal (GBool True)), (KEY_SKIP_CHECKS_ROLES, OStrs [])]"

lemma check_demo_passes:
  "list_all (\<lambda>r. case r of Inr _ \<Rightarrow> True | Inl _ \<Rightarrow> False) (topology_checks check_env check_cli check_mem [] check_dcs)"
  by code_simp


lemma Inr_unit_list: "list_all (\<lambda>r. case r of Inr _ \<Rightarrow> True | Inl _ \<Rightarrow> False) rs \<longleftrightarrow> (\<forall>r \<in> set rs. r = Inr ())"
  by (induction rs) (auto split: sum.splits)

definition strict_mem :: omap where
  "strict_mem =
     [(KEY_ALL_DEPLOY_CONFIGS, ODeploys check_dcs), (KEY_CHECK_WITH_WEAK, OVal (GBool False)), (KEY_SKIP_CHECKS_ROLES, OStrs [])]"

lemma check_demo_strict: "topology_ok check_env check_cli False [] check_dcs"
proof -
  have "list_all (\<lambda>r. case r of Inr _ \<Rightarrow> True | Inl _ \<Rightarrow> False)
      (map (step2CheckSSHConfigure check_env check_cli) check_dcs @ map step2CheckDirectoryPath check_dcs @
       [step2CheckDataDirectoryDuplicate check_dcs, step2CheckAddressDuplicate check_dcs,
        step2CheckServices check_env check_cli strict_mem [] check_dcs])"
    by code_simp
  then show ?thesis
    using checks_before_s3 [of check_dcs strict_mem False check_env check_cli "[]"]
    by (simp only: Inr_unit_list) (simp add: check_dcs_def strict_mem_def mem_bool_def)
qed

end
