(* ===== verification/Storage_Spec.thy ===== *)
theory Storage_Spec
  imports Storage
begin

text \<open>
  What the commands rely on of the local database: its keyed tables are maps that refuse to overwrite
  (the locales \<open>keyed_store\<close> and \<open>keyed_table\<close>, interpreted on the tables of services, clients, client configurations
  and monitors), a checkout makes the named cluster the current one, the hosts written are read back, and the
  names of clusters are matched as patterns.
\<close>

section \<open>Keyed tables as maps\<close>

text \<open>
  What the commands rely on when they register rows under a key: an insert under a new key succeeds and adds
  exactly that row, an insert under a used key fails and changes nothing.
\<close>

locale keyed_store =
  fixes content :: "db \<Rightarrow> 'k \<Rightarrow> 'v option"
    and ins :: "'k \<Rightarrow> 'v \<Rightarrow> unit dbop"
  assumes insert_new: "db_faults d = [] \<Longrightarrow> content d k = None \<Longrightarrow>
      \<exists>d'. ins k v d = (d', Inr ()) \<and> db_faults d' = [] \<and> content d' = (content d)(k \<mapsto> v)"
    and insert_used: "db_faults d = [] \<Longrightarrow> content d k = Some w \<Longrightarrow> ins k v d = (d, Inl ConstraintFailed)"
begin

lemma first_insert_wins:
  assumes "db_faults d = []" and "content d k = None"
  shows "content (fst (ins k w (fst (ins k v d)))) k = Some v"
proof -
  from insert_new [OF assms, of v] obtain d' where d': "ins k v d = (d', Inr ())" "db_faults d' = []" "content d' = (content d)(k \<mapsto> v)"
    by blast
  with insert_used [of d' k v w] show ?thesis by simp
qed

lemma insert_other:
  assumes "db_faults d = []" and "j \<noteq> k"
  shows "content (fst (ins k v d)) j = content d j"
proof (cases "content d k")
  case None
  with insert_new [OF assms(1), of k v] assms(2) show ?thesis by auto
next
  case (Some w)
  with insert_used [OF assms(1)] show ?thesis by simp
qed

end

datatype ('k, 'v) kv_op = KvInsert 'k 'v | KvDelete 'k

text \<open>The abstract table: a finite map that refuses to overwrite.\<close>

fun kv_spec :: "('k, 'v) kv_op list \<Rightarrow> ('k \<rightharpoonup> 'v) \<Rightarrow> ('k \<rightharpoonup> 'v) \<times> bool list" where
  "kv_spec [] m = (m, [])"
| "kv_spec (KvInsert k v # ops) m =
     (if m k = None then apsnd (Cons True) (kv_spec ops (m(k \<mapsto> v))) else apsnd (Cons False) (kv_spec ops m))"
| "kv_spec (KvDelete k # ops) m = apsnd (Cons True) (kv_spec ops (m(k := None)))"

text \<open>The same operations on the database, with whether each of them succeeded.\<close>

fun kv_run :: "('k \<Rightarrow> 'v \<Rightarrow> unit dbop) \<Rightarrow> ('k \<Rightarrow> unit dbop) \<Rightarrow> ('k, 'v) kv_op list \<Rightarrow> db \<Rightarrow> db \<times> bool list" where
  "kv_run ins del [] d = (d, [])"
| "kv_run ins del (KvInsert k v # ops) d =
     (case ins k v d of (d', r) \<Rightarrow> apsnd (Cons (r = Inr ())) (kv_run ins del ops d'))"
| "kv_run ins del (KvDelete k # ops) d =
     (case del k d of (d', r) \<Rightarrow> apsnd (Cons (r = Inr ())) (kv_run ins del ops d'))"

locale keyed_table = keyed_store content ins
  for content :: "db \<Rightarrow> 'k \<Rightarrow> 'v option" and ins :: "'k \<Rightarrow> 'v \<Rightarrow> unit dbop" +
  fixes del :: "'k \<Rightarrow> unit dbop"
  assumes delete: "db_faults d = [] \<Longrightarrow>
      \<exists>d'. del k d = (d', Inr ()) \<and> db_faults d' = [] \<and> content d' = (content d)(k := None)"
begin

lemma refines:
  assumes "db_faults d = []" and "kv_run ins del ops d = (d', rs)"
  shows "db_faults d' = [] \<and> kv_spec ops (content d) = (content d', rs)"
  using assms
proof (induction ops arbitrary: d rs)
  case (Cons oper ops)
  show ?case
  proof (cases oper)
    case (KvInsert k v)
    show ?thesis
    proof (cases "content d k")
      case None
      with insert_new [OF Cons.prems(1), of k v] obtain e
        where e: "ins k v d = (e, Inr ())" "db_faults e = []" "content e = (content d)(k \<mapsto> v)" by blast
      with Cons.prems(2) KvInsert obtain rs' where "kv_run ins del ops e = (d', rs')" "rs = True # rs'"
        by (auto simp: apsnd_def map_prod_def split: prod.splits)
      with Cons.IH [OF e(2)] e(3) KvInsert None show ?thesis by (simp del: fun_upd_apply)
    next
      case (Some w)
      with Cons.prems KvInsert insert_used obtain rs' where "kv_run ins del ops d = (d', rs')" "rs = False # rs'"
        by (auto simp: apsnd_def map_prod_def split: prod.splits)
      with Cons.IH [OF Cons.prems(1)] KvInsert Some show ?thesis by auto
    qed
  next
    case (KvDelete k)
    with delete [OF Cons.prems(1), of k] obtain e
      where e: "del k d = (e, Inr ())" "db_faults e = []" "content e = (content d)(k := None)" by blast
    with Cons.prems(2) KvDelete obtain rs' where "kv_run ins del ops e = (d', rs')" "rs = True # rs'"
      by (auto simp: apsnd_def map_prod_def split: prod.splits)
    with Cons.IH [OF e(2)] e(3) KvDelete show ?thesis by (simp del: fun_upd_apply)
  qed
qed simp

end

section \<open>The tables of the database as keyed tables\<close>

lemma find_snoc: "find P (xs @ [x]) = (case find P xs of None \<Rightarrow> if P x then Some x else None | Some y \<Rightarrow> Some y)"
  by (induction xs) auto

lemma find_delete_where: "find (\<lambda>r. key r = j) (delete_where (\<lambda>r. key r = k) rows) = (if j = k then None else find (\<lambda>r. key r = j) rows)"
  by (induction rows) (auto simp: delete_where_def)

lemma filter_find: "distinct (map key rows) \<Longrightarrow> filter (\<lambda>r. key r = k) rows = (case find (\<lambda>r. key r = k) rows of None \<Rightarrow> [] | Some r \<Rightarrow> [r])"
proof (induction rows)
  case (Cons a rows)
  then have "filter (\<lambda>r. key r = key a) rows = []" by (auto simp: filter_empty_conv image_iff)
  with Cons show ?case by auto
qed simp

lemma used_key: "(\<exists>r \<in> set rows. P r) \<longleftrightarrow> find P rows \<noteq> None"
  by (induction rows) auto

lemma itoa_1 [simp]: "itoa 1 = ''1''" by code_simp

lemma realId_inj [simp]: "realId p i = realId p j \<longleftrightarrow> i = j"
  by (simp add: realId_def)

definition client_content :: "db \<Rightarrow> string \<Rightarrow> (string \<times> string \<times> string \<times> string) option" where
  "client_content d i = map_option (\<lambda>r. (cli_Kind r, cli_Host r, cli_ContainerId r, cli_AuxInfo r)) (find (\<lambda>r. cli_Id r = i) (db_clients d))"

definition insert_client :: "string \<Rightarrow> string \<times> string \<times> string \<times> string \<Rightarrow> unit dbop" where
  "insert_client i = (\<lambda>(kind, host, containerId, auxInfo). InsertClient i kind host containerId auxInfo)"

interpretation clients: keyed_table client_content insert_client DeleteClient
proof unfold_locales
  fix d k and v :: "string \<times> string \<times> string \<times> string"
  assume *: "db_faults d = []" and "client_content d k = None"
  then show "\<exists>d'. insert_client k v d = (d', Inr ()) \<and> db_faults d' = [] \<and> client_content d' = (client_content d)(k \<mapsto> v)"
    by (cases v) (auto simp: insert_client_def client_content_def InsertClient_def used_key fun_eq_iff find_snoc split: option.splits)
next
  fix d k and v w :: "string \<times> string \<times> string \<times> string"
  assume "db_faults d = []" and "client_content d k = Some w"
  then show "insert_client k v d = (d, Inl ConstraintFailed)"
    by (cases v) (auto simp: insert_client_def client_content_def InsertClient_def used_key)
next
  fix d :: db and k
  assume "db_faults d = []"
  then show "\<exists>d'. DeleteClient k d = (d', Inr ()) \<and> db_faults d' = [] \<and> client_content d' = (client_content d)(k := None)"
    by (auto simp: DeleteClient_def client_content_def find_delete_where fun_eq_iff)
qed

definition config_content :: "db \<Rightarrow> string \<Rightarrow> string option" where
  "config_content d i = map_option any_Data (find (\<lambda>r. any_Id r = realId PREFIX_CLIENT_CONFIG i) (db_any d))"

interpretation configs: keyed_table config_content InsertClientConfig DeleteClientConfig
proof unfold_locales
  fix d k and v :: string
  assume "db_faults d = []" and "config_content d k = None"
  then show "\<exists>d'. InsertClientConfig k v d = (d', Inr ()) \<and> db_faults d' = [] \<and> config_content d' = (config_content d)(k \<mapsto> v)"
    by (auto simp: config_content_def InsertClientConfig_def Let_def used_key fun_eq_iff find_snoc split: option.splits)
next
  fix d k and v w :: string
  assume "db_faults d = []" and "config_content d k = Some w"
  then show "InsertClientConfig k v d = (d, Inl ConstraintFailed)"
    by (auto simp: config_content_def InsertClientConfig_def Let_def used_key)
next
  fix d :: db and k
  assume "db_faults d = []"
  then show "\<exists>d'. DeleteClientConfig k d = (d', Inr ()) \<and> db_faults d' = [] \<and> config_content d' = (config_content d)(k := None)"
    by (auto simp: DeleteClientConfig_def config_content_def Let_def find_delete_where fun_eq_iff)
qed

definition monitor_content :: "db \<Rightarrow> int \<Rightarrow> string option" where
  "monitor_content d i = map_option mon_Monitor (find (\<lambda>r. mon_ClusterId r = i) (db_monitors d))"

definition insert_monitor :: "int \<Rightarrow> string \<Rightarrow> unit dbop" where
  "insert_monitor i data = InsertMonitor \<lparr>mon_ClusterId = i, mon_Monitor = data\<rparr>"

interpretation monitors: keyed_table monitor_content insert_monitor DeleteMonitor
proof unfold_locales
  fix d k and v :: string
  assume "db_faults d = []" and "monitor_content d k = None"
  then show "\<exists>d'. insert_monitor k v d = (d', Inr ()) \<and> db_faults d' = [] \<and> monitor_content d' = (monitor_content d)(k \<mapsto> v)"
    by (auto simp: monitor_content_def insert_monitor_def InsertMonitor_def used_key fun_eq_iff find_snoc split: option.splits)
next
  fix d k and v w :: string
  assume "db_faults d = []" and "monitor_content d k = Some w"
  then show "insert_monitor k v d = (d, Inl ConstraintFailed)"
    by (auto simp: monitor_content_def insert_monitor_def InsertMonitor_def used_key)
next
  fix d :: db and k
  assume "db_faults d = []"
  then show "\<exists>d'. DeleteMonitor k d = (d', Inr ()) \<and> db_faults d' = [] \<and> monitor_content d' = (monitor_content d)(k := None)"
    by (auto simp: DeleteMonitor_def monitor_content_def find_delete_where fun_eq_iff)
qed

definition service_content :: "db \<Rightarrow> string \<Rightarrow> (int \<times> string) option" where
  "service_content d i = map_option (\<lambda>r. (srv_ClusterId r, srv_ContainerId r)) (find (\<lambda>r. srv_Id r = i) (db_containers d))"

definition insert_service :: "string \<Rightarrow> int \<times> string \<Rightarrow> unit dbop" where
  "insert_service i = (\<lambda>(clusterId, containerId). InsertService clusterId i containerId)"

interpretation services: keyed_store service_content insert_service
proof unfold_locales
  fix d k and v :: "int \<times> string"
  assume "db_faults d = []" and "service_content d k = None"
  then show "\<exists>d'. insert_service k v d = (d', Inr ()) \<and> db_faults d' = [] \<and> service_content d' = (service_content d)(k \<mapsto> v)"
    by (cases v) (auto simp: service_content_def insert_service_def InsertService_def used_key fun_eq_iff find_snoc split: option.splits)
next
  fix d k and v w :: "int \<times> string"
  assume "db_faults d = []" and "service_content d k = Some w"
  then show "insert_service k v d = (d, Inl ConstraintFailed)"
    by (cases v) (auto simp: service_content_def insert_service_def InsertService_def used_key)
qed

section \<open>What the commands rely on\<close>

lemma find_key: "find (\<lambda>r. key r = k) rows = Some r \<Longrightarrow> key r = k"
  by (metis (mono_tags, lifting) find_Some_iff)

lemma GetClient_content:
  "db_faults d = [] \<Longrightarrow> distinct (map cli_Id (db_clients d)) \<Longrightarrow>
   GetClient i d = (d, Inr (case client_content d i of None \<Rightarrow> []
     | Some (kind, host, containerId, auxInfo) \<Rightarrow>
         [\<lparr>cli_Id = i, cli_Kind = kind, cli_Host = host, cli_ContainerId = containerId, cli_AuxInfo = auxInfo\<rparr>]))"
  by (auto simp: GetClient_def client_content_def filter_find dest!: find_key split: option.splits)

lemma kv_run_clients_distinct:
  "distinct (map cli_Id (db_clients d)) \<Longrightarrow> kv_run insert_client DeleteClient ops d = (d', rs) \<Longrightarrow> distinct (map cli_Id (db_clients d'))"
proof (induction ops arbitrary: d rs)
  case (Cons oper ops)
  have "distinct (map cli_Id (db_clients (fst (insert_client k v d))))" "distinct (map cli_Id (db_clients (fst (DeleteClient k d))))" for k v
    using Cons.prems(1)
    by (cases v, auto simp: insert_client_def InsertClient_def DeleteClient_def db_Write_def distinct_delete_where image_iff
          dest!: tick_tables split: prod.splits sum.splits if_splits)
  moreover have "kv_run insert_client DeleteClient ops (case oper of KvInsert k v \<Rightarrow> fst (insert_client k v d) | KvDelete k \<Rightarrow> fst (DeleteClient k d)) = (d', tl rs)"
    using Cons.prems(2) by (cases oper) (auto simp: apsnd_def map_prod_def split: prod.splits)
  ultimately show ?case by (intro Cons.IH [rotated]) (auto split: kv_op.splits)
qed simp

text \<open>
  C12: the table of clients is the map of the registered clients: after any sequence of inserts and deletes on a new
  database, each of them succeeded exactly when it does on the map (an insert under a used id is refused), and
  \<open>GetClient\<close> returns the one row the map holds for the id, or none.
\<close>

theorem clients_refine_map:
  "case kv_run insert_client DeleteClient ops empty_db of (d, rs) \<Rightarrow>
     rs = snd (kv_spec ops Map.empty) \<and>
     (\<forall>i. snd (GetClient i d) = Inr (case fst (kv_spec ops Map.empty) i of None \<Rightarrow> []
        | Some (kind, host, containerId, auxInfo) \<Rightarrow>
            [\<lparr>cli_Id = i, cli_Kind = kind, cli_Host = host, cli_ContainerId = containerId, cli_AuxInfo = auxInfo\<rparr>]))"
proof (cases "kv_run insert_client DeleteClient ops empty_db")
  case (Pair d rs)
  have "client_content empty_db = Map.empty" "db_faults empty_db = []" "db_clients empty_db = []"
    by (auto simp: client_content_def empty_db_def)
  with clients.refines [of empty_db ops d rs] kv_run_clients_distinct [of empty_db ops d rs] Pair
  have "db_faults d = []" "kv_spec ops Map.empty = (client_content d, rs)" "distinct (map cli_Id (db_clients d))"
    by simp_all
  with Pair show ?thesis by (simp add: GetClient_content)
qed

text \<open>
  After a checkout, the current cluster is the one of that exact name when there is one; otherwise there is none
  any more, whatever was current before.
\<close>

theorem checkout_current:
  assumes "db_ok d" and "db_faults d = []"
  shows "snd (bindD (CheckoutCluster name) (\<lambda>_. GetCurrentCluster) d) =
     Inr (case find (\<lambda>c. clu_Name c = name) (cluster_rows d) of None \<Rightarrow> no_cluster | Some c \<Rightarrow> c\<lparr>clu_Current := True\<rparr>)"
proof -
  have "filter clu_Current (map (\<lambda>c. c\<lparr>clu_Current := (clu_Name c = name)\<rparr>) rows) =
      map (\<lambda>c. c\<lparr>clu_Current := True\<rparr>) (filter (\<lambda>c. clu_Name c = name) rows)" for rows :: "cluster list"
    by (induction rows) auto
  moreover have "filter (\<lambda>c. clu_Name c = name) (cluster_rows d) =
      (case find (\<lambda>c. clu_Name c = name) (cluster_rows d) of None \<Rightarrow> [] | Some r \<Rightarrow> [r])"
    using assms(1) by (intro filter_find) (simp add: db_ok_def clusters_ok_def)
  ultimately show ?thesis
    using assms(2)
    by (simp add: CheckoutCluster_def GetCurrentCluster_def set_cluster_rows_def rows_update_def split: option.splits)
qed

definition demo_cluster_db :: db where
  "demo_cluster_db = fst (InsertCluster 7 ''main'' ''u'' [] ''t'' empty_db)"

theorem storage_invariant_witness: "db_ok demo_cluster_db"
proof -
  have "db_step (empty_db\<lparr>db_faults := []\<rparr>) demo_cluster_db"
    unfolding demo_cluster_db_def by (simp add: empty_db_def) (rule db_step.intros)
  then show ?thesis using storage_invariant [of "[]" demo_cluster_db] by blast
qed

theorem checkout_current_witness:
  "snd (bindD (CheckoutCluster ''main'') (\<lambda>_. GetCurrentCluster) demo_cluster_db) =
     Inr \<lparr>clu_Id = 1, clu_UUId = ''u'', clu_Name = ''main'', clu_Description = [], clu_CreateTime = 7, clu_Topology = ''t'',
       clu_Pool = [], clu_Current = True\<rparr>"
proof -
  have "db_ok demo_cluster_db" "db_faults demo_cluster_db = []"
    by (simp_all add: demo_cluster_db_def InsertCluster_def empty_db_def auto_insert_def db_ok_def clusters_ok_def auto_ok_def)
  from checkout_current [OF this, of "''main''"] show ?thesis
    by (simp add: demo_cluster_db_def InsertCluster_def empty_db_def auto_insert_def)
qed

text \<open>
  The hosts written last are the hosts read back, and there is one row of them, whatever was stored before.
\<close>

lemma SetHosts_GetHostses:
  assumes "db_ok d" and "db_faults d = []"
  shows "\<exists>i. snd (bindD (SetHosts now data) (\<lambda>_. GetHostses) d) = Inr [\<lparr>hst_Id = i, hst_Data = data, hst_LastModifiedTime = now\<rparr>]"
proof -
  have "length (at_rows (db_hosts d)) \<le> 1" using assms(1) by (simp add: db_ok_def)
  then consider "at_rows (db_hosts d) = []" | i t m where "at_rows (db_hosts d) = [\<lparr>hst_Id = i, hst_Data = t, hst_LastModifiedTime = m\<rparr>]"
    by (cases "at_rows (db_hosts d)") (auto, metis hosts_row.cases)
  then show ?thesis
    by cases (use assms(2) in \<open>auto simp: SetHosts_def GetHostses_def auto_insert_def rows_update_def update_where_def\<close>)
qed

text \<open>Setting the auxiliary information of a client changes the row whose id is that information, not the client's.\<close>

lemma SetClientAuxInfo_misses:
  assumes "db_faults d = []" and "i \<noteq> auxInfo"
  shows "client_content (fst (SetClientAuxInfo i auxInfo d)) i = client_content d i"
proof -
  have "find (\<lambda>r. cli_Id r = i) (update_where (\<lambda>r. cli_Id r = auxInfo) (\<lambda>r. r\<lparr>cli_AuxInfo := i\<rparr>) rows) = find (\<lambda>r. cli_Id r = i) rows" for rows :: "client_row list"
    using assms(2) by (induction rows) (auto simp: update_where_def)
  with assms(1) show ?thesis by (simp add: SetClientAuxInfo_def Let_def client_content_def)
qed

section \<open>Patterns\<close>

lemma sql_like_any: "sql_like p t \<Longrightarrow> sql_like (CHR ''%'' # p) t"
  by (cases t) auto

lemma sql_like_all [simp]: "sql_like ''%'' t"
  by (induction t) auto

lemma sql_like_refl [simp]: "sql_like name name"
  by (induction name) (auto intro: sql_like_any)

lemma sql_like_plain:
  "CHR ''%'' \<notin> set p \<Longrightarrow> CHR ''_'' \<notin> set p \<Longrightarrow> sql_like p t \<longleftrightarrow> map sql_lower p = map sql_lower t"
  by (induction p t rule: sql_like.induct) auto

end
