(* ===== verification/Cluster_Admin.thy ===== *)
theory Cluster_Admin
  imports Deploy Topology_Check Storage_Spec
begin

text \<open>
  Starting a session and keeping the clusters of the local database: the initialisation and the audit log of
  \<open>cli/cli/cli.go\<close>, the frame of \<open>cli/dingocli.go\<close>, the commands \<open>add\<close>, \<open>checkout\<close>, \<open>rename\<close>, \<open>rm\<close> of
  \<open>cli/command/cluster\<close>, \<open>hosts commit\<close>, \<open>config commit\<close>, and the comparison of versions of
  \<open>internal/tools/upgrade\<close>.

  The state of a command is the database and the process state \<open>'s\<close> on which the steps of a playbook act.
  \<open>files\<close> is the file system: \<open>None\<close> for a path that does not exist, \<open>Some None\<close> for a file that cannot be read.
  What is printed, and the answers of the user (the argument \<open>pass\<close>), are outside of the model.
\<close>

section \<open>Commands on the database\<close>

type_synonym 's cmd = "db \<times> 's \<Rightarrow> (db \<times> 's) \<times> terr option"

type_synonym files = "string \<Rightarrow> string option option"

definition failC :: "errno \<Rightarrow> 's cmd" where
  "failC code st = (st, Some (TErr (Ec code)))"

definition errC :: "terr \<Rightarrow> 's cmd" where
  "errC err st = (st, Some err)"

definition doneC :: "'s cmd" where
  "doneC st = (st, None)"

text \<open>A statement whose error is wrapped into an error code.\<close>

definition dbC :: "errno \<Rightarrow> 'a dbop \<Rightarrow> ('a \<Rightarrow> 's cmd) \<Rightarrow> 's cmd" where
  "dbC code m k st =
     (case m (fst st) of
        (d, Inl _) \<Rightarrow> ((d, snd st), Some (TErr (Ec code)))
      | (d, Inr x) \<Rightarrow> k x (d, snd st))"

section \<open>Starting a session\<close>

type_synonym env_vars = "string \<Rightarrow> string option"

abbreviation KEY_ENV_ACTIVATE_CLUSTER :: string where "KEY_ENV_ACTIVATE_CLUSTER \<equiv> ''DINGO_CLUSTER''"

definition getActivatedClusterFromEnv :: "env_vars \<Rightarrow> string" where
  "getActivatedClusterFromEnv vars =
     (case vars KEY_ENV_ACTIVATE_CLUSTER of
        Some (c # n) \<Rightarrow> c # n
      | _ \<Rightarrow> (case vars ''dingo_cluster'' of Some (c # n) \<Rightarrow> c # n | _ \<Rightarrow> []))"

text \<open>\<open>Cluster{}\<close>: the zero value that \<open>GetClusterByName\<close> returns with an error.\<close>

definition zero_cluster :: cluster where
  "zero_cluster = no_cluster\<lparr>clu_Id := 0\<rparr>"

text \<open>An error of \<open>GetClusterByName\<close> is only logged.\<close>

definition init_cluster :: "env_vars \<Rightarrow> db \<Rightarrow> db \<times> cluster res" where
  "init_cluster vars d =
     (let name = getActivatedClusterFromEnv vars in
      if name \<noteq> [] then
        (case GetClusterByName name d of (d', Inl _) \<Rightarrow> (d', Inr zero_cluster) | (d', Inr c) \<Rightarrow> (d', Inr c))
      else
        (case GetCurrentCluster d of
           (d', Inl _) \<Rightarrow> (d', Inl (Ec ERR_GET_CURRENT_CLUSTER_FAILED))
         | (d', Inr c) \<Rightarrow> (d', Inr c)))"

definition wrapD :: "errno \<Rightarrow> 'a dbop \<Rightarrow> db \<Rightarrow> db \<times> 'a res" where
  "wrapD code m d = (case m d of (d', Inl _) \<Rightarrow> (d', Inl (Ec code)) | (d', Inr x) \<Rightarrow> (d', Inr x))"

definition bindS :: "(db \<Rightarrow> db \<times> 'a res) \<Rightarrow> ('a \<Rightarrow> db \<Rightarrow> db \<times> 'b res) \<Rightarrow> db \<Rightarrow> db \<times> 'b res" where
  "bindS m f d = (case m d of (d', Inl e) \<Rightarrow> (d', Inl e) | (d', Inr x) \<Rightarrow> f x d')"

text \<open>The part of \<open>init\<close> that reads the database; the directories, the configuration and the logs come before.\<close>

definition cli_init :: "env_vars \<Rightarrow> string \<Rightarrow> db \<Rightarrow> db \<times> dingocli res" where
  "cli_init vars dbUrl =
     bindS (wrapD ERR_INIT_SQL_DATABASE_FAILED (NewStorage dbUrl)) (\<lambda>_.
     bindS (wrapD ERR_GET_HOSTS_FAILED GetHostses) (\<lambda>hostses.
     bindS (init_cluster vars) (\<lambda>c.
     bindS (wrapD ERR_GET_MONITOR_FAILED (GetMonitor (clu_Id c))) (\<lambda>monitor d.
       (d, Inr \<lparr>cl_hosts = (case hostses of [h] \<Rightarrow> hst_Data h | _ \<Rightarrow> []), cl_clusterId = clu_Id c,
                cl_clusterUUId = clu_UUId c, cl_clusterName = clu_Name c, cl_clusterTopologyData = clu_Topology c,
                cl_clusterPoolData = clu_Pool c, cl_memStorage = [], cl_monitor = monitor\<rparr>)))))"

section \<open>Services of the session\<close>

abbreviation CLEANED_CONTAINER_ID :: string where "CLEANED_CONTAINER_ID \<equiv> ''-''"

definition cli_GetContainerId :: "string \<Rightarrow> db \<Rightarrow> db \<times> string res" where
  "cli_GetContainerId serviceId =
     bindS (wrapD ERR_GET_SERVICE_CONTAINER_ID_FAILED (GetContainerId serviceId)) (\<lambda>containerId d.
       (d, Inr (if length containerId = 0 then CLEANED_CONTAINER_ID else containerId)))"

definition IsSkip :: "cli_env \<Rightarrow> dingocli \<Rightarrow> deploy_config \<Rightarrow> db \<Rightarrow> db \<times> bool" where
  "IsSkip e cl dc d =
     (case GetContainerId (GetServiceId e cl (dc_id dc)) d of
        (d', r) \<Rightarrow> (d', r = Inr [] \<and> dc_role dc = ROLE_SNAPSHOTCLONE))"

section \<open>The audit log\<close>

abbreviation (input) AUDIT_STATUS_ABORT :: int where "AUDIT_STATUS_ABORT \<equiv> 0"
abbreviation (input) AUDIT_STATUS_SUCCESS :: int where "AUDIT_STATUS_SUCCESS \<equiv> 1"
abbreviation (input) AUDIT_STATUS_FAIL :: int where "AUDIT_STATUS_FAIL \<equiv> 2"
abbreviation (input) AUDIT_STATUS_CANCEL :: int where "AUDIT_STATUS_CANCEL \<equiv> 3"

definition PreAudit :: "int \<Rightarrow> string \<Rightarrow> string list \<Rightarrow> db \<Rightarrow> db \<times> int" where
  "PreAudit now cwd args d =
     (if length args = 0 then (d, -1)
      else if hd args = ''audit'' \<or> hd args = ''__complete'' then (d, -1)
      else
        (case InsertAuditLog now cwd (''dingocli '' @ join '' '' args) AUDIT_STATUS_ABORT d of
           (d', Inl _) \<Rightarrow> (d', 0)
         | (d', Inr i) \<Rightarrow> (d', i)))"

text \<open>The status and the error code that the outcome of a command leaves.\<close>

definition audit_status :: "terr option \<Rightarrow> int \<times> int" where
  "audit_status ec =
     (case ec of
        None \<Rightarrow> (AUDIT_STATUS_SUCCESS, 0)
      | Some err \<Rightarrow>
          if err = TErr (Ec ERR_CANCEL_OPERATION) then (AUDIT_STATUS_CANCEL, 0)
          else (AUDIT_STATUS_FAIL, case err of TErr (Ec code) \<Rightarrow> GetCode code | _ \<Rightarrow> 0))"

definition PostAudit :: "int \<Rightarrow> terr option \<Rightarrow> db \<Rightarrow> db" where
  "PostAudit i ec d =
     (if i < 0 then d
      else
        (case GetAuditLog i d of
           (d', Inr [_]) \<Rightarrow> (let (st, code) = audit_status ec in fst (SetAuditLogStatus i st code d'))
         | (d', _) \<Rightarrow> d'))"

text \<open>
  \<open>Execute\<close> of \<open>cli/dingocli.go\<close>, for a command that has been chosen: a panic ends the process before the audit
  log is completed.
\<close>

definition cli_Execute :: "int \<Rightarrow> string \<Rightarrow> string list \<Rightarrow> 's cmd \<Rightarrow> 's cmd" where
  "cli_Execute now cwd args command st =
     (let (d, i) = PreAudit now cwd args (fst st);
          ((d', s'), ec) = command (d, snd st)
      in if panicked ec then ((d', s'), ec) else ((PostAudit i ec d', s'), ec))"

text \<open>The last \<open>tail\<close> rows of the log.\<close>

definition audit_rows :: "int \<Rightarrow> audit_row list \<Rightarrow> audit_row list" where
  "audit_rows tail rows =
     (if tail \<noteq> 0 \<and> tail > 0 \<and> tail < int (length rows) then drop (length rows - nat tail) rows else rows)"

section \<open>Checking a topology\<close>

definition check_topology_step :: "deploy_config list \<Rightarrow> string list \<Rightarrow> int \<Rightarrow> 'cc playbook_step" where
  "check_topology_step dcs skipRoles step =
     \<lparr>ps_Name = [], ps_Type = step, ps_Configs = NilConfigs,
      ps_Options = [(KEY_ALL_DEPLOY_CONFIGS, ODeploys dcs), (KEY_CHECK_SKIP_SNAPSHOECLONE, OVal (GBool False)),
                    (KEY_CHECK_WITH_WEAK, OVal (GBool True)), (KEY_SKIP_CHECKS_ROLES, OStrs skipRoles)],
      ps_ExecOptions = \<lparr>eo_Concurrency = 100, eo_SilentMainBar = True, eo_SilentSubBar = True, eo_SkipError = False\<rparr>\<rparr>"

definition CHECK_TOPOLOGY_PLAYBOOK_STEPS :: "int list" where
  "CHECK_TOPOLOGY_PLAYBOOK_STEPS = [CHECK_TOPOLOGY]"

definition genCheckTopologyPlaybook :: "deploy_config list \<Rightarrow> 'cc playbook res" where
  "genCheckTopologyPlaybook dcs =
     (case dcs of
        [] \<Rightarrow> Inl GoPanic
      | dc # _ \<Rightarrow>
          bindR (FetchSkipRoles (dc_kind dc) dcs (GetRoles dcs)) (\<lambda>skipRoles.
          Inr (fold (\<lambda>step pb. pb_AddStep (check_topology_step dcs skipRoles step) pb)
                CHECK_TOPOLOGY_PLAYBOOK_STEPS NewPlaybook)))"

definition readTopology :: "files \<Rightarrow> string \<Rightarrow> string res" where
  "readTopology files filename =
     (if length filename = 0 then Inr []
      else case files filename of
        None \<Rightarrow> Inl (Ec ERR_TOPOLOGY_FILE_NOT_FOUND)
      | Some None \<Rightarrow> Inl (Ec ERR_READ_TOPOLOGY_FILE_FAILED)
      | Some (Some data) \<Rightarrow> Inr data)"

section \<open>Adding a cluster\<close>

record add_options =
  ad_name :: string
  ad_descriotion :: string
  ad_filename :: string
  ad_allowAbsent :: bool

definition checkTopology ::
  "('cc, 's, 't) runner \<Rightarrow> cli_env \<Rightarrow> dingocli \<Rightarrow> string \<Rightarrow> add_options \<Rightarrow> 's \<Rightarrow> 's \<times> terr option" where
  "checkTopology r e cl data options s =
     (if length (ad_filename options) = 0 then (s, None)
      else case ParseTopologyData e cl data of
        Inl err \<Rightarrow> (s, Some (TErr err))
      | Inr dcs \<Rightarrow> run_playbook r (genCheckTopologyPlaybook dcs) s)"

definition runAdd ::
  "('cc, 's, 't) runner \<Rightarrow> cli_env \<Rightarrow> files \<Rightarrow> int \<Rightarrow> string \<Rightarrow> dingocli \<Rightarrow> add_options \<Rightarrow> 's cmd" where
  "runAdd r e files now uuid cl options =
     (let name = ad_name options in
      dbC ERR_GET_ALL_CLUSTERS_FAILED (GetClusters name) (\<lambda>clusters.
        if length clusters > 0 then failC ERR_CLUSTER_ALREADY_EXIST
        else case readTopology files (ad_filename options) of
          Inl err \<Rightarrow> errC (TErr err)
        | Inr data \<Rightarrow>
            (\<lambda>st. case checkTopology r e cl data options (snd st) of
               (s', Some err) \<Rightarrow> ((fst st, s'), Some err)
             | (s', None) \<Rightarrow>
                 dbC ERR_INSERT_CLUSTER_FAILED (InsertCluster now name uuid (ad_descriotion options) data) (\<lambda>_. doneC) (fst st, s'))))"

section \<open>Switching, renaming and removing\<close>

definition runCheckout :: "string \<Rightarrow> 's cmd" where
  "runCheckout clusterName =
     dbC ERR_GET_ALL_CLUSTERS_FAILED (GetClusters clusterName) (\<lambda>clusters.
       if length clusters = 0 then failC ERR_CLUSTER_NOT_FOUND
       else dbC ERR_CHECKOUT_CLUSTER_FAILED (CheckoutCluster clusterName) (\<lambda>_. doneC))"

definition runList :: "db \<Rightarrow> db \<times> cluster list res" where
  "runList = wrapD ERR_GET_ALL_CLUSTERS_FAILED (GetClusters ''%'')"

definition checkAllServicesRemoved :: "bool \<Rightarrow> int \<Rightarrow> 's cmd \<Rightarrow> 's cmd" where
  "checkAllServicesRemoved force clusterId k =
     (if force then k
      else dbC ERR_GET_ALL_SERVICES_CONTAINER_ID_FAILED (GetServices clusterId) (\<lambda>services.
        if list_ex (\<lambda>s. length (srv_ContainerId s) \<noteq> 0 \<and> srv_ContainerId s \<noteq> CLEANED_CONTAINER_ID) services
        then failC ERR_ACTIVE_SERVICE_IN_CLUSTER else k))"

definition runRemove :: "bool \<Rightarrow> string \<Rightarrow> bool \<Rightarrow> 's cmd" where
  "runRemove force clusterName pass =
     dbC ERR_GET_ALL_CLUSTERS_FAILED (GetClusters clusterName) (\<lambda>clusters.
       case clusters of
         [] \<Rightarrow> failC ERR_CLUSTER_NOT_FOUND
       | c # _ \<Rightarrow>
           checkAllServicesRemoved force (clu_Id c)
             (if \<not> force \<and> \<not> pass then failC ERR_CANCEL_OPERATION
              else dbC ERR_DELETE_CLUSTER_FAILED (DeleteCluster clusterName) (\<lambda>_. doneC)))"

definition runRename :: "bool \<Rightarrow> string \<Rightarrow> string \<Rightarrow> bool \<Rightarrow> 's cmd" where
  "runRename force clusterOldName clusterNewName pass =
     dbC ERR_GET_ALL_CLUSTERS_FAILED (GetClusters clusterOldName) (\<lambda>clusters.
       if length clusters = 0 then failC ERR_CLUSTER_NOT_FOUND
       else if \<not> force \<and> \<not> pass then failC ERR_CANCEL_OPERATION
       else dbC ERR_RENAME_CLUSTER_FAILED (RenameClusterName clusterOldName clusterNewName) (\<lambda>_. doneC))"

section \<open>Committing hosts\<close>

definition readAndCheckHosts :: "cli_env \<Rightarrow> files \<Rightarrow> string \<Rightarrow> string res" where
  "readAndCheckHosts e files filename =
     (case files filename of
        None \<Rightarrow> Inl (Ec ERR_HOSTS_FILE_NOT_FOUND)
      | Some None \<Rightarrow> Inl (Ec ERR_READ_HOSTS_FILE_FAILED)
      | Some (Some data) \<Rightarrow> bindR (ParseHosts (env_host e) (env_read_hosts e) data) (\<lambda>_. Inr data))"

definition runCommit_hosts :: "cli_env \<Rightarrow> files \<Rightarrow> int \<Rightarrow> bool \<Rightarrow> string \<Rightarrow> bool \<Rightarrow> 's cmd" where
  "runCommit_hosts e files now force filename pass =
     (case readAndCheckHosts e files filename of
        Inl err \<Rightarrow> errC (TErr err)
      | Inr data \<Rightarrow>
          if \<not> force \<and> \<not> pass then failC ERR_CANCEL_OPERATION
          else dbC ERR_UPDATE_HOSTS_FAILED (SetHosts now data) (\<lambda>_. doneC))"

section \<open>Committing a topology\<close>

definition skipError :: "gerr \<Rightarrow> bool" where
  "skipError err \<longleftrightarrow> err = Ec ERR_EMPTY_CLUSTER_TOPOLOGY \<or> err = Ec ERR_NO_SERVICES_IN_TOPOLOGY"

text \<open>Added and deleted services are only warned about.\<close>

definition checkDiff :: "cli_env \<Rightarrow> dingocli \<Rightarrow> string \<Rightarrow> unit res" where
  "checkDiff e cl newData =
     (case cli_DiffTopology e cl (cl_clusterTopologyData cl) newData of
        Inl err \<Rightarrow> if skipError err then Inr () else Inl err
      | Inr diffs \<Rightarrow> Inr ())"

definition checkTopology_commit ::
  "('cc, 's, 't) runner \<Rightarrow> cli_env \<Rightarrow> dingocli \<Rightarrow> string \<Rightarrow> bool \<Rightarrow> 's \<Rightarrow> 's \<times> terr option" where
  "checkTopology_commit r e cl data force s =
     (if force then (s, None)
      else case ParseTopologyData e cl data of
        Inl err \<Rightarrow> (s, Some (TErr err))
      | Inr dcs \<Rightarrow>
          (case run_playbook r (genCheckTopologyPlaybook dcs) s of
             (s', Some err) \<Rightarrow> (s', Some err)
           | (s', None) \<Rightarrow>
               if length (cl_clusterTopologyData cl) > 0 then
                 (case checkDiff e cl data of Inl err \<Rightarrow> (s', Some (TErr err)) | Inr _ \<Rightarrow> (s', None))
               else (s', None)))"

text \<open>Reading, checking, asking and storing, once the current topology has been looked at.\<close>

definition commit_topology ::
  "('cc, 's, 't) runner \<Rightarrow> cli_env \<Rightarrow> files \<Rightarrow> dingocli \<Rightarrow> bool \<Rightarrow> string \<Rightarrow> bool \<Rightarrow> 's cmd" where
  "commit_topology r e files cl force filename pass =
     (case readTopology files filename of
        Inl err \<Rightarrow> errC (TErr err)
      | Inr data \<Rightarrow>
          (\<lambda>st. case checkTopology_commit r e cl data force (snd st) of
             (s', Some err) \<Rightarrow> ((fst st, s'), Some err)
           | (s', None) \<Rightarrow>
               (if \<not> force \<and> \<not> pass then failC ERR_CANCEL_OPERATION
                else dbC ERR_UPDATE_CLUSTER_TOPOLOGY_FAILED (SetClusterTopology (cl_clusterId cl) data) (\<lambda>_. doneC)) (fst st, s')))"

definition runCommit_config ::
  "('cc, 's, 't) runner \<Rightarrow> cli_env \<Rightarrow> files \<Rightarrow> dingocli \<Rightarrow> bool \<Rightarrow> string \<Rightarrow> bool \<Rightarrow> 's cmd" where
  "runCommit_config r e files cl force filename pass =
     (case cli_ParseTopology e cl of
        Inl err \<Rightarrow> if skipError err then commit_topology r e files cl force filename pass else errC (TErr err)
      | Inr _ \<Rightarrow> commit_topology r e files cl force filename pass)"

section \<open>Versions\<close>

fun version_loop :: "int \<Rightarrow> string list \<Rightarrow> int" where
  "version_loop num [] = num"
| "version_loop num (item # items) =
     (case atoi item of None \<Rightarrow> -1 | Some n \<Rightarrow> version_loop (wrap64 (num * 1000 + n)) items)"

definition calcVersion :: "string \<Rightarrow> int" where
  "calcVersion v = version_loop 0 (split_on (CHR ''.'') v)"

definition IsLatest :: "string \<Rightarrow> string \<Rightarrow> bool option" where
  "IsLatest currentVersion remoteVersion =
     (let v1 = calcVersion currentVersion; v2 = calcVersion remoteVersion in
      if v1 = -1 \<or> v2 = -1 then None else Some (v1 \<ge> v2))"

text \<open>
  \<open>Upgrade\<close> of the session: \<open>install\<close> is what running the installation script returns.  The day of the question is
  stored before the user answers, and an error of storing it is ignored.
\<close>

definition cli_Upgrade :: "bool \<Rightarrow> string \<Rightarrow> string \<Rightarrow> bool \<Rightarrow> (string \<Rightarrow> gerr option) \<Rightarrow> db \<Rightarrow> db \<times> bool res" where
  "cli_Upgrade autoUpgrade version day pass install d =
     (if \<not> autoUpgrade then (d, Inr False)
      else case GetVersions d of
        (d', Inl _) \<Rightarrow> (d', Inr False)
      | (d', Inr []) \<Rightarrow> (d', Inr False)
      | (d', Inr (v # _)) \<Rightarrow>
          (let latestVersion = ver_Version v in
           if IsLatest version (trim_prefix latestVersion ''v'') \<noteq> Some False then (d', Inr False)
           else if day = ver_LastConfirm v then (d', Inr False)
           else
             (let d'' = fst (SetVersion latestVersion day d') in
              if \<not> pass then (d'', Inl (Ec ERR_CANCEL_OPERATION))
              else case install latestVersion of None \<Rightarrow> (d'', Inr True) | Some err \<Rightarrow> (d'', Inl err))))"

section \<open>Statements without faults\<close>

lemma dbC_simps [simp]:
  "m d = (d', Inr x) \<Longrightarrow> dbC code m k (d, s) = k x (d', s)"
  "m d = (d', Inl err) \<Longrightarrow> dbC code m k (d, s) = ((d', s), Some (TErr (Ec code)))"
  by (simp_all add: dbC_def)

lemma cmd_simps [simp]: "failC code st = (st, Some (TErr (Ec code)))" "errC err st = (st, Some err)" "doneC st = (st, None)"
  by (simp_all add: failC_def errC_def doneC_def)

lemma GetClusters_ok [simp]:
  "db_faults d = [] \<Longrightarrow> GetClusters name d = (d, Inr (filter (\<lambda>c. sql_like name (clu_Name c)) (cluster_rows d)))"
  by (simp add: GetClusters_def)

lemma CheckoutCluster_ok [simp]:
  "db_faults d = [] \<Longrightarrow> CheckoutCluster name d = (set_cluster_rows (map (\<lambda>c. c\<lparr>clu_Current := (clu_Name c = name)\<rparr>)) d, Inr ())"
  by (simp add: CheckoutCluster_def)

lemma set_cluster_rows_sel [simp]:
  "db_faults (set_cluster_rows f d) = db_faults d" "cluster_rows (set_cluster_rows f d) = f (cluster_rows d)"
  "db_hosts (set_cluster_rows f d) = db_hosts d" "db_audit (set_cluster_rows f d) = db_audit d"
  "db_containers (set_cluster_rows f d) = db_containers d"  "db_monitors (set_cluster_rows f d) = db_monitors d"
  by (simp_all add: set_cluster_rows_def rows_update_def)

section \<open>Switching clusters\<close>

text \<open>
  A checkout of a name that no cluster has, but that matches the name of some cluster as a pattern (in another
  case, or with \<open>_\<close> or \<open>%\<close>), succeeds and leaves no cluster current: the next session has none.
\<close>

theorem checkout_by_pattern:
  assumes "db_faults d = []" and "c \<in> set (cluster_rows d)" and "sql_like name (clu_Name c)"
    and "\<forall>c \<in> set (cluster_rows d). clu_Name c \<noteq> name"
  shows "\<exists>d'. runCheckout name (d, s) = ((d', s), None) \<and> snd (GetCurrentCluster d') = Inr no_cluster"
proof -
  have "filter (\<lambda>c. sql_like name (clu_Name c)) (cluster_rows d) \<noteq> []"
    using assms(2,3) by (auto simp: filter_empty_conv)
  moreover have "filter clu_Current (map (\<lambda>c. c\<lparr>clu_Current := (clu_Name c = name)\<rparr>) rows) = []"
    if "\<forall>c \<in> set rows. clu_Name c \<noteq> name" for rows :: "cluster list"
    using that by (auto simp: filter_empty_conv)
  ultimately show ?thesis using assms(1,4) by (auto simp: runCheckout_def GetCurrentCluster_def)
qed

definition cased_db :: db where
  "cased_db = fst (CheckoutCluster ''Main'' (fst (InsertCluster 7 ''Main'' ''u'' [] ''t'' empty_db)))"

theorem checkout_by_pattern_witness:
  "\<exists>d'. runCheckout ''main'' (cased_db, ()) = ((d', ()), None) \<and> snd (GetCurrentCluster d') = Inr no_cluster \<and>
     snd (GetCurrentCluster cased_db) \<noteq> Inr no_cluster"
proof -
  let ?c = "\<lparr>clu_Id = 1, clu_UUId = ''u'', clu_Name = ''Main'', clu_Description = [], clu_CreateTime = 7, clu_Topology = ''t'',
    clu_Pool = [], clu_Current = True\<rparr>"
  have rows: "db_faults cased_db = []" "cluster_rows cased_db = [?c]"
    by (simp_all add: cased_db_def InsertCluster_def empty_db_def auto_insert_def)
  have "sql_like ''main'' ''Main''" by code_simp
  then have "\<exists>d'. runCheckout ''main'' (cased_db, ()) = ((d', ()), None) \<and> snd (GetCurrentCluster d') = Inr no_cluster"
    by (intro checkout_by_pattern [of _ ?c]) (simp_all add: rows)
  moreover have "snd (GetCurrentCluster cased_db) \<noteq> Inr no_cluster"
    by (simp add: GetCurrentCluster_def rows no_cluster_def)
  ultimately show ?thesis by blast
qed

section \<open>Removing clusters\<close>

definition active_service :: "service_row \<Rightarrow> bool" where
  "active_service s \<longleftrightarrow> srv_ContainerId s \<noteq> [] \<and> srv_ContainerId s \<noteq> CLEANED_CONTAINER_ID"

text \<open>
  Removing a cluster looks at the services of the first cluster whose name matches as a pattern, and deletes the
  cluster of the exact name: when the first match is another cluster without active services, a cluster is removed
  without force although its own services are active.
\<close>

theorem remove_with_active_services:
  assumes "db_faults d = []" and "filter (\<lambda>c. sql_like name (clu_Name c)) (cluster_rows d) = c0 # rest"
    and "\<forall>r \<in> set (db_containers d). srv_ClusterId r = clu_Id c0 \<longrightarrow> \<not> active_service r"
    and "c \<in> set (cluster_rows d)" and "clu_Name c = name" and "clu_Id c \<noteq> clu_Id c0"
    and "r \<in> set (db_containers d)" and "srv_ClusterId r = clu_Id c" and "active_service r"
  shows "\<exists>d'. runRemove False name True (d, s) = ((d', s), None) \<and> c \<notin> set (cluster_rows d') \<and> r \<in> set (db_containers d')"
proof -
  have "\<not> list_ex (\<lambda>s. length (srv_ContainerId s) \<noteq> 0 \<and> srv_ContainerId s \<noteq> CLEANED_CONTAINER_ID)
      (filter (\<lambda>r. srv_ClusterId r = clu_Id c0) (db_containers d))"
    using assms(3) by (auto simp: list_ex_iff active_service_def)
  with assms(1,2,5,7) show ?thesis
    by (auto simp: runRemove_def checkAllServicesRemoved_def GetServices_def DeleteCluster_def delete_where_def)
qed

definition two_clusters :: db where
  "two_clusters =
     empty_db\<lparr>db_clusters := \<lparr>at_rows = [no_cluster\<lparr>clu_Id := 1, clu_Name := ''web-1''\<rparr>, no_cluster\<lparr>clu_Id := 2, clu_Name := ''web_1''\<rparr>], at_seq = 2\<rparr>,
       db_containers := [\<lparr>srv_Id = ''s'', srv_ClusterId = 2, srv_ContainerId = ''k''\<rparr>]\<rparr>"

theorem remove_with_active_services_witness:
  "\<exists>d'. runRemove False ''web_1'' True (two_clusters, ()) = ((d', ()), None) \<and>
     no_cluster\<lparr>clu_Id := 2, clu_Name := ''web_1''\<rparr> \<notin> set (cluster_rows d') \<and>
     \<lparr>srv_Id = ''s'', srv_ClusterId = 2, srv_ContainerId = ''k''\<rparr> \<in> set (db_containers d')"
proof -
  have like: "sql_like ''web_1'' ''web-1''" "sql_like ''web_1'' ''web_1''" by code_simp+
  show ?thesis
    by (rule remove_with_active_services [where ?c0.0 = "no_cluster\<lparr>clu_Id := 1, clu_Name := ''web-1''\<rparr>" and rest = "[no_cluster\<lparr>clu_Id := 2, clu_Name := ''web_1''\<rparr>]"])
      (simp_all add: two_clusters_def like empty_db_def active_service_def)
qed

section \<open>The audit log\<close>

text \<open>
  A command that is audited adds one row to the audit log, with its outcome: success, cancelled, or failed with the
  error code; the row of a command that panics keeps the status of an aborted one.  The older rows stay as they were.
\<close>

theorem audit_records_outcome:
  assumes "db_ok d" and "db_faults d = []" and "args \<noteq> []" and "hd args \<noteq> ''audit''" and "hd args \<noteq> ''__complete''"
    and "\<And>d1 s1. db_faults d1 = [] \<Longrightarrow> db_audit (fst (fst (command (d1, s1)))) = db_audit d1 \<and> db_faults (fst (fst (command (d1, s1)))) = []"
    and "cli_Execute now cwd args command (d, s) = ((d', s'), ec)"
  shows "at_rows (db_audit d') = at_rows (db_audit d) @
     [\<lparr>au_Id = at_seq (db_audit d) + 1, au_ExecuteTime = now, au_WorkDirectory = cwd, au_Command = ''dingocli '' @ join '' '' args,
       au_Status = (if panicked ec then AUDIT_STATUS_ABORT else fst (audit_status ec)),
       au_ErrorCode = (if panicked ec then 0 else snd (audit_status ec))\<rparr>]"
proof -
  let ?i = "at_seq (db_audit d) + 1"
  define row where "row = \<lparr>au_Id = ?i, au_ExecuteTime = now, au_WorkDirectory = cwd, au_Command = ''dingocli '' @ join '' '' args,
       au_Status = AUDIT_STATUS_ABORT, au_ErrorCode = 0\<rparr>"
  define d1 where "d1 = d\<lparr>db_audit := \<lparr>at_rows = at_rows (db_audit d) @ [row], at_seq = ?i\<rparr>\<rparr>"
  have pre: "PreAudit now cwd args d = (d1, ?i)"
    using assms(2-5) by (simp add: PreAudit_def InsertAuditLog_def auto_insert_def d1_def row_def)
  have ok: "auto_ok au_Id (db_audit d)" using assms(1) by (simp add: db_ok_def)
  then have new: "\<forall>a \<in> set (at_rows (db_audit d)). au_Id a \<noteq> ?i" and i: "0 \<le> ?i" by (auto simp: auto_ok_def)
  obtain d2 where run: "command (d1, s) = ((d2, s'), ec)" and d': "d' = (if panicked ec then d2 else PostAudit ?i ec d2)"
    using assms(7) pre by (auto simp: cli_Execute_def split: prod.splits if_splits)
  have d2: "at_rows (db_audit d2) = at_rows (db_audit d) @ [row]" "db_faults d2 = []"
    using assms(6) [of d1 s] assms(2) run by (simp_all add: d1_def)
  show ?thesis
  proof (cases "panicked ec")
    case True
    with d' d2 show ?thesis by (simp add: row_def)
  next
    case False
    have "filter (\<lambda>a. au_Id a = ?i) (at_rows (db_audit d2)) = [row]"
      using d2 new by (simp add: row_def)
    moreover have "update_where (\<lambda>a. au_Id a = ?i) f (at_rows (db_audit d2)) = at_rows (db_audit d) @ [f row]" for f
      using d2 new by (auto simp: update_where_def row_def intro: map_idI)
    ultimately show ?thesis
      using False d' d2 i by (auto simp: PostAudit_def GetAuditLog_def SetAuditLogStatus_def rows_update_def row_def split: prod.splits)
  qed
qed

theorem audit_records_outcome_witness:
  "case cli_Execute 5 ''/w'' [''cluster'', ''checkout'', ''x''] (runCheckout ''x'') (empty_db, ()) of ((d, _), ec) \<Rightarrow>
     ec = Some (TErr (Ec ERR_CLUSTER_NOT_FOUND)) \<and>
     at_rows (db_audit d) = [\<lparr>au_Id = 1, au_ExecuteTime = 5, au_WorkDirectory = ''/w'', au_Command = ''dingocli cluster checkout x'',
       au_Status = AUDIT_STATUS_FAIL, au_ErrorCode = GetCode ERR_CLUSTER_NOT_FOUND\<rparr>]"
proof -
  have keeps: "db_faults d1 = [] \<Longrightarrow> db_audit (fst (fst (runCheckout ''x'' (d1, s1 :: unit)))) = db_audit d1 \<and>
      db_faults (fst (fst (runCheckout ''x'' (d1, s1)))) = []" for d1 s1
    by (simp add: runCheckout_def)
  have ok: "db_ok empty_db" by (simp add: db_ok_def empty_db_def clusters_ok_def auto_ok_def)
  obtain d s where run: "cli_Execute 5 ''/w'' [''cluster'', ''checkout'', ''x''] (runCheckout ''x'') (empty_db, ()) =
      ((d, s), Some (TErr (Ec ERR_CLUSTER_NOT_FOUND)))"
    by (simp add: cli_Execute_def PreAudit_def InsertAuditLog_def empty_db_def auto_insert_def runCheckout_def)
  have "at_rows (db_audit d) = at_rows (db_audit empty_db) @
     [\<lparr>au_Id = at_seq (db_audit empty_db) + 1, au_ExecuteTime = 5, au_WorkDirectory = ''/w'',
       au_Command = ''dingocli '' @ join '' '' [''cluster'', ''checkout'', ''x''],
       au_Status = AUDIT_STATUS_FAIL, au_ErrorCode = GetCode ERR_CLUSTER_NOT_FOUND\<rparr>]"
    using audit_records_outcome [OF ok _ _ _ _ keeps run] by (simp add: empty_db_def audit_status_def)
  with run show ?thesis by (simp add: empty_db_def)
qed

section \<open>Sessions\<close>

lemma wrapD_simps [simp]:
  "m d = (d', Inr x) \<Longrightarrow> wrapD code m d = (d', Inr x)" "m d = (d', Inl err) \<Longrightarrow> wrapD code m d = (d', Inl (Ec code))"
  by (simp_all add: wrapD_def)

lemma bindS_simps [simp]:
  "m d = (d', Inr x) \<Longrightarrow> bindS m f d = f x d'" "m d = (d', Inl e) \<Longrightarrow> bindS m f d = (d', Inl e)"
  by (simp_all add: bindS_def)

lemma storage_init_ok: "db_faults d = [] \<Longrightarrow> storage_init d = (d, Inr ())"
proof -
  have "db_faults d = [] \<Longrightarrow> m d = (d, Inr ()) \<Longrightarrow> fold (\<lambda>_ m. bindD m (\<lambda>_. db_Write (\<lambda>d. Inr d))) l m d = (d, Inr ())" for m and l :: "nat list"
    by (induction l arbitrary: m) simp_all
  then show "db_faults d = [] \<Longrightarrow> ?thesis" by (simp add: storage_init_def)
qed

lemma GetMonitor_ok: "db_faults d = [] \<Longrightarrow> \<exists>m. GetMonitor i d = (d, Inr m)"
  by (simp add: GetMonitor_def)

lemma GetCurrentCluster_ok: "db_faults d = [] \<Longrightarrow> \<exists>c. GetCurrentCluster d = (d, Inr c)"
  by (simp add: GetCurrentCluster_def split: list.split)

text \<open>A session that reads a database without faults: the hosts, and the cluster.\<close>

lemma cli_init_ok:
  assumes "db_faults d = []" and "db_url_driver url = Some driver" and "init_cluster vars d = (d, Inr c)"
  shows "\<exists>m. cli_init vars url d =
     (d, Inr \<lparr>cl_hosts = (case take 1 (at_rows (db_hosts d)) of [h] \<Rightarrow> hst_Data h | _ \<Rightarrow> []), cl_clusterId = clu_Id c,
        cl_clusterUUId = clu_UUId c, cl_clusterName = clu_Name c, cl_clusterTopologyData = clu_Topology c,
        cl_clusterPoolData = clu_Pool c, cl_memStorage = [], cl_monitor = m\<rparr>)"
proof -
  from GetMonitor_ok [OF assms(1), of "clu_Id c"] obtain m where m: "GetMonitor (clu_Id c) d = (d, Inr m)" by blast
  show ?thesis
    using assms m by (simp add: cli_init_def NewStorage_def storage_init_ok GetHostses_def)
qed



section \<open>Committing\<close>

lemma SetHosts_ok: "db_faults d = [] \<Longrightarrow> \<exists>e. SetHosts now data d = (e, Inr ()) \<and> db_faults e = []"
  by (cases "take 1 (at_rows (db_hosts d))") (simp_all add: SetHosts_def GetHostses_def)

text \<open>
  A commit of hosts that succeeds stores a file whose hosts parse, and the next session reads these hosts; one that
  fails stores nothing.
\<close>

theorem hosts_commit_session:
  fixes s :: 's
  assumes "db_ok d" and "db_faults d = []" and "db_url_driver url = Some driver"
    and "runCommit_hosts e files now force filename pass (d, s) = ((d', s'), res)"
  shows "if res = None then \<exists>data hcs cl. files filename = Some (Some data) \<and>
        ParseHosts (env_host e) (env_read_hosts e) data = Inr hcs \<and> (force \<or> pass) \<and>
        snd (cli_init (\<lambda>_. None) url d') = Inr cl \<and> cl_hosts cl = data
      else d' = d"
proof (cases "readAndCheckHosts e files filename")
  case (Inl err)
  with assms(4) show ?thesis by (auto simp: runCommit_hosts_def)
next
  case (Inr data)
  then obtain hcs where data: "files filename = Some (Some data)" "ParseHosts (env_host e) (env_read_hosts e) data = Inr hcs"
    by (auto simp: readAndCheckHosts_def bindR_eq_Inr split: option.splits)
  show ?thesis
  proof (cases "force \<or> pass")
    case True
    from SetHosts_GetHostses [OF assms(1,2), of now data] obtain i where
      hosts: "snd (bindD (SetHosts now data) (\<lambda>_. GetHostses) d) = Inr [\<lparr>hst_Id = i, hst_Data = data, hst_LastModifiedTime = now\<rparr>]" by blast
    from SetHosts_ok [OF assms(2), of now data]
    have d': "res = None" "db_faults d' = []" "SetHosts now data d = (d', Inr ())"
      using assms(4) Inr True by (auto simp: runCommit_hosts_def)
    with hosts have "take 1 (at_rows (db_hosts d')) = [\<lparr>hst_Id = i, hst_Data = data, hst_LastModifiedTime = now\<rparr>]"
      by (simp add: GetHostses_def)
    moreover obtain c where "init_cluster (\<lambda>_. None) d' = (d', Inr c)"
      using GetCurrentCluster_ok [OF d'(2)] by (auto simp: init_cluster_def getActivatedClusterFromEnv_def)
    ultimately have "\<exists>cl. snd (cli_init (\<lambda>_. None) url d') = Inr cl \<and> cl_hosts cl = data"
      using cli_init_ok [OF d'(2) assms(3)] by fastforce
    with d'(1) data True show ?thesis by auto
  next
    case False
    with assms(4) Inr show ?thesis by (auto simp: runCommit_hosts_def)
  qed
qed

text \<open>A commit of a topology, from the result back to what was read and checked.\<close>

lemma ParseTopologyData_not_Nil: "ParseTopologyData e cl data = Inr dcs \<Longrightarrow> dcs \<noteq> []"
  by (auto simp: ParseTopologyData_def bindR_eq_Inr split: if_splits)

lemma checkTopology_commit_parses:
  "checkTopology_commit r e cl data force s = (s', None) \<Longrightarrow> force \<or> (\<exists>dcs. ParseTopologyData e cl data = Inr dcs \<and> dcs \<noteq> [])"
  by (cases "ParseTopologyData e cl data") (auto simp: checkTopology_commit_def dest: ParseTopologyData_not_Nil split: if_splits)

lemma commit_topology_spec:
  assumes "db_faults d = []" and "commit_topology r e files cl force filename pass (d, s) = ((d', s'), res)"
  shows "if res = None then \<exists>data. readTopology files filename = Inr data \<and>
        (force \<or> pass \<and> (\<exists>dcs. ParseTopologyData e cl data = Inr dcs \<and> dcs \<noteq> [])) \<and>
        cluster_rows d' = map (\<lambda>c. if clu_Id c = cl_clusterId cl then c\<lparr>clu_Topology := data\<rparr> else c) (cluster_rows d)
      else d' = d"
proof (cases "readTopology files filename")
  case (Inr data)
  show ?thesis
  proof (cases "checkTopology_commit r e cl data force s")
    case (Pair s1 err)
    show ?thesis
    proof (cases err)
      case None
      with Pair have "force \<or> (\<exists>dcs. ParseTopologyData e cl data = Inr dcs \<and> dcs \<noteq> [])" by (simp add: checkTopology_commit_parses)
      moreover have "SetClusterTopology i data d = (set_cluster_rows (update_where (\<lambda>c. clu_Id c = i) (\<lambda>c. c\<lparr>clu_Topology := data\<rparr>)) d, Inr ())" for i
        using assms(1) by (simp add: SetClusterTopology_def)
      ultimately show ?thesis
        using assms(2) Inr Pair None by (auto simp: commit_topology_def update_where_def split: if_splits)
    qed (use assms(2) Inr Pair in \<open>auto simp: commit_topology_def\<close>)
  qed
qed (use assms in \<open>auto simp: commit_topology_def\<close>)

lemma commit_outcome:
  assumes "db_faults d = []" and "runCommit_config r e files cl force filename pass (d, s) = ((d', s'), res)"
  shows "if res = None then \<exists>data. readTopology files filename = Inr data \<and>
        (force \<or> pass \<and> (\<exists>dcs. ParseTopologyData e cl data = Inr dcs \<and> dcs \<noteq> [])) \<and>
        cluster_rows d' = map (\<lambda>c. if clu_Id c = cl_clusterId cl then c\<lparr>clu_Topology := data\<rparr> else c) (cluster_rows d)
      else d' = d"
proof -
  consider err where "runCommit_config r e files cl force filename pass (d, s) = ((d, s), Some err)"
    | "runCommit_config r e files cl force filename pass (d, s) = commit_topology r e files cl force filename pass (d, s)"
    by (cases "cli_ParseTopology e cl"; cases "skipError (projl (cli_ParseTopology e cl))") (auto simp: runCommit_config_def)
  then show ?thesis
  proof cases
    case 1
    with assms(2) show ?thesis by auto
  next
    case 2
    with assms(2) have "commit_topology r e files cl force filename pass (d, s) = ((d', s'), res)" by simp
    then show ?thesis by (rule commit_topology_spec [OF assms(1)])
  qed
qed


definition quiet_runner :: "(unit, unit, unit) runner" where
  "quiet_runner = (\<lambda>_ s. (s, Inr ()), \<lambda>_ _ s. (s, None))"

definition store_files :: files where
  "store_files = (\<lambda>f. if f = ''t.yaml'' then Some (Some ''text'') else None)"


section \<open>Naming the cluster in the environment\<close>

text \<open>
  When the environment names a cluster that does not exist, the session starts all the same, with cluster id 0
  instead of the -1 of no cluster; a commit of a topology then reports success and no cluster is changed.
\<close>

theorem env_unknown_cluster:
  assumes "db_ok d" and "db_faults d = []" and "db_url_driver url = Some driver"
    and "vars KEY_ENV_ACTIVATE_CLUSTER = Some name" and "name \<noteq> []" and "\<forall>c \<in> set (cluster_rows d). clu_Name c \<noteq> name"
  shows "\<exists>cl. cli_init vars url d = (d, Inr cl) \<and> cl_clusterId cl = 0 \<and>
     cluster_rows (fst (fst (runCommit_config r e files cl force filename pass (d, s)))) = cluster_rows d"
proof -
  have "filter (\<lambda>c. clu_Name c = name) (cluster_rows d) = []" using assms(6) by (simp add: filter_empty_conv)
  then have "init_cluster vars d = (d, Inr zero_cluster)"
    using assms(2,4,5) by (auto simp: init_cluster_def getActivatedClusterFromEnv_def GetClusterByName_def split: list.splits)
  from cli_init_ok [OF assms(2,3) this] obtain cl where cl: "cli_init vars url d = (d, Inr cl)" "cl_clusterId cl = 0"
    by (auto simp: zero_cluster_def no_cluster_def)
  obtain d' s' res where run: "runCommit_config r e files cl force filename pass (d, s) = ((d', s'), res)" by (metis surj_pair)
  have "\<forall>c \<in> set (cluster_rows d). clu_Id c \<noteq> 0" using assms(1) by (auto simp: db_ok_def clusters_ok_def auto_ok_def)
  then have "map (\<lambda>c. if clu_Id c = cl_clusterId cl then c\<lparr>clu_Topology := data\<rparr> else c) (cluster_rows d) = cluster_rows d" for data
    using cl(2) by (auto intro: map_idI)
  with commit_outcome [OF assms(2) run] have "cluster_rows d' = cluster_rows d" by (auto split: if_splits)
  with cl run show ?thesis by simp
qed


theorem env_unknown_cluster_witness:
  "\<exists>cl. cli_init (\<lambda>v. if v = ''DINGO_CLUSTER'' then Some ''mian'' else None) ''sqlite:///db'' demo_cluster_db = (demo_cluster_db, Inr cl) \<and>
     cl_clusterId cl = 0 \<and>
     cluster_rows (fst (fst (runCommit_config quiet_runner check_env store_files cl True ''t.yaml'' False (demo_cluster_db, ())))) =
       cluster_rows demo_cluster_db"
proof (rule env_unknown_cluster)
  show "db_ok demo_cluster_db" "db_faults demo_cluster_db = []" "\<forall>c \<in> set (cluster_rows demo_cluster_db). clu_Name c \<noteq> ''mian''"
    by (simp_all add: demo_cluster_db_def InsertCluster_def empty_db_def auto_insert_def db_ok_def clusters_ok_def auto_ok_def)
  show "db_url_driver ''sqlite:///db'' = Some ''sqlite''" by (simp add: db_url_driver_def)
qed simp_all

section \<open>The precheck\<close>

text \<open>
  The options of the precheck's first step leave out the one that says whether the object storage is checked, so
  on a topology that passes all other checks the check of the topology ends in a panic, and with it a deployment that is
  not told to skip the precheck.
\<close>

theorem precheck_topology_panics:
  fixes w :: 'w
  assumes "topology_ok e cl False skipRoles dcs" and "dcs \<noteq> []"
    and "mem = set_options (ps_Options (precheck_step dcs skipRoles CHECK_TOPOLOGY configs :: unit playbook_step)) []"
  shows "\<exists>t. NewCheckTopologyTask e cl uuid mem = Inr t \<and> snd (Task_Execute t w) = Some (TErr GoPanic)"
  by (rule check_without_option_panics [OF assms(1,2)]) (simp add: assms(3) set_options_def precheck_step_def mk_step_def)

theorem precheck_topology_panics_witness:
  "\<exists>t. NewCheckTopologyTask check_env check_cli ''u''
      (set_options (ps_Options (precheck_step check_dcs [] CHECK_TOPOLOGY [] :: unit playbook_step)) []) = Inr t \<and>
    snd (Task_Execute t ()) = Some (TErr GoPanic)"
  by (rule precheck_topology_panics [OF check_demo_strict _ refl]) (simp add: check_dcs_def)

section \<open>Comparing versions\<close>

definition dotted :: "int \<Rightarrow> int \<Rightarrow> int \<Rightarrow> string" where
  "dotted a b c = join ''.'' [itoa a, itoa b, itoa c]"

lemma dot_not_itoa: "CHR ''.'' \<notin> set (itoa i)"
proof -
  have "\<not> is_digit (CHR ''.'')" by (simp add: is_digit_def)
  then show ?thesis using show_dec_digits [of "\<bar>i\<bar>" "CHR ''.''"] by (auto simp: itoa_def)
qed

abbreviation part :: "int \<Rightarrow> bool" where
  "part n \<equiv> 0 \<le> n \<and> n < 1000"

lemma calcVersion_dotted:
  assumes "part a" and "part b" and "part c"
  shows "calcVersion (dotted a b c) = a * 1000000 + b * 1000 + c"
proof -
  have range: "int64_range n" if "0 \<le> n" "n < 1000000000" for n using that by (simp add: int64_range_def)
  have "split_on (CHR ''.'') (dotted a b c) = [itoa a, itoa b, itoa c]"
    by (simp add: dotted_def split_on_append split_on_join_free dot_not_itoa)
  moreover have "atoi (itoa a) = Some a" "atoi (itoa b) = Some b" "atoi (itoa c) = Some c"
    using assms by (auto intro!: atoi_itoa range)
  moreover have "wrap64 (a * 1000 + b) = a * 1000 + b" "wrap64 a = a" "wrap64 ((a * 1000 + b) * 1000 + c) = (a * 1000 + b) * 1000 + c"
    using assms by (auto intro!: wrap64_id range)
  ultimately show ?thesis by (simp add: calcVersion_def)
qed

text \<open>
  For versions of three numbers below 1000, the installed version is reported as the latest exactly when it is not
  smaller than the other one in the lexicographic order.
\<close>

theorem IsLatest_lexicographic:
  assumes "part a" and "part b" and "part c" and "part a'" and "part b'" and "part c'"
  shows "IsLatest (dotted a b c) (dotted a' b' c') = Some (a' < a \<or> a' = a \<and> (b' < b \<or> b' = b \<and> c' \<le> c))"
proof -
  have "a * 1000000 + b * 1000 + c \<noteq> -1" "a' * 1000000 + b' * 1000 + c' \<noteq> -1" using assms by linarith+
  moreover have "a' * 1000000 + b' * 1000 + c' \<le> a * 1000000 + b * 1000 + c \<longleftrightarrow> a' < a \<or> a' = a \<and> (b' < b \<or> b' = b \<and> c' \<le> c)"
    using assms by (cases a' a rule: linorder_cases; cases b' b rule: linorder_cases) auto
  ultimately show ?thesis by (simp add: IsLatest_def Let_def calcVersion_dotted assms)
qed

theorem IsLatest_lexicographic_witness: "IsLatest (dotted 1 10 0) (dotted 1 9 12) = Some True"
  using IsLatest_lexicographic [of 1 10 0 1 9 12] by simp

text \<open>Versions of different lengths are compared as numbers of different sizes.\<close>

lemma IsLatest_lengths: "IsLatest ''2.0'' ''1.0.0'' = Some False"
  by code_simp

section \<open>A commit of hosts\<close>

lemma check_hosts_parse:
  obtains hcs where "ParseHosts (env_host check_env) (env_read_hosts check_env) ''d'' = Inr hcs"
proof -
  have "case ParseHosts (env_host check_env) (env_read_hosts check_env) ''d'' of Inl _ \<Rightarrow> False | Inr _ \<Rightarrow> True" by code_simp
  then show thesis using that by (auto split: sum.split_asm)
qed

theorem hosts_commit_session_witness:
  "\<exists>d' cl. runCommit_hosts check_env (\<lambda>_. Some (Some ''d'')) 3 True ''h'' False (empty_db, ()) = ((d', ()), None) \<and>
     snd (cli_init (\<lambda>_. None) ''sqlite:///db'' d') = Inr cl \<and> cl_hosts cl = ''d''"
proof -
  obtain hcs where hcs: "ParseHosts (env_host check_env) (env_read_hosts check_env) ''d'' = Inr hcs" by (rule check_hosts_parse)
  have ok: "db_ok empty_db" "db_faults empty_db = []" "db_url_driver ''sqlite:///db'' = Some ''sqlite''"
    by (simp_all add: db_ok_def empty_db_def clusters_ok_def auto_ok_def db_url_driver_def)
  have "\<exists>d'. runCommit_hosts check_env (\<lambda>_. Some (Some ''d'')) 3 True ''h'' False (empty_db, ()) = ((d', ()), None)"
    using hcs SetHosts_ok [OF ok(2), of 3 "''d''"] by (auto simp: runCommit_hosts_def readAndCheckHosts_def)
  then obtain d' where run: "runCommit_hosts check_env (\<lambda>_. Some (Some ''d'')) 3 True ''h'' False (empty_db, ()) = ((d', ()), None)"
    by (elim exE)
  from hosts_commit_session [OF ok run] obtain cl where "snd (cli_init (\<lambda>_. None) ''sqlite:///db'' d') = Inr cl" "cl_hosts cl = ''d''"
    by auto
  with run show ?thesis by (intro exI conjI)
qed

end
