(* ===== verification/Monitor_Config.thy ===== *)
theory Monitor_Config
  imports Topology_Check Topology_Correct
begin

text \<open>
  The monitor services of a cluster: \<open>internal/configure/monitor.go\<close>.  A monitor file names node exporters,
  prometheus, grafana and the synchronisation of their configurations; \<open>ParseMonitorInfo\<close> turns it, with the
  topology of the current cluster, into monitor configurations.

  A configuration map of the file may be nil (\<open>None\<close>): reading it gives nil, writing it panics.  The readers of
  the file and of the stored text are the fields of \<open>mon_env\<close>; Go's order of iteration over a map is its field
  \<open>me_order\<close>.  \<open>getHost\<close> stores a \<open>[]string\<close> under the key \<open>host\<close> (the value \<open>GStrs\<close>); a list from the file is
  an \<open>[]interface{}\<close> (\<open>GList\<close>).
\<close>

section \<open>The file\<close>

record mon_service =
  ms_Config :: "gmap option"
  ms_Deploy :: "string list option"

record mon_file =
  mf_Global :: "gmap option"
  mf_NodeExporter :: mon_service
  mf_Prometheus :: mon_service
  mf_Grafana :: mon_service
  mf_MonitroSync :: mon_service

record mon_env =
  me_read_file :: "string \<Rightarrow> mon_file option"
  me_read_data :: "string \<Rightarrow> mon_file option"
  me_order :: "string list \<Rightarrow> string list"

abbreviation ROLE_NODE_EXPORTER :: string where "ROLE_NODE_EXPORTER \<equiv> ''node_exporter''"
abbreviation ROLE_PROMETHEUS :: string where "ROLE_PROMETHEUS \<equiv> ''prometheus''"

abbreviation KEY_HOST :: string where "KEY_HOST \<equiv> ''host''"
abbreviation KEY_LISTEN_PORT :: string where "KEY_LISTEN_PORT \<equiv> ''listen_port''"
abbreviation KEY_PROMETHEUS_TARGET :: string where "KEY_PROMETHEUS_TARGET \<equiv> ''target''"
abbreviation KEY_NODE_IPS :: string where "KEY_NODE_IPS \<equiv> ''node_ips''"
abbreviation KRY_NODE_LISTEN_PORT :: string where "KRY_NODE_LISTEN_PORT \<equiv> ''node_listen_port''"
abbreviation KEY_PROMETHEUS_IP :: string where "KEY_PROMETHEUS_IP \<equiv> ''prometheus_listen_ip''"
abbreviation KEY_PROMETHEUS_PORT :: string where "KEY_PROMETHEUS_PORT \<equiv> ''prometheus_listen_port''"
abbreviation KEY_ORIGIN_CONFIG_ID :: string where "KEY_ORIGIN_CONFIG_ID \<equiv> ''origin_config_id''"
abbreviation KEY_DATA_DIR :: string where "KEY_DATA_DIR \<equiv> ''data_dir''"
abbreviation KEY_CONF_DIR :: string where "KEY_CONF_DIR \<equiv> ''conf_dir''"
abbreviation KEY_PROVISIONING_DIR :: string where "KEY_PROVISIONING_DIR \<equiv> ''provisioning_dir''"
abbreviation CLEANED_MONITOR_CONF :: string where "CLEANED_MONITOR_CONF \<equiv> ''-''"

definition cfg_get :: "gmap option \<Rightarrow> string \<Rightarrow> gval" where
  "cfg_get c k = (case c of None \<Rightarrow> GNil | Some m \<Rightarrow> gget m k)"

definition cfg_put :: "string \<Rightarrow> gval \<Rightarrow> gmap option \<Rightarrow> gmap option res" where
  "cfg_put k v c = (case c of None \<Rightarrow> Inl GoPanic | Some m \<Rightarrow> Inr (Some (AList.update k v m)))"

fun as_strings :: "gval \<Rightarrow> string list res" where
  "as_strings (GStrs l) = Inr l"
| "as_strings _ = Inl GoPanic"

definition map_cfg :: "(gmap option \<Rightarrow> gmap option res) \<Rightarrow> mon_service \<Rightarrow> mon_service res" where
  "map_cfg f s = bindR (f (ms_Config s)) (\<lambda>c. Inr (s\<lparr>ms_Config := c\<rparr>))"

definition puts :: "(string \<times> gval) list \<Rightarrow> mon_service \<Rightarrow> mon_service res" where
  "puts kvs s = map_cfg (foldR (\<lambda>(k, v). cfg_put k v) kvs) s"

section \<open>Reading a monitor configuration\<close>

definition mc_getString :: "monitor_config \<Rightarrow> string \<Rightarrow> string res" where
  "mc_getString mc key = (let v = gget (mc_config mc) key in if v = GNil then Inr [] else as_string v)"

definition mc_getStrings :: "monitor_config \<Rightarrow> string \<Rightarrow> string list res" where
  "mc_getStrings mc key = (let v = gget (mc_config mc) key in if v = GNil then Inr [] else as_strings v)"

definition mc_getInt :: "monitor_config \<Rightarrow> string \<Rightarrow> int res" where
  "mc_getInt mc key =
     (case gget (mc_config mc) key of GNil \<Rightarrow> Inr (-1) | GInt n \<Rightarrow> Inr n | _ \<Rightarrow> Inl GoPanic)"

definition mc_GetNodeIps :: "monitor_config \<Rightarrow> string list res" where
  "mc_GetNodeIps mc = mc_getStrings mc KEY_NODE_IPS"

definition mc_GetNodeListenPort :: "monitor_config \<Rightarrow> int res" where
  "mc_GetNodeListenPort mc = mc_getInt mc KRY_NODE_LISTEN_PORT"

definition mc_GetPrometheusListenPort :: "monitor_config \<Rightarrow> int res" where
  "mc_GetPrometheusListenPort mc = mc_getInt mc KEY_PROMETHEUS_PORT"

definition mc_GetImage :: "monitor_config \<Rightarrow> string res" where
  "mc_GetImage mc = mc_getString mc ''container_image''"

definition mc_GetListenPort :: "monitor_config \<Rightarrow> int res" where
  "mc_GetListenPort mc = mc_getInt mc KEY_LISTEN_PORT"

definition mc_GetDataDir :: "monitor_config \<Rightarrow> string res" where
  "mc_GetDataDir mc = mc_getString mc KEY_DATA_DIR"

definition mc_GetConfDir :: "monitor_config \<Rightarrow> string res" where
  "mc_GetConfDir mc = mc_getString mc KEY_CONF_DIR"

definition mc_GetProvisionDir :: "monitor_config \<Rightarrow> string res" where
  "mc_GetProvisionDir mc = mc_getString mc KEY_PROVISIONING_DIR"

definition mc_GetLogDir :: "monitor_config \<Rightarrow> string res" where
  "mc_GetLogDir mc = mc_getString mc ''log_dir''"

definition mc_GetPrometheusRetentionTime :: "monitor_config \<Rightarrow> string res" where
  "mc_GetPrometheusRetentionTime mc = mc_getString mc ''retention.time''"

definition mc_GetPrometheusRetentionSize :: "monitor_config \<Rightarrow> string res" where
  "mc_GetPrometheusRetentionSize mc = mc_getString mc ''retention.size''"

definition mc_GetPrometheusTarget :: "monitor_config \<Rightarrow> string res" where
  "mc_GetPrometheusTarget mc = mc_getString mc KEY_PROMETHEUS_TARGET"

definition mc_GetPrometheusIp :: "monitor_config \<Rightarrow> string res" where
  "mc_GetPrometheusIp mc = mc_getString mc KEY_PROMETHEUS_IP"

definition mc_GetGrafanaUser :: "monitor_config \<Rightarrow> string res" where
  "mc_GetGrafanaUser mc = mc_getString mc ''username''"

definition mc_GetGrafanaPassword :: "monitor_config \<Rightarrow> string res" where
  "mc_GetGrafanaPassword mc = mc_getString mc ''password''"

section \<open>Hosts of a role\<close>

text \<open>The hosts in the configuration when there are some, and otherwise the given ones, which are stored there.\<close>

definition host_of :: "string list \<Rightarrow> mon_service \<Rightarrow> (mon_service \<times> string list) res" where
  "host_of hosts s =
     (if (case ms_Config s of None \<Rightarrow> False | Some m \<Rightarrow> map_of m KEY_HOST \<noteq> None)
      then bindR (as_strings (cfg_get (ms_Config s) KEY_HOST)) (\<lambda>l. Inr (s, l))
      else bindR (puts [(KEY_HOST, GStrs hosts)] s) (\<lambda>s'. Inr (s', hosts)))"

definition getHost :: "mon_file \<Rightarrow> string \<Rightarrow> (mon_file \<times> string list) res" where
  "getHost c role =
     (let hosts = (case ms_Deploy (mf_NodeExporter c) of None \<Rightarrow> [] | Some l \<Rightarrow> l) in
      if role = ROLE_NODE_EXPORTER then bindR (host_of hosts (mf_NodeExporter c)) (\<lambda>(s, l). Inr (c\<lparr>mf_NodeExporter := s\<rparr>, l))
      else if role = ROLE_PROMETHEUS then bindR (host_of hosts (mf_Prometheus c)) (\<lambda>(s, l). Inr (c\<lparr>mf_Prometheus := s\<rparr>, l))
      else if role = ROLE_GRAFANA then bindR (host_of hosts (mf_Grafana c)) (\<lambda>(s, l). Inr (c\<lparr>mf_Grafana := s\<rparr>, l))
      else Inr (c, hosts))"

section \<open>The targets of prometheus\<close>

definition target_item :: "deploy_config \<Rightarrow> string res" where
  "target_item dc =
     bindR (GetListenIp dc) (\<lambda>ip.
       (let addr = (\<lambda>port. bindR (port dc) (\<lambda>p. Inr (ip @ '':'' @ itoa p))); role = dc_role dc in
        if role = ROLE_ETCD then addr GetListenClientPort
        else if role = ROLE_CHUNKSERVER \<or> role = ROLE_METASERVER then addr GetListenPort
        else if role = ROLE_SNAPSHOTCLONE then addr GetListenDummyPort
        else if role = ROLE_FS_MDS \<or> role = ROLE_COORDINATOR \<or> role = ROLE_STORE then addr GetDingoServerPort
        else Inr []))"

text \<open>The map from roles to their targets.\<close>

fun target_map :: "deploy_config list \<Rightarrow> (string \<times> string list) list \<Rightarrow> (string \<times> string list) list res" where
  "target_map [] tMap = Inr tMap"
| "target_map (dc # dcs) tMap =
     bindR (target_item dc) (\<lambda>item.
       target_map dcs (AList.update (dc_role dc)
         (case map_of tMap (dc_role dc) of None \<Rightarrow> [item] | Some l \<Rightarrow> l @ [item]) tMap))"

text \<open>A string in JSON, as \<open>encoding/json\<close> writes it, for ASCII texts.\<close>

definition hex_digit :: "int \<Rightarrow> char" where
  "hex_digit n = char_of (if n < 10 then 48 + n else 87 + n)"

definition json_char :: "char \<Rightarrow> string" where
  "json_char c =
     (let n = (of_char c :: int) in
      if c = CHR 0x22 then [CHR 0x5C, CHR 0x22] else if c = CHR 0x5C then [CHR 0x5C, CHR 0x5C]
      else if n = 8 then [CHR 0x5C, CHR ''b''] else if n = 9 then [CHR 0x5C, CHR ''t'']
      else if n = 10 then [CHR 0x5C, CHR ''n''] else if n = 12 then [CHR 0x5C, CHR ''f'']
      else if n = 13 then [CHR 0x5C, CHR ''r'']
      else if n < 32 \<or> n = 38 \<or> n = 60 \<or> n = 62 then CHR 0x5C # ''u00'' @ [hex_digit (n div 16), hex_digit (n mod 16)]
      else [c])"

definition json_string :: "string \<Rightarrow> string" where
  "json_string s = [CHR 0x22] @ concat (map json_char s) @ [CHR 0x22]"

definition json_target :: "string \<times> string list \<Rightarrow> string" where
  "json_target = (\<lambda>(role, targets).
     ''{'' @ json_string ''targets'' @ '':['' @ join '','' (map json_string targets) @ ''],'' @
     json_string ''labels'' @ '':{'' @ json_string ''job'' @ '':'' @ json_string role @ ''}}'')"

definition parsePrometheusTarget :: "mon_env \<Rightarrow> deploy_config list \<Rightarrow> string res" where
  "parsePrometheusTarget me dcs =
     bindR (target_map dcs []) (\<lambda>tMap.
       Inr (''['' @ join '','' (map (\<lambda>role. json_target (role, the (map_of tMap role))) (me_order me (map fst tMap))) @ '']''))"

section \<open>Parsing\<close>

definition parseHosts :: "mon_env \<Rightarrow> cli_env \<Rightarrow> dingocli \<Rightarrow> (string list \<times> string list \<times> deploy_config list) res" where
  "parseHosts me e cl =
     bindR (cli_ParseTopology e cl) (\<lambda>dcs.
       if length dcs = 0 then Inr ([], [], [])
       else
         bindR (mapR GetListenIp dcs) (\<lambda>ips.
         Inr (me_order me (map fst (fold (\<lambda>h m. AList.update h True m) (map dc_host dcs) [])),
              me_order me (map fst (fold (\<lambda>h m. AList.update h True m) ips [])), dcs)))"

text \<open>The switch falls through from the first section that is deployed to all later ones.\<close>

definition monitor_roles :: "mon_file \<Rightarrow> string list" where
  "monitor_roles c =
     (if ms_Deploy (mf_NodeExporter c) \<noteq> None then [ROLE_NODE_EXPORTER, ROLE_PROMETHEUS, ROLE_GRAFANA, ROLE_MONITOR_SYNC]
      else if ms_Deploy (mf_Prometheus c) \<noteq> None then [ROLE_PROMETHEUS, ROLE_GRAFANA, ROLE_MONITOR_SYNC]
      else if ms_Deploy (mf_Grafana c) \<noteq> None then [ROLE_GRAFANA, ROLE_MONITOR_SYNC]
      else if ms_Config (mf_MonitroSync c) \<noteq> None then [ROLE_MONITOR_SYNC]
      else [])"

definition mk_mc :: "string \<Rightarrow> string \<Rightarrow> string \<Rightarrow> int \<Rightarrow> gmap option \<Rightarrow> variables option \<Rightarrow> ctx_map \<Rightarrow> int \<Rightarrow> monitor_config" where
  "mk_mc kind role host sequence config vars ctx order =
     \<lparr>mc_kind = kind, mc_id = role @ ''_'' @ host, mc_role = role, mc_host = host, mc_hostSequence = sequence,
      mc_config = (case config of None \<Rightarrow> [] | Some m \<Rightarrow> m), mc_variables = vars, mc_ctx = ctx, mc_order = order\<rparr>"

definition role_turn ::
  "mon_env \<Rightarrow> deploy_config list \<Rightarrow> string list \<Rightarrow> string list \<Rightarrow> ctx_map \<Rightarrow> string \<Rightarrow> string \<Rightarrow>
   mon_file \<times> monitor_config list \<Rightarrow> (mon_file \<times> monitor_config list) res" where
  "role_turn me dcs hosts hostIps ctx path role = (\<lambda>(c, ret).
     bindR (getHost c role) (\<lambda>(c, serviceHosts).
       case (serviceHosts, dcs) of
         (host # _, dc # _) \<Rightarrow>
           (let kind = dc_kind dc in
            if role = ROLE_PROMETHEUS then
              bindR (parsePrometheusTarget me dcs) (\<lambda>target.
              bindR (puts ((if ms_Deploy (mf_NodeExporter c) \<noteq> None then
                       [(KEY_NODE_IPS, GStrs hostIps), (KRY_NODE_LISTEN_PORT, cfg_get (ms_Config (mf_NodeExporter c)) KEY_LISTEN_PORT),
                        (KEY_CONF_DIR, GStr (path @ ''/'' @ ROLE_PROMETHEUS)), (KEY_DATA_DIR, GStr (path @ ''/'' @ ROLE_PROMETHEUS @ ''/data''))]
                     else []) @ [(KEY_PROMETHEUS_TARGET, GStr target)]) (mf_Prometheus c)) (\<lambda>s.
              Inr (c\<lparr>mf_Prometheus := s\<rparr>, ret @ [mk_mc kind role host 0 (ms_Config s) None ctx 2])))
            else if role = ROLE_GRAFANA then
              bindR (if ms_Deploy (mf_Prometheus c) \<noteq> None then
                       bindR (as_strings (cfg_get (ms_Config (mf_Prometheus c)) KEY_HOST)) (\<lambda>l.
                         case l of
                           [] \<Rightarrow> Inl GoPanic
                         | h # _ \<Rightarrow>
                             puts [(KEY_PROMETHEUS_PORT, cfg_get (ms_Config (mf_Prometheus c)) KEY_LISTEN_PORT),
                                   (KEY_PROMETHEUS_IP, GStr (ctx_Lookup ctx h)), (KEY_CONF_DIR, GStr (path @ ''/'' @ ROLE_GRAFANA)),
                                   (KEY_DATA_DIR, GStr (path @ ''/'' @ ROLE_GRAFANA @ ''/data'')),
                                   (KEY_PROVISIONING_DIR, GStr (path @ ''/'' @ ROLE_GRAFANA @ ''/provisioning''))] (mf_Grafana c))
                     else Inr (mf_Grafana c)) (\<lambda>s.
              Inr (c\<lparr>mf_Grafana := s\<rparr>, ret @ [mk_mc kind role host 0 (ms_Config s) None ctx 3]))
            else if role = ROLE_NODE_EXPORTER then
              Inr (c, ret @ map (\<lambda>(i, h). mk_mc kind role h i (ms_Config (mf_NodeExporter c)) None ctx 1) (zip (map int [0..<length hosts]) hosts))
            else if role = ROLE_MONITOR_SYNC then
              bindR (puts [(KEY_ORIGIN_CONFIG_ID, GStr (dc_id dc))] (mf_MonitroSync c)) (\<lambda>s.
              Inr (c\<lparr>mf_MonitroSync := s\<rparr>, ret @ [mk_mc kind role host 0 (ms_Config s) (dc_variables dc) ctx 0]))
            else Inr (c, ret))
       | _ \<Rightarrow> Inl GoPanic))"

datatype info_type = INFO_TYPE_FILE | INFO_TYPE_DATA | INFO_TYPE_OTHER

definition read_info :: "mon_env \<Rightarrow> string \<Rightarrow> info_type \<Rightarrow> mon_file res" where
  "read_info me info infoType =
     (let parsed = (\<lambda>r. case r of None \<Rightarrow> Inl (Ec ERR_PARSE_MONITOR_CONFIGURE_FAILED) | Some f \<Rightarrow> Inr f) in
      case infoType of
        INFO_TYPE_FILE \<Rightarrow> parsed (me_read_file me info)
      | INFO_TYPE_DATA \<Rightarrow>
          if length info \<noteq> 0 \<and> info \<noteq> CLEANED_MONITOR_CONF then parsed (me_read_data me info)
          else Inl (Ec ERR_PARSE_MONITOR_CONFIGURE_FAILED)
      | INFO_TYPE_OTHER \<Rightarrow> Inl (Ec ERR_PARSE_MONITOR_CONFIGURE_FAILED))"

definition ParseMonitorInfo :: "mon_env \<Rightarrow> cli_env \<Rightarrow> dingocli \<Rightarrow> string \<Rightarrow> info_type \<Rightarrow> monitor_config list res" where
  "ParseMonitorInfo me e cl info infoType =
     bindR (parseHosts me e cl) (\<lambda>(hosts, hostIps, dcs).
     bindR (read_info me info infoType) (\<lambda>config.
     bindR (ParseHosts (env_host e) (env_read_hosts e) (cl_hosts cl)) (\<lambda>hcs.
     bindR (add_hosts (env_host e) hcs NewContext) (\<lambda>ctx.
     if dcs = [] then Inl GoPanic
     else
       bindR (as_string (cfg_get (ms_Config (mf_MonitroSync config)) KEY_DATA_DIR)) (\<lambda>syncMonitorPath.
       bindR (foldR (role_turn me dcs hosts hostIps ctx syncMonitorPath) (monitor_roles config) (config, [])) (\<lambda>(_, ret).
       Inr ret))))))"

definition ParseMonitor :: "mon_env \<Rightarrow> cli_env \<Rightarrow> dingocli \<Rightarrow> monitor_config list res" where
  "ParseMonitor me e cl = ParseMonitorInfo me e cl (mon_Monitor (cl_monitor cl)) INFO_TYPE_DATA"

section \<open>Selecting and comparing\<close>

fun FilterMonitorConfig :: "cli_env \<Rightarrow> dingocli \<Rightarrow> monitor_config list \<Rightarrow> filter_option \<Rightarrow> monitor_config list" where
  "FilterMonitorConfig e cl [] options = []"
| "FilterMonitorConfig e cl (mc # mcs) options =
     (let serviceId = GetServiceId e cl (mc_id mc); rest = FilterMonitorConfig e cl mcs options in
      if (fo_Id options = ''*'' \<or> fo_Id options = serviceId) \<and>
         (fo_Role options = ''*'' \<or> fo_Role options = mc_role mc) \<and>
         (fo_Host options = ''*'' \<or> fo_Host options = mc_host mc)
      then mc # rest else rest)"

record monitor_diff =
  md_DiffType :: diff_type
  md_MonitorConfig :: monitor_config

type_synonym mc_map = "(string \<times> monitor_config) list"

definition mc_difference :: "mc_map \<Rightarrow> mc_map \<Rightarrow> mc_map" where
  "mc_difference ids1 ids2 = filter (\<lambda>(k, v). map_of ids2 k = None) ids1"

definition mc_ids :: "monitor_config list \<Rightarrow> mc_map" where
  "mc_ids mcs = fold (\<lambda>mc m. AList.update (mc_id mc) mc m) mcs []"

text \<open>The hash is that of the configuration map.\<close>

definition mc_same :: "(gmap \<Rightarrow> int option) \<Rightarrow> monitor_config \<Rightarrow> monitor_config \<Rightarrow> bool res" where
  "mc_same hash mc1 mc2 =
     (case hash (mc_config mc1) of
        None \<Rightarrow> Inl (Ec ERR_CREATE_HASH_FOR_TOPOLOGY_FAILED)
      | Some h1 \<Rightarrow>
          (case hash (mc_config mc2) of
             None \<Rightarrow> Inl (Ec ERR_CREATE_HASH_FOR_TOPOLOGY_FAILED)
           | Some h2 \<Rightarrow> Inr (h1 = h2)))"

definition mc_changes :: "(gmap \<Rightarrow> int option) \<Rightarrow> mc_map \<Rightarrow> mc_map \<Rightarrow> monitor_diff list res" where
  "mc_changes hash ids1 ids2 =
     foldR (\<lambda>(i, mc) diffs.
         if map_of (mc_difference ids1 ids2) i \<noteq> None then Inr diffs
         else if map_of (mc_difference ids2 ids1) i \<noteq> None then Inr diffs
         else
           case map_of ids1 i of
             None \<Rightarrow> Inl GoPanic
           | Some mc1 \<Rightarrow>
               bindR (mc_same hash mc1 mc) (\<lambda>ok.
                 Inr (if ok then diffs else diffs @ [\<lparr>md_DiffType = DIFF_CHANGE, md_MonitorConfig = mc\<rparr>])))
       ids2 []"

definition mc_diff :: "(gmap \<Rightarrow> int option) \<Rightarrow> monitor_config list \<Rightarrow> monitor_config list \<Rightarrow> monitor_diff list res" where
  "mc_diff hash mcs1 mcs2 =
     (let ids1 = mc_ids mcs1; ids2 = mc_ids mcs2 in
      bindR (mc_changes hash ids1 ids2) (\<lambda>changed.
        Inr (map (\<lambda>(_, mc). \<lparr>md_DiffType = DIFF_DELETE, md_MonitorConfig = mc\<rparr>) (mc_difference ids1 ids2) @
             map (\<lambda>(_, mc). \<lparr>md_DiffType = DIFF_ADD, md_MonitorConfig = mc\<rparr>) (mc_difference ids2 ids1) @ changed)))"

definition diffMonitor ::
  "mon_env \<Rightarrow> cli_env \<Rightarrow> (gmap \<Rightarrow> int option) \<Rightarrow> dingocli \<Rightarrow> string \<Rightarrow> string \<Rightarrow> monitor_diff list res" where
  "diffMonitor me e hash cl data1 data2 =
     bindR (ParseMonitorInfo me e cl data1 INFO_TYPE_DATA) (\<lambda>mcs1.
     bindR (ParseMonitorInfo me e cl data2 INFO_TYPE_DATA) (\<lambda>mcs2.
     mc_diff hash mcs1 mcs2))"

definition DiffMonitor ::
  "mon_env \<Rightarrow> cli_env \<Rightarrow> (gmap \<Rightarrow> int option) \<Rightarrow> dingocli \<Rightarrow> string \<Rightarrow> string \<Rightarrow> monitor_diff list res" where
  "DiffMonitor me e hash cl data1 data2 =
     (if length data1 = 0 then Inl (Ec ERR_EMPTY_CLUSTER_TOPOLOGY)
      else bindR (ParseMonitorInfo me e cl data1 INFO_TYPE_DATA) (\<lambda>mcs.
        if length mcs = 0 then Inl (Ec ERR_NO_SERVICES_IN_TOPOLOGY) else diffMonitor me e hash cl data1 data2))"

section \<open>What a monitor file gives\<close>

text \<open>A configuration as the file readers give it: a list under \<open>host\<close> is not a \<open>[]string\<close>.\<close>

definition plain_service :: "mon_service \<Rightarrow> bool" where
  "plain_service s \<longleftrightarrow> cfg_get (ms_Config s) KEY_HOST \<notin> range GStrs"

definition plain_file :: "mon_file \<Rightarrow> bool" where
  "plain_file c \<longleftrightarrow> plain_service (mf_NodeExporter c) \<and> plain_service (mf_Prometheus c) \<and> plain_service (mf_Grafana c)"

lemma puts_Inr:
  "puts kvs s = Inr s' \<Longrightarrow> ms_Deploy s' = ms_Deploy s \<and> (kvs \<noteq> [] \<longrightarrow> ms_Config s \<noteq> None)"
proof (cases kvs)
  case (Cons kv rest)
  assume "puts kvs s = Inr s'"
  with Cons show ?thesis by (cases kv) (auto simp: puts_def map_cfg_def bindR_eq_Inr cfg_put_def split: option.splits)
qed (auto simp: puts_def map_cfg_def)

lemma as_strings_Inr: "as_strings v = Inr l \<longleftrightarrow> v = GStrs l"
  by (cases v) auto

lemma host_of_Inr:
  assumes "host_of hosts s = Inr (s', l)" and "plain_service s"
  shows "hosts = l \<and> ms_Deploy s' = ms_Deploy s \<and> ms_Config s \<noteq> None"
  using assms puts_Inr [of "[(KEY_HOST, GStrs hosts)]" s s']
  by (auto simp: host_of_def bindR_eq_Inr as_strings_Inr plain_service_def split: if_splits option.splits)

abbreviation exporter_hosts :: "mon_file \<Rightarrow> string list" where
  "exporter_hosts c \<equiv> case ms_Deploy (mf_NodeExporter c) of None \<Rightarrow> [] | Some l \<Rightarrow> l"

text \<open>What a turn of the loop over the roles leaves alone, for a role whose section is still as read.\<close>

lemma getHost_Inr:
  assumes "getHost c role = Inr (c', l)" and "plain_file c"
  shows "exporter_hosts c = l \<and> exporter_hosts c' = exporter_hosts c"
  using assms host_of_Inr
  by (fastforce simp: getHost_def Let_def bindR_eq_Inr plain_file_def split: if_splits prod.splits)

text \<open>What identifies a service in a result: its id, role, host and order.\<close>

definition entry :: "monitor_config \<Rightarrow> string \<times> string \<times> string \<times> int" where
  "entry mc = (mc_id mc, mc_role mc, mc_host mc, mc_order mc)"

definition placed :: "string \<Rightarrow> int \<Rightarrow> string \<Rightarrow> string \<times> string \<times> string \<times> int" where
  "placed role order host = (role @ ''_'' @ host, role, host, order)"

lemma entry_mk_mc [simp]: "entry (mk_mc kind role host n cfg vs ctx order) = placed role order host"
  by (simp add: entry_def mk_mc_def placed_def)

definition role_order :: "string \<Rightarrow> int" where
  "role_order role = (if role = ROLE_PROMETHEUS then 2 else if role = ROLE_GRAFANA then 3 else if role = ROLE_NODE_EXPORTER then 1 else 0)"

text \<open>The section of a role.\<close>

definition section_of :: "string \<Rightarrow> mon_file \<Rightarrow> mon_service" where
  "section_of role c =
     (if role = ROLE_NODE_EXPORTER then mf_NodeExporter c else if role = ROLE_PROMETHEUS then mf_Prometheus c
      else if role = ROLE_GRAFANA then mf_Grafana c else mf_MonitroSync c)"

abbreviation mon_roles :: "string list" where
  "mon_roles \<equiv> [ROLE_NODE_EXPORTER, ROLE_PROMETHEUS, ROLE_GRAFANA, ROLE_MONITOR_SYNC]"

definition turn_result :: "string list \<Rightarrow> string \<Rightarrow> mon_file \<Rightarrow> monitor_config list \<Rightarrow> mon_file \<Rightarrow> monitor_config list \<Rightarrow> bool" where
  "turn_result hosts role c ret c' ret' \<longleftrightarrow>
     (\<exists>h hs. exporter_hosts c = h # hs \<and> ms_Deploy (mf_NodeExporter c') = ms_Deploy (mf_NodeExporter c) \<and> ms_Config (section_of role c) \<noteq> None \<and>
       map entry ret' = map entry ret @ (if role = ROLE_NODE_EXPORTER then map (placed role 1) hosts else [placed role (role_order role) h]) \<and>
       (\<forall>r \<in> set mon_roles. r \<noteq> role \<longrightarrow> section_of r c' = section_of r c))"

lemma role_turn_Inr:
  assumes "role_turn me dcs hosts ips ctx path role (c, ret) = Inr r"
  obtains c1 h hs dc ds where "getHost c role = Inr (c1, h # hs)" and "dcs = dc # ds"
proof -
  obtain c1 l where g: "getHost c role = Inr (c1, l)"
    using assms by (auto simp: role_turn_def bindR_eq_Inr)
  with assms show thesis
    by (cases l; cases dcs) (auto simp: role_turn_def intro: that)
qed

lemma map_entry_zip:
  "map entry (map (\<lambda>(i, h). mk_mc kind role h i cfg vs ctx order) (zip (map int [0..<length hosts]) hosts)) =
   map (placed role order) hosts"
proof -
  let ?z = "zip (map int [0..<length hosts]) hosts"
  have "map entry (map (\<lambda>(i, h). mk_mc kind role h i cfg vs ctx order) ?z) = map (placed role order) (map snd ?z)"
    by (simp only: map_map comp_def case_prod_beta entry_mk_mc)
  also have "map snd ?z = hosts" by simp
  finally show ?thesis .
qed

lemma turn_exporter:
  assumes t: "role_turn me dcs hosts ips ctx path ROLE_NODE_EXPORTER (c, ret) = Inr (c', ret')" and p: "plain_service (mf_NodeExporter c)"
  shows "turn_result hosts ROLE_NODE_EXPORTER c ret c' ret'"
proof -
  from role_turn_Inr [OF t] obtain c1 h hs dc ds where g: "getHost c ROLE_NODE_EXPORTER = Inr (c1, h # hs)" and d: "dcs = dc # ds" by blast
  from g obtain s where s: "host_of (exporter_hosts c) (mf_NodeExporter c) = Inr (s, h # hs)" and c1: "c1 = c\<lparr>mf_NodeExporter := s\<rparr>"
    by (auto simp: getHost_def Let_def bindR_eq_Inr)
  note hs = host_of_Inr [OF s p]
  have r: "c' = c1" "map entry ret' = map entry ret @ map (placed ROLE_NODE_EXPORTER 1) hosts"
    using t by (simp_all add: role_turn_def g d del: map_map) (auto simp: map_entry_zip simp del: map_map)
  show ?thesis using hs r c1 by (auto simp: turn_result_def section_of_def)
qed

lemma turn_prometheus:
  assumes t: "role_turn me dcs hosts ips ctx path ROLE_PROMETHEUS (c, ret) = Inr (c', ret')" and p: "plain_service (mf_Prometheus c)"
  shows "turn_result hosts ROLE_PROMETHEUS c ret c' ret'"
proof -
  from role_turn_Inr [OF t] obtain c1 h hs dc ds where g: "getHost c ROLE_PROMETHEUS = Inr (c1, h # hs)" and d: "dcs = dc # ds" by blast
  from g obtain s where s: "host_of (exporter_hosts c) (mf_Prometheus c) = Inr (s, h # hs)" and c1: "c1 = c\<lparr>mf_Prometheus := s\<rparr>"
    by (auto simp: getHost_def Let_def bindR_eq_Inr)
  note hs = host_of_Inr [OF s p]
  obtain s' cfg target where "c' = c1\<lparr>mf_Prometheus := s'\<rparr>" "map entry ret' = map entry ret @ [placed ROLE_PROMETHEUS 2 h]"
    using t by (auto simp: role_turn_def g d bindR_eq_Inr)
  then show ?thesis using hs c1 by (auto simp: turn_result_def section_of_def role_order_def)
qed

lemma turn_grafana:
  assumes t: "role_turn me dcs hosts ips ctx path ROLE_GRAFANA (c, ret) = Inr (c', ret')" and p: "plain_service (mf_Grafana c)"
  shows "turn_result hosts ROLE_GRAFANA c ret c' ret'"
proof -
  from role_turn_Inr [OF t] obtain c1 h hs dc ds where g: "getHost c ROLE_GRAFANA = Inr (c1, h # hs)" and d: "dcs = dc # ds" by blast
  from g obtain s where s: "host_of (exporter_hosts c) (mf_Grafana c) = Inr (s, h # hs)" and c1: "c1 = c\<lparr>mf_Grafana := s\<rparr>"
    by (auto simp: getHost_def Let_def bindR_eq_Inr)
  note hs = host_of_Inr [OF s p]
  obtain s' where "c' = c1\<lparr>mf_Grafana := s'\<rparr>" "map entry ret' = map entry ret @ [placed ROLE_GRAFANA 3 h]"
    using t by (auto simp: role_turn_def g d bindR_eq_Inr)
  then show ?thesis using hs c1 by (auto simp: turn_result_def section_of_def role_order_def)
qed

lemma turn_sync:
  assumes t: "role_turn me dcs hosts ips ctx path ROLE_MONITOR_SYNC (c, ret) = Inr (c', ret')"
  shows "turn_result hosts ROLE_MONITOR_SYNC c ret c' ret'"
proof -
  from role_turn_Inr [OF t] obtain c1 h hs dc ds where g: "getHost c ROLE_MONITOR_SYNC = Inr (c1, h # hs)" and d: "dcs = dc # ds" by blast
  have e: "exporter_hosts c = h # hs" "c1 = c" using g by (auto simp: getHost_def)
  obtain s' where s: "puts [(KEY_ORIGIN_CONFIG_ID, GStr (dc_id dc))] (mf_MonitroSync c) = Inr s'"
      "c' = c\<lparr>mf_MonitroSync := s'\<rparr>" "map entry ret' = map entry ret @ [placed ROLE_MONITOR_SYNC 0 h]"
    using t e by (auto simp: role_turn_def g d bindR_eq_Inr)
  with e show ?thesis using puts_Inr [OF s(1)] by (auto simp: turn_result_def section_of_def role_order_def)
qed


text \<open>All four turns.\<close>

lemma turns_Inr:
  assumes "foldR (role_turn me dcs hosts ips ctx path) mon_roles (c, []) = Inr (c', ret)" and p: "plain_file c"
  obtains h hs where "exporter_hosts c = h # hs" and "\<forall>r \<in> set mon_roles. ms_Config (section_of r c) \<noteq> None"
    and "map entry ret = map (placed ROLE_NODE_EXPORTER 1) hosts @ [placed ROLE_PROMETHEUS 2 h, placed ROLE_GRAFANA 3 h, placed ROLE_MONITOR_SYNC 0 h]"
proof -
  from assms obtain c1 r1 c2 r2 c3 r3 where t:
      "role_turn me dcs hosts ips ctx path ROLE_NODE_EXPORTER (c, []) = Inr (c1, r1)"
      "role_turn me dcs hosts ips ctx path ROLE_PROMETHEUS (c1, r1) = Inr (c2, r2)"
      "role_turn me dcs hosts ips ctx path ROLE_GRAFANA (c2, r2) = Inr (c3, r3)"
      "role_turn me dcs hosts ips ctx path ROLE_MONITOR_SYNC (c3, r3) = Inr (c', ret)"
    by (auto simp: bindR_eq_Inr)
  have 1: "turn_result hosts ROLE_NODE_EXPORTER c [] c1 r1"
    using turn_exporter [OF t(1)] p by (simp add: plain_file_def)
  then have 2: "turn_result hosts ROLE_PROMETHEUS c1 r1 c2 r2"
    using turn_prometheus [OF t(2)] p by (auto simp: plain_file_def turn_result_def section_of_def)
  with 1 have 3: "turn_result hosts ROLE_GRAFANA c2 r2 c3 r3"
    using turn_grafana [OF t(3)] p by (auto simp: plain_file_def turn_result_def section_of_def)
  note 4 = turn_sync [OF t(4)]
  from 1 2 3 4 show thesis
    by (intro that [of "hd (exporter_hosts c)" "tl (exporter_hosts c)"])
      (auto simp: turn_result_def section_of_def role_order_def)
qed


text \<open>The parsed file and topology behind a result.\<close>

lemma ParseMonitorInfo_Inr:
  assumes "ParseMonitorInfo me e cl info ty = Inr mcs" and "read_info me info ty = Inr c"
  obtains dcs ips ctx path c' where "cli_ParseTopology e cl = Inr dcs" and "dcs \<noteq> []"
    and "as_string (cfg_get (ms_Config (mf_MonitroSync c)) KEY_DATA_DIR) = Inr path"
    and "foldR (role_turn me dcs (me_order me (map fst (fold (\<lambda>h m. AList.update h True m) (map dc_host dcs) []))) ips ctx path)
           (monitor_roles c) (c, []) = Inr (c', mcs)"
  using assms
  by (force simp: ParseMonitorInfo_def parseHosts_def bindR_eq_Inr split: if_splits)

lemma host_keys_set: "fst ` set (fold (\<lambda>h m. AList.update h True m) hs m) = fst ` set m \<union> set hs"
  for hs :: "string list"
  by (induction hs arbitrary: m) auto

lemma host_keys_distinct:
  "distinct (map fst m) \<Longrightarrow> distinct (map fst (fold (\<lambda>h m. AList.update h True m) hs m))" for hs :: "string list"
  by (induction hs arbitrary: m) (auto simp: distinct_update)

lemma hosts_once:
  assumes "\<forall>l. mset (me_order me l) = mset l"
  shows "set (me_order me (map fst (fold (\<lambda>h m. AList.update h True m) hs []))) = set hs"
    and "distinct (me_order me (map fst (fold (\<lambda>h m. AList.update h True m) hs [])))"
  using assms mset_eq_setD [of "me_order me _"] mset_eq_imp_distinct_iff [of "me_order me _"] host_keys_distinct [of "[]" hs]
  by (metis host_keys_set list.set_map set_empty2 image_empty sup_bot_left, metis distinct.simps(1) list.simps(8))

lemma placed_ids:
  assumes "distinct hosts"
  shows "distinct (map fst (map (placed ROLE_NODE_EXPORTER 1) hosts @
    [placed ROLE_PROMETHEUS 2 h, placed ROLE_GRAFANA 3 h, placed ROLE_MONITOR_SYNC 0 h]))"
  using assms by (auto simp: placed_def distinct_map inj_on_def)

lemma map_mc_id: "map mc_id mcs = map fst (map entry mcs)"
  by (simp add: entry_def comp_def)

text \<open>
  A monitor file that deploys node exporters gives one node exporter on every host of the topology, and
  one prometheus, one grafana and one configuration service, all three on the first host of the node exporters
  (the hosts of their own sections are not read); every section must have a configuration, and the ids are
  distinct.
\<close>

theorem ParseMonitor_services:
  assumes ok: "ParseMonitorInfo me e cl info ty = Inr mcs" and c: "read_info me info ty = Inr c"
    and p: "plain_file c" and d: "ms_Deploy (mf_NodeExporter c) \<noteq> None" and perm: "\<forall>l. mset (me_order me l) = mset l"
  shows "\<exists>dcs hosts h hs. cli_ParseTopology e cl = Inr dcs \<and> set hosts = dc_host ` set dcs \<and> distinct hosts \<and>
    ms_Deploy (mf_NodeExporter c) = Some (h # hs) \<and> (\<forall>r \<in> set mon_roles. ms_Config (section_of r c) \<noteq> None) \<and>
    map entry mcs = map (placed ROLE_NODE_EXPORTER 1) hosts @
      [placed ROLE_PROMETHEUS 2 h, placed ROLE_GRAFANA 3 h, placed ROLE_MONITOR_SYNC 0 h] \<and>
    distinct (map mc_id mcs)"
proof -
  obtain dcs ips ctx path c' where t: "cli_ParseTopology e cl = Inr dcs" "dcs \<noteq> []"
      "as_string (cfg_get (ms_Config (mf_MonitroSync c)) KEY_DATA_DIR) = Inr path"
      "foldR (role_turn me dcs (me_order me (map fst (fold (\<lambda>h m. AList.update h True m) (map dc_host dcs) []))) ips ctx path)
           (monitor_roles c) (c, []) = Inr (c', mcs)"
    by (rule ParseMonitorInfo_Inr [OF ok c])
  have r: "monitor_roles c = mon_roles" using d by (simp add: monitor_roles_def)
  let ?hosts = "me_order me (map fst (fold (\<lambda>h m. AList.update h True m) (map dc_host dcs) []))"
  obtain h hs where x: "exporter_hosts c = h # hs" "\<forall>r \<in> set mon_roles. ms_Config (section_of r c) \<noteq> None"
      "map entry mcs = map (placed ROLE_NODE_EXPORTER 1) ?hosts @
         [placed ROLE_PROMETHEUS 2 h, placed ROLE_GRAFANA 3 h, placed ROLE_MONITOR_SYNC 0 h]"
    by (rule turns_Inr [OF t(4) [unfolded r] p])
  have "distinct (map mc_id mcs)"
    unfolding map_mc_id x(3) by (rule placed_ids) (rule hosts_once(2) [OF perm])
  moreover have "ms_Deploy (mf_NodeExporter c) = Some (h # hs)" using x(1) d by (auto split: option.splits)
  moreover have "set ?hosts = dc_host ` set dcs" using hosts_once(1) [OF perm, of "map dc_host dcs"] by simp
  ultimately show ?thesis using t(1) x(2,3) hosts_once(2) [OF perm] by (intro exI conjI)
qed

text \<open>A file with no node exporter: every role falls back on an empty host list.\<close>

lemma puts_Inl: "puts kvs s = Inl err \<Longrightarrow> err = GoPanic"
proof (induction kvs arbitrary: s)
  case (Cons kv kvs)
  obtain k v where kv: "kv = (k, v)" by (cases kv)
  show ?case
  proof (cases "ms_Config s")
    case (Some m)
    with Cons.prems have "puts kvs (s\<lparr>ms_Config := Some (AList.update k v m)\<rparr>) = Inl err"
      by (simp add: kv puts_def map_cfg_def cfg_put_def)
    then show ?thesis by (rule Cons.IH)
  qed (use Cons.prems kv in \<open>simp add: puts_def map_cfg_def cfg_put_def\<close>)
qed (simp add: puts_def map_cfg_def)

lemma as_strings_Inl: "as_strings v = Inl err \<Longrightarrow> err = GoPanic"
  by (cases v) auto

lemma host_of_Inl: "host_of hosts s = Inl err \<Longrightarrow> err = GoPanic"
  by (auto simp: host_of_def bindR_eq_Inl dest: as_strings_Inl puts_Inl split: if_splits option.splits)

lemma getHost_Inl: "getHost c role = Inl err \<Longrightarrow> err = GoPanic"
  by (auto simp: getHost_def Let_def bindR_eq_Inl dest: host_of_Inl split: if_splits)

lemma role_turn_no_host:
  assumes "exporter_hosts c = []" and "plain_file c"
  shows "role_turn me dcs hosts ips ctx path role (c, ret) = Inl GoPanic"
proof (cases "getHost c role")
  case (Inl err)
  then show ?thesis by (simp add: role_turn_def getHost_Inl [OF Inl])
next
  case (Inr r)
  then obtain c1 l where g: "getHost c role = Inr (c1, l)" by (cases r) simp
  with getHost_Inr [OF g assms(2)] assms(1) show ?thesis by (simp add: role_turn_def)
qed

text \<open>
  Without a host for the node exporters a monitor file never gives services: the host of the other roles
  is the first of an empty slice, or a missing section is written.
\<close>

theorem monitor_needs_node_exporter:
  assumes "parseHosts me e cl = Inr (hosts, ips, dcs)" and "read_info me info ty = Inr c" and "plain_file c"
    and "ParseHosts (env_host e) (env_read_hosts e) (cl_hosts cl) = Inr hcs" and "add_hosts (env_host e) hcs NewContext = Inr ctx"
    and "monitor_roles c \<noteq> []" and "exporter_hosts c = []"
  shows "ParseMonitorInfo me e cl info ty = Inl GoPanic"
proof -
  obtain role roles where r: "monitor_roles c = role # roles" using assms(6) by (cases "monitor_roles c") auto
  have s: "as_string v = Inl err \<Longrightarrow> err = GoPanic" for v err by (cases v) (auto simp: as_string_def)
  show ?thesis
    using s role_turn_no_host [OF assms(7,3)]
    by (cases "as_string (cfg_get (ms_Config (mf_MonitroSync c)) KEY_DATA_DIR)")
      (auto simp: ParseMonitorInfo_def assms(1,2,4,5) r)
qed

section \<open>A monitor for one store\<close>

definition demo_section :: "string list option \<Rightarrow> mon_service" where
  "demo_section deploy = \<lparr>ms_Config = Some [(KEY_LISTEN_PORT, GInt 9090), (KEY_DATA_DIR, GStr ''/d'')], ms_Deploy = deploy\<rparr>"

definition demo_file :: "string list option \<Rightarrow> mon_file" where
  "demo_file exporters =
     \<lparr>mf_Global = None, mf_NodeExporter = demo_section exporters, mf_Prometheus = demo_section (Some [''p'']),
      mf_Grafana = demo_section (Some [''g'']), mf_MonitroSync = demo_section None\<rparr>"

definition demo_mon :: "string list option \<Rightarrow> mon_env" where
  "demo_mon exporters =
     \<lparr>me_read_file = (\<lambda>_. Some (demo_file exporters)), me_read_data = (\<lambda>_. Some (demo_file exporters)), me_order = (\<lambda>l. l)\<rparr>"

lemma demo_plain: "plain_file (demo_file exporters)"
  by (auto simp: plain_file_def plain_service_def demo_file_def demo_section_def cfg_get_def gget_def)

definition mon_check_env :: cli_env where
  "mon_check_env = check_env\<lparr>
     env_read_hosts := (\<lambda>_. Some \<lparr>hosts_Global = None, hosts_Host = [Some [(''host'', GStr ''h1''), (''hostname'', GStr ''10.0.0.1'')]]\<rparr>),
     env_read_topology := (\<lambda>_. Some demo_store)\<rparr>"

theorem ParseMonitor_services_witness:
  "\<exists>mcs dcs hosts. ParseMonitorInfo (demo_mon (Some [''a'', ''b''])) mon_check_env check_cli ''m'' INFO_TYPE_FILE = Inr mcs \<and>
     cli_ParseTopology mon_check_env check_cli = Inr dcs \<and> set hosts = dc_host ` set dcs \<and>
     map entry mcs = map (placed ROLE_NODE_EXPORTER 1) hosts @
       [placed ROLE_PROMETHEUS 2 ''a'', placed ROLE_GRAFANA 3 ''a'', placed ROLE_MONITOR_SYNC 0 ''a'']"
proof -
  let ?me = "demo_mon (Some [''a'', ''b''])"
  have "case ParseMonitorInfo ?me mon_check_env check_cli ''m'' INFO_TYPE_FILE of Inl _ \<Rightarrow> False | Inr _ \<Rightarrow> True" by code_simp
  then obtain mcs where ok: "ParseMonitorInfo ?me mon_check_env check_cli ''m'' INFO_TYPE_FILE = Inr mcs" by (auto split: sum.splits)
  have c: "read_info ?me ''m'' INFO_TYPE_FILE = Inr (demo_file (Some [''a'', ''b'']))" by (simp add: read_info_def demo_mon_def)
  have d: "ms_Deploy (mf_NodeExporter (demo_file (Some [''a'', ''b'']))) = Some [''a'', ''b'']" by (simp add: demo_file_def demo_section_def)
  have "ms_Deploy (mf_NodeExporter (demo_file (Some [''a'', ''b'']))) \<noteq> None" and "\<forall>l. mset (me_order ?me l) = mset l"
    by (simp_all add: d demo_mon_def)
  from ParseMonitor_services [OF ok c demo_plain this] obtain dcs hosts h hs where
      "cli_ParseTopology mon_check_env check_cli = Inr dcs" "set hosts = dc_host ` set dcs" "Some [''a'', ''b''] = Some (h # hs)"
      "map entry mcs = map (placed ROLE_NODE_EXPORTER 1) hosts @
        [placed ROLE_PROMETHEUS 2 h, placed ROLE_GRAFANA 3 h, placed ROLE_MONITOR_SYNC 0 h]"
    unfolding d by (elim exE conjE)
  then show ?thesis using ok by (intro exI conjI) auto
qed

theorem monitor_needs_node_exporter_witness:
  "ParseMonitorInfo (demo_mon None) mon_check_env check_cli ''m'' INFO_TYPE_FILE = Inl GoPanic"
proof -
  have "case parseHosts (demo_mon None) mon_check_env check_cli of Inl _ \<Rightarrow> False | Inr _ \<Rightarrow> True" by code_simp
  then obtain hosts ips dcs where h: "parseHosts (demo_mon None) mon_check_env check_cli = Inr (hosts, ips, dcs)" by (auto split: sum.splits)
  have "case ParseHosts (env_host mon_check_env) (env_read_hosts mon_check_env) (cl_hosts check_cli) of Inl _ \<Rightarrow> False
      | Inr hcs \<Rightarrow> (case add_hosts (env_host mon_check_env) hcs NewContext of Inl _ \<Rightarrow> False | Inr _ \<Rightarrow> True)" by code_simp
  then obtain hcs ctx where x: "ParseHosts (env_host mon_check_env) (env_read_hosts mon_check_env) (cl_hosts check_cli) = Inr hcs"
      "add_hosts (env_host mon_check_env) hcs NewContext = Inr ctx"
    by (auto split: sum.splits)
  have r: "read_info (demo_mon None) ''m'' INFO_TYPE_FILE = Inr (demo_file None)" by (simp add: read_info_def demo_mon_def)
  show ?thesis
    by (rule monitor_needs_node_exporter [OF h r demo_plain x])
      (simp_all add: read_info_def demo_mon_def demo_file_def demo_section_def monitor_roles_def)
qed

end
