(* ===== verification/Monitor_Ops.thy ===== *)
theory Monitor_Ops
  imports Monitor_Config Cluster_Ops Cluster_Admin
begin

text \<open>
  The commands on the monitor services of a cluster, \<open>cli/command/monitor\<close>: \<open>deploy\<close>, \<open>start\<close>, \<open>stop\<close>, \<open>restart\<close>,
  \<open>reload\<close>, \<open>clean\<close>, \<open>upgrade\<close>, \<open>status\<close> and \<open>config commit\<close>.

  The state of a command is the database with the process state \<open>'s\<close>; the tasks of a playbook may change both, so
  a runner acts on the pair.  The answers of the user are arguments; what is printed is left out.  A process runs
  one command, so only \<open>upgrade\<close> one by one reads a table of steps again that it has changed.
\<close>

section \<open>Steps over monitor services\<close>

definition mon_step :: "int \<Rightarrow> monitor_config list \<Rightarrow> omap \<Rightarrow> exec_options \<Rightarrow> 'cc playbook_step" where
  "mon_step ty mcs options eo =
     \<lparr>ps_Name = [], ps_Type = ty, ps_Configs = MonitorConfigs mcs, ps_Options = options, ps_ExecOptions = eo\<rparr>"

definition silent_bars :: exec_options where
  "silent_bars = zero_exec_options\<lparr>eo_SilentMainBar := True, eo_SilentSubBar := True\<rparr>"

definition mon_playbook :: "(int \<Rightarrow> 'cc playbook_step) \<Rightarrow> int list \<Rightarrow> 'cc playbook" where
  "mon_playbook f steps = fold (\<lambda>step pb. pb_AddStep (f step) pb) steps NewPlaybook"

record mon_options =
  mo_id :: string
  mo_role :: string
  mo_host :: string
  mo_force :: bool

abbreviation mon_selected :: "cli_env \<Rightarrow> dingocli \<Rightarrow> mon_options \<Rightarrow> monitor_config list \<Rightarrow> monitor_config list" where
  "mon_selected e cl options mcs \<equiv> FilterMonitorConfig e cl mcs (selection (mo_id options) (mo_role options) (mo_host options))"

section \<open>Deploy\<close>

definition MONITOR_DEPLOY_STEPS :: "int list" where
  "MONITOR_DEPLOY_STEPS =
     [PULL_MONITOR_IMAGE, CREATE_MONITOR_CONTAINER, SYNC_MONITOR_ORIGIN_CONFIG, SYNC_MONITOR_ALT_CONFIG,
      CLEAN_CONFIG_CONTAINER, START_MONITOR_SERVICE, SYNC_GRAFANA_DASHBOARD, SYNC_HOSTS_MAPPING]"

definition mon_without_pull :: "bool \<Rightarrow> int list \<Rightarrow> int slice" where
  "mon_without_pull useLocalImage table =
     (if useLocalImage then slice_remove PULL_MONITOR_IMAGE (full table) else full table)"

definition mon_genDeployPlaybook :: "monitor_config list \<Rightarrow> bool \<Rightarrow> 'cc playbook" where
  "mon_genDeployPlaybook mcs useLocalImage =
     mon_playbook (\<lambda>step.
       if step = CLEAN_CONFIG_CONTAINER then mon_step step mcs [] silent_bars else mon_step step mcs [] zero_exec_options)
       (view (mon_without_pull useLocalImage MONITOR_DEPLOY_STEPS))"

definition mon_runDeploy ::
  "('cc, db \<times> 's, 't) runner \<Rightarrow> mon_env \<Rightarrow> cli_env \<Rightarrow> files \<Rightarrow> dingocli \<Rightarrow> string \<Rightarrow> bool \<Rightarrow> 's cmd" where
  "mon_runDeploy r me e files cl filename useLocalImage =
     (case ParseMonitorInfo me e cl filename INFO_TYPE_FILE of
        Inl err \<Rightarrow> errC (TErr err)
      | Inr mcs \<Rightarrow>
          (case files filename of
             Some (Some data) \<Rightarrow>
               dbC ERR_REPLACE_MONITOR_FAILED (ReplaceMonitor \<lparr>mon_ClusterId = cl_clusterId cl, mon_Monitor = data\<rparr>)
                 (\<lambda>_. run_playbook r (Inr (mon_genDeployPlaybook mcs useLocalImage)))
           | _ \<Rightarrow> failC ERR_READ_MONITOR_FILE_FAILED))"

section \<open>Start, stop, restart, reload, clean\<close>

definition MONITOR_START_STEPS :: "int list" where "MONITOR_START_STEPS = [START_MONITOR_SERVICE]"
definition MONITOR_STOP_STEPS :: "int list" where "MONITOR_STOP_STEPS = [STOP_MONITOR_SERVICE]"
definition MONITOR_RESTART_STEPS :: "int list" where "MONITOR_RESTART_STEPS = [RESTART_MONITOR_SERVICE]"

definition MONITOR_RELOAD_STEPS :: "int list" where
  "MONITOR_RELOAD_STEPS =
     [CREATE_MONITOR_CONTAINER, SYNC_MONITOR_ALT_CONFIG, CLEAN_CONFIG_CONTAINER, RESTART_MONITOR_SERVICE]"

definition MONITOR_CLEAN_STEPS :: "int list" where "MONITOR_CLEAN_STEPS = [CLEAN_MONITOR_SERVICE]"

definition mon_genStartPlaybook :: "cli_env \<Rightarrow> dingocli \<Rightarrow> monitor_config list \<Rightarrow> mon_options \<Rightarrow> 'cc playbook res" where
  "mon_genStartPlaybook e cl mcs options =
     (let mcs = mon_selected e cl options mcs in
      if length mcs = 0 then Inl (Ec ERR_NO_SERVICES_MATCHED)
      else Inr (mon_playbook (\<lambda>step. mon_step step mcs [] zero_exec_options) MONITOR_START_STEPS))"

definition mon_genStopPlaybook :: "cli_env \<Rightarrow> dingocli \<Rightarrow> monitor_config list \<Rightarrow> mon_options \<Rightarrow> 'cc playbook res" where
  "mon_genStopPlaybook e cl mcs options =
     (let mcs = mon_selected e cl options mcs in
      if length mcs = 0 then Inl (Ec ERR_NO_SERVICES_MATCHED)
      else Inr (mon_playbook (\<lambda>step. mon_step step mcs [] zero_exec_options) MONITOR_STOP_STEPS))"

definition mon_genRestartPlaybook :: "cli_env \<Rightarrow> dingocli \<Rightarrow> monitor_config list \<Rightarrow> mon_options \<Rightarrow> 'cc playbook res" where
  "mon_genRestartPlaybook e cl mcs options =
     (let mcs = mon_selected e cl options mcs in
      if length mcs = 0 then Inl (Ec ERR_NO_SERVICES_MATCHED)
      else Inr (mon_playbook (\<lambda>step. mon_step step mcs [] zero_exec_options) MONITOR_RESTART_STEPS))"

definition mon_genReloadPlaybook :: "cli_env \<Rightarrow> dingocli \<Rightarrow> monitor_config list \<Rightarrow> mon_options \<Rightarrow> 'cc playbook res" where
  "mon_genReloadPlaybook e cl mcs options =
     (let mcs = mon_selected e cl options mcs in
      if length mcs = 0 then Inl (Ec ERR_NO_SERVICES_MATCHED)
      else Inr (mon_playbook (\<lambda>step.
             if step = CREATE_MONITOR_CONTAINER \<or> step = CLEAN_CONFIG_CONTAINER then mon_step step mcs [] silent_bars
             else mon_step step mcs [] zero_exec_options) MONITOR_RELOAD_STEPS))"

definition mon_genCleanPlaybook ::
  "string list \<Rightarrow> cli_env \<Rightarrow> dingocli \<Rightarrow> monitor_config list \<Rightarrow> mon_options \<Rightarrow> 'cc playbook res" where
  "mon_genCleanPlaybook only e cl mcs options =
     (let mcs = mon_selected e cl options mcs in
      if length mcs = 0 then Inl (Ec ERR_NO_SERVICES_MATCHED)
      else Inr (mon_playbook (\<lambda>step. mon_step step mcs [(''CLEAN_ITEMS'', OStrs only)] zero_exec_options)
             (if Contains only CLEAN_ITEM_CONTAINER then STOP_MONITOR_SERVICE # MONITOR_CLEAN_STEPS else MONITOR_CLEAN_STEPS)))"

text \<open>Parse, generate, ask unless forced, run.  \<open>start\<close>, \<open>restart\<close> and \<open>reload\<close> have no option to force.\<close>

definition mon_run_selected ::
  "('cc, 's, 't) runner \<Rightarrow> mon_env \<Rightarrow> cli_env \<Rightarrow> dingocli \<Rightarrow> bool \<Rightarrow> (monitor_config list \<Rightarrow> 'cc playbook res) \<Rightarrow> bool \<Rightarrow> 's \<Rightarrow>
   's \<times> terr option" where
  "mon_run_selected r me e cl force gen pass s =
     (case bindR (ParseMonitor me e cl) gen of
        Inl err \<Rightarrow> (s, Some (TErr err))
      | Inr pb \<Rightarrow> confirmed_run r force pass pb s)"

definition mon_runStart where
  "mon_runStart r me e cl options pass s = mon_run_selected r me e cl False (\<lambda>mcs. mon_genStartPlaybook e cl mcs options) pass s"

definition mon_runStop where
  "mon_runStop r me e cl options pass s = mon_run_selected r me e cl (mo_force options) (\<lambda>mcs. mon_genStopPlaybook e cl mcs options) pass s"

definition mon_runRestart where
  "mon_runRestart r me e cl options pass s = mon_run_selected r me e cl False (\<lambda>mcs. mon_genRestartPlaybook e cl mcs options) pass s"

definition mon_runReload where
  "mon_runReload r me e cl options pass s = mon_run_selected r me e cl False (\<lambda>mcs. mon_genReloadPlaybook e cl mcs options) pass s"

definition mon_runClean where
  "mon_runClean r me e cl only options pass s =
     mon_run_selected r me e cl (mo_force options) (\<lambda>mcs. mon_genCleanPlaybook only e cl mcs options) pass s"

section \<open>Upgrade\<close>

definition MONITOR_UPGRADE_STEPS :: "int list" where
  "MONITOR_UPGRADE_STEPS =
     [PULL_MONITOR_IMAGE, STOP_MONITOR_SERVICE, CLEAN_MONITOR_SERVICE, CREATE_MONITOR_CONTAINER, START_MONITOR_SERVICE,
      SYNC_HOSTS_MAPPING]"

definition mon_upgrade_opts :: omap where
  "mon_upgrade_opts =
     [(''CLEAN_ITEMS'', OStrs [CLEAN_ITEM_CONTAINER]), (''CLEAN_BY_RECYCLE'', OVal (GBool True)), (''UPGRADE_FLAG'', OVal (GBool True))]"

text \<open>The table of steps is the argument \<open>table\<close>; the result has the table that is left.\<close>

definition mon_genUpgradePlaybook :: "monitor_config list \<Rightarrow> bool \<Rightarrow> int list \<Rightarrow> int list \<times> 'cc playbook" where
  "mon_genUpgradePlaybook mcs useLocalImage table =
     (let steps = mon_without_pull useLocalImage table in
      (sl_array steps, mon_playbook (\<lambda>step. mon_step step mcs mon_upgrade_opts zero_exec_options) (view steps)))"

definition mon_upgradeAtOnce ::
  "('cc, 's, 't) runner \<Rightarrow> monitor_config list \<Rightarrow> bool \<Rightarrow> int list \<times> 's \<Rightarrow> (int list \<times> 's) \<times> terr option" where
  "mon_upgradeAtOnce r mcs useLocalImage st =
     (let (table', pb) = mon_genUpgradePlaybook mcs useLocalImage (fst st);
          (s', err) = pb_Run (fst r) (snd r) pb (snd st)
      in ((table', s'), err))"

fun mon_upgradeOneByOne ::
  "('cc, 's, 't) runner \<Rightarrow> (monitor_config \<Rightarrow> bool) \<Rightarrow> monitor_config list \<Rightarrow> bool \<Rightarrow>
   int list \<times> 's \<Rightarrow> (int list \<times> 's) \<times> terr option" where
  "mon_upgradeOneByOne r pass [] useLocalImage st = (st, None)"
| "mon_upgradeOneByOne r pass (mc # mcs) useLocalImage st =
     (case mc_GetImage mc of
        Inl err \<Rightarrow> (st, Some (TErr err))
      | Inr _ \<Rightarrow>
          if \<not> pass mc then (st, Some (TErr (Ec ERR_CANCEL_OPERATION)))
          else
            (case mon_upgradeAtOnce r [mc] useLocalImage st of
               (st', Some err) \<Rightarrow> (st', Some err)
             | (st', None) \<Rightarrow> mon_upgradeOneByOne r pass mcs useLocalImage st'))"

definition mon_runUpgrade ::
  "('cc, 's, 't) runner \<Rightarrow> mon_env \<Rightarrow> cli_env \<Rightarrow> dingocli \<Rightarrow> (monitor_config \<Rightarrow> bool) \<Rightarrow> mon_options \<Rightarrow> bool \<Rightarrow>
   int list \<times> 's \<Rightarrow> (int list \<times> 's) \<times> terr option" where
  "mon_runUpgrade r me e cl pass options useLocalImage st =
     (case ParseMonitor me e cl of
        Inl err \<Rightarrow> (st, Some (TErr err))
      | Inr mcs0 \<Rightarrow>
          (let mcs = mon_selected e cl options mcs0 in
           if length mcs = 0 then (st, Some (TErr (Ec ERR_NO_SERVICES_MATCHED)))
           else if mo_force options then mon_upgradeAtOnce r mcs useLocalImage st
           else mon_upgradeOneByOne r pass mcs useLocalImage st))"

section \<open>Status\<close>

definition GET_MONITOR_STATUS_PLAYBOOK_STEPS :: "int list" where
  "GET_MONITOR_STATUS_PLAYBOOK_STEPS = [INIT_MONITOR_STATUS, GET_MONITOR_STATUS]"

definition mon_genStatusPlaybook :: "cli_env \<Rightarrow> dingocli \<Rightarrow> monitor_config list \<Rightarrow> mon_options \<Rightarrow> 'cc playbook res" where
  "mon_genStatusPlaybook e cl mcs options =
     (let mcs = mon_selected e cl options mcs in
      if length mcs = 0 then Inl (Ec ERR_NO_SERVICES_MATCHED)
      else Inr (mon_playbook (\<lambda>step.
             mon_step step mcs [] \<lparr>eo_Concurrency = 0, eo_SilentMainBar = (step = INIT_MONITOR_STATUS), eo_SilentSubBar = True, eo_SkipError = True\<rparr>)
             GET_MONITOR_STATUS_PLAYBOOK_STEPS))"

text \<open>The cluster's kind and the address of grafana that the title shows.\<close>

definition grafana_address :: "monitor_config list \<Rightarrow> string res" where
  "grafana_address mcs =
     (case find (\<lambda>mc. mc_role mc = ROLE_GRAFANA) mcs of
        None \<Rightarrow> Inr []
      | Some mc \<Rightarrow> bindR (mc_GetListenPort mc) (\<lambda>port. Inr (''http://'' @ ctx_Lookup (mc_ctx mc) (mc_host mc) @ '':'' @ itoa port)))"

definition displayStatus :: "monitor_config list \<Rightarrow> (string \<times> string) res" where
  "displayStatus mcs =
     bindR (grafana_address mcs) (\<lambda>addr. case mcs of [] \<Rightarrow> Inl GoPanic | mc # _ \<Rightarrow> Inr (mc_kind mc, addr))"

definition mon_runStatus ::
  "('cc, 's, 't) runner \<Rightarrow> mon_env \<Rightarrow> cli_env \<Rightarrow> dingocli \<Rightarrow> mon_options \<Rightarrow> 's \<Rightarrow> 's \<times> terr option" where
  "mon_runStatus r me e cl options s =
     (case ParseMonitor me e cl of
        Inl err \<Rightarrow> (s, Some (TErr err))
      | Inr mcs \<Rightarrow>
          (case mon_genStatusPlaybook e cl mcs options of
             Inl err \<Rightarrow> (s, Some (TErr err))
           | Inr pb \<Rightarrow>
               (let (s', err) = pb_Run (fst r) (snd r) pb s in
                if panicked err then (s', err)
                else case displayStatus mcs of Inl err' \<Rightarrow> (s', Some (TErr err')) | Inr _ \<Rightarrow> (s', err))))"

section \<open>Committing a monitor file\<close>

definition mon_checkDiff :: "mon_env \<Rightarrow> cli_env \<Rightarrow> (gmap \<Rightarrow> int option) \<Rightarrow> dingocli \<Rightarrow> string \<Rightarrow> unit res" where
  "mon_checkDiff me e hash cl newData =
     (case DiffMonitor me e hash cl (mon_Monitor (cl_monitor cl)) newData of
        Inl err \<Rightarrow> if skipError err then Inr () else Inl err
      | Inr diffs \<Rightarrow> Inr ())"

definition checkMonitor ::
  "mon_env \<Rightarrow> cli_env \<Rightarrow> (gmap \<Rightarrow> int option) \<Rightarrow> dingocli \<Rightarrow> string \<Rightarrow> string \<Rightarrow> bool \<Rightarrow> unit res" where
  "checkMonitor me e hash cl data filename force =
     (if force then Inr ()
      else bindR (ParseMonitorInfo me e cl filename INFO_TYPE_FILE) (\<lambda>_.
        if length (mon_Monitor (cl_monitor cl)) > 0 then mon_checkDiff me e hash cl data else Inr ()))"

text \<open>An error of the last statement is returned as it is, after the success message.\<close>

definition mon_runCommit ::
  "mon_env \<Rightarrow> cli_env \<Rightarrow> (gmap \<Rightarrow> int option) \<Rightarrow> files \<Rightarrow> dingocli \<Rightarrow> bool \<Rightarrow> string \<Rightarrow> bool \<Rightarrow> 's cmd" where
  "mon_runCommit me e hash files cl force filename pass =
     (case ParseMonitorInfo me e cl filename INFO_TYPE_FILE of
        Inl err \<Rightarrow> errC (TErr err)
      | Inr _ \<Rightarrow>
          (case readTopology files filename of
             Inl err \<Rightarrow> errC (TErr err)
           | Inr data \<Rightarrow>
               (case checkMonitor me e hash cl data filename force of
                  Inl err \<Rightarrow> errC (TErr err)
                | Inr _ \<Rightarrow>
                    if \<not> force \<and> \<not> pass then failC ERR_CANCEL_OPERATION
                    else (\<lambda>st.
                      case ReplaceMonitor \<lparr>mon_ClusterId = cl_clusterId cl, mon_Monitor = data\<rparr> (fst st) of
                        (d, Inl _) \<Rightarrow> ((d, snd st), Some (TErr (RawErr ''storage'')))
                      | (d, Inr _) \<Rightarrow> ((d, snd st), None)))))"

end
