(* ===== verification/Monitor_Spec.thy ===== *)
theory Monitor_Spec
  imports Monitor_Ops Storage_Spec
begin

text \<open>
  What the commands on monitor services do: which services they act on and with which steps, and what they store of the
  monitor file.
\<close>

section \<open>Commands on selected services\<close>

lemma FilterMonitorConfig_filter:
  "FilterMonitorConfig e cl mcs options =
     filter (\<lambda>mc. fo_Id options \<in> {''*'', GetServiceId e cl (mc_id mc)} \<and> fo_Role options \<in> {''*'', mc_role mc} \<and>
       fo_Host options \<in> {''*'', mc_host mc}) mcs"
  by (induction mcs) (simp_all add: Let_def)

lemma mon_playbook_steps: "mon_playbook f steps = \<lparr>pb_steps = map f steps, pb_postSteps = []\<rparr>"
proof -
  have "fold (\<lambda>step pb. pb_AddStep (f step) pb) steps pb = pb\<lparr>pb_steps := pb_steps pb @ map f steps\<rparr>" for pb :: "'a playbook"
    by (induction steps arbitrary: pb) (simp_all add: pb_AddStep_def)
  then show ?thesis by (simp add: mon_playbook_def NewPlaybook_def)
qed

lemma pb_Run_no_post: "pb_Run create exec \<lparr>pb_steps = steps, pb_postSteps = []\<rparr> s = pb_run create exec steps s"
  by (simp add: pb_Run_def split: prod.splits)

text \<open>The services that match, or an error; then the given steps over exactly those services, unless the user declines.\<close>

definition monitor_outcome ::
  "('cc, 's, 't) runner \<Rightarrow> mon_env \<Rightarrow> cli_env \<Rightarrow> dingocli \<Rightarrow> bool \<Rightarrow> int list \<Rightarrow> omap \<Rightarrow> (int \<Rightarrow> exec_options) \<Rightarrow> mon_options \<Rightarrow>
   bool \<Rightarrow> 's \<Rightarrow> 's \<times> terr option" where
  "monitor_outcome r me e cl asked steps opts eo options pass s =
     (case ParseMonitor me e cl of
        Inl err \<Rightarrow> (s, Some (TErr err))
      | Inr mcs \<Rightarrow>
          (let mcs' = filter (\<lambda>mc. mo_id options \<in> {''*'', GetServiceId e cl (mc_id mc)} \<and>
                 mo_role options \<in> {''*'', mc_role mc} \<and> mo_host options \<in> {''*'', mc_host mc}) mcs in
           if mcs' = [] then (s, Some (TErr (Ec ERR_NO_SERVICES_MATCHED)))
           else if asked \<and> \<not> pass then (s, Some (TErr (Ec ERR_CANCEL_OPERATION)))
           else pb_run (fst r) (snd r) (map (\<lambda>step. mon_step step mcs' opts (eo step)) steps) s))"

locale monitor_command =
  fixes gen :: "cli_env \<Rightarrow> dingocli \<Rightarrow> monitor_config list \<Rightarrow> mon_options \<Rightarrow> 'cc playbook res"
    and steps :: "int list" and opts :: omap and eo :: "int \<Rightarrow> exec_options"
  assumes gen_none: "mon_selected e cl options mcs = [] \<Longrightarrow> gen e cl mcs options = Inl (Ec ERR_NO_SERVICES_MATCHED)"
    and gen_some: "mon_selected e cl options mcs \<noteq> [] \<Longrightarrow>
      gen e cl mcs options = Inr (mon_playbook (\<lambda>step. mon_step step (mon_selected e cl options mcs) opts (eo step)) steps)"
begin

lemma outcome:
  "mon_run_selected r me e cl force (\<lambda>mcs. gen e cl mcs options) pass s =
     monitor_outcome r me e cl (\<not> force) steps opts eo options pass s"
proof (cases "ParseMonitor me e cl")
  case (Inr mcs)
  have sel: "mon_selected e cl options mcs = filter (\<lambda>mc. mo_id options \<in> {''*'', GetServiceId e cl (mc_id mc)} \<and>
      mo_role options \<in> {''*'', mc_role mc} \<and> mo_host options \<in> {''*'', mc_host mc}) mcs"
    by (simp only: FilterMonitorConfig_filter selection_def filter_option.simps)
  show ?thesis
    unfolding mon_run_selected_def monitor_outcome_def Inr sum.case Let_def sel [symmetric]
    by (cases "mon_selected e cl options mcs = []")
      (simp_all add: Inr gen_none gen_some confirmed_run_def mon_playbook_steps pb_Run_no_post)
qed (simp add: mon_run_selected_def monitor_outcome_def)

end

interpretation mon_start: monitor_command mon_genStartPlaybook MONITOR_START_STEPS "[]" "\<lambda>_. zero_exec_options"
  by unfold_locales (simp_all add: mon_genStartPlaybook_def Let_def)

interpretation mon_stop: monitor_command mon_genStopPlaybook MONITOR_STOP_STEPS "[]" "\<lambda>_. zero_exec_options"
  by unfold_locales (simp_all add: mon_genStopPlaybook_def Let_def)

interpretation mon_restart: monitor_command mon_genRestartPlaybook MONITOR_RESTART_STEPS "[]" "\<lambda>_. zero_exec_options"
  by unfold_locales (simp_all add: mon_genRestartPlaybook_def Let_def)

definition reload_bars :: "int \<Rightarrow> exec_options" where
  "reload_bars step = (if step = CREATE_MONITOR_CONTAINER \<or> step = CLEAN_CONFIG_CONTAINER then silent_bars else zero_exec_options)"

interpretation mon_reload: monitor_command mon_genReloadPlaybook MONITOR_RELOAD_STEPS "[]" reload_bars
  by unfold_locales (simp_all add: mon_genReloadPlaybook_def Let_def reload_bars_def if_distrib [of "mon_step _ _ _"] cong: if_cong)

definition clean_plan :: "string list \<Rightarrow> int list" where
  "clean_plan only = (if Contains only CLEAN_ITEM_CONTAINER then [STOP_MONITOR_SERVICE, CLEAN_MONITOR_SERVICE] else [CLEAN_MONITOR_SERVICE])"

interpretation mon_clean: monitor_command "mon_genCleanPlaybook only" "clean_plan only" "[(''CLEAN_ITEMS'', OStrs only)]" "\<lambda>_. zero_exec_options"
  for only
  by unfold_locales (simp_all add: mon_genCleanPlaybook_def Let_def clean_plan_def MONITOR_CLEAN_STEPS_def)

text \<open>
  The commands on monitor services: with a monitor file that does not parse, with no service that matches, or when the
  user declines, nothing is done and the error says which; otherwise the steps of the command run in order over
  exactly the services that match id, role and host.  Starting, restarting and reloading always ask the user; a reload
  creates the containers, writes the configuration and restarts, and cleaning the containers stops the services first.
\<close>

theorem monitor_commands:
  "mon_runStart r me e cl options pass s =
     monitor_outcome r me e cl True [START_MONITOR_SERVICE] [] (\<lambda>_. zero_exec_options) options pass s \<and>
   mon_runStop r me e cl options pass s =
     monitor_outcome r me e cl (\<not> mo_force options) [STOP_MONITOR_SERVICE] [] (\<lambda>_. zero_exec_options) options pass s \<and>
   mon_runRestart r me e cl options pass s =
     monitor_outcome r me e cl True [RESTART_MONITOR_SERVICE] [] (\<lambda>_. zero_exec_options) options pass s \<and>
   mon_runReload r me e cl options pass s =
     monitor_outcome r me e cl True
       [CREATE_MONITOR_CONTAINER, SYNC_MONITOR_ALT_CONFIG, CLEAN_CONFIG_CONTAINER, RESTART_MONITOR_SERVICE] [] reload_bars options pass s \<and>
   mon_runClean r me e cl only options pass s =
     monitor_outcome r me e cl (\<not> mo_force options)
       (if Contains only CLEAN_ITEM_CONTAINER then [STOP_MONITOR_SERVICE, CLEAN_MONITOR_SERVICE] else [CLEAN_MONITOR_SERVICE])
       [(''CLEAN_ITEMS'', OStrs only)] (\<lambda>_. zero_exec_options) options pass s"
  unfolding mon_runStart_def mon_runStop_def mon_runRestart_def mon_runReload_def mon_runClean_def
    mon_start.outcome mon_stop.outcome mon_restart.outcome mon_reload.outcome mon_clean.outcome
    MONITOR_START_STEPS_def MONITOR_STOP_STEPS_def MONITOR_RESTART_STEPS_def MONITOR_RELOAD_STEPS_def clean_plan_def
  by (simp only: simp_thms)

section \<open>The stored monitor file\<close>

lemma ReplaceMonitor_content:
  assumes "db_faults d = []"
  obtains d' where "ReplaceMonitor \<lparr>mon_ClusterId = i, mon_Monitor = data\<rparr> d = (d', Inr ())" "db_faults d' = []"
    "monitor_content d' = (monitor_content d)(i \<mapsto> data)"
    "filter (\<lambda>m. mon_ClusterId m = i) (db_monitors d') = [\<lparr>mon_ClusterId = i, mon_Monitor = data\<rparr>]"
proof -
  let ?rows = "delete_where (\<lambda>r. mon_ClusterId r = i) (db_monitors d) @ [\<lparr>mon_ClusterId = i, mon_Monitor = data\<rparr>]"
  let ?d = "d\<lparr>db_monitors := ?rows\<rparr>"
  have run: "ReplaceMonitor \<lparr>mon_ClusterId = i, mon_Monitor = data\<rparr> d = (?d, Inr ())" "db_faults ?d = []"
    using assms by (simp_all add: ReplaceMonitor_def)
  have "filter (\<lambda>m. mon_ClusterId m = i) (delete_where (\<lambda>r. mon_ClusterId r = i) (db_monitors d)) = []"
    by (simp add: delete_where_def filter_empty_conv)
  then have rows: "filter (\<lambda>m. mon_ClusterId m = i) (db_monitors ?d) = [\<lparr>mon_ClusterId = i, mon_Monitor = data\<rparr>]" by simp
  have content: "monitor_content ?d = (monitor_content d)(i \<mapsto> data)"
    by (auto simp: monitor_content_def fun_eq_iff find_snoc find_delete_where split: option.splits)
  show thesis by (rule that [OF run content rows])
qed

lemma ParseMonitor_stored:
  assumes "me_read_file me filename = me_read_data me data" and "data \<noteq> []" and "data \<noteq> CLEANED_MONITOR_CONF"
  shows "ParseMonitor me e (cl\<lparr>cl_monitor := \<lparr>mon_ClusterId = i, mon_Monitor = data\<rparr>\<rparr>) = ParseMonitorInfo me e cl filename INFO_TYPE_FILE"
proof -
  have "read_info me data INFO_TYPE_DATA = read_info me filename INFO_TYPE_FILE" using assms by (simp add: read_info_def)
  moreover have "parseHosts me e (cl\<lparr>cl_monitor := m\<rparr>) = parseHosts me e cl" for m
    by (simp add: parseHosts_def cli_ParseTopology_def ParseTopologyData_def)
  ultimately show ?thesis by (simp add: ParseMonitor_def ParseMonitorInfo_def)
qed


text \<open>
  Committing a monitor file: a commit that succeeds found a file that parses, was forced or agreed to, and stores
  the text of the file for the session's cluster and changes no other; a commit that fails leaves the database as it
  was.  Where the stored text is a dash, the mark of a cleaned monitor, only a forced commit can succeed: the
  comparison with the dash fails.
\<close>

theorem monitor_commit_spec:
  assumes "db_faults d = []" and "mon_runCommit me e hash files cl force filename pass (d, s) = ((d', s'), res)"
  shows "if res = None
    then \<exists>data mcs. readTopology files filename = Inr data \<and> ParseMonitorInfo me e cl filename INFO_TYPE_FILE = Inr mcs \<and>
      (force \<or> pass \<and> mon_Monitor (cl_monitor cl) \<noteq> CLEANED_MONITOR_CONF) \<and>
      monitor_content d' = (monitor_content d)(cl_clusterId cl \<mapsto> data)
    else d' = d"
proof (cases "ParseMonitorInfo me e cl filename INFO_TYPE_FILE")
  case (Inr mcs)
  show ?thesis
  proof (cases "readTopology files filename")
    case data: (Inr data)
    obtain d2 where d2: "ReplaceMonitor \<lparr>mon_ClusterId = cl_clusterId cl, mon_Monitor = data\<rparr> d = (d2, Inr ())"
        "monitor_content d2 = (monitor_content d)(cl_clusterId cl \<mapsto> data)"
      by (rule ReplaceMonitor_content [OF assms(1)])
    show ?thesis
    proof (cases "checkMonitor me e hash cl data filename force")
      case (Inl err)
      with assms(2) Inr data show ?thesis by (auto simp: mon_runCommit_def errC_def)
    next
      case c: (Inr u)
      have "force \<or> mon_Monitor (cl_monitor cl) \<noteq> CLEANED_MONITOR_CONF"
      proof (rule ccontr)
        assume "\<not> (force \<or> mon_Monitor (cl_monitor cl) \<noteq> CLEANED_MONITOR_CONF)"
        with c Inr have "mon_checkDiff me e hash cl data = Inr ()" and m: "mon_Monitor (cl_monitor cl) = CLEANED_MONITOR_CONF"
          by (auto simp: checkMonitor_def)
        moreover obtain hs where "parseHosts me e cl = Inr hs" using Inr by (auto simp: ParseMonitorInfo_def bindR_eq_Inr)
        ultimately show False
          by (auto simp: mon_checkDiff_def DiffMonitor_def ParseMonitorInfo_def read_info_def m skipError_def res_simps split: if_splits sum.splits)
      qed
      then show ?thesis
      proof (cases "\<not> force \<and> \<not> pass")
        case True
        with assms(2) Inr data c show ?thesis by (auto simp: mon_runCommit_def failC_def)
      next
        case False
        with assms(2) Inr data c d2(1) have "res = None" "d' = d2" by (auto simp: mon_runCommit_def)
        with Inr data d2(2) \<open>force \<or> _\<close> False show ?thesis by auto
      qed
    qed
  next
    case (Inl err)
    with assms(2) Inr show ?thesis by (auto simp: mon_runCommit_def errC_def)
  qed
next
  case (Inl err)
  with assms(2) show ?thesis by (auto simp: mon_runCommit_def errC_def)
qed

text \<open>With a local image, the second service that is upgraded one by one has its hosts mapped twice.\<close>

lemma mon_upgrade_twice:
  assumes "mon_genUpgradePlaybook [mc1] True MONITOR_UPGRADE_STEPS = (table1, pb1)" and "mon_genUpgradePlaybook [mc2] True table1 = (table2, pb2)"
  shows "map ps_Type (pb_steps pb1) =
      [STOP_MONITOR_SERVICE, CLEAN_MONITOR_SERVICE, CREATE_MONITOR_CONTAINER, START_MONITOR_SERVICE, SYNC_HOSTS_MAPPING]"
    and "map ps_Type (pb_steps pb2) = map ps_Type (pb_steps pb1) @ [SYNC_HOSTS_MAPPING]"
proof -
  let ?once = "[STOP_MONITOR_SERVICE, CLEAN_MONITOR_SERVICE, CREATE_MONITOR_CONTAINER, START_MONITOR_SERVICE, SYNC_HOSTS_MAPPING]"
  have types: "map (ps_Type \<circ> (\<lambda>step. mon_step step mcs opts eo)) steps = steps" for mcs opts eo steps
    by (simp add: comp_def mon_step_def)
  have a: "sl_array (slice_remove PULL_MONITOR_IMAGE (full MONITOR_UPGRADE_STEPS)) = ?once @ [SYNC_HOSTS_MAPPING]"
    "view (slice_remove PULL_MONITOR_IMAGE (full MONITOR_UPGRADE_STEPS)) = ?once"
    "view (slice_remove PULL_MONITOR_IMAGE (full (?once @ [SYNC_HOSTS_MAPPING]))) = ?once @ [SYNC_HOSTS_MAPPING]"
    by code_simp+
  have "table1 = ?once @ [SYNC_HOSTS_MAPPING]" and one: "map ps_Type (pb_steps pb1) = ?once"
    using assms(1) by (auto simp: mon_genUpgradePlaybook_def mon_without_pull_def mon_playbook_steps Let_def a mon_step_def)
  with assms(2) have "map ps_Type (pb_steps pb2) = view (slice_remove PULL_MONITOR_IMAGE (full (?once @ [SYNC_HOSTS_MAPPING])))"
    by (auto simp: mon_genUpgradePlaybook_def mon_without_pull_def mon_playbook_steps Let_def types)
  with one show "map ps_Type (pb_steps pb1) = ?once" "map ps_Type (pb_steps pb2) = map ps_Type (pb_steps pb1) @ [SYNC_HOSTS_MAPPING]"
    unfolding a by simp_all
qed

section \<open>The theorems at work\<close>

definition quiet_runner2 :: "(unit, db \<times> unit, unit) runner" where
  "quiet_runner2 = (\<lambda>_ s. (s, Inr ()), \<lambda>_ _ s. (s, None))"

definition mon_files :: files where
  "mon_files = (\<lambda>f. if f = ''m'' then Some (Some ''text'') else None)"

lemma demo_mon_parses:
  obtains mcs where "ParseMonitorInfo (demo_mon (Some [''a'', ''b''])) mon_check_env check_cli ''m'' INFO_TYPE_FILE = Inr mcs"
proof -
  have "case ParseMonitorInfo (demo_mon (Some [''a'', ''b''])) mon_check_env check_cli ''m'' INFO_TYPE_FILE of Inl _ \<Rightarrow> False | Inr _ \<Rightarrow> True"
    by code_simp
  with that show thesis by (auto split: sum.splits)
qed


theorem monitor_commit_spec_witness:
  "\<exists>d'. mon_runCommit (demo_mon (Some [''a'', ''b''])) mon_check_env (\<lambda>_. None) mon_files check_cli True ''m'' False (empty_db, ()) = ((d', ()), None) \<and>
     monitor_content d' 1 = Some ''text''"
proof -
  obtain mcs where ok: "ParseMonitorInfo (demo_mon (Some [''a'', ''b''])) mon_check_env check_cli ''m'' INFO_TYPE_FILE = Inr mcs"
    by (rule demo_mon_parses)
  have e: "db_faults empty_db = []" by (simp add: empty_db_def)
  have t: "readTopology mon_files ''m'' = Inr ''text''" by (simp add: readTopology_def mon_files_def)
  let ?p = "mon_runCommit (demo_mon (Some [''a'', ''b''])) mon_check_env (\<lambda>_. None) mon_files check_cli True ''m'' False (empty_db, ())"
  have p: "?p = ((fst (fst ?p), ()), None)"
    using ok t e by (simp add: mon_runCommit_def checkMonitor_def ReplaceMonitor_def)
  from monitor_commit_spec [OF e p] t have "monitor_content (fst (fst ?p)) = (monitor_content empty_db)(cl_clusterId check_cli \<mapsto> ''text'')"
    by auto
  moreover have "cl_clusterId check_cli = 1" by (simp add: check_cli_def)
  ultimately have "monitor_content (fst (fst ?p)) 1 = Some ''text''" by simp
  with p show ?thesis by blast
qed

end
