(* ===== verification/Module.thy ===== *)
theory Module
  imports Hosts Tasks Utils
begin

text \<open>
  Commands on hosts: \<open>pkg/module\<close>.  A \<open>Shell\<close> or \<open>DockerCli\<close> is a template of a command line with data and options;
  \<open>execCommand\<close> renders it, puts \<open>sudo\<close> and the user to become in front, and runs it in the local shell or over a
  connection.

  Running commands, copying files over a connection, local files and random names are the fields of \<open>sys\<close>, on an
  external state \<open>'x\<close>; they stand for the operating systems, the container engine and the ssh package.  Templates
  are those of \<open>text/template\<close> with plain fields of a map: a key that is not there prints \<open><no value>\<close>.
\<close>

section \<open>Templates\<close>

definition field_value :: "(string \<times> string) list \<Rightarrow> string \<Rightarrow> string" where
  "field_value d k = (case map_of d k of None \<Rightarrow> ''<no value>'' | Some v \<Rightarrow> v)"

function render :: "(string \<times> string) list \<Rightarrow> string \<Rightarrow> string" where
  "render d [] = []"
| "render d (c # cs) =
     (if has_prefix (c # cs) ''{{.''
      then field_value d (takeWhile (\<lambda>c. c \<noteq> CHR ''}'') (drop 2 cs)) @
           render d (drop 2 (dropWhile (\<lambda>c. c \<noteq> CHR ''}'') (drop 2 cs)))
      else c # render d cs)"
  by pat_completeness auto

termination
proof (relation "measure (\<lambda>(d, s). length s)")
  fix d c and cs :: string
  have "length (dropWhile (\<lambda>c. c \<noteq> CHR ''}'') (drop 2 cs)) \<le> length (drop 2 cs)" by (rule length_dropWhile_le)
  then show "((d, drop 2 (dropWhile (\<lambda>c. c \<noteq> CHR ''}'') (drop 2 cs))), d, c # cs) \<in> measure (\<lambda>(d, s). length s)" by simp
qed auto

record shell =
  sh_options :: "string list"
  sh_tmpl :: string
  sh_data :: "(string \<times> string) list"

definition NewShell :: shell where
  "NewShell = \<lparr>sh_options = [], sh_tmpl = [], sh_data = []\<rparr>"

definition puts_data :: "(string \<times> string) list \<Rightarrow> (string \<times> string) list \<Rightarrow> (string \<times> string) list" where
  "puts_data kvs d = fold (\<lambda>(k, v). AList.update k v) kvs d"

definition AddOption :: "string \<Rightarrow> shell \<Rightarrow> shell" where
  "AddOption opt s = s\<lparr>sh_options := sh_options s @ [opt]\<rparr>"

definition ClearOption :: "shell \<Rightarrow> shell" where
  "ClearOption s = s\<lparr>sh_options := []\<rparr>"

definition sh_String :: "shell \<Rightarrow> string" where
  "sh_String s = render (AList.update ''options'' (join '' '' (sh_options s)) (sh_data s)) (sh_tmpl s)"

section \<open>Running a command\<close>

record exec_opts =
  xo_ExecWithSudo :: bool
  xo_ExecInLocal :: bool
  xo_ExecSudoAlias :: string
  xo_ExecTimeoutSec :: int
  xo_ExecWithEngine :: string

datatype cmd_err = CmdFailed | TimeoutError

record 'x sys =
  sys_auth :: "ssh_config \<Rightarrow> bool"
  sys_dial :: "ssh_config \<Rightarrow> 'x \<Rightarrow> 'x \<times> bool"
  sys_exec :: "ssh_config option \<Rightarrow> string \<Rightarrow> int \<Rightarrow> 'x \<Rightarrow> 'x \<times> string \<times> cmd_err option"
  sys_upload :: "ssh_config \<Rightarrow> string \<Rightarrow> string \<Rightarrow> 'x \<Rightarrow> 'x \<times> bool"
  sys_download :: "ssh_config \<Rightarrow> string \<Rightarrow> string \<Rightarrow> 'x \<Rightarrow> 'x \<times> bool"
  sys_rand :: "'x \<Rightarrow> 'x \<times> string"
  sys_read :: "string \<Rightarrow> 'x \<Rightarrow> string option"
  sys_write :: "string \<Rightarrow> string \<Rightarrow> int \<Rightarrow> 'x \<Rightarrow> 'x \<times> bool"
  sys_remove :: "string \<Rightarrow> 'x \<Rightarrow> 'x"
  sys_sleep :: "int \<Rightarrow> 'x \<Rightarrow> 'x"

text \<open>Connecting: the connection is tried again while there are tries left.\<close>

fun dial_tries :: "'x sys \<Rightarrow> ssh_config \<Rightarrow> nat \<Rightarrow> 'x \<Rightarrow> 'x \<times> bool" where
  "dial_tries sys config 0 x = sys_dial sys config x"
| "dial_tries sys config (Suc n) x =
     (case sys_dial sys config x of (x', True) \<Rightarrow> (x', True) | (x', False) \<Rightarrow> dial_tries sys config n x')"

definition NewSSHClient :: "'x sys \<Rightarrow> int \<Rightarrow> ssh_config \<Rightarrow> 'x \<Rightarrow> 'x \<times> bool" where
  "NewSSHClient sys maxRetries config x =
     (if \<not> sys_auth sys config then (x, False) else dial_tries sys config (nat (maxRetries - 1)) x)"

text \<open>The line that is run.\<close>

definition command_line :: "ssh_config option \<Rightarrow> string \<Rightarrow> exec_opts \<Rightarrow> string" where
  "command_line ssh command options =
     (let sudo = (if length (xo_ExecSudoAlias options) > 0 then xo_ExecSudoAlias options else ''sudo'');
          command = (if xo_ExecWithSudo options then join '' '' [sudo, command] else command);
          command = dropWhile (\<lambda>c. c = CHR '' '') command
      in case ssh of
           None \<Rightarrow> command
         | Some config \<Rightarrow>
             if length (ssh_BecomeUser config) > 0 \<and> \<not> xo_ExecInLocal options
             then join '' '' [join '' '' [ssh_BecomeMethod config, ssh_BecomeFlags config, ssh_BecomeUser config], command]
             else command)"

text \<open>A command over a connection that does not exist is a nil pointer.\<close>

definition execCommand ::
  "'x sys \<Rightarrow> ssh_config option \<Rightarrow> string \<Rightarrow> (string \<times> string) list \<Rightarrow> exec_opts \<Rightarrow> 'x \<Rightarrow> 'x \<times> (string \<times> cmd_err option) res" where
  "execCommand sys ssh tmpl data options x =
     (let line = command_line ssh (render data tmpl) options;
          timeout = (if xo_ExecTimeoutSec options > 0 then xo_ExecTimeoutSec options else 0)
      in if xo_ExecInLocal options then (let (x', r) = sys_exec sys None line timeout x in (x', Inr r))
         else case ssh of
           None \<Rightarrow> (x, Inl GoPanic)
         | Some config \<Rightarrow> (let (x', r) = sys_exec sys (Some config) line timeout x in (x', Inr r)))"

definition sh_Execute ::
  "'x sys \<Rightarrow> ssh_config option \<Rightarrow> exec_opts \<Rightarrow> shell \<Rightarrow> 'x \<Rightarrow> 'x \<times> (string \<times> cmd_err option) res" where
  "sh_Execute sys ssh options s =
     execCommand sys ssh (sh_tmpl s) (AList.update ''options'' (join '' '' (sh_options s)) (sh_data s)) options"

definition dk_Execute ::
  "'x sys \<Rightarrow> ssh_config option \<Rightarrow> exec_opts \<Rightarrow> shell \<Rightarrow> 'x \<Rightarrow> 'x \<times> (string \<times> cmd_err option) res" where
  "dk_Execute sys ssh options s =
     execCommand sys ssh (sh_tmpl s)
       (AList.update ''engine'' (xo_ExecWithEngine options) (AList.update ''options'' (join '' '' (sh_options s)) (sh_data s))) options"

text \<open>Copying files needs a connection.\<close>

definition file_Upload :: "'x sys \<Rightarrow> ssh_config option \<Rightarrow> string \<Rightarrow> string \<Rightarrow> 'x \<Rightarrow> 'x \<times> bool" where
  "file_Upload sys ssh localPath remotePath x =
     (case ssh of None \<Rightarrow> (x, False) | Some config \<Rightarrow> sys_upload sys config localPath remotePath x)"

definition file_Download :: "'x sys \<Rightarrow> ssh_config option \<Rightarrow> string \<Rightarrow> string \<Rightarrow> 'x \<Rightarrow> 'x \<times> bool" where
  "file_Download sys ssh remotePath localPath x =
     (case ssh of None \<Rightarrow> (x, False) | Some config \<Rightarrow> sys_download sys config remotePath localPath x)"

definition remoteAddr :: "ssh_config option \<Rightarrow> string" where
  "remoteAddr client =
     (case client of None \<Rightarrow> ''-'' | Some c \<Rightarrow> ssh_User c @ ''@'' @ ssh_Host c @ '':'' @ itoa (ssh_Port c))"

section \<open>The commands of the shell\<close>

definition TEMPLATE_SED :: string where
  "TEMPLATE_SED = ''sed {{.options}} {{.files}}''"

definition sh_Sed :: "string list \<Rightarrow> shell \<Rightarrow> shell" where
  "sh_Sed files s = s\<lparr>sh_tmpl := TEMPLATE_SED, sh_data := puts_data [(''files'', join '' '' files)] (sh_data s)\<rparr>"

definition TEMPLATE_LIST :: string where
  "TEMPLATE_LIST = ''ls {{.options}} {{.files}}''"

definition sh_List :: "string list \<Rightarrow> shell \<Rightarrow> shell" where
  "sh_List files s = s\<lparr>sh_tmpl := TEMPLATE_LIST, sh_data := puts_data [(''files'', join '' '' files)] (sh_data s)\<rparr>"

definition TEMPLATE_MKDIR :: string where
  "TEMPLATE_MKDIR = ''mkdir {{.options}} {{.directorys}}''"

definition sh_Mkdir :: "string list \<Rightarrow> shell \<Rightarrow> shell" where
  "sh_Mkdir directorys s = s\<lparr>sh_tmpl := TEMPLATE_MKDIR, sh_data := puts_data [(''directorys'', join '' '' directorys)] (sh_data s)\<rparr>"

definition TEMPLATE_RMDIR :: string where
  "TEMPLATE_RMDIR = ''rmdir {{.options}} {{.directorys}}''"

definition sh_Rmdir :: "string list \<Rightarrow> shell \<Rightarrow> shell" where
  "sh_Rmdir directorys s = s\<lparr>sh_tmpl := TEMPLATE_RMDIR, sh_data := puts_data [(''directorys'', join '' '' directorys)] (sh_data s)\<rparr>"

definition TEMPLATE_REMOVE :: string where
  "TEMPLATE_REMOVE = ''rm {{.options}} {{.files}}''"

definition sh_Remove :: "string list \<Rightarrow> shell \<Rightarrow> shell" where
  "sh_Remove files s = s\<lparr>sh_tmpl := TEMPLATE_REMOVE, sh_data := puts_data [(''files'', join '' '' files)] (sh_data s)\<rparr>"

definition TEMPLATE_RENAME :: string where
  "TEMPLATE_RENAME = ''mv {{.options}} {{.source}} {{.dest}}''"

definition sh_Rename :: "string \<Rightarrow> string \<Rightarrow> shell \<Rightarrow> shell" where
  "sh_Rename source dest s = s\<lparr>sh_tmpl := TEMPLATE_RENAME, sh_data := puts_data [(''source'', source), (''dest'', dest)] (sh_data s)\<rparr>"

definition TEMPLATE_COPY :: string where
  "TEMPLATE_COPY = ''cp {{.options}} {{.source}} {{.dest}}''"

definition sh_Copy :: "string \<Rightarrow> string \<Rightarrow> shell \<Rightarrow> shell" where
  "sh_Copy source dest s = s\<lparr>sh_tmpl := TEMPLATE_COPY, sh_data := puts_data [(''source'', source), (''dest'', dest)] (sh_data s)\<rparr>"

definition TEMPLATE_CHMOD :: string where
  "TEMPLATE_CHMOD = ''chmod {{.options}} {{.mode}} {{.file}}''"

definition sh_Chmod :: "string \<Rightarrow> string \<Rightarrow> shell \<Rightarrow> shell" where
  "sh_Chmod mode file s = s\<lparr>sh_tmpl := TEMPLATE_CHMOD, sh_data := puts_data [(''mode'', mode), (''file'', file)] (sh_data s)\<rparr>"

definition TEMPLATE_STAT :: string where
  "TEMPLATE_STAT = ''stat {{.options}} {{.files}}''"

definition sh_Stat :: "string list \<Rightarrow> shell \<Rightarrow> shell" where
  "sh_Stat files s = s\<lparr>sh_tmpl := TEMPLATE_STAT, sh_data := puts_data [(''files'', join '' '' files)] (sh_data s)\<rparr>"

definition TEMPLATE_CAT :: string where
  "TEMPLATE_CAT = ''cat {{.options}} {{.files}}''"

definition sh_Cat :: "string list \<Rightarrow> shell \<Rightarrow> shell" where
  "sh_Cat files s = s\<lparr>sh_tmpl := TEMPLATE_CAT, sh_data := puts_data [(''files'', join '' '' files)] (sh_data s)\<rparr>"

definition TEMPLATE_MKFS :: string where
  "TEMPLATE_MKFS = ''mkfs.ext4 {{.options}} {{.device}}''"

definition sh_Mkfs :: "string \<Rightarrow> shell \<Rightarrow> shell" where
  "sh_Mkfs device s = s\<lparr>sh_tmpl := TEMPLATE_MKFS, sh_data := puts_data [(''device'', device)] (sh_data s)\<rparr>"

definition TEMPLATE_MOUNT :: string where
  "TEMPLATE_MOUNT = ''mount {{.options}} {{.source}} {{.directory}}''"

definition sh_Mount :: "string \<Rightarrow> string \<Rightarrow> shell \<Rightarrow> shell" where
  "sh_Mount source directory s = s\<lparr>sh_tmpl := TEMPLATE_MOUNT, sh_data := puts_data [(''source'', source), (''directory'', directory)] (sh_data s)\<rparr>"

definition TEMPLATE_UMOUNT :: string where
  "TEMPLATE_UMOUNT = ''umount {{.options}} {{.directory}}''"

definition sh_Umount :: "string \<Rightarrow> shell \<Rightarrow> shell" where
  "sh_Umount directory s = s\<lparr>sh_tmpl := TEMPLATE_UMOUNT, sh_data := puts_data [(''directory'', directory)] (sh_data s)\<rparr>"

definition TEMPLATE_TUNE2FS :: string where
  "TEMPLATE_TUNE2FS = ''tune2fs {{.options}} {{.device}}''"

definition sh_Tune2FS :: "string \<Rightarrow> shell \<Rightarrow> shell" where
  "sh_Tune2FS device s = s\<lparr>sh_tmpl := TEMPLATE_TUNE2FS, sh_data := puts_data [(''device'', device)] (sh_data s)\<rparr>"

definition TEMPLATE_FUSER :: string where
  "TEMPLATE_FUSER = ''fuser {{.options}} {{.names}}''"

definition sh_Fuser :: "string list \<Rightarrow> shell \<Rightarrow> shell" where
  "sh_Fuser names s = s\<lparr>sh_tmpl := TEMPLATE_FUSER, sh_data := puts_data [(''names'', join '' '' names)] (sh_data s)\<rparr>"

definition TEMPLATE_DISKFREE :: string where
  "TEMPLATE_DISKFREE = ''df {{.options}} {{.files}}''"

definition sh_DiskFree :: "string list \<Rightarrow> shell \<Rightarrow> shell" where
  "sh_DiskFree files s = s\<lparr>sh_tmpl := TEMPLATE_DISKFREE, sh_data := puts_data [(''files'', join '' '' files)] (sh_data s)\<rparr>"

definition TEMPLATE_LSBLK :: string where
  "TEMPLATE_LSBLK = ''lsblk {{.options}} {{.devices}}''"

definition sh_LsBlk :: "string list \<Rightarrow> shell \<Rightarrow> shell" where
  "sh_LsBlk devices s = s\<lparr>sh_tmpl := TEMPLATE_LSBLK, sh_data := puts_data [(''devices'', join '' '' devices)] (sh_data s)\<rparr>"

definition TEMPLATE_BLKID :: string where
  "TEMPLATE_BLKID = ''blkid {{.options}} {{.device}}''"

definition sh_BlkId :: "string \<Rightarrow> shell \<Rightarrow> shell" where
  "sh_BlkId device s = s\<lparr>sh_tmpl := TEMPLATE_BLKID, sh_data := puts_data [(''device'', device)] (sh_data s)\<rparr>"

definition TEMPLATE_TEST :: string where
  "TEMPLATE_TEST = ''test {{.options}} {{.file}}''"

definition sh_Test :: "string \<Rightarrow> shell \<Rightarrow> shell" where
  "sh_Test file s = s\<lparr>sh_tmpl := TEMPLATE_TEST, sh_data := puts_data [(''file'', file)] (sh_data s)\<rparr>"

definition TEMPLATE_SS :: string where
  "TEMPLATE_SS = ''ss {{.options}} '' @ [CHR 0x27] @ ''{{.filter}}'' @ [CHR 0x27]"

definition sh_SocketStatistics :: "string \<Rightarrow> shell \<Rightarrow> shell" where
  "sh_SocketStatistics flt s = s\<lparr>sh_tmpl := TEMPLATE_SS, sh_data := puts_data [(''filter'', flt)] (sh_data s)\<rparr>"

definition TEMPLATE_NETSTAT :: string where
  "TEMPLATE_NETSTAT = ''netstat {{.options}} '' @ [CHR 0x27] @ ''{{.filter}}'' @ [CHR 0x27]"

definition sh_Netstat :: "string \<Rightarrow> shell \<Rightarrow> shell" where
  "sh_Netstat flt s = s\<lparr>sh_tmpl := TEMPLATE_NETSTAT, sh_data := puts_data [(''filter'', flt)] (sh_data s)\<rparr>"

definition TEMPLATE_PING :: string where
  "TEMPLATE_PING = ''ping {{.options}} {{.destination}}''"

definition sh_Ping :: "string \<Rightarrow> shell \<Rightarrow> shell" where
  "sh_Ping destination s = s\<lparr>sh_tmpl := TEMPLATE_PING, sh_data := puts_data [(''destination'', destination)] (sh_data s)\<rparr>"

definition TEMPLATE_CURL :: string where
  "TEMPLATE_CURL = ''curl {{.options}} {{.url}}''"

definition sh_Curl :: "string \<Rightarrow> shell \<Rightarrow> shell" where
  "sh_Curl url s = s\<lparr>sh_tmpl := TEMPLATE_CURL, sh_data := puts_data [(''url'', url)] (sh_data s)\<rparr>"

definition TEMPLATE_WHOAMI :: string where
  "TEMPLATE_WHOAMI = ''whoami''"

definition sh_Whoami :: "shell \<Rightarrow> shell" where
  "sh_Whoami s = s\<lparr>sh_tmpl := TEMPLATE_WHOAMI\<rparr>"

definition TEMPLATE_DATE :: string where
  "TEMPLATE_DATE = ''date {{.options}} {{.format}}''"

definition sh_Date :: "string \<Rightarrow> shell \<Rightarrow> shell" where
  "sh_Date format s = s\<lparr>sh_tmpl := TEMPLATE_DATE, sh_data := puts_data [(''format'', format)] (sh_data s)\<rparr>"

definition TEMPLATE_UNAME :: string where
  "TEMPLATE_UNAME = ''uname {{.options}}''"

definition sh_UnixName :: "shell \<Rightarrow> shell" where
  "sh_UnixName s = s\<lparr>sh_tmpl := TEMPLATE_UNAME\<rparr>"

definition TEMPLATE_MODPROBE :: string where
  "TEMPLATE_MODPROBE = ''modprobe {{.options}} {{.modulename}} {{.arguments}}''"

definition sh_ModProbe :: "string \<Rightarrow> string list \<Rightarrow> shell \<Rightarrow> shell" where
  "sh_ModProbe modulename arguments s = s\<lparr>sh_tmpl := TEMPLATE_MODPROBE, sh_data := puts_data [(''modulename'', modulename), (''arguments'', join '' '' arguments)] (sh_data s)\<rparr>"

definition TEMPLATE_MODINFO :: string where
  "TEMPLATE_MODINFO = ''modinfo {{.modulename}}''"

definition sh_ModInfo :: "string \<Rightarrow> shell \<Rightarrow> shell" where
  "sh_ModInfo modulename s = s\<lparr>sh_tmpl := TEMPLATE_MODINFO, sh_data := puts_data [(''modulename'', modulename)] (sh_data s)\<rparr>"

definition TEMPLATE_PGREP :: string where
  "TEMPLATE_PGREP = ''pgrep {{.options}} {{.pattern}}''"

definition sh_Pgrep :: "string \<Rightarrow> shell \<Rightarrow> shell" where
  "sh_Pgrep pattern s = s\<lparr>sh_tmpl := TEMPLATE_PGREP, sh_data := puts_data [(''pattern'', pattern)] (sh_data s)\<rparr>"

definition TEMPLATE_KILL :: string where
  "TEMPLATE_KILL = ''kill {{.options}} {{.pid}}''"

definition sh_Kill :: "int \<Rightarrow> shell \<Rightarrow> shell" where
  "sh_Kill pid s = s\<lparr>sh_tmpl := TEMPLATE_KILL, sh_data := puts_data [(''pid'', itoa pid)] (sh_data s)\<rparr>"

definition TEMPLATE_GREP :: string where
  "TEMPLATE_GREP = ''grep {{.options}} {{.pattern}} {{.files}}''"

definition sh_Grep :: "string \<Rightarrow> string list \<Rightarrow> shell \<Rightarrow> shell" where
  "sh_Grep pattern files s = s\<lparr>sh_tmpl := TEMPLATE_GREP, sh_data := puts_data [(''pattern'', pattern), (''files'', join '' '' files)] (sh_data s)\<rparr>"

definition TEMPLATE_TAR :: string where
  "TEMPLATE_TAR = ''tar {{.options}} {{.file}}''"

definition sh_Tar :: "string \<Rightarrow> shell \<Rightarrow> shell" where
  "sh_Tar file s = s\<lparr>sh_tmpl := TEMPLATE_TAR, sh_data := puts_data [(''file'', file)] (sh_data s)\<rparr>"

definition TEMPLATE_DPKG :: string where
  "TEMPLATE_DPKG = ''dpkg {{.options}}''"

definition sh_Dpkg :: "shell \<Rightarrow> shell" where
  "sh_Dpkg s = s\<lparr>sh_tmpl := TEMPLATE_DPKG\<rparr>"

definition TEMPLATE_RPM :: string where
  "TEMPLATE_RPM = ''rpm {{.options}}''"

definition sh_Rpm :: "shell \<Rightarrow> shell" where
  "sh_Rpm s = s\<lparr>sh_tmpl := TEMPLATE_RPM\<rparr>"

definition TEMPLATE_SCP :: string where
  "TEMPLATE_SCP = ''scp {{.options}} {{.source}} {{.user}}@'' @ ''{{.host}}:{{.target}}''"

definition sh_Scp :: "string \<Rightarrow> string \<Rightarrow> string \<Rightarrow> string \<Rightarrow> shell \<Rightarrow> shell" where
  "sh_Scp source user host target s = s\<lparr>sh_tmpl := TEMPLATE_SCP, sh_data := puts_data [(''source'', source), (''user'', user), (''host'', host), (''target'', target)] (sh_data s)\<rparr>"

definition TEMPLATE_COMMAND :: string where
  "TEMPLATE_COMMAND = ''{{.command}}''"

definition sh_Command :: "string \<Rightarrow> shell \<Rightarrow> shell" where
  "sh_Command command s = s\<lparr>sh_tmpl := TEMPLATE_COMMAND, sh_data := puts_data [(''command'', command)] (sh_data s)\<rparr>"

definition TEMPLATE_BASH_SCEIPT :: string where
  "TEMPLATE_BASH_SCEIPT = ''bash {{.scriptPath}} {{.arguments}}''"

definition sh_BashScript :: "string \<Rightarrow> string list \<Rightarrow> shell \<Rightarrow> shell" where
  "sh_BashScript scriptPath arguments s = s\<lparr>sh_tmpl := TEMPLATE_BASH_SCEIPT, sh_data := puts_data [(''scriptPath'', scriptPath), (''arguments'', join '' '' arguments)] (sh_data s)\<rparr>"

section \<open>The commands of the container engine\<close>

definition TEMPLATE_DOCKER_INFO :: string where
  "TEMPLATE_DOCKER_INFO = ''{{.engine}} info''"

definition dk_DockerInfo :: "shell \<Rightarrow> shell" where
  "dk_DockerInfo s = s\<lparr>sh_tmpl := TEMPLATE_DOCKER_INFO\<rparr>"

definition TEMPLATE_PULL_IMAGE :: string where
  "TEMPLATE_PULL_IMAGE = ''{{.engine}} pull {{.options}} {{.name}}''"

definition dk_PullImage :: "string \<Rightarrow> shell \<Rightarrow> shell" where
  "dk_PullImage name s = s\<lparr>sh_tmpl := TEMPLATE_PULL_IMAGE, sh_data := puts_data [(''name'', name)] (sh_data s)\<rparr>"

definition TEMPLATE_CREATE_CONTAINER :: string where
  "TEMPLATE_CREATE_CONTAINER = ''{{.engine}} create {{.options}} {{.image}} {{.command}}''"

definition dk_CreateContainer :: "string \<Rightarrow> string \<Rightarrow> shell \<Rightarrow> shell" where
  "dk_CreateContainer img command s = s\<lparr>sh_tmpl := TEMPLATE_CREATE_CONTAINER, sh_data := puts_data [(''image'', img), (''command'', command)] (sh_data s)\<rparr>"

definition TEMPLATE_START_CONTAINER :: string where
  "TEMPLATE_START_CONTAINER = ''{{.engine}} start {{.options}} {{.containers}}''"

definition dk_StartContainer :: "string list \<Rightarrow> shell \<Rightarrow> shell" where
  "dk_StartContainer containers s = s\<lparr>sh_tmpl := TEMPLATE_START_CONTAINER, sh_data := puts_data [(''containers'', join '' '' containers)] (sh_data s)\<rparr>"

definition TEMPLATE_STOP_CONTAINER :: string where
  "TEMPLATE_STOP_CONTAINER = ''{{.engine}} stop {{.options}} {{.containers}}''"

definition dk_StopContainer :: "string list \<Rightarrow> shell \<Rightarrow> shell" where
  "dk_StopContainer containers s = s\<lparr>sh_tmpl := TEMPLATE_STOP_CONTAINER, sh_data := puts_data [(''containers'', join '' '' containers)] (sh_data s)\<rparr>"

definition TEMPLATE_RESTART_CONTAINER :: string where
  "TEMPLATE_RESTART_CONTAINER = ''{{.engine}} restart {{.options}} {{.containers}}''"

definition dk_RestartContainer :: "string list \<Rightarrow> shell \<Rightarrow> shell" where
  "dk_RestartContainer containers s = s\<lparr>sh_tmpl := TEMPLATE_RESTART_CONTAINER, sh_data := puts_data [(''containers'', join '' '' containers)] (sh_data s)\<rparr>"

definition TEMPLATE_WAIT_CONTAINER :: string where
  "TEMPLATE_WAIT_CONTAINER = ''{{.engine}} wait {{.options}} {{.containers}}''"

definition dk_WaitContainer :: "string list \<Rightarrow> shell \<Rightarrow> shell" where
  "dk_WaitContainer containers s = s\<lparr>sh_tmpl := TEMPLATE_WAIT_CONTAINER, sh_data := puts_data [(''containers'', join '' '' containers)] (sh_data s)\<rparr>"

definition TEMPLATE_REMOVE_CONTAINER :: string where
  "TEMPLATE_REMOVE_CONTAINER = ''{{.engine}} rm {{.options}} {{.containers}}''"

definition dk_RemoveContainer :: "string list \<Rightarrow> shell \<Rightarrow> shell" where
  "dk_RemoveContainer containers s = s\<lparr>sh_tmpl := TEMPLATE_REMOVE_CONTAINER, sh_data := puts_data [(''containers'', join '' '' containers)] (sh_data s)\<rparr>"

definition TEMPLATE_LIST_CONTAINERS :: string where
  "TEMPLATE_LIST_CONTAINERS = ''{{.engine}} ps {{.options}}''"

definition dk_ListContainers :: "shell \<Rightarrow> shell" where
  "dk_ListContainers s = s\<lparr>sh_tmpl := TEMPLATE_LIST_CONTAINERS\<rparr>"

definition TEMPLATE_CONTAINER_EXEC :: string where
  "TEMPLATE_CONTAINER_EXEC = ''{{.engine}} exec {{.options}} {{.container}} {{.command}}''"

definition dk_ContainerExec :: "string \<Rightarrow> string \<Rightarrow> shell \<Rightarrow> shell" where
  "dk_ContainerExec container command s = s\<lparr>sh_tmpl := TEMPLATE_CONTAINER_EXEC, sh_data := puts_data [(''container'', container), (''command'', command)] (sh_data s)\<rparr>"

definition TEMPLATE_COPY_FROM_CONTAINER :: string where
  "TEMPLATE_COPY_FROM_CONTAINER = ''{{.engine}} cp {{.options}} {{.container}}:{{.srcPath}} {{.destPath}}''"

definition TEMPLATE_COPY_FROM_CONTAINER_EXCLUDE_PARENT_DIR :: string where
  "TEMPLATE_COPY_FROM_CONTAINER_EXCLUDE_PARENT_DIR = ''{{.engine}} cp {{.options}} {{.container}}:{{.srcPath}}/. {{.destPath}}''"

definition dk_CopyFromContainer :: "string \<Rightarrow> string \<Rightarrow> string \<Rightarrow> bool \<Rightarrow> shell \<Rightarrow> shell" where
  "dk_CopyFromContainer container srcPath destPath excludeParent s =
     s\<lparr>sh_tmpl := (if excludeParent then TEMPLATE_COPY_FROM_CONTAINER_EXCLUDE_PARENT_DIR else TEMPLATE_COPY_FROM_CONTAINER),
       sh_data := puts_data [(''container'', container), (''srcPath'', srcPath), (''destPath'', destPath)] (sh_data s)\<rparr>"

definition TEMPLATE_COPY_INTO_CONTAINER :: string where
  "TEMPLATE_COPY_INTO_CONTAINER = ''{{.engine}} cp {{.options}}  {{.srcPath}} {{.container}}:{{.destPath}}''"

definition dk_CopyIntoContainer :: "string \<Rightarrow> string \<Rightarrow> string \<Rightarrow> shell \<Rightarrow> shell" where
  "dk_CopyIntoContainer srcPath container destPath s = s\<lparr>sh_tmpl := TEMPLATE_COPY_INTO_CONTAINER, sh_data := puts_data [(''srcPath'', srcPath), (''container'', container), (''destPath'', destPath)] (sh_data s)\<rparr>"

definition TEMPLATE_INSPECT_CONTAINER :: string where
  "TEMPLATE_INSPECT_CONTAINER = ''{{.engine}} inspect {{.options}} {{.container}}''"

definition dk_InspectContainer :: "string \<Rightarrow> shell \<Rightarrow> shell" where
  "dk_InspectContainer container s = s\<lparr>sh_tmpl := TEMPLATE_INSPECT_CONTAINER, sh_data := puts_data [(''container'', container)] (sh_data s)\<rparr>"

definition TEMPLATE_CONTAINER_LOGS :: string where
  "TEMPLATE_CONTAINER_LOGS = ''{{.engine}} logs {{.options}} {{.container}}''"

definition dk_ContainerLogs :: "string \<Rightarrow> shell \<Rightarrow> shell" where
  "dk_ContainerLogs container s = s\<lparr>sh_tmpl := TEMPLATE_CONTAINER_LOGS, sh_data := puts_data [(''container'', container)] (sh_data s)\<rparr>"

end
