(* ===== verification/Steps.thy ===== *)
theory Steps
  imports Module Storage Playbook
begin

text \<open>
  The steps of a task, \<open>internal/task/step\<close>: commands of the container engine (\<open>container.go\<close>), of the shell
  (\<open>shell.go\<close>) and on files (\<open>file.go\<close>).

  The world of a step is the database, the variables that steps share through pointers, the parts of the memory
  storage that tasks write, and the external state.
  A pointer that is written is the name of a variable: \<open>w_str\<close> has the strings, \<open>w_bool\<close> the truth values; a nil
  pointer is \<open>None\<close>.  A pointer that is only read is the function that reads it.  A step gets the connection of its task.
\<close>

section \<open>The world\<close>

text \<open>What tasks leave in the memory storage: the states of services and of monitor services, and the times of hosts.\<close>

record service_status =
  ss_Id :: string
  ss_ParentId :: string
  ss_Role :: string
  ss_Host :: string
  ss_Instances :: string
  ss_ContainerId :: string
  ss_Ports :: string
  ss_IsLeader :: bool
  ss_Status :: string
  ss_LogDir :: string
  ss_DataDir :: string
  ss_RaftDir :: string
  ss_DocDir :: string
  ss_VectorDir :: string
  ss_Config :: deploy_config

record monitor_status =
  mst_Id :: string
  mst_Role :: string
  mst_Host :: string
  mst_HostSequence :: int
  mst_ContainerId :: string
  mst_Ports :: string
  mst_Status :: string
  mst_DataDir :: string
  mst_Config :: monitor_config

record 'x world =
  w_db :: db
  w_str :: "string \<Rightarrow> string"
  w_bool :: "string \<Rightarrow> bool"
  w_status :: "(string \<times> service_status) list"
  w_mstatus :: "(string \<times> monitor_status) list"
  w_dates :: "(string \<times> int) list"
  w_ext :: 'x

definition set_str :: "string \<Rightarrow> string \<Rightarrow> 'x world \<Rightarrow> 'x world" where
  "set_str p v w = w\<lparr>w_str := (w_str w)(p := v)\<rparr>"

definition set_bool :: "string \<Rightarrow> bool \<Rightarrow> 'x world \<Rightarrow> 'x world" where
  "set_bool p v w = w\<lparr>w_bool := (w_bool w)(p := v)\<rparr>"

definition on_ext :: "('x \<Rightarrow> 'x \<times> 'a) \<Rightarrow> 'x world \<Rightarrow> 'x world \<times> 'a" where
  "on_ext f w = (let (x, r) = f (w_ext w) in (w\<lparr>w_ext := x\<rparr>, r))"

definition trim_newlines :: "string \<Rightarrow> string" where
  "trim_newlines s = (case TrimSuffixRepeat s [CHR 0x0A] of None \<Rightarrow> [] | Some t \<Rightarrow> t)"

definition PostHandle ::
  "string option \<Rightarrow> string option \<Rightarrow> string \<Rightarrow> cmd_err option \<Rightarrow> errno option \<Rightarrow> 'x world \<Rightarrow> 'x world \<times> terr option" where
  "PostHandle succ outp out err ec w =
     (let w1 = (case outp of None \<Rightarrow> w | Some p \<Rightarrow> set_str p (trim_newlines out) w) in
      case succ of
        Some b \<Rightarrow> (set_bool b (err = None) w1, None)
      | None \<Rightarrow>
          (case err of
             None \<Rightarrow> (w1, None)
           | Some TimeoutError \<Rightarrow>
               (w1, Some (TErr (case ec of None \<Rightarrow> GoPanic | Some _ \<Rightarrow> Ec ERR_EXECUTE_COMMAND_TIMED_OUT)))
           | Some CmdFailed \<Rightarrow> (w1, Some (TErr (Ec (case ec of None \<Rightarrow> ERR_UNKNOWN | Some c \<Rightarrow> c))))))"

definition Lambda :: "('x world \<Rightarrow> 'x world \<times> terr option) \<Rightarrow> 'x world step" where
  "Lambda f = f"

text \<open>Running a command and handling its result: what the \<open>Execute\<close> methods end with.\<close>

definition handled ::
  "('x \<Rightarrow> 'x \<times> (string \<times> cmd_err option) res) \<Rightarrow> string option \<Rightarrow> string option \<Rightarrow> errno \<Rightarrow> 'x world step" where
  "handled f succ outp ec w =
     (case on_ext f w of
        (w1, Inl e) \<Rightarrow> (w1, Some (TErr e))
      | (w1, Inr (out, err)) \<Rightarrow> PostHandle succ outp out err (Some ec) w1)"

definition add_opt :: "bool \<Rightarrow> string \<Rightarrow> shell \<Rightarrow> shell" where
  "add_opt b opt s = (if b then AddOption opt s else s)"

definition add_opts :: "string \<Rightarrow> string list \<Rightarrow> shell \<Rightarrow> shell" where
  "add_opts pre vs s = fold (\<lambda>v. AddOption (pre @ v)) vs s"

definition add_val :: "string \<Rightarrow> string \<Rightarrow> shell \<Rightarrow> shell" where
  "add_val pre v s = (if length v > 0 then AddOption (pre @ v) s else s)"

section \<open>Steps of the container engine\<close>

record volume =
  vol_HostPath :: string
  vol_ContainerPath :: string

record create_container =
  cc_Image :: string
  cc_Command :: string
  cc_AddHost :: "string list"
  cc_Devices :: "string list"
  cc_Entrypoint :: string
  cc_Envs :: "string list"
  cc_Hostname :: string
  cc_Init :: bool
  cc_LinuxCapabilities :: "string list"
  cc_Mount :: string
  cc_Name :: string
  cc_Network :: string
  cc_User :: string
  cc_Pid :: string
  cc_Publish :: string
  cc_Privileged :: bool
  cc_Remove :: bool
  cc_Restart :: string
  cc_SecurityOptions :: "string list"
  cc_Ulimits :: "string list"
  cc_Volumes :: "volume list"

definition zero_create_container :: create_container where
  "zero_create_container =
     \<lparr>cc_Image = [], cc_Command = [], cc_AddHost = [], cc_Devices = [], cc_Entrypoint = [], cc_Envs = [], cc_Hostname = [],
      cc_Init = False, cc_LinuxCapabilities = [], cc_Mount = [], cc_Name = [], cc_Network = [], cc_User = [], cc_Pid = [],
      cc_Publish = [], cc_Privileged = False, cc_Remove = False, cc_Restart = [], cc_SecurityOptions = [], cc_Ulimits = [],
      cc_Volumes = []\<rparr>"

definition create_container_cli :: "create_container \<Rightarrow> shell" where
  "create_container_cli s =
     (let cli = dk_CreateContainer (cc_Image s) (cc_Command s) NewShell;
          cli = add_opts ''--add-host '' (cc_AddHost s) cli;
          cli = add_opts ''--device '' (cc_Devices s) cli;
          cli = add_val ''--entrypoint '' (cc_Entrypoint s) cli;
          cli = add_opts ''--env '' (cc_Envs s) cli;
          cli = add_val ''--hostname '' (cc_Hostname s) cli;
          cli = add_opt (cc_Init s) ''--init'' cli;
          cli = add_opts ''--cap-add '' (cc_LinuxCapabilities s) cli;
          cli = add_val ''--mount '' (cc_Mount s) cli;
          cli = add_val ''--name '' (cc_Name s) cli;
          cli = (if length (cc_Network s) > 0 then AddOption (''--network '' @ cc_Network s) cli else AddOption ''--network host'' cli);
          cli = add_val ''--pid '' (cc_Pid s) cli;
          cli = add_val ''--publish '' (cc_Publish s) cli;
          cli = add_val ''--user '' (cc_User s) cli;
          cli = add_opt (cc_Privileged s) ''--privileged'' cli;
          cli = add_opt (cc_Remove s) ''--rm'' cli;
          cli = add_val ''--restart '' (cc_Restart s) cli;
          cli = add_opts ''--security-opt '' (cc_SecurityOptions s) cli;
          cli = add_opts ''--ulimit '' (cc_Ulimits s) cli
      in add_opts ''--volume '' (map (\<lambda>v. vol_HostPath v @ '':'' @ vol_ContainerPath v) (cc_Volumes s)) cli)"

definition st_CreateContainer :: "'x sys \<Rightarrow> ssh_config option \<Rightarrow> exec_opts \<Rightarrow> create_container \<Rightarrow> string option \<Rightarrow> 'x world step" where
  "st_CreateContainer sys ssh xo s outp = handled (dk_Execute sys ssh xo (create_container_cli s)) None outp ERR_CREATE_CONTAINER_FAILED"

definition st_EngineInfo :: "'x sys \<Rightarrow> ssh_config option \<Rightarrow> exec_opts \<Rightarrow> string option \<Rightarrow> string option \<Rightarrow> 'x world step" where
  "st_EngineInfo sys ssh xo succ outp =
     handled (dk_Execute sys ssh xo (dk_DockerInfo NewShell)) succ outp ERR_GET_CONTAINER_ENGINE_INFO_FAILED"

definition st_PullImage :: "'x sys \<Rightarrow> ssh_config option \<Rightarrow> exec_opts \<Rightarrow> string \<Rightarrow> string option \<Rightarrow> 'x world step" where
  "st_PullImage sys ssh xo img outp =
     handled (dk_Execute sys ssh xo (dk_PullImage img NewShell)) None outp ERR_PULL_IMAGE_FAILED"

text \<open>\<open>StartContainer\<close> and \<open>ContainerExec\<close> read the id through a pointer; \<open>StopContainer\<close> does nothing when its \<open>Out\<close> is nil or empty.\<close>

definition st_StartContainer :: "'x sys \<Rightarrow> ssh_config option \<Rightarrow> exec_opts \<Rightarrow> ('x world \<Rightarrow> string) \<Rightarrow> string option \<Rightarrow> string option \<Rightarrow> 'x world step" where
  "st_StartContainer sys ssh xo idp succ outp w =
     handled (dk_Execute sys ssh xo (dk_StartContainer [idp w] NewShell)) succ outp ERR_START_CONTAINER_FAILED w"

definition st_StopContainer :: "'x sys \<Rightarrow> ssh_config option \<Rightarrow> exec_opts \<Rightarrow> string \<Rightarrow> int \<Rightarrow> string option \<Rightarrow> 'x world step" where
  "st_StopContainer sys ssh xo containerId time outp w =
     (case outp of
        None \<Rightarrow> (w, None)
      | Some p \<Rightarrow>
          if length (w_str w p) = 0 then (w, None)
          else handled (dk_Execute sys ssh xo (add_opt (time > 0) (''--time '' @ itoa time) (dk_StopContainer [containerId] NewShell)))
                 None outp ERR_STOP_CONTAINER_FAILED w)"

definition st_RestartContainer :: "'x sys \<Rightarrow> ssh_config option \<Rightarrow> exec_opts \<Rightarrow> string \<Rightarrow> string option \<Rightarrow> 'x world step" where
  "st_RestartContainer sys ssh xo containerId outp =
     handled (dk_Execute sys ssh xo (dk_RestartContainer [containerId] NewShell)) None outp ERR_RESTART_CONTAINER_FAILED"

definition st_WaitContainer :: "'x sys \<Rightarrow> ssh_config option \<Rightarrow> exec_opts \<Rightarrow> string \<Rightarrow> string option \<Rightarrow> 'x world step" where
  "st_WaitContainer sys ssh xo containerId outp =
     handled (dk_Execute sys ssh xo (dk_WaitContainer [containerId] NewShell)) None outp ERR_WAIT_CONTAINER_STOP_FAILED"

definition st_RemoveContainer :: "'x sys \<Rightarrow> ssh_config option \<Rightarrow> exec_opts \<Rightarrow> string \<Rightarrow> string option \<Rightarrow> string option \<Rightarrow> 'x world step" where
  "st_RemoveContainer sys ssh xo containerId succ outp =
     handled (dk_Execute sys ssh xo (dk_RemoveContainer [containerId] NewShell)) succ outp ERR_REMOVE_CONTAINER_FAILED"

definition st_ListContainers :: "'x sys \<Rightarrow> ssh_config option \<Rightarrow> exec_opts \<Rightarrow> string \<Rightarrow> string \<Rightarrow> bool \<Rightarrow> bool \<Rightarrow> string option \<Rightarrow> 'x world step" where
  "st_ListContainers sys ssh xo fmt flt quiet showAll outp =
     handled (dk_Execute sys ssh xo (add_opt showAll ''--all'' (add_opt quiet ''--quiet''
       (add_val ''--filter '' flt (add_val ''--format '' fmt (dk_ListContainers NewShell)))))) None outp ERR_LIST_CONTAINERS_FAILED"

definition st_ContainerExec ::
  "'x sys \<Rightarrow> ssh_config option \<Rightarrow> exec_opts \<Rightarrow> ('x world \<Rightarrow> string) \<Rightarrow> string \<Rightarrow> string option \<Rightarrow> string option \<Rightarrow> 'x world step" where
  "st_ContainerExec sys ssh xo idp command succ outp w =
     handled (dk_Execute sys ssh xo (dk_ContainerExec (idp w) command NewShell)) succ outp ERR_RUN_COMMAND_IN_CONTAINER_FAILED w"

definition st_CopyFromContainer :: "'x sys \<Rightarrow> ssh_config option \<Rightarrow> exec_opts \<Rightarrow> string \<Rightarrow> string \<Rightarrow> string \<Rightarrow> bool \<Rightarrow> string option \<Rightarrow> 'x world step" where
  "st_CopyFromContainer sys ssh xo containerId srcPath destPath excludeParent outp =
     handled (dk_Execute sys ssh xo (dk_CopyFromContainer containerId srcPath destPath excludeParent NewShell)) None outp ERR_COPY_FROM_CONTAINER_FAILED"

definition st_CopyIntoContainer :: "'x sys \<Rightarrow> ssh_config option \<Rightarrow> exec_opts \<Rightarrow> string \<Rightarrow> string \<Rightarrow> string \<Rightarrow> string option \<Rightarrow> 'x world step" where
  "st_CopyIntoContainer sys ssh xo srcPath containerId destPath outp =
     handled (dk_Execute sys ssh xo (dk_CopyIntoContainer srcPath containerId destPath NewShell)) None outp ERR_COPY_INTO_CONTAINER_FAILED"

definition st_InspectContainer :: "'x sys \<Rightarrow> ssh_config option \<Rightarrow> exec_opts \<Rightarrow> string \<Rightarrow> string \<Rightarrow> string option \<Rightarrow> string option \<Rightarrow> 'x world step" where
  "st_InspectContainer sys ssh xo containerId fmt succ outp =
     handled (dk_Execute sys ssh xo (add_val ''--format='' fmt (dk_InspectContainer containerId NewShell))) succ outp ERR_INSPECT_CONTAINER_FAILED"

definition st_ContainerLogs :: "'x sys \<Rightarrow> ssh_config option \<Rightarrow> exec_opts \<Rightarrow> string \<Rightarrow> string option \<Rightarrow> string option \<Rightarrow> 'x world step" where
  "st_ContainerLogs sys ssh xo containerId succ outp =
     handled (dk_Execute sys ssh xo (dk_ContainerLogs containerId NewShell)) succ outp ERR_GET_CONTAINER_LOGS_FAILED"

section \<open>Steps of the shell\<close>

definition st_Sed :: "'x sys \<Rightarrow> ssh_config option \<Rightarrow> exec_opts \<Rightarrow> string list \<Rightarrow> ('x world \<Rightarrow> string) \<Rightarrow> bool \<Rightarrow> string option \<Rightarrow> 'x world step" where
  "st_Sed sys ssh xo files expression inPlace outp w =
     (let e = expression w; cmd = add_opt inPlace ''--in-place'' (sh_Sed files NewShell) in
      handled (sh_Execute sys ssh xo (add_opt (length e > 0) (''--expression='' @ [CHR 0x27] @ e @ [CHR 0x27]) cmd))
        None outp ERR_EDIT_FILE_FAILED w)"

definition st_List :: "'x sys \<Rightarrow> ssh_config option \<Rightarrow> exec_opts \<Rightarrow> string list \<Rightarrow> string option \<Rightarrow> 'x world step" where
  "st_List sys ssh xo files outp =
     handled (sh_Execute sys ssh xo (sh_List files NewShell)) None outp ERR_EDIT_FILE_FAILED"

text \<open>Directories are made one by one, up to the first error; empty paths and \<open>-\<close> are left out.\<close>

fun st_CreateDirectory :: "'x sys \<Rightarrow> ssh_config option \<Rightarrow> exec_opts \<Rightarrow> string list \<Rightarrow> string option \<Rightarrow> string option \<Rightarrow> 'x world step" where
  "st_CreateDirectory sys ssh xo [] succ outp w = (w, None)"
| "st_CreateDirectory sys ssh xo (path # paths) succ outp w =
     (if length path = 0 \<or> path = ''-'' then st_CreateDirectory sys ssh xo paths succ outp w
      else
        (case handled (sh_Execute sys ssh xo (AddOption ''--parents'' (sh_Mkdir [path] NewShell))) succ outp ERR_CREATE_DIRECTORY_FAILED w of
           (w', Some e) \<Rightarrow> (w', Some e)
         | (w', None) \<Rightarrow> st_CreateDirectory sys ssh xo paths succ outp w'))"

definition str_contains :: "string \<Rightarrow> string \<Rightarrow> bool" where
  "str_contains s sub = list_ex (\<lambda>i. has_prefix (drop i s) sub) [0..<Suc (length s)]"

text \<open>A file that is busy is left, with no error, and the loop goes on.\<close>

fun st_RemoveFile :: "'x sys \<Rightarrow> ssh_config option \<Rightarrow> exec_opts \<Rightarrow> string list \<Rightarrow> string option \<Rightarrow> 'x world step" where
  "st_RemoveFile sys ssh xo [] outp w = (w, None)"
| "st_RemoveFile sys ssh xo (file # files) outp w =
     (if length file = 0 then st_RemoveFile sys ssh xo files outp w
      else
        (case on_ext (sh_Execute sys ssh xo (AddOption ''--recursive'' (AddOption ''--force'' (sh_Remove [file] NewShell)))) w of
           (w1, Inl e) \<Rightarrow> (w1, Some (TErr e))
         | (w1, Inr (out, err)) \<Rightarrow>
             (case PostHandle None outp out err (Some ERR_REMOVE_FILES_OR_DIRECTORIES_FAILED) w1 of
                (w2, Some e) \<Rightarrow>
                  if str_contains out ''Device or resource busy'' then st_RemoveFile sys ssh xo files outp w2 else (w2, Some e)
              | (w2, None) \<Rightarrow> st_RemoveFile sys ssh xo files outp w2)))"

definition st_CopyFile :: "'x sys \<Rightarrow> ssh_config option \<Rightarrow> exec_opts \<Rightarrow> string \<Rightarrow> string \<Rightarrow> bool \<Rightarrow> string option \<Rightarrow> 'x world step" where
  "st_CopyFile sys ssh xo source dest noClobber outp =
     handled (sh_Execute sys ssh xo (add_opt noClobber ''--no-clobber'' (sh_Copy source dest NewShell))) None outp ERR_COPY_FILES_AND_DIRECTORIES_FAILED"

definition st_Cat :: "'x sys \<Rightarrow> ssh_config option \<Rightarrow> exec_opts \<Rightarrow> string list \<Rightarrow> string option \<Rightarrow> string option \<Rightarrow> 'x world step" where
  "st_Cat sys ssh xo files succ outp =
     handled (sh_Execute sys ssh xo (sh_Cat files NewShell)) succ outp ERR_CONCATENATE_FILE_FAILED"

definition st_CreateFilesystem :: "'x sys \<Rightarrow> ssh_config option \<Rightarrow> exec_opts \<Rightarrow> string \<Rightarrow> string option \<Rightarrow> 'x world step" where
  "st_CreateFilesystem sys ssh xo device outp =
     handled (sh_Execute sys ssh xo (AddOption ''-F'' (sh_Mkfs device NewShell))) None outp ERR_BUILD_A_LINUX_FILE_SYSTEM_FAILED"

definition st_MountFilesystem :: "'x sys \<Rightarrow> ssh_config option \<Rightarrow> exec_opts \<Rightarrow> string \<Rightarrow> string \<Rightarrow> string option \<Rightarrow> 'x world step" where
  "st_MountFilesystem sys ssh xo source directory outp =
     handled (sh_Execute sys ssh xo (sh_Mount source directory NewShell)) None outp ERR_MOUNT_A_FILESYSTEM_FAILED"

fun st_UmountFilesystem ::
  "'x sys \<Rightarrow> ssh_config option \<Rightarrow> exec_opts \<Rightarrow> string list \<Rightarrow> bool \<Rightarrow> bool \<Rightarrow> string option \<Rightarrow> 'x world step" where
  "st_UmountFilesystem sys ssh xo [] ignoreUmounted ignoreNotFound outp w = (w, None)"
| "st_UmountFilesystem sys ssh xo (directory # directorys) ignoreUmounted ignoreNotFound outp w =
     (if length directory = 0 then st_UmountFilesystem sys ssh xo directorys ignoreUmounted ignoreNotFound outp w
      else
        (case on_ext (sh_Execute sys ssh xo (sh_Umount directory NewShell)) w of
           (w1, Inl e) \<Rightarrow> (w1, Some (TErr e))
         | (w1, Inr (out, err)) \<Rightarrow>
             (case PostHandle None outp out err (Some ERR_UNMOUNT_FILE_SYSTEMS_FAILED) w1 of
                (w2, e) \<Rightarrow>
                  if ignoreUmounted \<and> str_contains out ''not mounted'' \<or> ignoreNotFound \<and> str_contains out ''mountpoint not found'' \<or> e = None
                  then st_UmountFilesystem sys ssh xo directorys ignoreUmounted ignoreNotFound outp w2 else (w2, e))))"

definition st_Tune2FS :: "'x sys \<Rightarrow> ssh_config option \<Rightarrow> exec_opts \<Rightarrow> string \<Rightarrow> string \<Rightarrow> string option \<Rightarrow> string option \<Rightarrow> 'x world step" where
  "st_Tune2FS sys ssh xo device reserved succ outp =
     handled (sh_Execute sys ssh xo (add_val ''-m '' reserved (sh_Tune2FS device NewShell))) succ outp ERR_RESERVE_FILESYSTEM_BLOCKS_FAILED"

definition st_Fuser :: "'x sys \<Rightarrow> ssh_config option \<Rightarrow> exec_opts \<Rightarrow> string list \<Rightarrow> string option \<Rightarrow> 'x world step" where
  "st_Fuser sys ssh xo names outp =
     handled (sh_Execute sys ssh xo (sh_Fuser names NewShell)) None outp ERR_FIND_WHICH_PROCESS_USING_FILE_FAILED"

definition st_ShowDiskFree :: "'x sys \<Rightarrow> ssh_config option \<Rightarrow> exec_opts \<Rightarrow> string list \<Rightarrow> string \<Rightarrow> string option \<Rightarrow> 'x world step" where
  "st_ShowDiskFree sys ssh xo files fmt outp =
     handled (sh_Execute sys ssh xo (add_val ''--output='' fmt (sh_DiskFree files NewShell))) None outp ERR_GET_DISK_SPACE_USAGE_FAILED"

definition st_ListBlockDevice :: "'x sys \<Rightarrow> ssh_config option \<Rightarrow> exec_opts \<Rightarrow> string list \<Rightarrow> string \<Rightarrow> bool \<Rightarrow> string option \<Rightarrow> string option \<Rightarrow> 'x world step" where
  "st_ListBlockDevice sys ssh xo device fmt noHeadings succ outp =
     handled (sh_Execute sys ssh xo (add_opt noHeadings ''--noheadings'' (add_val ''--output='' fmt (sh_LsBlk device NewShell)))) succ outp ERR_LIST_BLOCK_DEVICES_FAILED"

definition st_BlockId :: "'x sys \<Rightarrow> ssh_config option \<Rightarrow> exec_opts \<Rightarrow> string \<Rightarrow> string \<Rightarrow> string \<Rightarrow> string option \<Rightarrow> string option \<Rightarrow> 'x world step" where
  "st_BlockId sys ssh xo device fmt matchTag succ outp =
     handled (sh_Execute sys ssh xo (add_val ''-s '' matchTag (add_val ''-o '' fmt (sh_BlkId device NewShell)))) succ outp ERR_GET_BLOCK_DEVICE_UUID_FAILED"

definition st_SocketStatistics :: "'x sys \<Rightarrow> ssh_config option \<Rightarrow> exec_opts \<Rightarrow> string \<Rightarrow> bool \<Rightarrow> bool \<Rightarrow> string option \<Rightarrow> string option \<Rightarrow> 'x world step" where
  "st_SocketStatistics sys ssh xo flt listening noHeader succ outp =
     handled (sh_Execute sys ssh xo (add_opt noHeader ''--no-header'' (add_opt listening ''--listening'' (sh_SocketStatistics flt NewShell)))) succ outp ERR_GET_CONNECTION_INFORMATION_FAILED"

definition st_Ping :: "'x sys \<Rightarrow> ssh_config option \<Rightarrow> exec_opts \<Rightarrow> ('x world \<Rightarrow> string) \<Rightarrow> int \<Rightarrow> int \<Rightarrow> string option \<Rightarrow> string option \<Rightarrow> 'x world step" where
  "st_Ping sys ssh xo destination cnt timeout succ outp w =
     handled (sh_Execute sys ssh xo (add_opt (timeout > 0) (''-W '' @ itoa timeout)
       (add_opt (cnt > 0) (''-c '' @ itoa cnt) (sh_Ping (destination w) NewShell)))) succ outp
       ERR_SEND_ICMP_ECHO_REQUEST_TO_HOST_FAILED w"

definition st_Curl :: "'x sys \<Rightarrow> ssh_config option \<Rightarrow> exec_opts \<Rightarrow> string \<Rightarrow> string \<Rightarrow> bool \<Rightarrow> string \<Rightarrow> bool \<Rightarrow> string option \<Rightarrow> string option \<Rightarrow> 'x world step" where
  "st_Curl sys ssh xo url form insecure output silent succ outp =
     handled (sh_Execute sys ssh xo (add_opt silent ''--silent'' (add_val ''--output '' output
       (add_opt insecure ''--insecure'' (add_val ''--form '' form (sh_Curl url NewShell)))))) succ outp ERR_TRANSFERRING_DATA_FROM_OR_TO_SERVER_FAILED"

definition st_Whoami :: "'x sys \<Rightarrow> ssh_config option \<Rightarrow> exec_opts \<Rightarrow> string option \<Rightarrow> string option \<Rightarrow> 'x world step" where
  "st_Whoami sys ssh xo succ outp =
     handled (sh_Execute sys ssh xo (sh_Whoami NewShell)) succ outp ERR_GET_SYSTEM_TIME_FAILED"

definition st_Date :: "'x sys \<Rightarrow> ssh_config option \<Rightarrow> exec_opts \<Rightarrow> string \<Rightarrow> string option \<Rightarrow> 'x world step" where
  "st_Date sys ssh xo fmt outp =
     handled (sh_Execute sys ssh xo (sh_Date fmt NewShell)) None outp ERR_GET_SYSTEM_TIME_FAILED"

definition st_UnixName :: "'x sys \<Rightarrow> ssh_config option \<Rightarrow> exec_opts \<Rightarrow> bool \<Rightarrow> string option \<Rightarrow> 'x world step" where
  "st_UnixName sys ssh xo kernelRelease outp =
     handled (sh_Execute sys ssh xo (add_opt kernelRelease ''--kernel-release'' (sh_UnixName NewShell))) None outp ERR_GET_SYSTEM_INFORMATION_FAILED"

definition st_ModInfo :: "'x sys \<Rightarrow> ssh_config option \<Rightarrow> exec_opts \<Rightarrow> string \<Rightarrow> string option \<Rightarrow> string option \<Rightarrow> 'x world step" where
  "st_ModInfo sys ssh xo name succ outp =
     handled (sh_Execute sys ssh xo (sh_ModInfo name NewShell)) succ outp ERR_GET_KERNEL_MODULE_INFO_FAILED"

definition st_ModProbe :: "'x sys \<Rightarrow> ssh_config option \<Rightarrow> exec_opts \<Rightarrow> string \<Rightarrow> string list \<Rightarrow> string option \<Rightarrow> string option \<Rightarrow> 'x world step" where
  "st_ModProbe sys ssh xo name args succ outp =
     handled (sh_Execute sys ssh xo (sh_ModProbe name args NewShell)) succ outp ERR_ADD_MODUDLE_FROM_LINUX_KERNEL_FAILED"

definition st_Hostname :: "'x sys \<Rightarrow> ssh_config option \<Rightarrow> exec_opts \<Rightarrow> string option \<Rightarrow> string option \<Rightarrow> 'x world step" where
  "st_Hostname sys ssh xo succ outp =
     handled (sh_Execute sys ssh xo (sh_Command ''hostname'' NewShell)) succ outp ERR_GET_HOSTNAME_FAILED"

definition st_Tar :: "'x sys \<Rightarrow> ssh_config option \<Rightarrow> exec_opts \<Rightarrow> string \<Rightarrow> string \<Rightarrow> bool \<Rightarrow> string \<Rightarrow> bool \<Rightarrow> int \<Rightarrow> bool \<Rightarrow> bool \<Rightarrow> bool \<Rightarrow> string option \<Rightarrow> string option \<Rightarrow> 'x world step" where
  "st_Tar sys ssh xo file archive create directory extract stripComponents ungzip gzip verbose succ outp =
     handled (sh_Execute sys ssh xo (add_opt verbose ''--verbose'' (add_opt gzip ''--gzip'' (add_opt ungzip ''--ungzip''
       (add_opt (stripComponents > 0) (''--strip-components='' @ itoa stripComponents) (add_opt extract ''--extract''
       (add_val ''--directory='' directory (add_opt create ''--create'' (add_val ''--file='' archive (sh_Tar file NewShell)))))))))) succ outp ERR_STORES_AND_EXTRACTS_FILES_FAILED"

definition st_Dpkg :: "'x sys \<Rightarrow> ssh_config option \<Rightarrow> exec_opts \<Rightarrow> string \<Rightarrow> string \<Rightarrow> string option \<Rightarrow> string option \<Rightarrow> 'x world step" where
  "st_Dpkg sys ssh xo install purge succ outp =
     handled (sh_Execute sys ssh xo (add_val ''--purge '' purge (add_val ''--install '' install (sh_Dpkg NewShell)))) succ outp ERR_INSTALL_OR_REMOVE_DEBIAN_PACKAGE_FAILED"

definition st_Rpm :: "'x sys \<Rightarrow> ssh_config option \<Rightarrow> exec_opts \<Rightarrow> bool \<Rightarrow> string \<Rightarrow> bool \<Rightarrow> bool \<Rightarrow> string option \<Rightarrow> string option \<Rightarrow> 'x world step" where
  "st_Rpm sys ssh xo hash install noDeps verbose succ outp =
     handled (sh_Execute sys ssh xo (add_opt verbose ''--verbose'' (add_opt noDeps ''--nodeps'' (add_val ''--install '' install
       (add_opt hash ''--hash'' (sh_Rpm NewShell)))))) succ outp ERR_INSTALL_OR_REMOVE_RPM_PACKAGE_FAILED"

definition st_Command :: "'x sys \<Rightarrow> ssh_config option \<Rightarrow> exec_opts \<Rightarrow> string \<Rightarrow> string option \<Rightarrow> string option \<Rightarrow> 'x world step" where
  "st_Command sys ssh xo command succ outp =
     handled (sh_Execute sys ssh xo (sh_Command command NewShell)) succ outp ERR_RUN_A_BASH_COMMAND_FAILED"

text \<open>A file is written locally and copied with \<open>scp\<close>, which runs in the local shell.  The file's mode is \<open>0644\<close> or the one given.\<close>

definition rand_filename :: "'x sys \<Rightarrow> 'x world \<Rightarrow> 'x world \<times> string" where
  "rand_filename sys w = (let (w', r) = on_ext (sys_rand sys) w in (w', ''/tmp/'' @ r))"

definition remove_local :: "'x sys \<Rightarrow> string \<Rightarrow> 'x world \<Rightarrow> 'x world" where
  "remove_local sys path w = w\<lparr>w_ext := sys_remove sys path (w_ext w)\<rparr>"

definition st_Scp :: "'x sys \<Rightarrow> ssh_config option \<Rightarrow> exec_opts \<Rightarrow> ('x world \<Rightarrow> string) \<Rightarrow> int \<Rightarrow> string \<Rightarrow> 'x world step" where
  "st_Scp sys ssh xo content mode remotePath w =
     (let (w, localPath) = rand_filename sys w;
          (w, ok) = on_ext (sys_write sys localPath (content w) (if mode > 0 then mode else 420)) w
      in if \<not> ok then (remove_local sys localPath w, Some (TErr (Ec ERR_WRITE_FILE_FAILED)))
         else case ssh of
           None \<Rightarrow> (remove_local sys localPath w, Some (TErr GoPanic))
         | Some config \<Rightarrow>
             (let cmd = AddOption (''-P '' @ itoa (ssh_Port config)) (sh_Scp localPath (ssh_User config) (ssh_Host config) remotePath NewShell);
                  cmd = add_opt (\<not> ssh_ForwardAgent config) (''-i '' @ ssh_PrivateKeyPath config) cmd;
                  (w, err) = handled (sh_Execute sys ssh (xo\<lparr>xo_ExecWithSudo := False, xo_ExecInLocal := True\<rparr>) cmd)
                    None None ERR_SECURE_COPY_FILE_TO_REMOTE_FAILED w
              in (remove_local sys localPath w, err)))"

section \<open>Steps on files\<close>

text \<open>Commands whose output is not used: the given error when they fail.\<close>

definition plain_cmd :: "('x \<Rightarrow> 'x \<times> (string \<times> cmd_err option) res) \<Rightarrow> errno \<Rightarrow> 'x world step" where
  "plain_cmd f ec w =
     (case on_ext f w of
        (w', Inl e) \<Rightarrow> (w', Some (TErr e))
      | (w', Inr (_, None)) \<Rightarrow> (w', None)
      | (w', Inr (_, Some _)) \<Rightarrow> (w', Some (TErr (Ec ec))))"

text \<open>The content of a file of the host or of a container; the local copy is removed in every case.\<close>

definition read_content ::
  "'x sys \<Rightarrow> ssh_config option \<Rightarrow> exec_opts \<Rightarrow> string \<Rightarrow> string \<Rightarrow> string \<Rightarrow> 'x world \<Rightarrow> 'x world \<times> string option \<times> terr option" where
  "read_content sys ssh xo hostSrcPath containerId containerSrcPath w =
     (let (w1, remotePath, err1) =
            (if length hostSrcPath > 0 then (w, hostSrcPath, None)
             else let (w, p) = rand_filename sys w;
                      (w, err) = plain_cmd (dk_Execute sys ssh xo (dk_CopyFromContainer containerId containerSrcPath p False NewShell))
                        ERR_COPY_FROM_CONTAINER_FAILED w
                  in (w, p, err))
      in case err1 of
           Some e \<Rightarrow> (w1, None, Some e)
         | None \<Rightarrow>
             (let (w2, localPath) = rand_filename sys w1;
                  (w3, err3) =
                    (if \<not> xo_ExecInLocal xo then
                       (let (w, ok) = on_ext (file_Download sys ssh remotePath localPath) w2
                        in (w, if ok then None else Some (TErr (Ec ERR_DOWNLOAD_FILE_FROM_REMOTE_BY_SSH_FAILED))))
                     else plain_cmd (sh_Execute sys ssh xo (sh_Rename remotePath localPath NewShell)) ERR_RENAME_FILE_OR_DIRECTORY_FAILED w2)
              in case err3 of
                   Some e \<Rightarrow> (remove_local sys localPath w3, None, Some e)
                 | None \<Rightarrow>
                     (case sys_read sys localPath (w_ext w3) of
                        None \<Rightarrow> (remove_local sys localPath w3, Some [], Some (TErr (Ec ERR_READ_FILE_FAILED)))
                      | Some data \<Rightarrow> (remove_local sys localPath w3, Some data, None))))"

definition st_ReadFile ::
  "'x sys \<Rightarrow> ssh_config option \<Rightarrow> exec_opts \<Rightarrow> string \<Rightarrow> string \<Rightarrow> string \<Rightarrow> string \<Rightarrow> 'x world step" where
  "st_ReadFile sys ssh xo hostSrcPath containerId containerSrcPath content w =
     (case read_content sys ssh xo hostSrcPath containerId containerSrcPath w of
        (w', None, err) \<Rightarrow> (w', err)
      | (w', Some data, err) \<Rightarrow> (set_str content data w', err))"

definition install_content ::
  "'x sys \<Rightarrow> ssh_config option \<Rightarrow> exec_opts \<Rightarrow> string \<Rightarrow> string \<Rightarrow> string \<Rightarrow> string \<Rightarrow> 'x world step" where
  "install_content sys ssh xo data hostDestPath containerId containerDestPath w =
     (let (w0, localPath) = rand_filename sys w;
          (w1, ok) = on_ext (sys_write sys localPath data 420) w0
      in if \<not> ok then (remove_local sys localPath w1, Some (TErr (Ec ERR_WRITE_FILE_FAILED)))
         else
           (let (w2, remotePath) = rand_filename sys w1;
                (w3, err3) =
                  (if \<not> xo_ExecInLocal xo then
                     (let (w, ok) = on_ext (file_Upload sys ssh localPath remotePath) w2
                      in (w, if ok then None else Some (TErr (Ec ERR_UPLOAD_FILE_TO_REMOTE_BY_SSH_FAILED))))
                   else plain_cmd (sh_Execute sys ssh
                          \<lparr>xo_ExecWithSudo = False, xo_ExecInLocal = xo_ExecInLocal xo, xo_ExecSudoAlias = xo_ExecSudoAlias xo,
                           xo_ExecTimeoutSec = 0, xo_ExecWithEngine = []\<rparr> (sh_Rename localPath remotePath NewShell))
                          ERR_RENAME_FILE_OR_DIRECTORY_FAILED w2)
            in case err3 of
                 Some e \<Rightarrow> (remove_local sys localPath w3, Some e)
               | None \<Rightarrow>
                   (let (w4, err4) =
                          (if length hostDestPath > 0
                           then plain_cmd (sh_Execute sys ssh xo (sh_Rename remotePath hostDestPath NewShell)) ERR_RENAME_FILE_OR_DIRECTORY_FAILED w3
                           else plain_cmd (dk_Execute sys ssh xo (dk_CopyIntoContainer remotePath containerId containerDestPath NewShell))
                                  ERR_COPY_INTO_CONTAINER_FAILED w3)
                    in (remove_local sys localPath w4, err4))))"

definition st_InstallFile ::
  "'x sys \<Rightarrow> ssh_config option \<Rightarrow> exec_opts \<Rightarrow> ('x world \<Rightarrow> string) \<Rightarrow> string \<Rightarrow> ('x world \<Rightarrow> string) \<Rightarrow> string \<Rightarrow> 'x world step" where
  "st_InstallFile sys ssh xo content hostDestPath idp containerDestPath w =
     install_content sys ssh xo (content w) hostDestPath (idp w) containerDestPath w"

text \<open>
  The key and the value of a line.  For the separator \<open>: \<close> the key keeps the blanks before it and the value ends at
  \<open>#\<close>; for any other, the value also ends at a blank.
\<close>

definition re_space :: "char \<Rightarrow> bool" where
  "re_space c \<longleftrightarrow> c \<in> {CHR 0x09, CHR 0x0A, CHR 0x0C, CHR 0x0D, CHR 0x20}"

definition kv_key :: "string \<Rightarrow> string \<Rightarrow> string" where
  "kv_key sep line =
     (if sep = '': ''
      then let ws = takeWhile re_space line; run = takeWhile (\<lambda>c. c \<notin> set sep) (dropWhile re_space line) in
           if run \<noteq> [] \<or> ws \<noteq> [] \<and> last ws \<noteq> CHR '' '' then ws @ run else []
      else takeWhile (\<lambda>c. c \<notin> set sep) line)"

definition kvSplit :: "string \<Rightarrow> string \<Rightarrow> string \<times> string" where
  "kvSplit sep line =
     (let key = kv_key sep line; rest = drop (length key) line in
      if key = [] \<or> \<not> has_prefix rest sep then ([], [])
      else let v = dropWhile re_space (drop (length sep) rest) in
           (key, takeWhile (\<lambda>c. c \<noteq> CHR ''#'' \<and> (sep = '': '' \<or> \<not> re_space c)) v))"

text \<open>\<open>bufio.Scanner\<close>: lines without their line end; it stops before a line of 64 KiB or more.\<close>

definition drop_cr :: "string \<Rightarrow> string" where
  "drop_cr l = (if l \<noteq> [] \<and> last l = CHR 0x0D then butlast l else l)"

definition scan_lines :: "string \<Rightarrow> string list" where
  "scan_lines s =
     (let ls = split_on (CHR 0x0A) s; ls = (if last ls = [] then butlast ls else ls) in
      map drop_cr (takeWhile (\<lambda>l. length l < 65536) ls))"

text \<open>The lines as the mutation gives them, then the \<open>mds_\<close> keys of the service that no line has; \<open>config\<close> is in the order of iteration.\<close>

definition filter_content ::
  "string \<Rightarrow> (string \<Rightarrow> string \<Rightarrow> string \<Rightarrow> string res) \<Rightarrow> (string \<times> string) list \<Rightarrow> string \<Rightarrow> string res" where
  "filter_content sep mutate config input =
     (let lines = scan_lines input; kv = (\<lambda>l. if length sep > 0 then kvSplit sep l else ([], [])) in
      bindR (mapR (\<lambda>l. mutate l (fst (kv l)) (snd (kv l))) lines) (\<lambda>output.
      let origin = map (\<lambda>l. fst (kv l)) lines;
          extra = filter (\<lambda>(k, v). has_prefix k ''mds_'' \<and> \<not> Contains origin (''--'' @ k)) config
      in Inr (join [CHR 0x0A] (output @
           (if length extra > 0
            then ''# dynamic config from topology'' # map (\<lambda>(k, v). ''--'' @ k @ sep @ v) (filter (\<lambda>(k, v). length v > 0) extra)
            else [])))))"

definition st_Filter ::
  "string \<Rightarrow> (string \<Rightarrow> string \<Rightarrow> string \<Rightarrow> string res) \<Rightarrow> (string \<times> string) list \<Rightarrow> string \<Rightarrow> string \<Rightarrow> 'x world step" where
  "st_Filter sep mutate config input output w =
     (case filter_content sep mutate config (w_str w input) of
        Inl e \<Rightarrow> (w, Some (TErr e))
      | Inr out \<Rightarrow> (set_str output out w, None))"

text \<open>Read, filter, install; the intermediate texts are local to the step.\<close>

definition st_SyncFile ::
  "'x sys \<Rightarrow> ssh_config option \<Rightarrow> exec_opts \<Rightarrow> ('x world \<Rightarrow> string) \<Rightarrow> string \<Rightarrow> ('x world \<Rightarrow> string) \<Rightarrow> string \<Rightarrow> string \<Rightarrow>
   (string \<Rightarrow> string \<Rightarrow> string \<Rightarrow> string res) \<Rightarrow> (string \<times> string) list \<Rightarrow> 'x world step" where
  "st_SyncFile sys ssh xo srcIdp srcPath destIdp destPath sep mutate config w =
     (case read_content sys ssh xo [] (srcIdp w) srcPath w of
        (w1, _, Some e) \<Rightarrow> (w1, Some e)
      | (w1, content, None) \<Rightarrow>
          (case filter_content sep mutate config (case content of None \<Rightarrow> [] | Some c \<Rightarrow> c) of
             Inl e \<Rightarrow> (w1, Some (TErr e))
           | Inr out \<Rightarrow> install_content sys ssh xo out [] (destIdp w1) destPath w1))"

definition st_TrySyncFile ::
  "'x sys \<Rightarrow> ssh_config option \<Rightarrow> exec_opts \<Rightarrow> ('x world \<Rightarrow> string) \<Rightarrow> string \<Rightarrow> ('x world \<Rightarrow> string) \<Rightarrow> string \<Rightarrow> string \<Rightarrow>
   (string \<Rightarrow> string \<Rightarrow> string \<Rightarrow> string res) \<Rightarrow> 'x world step" where
  "st_TrySyncFile sys ssh xo srcIdp srcPath destIdp destPath sep mutate w =
     (case read_content sys ssh xo [] (srcIdp w) srcPath w of
        (w1, _, Some e) \<Rightarrow> if e = TErr GoPanic then (w1, Some e) else (w1, None)
      | (w1, _, None) \<Rightarrow> st_SyncFile sys ssh xo srcIdp srcPath destIdp destPath sep mutate [] w1)"

definition st_SyncFileDirectly ::
  "'x sys \<Rightarrow> ssh_config option \<Rightarrow> exec_opts \<Rightarrow> ('x world \<Rightarrow> string) \<Rightarrow> string \<Rightarrow> ('x world \<Rightarrow> string) \<Rightarrow> string \<Rightarrow> bool \<Rightarrow> 'x world step" where
  "st_SyncFileDirectly sys ssh xo srcIdp srcPath destIdp destPath isDir w =
     (let (w0, hostPath) = rand_filename sys w;
          destId = destIdp w;
          (w1, err1) = st_CopyFromContainer sys ssh xo (srcIdp w) srcPath hostPath False None w0;
          (w2, err2) =
            (case err1 of
               Some e \<Rightarrow> (w1, Some e)
             | None \<Rightarrow> st_CopyIntoContainer sys ssh xo (if isDir then hostPath @ ''/.'' else hostPath) destId destPath None w1)
      in (remove_local sys hostPath w2, err2))"

definition st_DownloadFile :: "'x sys \<Rightarrow> ssh_config option \<Rightarrow> string \<Rightarrow> string \<Rightarrow> 'x world step" where
  "st_DownloadFile sys ssh remotePath localPath w =
     (let (w', ok) = on_ext (file_Download sys ssh remotePath localPath) w
      in (w', if ok then None else Some (TErr (RawErr ''download''))))"

text \<open>The last command's result is not looked at.\<close>

definition st_CreateAndUploadDir ::
  "'x sys \<Rightarrow> ssh_config option \<Rightarrow> exec_opts \<Rightarrow> string \<Rightarrow> ('x world \<Rightarrow> string) \<Rightarrow> string \<Rightarrow> 'x world step" where
  "st_CreateAndUploadDir sys ssh xo hostDirName destIdp destPath w =
     (let (w0, randPath) = rand_filename sys w;
          hostPath = path_join [randPath, hostDirName];
          (w1, err1) = plain_cmd (sh_Execute sys ssh xo (sh_Mkdir [randPath, hostPath] NewShell)) ERR_RENAME_FILE_OR_DIRECTORY_FAILED w0
      in case err1 of
           Some e \<Rightarrow> (w1, Some e)
         | None \<Rightarrow>
             (let (w2, err2) = st_CopyIntoContainer sys ssh xo hostPath (destIdp w1) destPath None w1 in
              if err2 = Some (TErr GoPanic) then (w2, err2)
              else let (w3, r) = on_ext (sh_Execute sys ssh xo (sh_Rmdir [hostPath, randPath] NewShell)) w2 in (w3, err2)))"

fun copy_files_from_container ::
  "'x sys \<Rightarrow> ssh_config option \<Rightarrow> exec_opts \<Rightarrow> string list \<Rightarrow> string \<Rightarrow> string \<Rightarrow> bool \<Rightarrow> 'x world step" where
  "copy_files_from_container sys ssh xo [] containerId destDir excludeParent w = (w, None)"
| "copy_files_from_container sys ssh xo (file # files) containerId destDir excludeParent w =
     (case st_CopyFromContainer sys ssh xo containerId file destDir excludeParent None w of
        (w', Some e) \<Rightarrow> (w', Some e)
      | (w', None) \<Rightarrow> copy_files_from_container sys ssh xo files containerId destDir excludeParent w')"

end
