(* ===== verification/Service_Tasks.thy ===== *)
theory Service_Tasks
  imports Steps Cluster_Ops Cluster_Admin
begin

text \<open>
  The tasks on the services of a cluster, \<open>internal/task/task/common\<close>: what the steps of a playbook do on a host.
  A task's constructor reads the database and the session; the task's steps run commands on the service's host and
  keep the container ids in the database.

  The variables that the steps of a task share have names that begin with the argument \<open>p\<close>, which stands for the
  place where the constructor allocates them.  The order in which Go iterates over a map is the field \<open>te_order\<close>.
\<close>

section \<open>What the constructors use\<close>

record 'x task_env =
  te_sys :: "'x sys"
  te_cli :: cli_env
  te_opts :: exec_opts
  te_retries :: int
  te_tempdir :: string
  te_scripts :: "string \<Rightarrow> string"
  te_order :: "string list \<Rightarrow> string list"

type_synonym 'x new_service_task = "'x task_env \<Rightarrow> dingocli \<Rightarrow> omap \<Rightarrow> string \<Rightarrow> string \<Rightarrow> deploy_config \<Rightarrow> db \<Rightarrow> db \<times> 'x world task option res"

definition resS :: "'a res \<Rightarrow> db \<Rightarrow> db \<times> 'a res" where
  "resS r d = (d, r)"

definition host_ssh :: "'x task_env \<Rightarrow> dingocli \<Rightarrow> string \<Rightarrow> ssh_config res" where
  "host_ssh te cl host =
     bindR (cli_GetHost (te_cli te) cl host) (\<lambda>hc. hc_GetSSHConfig (env_host (te_cli te)) hc)"

text \<open>The service's container, or none when the service is to be skipped.\<close>

definition service_container :: "'x task_env \<Rightarrow> dingocli \<Rightarrow> deploy_config \<Rightarrow> db \<Rightarrow> db \<times> string option res" where
  "service_container te cl dc d =
     (let (d1, r) = cli_GetContainerId (GetServiceId (te_cli te) cl (dc_id dc)) d;
          (d2, skip) = IsSkip (te_cli te) cl dc d1
      in (d2, if skip then Inr None else bindR r (\<lambda>c. Inr (Some c))))"

definition skip_mds_cli :: "omap \<Rightarrow> deploy_config \<Rightarrow> bool res" where
  "skip_mds_cli mem dc =
     (if dc_role dc = ROLE_FS_MDS_CLI then
        (case map_of mem ''SKIP_MDSV2_CLI'' of
           None \<Rightarrow> Inr False
         | Some (OVal GNil) \<Rightarrow> Inr False
         | Some (OVal (GBool b)) \<Rightarrow> Inr b
         | Some _ \<Rightarrow> Inl GoPanic)
      else Inr False)"

definition tui_TrimContainerId :: "string \<Rightarrow> string" where
  "tui_TrimContainerId c = take 12 (rev (dropWhile (\<lambda>c. c = CHR 0x0D \<or> c = CHR 0x0A) (rev c)))"

definition remote_task :: "'x task_env \<Rightarrow> string \<Rightarrow> string \<Rightarrow> string \<Rightarrow> ssh_config \<Rightarrow> 'x world step list \<Rightarrow> 'x world task" where
  "remote_task te uuid name subname ssh steps =
     fold AddStep steps (NewTask uuid name subname (Some (on_ext (NewSSHClient (te_sys te) (te_retries te) ssh))))"

definition service_subname :: "deploy_config \<Rightarrow> string \<Rightarrow> string" where
  "service_subname dc containerId =
     ''host='' @ dc_host dc @ '' role='' @ dc_role dc @ '' containerId='' @ tui_TrimContainerId containerId"

text \<open>A task on the service's container: the container and the host are looked up first.\<close>

definition container_task ::
  "'x task_env \<Rightarrow> dingocli \<Rightarrow> deploy_config \<Rightarrow> (string \<Rightarrow> ssh_config \<Rightarrow> 'x world task option res) \<Rightarrow>
   db \<Rightarrow> db \<times> 'x world task option res" where
  "container_task te cl dc k =
     bindS (service_container te cl dc) (\<lambda>c.
       case c of
         None \<Rightarrow> resS (Inr None)
       | Some containerId \<Rightarrow> resS (bindR (host_ssh te cl (dc_host dc)) (k containerId)))"

section \<open>Creating a container\<close>

definition Step2GetService :: "string \<Rightarrow> string \<Rightarrow> 'x world step" where
  "Step2GetService serviceId containerId w =
     (case GetContainerId serviceId (w_db w) of
        (d, Inl _) \<Rightarrow> (w\<lparr>w_db := d\<rparr>, Some (TErr (Ec ERR_GET_SERVICE_CONTAINER_ID_FAILED)))
      | (d, Inr c) \<Rightarrow>
          if c \<noteq> CLEANED_CONTAINER_ID \<and> length c > 0 then (w\<lparr>w_db := d\<rparr>, Some ERR_SKIP_TASK)
          else (set_str containerId c (w\<lparr>w_db := d\<rparr>), None))"

definition Step2InsertService :: "int \<Rightarrow> string \<Rightarrow> string \<Rightarrow> string \<Rightarrow> 'x world step" where
  "Step2InsertService clusterId serviceId containerId oldContainerId w =
     (let c = w_str w containerId in
      if w_str w oldContainerId = CLEANED_CONTAINER_ID
      then (case SetContainId serviceId c (w_db w) of
              (d, Inl _) \<Rightarrow> (w\<lparr>w_db := d\<rparr>, Some (TErr (Ec ERR_SET_SERVICE_CONTAINER_ID_FAILED)))
            | (d, Inr _) \<Rightarrow> (w\<lparr>w_db := d\<rparr>, None))
      else (case InsertService clusterId serviceId c (w_db w) of
              (d, Inl _) \<Rightarrow> (w\<lparr>w_db := d\<rparr>, Some (TErr (Ec ERR_INSERT_SERVICE_CONTAINER_ID_FAILED)))
            | (d, Inr _) \<Rightarrow> (w\<lparr>w_db := d\<rparr>, None)))"

definition getContainerCMD :: "deploy_config \<Rightarrow> string res" where
  "getContainerCMD dc =
     (let role = dc_role dc; cmd = ''deploystart'' in
      if dc_kind dc = KIND_DINGOFS then
        (if role = ROLE_DINGODB_EXECUTOR then Inr []
         else if role = ROLE_COORDINATOR \<or> role = ROLE_STORE then Inr cmd
         else if role = ROLE_FS_MDS then
           bindR (dc_lookup_ctx dc CTX_KEY_MDS_VERSION) (\<lambda>v. Inr (if v = CTX_VAL_MDS_V2 then [] else ''--role '' @ role @ '' ''))
         else Inr (''--role '' @ role @ '' ''))
      else if dc_kind dc = KIND_DINGOSTORE \<or> dc_kind dc = KIND_DINGODB then
        (if role = ROLE_DINGODB_EXECUTOR \<or> role = ROLE_DINGODB_WEB \<or> role = ROLE_DINGODB_PROXY then Inr [] else Inr cmd)
      else Inr (''--role '' @ role @ '' ''))"

text \<open>A variable of the service: its value, or none with an error.  Without variables the lookup panics.\<close>

definition var_lookup :: "deploy_config \<Rightarrow> string \<Rightarrow> string option res" where
  "var_lookup dc name =
     (case dc_variables dc of
        None \<Rightarrow> Inl GoPanic
      | Some vars \<Rightarrow> Inr (case Get vars name of Inl _ \<Rightarrow> None | Inr v \<Rightarrow> Some v))"

definition coordinator_addr :: "deploy_config \<Rightarrow> string res" where
  "coordinator_addr dc =
     bindR (GetDingoStoreCoordinatorAddr dc) (\<lambda>a.
       if length a = 1
       then bindR (var_lookup dc ''coordinator_addr'') (\<lambda>v. Inr (case v of None \<Rightarrow> [] | Some x \<Rightarrow> x))
       else Inr a)"

definition configExecutorENV :: "string list \<Rightarrow> deploy_config \<Rightarrow> string list res" where
  "configExecutorENV envs dc =
     bindR (coordinator_addr dc) (\<lambda>a.
       Inr (envs @ [''DINGO_ROLE='' @ dc_role dc, ''DINGO_HOSTNAME='' @ dc_hostname dc, ''DINGO_COORDINATORS='' @ a]))"

definition configMdsv2ENV :: "string list \<Rightarrow> deploy_config \<Rightarrow> string list res" where
  "configMdsv2ENV envs dc =
     bindR (GetDingoServerListenHost dc) (\<lambda>listen.
     bindR (GetDingoServerPort dc) (\<lambda>port.
     bindR (coordinator_addr dc) (\<lambda>a.
     bindR (GetDingoInstanceId dc) (\<lambda>i.
     bindR (GetDingoClusterId dc) (\<lambda>c.
       Inr (envs @
         [''FLAGS_role='' @ ROLE_FS_MDS, ''FLAGS_clean_log=0'', ''SERVER_LISTEN_HOST='' @ listen, ''SERVER_HOST='' @ dc_hostname dc,
          ''SERVER_START_PORT='' @ itoa port, ''COORDINATOR_ADDR='' @ a, ''MDS_INSTANCE_START_ID='' @ itoa i, ''CLUSTER_ID='' @ itoa c]))))))"

definition configDingoStoreENV :: "string list \<Rightarrow> deploy_config \<Rightarrow> string list res" where
  "configDingoStoreENV envs dc =
     bindR (GetDingoStoreServerListenHost dc) (\<lambda>slisten.
     bindR (GetDingoStoreRaftListenHost dc) (\<lambda>rlisten.
     bindR (GetDingoStoreReplicaNum dc) (\<lambda>n.
     bindR (GetDingoServerPort dc) (\<lambda>port.
     bindR (GetDingoStoreRaftPort dc) (\<lambda>raft.
     bindR (GetDingoInstanceId dc) (\<lambda>i.
     bindR (var_lookup dc ''cluster_coor_srv_peers'') (\<lambda>srv.
     bindR (var_lookup dc ''cluster_coor_raft_peers'') (\<lambda>rpeers.
       Inr (envs @
         [''FLAGS_role='' @ dc_role dc, ''FLAGS_clean_log=1'', ''SERVER_LISTEN_HOST='' @ slisten, ''RAFT_LISTEN_HOST='' @ rlisten,
          ''SERVER_HOST='' @ dc_hostname dc, ''RAFT_HOST='' @ dc_hostname dc, ''DEFAULT_REPLICA_NUM='' @ itoa n,
          ''COORDINATOR_SERVER_START_PORT='' @ itoa port, ''COORDINATOR_RAFT_START_PORT='' @ itoa raft,
          ''SERVER_START_PORT='' @ itoa port, ''RAFT_START_PORT='' @ itoa raft, ''INSTANCE_START_ID='' @ itoa i, ''ENABLE_LITE=false''] @
         (case srv of None \<Rightarrow> [] | Some v \<Rightarrow> [''COOR_SRV_PEERS='' @ v, ''COORDINATOR_ADDR='' @ v]) @
         (case rpeers of None \<Rightarrow> [] | Some v \<Rightarrow> [''COOR_RAFT_PEERS='' @ v])))))))))) "

definition configDingoVectorENV :: "string list \<Rightarrow> deploy_config \<Rightarrow> string list res" where
  "configDingoVectorENV envs dc =
     bindR (configDingoStoreENV envs dc) (\<lambda>envs.
     bindR (var_lookup dc ''diskann_server_start_port'') (\<lambda>dport.
     bindR (GetDingoInstanceId dc) (\<lambda>i.
     bindR (GetDingoServerPort dc) (\<lambda>port.
     bindR (GetDingoStoreRaftPort dc) (\<lambda>raft.
       Inr (envs @ [''DISKANN_SERVER_HOST='' @ dc_hostname dc] @
         (case dport of None \<Rightarrow> []
          | Some s \<Rightarrow> (case atoi s of None \<Rightarrow> [] | Some n \<Rightarrow> [''DISKANN_SERVER_START_PORT='' @ itoa n])) @
         [''DISKANN_INSTANCE_START_ID='' @ itoa i, ''INDEX_SERVER_START_PORT='' @ itoa port, ''INDEX_RAFT_START_PORT='' @ itoa raft,
          ''INDEX_INSTANCE_START_ID='' @ itoa i]))))))"

definition with_env :: "deploy_config \<Rightarrow> string list \<Rightarrow> string list res" where
  "with_env dc envs =
     bindR (GetEnv dc) (\<lambda>env. Inr (if length env > 0 then envs @ split_on (CHR '' '') env else envs))"

definition store_like :: "string \<Rightarrow> bool" where
  "store_like role \<longleftrightarrow>
     role \<in> set [ROLE_COORDINATOR, ROLE_STORE, ROLE_DINGODB_DOCUMENT, ROLE_DINGODB_INDEX, ROLE_DINGODB_DISKANN]"

definition executor_like :: "string \<Rightarrow> bool" where
  "executor_like role \<longleftrightarrow> role \<in> set [ROLE_DINGODB_EXECUTOR, ROLE_DINGODB_PROXY, ROLE_DINGODB_WEB]"

definition GetEnvironments :: "deploy_config \<Rightarrow> string list res" where
  "GetEnvironments dc =
     (let role = dc_role dc in
      if dc_kind dc = KIND_DINGOFS then
        bindR (if role = ROLE_FS_MDS \<or> role = ROLE_FS_MDS_CLI then
                 bindR (dc_lookup_ctx dc CTX_KEY_MDS_VERSION) (\<lambda>v. if v = CTX_VAL_MDS_V2 then configMdsv2ENV [] dc else Inr [])
               else if role = ROLE_COORDINATOR \<or> role = ROLE_STORE then configDingoStoreENV [] dc
               else if role = ROLE_DINGODB_EXECUTOR then configExecutorENV [] dc
               else bindR (GetEnableRDMA dc) (\<lambda>rdma.
                 Inr [''LD_PRELOAD='' @ join '' '' (''/usr/local/lib/libjemalloc.so'' # (if rdma then [''/usr/local/lib/libsmc-preload.so''] else []))]))
          (with_env dc)
      else if dc_kind dc = KIND_DINGOSTORE then
        bindR (if store_like role then configDingoStoreENV [] dc
               else if executor_like role then configExecutorENV [] dc else Inr []) (\<lambda>envs.
        bindR (configDingoStoreENV envs dc) (with_env dc))
      else if dc_kind dc = KIND_DINGODB then
        bindR (if store_like role then configDingoVectorENV [] dc
               else if executor_like role then configExecutorENV [] dc else Inr []) (with_env dc)
      else Inr [])"

definition raft_role :: "string \<Rightarrow> bool" where
  "raft_role role \<longleftrightarrow> role \<in> set [ROLE_COORDINATOR, ROLE_STORE, ROLE_DINGODB_DOCUMENT, ROLE_DINGODB_INDEX]"

definition getUlimits :: "string list" where
  "getUlimits = [''nofile=1048576:1048576'', ''core=-1'']"

definition getMountVolumes :: "deploy_config \<Rightarrow> volume list res" where
  "getMountVolumes dc =
     bindR (GetProjectLayout dc) (\<lambda>layout.
     bindR (GetLogDir dc) (\<lambda>logDir.
     bindR (GetDataDir dc) (\<lambda>dataDir.
     bindR (GetSourceCoreDir dc) (\<lambda>sourceCoreDir.
     bindR (GetTargetCoreDir dc) (\<lambda>targetCoreDir.
     bindR (if raft_role (dc_role dc) then GetDingoRaftDir dc else Inr []) (\<lambda>raftDir.
     bindR (if dc_role dc = ROLE_DINGODB_DOCUMENT then GetDingoStoreDocDir dc else Inr []) (\<lambda>docDir.
     bindR (if dc_role dc = ROLE_DINGODB_INDEX then GetDingoStoreVectorDir dc else Inr []) (\<lambda>vectorDir.
     let vol = (\<lambda>h c. \<lparr>vol_HostPath = h, vol_ContainerPath = c\<rparr>) in
     Inr ((if length logDir > 0 then [vol logDir (ServiceLogDir layout)] else []) @
          (if length dataDir > 0 \<and> dataDir \<noteq> ''-'' then [vol dataDir (ServiceDataDir layout)] else []) @
          (if length targetCoreDir > 0 then [vol targetCoreDir sourceCoreDir] else []) @
          (if raft_role (dc_role dc) then
             vol raftDir (DingoStoreRaftDir layout) #
             (if dc_role dc = ROLE_STORE then
                (case map_of (dc_serviceConfig dc) ''mount.volumes'' of None \<Rightarrow> [] | Some nas \<Rightarrow> [vol nas nas])
              else [])
           else []) @
          (if dc_role dc = ROLE_DINGODB_DOCUMENT then [vol docDir (DingoStoreDocumentDir layout)] else []) @
          (if dc_role dc = ROLE_DINGODB_INDEX then [vol vectorDir (DingoStoreVectorDir layout)] else [])))))))))) "

definition getRestartPolicy :: "deploy_config \<Rightarrow> string" where
  "getRestartPolicy dc =
     (if dc_role dc = ROLE_ETCD then ''always''
      else if dc_role dc = ROLE_COORDINATOR \<or> dc_role dc = ROLE_STORE \<or> dc_role dc = ROLE_FS_MDS then
        (case map_of (dc_serviceConfig dc) ''restart_policy'' of
           None \<Rightarrow> ''always''
         | Some p \<Rightarrow> if p \<noteq> [] then p else ''always'')
      else ''no'')"

text \<open>The last line of a text.\<close>

definition TrimContainerId :: "string \<Rightarrow> 'x world step" where
  "TrimContainerId containerId w = (set_str containerId (last (split_on (CHR 0x0A) (w_str w containerId))) w, None)"

definition create_dirs :: "deploy_config \<Rightarrow> string list res" where
  "create_dirs dc =
     bindR (GetLogDir dc) (\<lambda>l.
     bindR (GetDataDir dc) (\<lambda>d.
     bindR (if raft_role (dc_role dc) then bindR (GetDingoRaftDir dc) (\<lambda>r. Inr [r]) else Inr []) (\<lambda>rs.
     bindR (if dc_role dc = ROLE_DINGODB_DOCUMENT then bindR (GetDingoStoreDocDir dc) (\<lambda>r. Inr [r]) else Inr []) (\<lambda>ds.
     bindR (if dc_role dc = ROLE_DINGODB_INDEX then bindR (GetDingoStoreVectorDir dc) (\<lambda>r. Inr [r]) else Inr []) (\<lambda>vs.
     Inr ([l, d] @ rs @ ds @ vs))))))"

definition container_hostname :: "string \<Rightarrow> string \<Rightarrow> string \<Rightarrow> string" where
  "container_hostname kind role serviceId = kind @ ''-'' @ role @ ''-'' @ serviceId"

definition service_container_spec :: "deploy_config \<Rightarrow> string \<Rightarrow> create_container res" where
  "service_container_spec dc hostname =
     bindR (GetContainerImage dc) (\<lambda>img.
     bindR (getContainerCMD dc) (\<lambda>cmd.
     bindR (GetEnvironments dc) (\<lambda>envs.
     bindR (getMountVolumes dc) (\<lambda>volumes.
     Inr (zero_create_container\<lparr>cc_Image := img, cc_Command := cmd, cc_AddHost := [hostname @ '':127.0.0.1''], cc_Envs := envs,
            cc_Hostname := hostname, cc_Init := True, cc_Name := hostname, cc_Privileged := True, cc_Restart := getRestartPolicy dc,
            cc_Ulimits := getUlimits, cc_Volumes := volumes\<rparr>)))))"

definition create_steps ::
  "'x task_env \<Rightarrow> ssh_config \<Rightarrow> string \<Rightarrow> int \<Rightarrow> string \<Rightarrow> string list \<Rightarrow> create_container \<Rightarrow> 'x world step list" where
  "create_steps te ssh p clusterId serviceId dirs spec =
     [Step2GetService serviceId (p @ ''oldContainerId''),
      st_CreateDirectory (te_sys te) (Some ssh) ((te_opts te)\<lparr>xo_ExecWithSudo := False\<rparr>) dirs None None,
      st_CreateContainer (te_sys te) (Some ssh) (te_opts te) spec (Some (p @ ''containerId'')),
      TrimContainerId (p @ ''containerId''),
      Step2InsertService clusterId serviceId (p @ ''containerId'') (p @ ''oldContainerId'')]"

definition NewCreateContainerTask :: "'x new_service_task" where
  "NewCreateContainerTask te cl mem p uuid dc =
     resS (if dc_role dc = ROLE_FS_MDS_CLI then Inr None
           else
             bindR (host_ssh te cl (dc_host dc)) (\<lambda>ssh.
             let serviceId = GetServiceId (te_cli te) cl (dc_id dc);
                 hostname = container_hostname (dc_kind dc) (dc_role dc) serviceId
             in bindR (create_dirs dc) (\<lambda>dirs.
                bindR (service_container_spec dc hostname) (\<lambda>spec.
                Inr (Some (remote_task te uuid ''Create Container'' (''host='' @ dc_host dc @ '' role='' @ dc_role dc) ssh
                  (create_steps te ssh p (cl_clusterId cl) serviceId dirs spec)))))))"

definition mds_cli_spec :: "deploy_config \<Rightarrow> string \<Rightarrow> create_container res" where
  "mds_cli_spec dc hostname =
     bindR (GetContainerImage dc) (\<lambda>img.
     bindR (GetEnvironments dc) (\<lambda>envs.
     Inr (zero_create_container\<lparr>cc_Image := img, cc_Entrypoint := ''bash'',
            cc_Command := ''-c '' @ [CHR 0x22] @ ''while true; do sleep 3600; done'' @ [CHR 0x22], cc_AddHost := [hostname @ '':127.0.0.1''],
            cc_Envs := envs, cc_Hostname := hostname, cc_Init := True, cc_Name := hostname, cc_Privileged := True, cc_Restart := ''no''\<rparr>)))"

definition NewCreateMdsv2CliContainerTask :: "'x new_service_task" where
  "NewCreateMdsv2CliContainerTask te cl mem p uuid dc =
     resS (bindR (host_ssh te cl (dc_host dc)) (\<lambda>ssh.
       let serviceId = GetServiceId (te_cli te) cl (dc_id dc);
           hostname = container_hostname (dc_kind dc) (dc_role dc) serviceId
       in bindR (mds_cli_spec dc hostname) (\<lambda>spec.
          Inr (Some (remote_task te uuid ''Create mds client Container'' (''host='' @ dc_host dc @ '' role='' @ dc_role dc) ssh
            [Step2GetService serviceId (p @ ''oldContainerId''),
             st_CreateContainer (te_sys te) (Some ssh) (te_opts te) spec (Some (p @ ''containerId'')),
             TrimContainerId (p @ ''containerId''),
             Step2InsertService (cl_clusterId cl) serviceId (p @ ''containerId'') (p @ ''oldContainerId'')])))))"

section \<open>Start, stop, restart\<close>

text \<open>A container that is not listed is no error: the rest of the task is skipped.\<close>

definition CheckContainerExist :: "string \<Rightarrow> 'x world step" where
  "CheckContainerExist out w = (w, if length (w_str w out) = 0 then Some ERR_SKIP_TASK else None)"

definition checkContainerId :: "string \<Rightarrow> 'x world step" where
  "checkContainerId containerId w = (w, if containerId = CLEANED_CONTAINER_ID then Some ERR_SKIP_TASK else None)"

definition checkContainerStatus :: "string \<Rightarrow> 'x world step" where
  "checkContainerStatus status w =
     (w, if w_str w status \<noteq> ''running'' then Some (TErr (Ec ERR_CONTAINER_IS_ABNORMAL)) else None)"

definition WaitContainerStart :: "'x task_env \<Rightarrow> int \<Rightarrow> 'x world step" where
  "WaitContainerStart te seconds w = (w\<lparr>w_ext := sys_sleep (te_sys te) seconds (w_ext w)\<rparr>, None)"

definition quoted :: "string \<Rightarrow> string" where
  "quoted s = [CHR 0x22] @ s @ [CHR 0x22]"

definition list_container :: "'x task_env \<Rightarrow> ssh_config \<Rightarrow> string \<Rightarrow> string \<Rightarrow> string \<Rightarrow> 'x world step" where
  "list_container te ssh fmt containerId outp =
     st_ListContainers (te_sys te) (Some ssh) (te_opts te) (quoted fmt) (''id='' @ containerId) False True (Some outp)"

text \<open>The status that the container engine reports is local to the step.\<close>

definition Step2CheckPostStart :: "'x task_env \<Rightarrow> ssh_config \<Rightarrow> string \<Rightarrow> string \<Rightarrow> string \<Rightarrow> 'x world step" where
  "Step2CheckPostStart te ssh containerId success status w =
     (if w_bool w success then (w, None)
      else
        (case st_InspectContainer (te_sys te) (Some ssh) (te_opts te) containerId ([CHR 0x27] @ ''{{.State.Status}}'' @ [CHR 0x27]) None (Some status) w of
           (w', Some e) \<Rightarrow> (w', Some (if e = TErr GoPanic then e else TErr (Ec ERR_START_CRONTAB_IN_CONTAINER_FAILED)))
         | (w', None) \<Rightarrow>
             (w', if w_str w' status \<noteq> ''running'' then Some (TErr (Ec ERR_CONTAINER_IS_ABNORMAL)) else None)))"

definition start_steps :: "'x task_env \<Rightarrow> ssh_config \<Rightarrow> string \<Rightarrow> string \<Rightarrow> 'x world step list" where
  "start_steps te ssh p containerId =
     [list_container te ssh ''{{.ID}}'' containerId (p @ ''out''),
      CheckContainerExist (p @ ''out''),
      st_StartContainer (te_sys te) (Some ssh) (te_opts te) (\<lambda>_. containerId) None None,
      WaitContainerStart te 3,
      Step2CheckPostStart te ssh containerId (p @ ''success'') (p @ ''status'')]"

definition NewStartServiceTask :: "'x new_service_task" where
  "NewStartServiceTask te cl mem p uuid dc =
     bindS (resS (skip_mds_cli mem dc)) (\<lambda>skip.
       if skip then resS (Inr None)
       else container_task te cl dc (\<lambda>containerId ssh.
         Inr (Some (remote_task te uuid ''Start Service'' (service_subname dc containerId) ssh (start_steps te ssh p containerId)))))"

definition restart_steps :: "'x task_env \<Rightarrow> ssh_config \<Rightarrow> string \<Rightarrow> string \<Rightarrow> 'x world step list" where
  "restart_steps te ssh p containerId =
     [list_container te ssh ''{{.ID}}'' containerId (p @ ''out''),
      CheckContainerExist (p @ ''out''),
      st_RestartContainer (te_sys te) (Some ssh) (te_opts te) containerId None,
      WaitContainerStart te 3,
      Step2CheckPostStart te ssh containerId (p @ ''success'') (p @ ''status'')]"

definition NewRestartServiceTask :: "'x new_service_task" where
  "NewRestartServiceTask te cl mem p uuid dc =
     container_task te cl dc (\<lambda>containerId ssh.
       Inr (Some (remote_task te uuid ''Restart Service'' (service_subname dc containerId) ssh (restart_steps te ssh p containerId))))"

definition stop_steps :: "'x task_env \<Rightarrow> ssh_config \<Rightarrow> string \<Rightarrow> string \<Rightarrow> 'x world step list" where
  "stop_steps te ssh p containerId =
     [checkContainerId containerId,
      list_container te ssh ''{{.ID}}'' containerId (p @ ''out''),
      CheckContainerExist (p @ ''out''),
      st_StopContainer (te_sys te) (Some ssh) (te_opts te) containerId 0 (Some (p @ ''out''))]"

text \<open>The host is looked up before the container.\<close>

definition NewStopServiceTask :: "'x new_service_task" where
  "NewStopServiceTask te cl mem p uuid dc =
     bindS (resS (cli_GetHost (te_cli te) cl (dc_host dc))) (\<lambda>hc.
     bindS (resS (skip_mds_cli mem dc)) (\<lambda>skip.
       if skip then resS (Inr None)
       else bindS (service_container te cl dc) (\<lambda>c.
         case c of
           None \<Rightarrow> resS (Inr None)
         | Some containerId \<Rightarrow>
             resS (bindR (hc_GetSSHConfig (env_host (te_cli te)) hc) (\<lambda>ssh.
               Inr (Some (remote_task te uuid ''Stop Service'' (service_subname dc containerId) ssh (stop_steps te ssh p containerId))))))))"

section \<open>Clean\<close>

text \<open>What the container engine says to the removal is not looked at.\<close>

definition Step2CleanContainer :: "'x task_env \<Rightarrow> ssh_config \<Rightarrow> string \<Rightarrow> string \<Rightarrow> 'x world step" where
  "Step2CleanContainer te ssh serviceId containerId w =
     (if length containerId = 0 \<or> containerId = CLEANED_CONTAINER_ID then (w, None)
      else
        (case on_ext (dk_Execute (te_sys te) (Some ssh) (te_opts te) (dk_RemoveContainer [containerId] NewShell)) w of
           (w1, Inl e) \<Rightarrow> (w1, Some (TErr e))
         | (w1, Inr _) \<Rightarrow>
             (case SetContainId serviceId CLEANED_CONTAINER_ID (w_db w1) of
                (d, Inl _) \<Rightarrow> (w1\<lparr>w_db := d\<rparr>, Some (TErr (RawErr ''storage'')))
              | (d, Inr _) \<Rightarrow> (w1\<lparr>w_db := d\<rparr>, None))))"

definition clean_files_of :: "deploy_config \<Rightarrow> string \<Rightarrow> string list res" where
  "clean_files_of dc item =
     (let one = (\<lambda>r. bindR r (\<lambda>f. Inr [f])) in
      if item = CLEAN_ITEM_LOG then one (GetLogDir dc)
      else if item = CLEAN_ITEM_DATA then one (GetDataDir dc)
      else if item = CLEAN_ITEM_RAFT then (if raft_role (dc_role dc) then one (GetDingoRaftDir dc) else Inr [])
      else if item = CLEAN_ITEM_DOC then (if dc_role dc = ROLE_DINGODB_DOCUMENT then one (GetDingoStoreDocDir dc) else Inr [])
      else if item = CLEAN_ITEM_VECTOR then (if dc_role dc = ROLE_DINGODB_INDEX then one (GetDingoStoreVectorDir dc) else Inr [])
      else Inr [])"

definition getCleanFiles :: "(string list \<Rightarrow> string list) \<Rightarrow> bmap \<Rightarrow> deploy_config \<Rightarrow> string list res" where
  "getCleanFiles order clean dc = bindR (mapR (clean_files_of dc) (order (map fst clean))) (\<lambda>fs. Inr (concat fs))"

definition clean_steps_of ::
  "'x task_env \<Rightarrow> ssh_config \<Rightarrow> string \<Rightarrow> string \<Rightarrow> bmap \<Rightarrow> string list \<Rightarrow> 'x world step list" where
  "clean_steps_of te ssh serviceId containerId clean files =
     st_RemoveFile (te_sys te) (Some ssh) (te_opts te) files None #
     (if bget clean CLEAN_ITEM_CONTAINER then [Step2CleanContainer te ssh serviceId containerId] else [])"

definition NewCleanServiceTask :: "'x new_service_task" where
  "NewCleanServiceTask te cl mem p uuid dc d =
     (let serviceId = GetServiceId (te_cli te) cl (dc_id dc);
          (d1, r) = cli_GetContainerId serviceId d
      in if r = Inr CLEANED_CONTAINER_ID then (fst (SetContainId serviceId CLEANED_CONTAINER_ID d1), Inr None)
         else
           (let (d2, skip) = IsSkip (te_cli te) cl dc d1 in
            (d2,
             if skip then Inr None
             else
               bindR r (\<lambda>containerId.
               bindR (cli_GetHost (te_cli te) cl (dc_host dc)) (\<lambda>hc.
               bindR (skip_mds_cli mem dc) (\<lambda>skip.
               if skip then Inr None
               else
                 bindR (mem_strs mem ''CLEAN_ITEMS'') (\<lambda>only.
                 bindR (hc_GetSSHConfig (env_host (te_cli te)) hc) (\<lambda>ssh.
                 let clean = Slice2Map only in
                 bindR (getCleanFiles (te_order te) clean dc) (\<lambda>files.
                 Inr (Some (remote_task te uuid ''Clean Service'' (service_subname dc containerId @ '' clean='' @ join '','' only) ssh
                   (clean_steps_of te ssh serviceId containerId clean files))))))))))))"

end
