(* ===== verification/Config_Tasks.thy ===== *)
theory Config_Tasks
  imports Service_Tasks
begin

text \<open>
  The tasks that prepare and configure the containers of services: \<open>pull_image.go\<close>, \<open>sync_config.go\<close>,
  \<open>check_service.go\<close>, \<open>create_meta_table.go\<close> and \<open>sync_java_opts.go\<close> of \<open>internal/task/task/common\<close>.  The texts of
  the scripts, which the build embeds, are the field \<open>te_scripts\<close>, by the names of their variables.

  Keys of configurations are texts of the ASCII alphabet, for which \<open>lower\<close> is Go's \<open>ToLower\<close>.
\<close>

definition NewPullImageTask :: "'x new_service_task" where
  "NewPullImageTask te cl mem p uuid dc =
     resS (bindR (host_ssh te cl (dc_host dc)) (\<lambda>ssh.
           bindR (GetContainerImage dc) (\<lambda>img.
           Inr (Some (remote_task te uuid ''Pull Image'' (''host='' @ dc_host dc @ '' image='' @ img) ssh
             [st_PullImage (te_sys te) (Some ssh) (te_opts te) img None])))))"

section \<open>Configuration files\<close>

abbreviation CONFIG_DELIMITER_ASSIGN :: string where "CONFIG_DELIMITER_ASSIGN \<equiv> ''=''"
abbreviation CONFIG_DELIMITER_COLON :: string where "CONFIG_DELIMITER_COLON \<equiv> '': ''"
abbreviation SCRIPT_CHECK_STORE_HEALTH :: string where "SCRIPT_CHECK_STORE_HEALTH \<equiv> ''check_store_health.sh''"
abbreviation SCRIPT_SYNC_JAVA_OPTS :: string where "SCRIPT_SYNC_JAVA_OPTS \<equiv> ''sync_java_opts.sh''"
abbreviation SCRIPT_START_EXECUTOR :: string where "SCRIPT_START_EXECUTOR \<equiv> ''start-executor.sh''"
abbreviation SCRIPT_CREATE_MDSV2_TABLES :: string where "SCRIPT_CREATE_MDSV2_TABLES \<equiv> ''create_mdsv2_tables.sh''"

definition lower_char :: "char \<Rightarrow> char" where
  "lower_char c = (if 65 \<le> (of_char c :: int) \<and> (of_char c :: int) \<le> 90 then char_of ((of_char c :: int) + 32) else c)"

definition lower :: "string \<Rightarrow> string" where
  "lower s = map lower_char s"

text \<open>The key under which the topology sets a configuration of the service.\<close>

definition mute_key :: "deploy_config \<Rightarrow> string \<Rightarrow> string" where
  "mute_key dc key =
     (if (dc_role dc = ROLE_COORDINATOR \<or> dc_role dc = ROLE_STORE) \<and> has_prefix key ''-'' then ''gflags.'' @ trim_prefix key ''-''
      else if dc_role dc = ROLE_FS_MDS \<and> has_prefix key ''--'' then trim_prefix key ''--''
      else trim_space key)"

definition vars_Rendering :: "deploy_config \<Rightarrow> string \<Rightarrow> string res" where
  "vars_Rendering dc s = (case dc_variables dc of None \<Rightarrow> Inl GoPanic | Some vars \<Rightarrow> Rendering vars s)"

definition vars_Get :: "deploy_config \<Rightarrow> string \<Rightarrow> string res" where
  "vars_Get dc name = (case dc_variables dc of None \<Rightarrow> Inl GoPanic | Some vars \<Rightarrow> Get vars name)"

definition NewMutate :: "deploy_config \<Rightarrow> string \<Rightarrow> bool \<Rightarrow> string \<Rightarrow> string \<Rightarrow> string \<Rightarrow> string res" where
  "NewMutate dc delimiter forceRender inp key val =
     (if length key = 0 then if forceRender then vars_Rendering dc inp else Inr inp
      else
        (let k = mute_key dc key;
             val = (case map_of (dc_serviceConfig dc) (lower k) of None \<Rightarrow> val | Some v \<Rightarrow> v)
         in bindR (if k = ''mdsaddr'' then vars_Get dc ''cluster_mds_addr'' else vars_Rendering dc val) (\<lambda>v.
            Inr (key @ delimiter @ v))))"

definition newCrontab :: "string \<Rightarrow> deploy_config \<Rightarrow> string \<Rightarrow> string res" where
  "newCrontab uuid dc reportScriptPath =
     bindR (GetReportUsage dc) (\<lambda>usage.
       Inr ((if usage then ''0 * * * *'' else []) @ '' '' @
            (if usage then ''bash '' @ reportScriptPath @ '' '' @ dc_kind dc @ '' '' @ uuid @ '' '' @ dc_role dc else []) @ [CHR 0x0A]))"

text \<open>
  A value that is not a string is printed by the verb \<open>%s\<close> as \<open>%!s(type=value)\<close>, or \<open>%!s(<nil>)\<close>.  The options of Java come
  from the keys \<open>java.\<close> of the service and are strings; for values of other types the text is a parameter.
\<close>

definition java_env :: "(gval \<Rightarrow> string) \<Rightarrow> string \<times> gval \<Rightarrow> string" where
  "java_env fmt kv = fst kv @ ''='' @ (case snd kv of GStr s \<Rightarrow> s | v \<Rightarrow> fmt v) @ '' ''"

definition syncJavaOpts :: "(gval \<Rightarrow> string) \<Rightarrow> (string list \<Rightarrow> string list) \<Rightarrow> gmap \<Rightarrow> string \<Rightarrow> string \<Rightarrow> string" where
  "syncJavaOpts fmt order java_opts hostSyncJavaOptsScriptPath hostStartExecutorPath =
     (if length java_opts = 0 then []
      else concat (map (\<lambda>k. java_env fmt (k, gget java_opts k)) (order (map fst java_opts))) @
           '' bash '' @ hostSyncJavaOptsScriptPath @ '' '' @ hostStartExecutorPath)"

definition config_delimiter :: "string \<Rightarrow> string" where
  "config_delimiter role =
     (if role = ROLE_ETCD \<or> role = ROLE_DINGODB_EXECUTOR \<or> role = ROLE_DINGODB_WEB \<or> role = ROLE_DINGODB_PROXY
      then CONFIG_DELIMITER_COLON else CONFIG_DELIMITER_ASSIGN)"

definition exists_steps :: "'x task_env \<Rightarrow> ssh_config \<Rightarrow> string \<Rightarrow> string \<Rightarrow> 'x world step list" where
  "exists_steps te ssh p containerId =
     [list_container te ssh ''{{.ID}}'' containerId (p @ ''out''), CheckContainerExist (p @ ''out'')]"

definition ordered_config :: "(string list \<Rightarrow> string list) \<Rightarrow> (string \<times> string) list \<Rightarrow> (string \<times> string) list" where
  "ordered_config order config = map (\<lambda>k. (k, the (map_of config k))) (order (map fst config))"

definition sync_conf_steps :: "'x task_env \<Rightarrow> ssh_config \<Rightarrow> string \<Rightarrow> deploy_config \<Rightarrow> layout \<Rightarrow> 'x world step list" where
  "sync_conf_steps te ssh containerId dc layout =
     map (\<lambda>conf. st_SyncFile (te_sys te) (Some ssh) (te_opts te) (\<lambda>_. containerId) (cf_SourcePath conf) (\<lambda>_. containerId) (cf_TargetPath conf)
                   (config_delimiter (dc_role dc)) (NewMutate dc (config_delimiter (dc_role dc)) (cf_Name conf = ''nginx.conf''))
                   (ordered_config (te_order te) (dc_serviceConfig dc)))
         (ServiceConfFiles layout)"

definition executor_steps :: "(gval \<Rightarrow> string) \<Rightarrow> 'x task_env \<Rightarrow> ssh_config \<Rightarrow> string \<Rightarrow> string \<Rightarrow> layout \<Rightarrow> gmap \<Rightarrow> 'x world step list" where
  "executor_steps fmt te ssh p containerId layout java_opts =
     (let script = te_tempdir te @ ''/'' @ SCRIPT_SYNC_JAVA_OPTS;
          start = DingoExecutorBinDir layout @ ''/'' @ SCRIPT_START_EXECUTOR;
          host = te_tempdir te @ ''/'' @ SCRIPT_START_EXECUTOR
      in [st_InstallFile (te_sys te) (Some ssh) (te_opts te) (\<lambda>_. te_scripts te ''SYNC_JAVA_OPTS'') script (\<lambda>_. []) [],
          st_CopyFromContainer (te_sys te) (Some ssh) (te_opts te) containerId start host False None,
          st_Command (te_sys te) (Some ssh) (te_opts te) (syncJavaOpts fmt (te_order te) java_opts script host) None (Some (p @ ''out'')),
          st_CopyIntoContainer (te_sys te) (Some ssh) (te_opts te) host containerId start None])"

definition tools_steps :: "'x task_env \<Rightarrow> ssh_config \<Rightarrow> string \<Rightarrow> deploy_config \<Rightarrow> layout \<Rightarrow> 'x world step list" where
  "tools_steps te ssh containerId dc layout =
     [st_CreateAndUploadDir (te_sys te) (Some ssh) (te_opts te) ''.dingo'' (\<lambda>_. containerId) (FSToolsConfUserDir layout),
      st_TrySyncFile (te_sys te) (Some ssh) (te_opts te) (\<lambda>_. containerId) (FSToolsConfSrcPath layout) (\<lambda>_. containerId)
        (FSToolsConfSystemPath layout) CONFIG_DELIMITER_COLON (NewMutate dc CONFIG_DELIMITER_COLON False)]"

definition role_config_steps ::
  "(gval \<Rightarrow> string) \<Rightarrow> 'x task_env \<Rightarrow> ssh_config \<Rightarrow> string \<Rightarrow> string \<Rightarrow> deploy_config \<Rightarrow> layout \<Rightarrow> 'x world step list res" where
  "role_config_steps fmt te ssh p containerId dc layout =
     (let role = dc_role dc;
          install = (\<lambda>script path. st_InstallFile (te_sys te) (Some ssh) (te_opts te) (\<lambda>_. te_scripts te script) [] (\<lambda>_. containerId) path)
      in if role \<in> set [ROLE_DINGODB_DOCUMENT, ROLE_DINGODB_DISKANN, ROLE_DINGODB_INDEX, ROLE_DINGODB_PROXY, ROLE_DINGODB_WEB] then Inr []
         else if role = ROLE_COORDINATOR \<or> role = ROLE_STORE then
           Inr [install ''CHECK_STORE_HEALTH'' (DingoStoreScriptDir layout @ ''/'' @ SCRIPT_CHECK_STORE_HEALTH)]
         else if role = ROLE_FS_MDS_CLI then
           Inr [install ''CREATE_MDS_TABLES'' (FSMdsCliBinDir layout @ ''/'' @ SCRIPT_CREATE_MDSV2_TABLES)]
         else if role = ROLE_DINGODB_EXECUTOR then
           bindR (GetDingoExecutorJavaOpts dc) (\<lambda>java_opts.
             Inr (if length java_opts = 0 then [] else executor_steps fmt te ssh p containerId layout java_opts))
         else Inr (tools_steps te ssh containerId dc layout))"

definition config_kind :: "string \<Rightarrow> bool" where
  "config_kind kind \<longleftrightarrow> kind = KIND_DINGOFS \<or> kind = KIND_DINGODB \<or> kind = KIND_DINGOSTORE"

definition NewSyncConfigTask :: "(gval \<Rightarrow> string) \<Rightarrow> 'x new_service_task" where
  "NewSyncConfigTask fmt te cl mem p uuid dc =
     bindS (resS (skip_mds_cli mem dc)) (\<lambda>skip.
       if skip then resS (Inr None)
       else container_task te cl dc (\<lambda>containerId ssh.
         bindR (GetProjectLayout dc) (\<lambda>layout.
         bindR (if config_kind (dc_kind dc)
                then bindR (role_config_steps fmt te ssh p containerId dc layout) (\<lambda>ss. Inr (sync_conf_steps te ssh containerId dc layout @ ss))
                else Inr []) (\<lambda>ss.
         Inr (Some (remote_task te uuid ''Sync Config'' (service_subname dc containerId) ssh (exists_steps te ssh p containerId @ ss)))))))"

section \<open>Checks in containers\<close>

text \<open>The result of the health check is stored and not looked at.\<close>

definition NewCheckStoreHealthTask :: "'x new_service_task" where
  "NewCheckStoreHealthTask te cl mem p uuid dc =
     container_task te cl dc (\<lambda>containerId ssh.
       bindR (GetProjectLayout dc) (\<lambda>layout.
       Inr (Some (remote_task te uuid ''Check dingo-store Service'' (service_subname dc containerId) ssh
         (exists_steps te ssh p containerId @
          [st_ContainerExec (te_sys te) (Some ssh) (te_opts te) (\<lambda>_. containerId)
             (''bash '' @ DingoStoreScriptDir layout @ ''/'' @ SCRIPT_CHECK_STORE_HEALTH) (Some (p @ ''success'')) (Some (p @ ''out''))])))))"

definition checkCreateTableSuccess :: "string \<Rightarrow> 'x world step" where
  "checkCreateTableSuccess success w = (w, if w_bool w success then None else Some (TErr (Ec ERR_CREATE_META_TABLE_FAILED)))"

definition NewCreateMetaTablesTask :: "'x new_service_task" where
  "NewCreateMetaTablesTask te cl mem p uuid dc =
     container_task te cl dc (\<lambda>containerId ssh.
       bindR (GetProjectLayout dc) (\<lambda>layout.
       Inr (Some (remote_task te uuid ''Create Meta Tables'' ''Create Meta Tables'' ssh
         (exists_steps te ssh p containerId @
          [st_ContainerExec (te_sys te) (Some ssh) (te_opts te) (\<lambda>_. containerId)
             (''bash '' @ FSMdsCliBinDir layout @ ''/'' @ SCRIPT_CREATE_MDSV2_TABLES @ '' '' @ FSMdsCliBinaryPath layout)
             (Some (p @ ''success'')) (Some (p @ ''out'')),
           checkCreateTableSuccess (p @ ''success'')])))))"

definition NewSyncJavaOptsTask :: "'x new_service_task" where
  "NewSyncJavaOptsTask te cl mem p uuid dc =
     container_task te cl dc (\<lambda>containerId ssh.
       bindR (GetProjectLayout dc) (\<lambda>layout.
       Inr (Some (remote_task te uuid ''Sync dingo-executor Java Opts'' (service_subname dc containerId) ssh
         (exists_steps te ssh p containerId @
          [st_ContainerExec (te_sys te) (Some ssh) (te_opts te) (\<lambda>_. containerId)
             (''bash '' @ DingoExecutorBinDir layout @ ''/'' @ SCRIPT_SYNC_JAVA_OPTS @ '' '' @ DingoExecutorBinDir layout @ ''/'' @ SCRIPT_START_EXECUTOR)
             (Some (p @ ''success'')) (Some (p @ ''out''))])))))"

end
