(* ===== verification/Status_Tasks.thy ===== *)
theory Status_Tasks
  imports Service_Tasks
begin

text \<open>
  The tasks that collect the states of services: \<open>internal/task/task/common/service_status.go\<close>.  The states are kept by
  the id of the service, in the order in which the services were first seen.
\<close>

abbreviation SERVICE_STATUS_CLEANED :: string where "SERVICE_STATUS_CLEANED \<equiv> ''Cleaned''"
abbreviation SERVICE_STATUS_LOSED :: string where "SERVICE_STATUS_LOSED \<equiv> ''Losed''"
abbreviation SERVICE_STATUS_UNKNOWN :: string where "SERVICE_STATUS_UNKNOWN \<equiv> ''Unknown''"

definition setServiceStatus :: "string \<Rightarrow> service_status \<Rightarrow> 'x world \<Rightarrow> 'x world" where
  "setServiceStatus i status w = w\<lparr>w_status := AList.update i status (w_status w)\<rparr>"

text \<open>What both steps write of a service, with its ports, leadership and state.\<close>

definition status_of ::
  "deploy_config \<Rightarrow> string \<Rightarrow> string \<Rightarrow> string \<Rightarrow> bool \<Rightarrow> string \<Rightarrow> service_status res" where
  "status_of dc serviceId containerId ports isLeader status =
     bindR (GetLogDir dc) (\<lambda>l.
     bindR (GetDataDir dc) (\<lambda>d.
     bindR (GetDingoRaftDir dc) (\<lambda>r.
     bindR (GetDingoStoreDocDir dc) (\<lambda>doc.
     bindR (GetDingoStoreVectorDir dc) (\<lambda>v.
     Inr \<lparr>ss_Id = serviceId, ss_ParentId = dc_parentId dc, ss_Role = dc_role dc, ss_Host = dc_host dc,
          ss_Instances = ''1/'' @ itoa (dc_instances dc), ss_ContainerId = tui_TrimContainerId containerId, ss_Ports = ports,
          ss_IsLeader = isLeader, ss_Status = status, ss_LogDir = l, ss_DataDir = d, ss_RaftDir = r, ss_DocDir = doc,
          ss_VectorDir = v, ss_Config = dc\<rparr>)))))"

definition put_status :: "string \<Rightarrow> service_status res \<Rightarrow> 'x world step" where
  "put_status serviceId r w = (case r of Inl e \<Rightarrow> (w, Some (TErr e)) | Inr s \<Rightarrow> (setServiceStatus serviceId s w, None))"

definition step2InitStatus :: "deploy_config \<Rightarrow> string \<Rightarrow> string \<Rightarrow> 'x world step" where
  "step2InitStatus dc serviceId containerId =
     put_status serviceId (status_of dc serviceId containerId [] False SERVICE_STATUS_UNKNOWN)"

text \<open>
  The port in a line of \<open>ss\<close>, \<open>^.*:([0-9]+).*users.*$\<close>: the digits after the last colon that is followed by a digit
  and by \<open>users\<close> further on.  In a line of \<open>netstat\<close>, \<open>:::([0-9]+).*\/java\s*$\<close>: the digits after the first three colons,
  when the line ends with \<open>/java\<close>.
\<close>

definition starts_with_digit :: "string \<Rightarrow> bool" where
  "starts_with_digit s \<longleftrightarrow> (case s of [] \<Rightarrow> False | c # _ \<Rightarrow> IsDigit c)"

definition ss_port_at :: "string \<Rightarrow> nat \<Rightarrow> bool" where
  "ss_port_at line i \<longleftrightarrow>
     has_prefix (drop i line) '':'' \<and> starts_with_digit (drop (Suc i) line) \<and> str_contains (drop (i + 2) line) ''users''"

definition netstat_port_at :: "string \<Rightarrow> nat \<Rightarrow> bool" where
  "netstat_port_at line i \<longleftrightarrow>
     has_prefix (drop i line) '':::'' \<and> starts_with_digit (drop (i + 3) line) \<and>
     has_suffix (rev (dropWhile re_space (rev (drop (i + 4) line)))) ''/java''"

definition extractPort :: "string \<Rightarrow> string \<Rightarrow> string" where
  "extractPort line network_type =
     (if network_type = ''netstat''
      then (case find (netstat_port_at line) [0..<length line] of None \<Rightarrow> [] | Some i \<Rightarrow> takeWhile IsDigit (drop (i + 3) line))
      else (case find (ss_port_at line) (rev [0..<length line]) of None \<Rightarrow> [] | Some i \<Rightarrow> takeWhile IsDigit (drop (Suc i) line)))"

definition listen_ports :: "string \<Rightarrow> string \<Rightarrow> string" where
  "listen_ports out network_type =
     join '','' (filter (\<lambda>port. length port > 0) (map (\<lambda>line. extractPort line network_type) (split_on (CHR 0x0A) out)))"

definition ss_command :: string where
  "ss_command = sh_String (AddOption ''--listening'' (AddOption ''--processes'' (AddOption ''--no-header'' (AddOption ''-n''
     (sh_SocketStatistics [] NewShell)))))"

definition netstat_command :: string where
  "netstat_command = sh_String (AddOption ''-tulnp'' (sh_Netstat [] NewShell))"

definition container_exec :: "'x task_env \<Rightarrow> ssh_config \<Rightarrow> string \<Rightarrow> string \<Rightarrow> 'x world \<Rightarrow> 'x world \<times> (string \<times> cmd_err option) res" where
  "container_exec te ssh containerId command =
     on_ext (dk_Execute (te_sys te) (Some ssh) (te_opts te) (dk_ContainerExec containerId command NewShell))"

definition Step2GetListenPorts :: "'x task_env \<Rightarrow> ssh_config \<Rightarrow> string \<Rightarrow> string \<Rightarrow> string \<Rightarrow> 'x world step" where
  "Step2GetListenPorts te ssh containerId status ports w =
     (if \<not> has_prefix (w_str w status) ''Up'' then (w, None)
      else
        (case container_exec te ssh containerId ss_command w of
           (w1, Inl e) \<Rightarrow> (w1, Some (TErr e))
         | (w1, Inr (out, None)) \<Rightarrow> (set_str ports (listen_ports out ''ss'') w1, None)
         | (w1, Inr (_, Some _)) \<Rightarrow>
             (case container_exec te ssh containerId netstat_command w1 of
                (w2, Inl e) \<Rightarrow> (w2, Some (TErr e))
              | (w2, Inr (out, None)) \<Rightarrow> (set_str ports (listen_ports out ''netstat'') w2, None)
              | (w2, Inr (_, Some _)) \<Rightarrow> (w2, None))))"

definition leader_command :: "string \<Rightarrow> int \<Rightarrow> string" where
  "leader_command ip port =
     ''curl http://'' @ ip @ '':'' @ itoa port @ ''/vars/dingofs_mds_status?console=1'' @ '' --connect-timeout 1 --max-time 3''"

definition step2GetLeader :: "'x task_env \<Rightarrow> ssh_config \<Rightarrow> deploy_config \<Rightarrow> string \<Rightarrow> string \<Rightarrow> string \<Rightarrow> 'x world step" where
  "step2GetLeader te ssh dc containerId status isLeader w =
     (if \<not> has_prefix (w_str w status) ''Up'' \<or> dc_role dc \<noteq> ROLE_FS_MDS then (w, None)
      else
        (case bindR (GetListenIp dc) (\<lambda>ip. bindR (GetListenDummyPort dc) (\<lambda>port. Inr (leader_command ip port))) of
           Inl e \<Rightarrow> (w, Some (TErr e))
         | Inr command \<Rightarrow>
             (case container_exec te ssh containerId command w of
                (w1, Inl e) \<Rightarrow> (w1, Some (TErr e))
              | (w1, Inr (out, _)) \<Rightarrow> (set_bool isLeader (str_contains out ''leader'') w1, None))))"

definition final_status :: "string \<Rightarrow> string \<Rightarrow> string" where
  "final_status containerId status =
     (if containerId = CLEANED_CONTAINER_ID then SERVICE_STATUS_CLEANED
      else if length status = 0 then SERVICE_STATUS_LOSED else status)"

definition step2FormatServiceStatus :: "deploy_config \<Rightarrow> string \<Rightarrow> string \<Rightarrow> string \<Rightarrow> string \<Rightarrow> string \<Rightarrow> 'x world step" where
  "step2FormatServiceStatus dc serviceId containerId isLeader ports status w =
     put_status serviceId
       (status_of dc serviceId containerId (w_str w ports) (w_bool w isLeader) (final_status containerId (w_str w status))) w"

text \<open>The task that sets the state of a service to unknown has no connection.\<close>

definition NewInitServiceStatusTask :: "'x new_service_task" where
  "NewInitServiceStatusTask te cl mem p uuid dc =
     bindS (service_container te cl dc) (\<lambda>c.
       case c of
         None \<Rightarrow> resS (Inr None)
       | Some containerId \<Rightarrow>
           resS (Inr (Some (AddStep (step2InitStatus dc (GetServiceId (te_cli te) cl (dc_id dc)) containerId)
             (NewTask uuid ''Init Service Status'' (service_subname dc containerId) None)))))"

definition TrimContainerStatus :: "string \<Rightarrow> 'x world step" where
  "TrimContainerStatus status w = (set_str status (last (split_on (CHR 0x0A) (w_str w status))) w, None)"

definition status_steps :: "'x task_env \<Rightarrow> ssh_config \<Rightarrow> string \<Rightarrow> deploy_config \<Rightarrow> string \<Rightarrow> string \<Rightarrow> 'x world step list" where
  "status_steps te ssh p dc serviceId containerId =
     [list_container te ssh ''{{.Status}}'' containerId (p @ ''status''),
      TrimContainerStatus (p @ ''status''),
      Step2GetListenPorts te ssh containerId (p @ ''status'') (p @ ''ports''),
      step2GetLeader te ssh dc containerId (p @ ''status'') (p @ ''isLeader''),
      step2FormatServiceStatus dc serviceId containerId (p @ ''isLeader'') (p @ ''ports'') (p @ ''status'')]"

definition NewGetServiceStatusTask :: "'x new_service_task" where
  "NewGetServiceStatusTask te cl mem p uuid dc =
     container_task te cl dc (\<lambda>containerId ssh.
       Inr (Some (remote_task te uuid ''Get Service Status'' (service_subname dc containerId) ssh
         (status_steps te ssh p dc (GetServiceId (te_cli te) cl (dc_id dc)) containerId))))"

end
