(* ===== verification/Monitor_Tasks.thy ===== *)
theory Monitor_Tasks
  imports Monitor_Ops Service_Tasks Config_Tasks Status_Tasks
begin

text \<open>
  The tasks on the monitor services: \<open>internal/task/task/monitor\<close>.  They use the container steps of \<open>Service_Tasks\<close> and
  keep the containers in the same table.

  The decoding of the answer of grafana (\<open>encoding/json\<close>) is the argument \<open>uid_of\<close> of the step that uses it: \<open>None\<close> when
  the text is not a non-empty list of objects, and otherwise the string under \<open>uid\<close> of the first, if it is one.
\<close>

type_synonym 'x new_monitor_task =
  "'x task_env \<Rightarrow> dingocli \<Rightarrow> omap \<Rightarrow> string \<Rightarrow> string \<Rightarrow> monitor_config \<Rightarrow> db \<Rightarrow> db \<times> 'x world task option res"

abbreviation ROLE_MONITOR_CONF :: string where "ROLE_MONITOR_CONF \<equiv> ''monitor_conf''"

definition mc_IsSkip :: "monitor_config \<Rightarrow> string list \<Rightarrow> bool" where
  "mc_IsSkip mc roles \<longleftrightarrow> list_ex (\<lambda>r. mc_role mc = r) roles"

definition mc_service :: "'x task_env \<Rightarrow> dingocli \<Rightarrow> monitor_config \<Rightarrow> string" where
  "mc_service te cl mc = GetServiceId (te_cli te) cl (mc_id mc)"

definition mc_subname :: "monitor_config \<Rightarrow> string \<Rightarrow> string" where
  "mc_subname mc containerId =
     ''host='' @ mc_host mc @ '' role='' @ mc_role mc @ '' containerId='' @ tui_TrimContainerId containerId"

text \<open>A task on the container of a monitor service, except for the given roles.\<close>

definition mc_task ::
  "'x task_env \<Rightarrow> dingocli \<Rightarrow> monitor_config \<Rightarrow> string list \<Rightarrow> (string \<Rightarrow> ssh_config \<Rightarrow> db \<Rightarrow> db \<times> 'x world task option res) \<Rightarrow>
   db \<Rightarrow> db \<times> 'x world task option res" where
  "mc_task te cl mc roles k d =
     (let (d1, r) = cli_GetContainerId (mc_service te cl mc) d in
      if mc_IsSkip mc roles then (d1, Inr None)
      else bindS (resS (bindR r (\<lambda>c. bindR (host_ssh te cl (mc_host mc)) (\<lambda>ssh. Inr (c, ssh))))) (\<lambda>(c, ssh). k c ssh) d1)"

section \<open>Images and containers\<close>

definition mc_NewPullImageTask :: "'x new_monitor_task" where
  "mc_NewPullImageTask te cl mem p uuid mc =
     resS (bindR (mc_GetImage mc) (\<lambda>img.
           bindR (host_ssh te cl (mc_host mc)) (\<lambda>ssh.
           Inr (Some (remote_task te uuid ''Pull Image'' (''host='' @ mc_host mc @ '' image='' @ img) ssh
             [st_PullImage (te_sys te) (Some ssh) (te_opts te) img None])))))"

definition getEntrypoint :: "monitor_config \<Rightarrow> string" where
  "getEntrypoint mc = (if mc_role mc = ROLE_MONITOR_SYNC then ''/dingofs/monitor/start_monitor_sync.sh'' else [])"

definition args_map :: "monitor_config \<Rightarrow> (string \<times> string option) list res" where
  "args_map mc =
     (if mc_role mc = ROLE_NODE_EXPORTER then
        bindR (mc_GetListenPort mc) (\<lambda>port.
          Inr [(''path.rootfs'', Some ''/host''), (''collector.cpu.info'', None), (''web.listen-address'', Some ('':'' @ itoa port))])
      else if mc_role mc = ROLE_PROMETHEUS then
        bindR (mc_GetPrometheusRetentionTime mc) (\<lambda>time.
        bindR (mc_GetPrometheusRetentionSize mc) (\<lambda>size.
        bindR (mc_GetListenPort mc) (\<lambda>port.
          Inr [(''config.file'', Some ''/etc/prometheus/prometheus.yml''), (''storage.tsdb.path'', Some ''/prometheus''),
               (''storage.tsdb.retention.time'', Some time), (''storage.tsdb.retention.size'', Some size),
               (''web.console.libraries'', Some ''/usr/share/prometheus/console_libraries''),
               (''web.console.templates'', Some ''/usr/share/prometheus/consoles''), (''web.listen-address'', Some ('':'' @ itoa port))])))
      else Inr [])"

definition getArguments :: "(string list \<Rightarrow> string list) \<Rightarrow> monitor_config \<Rightarrow> string res" where
  "getArguments order mc =
     bindR (args_map mc) (\<lambda>args.
       Inr (join '' '' (map (\<lambda>k. ''--'' @ k @ (case map_of args k of Some (Some v) \<Rightarrow> ''='' @ v | _ \<Rightarrow> [])) (order (map fst args)))))"

definition mc_getMountVolumes :: "monitor_config \<Rightarrow> volume list res" where
  "mc_getMountVolumes mc =
     (let vol = (\<lambda>h c. \<lparr>vol_HostPath = h, vol_ContainerPath = c\<rparr>) in
      if mc_role mc = ROLE_NODE_EXPORTER then
        Inr [vol ''/'' ''/host:ro,rslave'', vol ''/run/udev/data'' ''/run/udev/data'',
             vol ''/run/dbus/system_bus_socket'' ''/var/run/dbus/system_bus_socket:ro'']
      else if mc_role mc = ROLE_PROMETHEUS then
        bindR (mc_GetDataDir mc) (\<lambda>d. bindR (mc_GetConfDir mc) (\<lambda>c. Inr [vol d ''/prometheus'', vol c ''/etc/prometheus'']))
      else if mc_role mc = ROLE_GRAFANA then
        bindR (mc_GetDataDir mc) (\<lambda>d. bindR (mc_GetConfDir mc) (\<lambda>c. bindR (mc_GetProvisionDir mc) (\<lambda>pr.
          Inr [vol d ''/var/lib/grafana'', vol c ''/etc/grafana'', vol pr ''/etc/grafana/provisioning''])))
      else if mc_role mc = ROLE_MONITOR_SYNC then bindR (mc_GetDataDir mc) (\<lambda>d. Inr [vol d ''/dingofs/monitor''])
      else Inr [])"

definition mc_getEnvironments :: "monitor_config \<Rightarrow> string list res" where
  "mc_getEnvironments mc =
     (if mc_role mc = ROLE_GRAFANA then
        bindR (mc_GetGrafanaUser mc) (\<lambda>user. bindR (mc_GetGrafanaPassword mc) (\<lambda>pw. bindR (mc_GetListenPort mc) (\<lambda>port.
          Inr [''GF_SECURITY_ADMIN_USER='' @ user, ''GF_SECURITY_ADMIN_PASSWORD='' @ pw, ''GF_SERVER_HTTP_PORT='' @ itoa port])))
      else Inr [])"

definition mc_paths :: "monitor_config \<Rightarrow> string list res" where
  "mc_paths mc =
     bindR (mc_GetDataDir mc) (\<lambda>d.
       if mc_role mc = ROLE_GRAFANA
       then bindR (mc_GetConfDir mc) (\<lambda>c. bindR (mc_GetProvisionDir mc) (\<lambda>pr. Inr [d, c, pr @ ''/datasources'']))
       else if mc_role mc = ROLE_PROMETHEUS then bindR (mc_GetConfDir mc) (\<lambda>c. Inr [d, c])
       else Inr [d])"

definition mc_container_spec :: "'x task_env \<Rightarrow> monitor_config \<Rightarrow> string \<Rightarrow> create_container res" where
  "mc_container_spec te mc hostname =
     bindR (mc_GetImage mc) (\<lambda>img.
     bindR (getArguments (te_order te) mc) (\<lambda>cmd.
     bindR (mc_getEnvironments mc) (\<lambda>envs.
     bindR (mc_getMountVolumes mc) (\<lambda>volumes.
     Inr (zero_create_container\<lparr>cc_Image := img, cc_Entrypoint := getEntrypoint mc, cc_Command := cmd,
            cc_AddHost := [hostname @ '':127.0.0.1''], cc_Envs := envs, cc_Hostname := hostname,
            cc_Init := (xo_ExecWithEngine (te_opts te) = ''docker''), cc_Name := hostname, cc_Privileged := True, cc_User := ''0:0'',
            cc_Pid := ''host'', cc_Restart := ''no'', cc_Ulimits := [''core=-1''], cc_Volumes := volumes\<rparr>)))))"

definition mc_NewCreateContainerTask :: "'x new_monitor_task" where
  "mc_NewCreateContainerTask te cl mem p uuid mc =
     resS (bindR (host_ssh te cl (mc_host mc)) (\<lambda>ssh.
       let serviceId = mc_service te cl mc; hostname = container_hostname (mc_kind mc) (mc_role mc) serviceId in
       bindR (mc_paths mc) (\<lambda>paths.
       bindR (mc_container_spec te mc hostname) (\<lambda>spec.
       Inr (Some (remote_task te uuid ''Create Container'' (''host='' @ mc_host mc @ '' role='' @ mc_role mc) ssh
         (create_steps te ssh p (cl_clusterId cl) serviceId paths spec)))))))"

section \<open>Start, stop, restart, clean\<close>

definition mc_NewStartServiceTask :: "'x new_monitor_task" where
  "mc_NewStartServiceTask te cl mem p uuid mc =
     mc_task te cl mc [ROLE_MONITOR_CONF] (\<lambda>containerId ssh.
       resS (Inr (Some (remote_task te uuid ''Start Service'' (mc_subname mc containerId) ssh (start_steps te ssh p containerId)))))"

definition mc_NewRestartServiceTask :: "'x new_monitor_task" where
  "mc_NewRestartServiceTask te cl mem p uuid mc =
     mc_task te cl mc [ROLE_MONITOR_CONF] (\<lambda>containerId ssh.
       resS (Inr (Some (remote_task te uuid ''Restart Monitor Service'' (mc_subname mc containerId) ssh (restart_steps te ssh p containerId)))))"

definition mc_stop_steps :: "'x task_env \<Rightarrow> ssh_config \<Rightarrow> string \<Rightarrow> string \<Rightarrow> 'x world step list" where
  "mc_stop_steps te ssh p containerId =
     [list_container te ssh ''{{.ID}}'' containerId (p @ ''out''), CheckContainerExist (p @ ''out''),
      st_StopContainer (te_sys te) (Some ssh) (te_opts te) containerId 0 (Some (p @ ''out''))]"

definition mc_NewStopServiceTask :: "'x new_monitor_task" where
  "mc_NewStopServiceTask te cl mem p uuid mc =
     mc_task te cl mc [ROLE_MONITOR_CONF] (\<lambda>containerId ssh.
       resS (Inr (Some (remote_task te uuid ''Stop Service'' (mc_subname mc containerId) ssh (mc_stop_steps te ssh p containerId)))))"

definition mc_getCleanFiles :: "(string list \<Rightarrow> string list) \<Rightarrow> bmap \<Rightarrow> monitor_config \<Rightarrow> string list res" where
  "mc_getCleanFiles order clean mc =
     bindR (mapR (\<lambda>item. if item = CLEAN_ITEM_DATA then bindR (mc_GetDataDir mc) (\<lambda>d. Inr [d]) else Inr []) (order (map fst clean))) (\<lambda>fs.
       Inr (concat fs))"

definition NewCleanMonitorTask :: "'x new_monitor_task" where
  "NewCleanMonitorTask te cl mem p uuid mc d =
     (let serviceId = mc_service te cl mc; (d1, r) = cli_GetContainerId serviceId d in
      (d1,
       bindR r (\<lambda>containerId.
         if mc_role mc = ROLE_MONITOR_SYNC \<and> (length containerId = 0 \<or> containerId = CLEANED_CONTAINER_ID) then Inr None
         else
           bindR (cli_GetHost (te_cli te) cl (mc_host mc)) (\<lambda>hc.
           bindR (mem_strs mem ''CLEAN_ITEMS'') (\<lambda>only.
           bindR (hc_GetSSHConfig (env_host (te_cli te)) hc) (\<lambda>ssh.
           bindR (mc_getCleanFiles (te_order te) (Slice2Map only) mc) (\<lambda>files.
           Inr (Some (remote_task te uuid ''Clean Monitor'' (mc_subname mc containerId @ '' clean='' @ join '','' only) ssh
             (clean_steps_of te ssh serviceId containerId (Slice2Map only) files)))))))))) "

definition NewCleanConfigContainerTask :: "'x new_monitor_task" where
  "NewCleanConfigContainerTask te cl mem p uuid mc d =
     (if mc_role mc \<noteq> ROLE_MONITOR_CONF then (d, Inr None)
      else
        (case cli_GetHost (te_cli te) cl (mc_host mc) of
           Inl e \<Rightarrow> (d, Inl e)
         | Inr hc \<Rightarrow>
             (let serviceId = mc_service te cl mc; (d1, r) = cli_GetContainerId serviceId d in
              (d1, bindR r (\<lambda>containerId. bindR (hc_GetSSHConfig (env_host (te_cli te)) hc) (\<lambda>ssh.
                 Inr (Some (remote_task te uuid ''Clean Config Container'' [] ssh [Step2CleanContainer te ssh serviceId containerId]))))))))"

section \<open>States\<close>

definition setMonitorStatus :: "string \<Rightarrow> monitor_status \<Rightarrow> 'x world \<Rightarrow> 'x world" where
  "setMonitorStatus i status w = w\<lparr>w_mstatus := AList.update i status (w_mstatus w)\<rparr>"

text \<open>The step that formats the state does not set the sequence of the host.\<close>

definition step2InitMonitorStatus :: "monitor_config \<Rightarrow> string \<Rightarrow> string \<Rightarrow> 'x world step" where
  "step2InitMonitorStatus mc serviceId containerId w =
     (case mc_GetDataDir mc of
        Inl e \<Rightarrow> (w, Some (TErr e))
      | Inr d \<Rightarrow>
          (setMonitorStatus serviceId
             \<lparr>mst_Id = serviceId, mst_Role = mc_role mc, mst_Host = mc_host mc, mst_HostSequence = mc_hostSequence mc,
              mst_ContainerId = tui_TrimContainerId containerId, mst_Ports = [], mst_Status = SERVICE_STATUS_UNKNOWN, mst_DataDir = d,
              mst_Config = mc\<rparr> w, None))"

definition step2FormatMonitorStatus :: "monitor_config \<Rightarrow> string \<Rightarrow> string \<Rightarrow> string \<Rightarrow> string \<Rightarrow> 'x world step" where
  "step2FormatMonitorStatus mc serviceId containerId ports status w =
     (case mc_GetDataDir mc of
        Inl e \<Rightarrow> (w, Some (TErr e))
      | Inr d \<Rightarrow>
          (setMonitorStatus serviceId
             \<lparr>mst_Id = serviceId, mst_Role = mc_role mc, mst_Host = mc_host mc, mst_HostSequence = 0,
              mst_ContainerId = tui_TrimContainerId containerId, mst_Ports = ports,
              mst_Status = final_status containerId (w_str w status), mst_DataDir = d, mst_Config = mc\<rparr> w, None))"

definition NewInitMonitorStatusTask :: "'x new_monitor_task" where
  "NewInitMonitorStatusTask te cl mem p uuid mc d =
     (let (d1, r) = cli_GetContainerId (mc_service te cl mc) d in
      (d1, if mc_IsSkip mc [ROLE_MONITOR_CONF] then Inr None
           else bindR r (\<lambda>containerId.
             Inr (Some (AddStep (step2InitMonitorStatus mc (mc_service te cl mc) containerId)
               (NewTask uuid ''Init Monitor Status'' (mc_subname mc containerId) None))))))"

definition NewGetMonitorStatusTask :: "'x new_monitor_task" where
  "NewGetMonitorStatusTask te cl mem p uuid mc =
     mc_task te cl mc [ROLE_MONITOR_CONF] (\<lambda>containerId ssh.
       resS (bindR (mc_GetListenPort mc) (\<lambda>port.
         Inr (Some (remote_task te uuid ''Get Monitor Status'' (mc_subname mc containerId) ssh
           [list_container te ssh ''{{.Status}}'' containerId (p @ ''status''), TrimContainerStatus (p @ ''status''),
            step2FormatMonitorStatus mc (mc_service te cl mc) containerId (itoa port) (p @ ''status'')])))))"

section \<open>Configuration\<close>

definition combineSedCMD :: "string \<Rightarrow> string \<Rightarrow> string" where
  "combineSedCMD provisionDir prometheusUid =
     ''sed -i '' @ [CHR 0x27] @ ''s/${PROMETHEUS_UID}/'' @ prometheusUid @ ''/g'' @ [CHR 0x27] @ '' '' @ provisionDir @ ''/dashboards/server_metric_zh.json''"

definition datasources_curl :: "'x task_env \<Rightarrow> ssh_config \<Rightarrow> int \<Rightarrow> string \<Rightarrow> 'x world step" where
  "datasources_curl te ssh port info =
     st_Curl (te_sys te) (Some ssh) (te_opts te) (''-u admin:admin http://localhost:'' @ itoa port @ ''/api/datasources'') [] True [] True None (Some info)"

text \<open>Up to ten tries, three seconds apart; what the commands return is not looked at.\<close>

fun sync_uid_loop ::
  "(string \<Rightarrow> string option option) \<Rightarrow> 'x task_env \<Rightarrow> ssh_config \<Rightarrow> int \<Rightarrow> string \<Rightarrow> string \<Rightarrow> nat \<Rightarrow> 'x world \<Rightarrow> 'x world \<times> terr option" where
  "sync_uid_loop uid_of te ssh port provisionDir info 0 w = (w, Some (TErr (RawErr ''failed to fetch prometheus info'')))"
| "sync_uid_loop uid_of te ssh port provisionDir info (Suc n) w =
     (let (w1, err) = datasources_curl te ssh port info w in
      if err = Some (TErr GoPanic) then (w1, err)
      else if length (w_str w1 info) > 0 \<and> uid_of (w_str w1 info) \<noteq> None then
        (case the (uid_of (w_str w1 info)) of
           None \<Rightarrow> (w1, None)
         | Some uid \<Rightarrow>
             (let (w2, err2) = st_Command (te_sys te) (Some ssh) (te_opts te) (combineSedCMD provisionDir uid) None None w1
              in (w2, if err2 = Some (TErr GoPanic) then err2 else None)))
      else sync_uid_loop uid_of te ssh port provisionDir info n (w1\<lparr>w_ext := sys_sleep (te_sys te) 3 (w_ext w1)\<rparr>))"

definition syncPrometheusUid :: "(string \<Rightarrow> string option option) \<Rightarrow> 'x task_env \<Rightarrow> ssh_config \<Rightarrow> monitor_config \<Rightarrow> string \<Rightarrow> 'x world step" where
  "syncPrometheusUid uid_of te ssh mc info w =
     (case bindR (mc_GetListenPort mc) (\<lambda>port. bindR (mc_GetProvisionDir mc) (\<lambda>pr. Inr (port, pr))) of
        Inl e \<Rightarrow> (w, Some (TErr e))
      | Inr (port, pr) \<Rightarrow> sync_uid_loop uid_of te ssh port pr info 10 (set_str info [] w))"

definition MutateTool :: "monitor_config \<Rightarrow> string \<Rightarrow> string \<Rightarrow> string \<Rightarrow> string \<Rightarrow> string res" where
  "MutateTool mc delimiter inp key val =
     (if length key = 0 then Inr inp
      else case mc_variables mc of
        None \<Rightarrow> Inl GoPanic
      | Some vars \<Rightarrow> bindR (Rendering vars val) (\<lambda>v. Inr (key @ delimiter @ v)))"

definition getNodeExporterAddrs :: "string list \<Rightarrow> int \<Rightarrow> string" where
  "getNodeExporterAddrs hosts port =
     ''['' @ join '','' (map (\<lambda>h. [CHR 0x27] @ h @ '':'' @ itoa port @ [CHR 0x27]) hosts) @ '']''"

definition replace_port :: "int \<Rightarrow> string \<Rightarrow> string" where
  "replace_port port path =
     ''sed -i '' @ [CHR 0x27] @ ''s/localhost:[0-9]*/localhost:'' @ itoa port @ ''/g'' @ [CHR 0x27] @ '' '' @ path"

definition host_command :: "'x task_env \<Rightarrow> ssh_config \<Rightarrow> string \<Rightarrow> string \<Rightarrow> 'x world step" where
  "host_command te ssh p command = st_Command (te_sys te) (Some ssh) (te_opts te) command None (Some (p @ ''out''))"

definition install_script :: "'x task_env \<Rightarrow> ssh_config \<Rightarrow> string \<Rightarrow> string \<Rightarrow> 'x world step" where
  "install_script te ssh script path = st_InstallFile (te_sys te) (Some ssh) (te_opts te) (\<lambda>_. te_scripts te script) path (\<lambda>_. []) []"

definition prometheus_steps :: "'x task_env \<Rightarrow> ssh_config \<Rightarrow> string \<Rightarrow> monitor_config \<Rightarrow> 'x world step list res" where
  "prometheus_steps te ssh p mc =
     bindR (mc_GetListenPort mc) (\<lambda>port.
     bindR (mc_GetConfDir mc) (\<lambda>conf.
     bindR (mc_GetNodeIps mc) (\<lambda>ips.
     bindR (mc_GetNodeListenPort mc) (\<lambda>nodePort.
     Inr [host_command te ssh p (replace_port port (conf @ ''/prometheus.yml'')),
          install_script te ssh ''SYNC_PROMETHEUS'' (conf @ ''/sync_prometheus.sh''),
          host_command te ssh p (''bash '' @ conf @ ''/sync_prometheus.sh '' @ conf @ ''/prometheus.yml '' @ getNodeExporterAddrs ips nodePort)]))))"

definition grafana_steps :: "'x task_env \<Rightarrow> ssh_config \<Rightarrow> string \<Rightarrow> monitor_config \<Rightarrow> 'x world step list res" where
  "grafana_steps te ssh p mc =
     bindR (mc_GetPrometheusListenPort mc) (\<lambda>port.
     bindR (mc_GetProvisionDir mc) (\<lambda>pr.
     Inr [host_command te ssh p (replace_port port (pr @ ''/datasources/all.yml''))]))"

abbreviation DINGO_TOOL_DEST_PATH :: string where "DINGO_TOOL_DEST_PATH \<equiv> ''/root/.dingo/dingo.yaml''"
abbreviation ORIGIN_MONITOR_PATH :: string where "ORIGIN_MONITOR_PATH \<equiv> ''/dingofs/monitor''"

definition monitor_sync_steps :: "'x task_env \<Rightarrow> ssh_config \<Rightarrow> string \<Rightarrow> monitor_config \<Rightarrow> string \<Rightarrow> string \<Rightarrow> 'x world step list res" where
  "monitor_sync_steps te ssh p mc containerId confContainerId =
     bindR (mc_GetDataDir mc) (\<lambda>dir.
     Inr [st_TrySyncFile (te_sys te) (Some ssh) (te_opts te) (\<lambda>_. confContainerId) DINGO_TOOL_DEST_PATH (\<lambda>_. containerId) DINGO_TOOL_DEST_PATH
            CONFIG_DELIMITER_COLON (MutateTool mc CONFIG_DELIMITER_COLON),
          copy_files_from_container (te_sys te) (Some ssh) (te_opts te) [ORIGIN_MONITOR_PATH] confContainerId dir True,
          install_script te ssh ''START_MONITOR_SYNC'' (dir @ ''/start_monitor_sync.sh''),
          host_command te ssh p (''chmod +x '' @ dir @ ''/start_monitor_sync.sh'')])"

definition mc_NewSyncConfigTask :: "'x new_monitor_task" where
  "mc_NewSyncConfigTask te cl mem p uuid mc =
     mc_task te cl mc [ROLE_MONITOR_CONF, ROLE_NODE_EXPORTER] (\<lambda>containerId ssh.
       let finish = (\<lambda>r. bindR r (\<lambda>ss. Inr (Some (remote_task te uuid ''Sync Config'' (mc_subname mc containerId) ssh
             (exists_steps te ssh p containerId @ ss)))))
       in if mc_role mc = ROLE_PROMETHEUS then resS (finish (prometheus_steps te ssh p mc))
          else if mc_role mc = ROLE_GRAFANA then resS (finish (grafana_steps te ssh p mc))
          else if mc_role mc = ROLE_MONITOR_SYNC then
            bindS (resS (as_string (gget (mc_config mc) KEY_ORIGIN_CONFIG_ID))) (\<lambda>confID.
            bindS (cli_GetContainerId (GetServiceId (te_cli te) cl confID)) (\<lambda>confContainerId.
            resS (finish (monitor_sync_steps te ssh p mc containerId confContainerId))))
          else resS (finish (Inr [])))"

definition NewSyncGrafanaDashboardTask :: "(string \<Rightarrow> string option option) \<Rightarrow> 'x new_monitor_task" where
  "NewSyncGrafanaDashboardTask uid_of te cl mem p uuid mc =
     mc_task te cl mc [ROLE_MONITOR_CONF, ROLE_NODE_EXPORTER] (\<lambda>containerId ssh.
       resS (bindR (mc_GetProvisionDir mc) (\<lambda>pr.
         Inr (Some (remote_task te uuid ''Sync Grafana Dashboard'' (mc_subname mc containerId) ssh
           (exists_steps te ssh p containerId @
            [install_script te ssh ''GRAFANA_SERVER_METRIC'' (pr @ ''/dashboards/server_metric_zh.json''),
             syncPrometheusUid uid_of te ssh mc (p @ ''info'')]))))))"

text \<open>The configuration directory is used as a format of \<open>Sprintf\<close>: it has no percent sign.\<close>

definition NewSyncHostsMappingTask :: "'x new_monitor_task" where
  "NewSyncHostsMappingTask te cl mem p uuid mc d =
     (if mc_role mc \<noteq> ROLE_PROMETHEUS then (d, Inr None)
      else
        mc_task te cl mc [] (\<lambda>containerId ssh.
          resS (bindR (mc_GetConfDir mc) (\<lambda>conf.
            Inr (Some (remote_task te uuid ''Sync Host Mapping'' (mc_subname mc containerId) ssh
              (exists_steps te ssh p containerId @
               [install_script te ssh ''EXTRACT_HOSTS'' (conf @ ''/extract_hosts.sh''),
                host_command te ssh p (''bash '' @ conf @ ''/extract_hosts.sh '' @ conf @ ''/mutate_hosts''),
                st_ContainerExec (te_sys te) (Some ssh) (te_opts te) (\<lambda>_. containerId)
                  (''sh -c '' @ [CHR 0x27] @ ''cat /etc/prometheus/mutate_hosts >> /etc/hosts'' @ [CHR 0x27]) None (Some (p @ ''out''))])))))) d)"

end
