(* ===== verification/Service_Life.thy ===== *)
theory Service_Life
  imports Service_Tasks Storage_Spec
begin

text \<open>
  What the tasks of \<open>Service_Tasks\<close> do to the record of containers.  The interface \<open>service_command\<close> says what every one of
  them keeps; it is interpreted on the tasks that create, start, stop, restart and clean services (and in \<open>Monitor_Life\<close> on
  those of monitor services).  The outcomes of creating, starting and cleaning follow.
\<close>

section \<open>Output\<close>

lemma TrimSuffixRepeat_newline:
  "TrimSuffixRepeat s [CHR 0x0A] = Some (rev (dropWhile (\<lambda>c. c = CHR 0x0A) (rev s)))"
proof (induction s rule: rev_induct)
  case Nil
  show ?case by (subst TrimSuffixRepeat.simps) (simp add: has_suffix_def)
next
  case (snoc c s)
  have "has_suffix (s @ [c]) [CHR 0x0A] \<longleftrightarrow> c = CHR 0x0A" "trim_suffix (s @ [CHR 0x0A]) [CHR 0x0A] = s"
    by (auto simp: has_suffix_def trim_suffix_def)
  with snoc show ?case by (subst TrimSuffixRepeat.simps) simp
qed

lemma trim_newlines_eq [code]: "trim_newlines s = rev (dropWhile (\<lambda>c. c = CHR 0x0A) (rev s))"
  by (simp add: trim_newlines_def TrimSuffixRepeat_newline)

section \<open>What steps leave alone\<close>

text \<open>Steps that do not touch the database, and steps that write no variable.\<close>

named_theorems db_silent_intros
named_theorems str_silent_intros

definition db_silent :: "'x world step \<Rightarrow> bool" where
  "db_silent s \<longleftrightarrow> (\<forall>w. w_db (fst (s w)) = w_db w)"

definition str_silent :: "'x world step \<Rightarrow> bool" where
  "str_silent s \<longleftrightarrow> (\<forall>w. w_str (fst (s w)) = w_str w)"

lemma db_silentD: "db_silent s \<Longrightarrow> s w = (w', r) \<Longrightarrow> w_db w' = w_db w"
  by (metis db_silent_def fst_conv)

lemma str_silentD: "str_silent s \<Longrightarrow> s w = (w', r) \<Longrightarrow> w_str w' = w_str w"
  by (metis str_silent_def fst_conv)

lemma world_set [simp]:
  "w_db (set_str p v w) = w_db w" "w_db (set_bool p b w) = w_db w"
  "w_str (set_str p v w) = (w_str w)(p := v)" "w_str (set_bool p b w) = w_str w"
  "w_ext (set_str p v w) = w_ext w" "w_ext (set_bool p b w) = w_ext w"
  "w_bool (set_str p v w) = w_bool w" "w_bool (set_bool p b w) = (w_bool w)(p := b)"
  by (simp_all add: set_str_def set_bool_def)

lemma on_ext_keeps [simp]:
  "on_ext f w = (w', r) \<Longrightarrow> w_db w' = w_db w" "on_ext f w = (w', r) \<Longrightarrow> w_str w' = w_str w" "on_ext f w = (w', r) \<Longrightarrow> w_bool w' = w_bool w"
  by (auto simp: on_ext_def Let_def split: prod.splits)

lemma PostHandle_db [simp]: "w_db (fst (PostHandle succ outp out err ec w)) = w_db w"
  by (auto simp: PostHandle_def Let_def split: option.splits cmd_err.splits)

lemma PostHandle_str [simp]: "w_str (fst (PostHandle succ None out err ec w)) = w_str w"
  by (auto simp: PostHandle_def Let_def split: option.splits cmd_err.splits)

lemma handled_db [db_silent_intros]: "db_silent (handled f succ outp ec)"
  unfolding db_silent_def handled_def by (auto split: prod.splits sum.splits)

lemma handled_fst_db [simp]: "w_db (fst (handled f succ outp ec w)) = w_db w"
  using handled_db [of f succ outp ec] by (simp add: db_silent_def)

lemma handled_str [str_silent_intros]: "str_silent (handled f succ None ec)"
  unfolding str_silent_def handled_def by (auto split: prod.splits sum.splits)

lemma CreateDirectory_db [db_silent_intros]: "db_silent (st_CreateDirectory sys ssh xo paths succ outp)"
proof -
  have "w_db (fst (st_CreateDirectory sys ssh xo paths succ outp w)) = w_db w" for w
    by (induction sys ssh xo paths succ outp w rule: st_CreateDirectory.induct)
      (auto split: prod.splits option.splits simp: db_silentD [OF handled_db])
  then show ?thesis by (simp add: db_silent_def)
qed

lemma CreateDirectory_str [str_silent_intros]: "str_silent (st_CreateDirectory sys ssh xo paths succ None)"
proof -
  have "w_str (fst (st_CreateDirectory sys ssh xo paths succ outp w)) = w_str w" if "outp = None" for w outp
    using that by (induction sys ssh xo paths succ outp w rule: st_CreateDirectory.induct)
      (auto split: prod.splits option.splits simp: str_silentD [OF handled_str])
  then show ?thesis by (simp add: str_silent_def)
qed

lemma RemoveFile_db [db_silent_intros]: "db_silent (st_RemoveFile sys ssh xo files outp)"
proof -
  have "w_db (fst (st_RemoveFile sys ssh xo files outp w)) = w_db w" for w
  proof (induction sys ssh xo files outp w rule: st_RemoveFile.induct)
    case (2 sys ssh xo f files outp w)
    then show ?case
      by (auto split: prod.splits sum.splits option.splits dest!: on_ext_keeps(1))
        (metis PostHandle_db fst_conv)+
  qed simp
  then show ?thesis by (simp add: db_silent_def)
qed

lemma list_container_db [db_silent_intros]: "db_silent (list_container te ssh fmt c outp)"
  unfolding list_container_def st_ListContainers_def by (rule handled_db)

lemma simple_steps_db [db_silent_intros]:
  "db_silent (TrimContainerId c)" "db_silent (CheckContainerExist p)" "db_silent (checkContainerId c)" "db_silent (checkContainerStatus p)"
  "db_silent (WaitContainerStart te n)"
  by (simp_all add: db_silent_def TrimContainerId_def CheckContainerExist_def checkContainerId_def checkContainerStatus_def WaitContainerStart_def)

lemma engine_steps_db [db_silent_intros]:
  "db_silent (st_StartContainer sys ssh xo idp succ outp)" "db_silent (st_RestartContainer sys ssh xo c outp)"
  "db_silent (st_StopContainer sys ssh xo c n outp)" "db_silent (st_CreateContainer sys ssh xo spec outp)"
  "db_silent (Step2CheckPostStart te ssh' c suc sta)"
  by (auto simp: db_silent_def st_StartContainer_def st_RestartContainer_def st_StopContainer_def st_CreateContainer_def
      Step2CheckPostStart_def st_InspectContainer_def split: option.splits prod.splits dest: db_silentD [OF handled_db])

lemma run_steps_db: "\<forall>s \<in> set ss. db_silent s \<Longrightarrow> run_steps ss w = (w', r) \<Longrightarrow> w_db w' = w_db w"
proof (induction ss arbitrary: w)
  case (Cons s ss)
  obtain w1 r1 where s: "s w = (w1, r1)" by fastforce
  with Cons.prems have d: "w_db w1 = w_db w" by (auto dest: db_silentD)
  show ?case
  proof (cases r1)
    case None
    with Cons s d show ?thesis by auto
  next
    case (Some e)
    with Cons.prems s d show ?thesis by (auto split: if_splits)
  qed
qed simp

section \<open>Tasks on a connection\<close>

lemma fold_AddStep_task: "t_steps (fold AddStep ss t) = t_steps t @ ss" "t_postSteps (fold AddStep ss t) = t_postSteps t"
  "t_ssh (fold AddStep ss t) = t_ssh t"
  by (induction ss arbitrary: t) (auto simp: AddStep_def)

lemma remote_task_sel:
  "t_steps (remote_task te uuid name sub ssh ss) = ss" "t_postSteps (remote_task te uuid name sub ssh ss) = []"
  "t_ssh (remote_task te uuid name sub ssh ss) = Some (on_ext (NewSSHClient (te_sys te) (te_retries te) ssh))"
  by (simp_all add: remote_task_def fold_AddStep_task NewTask_def Let_def)

text \<open>A remote task that does not get its connection changes nothing but the external state; otherwise its steps run.\<close>

lemma remote_task_cases:
  assumes "Task_Execute (remote_task te uuid name sub ssh ss) w = (w', res)"
  obtains (refused) x where "w' = w\<lparr>w_ext := x\<rparr>" and "res = Some (TErr (Ec ERR_SSH_CONNECT_FAILED))"
  | (connected) x where "run_steps ss (w\<lparr>w_ext := x\<rparr>) = (w', res)"
proof -
  obtain x ok where x: "NewSSHClient (te_sys te) (te_retries te) ssh (w_ext w) = (x, ok)" by fastforce
  show thesis
  proof (cases ok)
    case True
    with assms x show thesis by (intro connected) (auto simp: Task_Execute_def remote_task_sel on_ext_def split: prod.splits)
  next
    case False
    with assms x show thesis by (intro refused) (auto simp: Task_Execute_def remote_task_sel on_ext_def)
  qed
qed

section \<open>The record of containers\<close>

definition container_of :: "db \<Rightarrow> string \<Rightarrow> string" where
  "container_of d sid = (case service_content d sid of None \<Rightarrow> [] | Some (_, c) \<Rightarrow> c)"

abbreviation live :: "string \<Rightarrow> bool" where
  "live c \<equiv> c \<noteq> [] \<and> c \<noteq> CLEANED_CONTAINER_ID"

lemma service_content_cong: "db_containers d' = db_containers d \<Longrightarrow> service_content d' = service_content d"
  by (simp add: service_content_def fun_eq_iff)

lemma filter_find_head: "(case filter P rows of [] \<Rightarrow> a | r # _ \<Rightarrow> f r) = (case find P rows of None \<Rightarrow> a | Some r \<Rightarrow> f r)"
  by (induction rows) auto

lemma GetContainerId_reads:
  assumes "GetContainerId sid d = (d', r)"
  shows "service_content d' = service_content d" and "r = Inl DriverFault \<or> r = Inr (container_of d sid)"
    and "db_faults d = [] \<Longrightarrow> d' = d \<and> r = Inr (container_of d sid)"
proof -
  obtain t b where t: "tick d = (t, b)" by fastforce
  with tick_tables [OF t] have c: "db_containers t = db_containers d" by simp
  have g: "GetContainerId sid d = (t, if b then Inl DriverFault else Inr (container_of d sid))"
    using t c filter_find_head [of "[]" srv_ContainerId "\<lambda>r. srv_Id r = sid" "db_containers d"]
    by (auto simp: GetContainerId_def db_Query_def bindD_def returnD_def container_of_def service_content_def split: list.splits option.splits)
  with assms c service_content_cong [OF c] show "service_content d' = service_content d" "r = Inl DriverFault \<or> r = Inr (container_of d sid)"
    by (simp, simp split: if_splits)
  assume "db_faults d = []"
  with t g assms show "d' = d \<and> r = Inr (container_of d sid)" by auto
qed

lemma find_update_where:
  "(\<And>r. key (f r) = key r) \<Longrightarrow>
   find (\<lambda>r. key r = j) (update_where (\<lambda>r. key r = k) f rows) =
     (if j = k then map_option f (find (\<lambda>r. key r = j) rows) else find (\<lambda>r. key r = j) rows)"
  by (induction rows) (auto simp: update_where_def)

definition put_container :: "string \<Rightarrow> string \<Rightarrow> (string \<Rightarrow> (int \<times> string) option) \<Rightarrow> string \<Rightarrow> (int \<times> string) option" where
  "put_container sid c m = m(sid := map_option (\<lambda>(cl, _). (cl, c)) (m sid))"

lemma SetContainId_writes:
  assumes "SetContainId sid c d = (d', r)"
  shows "r = Inl DriverFault \<and> service_content d' = service_content d \<or>
         r = Inr () \<and> service_content d' = put_container sid c (service_content d)"
    and "db_faults d = [] \<Longrightarrow> r = Inr () \<and> db_faults d' = []"
proof -
  obtain t b where t: "tick d = (t, b)" by fastforce
  with tick_tables [OF t] have tc: "db_containers t = db_containers d" by simp
  show "r = Inl DriverFault \<and> service_content d' = service_content d \<or>
         r = Inr () \<and> service_content d' = put_container sid c (service_content d)"
  proof (cases b)
    case True
    with assms t service_content_cong [OF tc] show ?thesis by (simp add: SetContainId_def db_Write_def)
  next
    case False
    with assms t tc have "r = Inr ()"
      "d' = t\<lparr>db_containers := update_where (\<lambda>r. srv_Id r = sid) (\<lambda>r. r\<lparr>srv_ContainerId := c\<rparr>) (db_containers d)\<rparr>"
      by (simp_all add: SetContainId_def db_Write_def)
    then show ?thesis
      by (intro disjI2) (simp add: put_container_def service_content_def fun_eq_iff find_update_where option.map_comp comp_def)
  qed
  assume "db_faults d = []"
  with t assms show "r = Inr () \<and> db_faults d' = []" by (auto simp: SetContainId_def db_Write_def)
qed

lemma InsertService_writes:
  assumes "InsertService cl sid c d = (d', r)"
  shows "r \<noteq> Inr () \<and> service_content d' = service_content d \<or>
         r = Inr () \<and> service_content d sid = None \<and> service_content d' = (service_content d)(sid \<mapsto> (cl, c))"
proof -
  obtain t b where t: "tick d = (t, b)" by fastforce
  with tick_tables [OF t] have tc: "db_containers t = db_containers d" by simp
  show ?thesis
    using assms t tc service_content_cong [OF tc]
    by (auto simp: InsertService_def db_Write_def service_content_def fun_eq_iff used_key find_snoc split: if_splits option.splits)
qed

section \<open>Creating a container\<close>

lemma run_steps_Cons_cases:
  assumes "run_steps (s # ss) w = (w', res)"
  obtains (error) e where "s w = (w', Some e)" and "res = (if e = ERR_TASK_DONE \<or> e = ERR_SKIP_TASK then None else Some e)"
  | (next_step) w1 where "s w = (w1, None)" and "run_steps ss w1 = (w', res)"
proof -
  obtain w1 r where "s w = (w1, r)" by fastforce
  with assms that show thesis by (cases r) (auto split: if_splits)
qed

lemma run_steps_pass:
  assumes "\<And>s w. s \<in> set ss \<Longrightarrow> snd (s w) = None"
  shows "snd (run_steps ss w) = None"
  using assms
proof (induction ss arbitrary: w)
  case (Cons s ss)
  then obtain w' where "s w = (w', None)" by (metis list.set_intros(1) prod.collapse)
  moreover have "snd (run_steps ss w') = None" using Cons by simp
  ultimately show ?case by simp
qed simp

text \<open>Steps whose errors are errors: they do not end the task early with success.\<close>

definition honest :: "'x world step \<Rightarrow> bool" where
  "honest s \<longleftrightarrow> (\<forall>w w' e. s w = (w', Some e) \<longrightarrow> (\<exists>g. e = TErr g))"

lemma PostHandle_honest: "PostHandle succ outp out err ec w = (w', Some e) \<Longrightarrow> \<exists>g. e = TErr g"
  by (auto simp: PostHandle_def Let_def split: option.splits cmd_err.splits)

lemma handled_honest: "honest (handled f succ outp ec)"
  by (auto simp: honest_def handled_def split: prod.splits sum.splits dest: PostHandle_honest)

lemma CreateDirectory_honest: "honest (st_CreateDirectory sys ssh xo paths succ outp)"
proof -
  have "st_CreateDirectory sys ssh xo paths succ outp w = (w', Some e) \<Longrightarrow> \<exists>g. e = TErr g" for w w' e
  proof (induction sys ssh xo paths succ outp w rule: st_CreateDirectory.induct)
    case (2 sys ssh xo path paths succ outp w)
    then show ?case
      using handled_honest [of "sh_Execute sys ssh xo (AddOption ''--parents'' (sh_Mkdir [path] NewShell))" succ outp ERR_CREATE_DIRECTORY_FAILED]
      by (auto simp: honest_def split: if_splits prod.splits option.splits)
  qed simp
  then show ?thesis by (auto simp: honest_def)
qed

lemma honest_error: "honest s \<Longrightarrow> s w = (w', Some e) \<Longrightarrow> e \<noteq> ERR_TASK_DONE \<and> e \<noteq> ERR_SKIP_TASK"
  by (auto simp: honest_def)

lemma run_steps_silent_prefix:
  assumes "\<forall>s \<in> set pre. db_silent s \<and> str_silent s \<and> honest s" and "run_steps (pre @ ss) w = (w', res)"
  obtains (error) "w_db w' = w_db w" and "res \<noteq> None"
  | (passed) w1 where "w_db w1 = w_db w" and "w_str w1 = w_str w" and "run_steps ss w1 = (w', res)"
  using assms
proof (induction pre arbitrary: w thesis)
  case (Cons s pre)
  from Cons.prems(4) have "run_steps (s # pre @ ss) w = (w', res)" by simp
  then show ?case
  proof (cases rule: run_steps_Cons_cases)
    case (error e)
    with Cons.prems(3) honest_error [of s w w' e] db_silentD [of s w w'] show ?thesis by (intro Cons.prems(1)) auto
  next
    case (next_step w1)
    with Cons.prems(3) have k: "w_db w1 = w_db w" "w_str w1 = w_str w" by (auto dest: db_silentD str_silentD)
    from Cons.prems(3) have "\<forall>s \<in> set pre. db_silent s \<and> str_silent s \<and> honest s" by simp
    from Cons.IH [OF _ _ this next_step(2)] Cons.prems(1,2) k show ?thesis by metis
  qed
qed simp

lemma CreateContainer_result:
  assumes "st_CreateContainer sys ssh xo spec (Some outp) w = (w', r)"
  obtains (error) e where "r = Some (TErr e)" and "w_db w' = w_db w"
  | (created) x x' out where "dk_Execute sys ssh xo (create_container_cli spec) x = (x', Inr (out, None))" and "r = None"
      and "w_db w' = w_db w" and "w_str w' = (w_str w)(outp := trim_newlines out)"
proof -
  obtain x' q where q: "dk_Execute sys ssh xo (create_container_cli spec) (w_ext w) = (x', q)" by fastforce
  show thesis
  proof (cases "\<exists>out. q = Inr (out, None)")
    case True
    with q assms created show thesis by (auto simp: st_CreateContainer_def handled_def on_ext_def PostHandle_def)
  next
    case False
    with q assms have "r \<noteq> None"
      by (auto simp: st_CreateContainer_def handled_def on_ext_def PostHandle_def Let_def split: sum.splits cmd_err.splits option.splits)
    moreover have "w_db w' = w_db w" using assms engine_steps_db(4) by (rule db_silentD [rotated])
    moreover have "honest (st_CreateContainer sys ssh xo spec (Some outp))" by (simp add: st_CreateContainer_def handled_honest)
    ultimately show thesis using assms error by (auto simp: honest_def)
  qed
qed

definition last_line :: "string \<Rightarrow> string" where
  "last_line s = last (split_on (CHR 0x0A) s)"

definition owner :: "db \<Rightarrow> string \<Rightarrow> int \<Rightarrow> int" where
  "owner d sid cl = (case service_content d sid of None \<Rightarrow> cl | Some (k, _) \<Rightarrow> k)"

text \<open>The container engine of the host ran a command, without an error, and printed a text.\<close>

definition engine_said :: "'x task_env \<Rightarrow> ssh_config \<Rightarrow> shell \<Rightarrow> string \<Rightarrow> bool" where
  "engine_said te ssh cmd out \<longleftrightarrow> (\<exists>x x'. dk_Execute (te_sys te) (Some ssh) (te_opts te) cmd x = (x', Inr (out, None)))"

definition created :: "'x task_env \<Rightarrow> ssh_config \<Rightarrow> create_container \<Rightarrow> int \<Rightarrow> string \<Rightarrow> db \<Rightarrow> db \<Rightarrow> bool" where
  "created te ssh spec cl sid d d' \<longleftrightarrow>
     (\<exists>out. engine_said te ssh (create_container_cli spec) out \<and>
        service_content d' = (service_content d)(sid \<mapsto> (owner d sid cl, last_line (trim_newlines out))))"

lemma InsertService_step:
  assumes "Step2InsertService cl sid new old w = (w', r)" and "w_str w old = container_of (w_db w) sid"
    and "container_of (w_db w) sid = [] \<or> container_of (w_db w) sid = CLEANED_CONTAINER_ID"
  shows "(\<exists>e. r = Some (TErr e)) \<and> service_content (w_db w') = service_content (w_db w) \<or>
         r = None \<and> service_content (w_db w') = (service_content (w_db w))(sid \<mapsto> (owner (w_db w) sid cl, w_str w new))"
proof (cases "container_of (w_db w) sid = CLEANED_CONTAINER_ID")
  case True
  then obtain k where k: "service_content (w_db w) sid = Some (k, CLEANED_CONTAINER_ID)"
    by (auto simp: container_of_def split: option.splits)
  obtain d q where d: "SetContainId sid (w_str w new) (w_db w) = (d, q)" by fastforce
  from SetContainId_writes(1) [OF d] assms(1,2) True d k show ?thesis
    by (auto simp: Step2InsertService_def put_container_def owner_def)
next
  case False
  obtain d q where d: "InsertService cl sid (w_str w new) (w_db w) = (d, q)" by fastforce
  from InsertService_writes [OF d] assms(1,2) False d show ?thesis
    by (cases q) (auto simp: Step2InsertService_def owner_def)
qed

lemma register_outcome:
  assumes run: "run_steps (Step2GetService sid old # pre @
      [st_CreateContainer (te_sys te) (Some ssh) (te_opts te) spec (Some new), TrimContainerId new, Step2InsertService cl sid new old]) w = (w', res)"
    and pre: "\<forall>s \<in> set pre. db_silent s \<and> str_silent s \<and> honest s" and "old \<noteq> new"
  shows "service_content (w_db w') = service_content (w_db w) \<and> (res \<noteq> None \<or> live (container_of (w_db w) sid)) \<or>
         \<not> live (container_of (w_db w) sid) \<and> res = None \<and> created te ssh spec cl sid (w_db w) (w_db w')"
  using run
proof (cases rule: run_steps_Cons_cases)
  case (error e)
  obtain d r where d: "GetContainerId sid (w_db w) = (d, r)" by fastforce
  from error GetContainerId_reads(1,2) [OF d] d show ?thesis by (auto simp: Step2GetService_def split: if_splits)
next
  case (next_step w1)
  obtain d r where d: "GetContainerId sid (w_db w) = (d, r)" by fastforce
  let ?c = "container_of (w_db w) sid"
  from next_step(1) GetContainerId_reads(1,2) [OF d] d
  have w1: "service_content (w_db w1) = service_content (w_db w)" "w_str w1 old = ?c" and c: "\<not> live ?c"
    by (auto simp: Step2GetService_def split: if_splits)
  from pre next_step(2) show ?thesis
  proof (cases rule: run_steps_silent_prefix)
    case error
    with w1 show ?thesis by simp
  next
    case (passed w2)
    from passed(3) show ?thesis
    proof (cases rule: run_steps_Cons_cases)
      case (error e)
      from error(1) show ?thesis by (cases rule: CreateContainer_result) (use error(2) w1 passed in auto)
    next
      case (next_step w3)
      from next_step(1) obtain x x' out where x: "dk_Execute (te_sys te) (Some ssh) (te_opts te) (create_container_cli spec) x = (x', Inr (out, None))"
        and w3: "w_db w3 = w_db w2" "w_str w3 = (w_str w2)(new := trim_newlines out)"
        by (cases rule: CreateContainer_result) auto
      define w4 where "w4 = set_str new (last_line (trim_newlines out)) w3"
      obtain q where q: "Step2InsertService cl sid new old w4 = (w', q)"
        and res: "res = (case q of None \<Rightarrow> None | Some e \<Rightarrow> if e = ERR_TASK_DONE \<or> e = ERR_SKIP_TASK then None else Some e)"
        using next_step(2) w3(2) by (auto simp: TrimContainerId_def w4_def last_line_def split: prod.splits option.splits if_splits)
      have w4: "service_content (w_db w4) = service_content (w_db w)" "w_str w4 old = ?c" "w_str w4 new = last_line (trim_newlines out)"
        using w1 w3 passed assms(3) by (simp_all add: w4_def)
      then have "container_of (w_db w4) = container_of (w_db w)" "owner (w_db w4) = owner (w_db w)"
        by (simp_all add: fun_eq_iff container_of_def owner_def)
      with InsertService_step [OF q] w4 c
      have "(\<exists>e. q = Some (TErr e)) \<and> service_content (w_db w') = service_content (w_db w) \<or>
         q = None \<and> service_content (w_db w') = (service_content (w_db w))(sid \<mapsto> (owner (w_db w) sid cl, last_line (trim_newlines out)))"
        by auto
      with c x show ?thesis unfolding res created_def engine_said_def by auto
    qed
  qed
qed

section \<open>What a command on a service keeps\<close>

text \<open>One service's part of a playbook step: its task is built and run.\<close>

type_synonym ('x, 't) new_task_on =
  "'x task_env \<Rightarrow> dingocli \<Rightarrow> omap \<Rightarrow> string \<Rightarrow> string \<Rightarrow> 't \<Rightarrow> db \<Rightarrow> db \<times> 'x world task option res"

definition perform :: "('x, 't) new_task_on \<Rightarrow> 'x task_env \<Rightarrow> dingocli \<Rightarrow> omap \<Rightarrow> string \<Rightarrow> string \<Rightarrow> 't \<Rightarrow> 'x world \<Rightarrow> 'x world \<times> terr option" where
  "perform new te cl mem p uuid dc w =
     (case new te cl mem p uuid dc (w_db w) of
        (d, Inl e) \<Rightarrow> (w\<lparr>w_db := d\<rparr>, Some (TErr e))
      | (d, Inr None) \<Rightarrow> (w\<lparr>w_db := d\<rparr>, None)
      | (d, Inr (Some t)) \<Rightarrow> Task_Execute t (w\<lparr>w_db := d\<rparr>))"

abbreviation service_of :: "'x task_env \<Rightarrow> dingocli \<Rightarrow> deploy_config \<Rightarrow> string" where
  "service_of te cl dc \<equiv> GetServiceId (te_cli te) cl (dc_id dc)"

text \<open>
  The contract: only the record of the command's own service may change, and of a recorded container only by
  a command that cleans, which marks it as removed.
\<close>

locale service_command =
  fixes new :: "('x, 't) new_task_on" and sid_of :: "'x task_env \<Rightarrow> dingocli \<Rightarrow> 't \<Rightarrow> string" and cleans :: bool
  assumes others: "perform new te cl mem p uuid t w = (w', res) \<Longrightarrow> j \<noteq> sid_of te cl t \<Longrightarrow>
      service_content (w_db w') j = service_content (w_db w) j"
    and kept: "perform new te cl mem p uuid t w = (w', res) \<Longrightarrow> live (container_of (w_db w) (sid_of te cl t)) \<Longrightarrow>
      service_content (w_db w') = service_content (w_db w) \<or>
      cleans \<and> container_of (w_db w') (sid_of te cl t) = CLEANED_CONTAINER_ID"
begin

lemma keeps_live:
  assumes "perform new te cl mem p uuid t w = (w', res)" and "live (container_of (w_db w) j)" and "cleans \<longrightarrow> j \<noteq> sid_of te cl t"
  shows "service_content (w_db w') j = service_content (w_db w) j"
  using assms others [OF assms(1)] kept [OF assms(1)] by (cases "j = sid_of te cl t") auto

end

text \<open>Commands that never touch the record.\<close>

locale silent_command =
  fixes new :: "('x, 't) new_task_on" and sid_of :: "'x task_env \<Rightarrow> dingocli \<Rightarrow> 't \<Rightarrow> string"
  assumes silent: "perform new te cl mem p uuid t w = (w', res) \<Longrightarrow> service_content (w_db w') = service_content (w_db w)"

sublocale silent_command \<subseteq> service_command new sid_of False
  by unfold_locales (simp_all add: silent)

lemma Task_Execute_remote_silent:
  assumes "Task_Execute (remote_task te uuid name sub ssh ss) w = (w', res)" and "\<forall>s \<in> set ss. db_silent s"
  shows "w_db w' = w_db w"
  using assms(1)
proof (cases rule: remote_task_cases)
  case (connected x)
  with run_steps_db [OF assms(2)] show ?thesis by fastforce
qed simp

definition silent_task :: "'x task_env \<Rightarrow> 'x world task \<Rightarrow> bool" where
  "silent_task te t \<longleftrightarrow> (\<exists>uuid name sub ssh ss. t = remote_task te uuid name sub ssh ss \<and> (\<forall>s \<in> set ss. db_silent s))"

lemma silent_taskI: "\<forall>s \<in> set ss. db_silent s \<Longrightarrow> silent_task te (remote_task te uuid name sub ssh ss)"
  unfolding silent_task_def by blast

lemma silent_task_run: "silent_task te t \<Longrightarrow> Task_Execute t w = (w', res) \<Longrightarrow> w_db w' = w_db w"
  unfolding silent_task_def by (auto dest: Task_Execute_remote_silent)

definition builds_silent :: "'x task_env \<Rightarrow> db \<Rightarrow> db \<times> 'x world task option res \<Rightarrow> bool" where
  "builds_silent te d = (\<lambda>(d', r). service_content d' = service_content d \<and> (\<forall>t. r = Inr (Some t) \<longrightarrow> silent_task te t))"

lemma perform_silent:
  assumes "perform new te cl mem p uuid dc w = (w', res)" and "builds_silent te (w_db w) (new te cl mem p uuid dc (w_db w))"
  shows "service_content (w_db w') = service_content (w_db w)"
proof -
  obtain d' r where n: "new te cl mem p uuid dc (w_db w) = (d', r)" by fastforce
  with assms(2) have c: "service_content d' = service_content (w_db w)" by (simp add: builds_silent_def)
  consider e where "r = Inl e" | "r = Inr None" | t where "r = Inr (Some t)" by (cases r) auto
  then show ?thesis
  proof cases
    case (3 t)
    with assms n have "silent_task te t" "Task_Execute t (w\<lparr>w_db := d'\<rparr>) = (w', res)" by (simp_all add: builds_silent_def perform_def)
    from silent_task_run [OF this] c show ?thesis by simp
  qed (use assms(1) n c in \<open>auto simp: perform_def\<close>)
qed

lemma cli_GetContainerId_reads:
  assumes "cli_GetContainerId sid d = (d', r)"
  shows "service_content d' = service_content d"
    and "r = Inl (Ec ERR_GET_SERVICE_CONTAINER_ID_FAILED) \<or>
      r = Inr (if container_of d sid = [] then CLEANED_CONTAINER_ID else container_of d sid)"
proof -
  obtain d1 q where g: "GetContainerId sid d = (d1, q)" by fastforce
  with assms GetContainerId_reads(1,2) [OF g] show "service_content d' = service_content d"
    "r = Inl (Ec ERR_GET_SERVICE_CONTAINER_ID_FAILED) \<or>
      r = Inr (if container_of d sid = [] then CLEANED_CONTAINER_ID else container_of d sid)"
    by (auto simp: cli_GetContainerId_def bindS_def wrapD_def split: sum.splits)
qed

lemma IsSkip_reads: "IsSkip e cl dc d = (d', b) \<Longrightarrow> service_content d' = service_content d"
  by (auto simp: IsSkip_def split: prod.splits dest: GetContainerId_reads(1))

lemma service_container_reads: "service_container te cl dc d = (d', r) \<Longrightarrow> service_content d' = service_content d"
  by (auto simp: service_container_def Let_def split: prod.splits dest!: cli_GetContainerId_reads(1) IsSkip_reads)

lemma container_task_silent:
  assumes "\<And>c ssh t. k c ssh = Inr (Some t) \<Longrightarrow> silent_task te t"
  shows "builds_silent te d (container_task te cl dc k d)"
proof -
  obtain d1 q where q: "service_container te cl dc d = (d1, q)" by fastforce
  with assms service_container_reads [OF q] show ?thesis
    by (auto simp: builds_silent_def container_task_def bindS_def resS_def res_simps split: sum.splits option.splits)
qed

lemma lifecycle_steps_silent:
  "\<forall>s \<in> set (start_steps te ssh p c). db_silent s" "\<forall>s \<in> set (restart_steps te ssh p c). db_silent s"
  "\<forall>s \<in> set (stop_steps te ssh p c). db_silent s"
  by (simp_all add: start_steps_def restart_steps_def stop_steps_def list_container_db simple_steps_db engine_steps_db)

interpretation start_task: silent_command NewStartServiceTask service_of
proof unfold_locales
  fix te :: "'a task_env" and cl mem p uuid dc w w' res
  assume p: "perform NewStartServiceTask te cl mem p uuid dc w = (w', res)"
  have "builds_silent te (w_db w) (NewStartServiceTask te cl mem p uuid dc (w_db w))"
    by (cases "skip_mds_cli mem dc")
      (auto simp: NewStartServiceTask_def resS_def bindS_def silent_taskI lifecycle_steps_silent intro!: container_task_silent,
       simp_all add: builds_silent_def)
  with p show "service_content (w_db w') = service_content (w_db w)" by (rule perform_silent)
qed

interpretation restart_task: silent_command NewRestartServiceTask service_of
proof unfold_locales
  fix te :: "'a task_env" and cl mem p uuid dc w w' res
  assume p: "perform NewRestartServiceTask te cl mem p uuid dc w = (w', res)"
  have "builds_silent te (w_db w) (NewRestartServiceTask te cl mem p uuid dc (w_db w))"
    by (auto simp: NewRestartServiceTask_def silent_taskI lifecycle_steps_silent intro!: container_task_silent)
  with p show "service_content (w_db w') = service_content (w_db w)" by (rule perform_silent)
qed

interpretation stop_task: silent_command NewStopServiceTask service_of
proof unfold_locales
  fix te :: "'a task_env" and cl mem p uuid dc w w' res
  assume p: "perform NewStopServiceTask te cl mem p uuid dc w = (w', res)"
  obtain d1 q where q: "service_container te cl dc (w_db w) = (d1, q)" by fastforce
  with service_container_reads [OF q] have "builds_silent te (w_db w) (NewStopServiceTask te cl mem p uuid dc (w_db w))"
    by (auto simp: builds_silent_def NewStopServiceTask_def resS_def bindS_def res_simps silent_taskI lifecycle_steps_silent
        split: sum.splits option.splits if_splits)
  with p show "service_content (w_db w') = service_content (w_db w)" by (rule perform_silent)
qed

section \<open>Creating and cleaning\<close>

text \<open>What the two tasks that create a container do to the record of their service.\<close>

lemma register_task_outcome:
  assumes "Task_Execute (remote_task te uuid name sub ssh (Step2GetService sid (p @ ''oldContainerId'') # pre @
      [st_CreateContainer (te_sys te) (Some ssh) (te_opts te) spec (Some (p @ ''containerId'')), TrimContainerId (p @ ''containerId''),
       Step2InsertService cl sid (p @ ''containerId'') (p @ ''oldContainerId'')])) w = (w', res)"
    and "\<forall>s \<in> set pre. db_silent s \<and> str_silent s \<and> honest s"
  shows "service_content (w_db w') = service_content (w_db w) \<and> (res \<noteq> None \<or> live (container_of (w_db w) sid)) \<or>
         \<not> live (container_of (w_db w) sid) \<and> res = None \<and> created te ssh spec cl sid (w_db w) (w_db w')"
  using assms(1)
proof (cases rule: remote_task_cases)
  case (connected x)
  from register_outcome [OF this assms(2)] show ?thesis by simp
qed simp

lemma create_task_outcome:
  assumes "Task_Execute (remote_task te uuid name sub ssh (create_steps te ssh p cl sid dirs spec)) w = (w', res)"
  shows "service_content (w_db w') = service_content (w_db w) \<and> (res \<noteq> None \<or> live (container_of (w_db w) sid)) \<or>
         \<not> live (container_of (w_db w) sid) \<and> res = None \<and> created te ssh spec cl sid (w_db w) (w_db w')"
proof -
  let ?pre = "[st_CreateDirectory (te_sys te) (Some ssh) ((te_opts te)\<lparr>xo_ExecWithSudo := False\<rparr>) dirs None None]"
  have "\<forall>s \<in> set ?pre. db_silent s \<and> str_silent s \<and> honest s"
    by (simp add: CreateDirectory_db CreateDirectory_str CreateDirectory_honest)
  with register_task_outcome [of te uuid name sub ssh sid p ?pre spec cl w w' res] assms show ?thesis
    by (simp add: create_steps_def)
qed

definition creates :: "'x task_env \<Rightarrow> dingocli \<Rightarrow> (deploy_config \<Rightarrow> string \<Rightarrow> create_container res) \<Rightarrow> deploy_config \<Rightarrow> db \<Rightarrow> db \<Rightarrow> bool" where
  "creates te cl specf dc d d' \<longleftrightarrow>
     (\<exists>ssh spec. host_ssh te cl (dc_host dc) = Inr ssh \<and>
        specf dc (container_hostname (dc_kind dc) (dc_role dc) (service_of te cl dc)) = Inr spec \<and>
        created te ssh spec (cl_clusterId cl) (service_of te cl dc) d d')"

lemma perform_create:
  assumes "perform NewCreateContainerTask te cl mem p uuid dc w = (w', res)"
  shows "service_content (w_db w') = service_content (w_db w) \<and>
           (res \<noteq> None \<or> live (container_of (w_db w) (service_of te cl dc)) \<or> dc_role dc = ROLE_FS_MDS_CLI) \<or>
         \<not> live (container_of (w_db w) (service_of te cl dc)) \<and> res = None \<and> creates te cl service_container_spec dc (w_db w) (w_db w')"
proof (cases "\<exists>t. snd (NewCreateContainerTask te cl mem p uuid dc (w_db w)) = Inr (Some t)")
  case True
  let ?sid = "service_of te cl dc"
  from True obtain ssh dirs spec where h: "host_ssh te cl (dc_host dc) = Inr ssh" "create_dirs dc = Inr dirs"
    "service_container_spec dc (container_hostname (dc_kind dc) (dc_role dc) ?sid) = Inr spec" "dc_role dc \<noteq> ROLE_FS_MDS_CLI"
    by (auto simp: NewCreateContainerTask_def resS_def res_simps Let_def split: if_splits)
  with assms have t: "Task_Execute (remote_task te uuid ''Create Container'' (''host='' @ dc_host dc @ '' role='' @ dc_role dc) ssh
      (create_steps te ssh p (cl_clusterId cl) ?sid dirs spec)) w = (w', res)"
    by (simp add: perform_def NewCreateContainerTask_def resS_def res_simps Let_def)
  from create_task_outcome [OF t] h
  show ?thesis by (auto simp: creates_def)
next
  case False
  with assms show ?thesis
    by (auto simp: perform_def NewCreateContainerTask_def resS_def res_simps Let_def split: if_splits sum.splits option.splits)
qed

lemma perform_create_cli:
  assumes "perform NewCreateMdsv2CliContainerTask te cl mem p uuid dc w = (w', res)"
  shows "service_content (w_db w') = service_content (w_db w) \<and> (res \<noteq> None \<or> live (container_of (w_db w) (service_of te cl dc))) \<or>
         \<not> live (container_of (w_db w) (service_of te cl dc)) \<and> res = None \<and> creates te cl mds_cli_spec dc (w_db w) (w_db w')"
proof (cases "\<exists>t. snd (NewCreateMdsv2CliContainerTask te cl mem p uuid dc (w_db w)) = Inr (Some t)")
  case True
  let ?sid = "service_of te cl dc"
  from True obtain ssh spec where h: "host_ssh te cl (dc_host dc) = Inr ssh"
    "mds_cli_spec dc (container_hostname (dc_kind dc) (dc_role dc) ?sid) = Inr spec"
    by (auto simp: NewCreateMdsv2CliContainerTask_def resS_def res_simps Let_def)
  with assms register_task_outcome [of te uuid "''Create mds client Container''" "''host='' @ dc_host dc @ '' role='' @ dc_role dc" ssh ?sid p "[]" spec
      "cl_clusterId cl" w w' res]
  show ?thesis by (auto simp: perform_def NewCreateMdsv2CliContainerTask_def resS_def res_simps Let_def creates_def)
next
  case False
  with assms show ?thesis
    by (auto simp: perform_def NewCreateMdsv2CliContainerTask_def resS_def res_simps Let_def split: sum.splits option.splits)
qed

lemma creates_others: "creates te cl specf dc d d' \<Longrightarrow> j \<noteq> service_of te cl dc \<Longrightarrow> service_content d' j = service_content d j"
  by (auto simp: creates_def created_def)

interpretation create_task: service_command NewCreateContainerTask service_of False
proof unfold_locales
  fix te :: "'a task_env" and cl mem p uuid dc w w' res j
  assume "perform NewCreateContainerTask te cl mem p uuid dc w = (w', res)"
  note out = perform_create [OF this]
  show "j \<noteq> service_of te cl dc \<Longrightarrow> service_content (w_db w') j = service_content (w_db w) j"
    using out by (elim disjE conjE) (simp_all add: creates_others)
  show "live (container_of (w_db w) (service_of te cl dc)) \<Longrightarrow> service_content (w_db w') = service_content (w_db w) \<or>
      False \<and> container_of (w_db w') (service_of te cl dc) = CLEANED_CONTAINER_ID"
    using out by (elim disjE) simp_all
qed

interpretation create_cli_task: service_command NewCreateMdsv2CliContainerTask service_of False
proof unfold_locales
  fix te :: "'a task_env" and cl mem p uuid dc w w' res j
  assume "perform NewCreateMdsv2CliContainerTask te cl mem p uuid dc w = (w', res)"
  note out = perform_create_cli [OF this]
  show "j \<noteq> service_of te cl dc \<Longrightarrow> service_content (w_db w') j = service_content (w_db w) j"
    using out by (elim disjE conjE) (simp_all add: creates_others)
  show "live (container_of (w_db w) (service_of te cl dc)) \<Longrightarrow> service_content (w_db w') = service_content (w_db w) \<or>
      False \<and> container_of (w_db w') (service_of te cl dc) = CLEANED_CONTAINER_ID"
    using out by (elim disjE) simp_all
qed

lemma RemoveFile_honest: "honest (st_RemoveFile sys ssh xo files outp)"
proof -
  have "st_RemoveFile sys ssh xo files outp w = (w', Some e) \<Longrightarrow> \<exists>g. e = TErr g" for w w' e
  proof (induction sys ssh xo files outp w rule: st_RemoveFile.induct)
    case (2 sys ssh xo f files outp w)
    then show ?case by (auto split: if_splits prod.splits sum.splits option.splits dest: PostHandle_honest)
  qed simp
  then show ?thesis by (auto simp: honest_def)
qed

lemma CleanContainer_step:
  assumes "Step2CleanContainer te ssh sid c w = (w', r)"
  shows "service_content (w_db w') = service_content (w_db w) \<and> (live c \<longrightarrow> r \<noteq> None) \<or>
         service_content (w_db w') = put_container sid CLEANED_CONTAINER_ID (service_content (w_db w)) \<and> r = None"
proof (cases "live c")
  case True
  obtain w1 q where q: "on_ext (dk_Execute (te_sys te) (Some ssh) (te_opts te) (dk_RemoveContainer [c] NewShell)) w = (w1, q)" by fastforce
  obtain d s where s: "SetContainId sid CLEANED_CONTAINER_ID (w_db w1) = (d, s)" by fastforce
  from on_ext_keeps(1) [OF q] have "w_db w1 = w_db w" .
  with assms True q s SetContainId_writes(1) [OF s] show ?thesis
    by (auto simp: Step2CleanContainer_def split: sum.splits)
next
  case False
  with assms show ?thesis by (auto simp: Step2CleanContainer_def)
qed

lemma clean_task_outcome:
  assumes "Task_Execute (remote_task te uuid name sub ssh (clean_steps_of te ssh sid c clean files)) w = (w', res)"
  shows "service_content (w_db w') = service_content (w_db w) \<and> (live c \<longrightarrow> bget clean CLEAN_ITEM_CONTAINER \<longrightarrow> res \<noteq> None) \<or>
         bget clean CLEAN_ITEM_CONTAINER \<and> service_content (w_db w') = put_container sid CLEANED_CONTAINER_ID (service_content (w_db w))"
  using assms
proof (cases rule: remote_task_cases)
  case (connected x)
  show ?thesis
  proof (cases "bget clean CLEAN_ITEM_CONTAINER")
    case True
    with connected have "run_steps (st_RemoveFile (te_sys te) (Some ssh) (te_opts te) files None # [Step2CleanContainer te ssh sid c]) (w\<lparr>w_ext := x\<rparr>) = (w', res)"
      by (simp add: clean_steps_of_def)
    then show ?thesis
    proof (cases rule: run_steps_Cons_cases)
      case (error e)
      with RemoveFile_honest db_silentD [OF RemoveFile_db error(1)] honest_error [OF RemoveFile_honest error(1)] show ?thesis by simp
    next
      case (next_step w1)
      obtain q where q: "Step2CleanContainer te ssh sid c w1 = (w', q)"
        and "res = (case q of None \<Rightarrow> None | Some e \<Rightarrow> if e = ERR_TASK_DONE \<or> e = ERR_SKIP_TASK then None else Some e)"
        using next_step(2) by (auto split: prod.splits option.splits if_splits)
      moreover have "q = None \<or> (\<exists>g. q = Some (TErr g))"
        using q by (auto simp: Step2CleanContainer_def split: if_splits prod.splits sum.splits)
      ultimately show ?thesis using CleanContainer_step [OF q] db_silentD [OF RemoveFile_db next_step(1)] True by auto
    qed
  next
    case False
    with connected run_steps_db [of "[st_RemoveFile (te_sys te) (Some ssh) (te_opts te) files None]"] show ?thesis
      by (auto simp: clean_steps_of_def RemoveFile_db)
  qed
qed simp

text \<open>The task that cleaning builds; without a recorded container none is built.\<close>

lemma clean_built:
  assumes "NewCleanServiceTask te cl mem p uuid dc d = (d2, Inr (Some t))"
  defines "sid \<equiv> service_of te cl dc"
  obtains only ssh sub files where "mem_strs mem ''CLEAN_ITEMS'' = Inr only" and "service_content d2 = service_content d"
    and "t = remote_task te uuid ''Clean Service'' sub ssh (clean_steps_of te ssh sid (container_of d sid) (Slice2Map only) files)"
    and "live (container_of d sid)"
proof -
  obtain d1 r where g: "cli_GetContainerId sid d = (d1, r)" by fastforce
  obtain d3 skip where k: "IsSkip (te_cli te) cl dc d1 = (d3, skip)" by fastforce
  from assms(1) g k obtain c where c: "r = Inr c" "c \<noteq> CLEANED_CONTAINER_ID" "d3 = d2"
    by (auto simp: NewCleanServiceTask_def Let_def sid_def res_simps split: if_splits)
  from assms(1) g k c obtain hc only ssh files where m: "mem_strs mem ''CLEAN_ITEMS'' = Inr only" "cli_GetHost (te_cli te) cl (dc_host dc) = Inr hc"
    "hc_GetSSHConfig (env_host (te_cli te)) hc = Inr ssh" "getCleanFiles (te_order te) (Slice2Map only) dc = Inr files"
    "skip_mds_cli mem dc = Inr False" "\<not> skip"
    by (auto simp: NewCleanServiceTask_def Let_def sid_def res_simps split: if_splits)
  from cli_GetContainerId_reads [OF g] c have "c = container_of d sid" "live c" by (auto split: if_splits)
  moreover have "service_content d2 = service_content d"
    using cli_GetContainerId_reads(1) [OF g] IsSkip_reads [OF k] c(3) by simp
  moreover have "t = remote_task te uuid ''Clean Service'' (service_subname dc c @ '' clean='' @ join '','' only) ssh
      (clean_steps_of te ssh sid c (Slice2Map only) files)"
    using assms(1) g k c m by (simp add: NewCleanServiceTask_def sid_def)
  ultimately show thesis using that m(1) by simp
qed

lemma clean_not_built:
  assumes "NewCleanServiceTask te cl mem p uuid dc d = (d2, r)" and "\<forall>t. r \<noteq> Inr (Some t)"
  defines "sid \<equiv> service_of te cl dc"
  shows "service_content d2 = service_content d \<or> service_content d2 = put_container sid CLEANED_CONTAINER_ID (service_content d)"
proof -
  obtain d1 q where g: "cli_GetContainerId sid d = (d1, q)" by fastforce
  obtain d3 skip where k: "IsSkip (te_cli te) cl dc d1 = (d3, skip)" by fastforce
  obtain d4 u where u: "SetContainId sid CLEANED_CONTAINER_ID d1 = (d4, u)" by fastforce
  from assms(1) g k u have "d2 = (if q = Inr CLEANED_CONTAINER_ID then d4 else d3)"
    by (auto simp: NewCleanServiceTask_def Let_def sid_def split: if_splits)
  with cli_GetContainerId_reads(1) [OF g] IsSkip_reads [OF k] SetContainId_writes(1) [OF u] show ?thesis by auto
qed

lemma perform_clean:
  assumes "perform NewCleanServiceTask te cl mem p uuid dc w = (w', res)"
  defines "sid \<equiv> service_of te cl dc"
  shows "service_content (w_db w') = service_content (w_db w) \<or>
         service_content (w_db w') = put_container sid CLEANED_CONTAINER_ID (service_content (w_db w))"
proof -
  obtain d2 r where n: "NewCleanServiceTask te cl mem p uuid dc (w_db w) = (d2, r)" by fastforce
  show ?thesis
  proof (cases "\<exists>t. r = Inr (Some t)")
    case True
    then obtain t where t: "r = Inr (Some t)" by blast
    from clean_built [OF n [unfolded t]] obtain only ssh sub files where c: "service_content d2 = service_content (w_db w)"
      "t = remote_task te uuid ''Clean Service'' sub ssh (clean_steps_of te ssh sid (container_of (w_db w) sid) (Slice2Map only) files)"
      unfolding sid_def by metis
    with assms(1) n t have "Task_Execute (remote_task te uuid ''Clean Service'' sub ssh
        (clean_steps_of te ssh sid (container_of (w_db w) sid) (Slice2Map only) files)) (w\<lparr>w_db := d2\<rparr>) = (w', res)"
      by (simp add: perform_def)
    from clean_task_outcome [OF this] c(1) show ?thesis by auto
  next
    case False
    with n assms(1) have "w_db w' = d2" by (auto simp: perform_def split: sum.splits option.splits)
    with clean_not_built [OF n] False show ?thesis unfolding sid_def by auto
  qed
qed

interpretation clean_task: service_command NewCleanServiceTask service_of True
proof unfold_locales
  fix te :: "'a task_env" and cl mem p uuid dc w w' res j
  assume "perform NewCleanServiceTask te cl mem p uuid dc w = (w', res)"
  note out = perform_clean [OF this]
  show "j \<noteq> service_of te cl dc \<Longrightarrow> service_content (w_db w') j = service_content (w_db w) j"
    using out by (elim disjE) (simp_all add: put_container_def)
  show "live (container_of (w_db w) (service_of te cl dc)) \<Longrightarrow> service_content (w_db w') = service_content (w_db w) \<or>
      True \<and> container_of (w_db w') (service_of te cl dc) = CLEANED_CONTAINER_ID"
    using out by (elim disjE) (auto simp: put_container_def container_of_def split: option.splits)
qed

section \<open>The commands\<close>

datatype service_op = OpCreate | OpCreateCli | OpStart | OpStop | OpRestart | OpClean

fun service_task :: "service_op \<Rightarrow> 'x new_service_task" where
  "service_task OpCreate = NewCreateContainerTask"
| "service_task OpCreateCli = NewCreateMdsv2CliContainerTask"
| "service_task OpStart = NewStartServiceTask"
| "service_task OpStop = NewStopServiceTask"
| "service_task OpRestart = NewRestartServiceTask"
| "service_task OpClean = NewCleanServiceTask"

section \<open>Outcomes\<close>


lemma dk_Execute_runs: "\<exists>x' q. dk_Execute sys (Some ssh) xo cmd x = (x', Inr q)"
  unfolding dk_Execute_def execCommand_def by (simp add: Let_def split_beta)

lemma order_singleton: "\<forall>l. mset (order l) = mset l \<Longrightarrow> order [k] = [k]"
  by (metis mset.simps(1,2) mset_single_iff)

text \<open>
  Cleaning a service that has a container: when no error is returned, the container is recorded as removed exactly when
  the container was among the items to clean; the records are otherwise as before.
\<close>

theorem clean_outcome:
  assumes "perform NewCleanServiceTask te cl mem p uuid dc w = (w', None)" and "live (container_of (w_db w) (service_of te cl dc))"
    and "mem_strs mem ''CLEAN_ITEMS'' = Inr items" and "dc_role dc \<noteq> ROLE_FS_MDS_CLI" and "db_faults (w_db w) = []"
  shows "service_content (w_db w') =
    (if CLEAN_ITEM_CONTAINER \<in> set items then put_container (service_of te cl dc) CLEANED_CONTAINER_ID (service_content (w_db w))
     else service_content (w_db w))"
proof -
  let ?sid = "service_of te cl dc"
  obtain d2 r where n: "NewCleanServiceTask te cl mem p uuid dc (w_db w) = (d2, r)" by fastforce
  have g: "GetContainerId ?sid (w_db w) = (w_db w, Inr (container_of (w_db w) ?sid))"
    using GetContainerId_reads(3) [of ?sid "w_db w"] assms(5) by (metis surj_pair)
  then have "cli_GetContainerId ?sid (w_db w) = (w_db w, Inr (container_of (w_db w) ?sid))" "IsSkip (te_cli te) cl dc (w_db w) = (w_db w, False)"
    using assms(2) by (simp_all add: cli_GetContainerId_def IsSkip_def wrapD_def)
  with n assms(2,4) have "r \<noteq> Inr None"
    by (auto simp: NewCleanServiceTask_def Let_def skip_mds_cli_def res_simps)
  moreover from n assms(1) have "\<forall>e. r \<noteq> Inl e" by (auto simp: perform_def)
  ultimately obtain t where t: "r = Inr (Some t)" by (cases r) auto
  from clean_built [OF n [unfolded t]] assms(3) obtain ssh sub files where c: "service_content d2 = service_content (w_db w)"
    "t = remote_task te uuid ''Clean Service'' sub ssh (clean_steps_of te ssh ?sid (container_of (w_db w) ?sid) (Slice2Map items) files)"
    by (metis sum.inject(2))
  with assms(1) n t have "Task_Execute (remote_task te uuid ''Clean Service'' sub ssh
      (clean_steps_of te ssh ?sid (container_of (w_db w) ?sid) (Slice2Map items) files)) (w\<lparr>w_db := d2\<rparr>) = (w', None)"
    by (simp add: perform_def)
  from clean_task_outcome [OF this] c(1) assms(2) show ?thesis by auto
qed

text \<open>
  Cleaning only the container of a service cannot fail once the host is connected, and the container is recorded as
  removed whatever the container engine answers to its removal.
\<close>

theorem clean_ignores_engine:
  assumes "live (container_of (w_db w) (service_of te cl dc))" and "mem_strs mem ''CLEAN_ITEMS'' = Inr [CLEAN_ITEM_CONTAINER]"
    and "dc_role dc \<noteq> ROLE_FS_MDS_CLI" and "db_faults (w_db w) = []" and "\<forall>l. mset (te_order te l) = mset l"
    and "host_ssh te cl (dc_host dc) = Inr ssh" and "snd (NewSSHClient (te_sys te) (te_retries te) ssh (w_ext w))"
  shows "\<exists>w'. perform NewCleanServiceTask te cl mem p uuid dc w = (w', None) \<and>
    service_content (w_db w') = put_container (service_of te cl dc) CLEANED_CONTAINER_ID (service_content (w_db w))"
proof -
  let ?sid = "service_of te cl dc" and ?d = "w_db w"
  let ?c = "container_of ?d ?sid"
  have g: "GetContainerId ?sid ?d = (?d, Inr ?c)"
    using GetContainerId_reads(3) [of ?sid ?d] assms(4) by (metis surj_pair)
  then have r: "cli_GetContainerId ?sid ?d = (?d, Inr ?c)" "IsSkip (te_cli te) cl dc ?d = (?d, False)"
    using assms(1) by (simp_all add: cli_GetContainerId_def IsSkip_def wrapD_def)
  have "Slice2Map [CLEAN_ITEM_CONTAINER] = [(CLEAN_ITEM_CONTAINER, True)]" by (simp add: Slice2Map_def)
  moreover have "te_order te [CLEAN_ITEM_CONTAINER] = [CLEAN_ITEM_CONTAINER]"
using assms(5) by (rule order_singleton)
  ultimately have f: "getCleanFiles (te_order te) (Slice2Map [CLEAN_ITEM_CONTAINER]) dc = Inr []"
    by (simp add: getCleanFiles_def clean_files_of_def res_simps)
  obtain hc where h: "cli_GetHost (te_cli te) cl (dc_host dc) = Inr hc" "hc_GetSSHConfig (env_host (te_cli te)) hc = Inr ssh"
    using assms(6) by (auto simp: host_ssh_def res_simps)
  define sub where "sub = service_subname dc ?c @ '' clean='' @ join '','' [CLEAN_ITEM_CONTAINER]"
  have b: "NewCleanServiceTask te cl mem p uuid dc ?d = (?d, Inr (Some (remote_task te uuid ''Clean Service'' sub ssh
      (clean_steps_of te ssh ?sid ?c (Slice2Map [CLEAN_ITEM_CONTAINER]) []))))"
    using r assms(1,2,3) f h by (simp add: NewCleanServiceTask_def skip_mds_cli_def sub_def Let_def)
  obtain x where x: "NewSSHClient (te_sys te) (te_retries te) ssh (w_ext w) = (x, True)" using assms(7) by (metis (full_types) prod.collapse)
  let ?w = "w\<lparr>w_ext := x\<rparr>"
  obtain w1 q where q: "on_ext (dk_Execute (te_sys te) (Some ssh) (te_opts te) (dk_RemoveContainer [?c] NewShell)) ?w = (w1, Inr q)"
    using dk_Execute_runs [of "te_sys te" ssh "te_opts te" "dk_RemoveContainer [?c] NewShell" "w_ext ?w"] by (auto simp: on_ext_def)
  obtain d s where s: "SetContainId ?sid CLEANED_CONTAINER_ID (w_db w1) = (d, s)" by fastforce
  have w1: "w_db w1 = ?d" using on_ext_keeps(1) [OF q] by simp
  with SetContainId_writes [OF s] assms(4) have ok: "s = Inr ()" "service_content d = put_container ?sid CLEANED_CONTAINER_ID (service_content ?d)"
    by auto
  have "perform NewCleanServiceTask te cl mem p uuid dc w = (w1\<lparr>w_db := d\<rparr>, None)"
    using b x q s ok assms(1)
    by (simp add: perform_def Task_Execute_def remote_task_sel on_ext_def [of "NewSSHClient (te_sys te) (te_retries te) ssh"] clean_steps_of_def
        Step2CleanContainer_def)
  with ok(2) show ?thesis by simp
qed

text \<open>The steps that start and restart share, around the command itself.\<close>

lemma handled_success:
  assumes "handled f None outp ec w = (w', None)"
  obtains x' out where "f (w_ext w) = (x', Inr (out, None))" and "w_bool w' = w_bool w"
    and "w_str w' = (case outp of None \<Rightarrow> w_str w | Some p \<Rightarrow> (w_str w)(p := trim_newlines out))"
proof -
  obtain x' q where q: "f (w_ext w) = (x', q)" by fastforce
  with assms obtain out where out: "q = Inr (out, None)"
    by (cases q) (auto simp: handled_def on_ext_def PostHandle_def Let_def split: option.splits cmd_err.splits)
  with q assms have "w' = (case outp of None \<Rightarrow> w\<lparr>w_ext := x'\<rparr> | Some p \<Rightarrow> set_str p (trim_newlines out) (w\<lparr>w_ext := x'\<rparr>))"
    by (simp add: handled_def on_ext_def PostHandle_def)
  then have "w_bool w' = w_bool w" "w_str w' = (case outp of None \<Rightarrow> w_str w | Some p \<Rightarrow> (w_str w)(p := trim_newlines out))"
    by (simp_all split: option.splits)
  with q out show thesis by (intro that) auto
qed

definition listing :: "string \<Rightarrow> shell" where
  "listing c = add_opt True ''--all'' (add_opt False ''--quiet''
     (add_val ''--filter '' (''id='' @ c) (add_val ''--format '' (quoted ''{{.ID}}'') (dk_ListContainers NewShell))))"

definition inspection :: "string \<Rightarrow> shell" where
  "inspection c = add_val ''--format='' ([CHR 0x27] @ ''{{.State.Status}}'' @ [CHR 0x27]) (dk_InspectContainer c NewShell)"

lemma checked_start:
  assumes run: "run_steps [list_container te ssh ''{{.ID}}'' c (p @ ''out''), CheckContainerExist (p @ ''out''),
      handled (dk_Execute (te_sys te) (Some ssh) (te_opts te) cmd) None None ec, WaitContainerStart te n,
      Step2CheckPostStart te ssh c (p @ ''success'') (p @ ''status'')] w = (w', None)"
    and flag: "\<not> w_bool w (p @ ''success'')"
  shows "(\<exists>out. engine_said te ssh (listing c) out \<and> trim_newlines out = []) \<or>
         (\<exists>out st. engine_said te ssh cmd out \<and> engine_said te ssh (inspection c) st \<and> trim_newlines st = ''running'')"
proof -
  obtain w1 where l: "list_container te ssh ''{{.ID}}'' c (p @ ''out'') w = (w1, None)"
    and rest: "run_steps [CheckContainerExist (p @ ''out''), handled (dk_Execute (te_sys te) (Some ssh) (te_opts te) cmd) None None ec,
      WaitContainerStart te n, Step2CheckPostStart te ssh c (p @ ''success'') (p @ ''status'')] w1 = (w', None)"
    using run by (rule run_steps_Cons_cases)
      (auto dest!: honest_error [OF handled_honest] simp: list_container_def st_ListContainers_def split: if_splits)
  from l [unfolded list_container_def st_ListContainers_def] obtain x1 out1 where
    o1: "dk_Execute (te_sys te) (Some ssh) (te_opts te) (listing c) (w_ext w) = (x1, Inr (out1, None))"
    and w1: "w_bool w1 = w_bool w" "w_str w1 (p @ ''out'') = trim_newlines out1"
    by (rule handled_success) (auto simp: listing_def)
  show ?thesis
  proof (cases "trim_newlines out1 = []")
    case True
    with o1 show ?thesis unfolding engine_said_def by blast
  next
    case False
    with rest w1 have "run_steps [handled (dk_Execute (te_sys te) (Some ssh) (te_opts te) cmd) None None ec,
      WaitContainerStart te n, Step2CheckPostStart te ssh c (p @ ''success'') (p @ ''status'')] w1 = (w', None)"
      by (simp add: CheckContainerExist_def)
    then obtain w2 where s: "handled (dk_Execute (te_sys te) (Some ssh) (te_opts te) cmd) None None ec w1 = (w2, None)"
      and rest: "run_steps [WaitContainerStart te n, Step2CheckPostStart te ssh c (p @ ''success'') (p @ ''status'')] w2 = (w', None)"
      by (rule run_steps_Cons_cases) (auto dest!: honest_error [OF handled_honest] split: if_splits)
    from s obtain x2 out2 where o2: "dk_Execute (te_sys te) (Some ssh) (te_opts te) cmd (w_ext w1) = (x2, Inr (out2, None))"
      and w2: "w_bool w2 = w_bool w1" by (rule handled_success) auto
    define w3 where "w3 = w2\<lparr>w_ext := sys_sleep (te_sys te) n (w_ext w2)\<rparr>"
    have nf: "\<not> w_bool w3 (p @ ''success'')" using flag w1 w2 by (simp add: w3_def)
    have st: "Step2CheckPostStart te ssh c (p @ ''success'') (p @ ''status'') w3 = (w', None)"
    proof -
      obtain q where q: "Step2CheckPostStart te ssh c (p @ ''success'') (p @ ''status'') w3 = (w', q)"
        "q = None \<or> q = Some ERR_TASK_DONE \<or> q = Some ERR_SKIP_TASK"
        using rest by (auto simp: WaitContainerStart_def w3_def split: prod.splits option.splits if_splits)
      then show ?thesis using nf
        by (auto simp: Step2CheckPostStart_def split: prod.splits option.splits if_splits)
    qed
    with nf obtain w4 where i: "st_InspectContainer (te_sys te) (Some ssh) (te_opts te) c ([CHR 0x27] @ ''{{.State.Status}}'' @ [CHR 0x27]) None (Some (p @ ''status'')) w3 = (w4, None)"
      "w_str w4 (p @ ''status'') = ''running''"
      by (auto simp: Step2CheckPostStart_def split: prod.splits option.splits if_splits)
    from i(1) [unfolded st_InspectContainer_def] obtain x3 out3 where
      "dk_Execute (te_sys te) (Some ssh) (te_opts te) (inspection c) (w_ext w3) = (x3, Inr (out3, None))"
      "w_str w4 (p @ ''status'') = trim_newlines out3"
      by (rule handled_success) (auto simp: inspection_def)
    with o2 i(2) show ?thesis unfolding engine_said_def by metis
  qed
qed

definition start_command :: "service_op \<Rightarrow> string \<Rightarrow> shell" where
  "start_command oper c = (if oper = OpRestart then dk_RestartContainer [c] NewShell else dk_StartContainer [c] NewShell)"

lemma container_task_live:
  assumes "live (container_of d (service_of te cl dc))" and "db_faults d = []"
  shows "container_task te cl dc k d = (d, bindR (host_ssh te cl (dc_host dc)) (k (container_of d (service_of te cl dc))))"
proof -
  let ?sid = "service_of te cl dc"
  have "GetContainerId ?sid d = (d, Inr (container_of d ?sid))"
    using GetContainerId_reads(3) [of ?sid d] assms(2) by (metis surj_pair)
  with assms(1) have "service_container te cl dc d = (d, Inr (Some (container_of d ?sid)))"
    by (simp add: service_container_def cli_GetContainerId_def IsSkip_def wrapD_def)
  then show ?thesis by (simp add: container_task_def resS_def)
qed

lemma start_built:
  assumes "perform (service_task oper) te cl mem p uuid dc w = (w', None)" and "oper \<in> {OpStart, OpRestart}"
    and "live (container_of (w_db w) (service_of te cl dc))" and "db_faults (w_db w) = []" and "dc_role dc \<noteq> ROLE_FS_MDS_CLI"
  defines "c \<equiv> container_of (w_db w) (service_of te cl dc)"
  obtains ssh name ec where "host_ssh te cl (dc_host dc) = Inr ssh"
    and "Task_Execute (remote_task te uuid name (service_subname dc c) ssh
      [list_container te ssh ''{{.ID}}'' c (p @ ''out''), CheckContainerExist (p @ ''out''),
       handled (dk_Execute (te_sys te) (Some ssh) (te_opts te) (start_command oper c)) None None ec, WaitContainerStart te 3,
       Step2CheckPostStart te ssh c (p @ ''success'') (p @ ''status'')]) w = (w', None)"
proof -
  have st: "st_StartContainer (te_sys te) (Some ssh) (te_opts te) (\<lambda>_. c) None None =
      handled (dk_Execute (te_sys te) (Some ssh) (te_opts te) (dk_StartContainer [c] NewShell)) None None ERR_START_CONTAINER_FAILED" for ssh
    by (simp add: fun_eq_iff st_StartContainer_def)
  note live = container_task_live [OF assms(3,4)]
  obtain ssh where h: "host_ssh te cl (dc_host dc) = Inr ssh"
    using assms(1,2,5) live
    by (cases "host_ssh te cl (dc_host dc)")
      (auto simp: perform_def NewStartServiceTask_def NewRestartServiceTask_def skip_mds_cli_def resS_def bindS_def)
  from assms(2) consider "oper = OpStart" | "oper = OpRestart" by blast
  then show thesis
  proof cases
    case 1
    with assms(1,5) live h that [of ssh "''Start Service''" ERR_START_CONTAINER_FAILED] show thesis
      by (simp add: perform_def NewStartServiceTask_def skip_mds_cli_def resS_def start_steps_def start_command_def st c_def [symmetric])
  next
    case 2
    with assms(1) live h that [of ssh "''Restart Service''" ERR_RESTART_CONTAINER_FAILED] show thesis
      by (simp add: perform_def NewRestartServiceTask_def restart_steps_def start_command_def st_RestartContainer_def c_def [symmetric])
  qed
qed


section \<open>A host\<close>

definition demo_sys :: "(string \<Rightarrow> string \<times> cmd_err option) \<Rightarrow> unit sys" where
  "demo_sys reply =
     \<lparr>sys_auth = (\<lambda>_. True), sys_dial = (\<lambda>_ x. (x, True)), sys_exec = (\<lambda>_ line _ x. (x, reply line)),
      sys_upload = (\<lambda>_ _ _ x. (x, True)), sys_download = (\<lambda>_ _ _ x. (x, True)), sys_rand = (\<lambda>x. (x, ''r'')),
      sys_read = (\<lambda>_ _. None), sys_write = (\<lambda>_ _ _ x. (x, True)), sys_remove = (\<lambda>_ x. x), sys_sleep = (\<lambda>_ x. x)\<rparr>"

definition demo_te :: "(string \<Rightarrow> string \<times> cmd_err option) \<Rightarrow> unit task_env" where
  "demo_te reply =
     \<lparr>te_sys = demo_sys reply, te_cli = check_env,
      te_opts = \<lparr>xo_ExecWithSudo = False, xo_ExecInLocal = False, xo_ExecSudoAlias = ''sudo'', xo_ExecTimeoutSec = 10, xo_ExecWithEngine = ''docker''\<rparr>,
      te_retries = 1, te_tempdir = ''/tmp'', te_scripts = (\<lambda>_. []), te_order = (\<lambda>l. l)\<rparr>"

definition demo_world :: "db \<Rightarrow> unit world" where
  "demo_world d = \<lparr>w_db = d, w_str = (\<lambda>_. []), w_bool = (\<lambda>_. False), w_status = [], w_mstatus = [], w_dates = [], w_ext = ()\<rparr>"

definition life_dc :: deploy_config where
  "life_dc = (hd check_dcs)\<lparr>dc_variables := Some NewVariables, dc_ctx := Some []\<rparr>"

definition life_mem :: omap where
  "life_mem = [(''CLEAN_ITEMS'', OStrs [CLEAN_ITEM_CONTAINER])]"

abbreviation life_sid :: string where "life_sid \<equiv> ''u_coordinato''"

definition life_db :: db where
  "life_db = empty_db\<lparr>db_containers := [\<lparr>srv_Id = life_sid, srv_ClusterId = 1, srv_ContainerId = ''c1''\<rparr>]\<rparr>"

lemma life_demo [simp]: "service_of (demo_te reply) check_cli life_dc = life_sid" "container_of life_db life_sid = ''c1''"
  "db_faults life_db = []" "dc_role life_dc \<noteq> ROLE_FS_MDS_CLI" "mem_strs life_mem ''CLEAN_ITEMS'' = Inr [CLEAN_ITEM_CONTAINER]"
  "w_db (demo_world d) = d" "w_ext (demo_world d) = ()" "\<not> w_bool (demo_world d) v"
  by (simp_all add: GetServiceId_def check_env_def check_cli_def demo_te_def life_db_def container_of_def service_content_def empty_db_def
      life_dc_def check_dcs_def demo_dc_def life_mem_def mem_strs_def demo_world_def)

lemma pair_of: "snd r = y \<Longrightarrow> r = (fst r, y)"
  by auto

definition create_te :: "unit task_env" where
  "create_te = demo_te (\<lambda>_. (''warning'' @ [CHR 0x0A] @ ''c9'' @ [CHR 0x0A], None))"

definition running_te :: "unit task_env" where
  "running_te = demo_te (\<lambda>line. (if str_contains line ''inspect'' then ''running'' else ''c1'', None))"

lemma create_te_runs:
  "dk_Execute (te_sys create_te) (Some ssh) xo cmd x = (x, Inr (''warning'' @ [CHR 0x0A] @ ''c9'' @ [CHR 0x0A], None))"
  "sh_Execute (te_sys create_te) (Some ssh) xo cmd x = (x, Inr (''warning'' @ [CHR 0x0A] @ ''c9'' @ [CHR 0x0A], None))"
  by (simp_all add: create_te_def demo_te_def demo_sys_def dk_Execute_def sh_Execute_def execCommand_def Let_def)

lemma create_te_directories: "st_CreateDirectory (te_sys create_te) (Some ssh) xo paths None None w = (w, None)"
  by (induction paths arbitrary: w) (simp_all add: handled_def on_ext_def create_te_runs PostHandle_def)

lemma is_right: "case r of Inl _ \<Rightarrow> False | Inr _ \<Rightarrow> True \<Longrightarrow> \<exists>v. r = Inr v"
  by (cases r) auto

lemma create_te_succeeds:
  "snd (perform NewCreateContainerTask create_te check_cli mem p uuid life_dc (demo_world empty_db)) = None"
proof -
  have "case host_ssh create_te check_cli (dc_host life_dc) of Inl _ \<Rightarrow> False | Inr _ \<Rightarrow> True" by code_simp
  then obtain ssh where h: "host_ssh create_te check_cli (dc_host life_dc) = Inr ssh" using is_right by blast
  have "case create_dirs life_dc of Inl _ \<Rightarrow> False | Inr _ \<Rightarrow> True" by code_simp
  then obtain dirs where d: "create_dirs life_dc = Inr dirs" using is_right by blast
  let ?host = "container_hostname (dc_kind life_dc) (dc_role life_dc) life_sid"
  have "case service_container_spec life_dc ?host of Inl _ \<Rightarrow> False | Inr _ \<Rightarrow> True" by code_simp
  then obtain spec where s: "service_container_spec life_dc ?host = Inr spec" using is_right by blast
  have i: "service_of create_te check_cli life_dc = life_sid" by (simp add: create_te_def)
  have "NewSSHClient (te_sys create_te) (te_retries create_te) ssh x = (x, True)" for x
    by (simp add: create_te_def demo_te_def demo_sys_def NewSSHClient_def)
  with h d s i show ?thesis
    by (simp add: perform_def NewCreateContainerTask_def resS_def Task_Execute_def remote_task_sel on_ext_def create_steps_def
        Step2GetService_def GetContainerId_def db_Query_def bindD_def returnD_def empty_db_def create_te_directories st_CreateContainer_def
        handled_def create_te_runs PostHandle_def TrimContainerId_def Step2InsertService_def InsertService_def db_Write_def Let_def demo_world_def)
qed


theorem clean_outcome_witness:
  "\<exists>w'. perform NewCleanServiceTask (demo_te (\<lambda>_. ([], None))) check_cli life_mem ''p'' ''0123456789abcdef'' life_dc (demo_world life_db) = (w', None) \<and>
     service_content (w_db w') = put_container life_sid CLEANED_CONTAINER_ID (service_content life_db)"
proof -
  let ?p = "perform NewCleanServiceTask (demo_te (\<lambda>_. ([], None))) check_cli life_mem ''p'' ''0123456789abcdef'' life_dc (demo_world life_db)"
  have "snd ?p = None" by code_simp
  note p = pair_of [OF this]
  from clean_outcome [OF p, of "[CLEAN_ITEM_CONTAINER]"] p show ?thesis by (intro exI conjI) simp_all
qed

theorem clean_ignores_engine_witness:
  "\<exists>w'. perform NewCleanServiceTask (demo_te (\<lambda>_. (''no such container'', Some CmdFailed))) check_cli life_mem ''p'' ''0123456789abcdef'' life_dc
       (demo_world life_db) = (w', None) \<and>
     service_content (w_db w') = put_container life_sid CLEANED_CONTAINER_ID (service_content life_db)"
proof -
  let ?te = "demo_te (\<lambda>_. (''no such container'', Some CmdFailed))"
  have "case host_ssh ?te check_cli (dc_host life_dc) of Inl _ \<Rightarrow> False | Inr _ \<Rightarrow> True" by code_simp
  then obtain ssh where h: "host_ssh ?te check_cli (dc_host life_dc) = Inr ssh" by (auto split: sum.splits)
  have "\<forall>l. mset (te_order ?te l) = mset l" "snd (NewSSHClient (te_sys ?te) (te_retries ?te) ssh (w_ext (demo_world life_db)))"
    by (simp_all add: demo_te_def demo_sys_def NewSSHClient_def)
  from clean_ignores_engine [of "demo_world life_db" ?te check_cli life_dc life_mem, OF _ _ _ _ this(1) h this(2)] show ?thesis by simp
qed


end
