(* ===== verification/Monitor_Life.thy ===== *)
theory Monitor_Life
  imports Monitor_Tasks Service_Life
begin

text \<open>
  The tasks on monitor services as commands on the record of containers (interpretations of \<open>service_command\<close>), and what holds
  over every sequence of commands on services and monitor services.
\<close>

section \<open>Monitor services\<close>

lemma mc_task_silent:
  assumes "\<And>c ssh d. builds_silent te d (k c ssh d)"
  shows "builds_silent te d (mc_task te cl mc roles k d)"
proof -
  obtain d1 r where g: "cli_GetContainerId (mc_service te cl mc) d = (d1, r)" by fastforce
  have "builds_silent te d1 (bindS (resS (bindR r (\<lambda>c. bindR (host_ssh te cl (mc_host mc)) (\<lambda>ssh. Inr (c, ssh))))) (\<lambda>(c, ssh). k c ssh) d1)"
    using assms by (auto simp: bindS_def resS_def split: sum.splits) (simp add: builds_silent_def)
  with g cli_GetContainerId_reads(1) [OF g] show ?thesis
    by (auto simp: mc_task_def builds_silent_def split: prod.splits if_splits)
qed

lemma resS_silent: "silent_task te t \<Longrightarrow> builds_silent te d (resS (Inr (Some t)) d)"
  by (simp add: builds_silent_def resS_def)

lemma mc_stop_steps_silent: "\<forall>s \<in> set (mc_stop_steps te ssh p c). db_silent s"
  by (simp add: mc_stop_steps_def list_container_db simple_steps_db engine_steps_db)

interpretation mc_start_task: silent_command mc_NewStartServiceTask mc_service
proof unfold_locales
  fix te :: "'a task_env" and cl mem p uuid t w w' res
  assume p: "perform mc_NewStartServiceTask te cl mem p uuid t w = (w', res)"
  have "builds_silent te (w_db w) (mc_NewStartServiceTask te cl mem p uuid t (w_db w))"
    unfolding mc_NewStartServiceTask_def by (intro mc_task_silent resS_silent silent_taskI lifecycle_steps_silent)
  with p show "service_content (w_db w') = service_content (w_db w)" by (rule perform_silent)
qed

interpretation mc_restart_task: silent_command mc_NewRestartServiceTask mc_service
proof unfold_locales
  fix te :: "'a task_env" and cl mem p uuid t w w' res
  assume p: "perform mc_NewRestartServiceTask te cl mem p uuid t w = (w', res)"
  have "builds_silent te (w_db w) (mc_NewRestartServiceTask te cl mem p uuid t (w_db w))"
    unfolding mc_NewRestartServiceTask_def by (intro mc_task_silent resS_silent silent_taskI lifecycle_steps_silent)
  with p show "service_content (w_db w') = service_content (w_db w)" by (rule perform_silent)
qed

interpretation mc_stop_task: silent_command mc_NewStopServiceTask mc_service
proof unfold_locales
  fix te :: "'a task_env" and cl mem p uuid t w w' res
  assume p: "perform mc_NewStopServiceTask te cl mem p uuid t w = (w', res)"
  have "builds_silent te (w_db w) (mc_NewStopServiceTask te cl mem p uuid t (w_db w))"
    unfolding mc_NewStopServiceTask_def by (intro mc_task_silent resS_silent silent_taskI mc_stop_steps_silent)
  with p show "service_content (w_db w') = service_content (w_db w)" by (rule perform_silent)
qed

lemma perform_mc_create:
  assumes "perform mc_NewCreateContainerTask te cl mem p uuid mc w = (w', res)"
  shows "service_content (w_db w') = service_content (w_db w) \<or>
         \<not> live (container_of (w_db w) (mc_service te cl mc)) \<and>
           (\<exists>ssh spec. created te ssh spec (cl_clusterId cl) (mc_service te cl mc) (w_db w) (w_db w'))"
proof (cases "\<exists>t. snd (mc_NewCreateContainerTask te cl mem p uuid mc (w_db w)) = Inr (Some t)")
  case True
  let ?sid = "mc_service te cl mc"
  from True obtain ssh paths spec where h: "host_ssh te cl (mc_host mc) = Inr ssh" "mc_paths mc = Inr paths"
    "mc_container_spec te mc (container_hostname (mc_kind mc) (mc_role mc) ?sid) = Inr spec"
    by (auto simp: mc_NewCreateContainerTask_def resS_def res_simps Let_def)
  with assms have t: "Task_Execute (remote_task te uuid ''Create Container'' (''host='' @ mc_host mc @ '' role='' @ mc_role mc) ssh
      (create_steps te ssh p (cl_clusterId cl) ?sid paths spec)) w = (w', res)"
    by (simp add: perform_def mc_NewCreateContainerTask_def resS_def res_simps Let_def)
  from create_task_outcome [OF t] show ?thesis by blast
next
  case False
  with assms show ?thesis
    by (auto simp: perform_def mc_NewCreateContainerTask_def resS_def res_simps Let_def split: sum.splits option.splits)
qed

interpretation mc_create_task: service_command mc_NewCreateContainerTask mc_service False
proof unfold_locales
  fix te :: "'a task_env" and cl mem p uuid t w w' res j
  assume "perform mc_NewCreateContainerTask te cl mem p uuid t w = (w', res)"
  note out = perform_mc_create [OF this]
  show "j \<noteq> mc_service te cl t \<Longrightarrow> service_content (w_db w') j = service_content (w_db w) j"
    using out by (elim disjE) (auto simp: created_def)
  show "live (container_of (w_db w) (mc_service te cl t)) \<Longrightarrow> service_content (w_db w') = service_content (w_db w) \<or>
      False \<and> container_of (w_db w') (mc_service te cl t) = CLEANED_CONTAINER_ID"
    using out by (elim disjE) simp_all
qed

lemma perform_mc_clean:
  assumes "perform NewCleanMonitorTask te cl mem p uuid mc w = (w', res)"
  shows "service_content (w_db w') = service_content (w_db w) \<or>
         service_content (w_db w') = put_container (mc_service te cl mc) CLEANED_CONTAINER_ID (service_content (w_db w))"
proof -
  let ?sid = "mc_service te cl mc"
  obtain d1 r where g: "cli_GetContainerId ?sid (w_db w) = (d1, r)" by fastforce
  obtain q where n: "NewCleanMonitorTask te cl mem p uuid mc (w_db w) = (d1, q)"
    using g by (simp add: NewCleanMonitorTask_def Let_def)
  note content = cli_GetContainerId_reads(1) [OF g]
  show ?thesis
  proof (cases "\<exists>t. q = Inr (Some t)")
    case True
    then obtain t where t: "q = Inr (Some t)" by blast
    with n g obtain sub ssh c clean files where "t = remote_task te uuid ''Clean Monitor'' sub ssh (clean_steps_of te ssh ?sid c clean files)"
      by (auto simp: NewCleanMonitorTask_def Let_def res_simps split: if_splits)
    with assms n t have "Task_Execute (remote_task te uuid ''Clean Monitor'' sub ssh (clean_steps_of te ssh ?sid c clean files)) (w\<lparr>w_db := d1\<rparr>) = (w', res)"
      by (simp add: perform_def)
    from clean_task_outcome [OF this] content show ?thesis by auto
  next
    case False
    with n assms have "w_db w' = d1" by (auto simp: perform_def split: sum.splits option.splits)
    with content show ?thesis by simp
  qed
qed

interpretation mc_clean_task: service_command NewCleanMonitorTask mc_service True
proof unfold_locales
  fix te :: "'a task_env" and cl mem p uuid t w w' res j
  assume "perform NewCleanMonitorTask te cl mem p uuid t w = (w', res)"
  note out = perform_mc_clean [OF this]
  show "j \<noteq> mc_service te cl t \<Longrightarrow> service_content (w_db w') j = service_content (w_db w) j"
    using out by (elim disjE) (simp_all add: put_container_def)
  show "live (container_of (w_db w) (mc_service te cl t)) \<Longrightarrow> service_content (w_db w') = service_content (w_db w) \<or>
      True \<and> container_of (w_db w') (mc_service te cl t) = CLEANED_CONTAINER_ID"
    using out by (elim disjE) (auto simp: put_container_def container_of_def split: option.splits)
qed

section \<open>Sequences of commands\<close>

fun monitor_task :: "service_op \<Rightarrow> 'x new_monitor_task" where
  "monitor_task OpCreate = mc_NewCreateContainerTask"
| "monitor_task OpCreateCli = mc_NewCreateContainerTask"
| "monitor_task OpStart = mc_NewStartServiceTask"
| "monitor_task OpStop = mc_NewStopServiceTask"
| "monitor_task OpRestart = mc_NewRestartServiceTask"
| "monitor_task OpClean = NewCleanMonitorTask"

text \<open>A run of commands on services and monitor services, with what was asked of which service, in order.\<close>

inductive service_run :: "'x world \<Rightarrow> (service_op \<times> string) list \<Rightarrow> 'x world \<Rightarrow> bool" where
  nothing: "service_run w [] w"
| command: "service_run w tr w1 \<Longrightarrow> perform (service_task oper) te cl mem p uuid dc w1 = (w2, res) \<Longrightarrow>
    service_run w (tr @ [(oper, service_of te cl dc)]) w2"
| monitor_command: "service_run w tr w1 \<Longrightarrow> perform (monitor_task oper) te cl mem p uuid mc w1 = (w2, res) \<Longrightarrow>
    service_run w (tr @ [(oper, mc_service te cl mc)]) w2"

lemma service_task_keeps_live:
  assumes "perform (service_task oper) te cl mem p uuid dc w = (w', res)" and "live (container_of (w_db w) j)"
    and "oper = OpClean \<longrightarrow> j \<noteq> service_of te cl dc"
  shows "service_content (w_db w') j = service_content (w_db w) j"
  using assms
  by (cases oper)
    (simp_all add: create_task.keeps_live create_cli_task.keeps_live start_task.silent stop_task.silent restart_task.silent clean_task.keeps_live)

lemma monitor_task_keeps_live:
  assumes "perform (monitor_task oper) te cl mem p uuid mc w = (w', res)" and "live (container_of (w_db w) j)"
    and "oper = OpClean \<longrightarrow> j \<noteq> mc_service te cl mc"
  shows "service_content (w_db w') j = service_content (w_db w) j"
  using assms
  by (cases oper)
    (simp_all add: mc_create_task.keeps_live mc_start_task.silent mc_stop_task.silent mc_restart_task.silent mc_clean_task.keeps_live)

text \<open>
  C27: over any run of the tasks that create, start, stop, restart and clean services and monitor services, in any sessions and with
  any answers of the hosts and any faults of the database: the recorded container of a service stays recorded until
  the service itself is cleaned.
\<close>

theorem live_container_kept:
  assumes "service_run w tr w'" and "live (container_of (w_db w) sid)" and "(OpClean, sid) \<notin> set tr"
  shows "service_content (w_db w') sid = service_content (w_db w) sid"
  using assms
proof (induction rule: service_run.induct)
  case (command w tr w1 oper te cl mem p uuid dc w2 res)
  then have IH: "service_content (w_db w1) sid = service_content (w_db w) sid" by simp
  with command.prems(1) have "live (container_of (w_db w1) sid)" by (simp add: container_of_def)
  with command.hyps(2) command.prems(2) have "service_content (w_db w2) sid = service_content (w_db w1) sid"
    by (intro service_task_keeps_live) auto
  with IH show ?case by simp
next
  case (monitor_command w tr w1 oper te cl mem p uuid mc w2 res)
  then have IH: "service_content (w_db w1) sid = service_content (w_db w) sid" by simp
  with monitor_command.prems(1) have "live (container_of (w_db w1) sid)" by (simp add: container_of_def)
  with monitor_command.hyps(2) monitor_command.prems(2) have "service_content (w_db w2) sid = service_content (w_db w1) sid"
    by (intro monitor_task_keeps_live) auto
  with IH show ?case by simp
qed simp

theorem live_container_kept_witness:
  "\<exists>w'. service_run (demo_world life_db) [(OpStart, life_sid), (OpCreate, life_sid)] w' \<and> service_content (w_db w') life_sid = Some (1, ''c1'')"
proof -
  obtain w1 r1 where 1: "perform (service_task OpStart) (demo_te (\<lambda>_. ([], None))) check_cli [] ''p'' ''u'' life_dc (demo_world life_db) = (w1, r1)" by fastforce
  obtain w2 r2 where 2: "perform (service_task OpCreate) (demo_te (\<lambda>_. ([], None))) check_cli [] ''p'' ''u'' life_dc w1 = (w2, r2)" by fastforce
  from service_run.command [OF service_run.command [OF service_run.nothing 1] 2]
  have t: "service_run (demo_world life_db) [(OpStart, life_sid), (OpCreate, life_sid)] w2" by simp
  have "live (container_of (w_db (demo_world life_db)) life_sid)" "(OpClean, life_sid) \<notin> set [(OpStart, life_sid), (OpCreate, life_sid)]" by simp_all
  from live_container_kept [OF t this] t show ?thesis
    by (intro exI conjI) (simp_all add: service_content_def life_db_def)
qed

end
