(* ===== verification/Status_Spec.thy ===== *)
theory Status_Spec
  imports Status_Tasks Service_Life
begin

text \<open>What the status of a service says.\<close>

section \<open>The task\<close>

text \<open>The container that is read for a service: a service with no record counts as cleaned.\<close>

definition recorded :: "db \<Rightarrow> string \<Rightarrow> string" where
  "recorded d sid = (if container_of d sid = [] then CLEANED_CONTAINER_ID else container_of d sid)"

lemma container_task_recorded:
  assumes "dc_role dc \<noteq> ROLE_SNAPSHOTCLONE" and "db_faults d = []"
  shows "container_task te cl dc k d = (d, bindR (host_ssh te cl (dc_host dc)) (k (recorded d (service_of te cl dc))))"
proof -
  let ?sid = "service_of te cl dc"
  have "GetContainerId ?sid d = (d, Inr (container_of d ?sid))"
    using GetContainerId_reads(3) [of ?sid d] assms(2) by (metis surj_pair)
  with assms(1) have "service_container te cl dc d = (d, Inr (Some (recorded d ?sid)))"
    by (simp add: service_container_def cli_GetContainerId_def IsSkip_def wrapD_def recorded_def)
  then show ?thesis by (simp add: container_task_def resS_def)
qed

lemma run_steps_honest:
  assumes "honest s"
  shows "run_steps (s # ss) w = (w', None) \<longleftrightarrow> (\<exists>w1. s w = (w1, None) \<and> run_steps ss w1 = (w', None))"
proof
  assume "run_steps (s # ss) w = (w', None)"
  then show "\<exists>w1. s w = (w1, None) \<and> run_steps ss w1 = (w', None)"
    using assms by (cases rule: run_steps_Cons_cases) (auto dest: honest_error split: if_splits)
qed auto

lemma container_exec_runs: "\<exists>x out err. container_exec te ssh c cmd w = (w\<lparr>w_ext := x\<rparr>, Inr (out, err))"
proof -
  obtain x q where "dk_Execute (te_sys te) (Some ssh) (te_opts te) (dk_ContainerExec c cmd NewShell) (w_ext w) = (x, Inr q)"
    using dk_Execute_runs [of "te_sys te" ssh "te_opts te" "dk_ContainerExec c cmd NewShell" "w_ext w"] by blast
  then have "container_exec te ssh c cmd w = (w\<lparr>w_ext := x\<rparr>, Inr (fst q, snd q))" by (simp add: container_exec_def on_ext_def)
  then show ?thesis by blast
qed

lemma put_status_honest: "honest (put_status i r)"
  by (auto simp: honest_def put_status_def split: sum.splits)

text \<open>The steps leave everything but their own results as it is.\<close>

lemma ports_step:
  "\<exists>t x. Step2GetListenPorts te ssh c status ports w = (w\<lparr>w_str := (w_str w)(ports := t), w_ext := x\<rparr>, None) \<and>
     (\<not> has_prefix (w_str w status) ''Up'' \<longrightarrow> t = w_str w ports)"
proof (cases "has_prefix (w_str w status) ''Up''")
  case True
  obtain x out err where x: "container_exec te ssh c ss_command w = (w\<lparr>w_ext := x\<rparr>, Inr (out, err))"
    using container_exec_runs [of te ssh c ss_command w] by blast
  obtain x2 out2 err2 where x2: "container_exec te ssh c netstat_command (w\<lparr>w_ext := x\<rparr>) = (w\<lparr>w_ext := x2\<rparr>, Inr (out2, err2))"
    using container_exec_runs [of te ssh c netstat_command "w\<lparr>w_ext := x\<rparr>"] by auto
  let ?t = "case err of None \<Rightarrow> listen_ports out ''ss''
      | Some _ \<Rightarrow> (case err2 of None \<Rightarrow> listen_ports out2 ''netstat'' | Some _ \<Rightarrow> w_str w ports)"
  have "Step2GetListenPorts te ssh c status ports w =
      (w\<lparr>w_str := (w_str w)(ports := ?t), w_ext := if err = None then x else x2\<rparr>, None)"
    using True x x2 by (cases err; cases err2) (simp_all add: Step2GetListenPorts_def set_str_def)
  with True show ?thesis by blast
next
  case False
  have "Step2GetListenPorts te ssh c status ports w = (w\<lparr>w_str := (w_str w)(ports := w_str w ports), w_ext := w_ext w\<rparr>, None)"
    using False by (simp add: Step2GetListenPorts_def)
  then show ?thesis by blast
qed

lemma ports_honest: "honest (Step2GetListenPorts te ssh c status ports)"
proof -
  have "snd (Step2GetListenPorts te ssh c status ports w) = None" for w using ports_step [of te ssh c status ports w] by auto
  then have "\<not> Step2GetListenPorts te ssh c status ports w = (w', Some e)" for w w' e by (metis option.distinct(1) snd_conv)
  then show ?thesis by (simp add: honest_def)
qed

lemma leader_step:
  "(\<exists>b x. step2GetLeader te ssh dc c status leader w = (w\<lparr>w_bool := (w_bool w)(leader := b), w_ext := x\<rparr>, None) \<and>
      (\<not> has_prefix (w_str w status) ''Up'' \<longrightarrow> b = w_bool w leader)) \<or>
   (\<exists>e. step2GetLeader te ssh dc c status leader w = (w, Some (TErr e)))"
proof (cases "\<not> has_prefix (w_str w status) ''Up'' \<or> dc_role dc \<noteq> ROLE_FS_MDS")
  case True
  then have "step2GetLeader te ssh dc c status leader w = (w\<lparr>w_bool := (w_bool w)(leader := w_bool w leader), w_ext := w_ext w\<rparr>, None)"
    by (auto simp: step2GetLeader_def)
  then show ?thesis by blast
next
  case False
  show ?thesis
  proof (cases "bindR (GetListenIp dc) (\<lambda>ip. bindR (GetListenDummyPort dc) (\<lambda>port. Inr (leader_command ip port)))")
    case (Inl e)
    with False show ?thesis by (simp add: step2GetLeader_def)
  next
    case (Inr cmd)
    obtain x out err where "container_exec te ssh c cmd w = (w\<lparr>w_ext := x\<rparr>, Inr (out, err))"
      using container_exec_runs [of te ssh c cmd w] by blast
    with False Inr have "step2GetLeader te ssh dc c status leader w =
        (w\<lparr>w_bool := (w_bool w)(leader := str_contains out ''leader''), w_ext := x\<rparr>, None)"
      by (simp add: step2GetLeader_def set_bool_def)
    with False show ?thesis by blast
  qed
qed

lemma leader_honest: "honest (step2GetLeader te ssh dc c status leader)"
  unfolding honest_def
proof (intro allI impI)
  fix w w' e
  assume "step2GetLeader te ssh dc c status leader w = (w', Some e)"
  with leader_step [of te ssh dc c status leader w] show "\<exists>g. e = TErr g" by auto
qed

definition status_listing :: "string \<Rightarrow> shell" where
  "status_listing c = add_opt True ''--all'' (add_opt False ''--quiet''
     (add_val ''--filter '' (''id='' @ c) (add_val ''--format '' (quoted ''{{.Status}}'') (dk_ListContainers NewShell))))"

lemma list_result:
  assumes "list_container te ssh ''{{.Status}}'' c outp w = (w', None)"
  shows "\<exists>x out. dk_Execute (te_sys te) (Some ssh) (te_opts te) (status_listing c) (w_ext w) = (x, Inr (out, None)) \<and>
    w' = w\<lparr>w_str := (w_str w)(outp := trim_newlines out), w_ext := x\<rparr>"
proof -
  obtain x out err where x: "dk_Execute (te_sys te) (Some ssh) (te_opts te) (status_listing c) (w_ext w) = (x, Inr (out, err))"
    using dk_Execute_runs [of "te_sys te" ssh "te_opts te" "status_listing c" "w_ext w"] by auto
  with assms have "err = None" "w' = w\<lparr>w_str := (w_str w)(outp := trim_newlines out), w_ext := x\<rparr>"
    by (auto simp: list_container_def st_ListContainers_def status_listing_def handled_def on_ext_def PostHandle_def Let_def set_str_def
        split: option.splits cmd_err.splits)
  with x show ?thesis by blast
qed

lemma put_status_result:
  assumes "put_status sid (status_of dc sid c ports leader state) w = (w', None)"
  shows "\<exists>st. w' = w\<lparr>w_status := AList.update sid st (w_status w)\<rparr> \<and> ss_Id st = sid \<and> ss_Config st = dc \<and> ss_Status st = state \<and>
    ss_Ports st = ports \<and> ss_IsLeader st = leader"
proof (cases "status_of dc sid c ports leader state")
  case (Inr st)
  have "ss_Id st = sid \<and> ss_Config st = dc \<and> ss_Status st = state \<and> ss_Ports st = ports \<and> ss_IsLeader st = leader"
    using Inr by (auto simp: status_of_def bindR_eq_Inr)
  with Inr assms show ?thesis by (auto simp: put_status_def setServiceStatus_def)
qed (use assms in \<open>simp add: put_status_def\<close>)

lemma status_steps_result:
  assumes "run_steps (status_steps te ssh p dc sid c) w = (w', None)"
  shows "\<exists>out st ports leader. engine_said te ssh (status_listing c) out \<and>
    w_status w' = AList.update sid st (w_status w) \<and> w_db w' = w_db w \<and> ss_Id st = sid \<and> ss_Config st = dc \<and>
    ss_Status st = final_status c (last_line (trim_newlines out)) \<and> ss_Ports st = ports \<and> ss_IsLeader st = leader \<and>
    (\<not> has_prefix (last_line (trim_newlines out)) ''Up'' \<longrightarrow> ports = w_str w (p @ ''ports'') \<and> leader = w_bool w (p @ ''isLeader''))"
proof -
  let ?status = "p @ ''status''" and ?ports = "p @ ''ports''" and ?leader = "p @ ''isLeader''"
  have h: "honest (list_container te ssh ''{{.Status}}'' c ?status)" "honest (TrimContainerStatus ?status)"
    "honest (step2FormatServiceStatus dc sid c ?leader ?ports ?status)"
    by (simp_all add: list_container_def st_ListContainers_def handled_honest)
      (auto simp: honest_def TrimContainerStatus_def step2FormatServiceStatus_def dest: put_status_honest [unfolded honest_def, rule_format])
  from assms obtain w1 w2 w3 w4 where
      l: "list_container te ssh ''{{.Status}}'' c ?status w = (w1, None)" and t: "TrimContainerStatus ?status w1 = (w2, None)"
      and g: "Step2GetListenPorts te ssh c ?status ?ports w2 = (w3, None)" and b: "step2GetLeader te ssh dc c ?status ?leader w3 = (w4, None)"
      and f: "step2FormatServiceStatus dc sid c ?leader ?ports ?status w4 = (w', None)"
    by (auto simp: status_steps_def run_steps_honest [OF h(1)] run_steps_honest [OF h(2)] run_steps_honest [OF h(3)]
        run_steps_honest [OF ports_honest] run_steps_honest [OF leader_honest] simp del: run_steps.simps(2))
  obtain x out where said: "dk_Execute (te_sys te) (Some ssh) (te_opts te) (status_listing c) (w_ext w) = (x, Inr (out, None))"
      and w1: "w1 = w\<lparr>w_str := (w_str w)(?status := trim_newlines out), w_ext := x\<rparr>"
    using list_result [OF l] by blast
  let ?line = "last_line (trim_newlines out)"
  have w2: "w_str w2 ?status = ?line" "w_str w2 ?ports = w_str w ?ports" "w_bool w2 = w_bool w" "w_status w2 = w_status w" "w_db w2 = w_db w"
    using t by (auto simp: TrimContainerStatus_def w1 last_line_def set_str_def)
  obtain ports x2 where w3: "w3 = w2\<lparr>w_str := (w_str w2)(?ports := ports), w_ext := x2\<rparr>"
      and ports: "\<not> has_prefix ?line ''Up'' \<longrightarrow> ports = w_str w ?ports"
    using ports_step [of te ssh c ?status ?ports w2] g w2 by auto
  obtain leader x3 where w4: "w4 = w3\<lparr>w_bool := (w_bool w3)(?leader := leader), w_ext := x3\<rparr>"
      and leader: "\<not> has_prefix ?line ''Up'' \<longrightarrow> leader = w_bool w ?leader"
    using leader_step [of te ssh dc c ?status ?leader w3] b w2 by (auto simp: w3)
  have sel: "w_str w4 ?ports = ports" "w_bool w4 ?leader = leader" "w_str w4 ?status = ?line" "w_status w4 = w_status w" "w_db w4 = w_db w"
    using w2 by (simp_all add: w4 w3)
  obtain st where "w' = w4\<lparr>w_status := AList.update sid st (w_status w)\<rparr>" "ss_Id st = sid" "ss_Config st = dc"
      "ss_Status st = final_status c ?line" "ss_Ports st = ports" "ss_IsLeader st = leader"
    using put_status_result [OF f [unfolded step2FormatServiceStatus_def sel]] sel(4) by auto
  with said ports leader sel(5) show ?thesis unfolding engine_said_def by (intro exI conjI) (assumption | simp)+
qed

text \<open>
  The status of a service: a task that returns no error asked the engine of the service's host for the state of the
  recorded container and stores one entry, under the service's id.  Its state is \<open>Cleaned\<close> for a service
  with no container, \<open>Losed\<close> when the engine lists no such container, and the last line of the engine's answer otherwise; unless
  that line starts with \<open>Up\<close> no ports are shown and the service is no leader.  The database is only read.
\<close>

theorem status_reported:
  assumes "perform NewGetServiceStatusTask te cl mem p uuid dc w = (w', None)" and "db_faults (w_db w) = []"
    and "dc_role dc \<noteq> ROLE_SNAPSHOTCLONE" and "w_str w (p @ ''ports'') = []" and "\<not> w_bool w (p @ ''isLeader'')"
  defines "sid \<equiv> service_of te cl dc"
  shows "\<exists>ssh out st. host_ssh te cl (dc_host dc) = Inr ssh \<and> engine_said te ssh (status_listing (recorded (w_db w) sid)) out \<and>
    w_status w' = AList.update sid st (w_status w) \<and> ss_Id st = sid \<and> ss_Config st = dc \<and>
    ss_Status st = (if recorded (w_db w) sid = CLEANED_CONTAINER_ID then ''Cleaned''
      else if last_line (trim_newlines out) = [] then ''Losed'' else last_line (trim_newlines out)) \<and>
    (\<not> has_prefix (last_line (trim_newlines out)) ''Up'' \<longrightarrow> ss_Ports st = [] \<and> \<not> ss_IsLeader st) \<and> w_db w' = w_db w"
proof -
  let ?c = "recorded (w_db w) sid"
  have new: "NewGetServiceStatusTask te cl mem p uuid dc (w_db w) = (w_db w, bindR (host_ssh te cl (dc_host dc)) (\<lambda>ssh.
      Inr (Some (remote_task te uuid ''Get Service Status'' (service_subname dc ?c) ssh (status_steps te ssh p dc sid ?c)))))"
    unfolding NewGetServiceStatusTask_def sid_def by (rule container_task_recorded [OF assms(3,2)])
  obtain ssh where h: "host_ssh te cl (dc_host dc) = Inr ssh"
    using assms(1) new by (cases "host_ssh te cl (dc_host dc)") (auto simp: perform_def)
  with assms(1) new have "Task_Execute (remote_task te uuid ''Get Service Status'' (service_subname dc ?c) ssh
      (status_steps te ssh p dc sid ?c)) w = (w', None)" by (simp add: perform_def)
  then obtain x where "run_steps (status_steps te ssh p dc sid ?c) (w\<lparr>w_ext := x\<rparr>) = (w', None)"
    by (cases rule: remote_task_cases) auto
  from status_steps_result [OF this] obtain out st where "engine_said te ssh (status_listing ?c) out" "ss_Id st = sid" "ss_Config st = dc"
    "w_status w' = AList.update sid st (w_status w)" "w_db w' = w_db w" "ss_Status st = final_status ?c (last_line (trim_newlines out))"
    "\<not> has_prefix (last_line (trim_newlines out)) ''Up'' \<longrightarrow> ss_Ports st = [] \<and> \<not> ss_IsLeader st"
    using assms(4,5) by auto
  with h show ?thesis by (intro exI conjI) (assumption | simp add: final_status_def)+
qed

section \<open>The theorem at work\<close>

definition up_te :: "unit task_env" where
  "up_te = demo_te (\<lambda>_. (''Up 3 hours'', None))"

lemma up_te_runs:
  "dk_Execute (te_sys up_te) (Some ssh) xo cmd x = (x, Inr (''Up 3 hours'', None))" "NewSSHClient (te_sys up_te) (te_retries up_te) ssh x = (x, True)"
  by (simp_all add: up_te_def demo_te_def demo_sys_def dk_Execute_def execCommand_def Let_def NewSSHClient_def)

lemma up_te_succeeds:
  "snd (perform NewGetServiceStatusTask up_te check_cli mem p uuid life_dc (demo_world life_db)) = None"
proof -
  have "case host_ssh up_te check_cli (dc_host life_dc) of Inl _ \<Rightarrow> False | Inr _ \<Rightarrow> True" by code_simp
  then obtain ssh where h: "host_ssh up_te check_cli (dc_host life_dc) = Inr ssh" using is_right by blast
  have "case status_of life_dc [] [] [] False [] of Inl _ \<Rightarrow> False | Inr _ \<Rightarrow> True" by code_simp
  then have st: "\<exists>st. status_of life_dc sid c ports leader state = Inr st" for sid c ports leader state
    by (auto simp: status_of_def bindR_eq_Inr split: sum.splits)
  have r: "dc_role life_dc \<noteq> ROLE_SNAPSHOTCLONE" "dc_role life_dc \<noteq> ROLE_FS_MDS" by code_simp+
  have f: "db_faults (w_db (demo_world life_db)) = []" by simp
  have put: "snd (put_status sid (status_of life_dc sid c ports leader state) w) = None" for sid c ports leader state and w :: "unit world"
    using st [of sid c ports leader state] by (auto simp: put_status_def)
  have "snd (Step2GetListenPorts up_te ssh c status pv w) = None" for c status pv w
    using ports_step [of up_te ssh c status pv w] by auto
  with put r(2) have "snd (s w) = None" if "s \<in> set (status_steps up_te ssh p life_dc sid c)" for s w sid c
    using that
    by (auto simp: status_steps_def list_container_def st_ListContainers_def handled_def on_ext_def up_te_runs PostHandle_def
        TrimContainerStatus_def step2GetLeader_def step2FormatServiceStatus_def)
  then have "snd (run_steps (status_steps up_te ssh p life_dc sid c) w) = None" for sid c w by (rule run_steps_pass)
  moreover have "NewGetServiceStatusTask up_te check_cli mem p uuid life_dc (w_db (demo_world life_db)) = (w_db (demo_world life_db), Inr (Some (
      remote_task up_te uuid ''Get Service Status'' (service_subname life_dc (recorded (w_db (demo_world life_db)) (service_of up_te check_cli life_dc))) ssh
        (status_steps up_te ssh p life_dc (service_of up_te check_cli life_dc) (recorded (w_db (demo_world life_db)) (service_of up_te check_cli life_dc))))))"
    unfolding NewGetServiceStatusTask_def container_task_recorded [OF r(1) f] by (simp add: h)
  ultimately show ?thesis by (simp add: perform_def Task_Execute_def remote_task_sel on_ext_def up_te_runs)
qed

theorem status_reported_witness:
  "\<exists>w' st out. perform NewGetServiceStatusTask up_te check_cli [] ''p'' ''0123456789abcdef'' life_dc (demo_world life_db) = (w', None) \<and>
     w_status w' = [(life_sid, st)] \<and> ss_Status st = (if last_line (trim_newlines out) = [] then ''Losed'' else last_line (trim_newlines out)) \<and>
     w_db w' = life_db"
proof -
  let ?p = "perform NewGetServiceStatusTask up_te check_cli [] ''p'' ''0123456789abcdef'' life_dc (demo_world life_db)"
  note p = pair_of [OF up_te_succeeds [of "[]" "''p''" "''0123456789abcdef''"]]
  have "dc_role life_dc \<noteq> ROLE_SNAPSHOTCLONE" by code_simp
  moreover have "w_str (demo_world life_db) (''p'' @ ''ports'') = []" "\<not> w_bool (demo_world life_db) (''p'' @ ''isLeader'')"
    "db_faults (w_db (demo_world life_db)) = []" "w_status (demo_world life_db) = []"
    by (simp_all add: demo_world_def life_db_def empty_db_def)
  moreover have sid: "service_of up_te check_cli life_dc = life_sid" by (simp add: up_te_def)
  moreover have "recorded (w_db (demo_world life_db)) life_sid = ''c1''" by (simp add: recorded_def)
  ultimately obtain out st where "w_status (fst ?p) = [(life_sid, st)]"
      "ss_Status st = (if last_line (trim_newlines out) = [] then ''Losed'' else last_line (trim_newlines out))" "w_db (fst ?p) = life_db"
    using status_reported [OF p] by auto
  with p show ?thesis by (intro exI conjI)
qed

end
