(* ===== verification/Status_View.thy ===== *)
theory Status_View
  imports Status_Tasks Monitor_Tasks "HOL-Library.List_Lexorder" "HOL-Library.Char_ord" "HOL-Library.Product_Lexorder"
begin

text \<open>
  Showing the states of services: the tables of \<open>internal/tui/common/tui.go\<close>, the rows of
  \<open>internal/tui/service/status.go\<close> and the command \<open>cli/command/cluster/status.go\<close>.  The services are
  sorted and, unless every instance is wanted, the instances of a service on a host are merged into
  one row.  The colours (\<open>paint\<close>), the longest common prefix of texts (\<open>longest_Prefix\<close>) and
  \<open>sort.Slice\<close> (\<open>srt\<close>), of which only what its documentation promises is used, are arguments.
\<close>

section \<open>Tables\<close>

datatype cell = Text string | DecorateMessage string "string \<Rightarrow> string"

fun originMessage :: "cell \<Rightarrow> string" where
  "originMessage (Text s) = s"
| "originMessage (DecorateMessage s decorate) = s"

fun realMessage :: "cell \<Rightarrow> string" where
  "realMessage (Text s) = s"
| "realMessage (DecorateMessage s decorate) = decorate s"

definition getLength :: "cell list list \<Rightarrow> nat \<times> nat" where
  "getLength ls = (case ls of [] \<Rightarrow> (0, 0) | l # _ \<Rightarrow> (length ls, length l))"

definition cell_at :: "nat \<Rightarrow> cell list \<Rightarrow> cell res" where
  "cell_at j line = (if j < length line then Inr (line ! j) else Inl GoPanic)"

definition fixedLength :: "cell list list \<Rightarrow> nat list res" where
  "fixedLength ls =
     mapR (\<lambda>j. bindR (mapR (cell_at j) ls) (\<lambda>cs.
       Inr (fold (\<lambda>c maxLen. if length (originMessage c) > maxLen then length (originMessage c) else maxLen) cs 0)))
       [0..<snd (getLength ls)]"

text \<open>One line: the columns of width 0 are left out, the others padded and set apart.\<close>

fun format_cells :: "string \<Rightarrow> bool \<Rightarrow> nat list \<Rightarrow> cell list \<Rightarrow> string res" where
  "format_cells spacing first [] line = Inr []"
| "format_cells spacing first (f # fs) [] = Inl GoPanic"
| "format_cells spacing first (f # fs) (c # cs) =
     (if f = 0 then format_cells spacing first fs cs
      else bindR (format_cells spacing False fs cs) (\<lambda>rest.
        Inr ((if first then [] else spacing) @ realMessage c @ replicate (f - length (originMessage c)) (CHR '' '') @ rest)))"

definition FixedFormat :: "cell list list \<Rightarrow> nat \<Rightarrow> string res" where
  "FixedFormat ls nspace =
     bindR (fixedLength ls) (\<lambda>fixed.
     bindR (mapR (\<lambda>l. bindR (format_cells (replicate nspace (CHR '' '')) True fixed l) (\<lambda>s. Inr (s @ [CHR 0x0A]))) ls) (\<lambda>outs.
     Inr (concat outs)))"

definition FormatTitle :: "string list \<Rightarrow> cell list \<times> cell list" where
  "FormatTitle title = (map Text title, map (\<lambda>item. Text (replicate (length item) (CHR ''-''))) title)"

definition CutColumn :: "int \<Rightarrow> cell list list \<Rightarrow> cell list list res" where
  "CutColumn column ls =
     mapR (\<lambda>l. if 0 \<le> column \<and> column < int (length l) then Inr (l[nat column := Text []]) else Inl GoPanic) ls"

section \<open>Sorting and merging services\<close>

abbreviation STATUS_RUNNING :: string where "STATUS_RUNNING \<equiv> ''RUNNING''"
abbreviation STATUS_STOPPED :: string where "STATUS_STOPPED \<equiv> ''STOPPED''"
abbreviation STATUS_ABNORMAL :: string where "STATUS_ABNORMAL \<equiv> ''ABNORMAL''"

datatype status_item = ITEM_ID | ITEM_CONTAINER_ID | ITEM_STATUS | ITEM_PORTS | ITEM_LOG_DIR | ITEM_DATA_DIR | ITEM_RAFT_DIR

definition ROLE_SCORE :: "(string \<times> int) list" where
  "ROLE_SCORE =
     [(ROLE_ETCD, 0), (ROLE_COORDINATOR, 0), (ROLE_STORE, 1), (ROLE_DINGODB_DOCUMENT, 2), (ROLE_CHUNKSERVER, 2),
      (ROLE_SNAPSHOTCLONE, 3), (ROLE_FS_MDS, 3), (ROLE_DINGODB_INDEX, 3), (ROLE_METASERVER, 4), (ROLE_DINGODB_DISKANN, 4),
      (ROLE_DINGODB_EXECUTOR, 5), (ROLE_DINGODB_WEB, 6), (ROLE_DINGODB_PROXY, 7)]"

definition MONITOT_ROLE_SCORE :: "(string \<times> int) list" where
  "MONITOT_ROLE_SCORE = [(ROLE_MONITOR_SYNC, 0), (ROLE_NODE_EXPORTER, 1), (ROLE_PROMETHEUS, 2), (ROLE_GRAFANA, 3)]"

text \<open>A missing role reads as 0.\<close>

definition score_in :: "(string \<times> int) list \<Rightarrow> string \<Rightarrow> int" where
  "score_in scores role = (case map_of scores role of None \<Rightarrow> 0 | Some n \<Rightarrow> n)"

definition statusDecorate :: "(string \<Rightarrow> string \<Rightarrow> string) \<Rightarrow> string \<Rightarrow> string" where
  "statusDecorate paint status =
     (if status = SERVICE_STATUS_CLEANED then paint ''blue'' status
      else if status = SERVICE_STATUS_LOSED \<or> status = SERVICE_STATUS_UNKNOWN \<or> status = STATUS_ABNORMAL then paint ''red'' status
      else status)"

definition status_less :: "service_status \<Rightarrow> service_status \<Rightarrow> bool" where
  "status_less s1 s2 =
     (let c1 = ss_Config s1; c2 = ss_Config s2 in
      if ss_Role s1 = ss_Role s2 then
        (if dc_hostSequence c1 = dc_hostSequence c2 then dc_instancesSequence c1 < dc_instancesSequence c2
         else dc_hostSequence c1 < dc_hostSequence c2)
      else score_in ROLE_SCORE (ss_Role s1) < score_in ROLE_SCORE (ss_Role s2))"

type_synonym 'a sorter = "('a \<Rightarrow> 'a \<Rightarrow> bool) \<Rightarrow> 'a list \<Rightarrow> 'a list"

definition sortStatues :: "service_status sorter \<Rightarrow> service_status list \<Rightarrow> service_status list" where
  "sortStatues srt statuses = srt status_less statuses"

definition merged_id :: "string list \<Rightarrow> string" where
  "merged_id items = (case items of [x] \<Rightarrow> x | _ \<Rightarrow> ''<instances>'')"

definition state_of :: "string \<Rightarrow> string" where
  "state_of item =
     (if has_prefix item ''Up'' then STATUS_RUNNING else if has_prefix item ''Exited'' then STATUS_STOPPED else item)"

definition count_states :: "string list \<Rightarrow> (string \<times> nat) list" where
  "count_states items =
     fold (\<lambda>item m. AList.update (state_of item) (Suc (case map_of m (state_of item) of None \<Rightarrow> 0 | Some n \<Rightarrow> n)) m) items []"

definition merged_status :: "string list \<Rightarrow> string" where
  "merged_status items =
     (case items of
        [x] \<Rightarrow> x
      | _ \<Rightarrow> (case find (\<lambda>(status, n). n = length items) (count_states items) of
               None \<Rightarrow> STATUS_ABNORMAL | Some (status, n) \<Rightarrow> status))"

definition merged_dir :: "(string list \<Rightarrow> string) \<Rightarrow> string list \<Rightarrow> string res" where
  "merged_dir longest_Prefix items =
     (case items of
        [] \<Rightarrow> Inl GoPanic
      | [x] \<Rightarrow> Inr x
      | x # _ \<Rightarrow>
          (let prefix = longest_Prefix items; first = trim_prefix x prefix; final = trim_prefix (last items) prefix in
           bindR (Min_ints [5, int (length first), int (length final)]) (\<lambda>limit.
             Inr (prefix @ ''{'' @ take (nat limit) first @ ''...'' @ take (nat limit) final @ ''}''))))"

fun item_of :: "status_item \<Rightarrow> service_status \<Rightarrow> string" where
  "item_of ITEM_ID s = ss_Id s"
| "item_of ITEM_CONTAINER_ID s = ss_ContainerId s"
| "item_of ITEM_STATUS s = ss_Status s"
| "item_of ITEM_PORTS s = ss_Ports s"
| "item_of ITEM_LOG_DIR s = ss_LogDir s"
| "item_of ITEM_DATA_DIR s = ss_DataDir s"
| "item_of ITEM_RAFT_DIR s = ss_RaftDir s"

definition merge_item :: "(string list \<Rightarrow> string) \<Rightarrow> service_status list \<Rightarrow> status_item \<Rightarrow> string res" where
  "merge_item longest_Prefix statuses item =
     (let items = sort (map (item_of item) statuses) in
      if item = ITEM_ID \<or> item = ITEM_CONTAINER_ID \<or> item = ITEM_PORTS then Inr (merged_id items)
      else if item = ITEM_STATUS then Inr (merged_status items)
      else merged_dir longest_Prefix items)"

definition instances_total :: "service_status \<Rightarrow> string res" where
  "instances_total s = (case split_on (CHR ''/'') (ss_Instances s) of _ # m # _ \<Rightarrow> Inr m | _ \<Rightarrow> Inl GoPanic)"

text \<open>The row of a group of instances.  Its configuration, nil in the code, is not read any more.\<close>

definition merged_row :: "(string list \<Rightarrow> string) \<Rightarrow> service_status list \<Rightarrow> service_status res" where
  "merged_row longest_Prefix g =
     (let status = hd g; item = merge_item longest_Prefix g in
      bindR (item ITEM_ID) (\<lambda>i.
      bindR (instances_total status) (\<lambda>m.
      bindR (item ITEM_CONTAINER_ID) (\<lambda>c.
      bindR (item ITEM_STATUS) (\<lambda>st.
      bindR (item ITEM_PORTS) (\<lambda>p.
      bindR (item ITEM_LOG_DIR) (\<lambda>l.
      bindR (item ITEM_DATA_DIR) (\<lambda>d.
      bindR (item ITEM_RAFT_DIR) (\<lambda>r.
      Inr (status\<lparr>ss_Id := i, ss_ParentId := [], ss_Instances := itoa (int (length g)) @ ''/'' @ m, ss_ContainerId := c,
        ss_Status := st, ss_Ports := p, ss_IsLeader := False, ss_LogDir := l, ss_DataDir := d, ss_RaftDir := r,
        ss_DocDir := [], ss_VectorDir := []\<rparr>))))))))))"

function mergeStatues :: "(string list \<Rightarrow> string) \<Rightarrow> service_status list \<Rightarrow> service_status list res" where
  "mergeStatues longest_Prefix [] = Inr []"
| "mergeStatues longest_Prefix (s # rest) =
     bindR (merged_row longest_Prefix (s # takeWhile (\<lambda>t. ss_ParentId s = ss_ParentId t) rest)) (\<lambda>row.
     bindR (mergeStatues longest_Prefix (dropWhile (\<lambda>t. ss_ParentId s = ss_ParentId t) rest)) (\<lambda>rows.
     Inr (row # rows)))"
  by pat_completeness auto
termination by (relation "measure (\<lambda>(_, ss). length ss)") (auto simp: le_imp_less_Suc length_dropWhile_le)

section \<open>The tables of states\<close>

definition buildStatusLine :: "(string \<Rightarrow> string \<Rightarrow> string) \<Rightarrow> service_status \<Rightarrow> bool \<Rightarrow> bool \<Rightarrow> cell list" where
  "buildStatusLine paint status showRaftDir showIndexDir =
     [Text (ss_Id status), Text (ss_Role status), Text (ss_Host status), Text (ss_Instances status), Text (ss_ContainerId status),
      DecorateMessage (ss_Status status) (statusDecorate paint), Text (Choose (length (ss_Ports status) = 0) ''-'' (ss_Ports status)),
      Text (ss_LogDir status), Text (ss_DataDir status)] @
     (if showRaftDir then [Text (ss_RaftDir status)] else []) @
     (if showIndexDir then [Text (ss_DocDir status), Text (ss_VectorDir status)] else [])"

definition buildStatusLineOnlyDir :: "(string \<Rightarrow> string \<Rightarrow> string) \<Rightarrow> service_status \<Rightarrow> string list \<Rightarrow> cell list" where
  "buildStatusLineOnlyDir paint status onlyDirs =
     [Text (ss_Id status), Text (ss_Role status), Text (ss_Host status), Text (ss_Instances status), Text (ss_ContainerId status),
      DecorateMessage (ss_Status status) (statusDecorate paint), Text (Choose (length (ss_Ports status) = 0) ''-'' (ss_Ports status))] @
     (if onlyDirs = [] then [] else
       (if Contains onlyDirs ''Log Dir'' then [Text (ss_LogDir status)] else []) @
       (if Contains onlyDirs ''Data Dir'' then [Text (ss_DataDir status)] else []) @
       (if Contains onlyDirs ''Raft Dir'' then [Text (ss_RaftDir status)] else []) @
       (if Contains onlyDirs ''Doc Dir'' then [Text (ss_DocDir status)] else []) @
       (if Contains onlyDirs ''Vector Dir'' then [Text (ss_VectorDir status)] else []))"

definition STATUS_TITLE :: "string list" where
  "STATUS_TITLE = [''Id'', ''Role'', ''Host'', ''Instances'', ''Container Id'', ''Status'', ''Ports'', ''Log Dir'', ''Data Dir'']"

definition status_title :: "string \<Rightarrow> string list \<Rightarrow> bool \<Rightarrow> bool \<Rightarrow> string list" where
  "status_title kind excludeCols isMdsv2 isMdsv2Only =
     filter (\<lambda>t. t \<notin> set excludeCols) STATUS_TITLE @
     (if (kind = KIND_DINGOSTORE \<or> isMdsv2 \<or> kind = KIND_DINGODB) \<and> \<not> isMdsv2Only then [''Raft Dir''] else []) @
     (if kind = KIND_DINGODB then [''Doc Dir'', ''Vector Dir''] else [])"

text \<open>A column that the map does not locate is the first one.\<close>

definition cut_located :: "string list \<Rightarrow> string \<Rightarrow> cell list list \<Rightarrow> cell list list res" where
  "cut_located title column ls = CutColumn (case map_of (Locate title) column of None \<Rightarrow> 0 | Some i \<Rightarrow> i) ls"

definition cut_contained :: "string list \<Rightarrow> string \<Rightarrow> cell list list \<Rightarrow> cell list list res" where
  "cut_contained title column ls = (if Contains title column then cut_located title column ls else Inr ls)"

definition cut_columns :: "string list \<Rightarrow> cell list list \<Rightarrow> cell list list res" where
  "cut_columns title ls =
     bindR (cut_located title ''Ports'' ls) (\<lambda>ls.
     bindR (cut_contained title ''Data Dir'' ls) (\<lambda>ls.
     bindR (cut_located title ''Log Dir'' ls) (\<lambda>ls.
     bindR (cut_contained title ''Raft Dir'' ls) (\<lambda>ls.
     bindR (cut_contained title ''Doc Dir'' ls) (\<lambda>ls.
     cut_contained title ''Vector Dir'' ls)))))"

text \<open>The text of a table and the width of its last line.\<close>

definition table_text :: "cell list list \<Rightarrow> (string \<times> nat) res" where
  "table_text ls =
     bindR (FixedFormat ls 2) (\<lambda>out.
       (let outlines = split_on (CHR 0x0A) out in
        if length outlines < 2 then Inl GoPanic else Inr (out, length (outlines ! (length outlines - 2)))))"

definition FormatStatus ::
  "(string \<Rightarrow> string \<Rightarrow> string) \<Rightarrow> service_status sorter \<Rightarrow> (string list \<Rightarrow> string) \<Rightarrow> string \<Rightarrow> service_status list \<Rightarrow>
   bool \<Rightarrow> bool \<Rightarrow> string list \<Rightarrow> bool \<Rightarrow> bool \<Rightarrow> (string \<times> nat) res" where
  "FormatStatus paint srt longest_Prefix kind statuses verbose expanded excludeCols isMdsv2 isMdsv2Only =
     (let title = status_title kind excludeCols isMdsv2 isMdsv2Only;
          (first, second) = FormatTitle title;
          sorted_statuses = sortStatues srt statuses in
      bindR (if expanded then Inr sorted_statuses else mergeStatues longest_Prefix sorted_statuses) (\<lambda>shown.
      (let ls = first # second # map (\<lambda>s. buildStatusLine paint s
             (kind = KIND_DINGOSTORE \<or> isMdsv2 \<or> kind = KIND_DINGODB) (kind = KIND_DINGODB)) shown in
       bindR (if verbose then Inr ls else cut_columns title ls) table_text)))"

definition FormatDirStatus ::
  "(string \<Rightarrow> string \<Rightarrow> string) \<Rightarrow> service_status sorter \<Rightarrow> (string list \<Rightarrow> string) \<Rightarrow> service_status list \<Rightarrow> bool \<Rightarrow>
   string list \<Rightarrow> (string \<times> nat) res" where
  "FormatDirStatus paint srt longest_Prefix statuses expanded onlyDirs =
     (let title = [''Id'', ''Role'', ''Host'', ''Instances'', ''Container Id'', ''Status'', ''Ports''] @ onlyDirs;
          (first, second) = FormatTitle title;
          sorted_statuses = sortStatues srt statuses in
      bindR (if expanded then Inr sorted_statuses else mergeStatues longest_Prefix sorted_statuses) (\<lambda>shown.
      table_text (first # second # map (\<lambda>s. buildStatusLineOnlyDir paint s onlyDirs) shown)))"

definition monitor_less :: "monitor_status \<Rightarrow> monitor_status \<Rightarrow> bool" where
  "monitor_less s1 s2 =
     (if mst_Role s1 = mst_Role s2 then mst_HostSequence s1 < mst_HostSequence s2
      else score_in MONITOT_ROLE_SCORE (mst_Role s1) < score_in MONITOT_ROLE_SCORE (mst_Role s2))"

definition sortMonitorStatues :: "monitor_status sorter \<Rightarrow> monitor_status list \<Rightarrow> monitor_status list" where
  "sortMonitorStatues srt statuses = srt monitor_less statuses"

definition monitor_line :: "(string \<Rightarrow> string \<Rightarrow> string) \<Rightarrow> monitor_status \<Rightarrow> cell list" where
  "monitor_line paint s =
     [Text (mst_Id s), Text (mst_Role s), Text (mst_Host s), Text (mst_ContainerId s),
      DecorateMessage (mst_Status s) (statusDecorate paint),
      Text (Choose (length (mst_Ports s) = 0 \<or> mst_Ports s = ''-1'') ''-'' (mst_Ports s)), Text (mst_DataDir s)]"

definition FormatMonitorStatus ::
  "(string \<Rightarrow> string \<Rightarrow> string) \<Rightarrow> monitor_status sorter \<Rightarrow> monitor_status list \<Rightarrow> bool \<Rightarrow> string res" where
  "FormatMonitorStatus paint srt statuses verbose =
     (let title = [''Id'', ''Role'', ''Host'', ''Container Id'', ''Status'', ''Ports'', ''Data Dir''];
          (first, second) = FormatTitle title;
          ls = first # second # map (monitor_line paint) (sortMonitorStatues srt statuses) in
      bindR (if verbose then Inr ls
             else bindR (cut_located title ''Ports'' ls) (\<lambda>ls. cut_located title ''Data Dir'' ls)) (\<lambda>ls.
      FixedFormat ls 2))"

section \<open>The command\<close>

definition GET_STATUS_PLAYBOOK_STEPS :: "int list" where
  "GET_STATUS_PLAYBOOK_STEPS = [INIT_SERVIE_STATUS, GET_SERVICE_STATUS]"

record status_options =
  st_id :: string
  st_role :: string
  st_host :: string
  st_verbose :: bool
  st_showInstances :: bool
  st_withCluster :: string
  st_dir :: string

text \<open>The value of a variable of the first service, or a dash.\<close>

definition var_or_dash :: "string \<Rightarrow> deploy_config list \<Rightarrow> string res" where
  "var_or_dash name dcs =
     (case dcs of
        [] \<Rightarrow> Inl GoPanic
      | dc # _ \<Rightarrow> (case dc_variables dc of
                   None \<Rightarrow> Inl GoPanic
                 | Some vars \<Rightarrow> Inr (case Get vars name of Inl _ \<Rightarrow> ''-'' | Inr v \<Rightarrow> v)))"

definition getClusterMdsAddr :: "deploy_config list \<Rightarrow> string res" where
  "getClusterMdsAddr dcs = var_or_dash ''cluster_mds_addr'' dcs"

definition getClusterCoorAddr :: "deploy_config list \<Rightarrow> string res" where
  "getClusterCoorAddr dcs = var_or_dash ''coordinator_addr'' dcs"

definition getClusterCoorServerAddr :: "deploy_config list \<Rightarrow> string res" where
  "getClusterCoorServerAddr dcs = var_or_dash ''cluster_coor_srv_peers'' dcs"

definition getClusterCoorRaftAddr :: "deploy_config list \<Rightarrow> string res" where
  "getClusterCoorRaftAddr dcs = var_or_dash ''cluster_coor_raft_peers'' dcs"

definition getClusterMdsLeader :: "(string \<Rightarrow> string \<Rightarrow> string) \<Rightarrow> service_status list \<Rightarrow> string res" where
  "getClusterMdsLeader paint statuses =
     bindR (mapR (\<lambda>s. bindR (GetListenIp (ss_Config s)) (\<lambda>ip. bindR (GetListenPort (ss_Config s)) (\<lambda>port.
         Inr (ip @ '':'' @ itoa port @ '' / '' @ ss_Id s)))) (filter ss_IsLeader statuses)) (\<lambda>leaders.
       Inr (if length leaders > 0 then join '', '' leaders else paint ''red'' ''<no leader>''))"

text \<open>The columns that the option \<open>dir\<close> names.\<close>

definition only_dirs :: "string \<Rightarrow> string list" where
  "only_dirs dir =
     (let dirStrs = split_on (CHR '','') dir in
      concat (map (\<lambda>(name, column). if Contains dirStrs name then [column] else [])
        [(''log'', ''Log Dir''), (''data'', ''Data Dir''), (''raft'', ''Raft Dir''), (''doc'', ''Doc Dir''), (''vector'', ''Vector Dir'')]))"

text \<open>The lines above the table, by the kind of the cluster.\<close>

definition status_head ::
  "(string \<Rightarrow> string \<Rightarrow> string) \<Rightarrow> dingocli \<Rightarrow> deploy_config list \<Rightarrow> string list \<Rightarrow> bool \<Rightarrow> service_status list \<Rightarrow> string list res" where
  "status_head paint cl dcs roles isMdsv2 statuses =
     (let kind = dc_kind (hd dcs) in
      if kind = KIND_DINGOFS then
        (if isMdsv2 then
           bindR (getClusterMdsAddr dcs) (\<lambda>mds.
           bindR (if ContainsList roles [ROLE_FS_MDS, ROLE_FS_MDS_CLI] then GetDingoStoreCoordinatorAddr (hd dcs)
                  else getClusterCoorAddr dcs) (\<lambda>coor.
           Inr [''cluster name     : '' @ cl_clusterName cl, ''cluster kind     : '' @ kind,
                ''mds     addr     : '' @ mds, ''coordinator addr : '' @ coor]))
         else
           bindR (getClusterMdsAddr dcs) (\<lambda>mds. bindR (getClusterMdsLeader paint statuses) (\<lambda>leader.
           Inr [''cluster name      : '' @ cl_clusterName cl, ''cluster kind      : '' @ kind,
                ''cluster mds addr  : '' @ mds, ''cluster mds leader: '' @ leader])))
      else if kind = KIND_DINGOSTORE then
        bindR (getClusterCoorServerAddr dcs) (\<lambda>srv. bindR (getClusterCoorRaftAddr dcs) (\<lambda>raft.
        Inr [''cluster name             : '' @ cl_clusterName cl, ''cluster kind             : '' @ kind,
             ''cooridinator server addr : '' @ srv, ''cooridinator raft   addr : '' @ raft]))
      else if kind = KIND_DINGODB then
        bindR (getClusterCoorServerAddr dcs) (\<lambda>srv. bindR (getClusterCoorRaftAddr dcs) (\<lambda>raft.
        Inr [''cluster name             : '' @ cl_clusterName cl, ''cluster kind             : '' @ kind,
             ''coordinator addr         : '' @ srv, ''coordinator raft   addr  : '' @ raft]))
      else Inr [])"

definition cluster_displayStatus ::
  "(string \<Rightarrow> string \<Rightarrow> string) \<Rightarrow> service_status sorter \<Rightarrow> (string list \<Rightarrow> string) \<Rightarrow> dingocli \<Rightarrow> deploy_config list \<Rightarrow>
   status_options \<Rightarrow> service_status list \<Rightarrow> (string list \<times> string \<times> nat) res" where
  "cluster_displayStatus paint srt longest_Prefix cl dcs options statuses =
     (if dcs = [] then Inl GoPanic
      else
        (let roles = GetRoles dcs;
             isMdsv2Only = (ContainsList roles [ROLE_FS_MDS, ROLE_FS_MDS_CLI] \<and> length roles = 2);
             excludeCols = (if isMdsv2Only then [''Data Dir''] else []) in
         bindR (dc_lookup_ctx (hd dcs) CTX_KEY_MDS_VERSION) (\<lambda>ver.
         bindR (if length (st_dir options) = 0
                then FormatStatus paint srt longest_Prefix (dc_kind (hd dcs)) statuses (st_verbose options) (st_showInstances options)
                       excludeCols (ver = CTX_VAL_MDS_V2) isMdsv2Only
                else FormatDirStatus paint srt longest_Prefix statuses (st_showInstances options) (only_dirs (st_dir options)))
           (\<lambda>(out, width).
         bindR (status_head paint cl dcs roles (ver = CTX_VAL_MDS_V2) statuses) (\<lambda>head.
         Inr (head, out, width))))))"

definition genStatusPlaybook :: "cli_env \<Rightarrow> dingocli \<Rightarrow> deploy_config list \<Rightarrow> status_options \<Rightarrow> 'cc playbook res" where
  "genStatusPlaybook e cl dcs options =
     (let dcs = filter (\<lambda>dc. dc_role dc \<noteq> ROLE_FS_MDS_CLI)
            (FilterDeployConfig e cl dcs (selection (st_id options) (st_role options) (st_host options))) in
      if length dcs = 0 then Inl (Ec ERR_NO_SERVICES_MATCHED)
      else Inr (fold (\<lambda>step pb. pb_AddStep (mk_step step dcs []
        \<lparr>eo_Concurrency = 0, eo_SilentMainBar = (step = INIT_SERVIE_STATUS), eo_SilentSubBar = True, eo_SkipError = True\<rparr>) pb)
        GET_STATUS_PLAYBOOK_STEPS NewPlaybook))"

text \<open>
  What the command needs of its surroundings: the states that the tasks have left in the memory
  storage, in the order in which its map is read, a new memory storage, and the arguments above.
\<close>

record 's status_view =
  sv_statuses :: "'s \<Rightarrow> service_status list"
  sv_forget :: "'s \<Rightarrow> 's"
  sv_paint :: "string \<Rightarrow> string \<Rightarrow> string"
  sv_sort :: "service_status sorter"
  sv_prefix :: "string list \<Rightarrow> string"

definition show_cluster ::
  "'s status_view \<Rightarrow> dingocli \<Rightarrow> deploy_config list \<Rightarrow> status_options \<Rightarrow> 's \<Rightarrow> (string list \<times> string \<times> nat) res" where
  "show_cluster v cl dcs options s =
     cluster_displayStatus (sv_paint v) (sv_sort v) (sv_prefix v) cl dcs options (sv_statuses v s)"

text \<open>The other cluster that the option \<open>with-cluster\<close> names is shown as far as possible; its errors are dropped.\<close>

definition show_attached ::
  "('cc, 's, 't) runner \<Rightarrow> 's status_view \<Rightarrow> cli_env \<Rightarrow> dingocli \<Rightarrow> status_options \<Rightarrow> db \<times> 's \<Rightarrow>
   (db \<times> 's) \<times> (string list \<times> string \<times> nat) list res" where
  "show_attached r v e cl options st =
     (case GetClusterByName (st_withCluster options) (fst st) of
        (d, Inl _) \<Rightarrow> ((d, snd st), Inr [])
      | (d, Inr c) \<Rightarrow>
          if clu_Id c \<le> 0 then ((d, snd st), Inr [])
          else
            (let cl' = SwitchCluster c cl; s = sv_forget v (snd st) in
             case cli_ParseTopology e cl' of
               Inl err \<Rightarrow> ((d, s), if err = GoPanic then Inl GoPanic else Inr [])
             | Inr dcs \<Rightarrow>
                 (case genStatusPlaybook e cl' dcs options of
                    Inl err \<Rightarrow> ((d, s), Inr [])
                  | Inr pb \<Rightarrow>
                      (let (s', err) = pb_Run (fst r) (snd r) pb s in
                       ((d, s'), if panicked err then Inl GoPanic
                                 else bindR (show_cluster v cl' dcs options s') (\<lambda>t. Inr [t]))))))"

definition runStatus ::
  "('cc, 's, 't) runner \<Rightarrow> 's status_view \<Rightarrow> cli_env \<Rightarrow> dingocli \<Rightarrow> status_options \<Rightarrow> db \<times> 's \<Rightarrow>
   (db \<times> 's) \<times> (string list \<times> string \<times> nat) list \<times> terr option" where
  "runStatus r v e cl options st =
     (case cli_ParseTopology e cl of
        Inl err \<Rightarrow> (st, [], Some (TErr err))
      | Inr dcs \<Rightarrow>
          (case genStatusPlaybook e cl dcs options of
             Inl err \<Rightarrow> (st, [], Some (TErr err))
           | Inr pb \<Rightarrow>
               (let (s', err) = pb_Run (fst r) (snd r) pb (snd st); st' = (fst st, s') in
                if panicked err then (st', [], err)
                else (case show_cluster v cl dcs options s' of
                        Inl err' \<Rightarrow> (st', [], Some (TErr err'))
                      | Inr t \<Rightarrow>
                          if st_withCluster options = [] then (st', [t], err)
                          else (case show_attached r v e cl options st' of
                                  (st'', Inl err') \<Rightarrow> (st'', [t], Some (TErr err'))
                                | (st'', Inr ts) \<Rightarrow> (st'', t # ts, err))))))"

section \<open>What sorting promises\<close>

text \<open>\<open>sort.Slice\<close> asks for a strict weak order, and then returns the elements in an order in which none
  is less than one before it; equal elements may come in any order.\<close>

definition strict_weak :: "('a \<Rightarrow> 'a \<Rightarrow> bool) \<Rightarrow> 'a set \<Rightarrow> bool" where
  "strict_weak lt A \<longleftrightarrow>
     (\<forall>x \<in> A. \<not> lt x x) \<and> (\<forall>x \<in> A. \<forall>y \<in> A. \<forall>z \<in> A. lt x y \<longrightarrow> lt y z \<longrightarrow> lt x z) \<and>
     (\<forall>x \<in> A. \<forall>y \<in> A. \<forall>z \<in> A. lt x z \<longrightarrow> lt x y \<or> lt y z)"

lemma strict_weak_mono: "strict_weak lt A \<Longrightarrow> B \<subseteq> A \<Longrightarrow> strict_weak lt B"
  unfolding strict_weak_def by blast

lemma strict_weakD:
  assumes "strict_weak lt A" "x \<in> A"
  shows "\<not> lt x x" "y \<in> A \<Longrightarrow> z \<in> A \<Longrightarrow> lt x y \<Longrightarrow> lt y z \<Longrightarrow> lt x z"
  using assms unfolding strict_weak_def by blast+

definition sort_promise :: "'a sorter \<Rightarrow> bool" where
  "sort_promise srt \<longleftrightarrow>
     (\<forall>lt xs. strict_weak lt (set xs) \<longrightarrow>
        mset (srt lt xs) = mset xs \<and> sorted_wrt (\<lambda>a b. \<not> lt b a) (srt lt xs))"

text \<open>The insertion sort that \<open>sort.Slice\<close> uses on short slices keeps the promise.\<close>

fun insert_less :: "('a \<Rightarrow> 'a \<Rightarrow> bool) \<Rightarrow> 'a \<Rightarrow> 'a list \<Rightarrow> 'a list" where
  "insert_less lt x [] = [x]"
| "insert_less lt x (y # ys) = (if lt x y then x # y # ys else y # insert_less lt x ys)"

definition insertionSort :: "('a \<Rightarrow> 'a \<Rightarrow> bool) \<Rightarrow> 'a list \<Rightarrow> 'a list" where
  "insertionSort lt xs = fold (insert_less lt) xs []"

lemma mset_insert_less [simp]: "mset (insert_less lt x ys) = add_mset x (mset ys)"
  by (induction ys) simp_all

lemma set_insert_less [simp]: "set (insert_less lt x ys) = insert x (set ys)"
  by (induction ys) auto

lemma sorted_insert_less:
  assumes "strict_weak lt (insert x (set ys))" "sorted_wrt (\<lambda>a b. \<not> lt b a) ys"
  shows "sorted_wrt (\<lambda>a b. \<not> lt b a) (insert_less lt x ys)"
  using assms
proof (induction ys)
  case (Cons y ys)
  have "strict_weak lt (insert x (set ys))" by (rule strict_weak_mono [OF Cons(2)]) auto
  then have IH: "sorted_wrt (\<lambda>a b. \<not> lt b a) (insert_less lt x ys)" using Cons by simp
  have "\<not> lt z x" if "lt x y" "z \<in> set (y # ys)" for z
  proof
    assume "lt z x"
    then have "lt z y" using strict_weakD(2) [OF Cons(2), of z x y] that by simp
    then show False using strict_weakD(1) [OF Cons(2), of y] Cons(3) that(2) by auto
  qed
  then show ?case using IH Cons(3) by auto
qed simp

lemma insertionSort_promise: "sort_promise insertionSort"
proof -
  have "strict_weak lt (set xs \<union> set acc) \<Longrightarrow> sorted_wrt (\<lambda>a b. \<not> lt b a) acc \<Longrightarrow>
      mset (fold (insert_less lt) xs acc) = mset xs + mset acc \<and> sorted_wrt (\<lambda>a b. \<not> lt b a) (fold (insert_less lt) xs acc)"
    for lt :: "'a \<Rightarrow> 'a \<Rightarrow> bool" and xs acc
  proof (induction xs arbitrary: acc)
    case (Cons x xs)
    have "strict_weak lt (insert x (set acc))" by (rule strict_weak_mono [OF Cons(2)]) auto
    then have "sorted_wrt (\<lambda>a b. \<not> lt b a) (insert_less lt x acc)" using Cons(3) by (rule sorted_insert_less)
    moreover have "strict_weak lt (set xs \<union> set (insert_less lt x acc))" by (rule strict_weak_mono [OF Cons(2)]) auto
    ultimately show ?case using Cons(1) [of "insert_less lt x acc"] by simp
  qed simp
  from this [where acc = "[]"] show ?thesis by (simp add: sort_promise_def insertionSort_def)
qed

section \<open>Groups of neighbours\<close>

function adj_groups :: "('a \<Rightarrow> 'b) \<Rightarrow> 'a list \<Rightarrow> 'a list list" where
  "adj_groups f [] = []"
| "adj_groups f (x # xs) = (x # takeWhile (\<lambda>y. f x = f y) xs) # adj_groups f (dropWhile (\<lambda>y. f x = f y) xs)"
  by pat_completeness auto
termination by (relation "measure (\<lambda>(_, xs). length xs)") (auto simp: le_imp_less_Suc length_dropWhile_le)

lemma mergeStatues_groups: "mergeStatues p ss = mapR (merged_row p) (adj_groups ss_ParentId ss)"
proof (induction p ss rule: mergeStatues.induct)
  case (2 p s rest)
  then show ?case by (cases "merged_row p (s # takeWhile (\<lambda>t. ss_ParentId s = ss_ParentId t) rest)") simp_all
qed simp

lemma sorted_block:
  fixes h :: "'a \<Rightarrow> 'b :: linorder"
  assumes "sorted (map h (x # xs))" "\<And>y. y \<in> set xs \<Longrightarrow> f x = f y \<longleftrightarrow> h x = h y"
  shows "takeWhile (\<lambda>y. f x = f y) xs = filter (\<lambda>y. f y = f x) xs \<and> (\<forall>y \<in> set (dropWhile (\<lambda>y. f x = f y) xs). f y \<noteq> f x)"
  using assms
proof (induction xs)
  case (Cons y xs)
  show ?case
  proof (cases "f x = f y")
    case True
    have "takeWhile (\<lambda>y. f x = f y) xs = filter (\<lambda>y. f y = f x) xs \<and> (\<forall>y \<in> set (dropWhile (\<lambda>y. f x = f y) xs). f y \<noteq> f x)"
      using Cons by simp
    with True show ?thesis by simp
  next
    case False
    then have "h x < h y" using Cons(2,3) by (simp add: less_le)
    then have "f z \<noteq> f x" if "z \<in> set (y # xs)" for z using that Cons(2) Cons(3) [of z] by fastforce
    then show ?thesis using False by (auto simp: filter_empty_conv)
  qed
qed simp

text \<open>In a list that is sorted by a key, the neighbours with the same key are all elements with that key.\<close>

lemma adj_groups_sorted:
  fixes h :: "'a \<Rightarrow> 'b :: linorder"
  assumes "sorted (map h xs)" "\<And>x y. x \<in> set xs \<Longrightarrow> y \<in> set xs \<Longrightarrow> f x = f y \<longleftrightarrow> h x = h y"
  shows "\<exists>ps. distinct ps \<and> set ps = f ` set xs \<and> adj_groups f xs = map (\<lambda>p. filter (\<lambda>y. f y = p) xs) ps"
  using assms
proof (induction f xs rule: adj_groups.induct)
  case (2 f x xs)
  let ?rest = "dropWhile (\<lambda>y. f x = f y) xs"
  have block: "takeWhile (\<lambda>y. f x = f y) xs = filter (\<lambda>y. f y = f x) xs" "\<forall>y \<in> set ?rest. f y \<noteq> f x"
    using sorted_block [OF 2(2), of f] 2(3) by auto
  have sub: "set ?rest \<subseteq> set xs" by (simp add: set_dropWhileD subsetI)
  have "sorted (map h ?rest)" using 2(2) by (simp add: sorted_wrt_map sorted_wrt_dropWhile)
  then obtain ps where ps: "distinct ps" "set ps = f ` set ?rest" "adj_groups f ?rest = map (\<lambda>p. filter (\<lambda>y. f y = p) ?rest) ps"
    using 2(1) 2(3) sub by (metis list.set_intros(2) subsetD)
  have parts: "filter (\<lambda>y. f y = p) xs = filter (\<lambda>y. f y = p) ?rest" if "p \<noteq> f x" for p
  proof -
    have "filter (\<lambda>y. f y = p) (takeWhile (\<lambda>y. f x = f y) xs) = []" using that by (auto simp: filter_empty_conv dest: set_takeWhileD)
    then show ?thesis by (metis append_Nil filter_append takeWhile_dropWhile_id)
  qed
  have "set xs = set (takeWhile (\<lambda>y. f x = f y) xs) \<union> set ?rest" by (metis set_append takeWhile_dropWhile_id)
  then have "set (f x # ps) = f ` set (x # xs)" using ps(2) by (auto dest: set_takeWhileD)
  moreover have "distinct (f x # ps)" using ps(1,2) block(2) by auto
  moreover have "adj_groups f (x # xs) = map (\<lambda>p. filter (\<lambda>y. f y = p) (x # xs)) (f x # ps)"
    using block ps(2,3) parts by (auto intro!: filter_cong)
  ultimately show ?case by blast
qed simp

section \<open>One row for the instances of a service on a host\<close>

text \<open>The order of the rows, when the roles have different scores.\<close>

definition host_key :: "service_status \<Rightarrow> int \<times> int" where
  "host_key s = (score_in ROLE_SCORE (ss_Role s), dc_hostSequence (ss_Config s))"

definition instance_key :: "service_status \<Rightarrow> (int \<times> int) \<times> int" where
  "instance_key s = (host_key s, dc_instancesSequence (ss_Config s))"

abbreviation scored :: "service_status list \<Rightarrow> bool" where
  "scored ss \<equiv> inj_on (score_in ROLE_SCORE) (ss_Role ` set ss)"

lemma status_less_key:
  assumes "scored ss" "s \<in> set ss" "t \<in> set ss"
  shows "status_less s t \<longleftrightarrow> instance_key s < instance_key t"
proof -
  have "score_in ROLE_SCORE (ss_Role s) = score_in ROLE_SCORE (ss_Role t) \<longleftrightarrow> ss_Role s = ss_Role t"
    using assms by (auto simp: inj_on_def)
  then show ?thesis
    by (auto simp: status_less_def instance_key_def host_key_def less_prod_def Let_def)
qed

lemma status_strict_weak: "scored ss \<Longrightarrow> strict_weak status_less (set ss)"
  unfolding strict_weak_def by (auto simp: status_less_key)

lemma sorted_statuses:
  assumes "sort_promise srt" "scored ss"
  shows "mset (sortStatues srt ss) = mset ss" "sorted (map host_key (sortStatues srt ss))"
proof -
  let ?ys = "sortStatues srt ss"
  have m: "mset ?ys = mset ss" and s: "sorted_wrt (\<lambda>a b. \<not> status_less b a) ?ys"
    using assms(1) status_strict_weak [OF assms(2)] by (auto simp: sort_promise_def sortStatues_def)
  show "mset ?ys = mset ss" by (rule m)
  have "set ?ys = set ss" using m by (metis set_mset_mset)
  moreover have "\<not> status_less b a \<Longrightarrow> host_key a \<le> host_key b" if "a \<in> set ss" "b \<in> set ss" for a b
    using status_less_key [OF assms(2) that(2,1)] by (fastforce simp: instance_key_def not_le [symmetric])
  ultimately have "sorted_wrt (\<lambda>a b. host_key a \<le> host_key b) ?ys" using s by (auto intro: sorted_wrt_mono_rel [rotated])
  then show "sorted (map host_key ?ys)" by (simp add: sorted_wrt_map)
qed

text \<open>The state of several instances: their common state, or abnormal.\<close>

lemma count_states_lookup:
  "map_of (count_states items) st =
     (if \<exists>i \<in> set items. state_of i = st then Some (length (filter (\<lambda>i. state_of i = st) items)) else None)"
proof -
  let ?f = "\<lambda>item m. AList.update (state_of item) (Suc (case map_of m (state_of item) of None \<Rightarrow> 0 | Some n \<Rightarrow> n)) m"
  have "map_of (fold ?f items m) st =
      (if \<exists>i \<in> set items. state_of i = st
       then Some ((case map_of m st of None \<Rightarrow> 0 | Some n \<Rightarrow> n) + length (filter (\<lambda>i. state_of i = st) items)) else map_of m st)" for m
    by (induction items arbitrary: m) (auto simp: update_conv' filter_empty_conv)
  from this [of "[]"] show ?thesis by (simp add: count_states_def)
qed

lemma count_states_distinct: "distinct (map fst (count_states items))"
proof -
  let ?f = "\<lambda>item m. AList.update (state_of item) (Suc (case map_of m (state_of item) of None \<Rightarrow> 0 | Some n \<Rightarrow> n)) m"
  have "distinct (map fst m) \<Longrightarrow> distinct (map fst (fold ?f items m))" for m :: "(string \<times> nat) list"
    by (induction items arbitrary: m) (simp_all add: distinct_update)
  then show ?thesis by (simp add: count_states_def)
qed

definition common_state :: "string list \<Rightarrow> string" where
  "common_state items =
     (case items of
        [x] \<Rightarrow> x
      | _ \<Rightarrow> if \<forall>i \<in> set items. state_of i = state_of (hd items) then state_of (hd items) else STATUS_ABNORMAL)"

lemma length_filter_all: "length (filter P xs) = length xs \<longleftrightarrow> (\<forall>x \<in> set xs. P x)"
  by (metis filter_True length_filter_less less_irrefl)

lemma count_states_full:
  assumes "items \<noteq> []"
  shows "(st, length items) \<in> set (count_states items) \<longleftrightarrow> (\<forall>i \<in> set items. state_of i = st)"
proof -
  have "(st, length items) \<in> set (count_states items) \<longleftrightarrow> map_of (count_states items) st = Some (length items)"
    using count_states_distinct by (simp add: map_of_eq_Some_iff)
  also have "\<dots> \<longleftrightarrow> (\<exists>i \<in> set items. state_of i = st) \<and> length (filter (\<lambda>i. state_of i = st) items) = length items"
    by (simp add: count_states_lookup)
  also have "\<dots> \<longleftrightarrow> (\<forall>i \<in> set items. state_of i = st)"
    unfolding length_filter_all using assms by (metis list.set_sel(1))
  finally show ?thesis .
qed

lemma merged_status_common:
  assumes "items \<noteq> []"
  shows "merged_status items = common_state items"
proof (cases "\<exists>x. items = [x]")
  case False
  let ?hit = "\<lambda>(status :: string, n). n = length items"
  note entry = count_states_full [OF assms]
  from False assms obtain a b r where "items = a # b # r" by (metis list.exhaust)
  then have many:
      "merged_status items = (case find ?hit (count_states items) of None \<Rightarrow> STATUS_ABNORMAL | Some (status, n) \<Rightarrow> status)"
      "common_state items = (if \<forall>i \<in> set items. state_of i = state_of (hd items) then state_of (hd items) else STATUS_ABNORMAL)"
    by (simp_all add: merged_status_def common_state_def)
  show ?thesis
  proof (cases "\<forall>i \<in> set items. state_of i = state_of (hd items)")
    case True
    then have "(state_of (hd items), length items) \<in> set (count_states items)" by (simp add: entry)
    then have "find ?hit (count_states items) \<noteq> None" by (auto simp: find_None_iff)
    then obtain st n where f: "find ?hit (count_states items) = Some (st, n)" by auto
    then have "(st, length items) \<in> set (count_states items)" by (auto simp: find_Some_iff) (metis nth_mem)
    then have "st = state_of (hd items)" using assms by (simp add: entry)
    then show ?thesis unfolding many f using True by simp
  next
    case no: False
    have "find ?hit (count_states items) = None"
    proof (rule ccontr)
      assume "find ?hit (count_states items) \<noteq> None"
      then obtain st where "(st, length items) \<in> set (count_states items)" by (auto simp: find_None_iff)
      then have "\<forall>i \<in> set items. state_of i = st" by (simp add: entry)
      with no assms show False by simp
    qed
    then show ?thesis unfolding many if_not_P [OF no] by simp
  qed
qed (auto simp: merged_status_def common_state_def)

lemma common_state_perm: "mset xs = mset ys \<Longrightarrow> common_state xs = common_state ys"
proof -
  assume m: "mset xs = mset ys"
  then have l: "length xs = length ys" and s: "set xs = set ys" by (metis size_mset, metis set_mset_mset)
  show ?thesis
  proof (cases xs)
    case (Cons a as)
    show ?thesis
    proof (cases as)
      case Nil
      then show ?thesis using m Cons by (metis mset_single_iff_right)
    next
      case (Cons b bs)
      with \<open>xs = a # as\<close> l obtain c d ds where ys: "ys = c # d # ds" by (metis length_Suc_conv)
      have "a \<in> set ys" "c \<in> set xs" using s ys \<open>xs = a # as\<close> by auto
      moreover have "common_state xs = (if \<forall>i \<in> set xs. state_of i = state_of a then state_of a else STATUS_ABNORMAL)"
        by (simp add: common_state_def \<open>xs = a # as\<close> Cons)
      moreover have "common_state ys = (if \<forall>i \<in> set ys. state_of i = state_of c then state_of c else STATUS_ABNORMAL)"
        by (simp add: common_state_def ys)
      ultimately show ?thesis using s by (metis (no_types))
    qed
  qed (use l in simp)
qed

lemma merge_item_total: "g \<noteq> [] \<Longrightarrow> \<exists>x. merge_item p g item = Inr x"
proof -
  assume "g \<noteq> []"
  then have "sort (map (item_of item) g) \<noteq> []" by (metis length_0_conv length_map length_sort)
  then have "\<exists>x. merged_dir p (sort (map (item_of item) g)) = Inr x"
    by (auto simp: merged_dir_def Min_ints_def Let_def split: list.splits)
  then show ?thesis by (simp add: merge_item_def Let_def)
qed

text \<open>What the row \<open>row\<close> says of the instances with the parent \<open>q\<close>: their number and common state.\<close>

definition row_shows :: "service_status list \<Rightarrow> service_status \<Rightarrow> string \<Rightarrow> bool" where
  "row_shows ss row q \<longleftrightarrow>
     (let g = filter (\<lambda>s. ss_ParentId s = q) ss in
      ss_Status row = common_state (map ss_Status g) \<and>
      (\<exists>s \<in> set g. ss_Role row = ss_Role s \<and> ss_Host row = ss_Host s \<and>
        (\<forall>n. ss_Instances s = ''1/'' @ itoa n \<longrightarrow> ss_Instances row = itoa (int (length g)) @ ''/'' @ itoa n)))"

lemma slash_not_itoa: "CHR ''/'' \<notin> set (itoa n)"
proof -
  have "\<not> is_digit (CHR ''/'')" by (simp add: is_digit_def)
  then show ?thesis using show_dec_digits [of "\<bar>n\<bar>" "CHR ''/''"] by (auto simp: itoa_def)
qed

lemma instances_total_itoa: "ss_Instances s = ''1/'' @ itoa n \<Longrightarrow> instances_total s = Inr (itoa n)"
  using split_on_join_free [of "CHR ''/''" "itoa n"] slash_not_itoa [of n] by (simp add: instances_total_def)

lemma merged_row_shows:
  assumes "g \<noteq> []" "ss_Instances (hd g) = ''1/'' @ itoa n"
  shows "\<exists>row. merged_row p g = Inr row \<and> ss_Role row = ss_Role (hd g) \<and> ss_Host row = ss_Host (hd g) \<and>
    ss_Instances row = itoa (int (length g)) @ ''/'' @ itoa n \<and> ss_Status row = common_state (map ss_Status g)"
proof -
  have "merge_item p g ITEM_STATUS = Inr (common_state (map ss_Status g))"
  proof -
    have "item_of ITEM_STATUS = ss_Status" by (simp add: fun_eq_iff)
    moreover have "sort (map ss_Status g) \<noteq> []" using assms(1) by (metis length_0_conv length_map length_sort)
    ultimately show ?thesis
      using merged_status_common [of "sort (map ss_Status g)"] common_state_perm [of "sort (map ss_Status g)" "map ss_Status g"]
      by (simp add: merge_item_def Let_def)
  qed
  moreover obtain i c po l d r where "merge_item p g ITEM_ID = Inr i" "merge_item p g ITEM_CONTAINER_ID = Inr c"
      "merge_item p g ITEM_PORTS = Inr po" "merge_item p g ITEM_LOG_DIR = Inr l" "merge_item p g ITEM_DATA_DIR = Inr d"
      "merge_item p g ITEM_RAFT_DIR = Inr r"
    using merge_item_total [OF assms(1)] by meson
  ultimately show ?thesis using instances_total_itoa [OF assms(2)] by (simp add: merged_row_def Let_def)
qed

lemma group_row:
  assumes "mset ys = mset ss" "q \<in> ss_ParentId ` set ss" "\<And>s. s \<in> set ss \<Longrightarrow> \<exists>n. ss_Instances s = ''1/'' @ itoa n"
  shows "\<exists>row. merged_row p (filter (\<lambda>s. ss_ParentId s = q) ys) = Inr row \<and> row_shows ss row q"
proof -
  let ?g = "filter (\<lambda>s. ss_ParentId s = q) ys" and ?orig = "filter (\<lambda>s. ss_ParentId s = q) ss"
  have m: "mset ?g = mset ?orig" using assms(1) by (simp add: mset_filter)
  then have len: "length ?g = length ?orig" and gs: "set ?g = set ?orig" by (metis size_mset, metis set_mset_mset)
  have "?orig \<noteq> []" using assms(2) by (auto simp: filter_empty_conv)
  then have g: "?g \<noteq> []" using len by (metis length_0_conv)
  then have hd: "hd ?g \<in> set ?orig" using gs by (metis list.set_sel(1))
  then obtain n where n: "ss_Instances (hd ?g) = ''1/'' @ itoa n" using assms(3) by auto
  from merged_row_shows [OF g this, of p] obtain r where r: "merged_row p ?g = Inr r"
      "ss_Role r = ss_Role (hd ?g)" "ss_Host r = ss_Host (hd ?g)" "ss_Instances r = itoa (int (length ?g)) @ ''/'' @ itoa n"
      "ss_Status r = common_state (map ss_Status ?g)" by blast
  moreover have "common_state (map ss_Status ?g) = common_state (map ss_Status ?orig)" using m by (intro common_state_perm) simp
  moreover have "n' = n" if "ss_Instances (hd ?g) = ''1/'' @ itoa n'" for n' using that n itoa_inj [of n' n] by simp
  ultimately have "row_shows ss r q"
    unfolding row_shows_def Let_def using hd len by (intro conjI bexI [OF _ hd]) auto
  then show ?thesis using r(1) by blast
qed

text \<open>
  C17: the rows of the status table.  When the roles of the services have different scores and the services with the
  same parent are those of one role and place in the list of hosts, the table that is shown without instances has,
  whatever the order in which equal services are sorted, one row for every parent, which gives the number of
  its instances and their common state, and abnormal when they have none.
\<close>

theorem status_rows:
  assumes "sort_promise srt" "scored ss"
    and "\<And>s t. s \<in> set ss \<Longrightarrow> t \<in> set ss \<Longrightarrow> ss_ParentId s = ss_ParentId t \<longleftrightarrow>
      ss_Role s = ss_Role t \<and> dc_hostSequence (ss_Config s) = dc_hostSequence (ss_Config t)"
    and "\<And>s. s \<in> set ss \<Longrightarrow> \<exists>n. ss_Instances s = ''1/'' @ itoa n"
  shows "\<exists>rows ps. mergeStatues longest_Prefix (sortStatues srt ss) = Inr rows \<and> distinct ps \<and> set ps = ss_ParentId ` set ss \<and>
    list_all2 (row_shows ss) rows ps"
proof -
  let ?ys = "sortStatues srt ss"
  note sorted = sorted_statuses [OF assms(1,2)]
  have set: "set ?ys = set ss" using sorted(1) by (metis set_mset_mset)
  have "ss_ParentId s = ss_ParentId t \<longleftrightarrow> host_key s = host_key t" if "s \<in> set ?ys" "t \<in> set ?ys" for s t
    using assms(2) assms(3) [of s t] that by (auto simp: host_key_def set inj_on_def)
  from adj_groups_sorted [OF sorted(2) this] obtain ps where ps: "distinct ps" "set ps = ss_ParentId ` set ss"
      "adj_groups ss_ParentId ?ys = map (\<lambda>q. filter (\<lambda>s. ss_ParentId s = q) ?ys) ps"
    unfolding set by blast
  have "\<exists>row. \<forall>q \<in> set ps. merged_row longest_Prefix (filter (\<lambda>s. ss_ParentId s = q) ?ys) = Inr (row q) \<and> row_shows ss (row q) q"
    using group_row [OF sorted(1) _ assms(4)] ps(2) by (intro bchoice) blast
  then obtain row where group: "\<And>q. q \<in> set ps \<Longrightarrow>
      merged_row longest_Prefix (filter (\<lambda>s. ss_ParentId s = q) ?ys) = Inr (row q) \<and> row_shows ss (row q) q" by blast
  have "mergeStatues longest_Prefix ?ys = Inr (map row ps)"
    unfolding mergeStatues_groups ps(3) mapR_map using group by (simp add: mapR_all_Inr)
  moreover have "list_all2 (row_shows ss) (map row ps) ps" using group by (simp add: list_all2_conv_all_nth)
  ultimately show ?thesis using ps by blast
qed

text \<open>The roles of the kinds of clusters, without the mds client that is not shown, have different scores.\<close>

lemma kind_scores:
  "inj_on (score_in ROLE_SCORE) (set DINGOSTORE_ROLES)" "inj_on (score_in ROLE_SCORE) (set DINGODB_ROLES)"
  "inj_on (score_in ROLE_SCORE) (set (filter (\<lambda>r. r \<noteq> ROLE_FS_MDS_CLI) (ROLE_DINGODB_EXECUTOR # DINGOFS_MDSV2_FOLLOW_ROLES)))"
  by (rule conjunct2 [OF iffD1 [OF distinct_map]], code_simp)+

definition demo_status :: "int \<Rightarrow> int \<Rightarrow> string \<Rightarrow> service_status" where
  "demo_status host inst st =
     \<lparr>ss_Id = itoa (2 * host + inst), ss_ParentId = itoa host, ss_Role = ROLE_STORE, ss_Host = ''h'' @ itoa host, ss_Instances = ''1/2'',
      ss_ContainerId = ''c'', ss_Ports = [], ss_IsLeader = False, ss_Status = st, ss_LogDir = ''/l'', ss_DataDir = ''/d'', ss_RaftDir = ''/r'',
      ss_DocDir = [], ss_VectorDir = [],
      ss_Config = (bare_config KIND_DINGOSTORE ROLE_STORE)\<lparr>dc_hostSequence := host, dc_instancesSequence := inst\<rparr>\<rparr>"

definition demo_statuses :: "service_status list" where
  "demo_statuses = [demo_status 1 0 ''Up 2 days'', demo_status 0 1 ''Up 1 day'', demo_status 0 0 ''Exited (1)'']"

lemma demo_status_sel [simp]:
  "ss_ParentId (demo_status h i st) = itoa h" "ss_Role (demo_status h i st) = ROLE_STORE" "ss_Instances (demo_status h i st) = ''1/2''"
  "dc_hostSequence (ss_Config (demo_status h i st)) = h"
  by (simp_all add: demo_status_def)

theorem status_rows_witness:
  "\<exists>rows ps. mergeStatues hd (sortStatues insertionSort demo_statuses) = Inr rows \<and> distinct ps \<and>
    set ps = ss_ParentId ` set demo_statuses \<and> list_all2 (row_shows demo_statuses) rows ps"
proof (rule status_rows [OF insertionSort_promise])
  show "scored demo_statuses" by (simp add: demo_statuses_def)
  show "\<exists>n. ss_Instances s = ''1/'' @ itoa n" if "s \<in> set demo_statuses" for s
  proof (intro exI [of _ 2])
    have "itoa 2 = ''2''" by code_simp
    then show "ss_Instances s = ''1/'' @ itoa 2" using that by (auto simp: demo_statuses_def)
  qed
  show "ss_ParentId s = ss_ParentId t \<longleftrightarrow> ss_Role s = ss_Role t \<and> dc_hostSequence (ss_Config s) = dc_hostSequence (ss_Config t)"
    if "s \<in> set demo_statuses" "t \<in> set demo_statuses" for s t
  proof -
    have "itoa 0 = ''0''" "itoa 1 = ''1''" by code_simp+
    then show ?thesis using that by (auto simp: demo_statuses_def)
  qed
qed

section \<open>The table is always shown\<close>

definition wide :: "nat \<Rightarrow> cell list list \<Rightarrow> bool" where
  "wide n ls \<longleftrightarrow> (\<forall>l \<in> set ls. n \<le> length l)"

lemma format_cells_total: "length fs \<le> length line \<Longrightarrow> \<exists>s. format_cells sp b fs line = Inr s"
proof (induction sp b fs line rule: format_cells.induct)
  case (3 sp b f fs c cs)
  then show ?case by (cases "f = 0") auto
qed simp_all

lemma fixedLength_total:
  assumes "wide (length l) ls"
  shows "\<exists>fs. fixedLength (l # ls) = Inr fs \<and> length fs = length l"
proof -
  have "mapR (cell_at j) (l # ls) = Inr (map (\<lambda>k. k ! j) (l # ls))" if "j < length l" for j
    using assms that by (intro mapR_all_Inr) (auto simp: cell_at_def wide_def)
  then have "mapR (\<lambda>j. bindR (mapR (cell_at j) (l # ls)) (\<lambda>cs. Inr (F cs))) [0..<length l] =
      Inr (map (\<lambda>j. F (map (\<lambda>k. k ! j) (l # ls))) [0..<length l])" for F :: "cell list \<Rightarrow> nat"
    by (intro mapR_all_Inr) simp
  then show ?thesis unfolding fixedLength_def getLength_def by simp
qed

lemma FixedFormat_total:
  assumes "wide (length l) ls"
  shows "\<exists>outs. FixedFormat (l # ls) n = Inr (concat outs) \<and> length outs = Suc (length ls) \<and> (\<forall>o' \<in> set outs. \<exists>s. o' = s @ [CHR 0x0A])"
proof -
  obtain fs where fs: "fixedLength (l # ls) = Inr fs" "length fs = length l" using fixedLength_total [OF assms] by blast
  have "\<forall>k \<in> set (l # ls). \<exists>s. format_cells (replicate n (CHR '' '')) True fs k = Inr s"
    using assms fs(2) by (intro ballI format_cells_total) (auto simp: wide_def)
  then obtain g where "\<And>k. k \<in> set (l # ls) \<Longrightarrow> format_cells (replicate n (CHR '' '')) True fs k = Inr (g k)" by metis
  then have "mapR (\<lambda>k. bindR (format_cells (replicate n (CHR '' '')) True fs k) (\<lambda>s. Inr (s @ [CHR 0x0A]))) (l # ls) =
      Inr (map (\<lambda>k. g k @ [CHR 0x0A]) (l # ls))" by (intro mapR_all_Inr) simp
  then show ?thesis unfolding FixedFormat_def fs(1) by (intro exI [of _ "map (\<lambda>k. g k @ [CHR 0x0A]) (l # ls)"]) auto
qed

lemma split_on_not_Nil: "split_on c s \<noteq> []"
  by (induction s) (auto split: list.splits)

lemma split_on_long: "c \<in> set s \<Longrightarrow> 2 \<le> length (split_on c s)"
proof (induction s)
  case (Cons x s)
  then show ?case using split_on_not_Nil [of c s] by (cases "split_on c s") auto
qed simp

lemma table_text_total: "wide (length l) ls \<Longrightarrow> \<exists>t. table_text (l # ls) = Inr t"
proof -
  assume "wide (length l) ls"
  from FixedFormat_total [OF this, of 2] obtain outs where outs: "FixedFormat (l # ls) 2 = Inr (concat outs)" "length outs = Suc (length ls)"
      "\<forall>o' \<in> set outs. \<exists>s. o' = s @ [CHR 0x0A]" by blast
  then have "CHR 0x0A \<in> set (concat outs)" by (cases outs) auto
  from split_on_long [OF this] outs(1) show ?thesis by (simp add: table_text_def Let_def)
qed

lemma CutColumn_total:
  assumes "wide n ls" "0 \<le> column" "column < int n"
  shows "\<exists>ls'. CutColumn column ls = Inr ls' \<and> map length ls' = map length ls"
proof -
  have "CutColumn column ls = Inr (map (\<lambda>l. l[nat column := Text []]) ls)"
    unfolding CutColumn_def using assms by (intro mapR_all_Inr) (auto simp: wide_def)
  then show ?thesis by simp
qed

lemma Locate_range: "map_of (Locate title) x = Some i \<Longrightarrow> 0 \<le> i \<and> i < int (length title)"
  by (auto simp: Locate_def Locate_from_lookup split: if_splits dest: length_pos_if_in_set)

lemma wide_same: "map length ls' = map length ls \<Longrightarrow> wide n ls \<Longrightarrow> wide n ls'"
proof -
  assume m: "map length ls' = map length ls" and "wide n ls"
  then have "\<forall>k \<in> set (map length ls'). n \<le> k" unfolding m by (simp add: wide_def)
  then show "wide n ls'" by (simp add: wide_def)
qed

lemma cut_located_total:
  assumes "wide (length title) ls" "title \<noteq> []"
  shows "\<exists>ls'. cut_located title column ls = Inr ls' \<and> map length ls' = map length ls"
  using CutColumn_total [OF assms(1)] Locate_range [of title column] assms(2)
  by (auto simp: cut_located_def split: option.splits)

lemma cut_contained_total:
  assumes "wide (length title) ls" "title \<noteq> []"
  shows "\<exists>ls'. cut_contained title column ls = Inr ls' \<and> map length ls' = map length ls"
  using cut_located_total [OF assms] by (simp add: cut_contained_def)

text \<open>Operations that succeed on wide tables and keep the lengths of the lines, one after the other.\<close>

definition keeps_lengths :: "nat \<Rightarrow> (cell list list \<Rightarrow> cell list list res) \<Rightarrow> bool" where
  "keeps_lengths n f \<longleftrightarrow> (\<forall>ls. wide n ls \<longrightarrow> (\<exists>ls'. f ls = Inr ls' \<and> map length ls' = map length ls))"

lemma keeps_lengths_bind: "keeps_lengths n f \<Longrightarrow> keeps_lengths n g \<Longrightarrow> keeps_lengths n (\<lambda>ls. bindR (f ls) g)"
  unfolding keeps_lengths_def by (metis bindR.simps(2) wide_same)

lemma cut_columns_total:
  assumes "wide (length title) ls" "title \<noteq> []"
  shows "\<exists>ls'. cut_columns title ls = Inr ls' \<and> map length ls' = map length ls"
proof -
  have "keeps_lengths (length title) (cut_located title c)" "keeps_lengths (length title) (cut_contained title c)" for c
    using cut_located_total cut_contained_total assms(2) by (auto simp: keeps_lengths_def)
  then have "keeps_lengths (length title) (cut_columns title)"
    unfolding cut_columns_def by (intro keeps_lengths_bind)
  with assms(1) show ?thesis by (simp add: keeps_lengths_def)
qed

lemma status_title_narrow:
  "length (status_title kind excludeCols isMdsv2 only) \<le>
   length (buildStatusLine paint s (kind = KIND_DINGOSTORE \<or> isMdsv2 \<or> kind = KIND_DINGODB) (kind = KIND_DINGODB))"
proof -
  have "length STATUS_TITLE = 9" by (simp add: STATUS_TITLE_def)
  then have "length (filter (\<lambda>t. t \<notin> set excludeCols) STATUS_TITLE) \<le> 9"
    by (metis length_filter_le)
  then show ?thesis unfolding status_title_def buildStatusLine_def by simp
qed

text \<open>
  The table of a cluster is always shown: whatever columns are left out, no line is shorter than the title, and
  none of the columns that are cut is out of range.
\<close>

lemma FormatStatus_total:
  assumes "expanded \<or> (\<exists>rows. mergeStatues longest_Prefix (sortStatues srt statuses) = Inr rows)" "''Id'' \<notin> set excludeCols"
  shows "\<exists>t. FormatStatus paint srt longest_Prefix kind statuses verbose expanded excludeCols isMdsv2 only = Inr t"
proof -
  let ?t = "status_title kind excludeCols isMdsv2 only"
  obtain shown where shown: "(if expanded then Inr (sortStatues srt statuses) else mergeStatues longest_Prefix (sortStatues srt statuses)) = Inr shown"
    using assms(1) by (cases expanded) auto
  let ?ls = "map Text ?t # map (\<lambda>item. Text (replicate (length item) (CHR ''-''))) ?t #
      map (\<lambda>s. buildStatusLine paint s (kind = KIND_DINGOSTORE \<or> isMdsv2 \<or> kind = KIND_DINGODB) (kind = KIND_DINGODB)) shown"
  have t: "?t \<noteq> []" using assms(2) by (simp add: status_title_def STATUS_TITLE_def)
  have w: "wide (length ?t) ?ls" using status_title_narrow by (auto simp: wide_def)
  have shows_all: "\<exists>x. table_text ls = Inr x" if len: "map length ls = map length ?ls" for ls
  proof -
    obtain l rest where ls: "ls = l # rest" using len by (cases ls) auto
    then have "length l = length ?t" using len by simp
    moreover have "wide (length ?t) rest" using wide_same [OF len w] ls by (simp add: wide_def)
    ultimately show ?thesis unfolding ls by (intro table_text_total) simp
  qed
  obtain ls where "(if verbose then Inr ?ls else cut_columns ?t ?ls) = Inr ls" "map length ls = map length ?ls"
    using cut_columns_total [OF w t] by (cases verbose) auto
  with shows_all [OF this(2)] shown show ?thesis by (simp add: FormatStatus_def FormatTitle_def Let_def)
qed

text \<open>
  The status command: it asks for the states of exactly the services that match and are not mds clients, in two steps
  whose errors do not stop the others, and returns the error of the playbook when the table could be shown.
\<close>

lemma genStatusPlaybook_steps:
  assumes "genStatusPlaybook e cl dcs options = Inr pb"
  shows "map ps_Type (pb_steps pb) = [INIT_SERVIE_STATUS, GET_SERVICE_STATUS] \<and> pb_postSteps pb = [] \<and>
    (\<exists>cs. cs \<noteq> [] \<and> (\<forall>dc. dc \<in> set cs \<longleftrightarrow> dc \<in> set dcs \<and> dc_role dc \<noteq> ROLE_FS_MDS_CLI \<and>
        (st_id options = ''*'' \<or> st_id options = GetServiceId e cl (dc_id dc)) \<and> (st_role options = ''*'' \<or> st_role options = dc_role dc) \<and>
        (st_host options = ''*'' \<or> st_host options = dc_host dc)) \<and>
      (\<forall>s \<in> set (pb_steps pb). ps_Configs s = DeployConfigs cs \<and> eo_SkipError (ps_ExecOptions s)))"
proof -
  let ?cs = "filter (\<lambda>dc. dc_role dc \<noteq> ROLE_FS_MDS_CLI)
      (FilterDeployConfig e cl dcs (selection (st_id options) (st_role options) (st_host options)))"
  have cs: "?cs \<noteq> []" and pb: "pb = fold (\<lambda>step pb. pb_AddStep (mk_step step ?cs []
      \<lparr>eo_Concurrency = 0, eo_SilentMainBar = (step = INIT_SERVIE_STATUS), eo_SilentSubBar = True, eo_SkipError = True\<rparr>) pb)
      GET_STATUS_PLAYBOOK_STEPS NewPlaybook"
    using assms unfolding genStatusPlaybook_def Let_def by (simp_all split: if_splits)
  have steps: "map ps_Type (pb_steps pb) = [INIT_SERVIE_STATUS, GET_SERVICE_STATUS]" "pb_postSteps pb = []"
      "\<forall>s \<in> set (pb_steps pb). ps_Configs s = DeployConfigs ?cs \<and> eo_SkipError (ps_ExecOptions s)"
    unfolding pb by (simp_all add: GET_STATUS_PLAYBOOK_STEPS_def pb_AddStep_def NewPlaybook_def mk_step_def)
  have "dc \<in> set ?cs \<longleftrightarrow> dc \<in> set dcs \<and> dc_role dc \<noteq> ROLE_FS_MDS_CLI \<and>
        (st_id options = ''*'' \<or> st_id options = GetServiceId e cl (dc_id dc)) \<and> (st_role options = ''*'' \<or> st_role options = dc_role dc) \<and>
        (st_host options = ''*'' \<or> st_host options = dc_host dc)" for dc
    unfolding FilterDeployConfig_filter selection_def by (simp add: conj_ac)
  with cs steps show ?thesis by blast
qed

end
