(* ===== verification/Check_Tasks.thy ===== *)
theory Check_Tasks
  imports Topology_Check Config_Tasks
begin

text \<open>
  The checks before a deployment besides those of the topology: \<open>ssh.go\<close>, \<open>permission.go\<close>, \<open>kernel.go\<close>, \<open>network.go\<close>, \<open>date.go\<close> and
  \<open>NewCheckS3Task\<close> of \<open>service.go\<close> in \<open>internal/task/task/checker\<close>.  Variables that the steps of a task share have names
  that begin with the argument \<open>p\<close>, as in \<open>Service_Tasks\<close>.
\<close>

section \<open>Ssh and permissions\<close>

definition checkHost :: "host_env \<Rightarrow> host_config \<Rightarrow> 'x world step" where
  "checkHost e hc w =
     (w,
      case bindR (hc_GetPrivateKeyFile e hc) (\<lambda>key. bindR (hc_GetForwardAgent e hc) (\<lambda>agent. Inr (key, agent))) of
        Inl err \<Rightarrow> Some (TErr err)
      | Inr (key, agent) \<Rightarrow>
          if agent then None
          else if \<not> env_exists e key then Some (TErr (Ec ERR_PRIVATE_KEY_FILE_NOT_EXIST))
          else if env_permissions e key \<noteq> 384 then Some (TErr (Ec ERR_PRIVATE_KEY_FILE_REQUIRE_600_PERMISSIONS))
          else None)"

definition doNothing :: "'x world step" where
  "doNothing w = (w, None)"

definition NewCheckSSHConnectTask :: "'x new_service_task" where
  "NewCheckSSHConnectTask te cl mem p uuid dc =
     resS (bindR (cli_GetHost (te_cli te) cl (dc_host dc)) (\<lambda>hc.
           bindR (hc_GetForwardAgent (env_host (te_cli te)) hc) (\<lambda>agent.
           bindR (hc_GetSSHConfig (env_host (te_cli te)) hc) (\<lambda>ssh.
           Inr (Some (remote_task te uuid ''Check SSH Connect <ssh>''
             (''host='' @ dc_host dc @ '' method='' @ Choose agent ''forwardAgent'' ''privateKey'') ssh
             [checkHost (env_host (te_cli te)) hc, doNothing]))))))"

definition checkUser :: "string \<Rightarrow> string \<Rightarrow> 'x world step" where
  "checkUser success out w =
     (w, if w_bool w success then None
         else if str_contains (w_str w out) ''unknown user'' then Some (TErr (Ec ERR_USER_NOT_FOUND))
         else Some (TErr (Ec ERR_UNKNOWN)))"

definition checkHostname :: "string \<Rightarrow> 'x world step" where
  "checkHostname success w = (w, if w_bool w success then None else Some (TErr (Ec ERR_HOSTNAME_NOT_RESOLVED)))"

text \<open>A directory that could not be made for another reason than permissions is no error.\<close>

definition checkCreateDirectory :: "string \<Rightarrow> string \<Rightarrow> 'x world step" where
  "checkCreateDirectory success out w =
     (if w_bool w success then (w, None)
      else
        (let o' = lower (w_str w out) in
         (set_str out o' w,
          if str_contains o' ''permission denied'' \<or> str_contains o' ''respect the privacy of others''
          then Some (TErr (Ec ERR_CREATE_DIRECOTRY_PERMISSION_DENIED)) else None)))"

definition CheckEngineInfo :: "string \<Rightarrow> string \<Rightarrow> 'x world step" where
  "CheckEngineInfo success out w =
     (if w_bool w success then (w, None)
      else
        (let o' = lower (w_str w out) in
         (set_str out o' w,
          Some (TErr (Ec (if str_contains o' ''not found'' then ERR_CONTAINER_ENGINE_NOT_INSTALLED
                          else if str_contains o' ''permission denied'' \<or> str_contains o' ''respect the privacy of others''
                          then ERR_EXECUTE_CONTAINER_ENGINE_COMMAND_PERMISSION_DENIED
                          else if str_contains o' ''is the docker daemon running'' then ERR_DOCKER_DAEMON_IS_NOT_RUNNING
                          else ERR_UNKNOWN))))))"

definition permission_steps :: "'x task_env \<Rightarrow> ssh_config \<Rightarrow> string \<Rightarrow> string list \<Rightarrow> 'x world step list" where
  "permission_steps te ssh p dirs =
     (let plain = (te_opts te)\<lparr>xo_ExecWithSudo := False\<rparr>; success = p @ ''success''; out = p @ ''out''; hostname = p @ ''hostname'' in
      [st_Whoami (te_sys te) (Some ssh) plain (Some success) (Some out),
       checkUser success out,
       st_Hostname (te_sys te) (Some ssh) (te_opts te) None (Some hostname),
       st_Ping (te_sys te) (Some ssh) (te_opts te) (\<lambda>w. w_str w hostname) 1 1 (Some success) None,
       checkHostname success] @
      concat (map (\<lambda>dir. [st_CreateDirectory (te_sys te) (Some ssh) plain [dir] (Some success) (Some out), checkCreateDirectory success out]) dirs) @
      [st_EngineInfo (te_sys te) (Some ssh) (te_opts te) (Some success) (Some out), CheckEngineInfo success out])"

definition host_role :: "deploy_config \<Rightarrow> string" where
  "host_role dc = ''host='' @ dc_host dc @ '' role='' @ dc_role dc"

definition NewCheckPermissionTask :: "'x new_service_task" where
  "NewCheckPermissionTask te cl mem p uuid dc =
     resS (bindR (host_ssh te cl (dc_host dc)) (\<lambda>ssh.
           bindR (getServiceDirectorys dc) (\<lambda>dirs.
           Inr (Some (remote_task te uuid ''Check Permission <permission>'' (host_role dc) ssh (permission_steps te ssh p (map dir_Path dirs)))))))"

section \<open>Kernel\<close>

abbreviation CHUNKSERVER_LEAST_KERNEL_VERSION :: string where "CHUNKSERVER_LEAST_KERNEL_VERSION \<equiv> ''3.15.0''"

text \<open>\<open>Atoi\<close> without its error: a number out of range gives the nearest one, any other text 0.\<close>

definition nearest64 :: "int \<Rightarrow> int" where
  "nearest64 i = max (- (2 ^ 63)) (min (2 ^ 63 - 1) i)"

definition atoi_value :: "string \<Rightarrow> int" where
  "atoi_value s =
     (case s of
        [] \<Rightarrow> 0
      | c # cs \<Rightarrow>
          (case (if c = CHR ''-'' then map_option uminus (unsigned cs) else if c = CHR ''+'' then unsigned cs else unsigned s) of
             None \<Rightarrow> 0
           | Some i \<Rightarrow> nearest64 i))"

definition calcKernelVersion :: "string \<Rightarrow> int" where
  "calcKernelVersion version =
     fold (\<lambda>item num. wrap64 (num * 1000 + atoi_value item)) (split_on (CHR ''.'') version) 0"

text \<open>The expression \<open>^(\d+\.\d+\.\d+)(?:[-_].+)?$\<close>: the version at the start of a release.\<close>

definition take_digits :: "string \<Rightarrow> (string \<times> string) option" where
  "take_digits s = (let d = takeWhile IsDigit s in if d = [] then None else Some (d, dropWhile IsDigit s))"

definition take_dot :: "string \<Rightarrow> string option" where
  "take_dot s = (case s of c # cs \<Rightarrow> if c = CHR ''.'' then Some cs else None | [] \<Rightarrow> None)"

definition kernel_suffix :: "string \<Rightarrow> bool" where
  "kernel_suffix s \<longleftrightarrow>
     (case s of [] \<Rightarrow> True | c # cs \<Rightarrow> (c = CHR ''-'' \<or> c = CHR ''_'') \<and> cs \<noteq> [] \<and> CHR 0x0A \<notin> set cs)"

definition kernel_version :: "string \<Rightarrow> string option" where
  "kernel_version s =
     Option.bind (take_digits s) (\<lambda>(a, s1).
     Option.bind (take_dot s1) (\<lambda>s2.
     Option.bind (take_digits s2) (\<lambda>(b, s3).
     Option.bind (take_dot s3) (\<lambda>s4.
     Option.bind (take_digits s4) (\<lambda>(c, s5).
     if kernel_suffix s5 then Some (a @ ''.'' @ b @ ''.'' @ c) else None)))))"

definition checkKernelVersion :: "string \<Rightarrow> deploy_config \<Rightarrow> 'x world step" where
  "checkKernelVersion out dc w =
     (w,
      case GetEnableRenameAt2 dc of
        Inl e \<Rightarrow> Some (TErr e)
      | Inr False \<Rightarrow> None
      | Inr True \<Rightarrow>
          (case kernel_version (w_str w out) of
             None \<Rightarrow> Some (TErr (Ec ERR_UNRECOGNIZED_KERNEL_VERSION))
           | Some current \<Rightarrow>
               if calcKernelVersion current < calcKernelVersion CHUNKSERVER_LEAST_KERNEL_VERSION
               then Some (TErr (Ec ERR_RENAMEAT_NOT_SUPPORTED_IN_CURRENT_KERNEL)) else None))"

definition NewCheckKernelVersionTask :: "'x new_service_task" where
  "NewCheckKernelVersionTask te cl mem p uuid dc =
     resS (bindR (host_ssh te cl (dc_host dc)) (\<lambda>ssh.
           Inr (Some (remote_task te uuid ''Check Kernel Version <kernel>''
             (host_role dc @ '' require=(>='' @ CHUNKSERVER_LEAST_KERNEL_VERSION @ '')'') ssh
             [st_UnixName (te_sys te) (Some ssh) (te_opts te) True (Some (p @ ''out'')), checkKernelVersion (p @ ''out'') dc]))))"

definition checkKernelModule :: "string \<Rightarrow> string \<Rightarrow> 'x world step" where
  "checkKernelModule name success w =
     (w, if w_bool w success then None
         else if name = ''nbd'' then Some (TErr (Ec ERR_KERNEL_NBD_MODULE_NOT_LOADED))
         else if name = ''fuse'' then Some (TErr (Ec ERR_KERNEL_FUSE_MODULE_NOT_LOADED))
         else None)"

definition mem_str :: "omap \<Rightarrow> string \<Rightarrow> string res" where
  "mem_str mem key = (case map_of mem key of Some (OVal (GStr s)) \<Rightarrow> Inr s | _ \<Rightarrow> Inl GoPanic)"

definition NewCheckKernelModuleTask :: "'x task_env \<Rightarrow> dingocli \<Rightarrow> omap \<Rightarrow> string \<Rightarrow> string \<Rightarrow> 'x world task option res" where
  "NewCheckKernelModuleTask te cl mem p uuid =
     bindR (mem_str mem ''CLIENT_HOST'') (\<lambda>host.
     bindR (cli_GetHost (te_cli te) cl host) (\<lambda>hc.
     bindR (mem_str mem ''CHECK_KERNEL_MODULE_NAME'') (\<lambda>name.
     bindR (hc_GetSSHConfig (env_host (te_cli te)) hc) (\<lambda>ssh.
     Inr (Some (remote_task te uuid ''Check Kernel Module'' (''host='' @ host @ '' module='' @ name) ssh
       [st_ModInfo (te_sys te) (Some ssh) (te_opts te) name (Some (p @ ''success'')) (Some (p @ ''out'')),
        checkKernelModule name (p @ ''success'')]))))))"

section \<open>Dates\<close>

abbreviation (input) MAX_TIME_DIFFERENCE :: int where "MAX_TIME_DIFFERENCE \<equiv> 15"

definition step2Pre :: "('x \<Rightarrow> int) \<Rightarrow> string \<Rightarrow> 'x world step" where
  "step2Pre clock start w = (set_str start (itoa (clock (w_ext w))) w, None)"

definition step2Post :: "deploy_config \<Rightarrow> string \<Rightarrow> 'x world step" where
  "step2Post dc out w =
     (if length (w_str w out) = 0 then (w, Some (TErr (Ec ERR_INVALID_DATE_FORMAT)))
      else
        (case atoi (w_str w out) of
           None \<Rightarrow> (w, Some (TErr (Ec ERR_INVALID_DATE_FORMAT)))
         | Some time \<Rightarrow> (w\<lparr>w_dates := AList.update (dc_host dc) time (w_dates w)\<rparr>, None)))"

definition NewGetHostDate :: "('x \<Rightarrow> int) \<Rightarrow> int \<Rightarrow> 'x new_service_task" where
  "NewGetHostDate clock now te cl mem p uuid dc =
     resS (bindR (host_ssh te cl (dc_host dc)) (\<lambda>ssh.
           Inr (Some (remote_task te uuid ''Get Host Date <date>'' (''host='' @ dc_host dc @ '' start='' @ itoa now) ssh
             [step2Pre clock (p @ ''start''), st_Date (te_sys te) (Some ssh) (te_opts te) ''+%s'' (Some (p @ ''out'')),
              step2Post dc (p @ ''out'')]))))"

text \<open>The smallest and the greatest time; 0 stands for none yet.\<close>

definition date_range :: "int list \<Rightarrow> int \<times> int" where
  "date_range ts =
     fold (\<lambda>t (mn, mx). (if mn = 0 \<or> t < mn then t else mn, if mx = 0 \<or> t > mx then t else mx)) ts (0, 0)"

definition checkDate :: "(string list \<Rightarrow> string list) \<Rightarrow> 'x world step" where
  "checkDate order w =
     (let (mn, mx) = date_range (map (\<lambda>h. the (map_of (w_dates w) h)) (order (map fst (w_dates w)))) in
      (w, if wrap64 (mx - mn) > MAX_TIME_DIFFERENCE then Some (TErr (Ec ERR_HOST_TIME_DIFFERENCE_OVER_30_SECONDS)) else None))"

definition NewCheckDate :: "'x task_env \<Rightarrow> string \<Rightarrow> 'x world task option res" where
  "NewCheckDate te uuid = Inr (Some (AddStep (checkDate (te_order te)) (NewTask uuid ''Check Host Date <date>'' [] None)))"

section \<open>Network\<close>

definition checkPortInUse :: "string \<Rightarrow> string \<Rightarrow> 'x world step" where
  "checkPortInUse success out w =
     (w, if \<not> w_bool w success then Some (TErr (Ec ERR_GET_CONNECTION_INFORMATION_FAILED))
         else if length (w_str w out) > 0 then
           if w_str w out = ''RTNETLINK answers: Invalid argument'' then None else Some (TErr (Ec ERR_PORT_ALREADY_IN_USE))
         else None)"

definition joinPorts :: "deploy_config \<Rightarrow> address list \<Rightarrow> string" where
  "joinPorts dc addresses =
     join '','' (map (\<lambda>a. itoa (ad_Port a)) addresses @ (if dc_instances dc > 1 then [''...''] else []))"

definition getCheckPortContainerName :: "'x task_env \<Rightarrow> dingocli \<Rightarrow> deploy_config \<Rightarrow> string" where
  "getCheckPortContainerName te cl dc = ''dingocli-precheck-port-'' @ dc_role dc @ ''-'' @ GetServiceId (te_cli te) cl (dc_id dc)"

text \<open>The output of the command is local to the step.\<close>

definition port_command :: "int \<Rightarrow> string" where
  "port_command port =
     sh_String (AddOption ''--listening'' (AddOption ''--no-header'' (sh_SocketStatistics (''( sport = :'' @ itoa port @ '' )'') NewShell)))"

definition step2CheckPortStatus :: "'x task_env \<Rightarrow> ssh_config \<Rightarrow> string \<Rightarrow> string \<Rightarrow> string \<Rightarrow> int \<Rightarrow> 'x world step" where
  "step2CheckPortStatus te ssh containerId success local_out port w =
     (case st_ContainerExec (te_sys te) (Some ssh) (te_opts te) (\<lambda>w. w_str w containerId) (port_command port) (Some success) (Some local_out) w of
        (w', Some e) \<Rightarrow> (w', Some e)
      | (w', None) \<Rightarrow> checkPortInUse success local_out w')"

definition probe_container :: "string \<Rightarrow> string \<Rightarrow> string \<Rightarrow> create_container" where
  "probe_container img command name =
     zero_create_container\<lparr>cc_Image := img, cc_Command := command, cc_Entrypoint := ''/bin/bash'', cc_Name := name, cc_Remove := True\<rparr>"

definition port_steps :: "'x task_env \<Rightarrow> ssh_config \<Rightarrow> string \<Rightarrow> string \<Rightarrow> string \<Rightarrow> int list \<Rightarrow> 'x world step list" where
  "port_steps te ssh p img name ports =
     [st_PullImage (te_sys te) (Some ssh) (te_opts te) img None,
      st_CreateContainer (te_sys te) (Some ssh) (te_opts te) (probe_container img (''-c '' @ [CHR 0x27] @ ''sleep infinity'' @ [CHR 0x27]) name)
        (Some (p @ ''containerId'')),
      st_StartContainer (te_sys te) (Some ssh) (te_opts te) (\<lambda>w. w_str w (p @ ''containerId'')) (Some (p @ ''success'')) (Some (p @ ''out''))] @
     map (step2CheckPortStatus te ssh (p @ ''containerId'') (p @ ''success'') (p @ ''local'')) ports"

definition NewCheckPortInUseTask :: "'x new_service_task" where
  "NewCheckPortInUseTask te cl mem p uuid dc =
     resS (bindR (cli_GetHost (te_cli te) cl (dc_host dc)) (\<lambda>hc.
           if dc_role dc = ROLE_FS_MDS_CLI \<or> dc_role dc = ROLE_DINGODB_EXECUTOR then Inr None
           else
             bindR (getServiceListenAddresses dc) (\<lambda>addresses.
             bindR (hc_GetSSHConfig (env_host (te_cli te)) hc) (\<lambda>ssh.
             bindR (GetContainerImage dc) (\<lambda>img.
             Inr (Some (remote_task te uuid ''Check Port In Use <network>'' (host_role dc @ '' ports={'' @ joinPorts dc addresses @ ''}'') ssh
               (port_steps te ssh p img (getCheckPortContainerName te cl dc) (map ad_Port addresses)))))))))"

definition unique_ips :: "address list \<Rightarrow> string list" where
  "unique_ips addresses = fst (fold (\<lambda>a (out, m). (if bget m (ad_IP a) then out else out @ [ad_IP a], AList.update (ad_IP a) True m)) addresses ([], []))"

definition TrimAddress :: "string \<Rightarrow> string" where
  "TrimAddress a = (if length a > 30 then take 30 a @ ''...'' else a)"

definition checkReachable :: "string \<Rightarrow> 'x world step" where
  "checkReachable success w = (w, if w_bool w success then None else Some (TErr (Ec ERR_DESTINATION_UNREACHABLE)))"

definition NewCheckDestinationReachableTask :: "'x new_service_task" where
  "NewCheckDestinationReachableTask te cl mem p uuid dc =
     resS (bindR (cli_GetHost (te_cli te) cl (dc_host dc)) (\<lambda>hc.
           bindR (mem_deploys mem KEY_ALL_DEPLOY_CONFIGS) (\<lambda>dcs.
           bindR (getServiceConnectAddress dc dcs) (\<lambda>ads.
           bindR (hc_GetSSHConfig (env_host (te_cli te)) hc) (\<lambda>ssh.
           let addresses = unique_ips ads in
           Inr (Some (remote_task te uuid ''Check Destination Reachable <network>''
             (host_role dc @ '' ping={'' @ TrimAddress (join '','' addresses) @ ''}'') ssh
             (concat (map (\<lambda>a. [st_Ping (te_sys te) (Some ssh) (te_opts te) (\<lambda>_. a) 1 0 (Some (p @ ''success'')) (Some (p @ ''out'')),
                                checkReachable (p @ ''success'')]) addresses))))))))) "

definition getNginxListens :: "address list \<Rightarrow> string" where
  "getNginxListens addresses = join '' '' (map (\<lambda>a. ''listen '' @ ad_IP a @ '':'' @ itoa (ad_Port a) @ '';'') addresses)"

definition getHTTPServerContainerName :: "'x task_env \<Rightarrow> dingocli \<Rightarrow> deploy_config \<Rightarrow> string" where
  "getHTTPServerContainerName te cl dc = ''dingocli-precheck-nginx-'' @ dc_role dc @ ''-'' @ GetServiceId (te_cli te) cl (dc_id dc)"

definition waitNginxStarted :: "'x task_env \<Rightarrow> int \<Rightarrow> 'x world step" where
  "waitNginxStarted te seconds w = (w\<lparr>w_ext := sys_sleep (te_sys te) seconds (w_ext w)\<rparr>, None)"

definition http_steps :: "'x task_env \<Rightarrow> ssh_config \<Rightarrow> string \<Rightarrow> string \<Rightarrow> string \<Rightarrow> string \<Rightarrow> 'x world step list" where
  "http_steps te ssh p img name listens =
     (let scriptPath = ''/usr/bin/start_nginx'' in
      [st_PullImage (te_sys te) (Some ssh) (te_opts te) img None,
       st_CreateContainer (te_sys te) (Some ssh) (te_opts te) (probe_container img (scriptPath @ '' '' @ [CHR 0x27] @ listens @ [CHR 0x27]) name)
         (Some (p @ ''containerId'')),
       st_InstallFile (te_sys te) (Some ssh) (te_opts te) (\<lambda>_. te_scripts te ''START_NGINX'') [] (\<lambda>w. w_str w (p @ ''containerId'')) scriptPath,
       st_StartContainer (te_sys te) (Some ssh) (te_opts te) (\<lambda>w. w_str w (p @ ''containerId'')) (Some (p @ ''success'')) (Some (p @ ''out'')),
       waitNginxStarted te 5])"

definition NewStartHTTPServerTask :: "'x new_service_task" where
  "NewStartHTTPServerTask te cl mem p uuid dc =
     resS (bindR (cli_GetHost (te_cli te) cl (dc_host dc)) (\<lambda>hc.
           bindR (getServiceListenAddresses dc) (\<lambda>addresses.
           bindR (hc_GetSSHConfig (env_host (te_cli te)) hc) (\<lambda>ssh.
           bindR (GetContainerImage dc) (\<lambda>img.
           Inr (Some (remote_task te uuid ''Start Mock HTTP Server <network>'' (host_role dc @ '' ports={'' @ joinPorts dc addresses @ ''}'') ssh
             (http_steps te ssh p img (getHTTPServerContainerName te cl dc) (getNginxListens addresses)))))))))"

definition step2CheckConnectStatus :: "string \<Rightarrow> 'x world step" where
  "step2CheckConnectStatus success w =
     (w, if w_bool w success then None else Some (TErr (Ec ERR_CONNET_MOCK_SERVICE_ADDRESS_FAILED)))"

definition NewCheckNetworkFirewallTask :: "'x new_service_task" where
  "NewCheckNetworkFirewallTask te cl mem p uuid dc =
     resS (bindR (cli_GetHost (te_cli te) cl (dc_host dc)) (\<lambda>hc.
           bindR (mem_deploys mem KEY_ALL_DEPLOY_CONFIGS) (\<lambda>dcs.
           bindR (getServiceConnectAddress dc dcs) (\<lambda>addresses.
           bindR (hc_GetSSHConfig (env_host (te_cli te)) hc) (\<lambda>ssh.
           Inr (Some (remote_task te uuid ''Check Network Firewall <network>'' (host_role dc) ssh
             (concat (map (\<lambda>a. [st_Curl (te_sys te) (Some ssh) (te_opts te) (''http://'' @ ad_IP a @ '':'' @ itoa (ad_Port a)) [] False
                                  ''/dev/null'' False (Some (p @ ''success'')) (Some (p @ ''out'')),
                                step2CheckConnectStatus (p @ ''success'')]) addresses)))))))))"

text \<open>The removal comes after the stop, which writes its own output over the id; the id was read before.\<close>

definition step2StopContainer :: "'x task_env \<Rightarrow> ssh_config \<Rightarrow> string \<Rightarrow> string \<Rightarrow> 'x world step" where
  "step2StopContainer te ssh containerId success w =
     (let c = w_str w containerId in
      if length c = 0 then (w, None)
      else
        (case st_StopContainer (te_sys te) (Some ssh) (te_opts te) c 1 (Some containerId) w of
           (w', Some e) \<Rightarrow> (w', Some e)
         | (w', None) \<Rightarrow> st_RemoveContainer (te_sys te) (Some ssh) (te_opts te) c (Some success) None w'))"

definition clean_environment_steps :: "'x task_env \<Rightarrow> ssh_config \<Rightarrow> string \<Rightarrow> string list \<Rightarrow> 'x world step list" where
  "clean_environment_steps te ssh p names =
     concat (map (\<lambda>name.
       [st_ListContainers (te_sys te) (Some ssh) (te_opts te) (quoted ''{{.ID}}'') (''name='' @ name) False True (Some (p @ ''out'')),
        step2StopContainer te ssh (p @ ''out'') (p @ ''success'')]) names)"

definition NewCleanEnvironmentTask :: "'x new_service_task" where
  "NewCleanEnvironmentTask te cl mem p uuid dc =
     resS (bindR (host_ssh te cl (dc_host dc)) (\<lambda>ssh.
           Inr (Some (remote_task te uuid ''Clean Precheck Environment'' (host_role dc) ssh
             (clean_environment_steps te ssh p [getCheckPortContainerName te cl dc, getHTTPServerContainerName te cl dc])))))"

section \<open>Object storage\<close>

text \<open>The check of the object storage does nothing.\<close>

definition step2CheckS3 :: "'x world step" where
  "step2CheckS3 w = (w, None)"

definition NewCheckS3Task :: "'x new_service_task" where
  "NewCheckS3Task te cl mem p uuid dc =
     resS (bindR (mapR (\<lambda>get. get dc) [GetS3AccessKey, GetS3SecretKey, GetS3Address, GetS3BucketName]) (\<lambda>_.
           Inr (Some (AddStep step2CheckS3 (NewTask uuid ''Check S3'' (host_role dc) None)))))"

end
