(* ===== verification/Check_Spec.thy ===== *)
theory Check_Spec
  imports Check_Tasks Service_Life
begin

text \<open>
  What the checks before a deployment establish: the times of the hosts are close, the kernel is recent enough, the
  ports of a service are free, its peers are reachable.
\<close>

section \<open>Times\<close>

lemma date_range_snoc:
  "date_range (ts @ [t]) =
     (case date_range ts of (mn, mx) \<Rightarrow> (if mn = 0 \<or> t < mn then t else mn, if mx = 0 \<or> t > mx then t else mx))"
  by (simp add: date_range_def)

lemma date_range_positive:
  assumes "\<forall>t \<in> set ts. 0 < t" and "ts \<noteq> []"
  shows "date_range ts = (Min (set ts), Max (set ts))"
  using assms
proof (induction ts rule: rev_induct)
  case (snoc t ts)
  show ?case
  proof (cases "ts = []")
    case True
    then show ?thesis by (simp add: date_range_def)
  next
    case False
    with snoc have r: "date_range ts = (Min (set ts), Max (set ts))" by simp
    have "Min (set ts) \<in> set ts" "Max (set ts) \<in> set ts" using False by (simp_all add: Min_in Max_in)
    with snoc.prems have pos: "Min (set ts) \<noteq> 0" "Max (set ts) \<noteq> 0" by auto
    have "Min (insert t (set ts)) = min t (Min (set ts))" "Max (insert t (set ts)) = max t (Max (set ts))"
      using False by (simp_all add: Min_insert Max_insert)
    with pos show ?thesis by (simp add: date_range_snoc r min_def max_def)
  qed
qed simp

lemma map_of_values:
  assumes "distinct (map fst m)" and "mset ks = mset (map fst m)"
  shows "set (map (\<lambda>k. the (map_of m k)) ks) = snd ` set m"
proof -
  have "set ks = fst ` set m" using mset_eq_setD [OF assms(2)] by simp
  moreover have "the (map_of m k) = v" if "(k, v) \<in> set m" for k v using that assms(1) by simp
  ultimately show ?thesis by (force simp: image_iff)
qed


section \<open>Kernel\<close>

lemma atoi_value_atoi: "atoi s = Some i \<Longrightarrow> atoi_value s = i"
  by (auto simp: atoi_def atoi_value_def nearest64_def int64_range_def Let_def split: list.splits option.splits if_splits)

lemma calcKernelVersion_dotted:
  assumes "part a" and "part b" and "part c"
  shows "calcKernelVersion (dotted a b c) = a * 1000000 + b * 1000 + c"
proof -
  have range: "int64_range n" if "0 \<le> n" "n < 1000000000" for n using that by (simp add: int64_range_def)
  have "split_on (CHR ''.'') (dotted a b c) = [itoa a, itoa b, itoa c]"
    by (simp add: dotted_def split_on_append split_on_join_free dot_not_itoa)
  moreover have "atoi_value (itoa a) = a" "atoi_value (itoa b) = b" "atoi_value (itoa c) = c"
    using assms by (auto intro!: atoi_value_atoi atoi_itoa range)
  moreover have "wrap64 (a * 1000 + b) = a * 1000 + b" "wrap64 a = a" "wrap64 ((a * 1000 + b) * 1000 + c) = (a * 1000 + b) * 1000 + c"
    using assms by (auto intro!: wrap64_id range)
  ultimately show ?thesis by (simp add: calcKernelVersion_def)
qed

lemma itoa_digits: "0 \<le> i \<Longrightarrow> \<forall>c \<in> set (itoa i). IsDigit c"
proof -
  have d: "IsDigit c" if "is_digit c" for c
  proof -
    have "(of_char c :: int) = int (of_char c)" by (simp only: of_nat_of_char)
    with that show ?thesis unfolding IsDigit_def is_digit_def by simp
  qed
  assume "0 \<le> i"
  with show_dec_digits [of i] show ?thesis by (auto simp: itoa_def intro: d)
qed

lemma take_digits_itoa:
  assumes "0 \<le> i"
  shows "\<not> IsDigit c \<Longrightarrow> take_digits (itoa i @ c # rest) = Some (itoa i, c # rest)" and "take_digits (itoa i) = Some (itoa i, [])"
  using itoa_digits [OF assms] by (simp_all add: take_digits_def Let_def takeWhile_eq_all_conv [THEN iffD2] dropWhile_eq_Nil_conv [THEN iffD2])

lemma suffix_no_digit: "kernel_suffix suf \<Longrightarrow> suf = [] \<or> (\<exists>c cs. suf = c # cs \<and> \<not> IsDigit c)"
  by (cases suf) (auto simp: kernel_suffix_def IsDigit_def)

lemma kernel_version_dotted:
  assumes "0 \<le> a" and "0 \<le> b" and "0 \<le> c" and "kernel_suffix suf"
  shows "kernel_version (dotted a b c @ suf) = Some (dotted a b c)"
proof -
  have dot: "\<not> IsDigit (CHR ''.'')" by (simp add: IsDigit_def)
  have last: "take_digits (itoa c @ suf) = Some (itoa c, suf)"
    using suffix_no_digit [OF assms(4)] take_digits_itoa assms(3) by auto
  have "dotted a b c @ suf = itoa a @ CHR ''.'' # itoa b @ CHR ''.'' # itoa c @ suf" by (simp add: dotted_def)
  then show ?thesis using assms
    by (simp add: kernel_version_def take_digits_itoa(1) dot take_dot_def last dotted_def)
qed


text \<open>The bound is sharp: a third number of 1000 counts as one of the second.\<close>

lemma kernel_check_overflow: "calcKernelVersion ''3.14.1000'' = calcKernelVersion ''3.15.0''"
  by code_simp

section \<open>Ports and peers\<close>

lemma run_steps_all_pass:
  assumes "\<forall>s \<in> set ss. honest s" and "run_steps ss w = (w', None)" and "s \<in> set ss"
  shows "\<exists>w1 w2. s w1 = (w2, None)"
  using assms
proof (induction ss arbitrary: w)
  case (Cons t ss)
  from Cons.prems(2) show ?case
  proof (cases rule: run_steps_Cons_cases)
    case (error e)
    with Cons.prems(1) honest_error [of t w w' e] show ?thesis by (simp split: if_splits)
  next
    case (next_step w1)
    with Cons show ?thesis by auto
  qed
qed simp

lemma port_step_passes:
  assumes "step2CheckPortStatus te ssh c success local_out port w = (w', None)"
  shows "\<exists>id out. engine_said te ssh (dk_ContainerExec id (port_command port) NewShell) out \<and>
    (trim_newlines out = [] \<or> trim_newlines out = ''RTNETLINK answers: Invalid argument'')"
proof -
  obtain x' out err where x: "dk_Execute (te_sys te) (Some ssh) (te_opts te) (dk_ContainerExec (w_str w c) (port_command port) NewShell) (w_ext w) = (x', Inr (out, err))"
    using dk_Execute_runs [of "te_sys te" ssh "te_opts te" "dk_ContainerExec (w_str w c) (port_command port) NewShell" "w_ext w"] by auto
  with assms have "err = None" "trim_newlines out = [] \<or> trim_newlines out = ''RTNETLINK answers: Invalid argument''"
    by (auto simp: step2CheckPortStatus_def st_ContainerExec_def handled_def on_ext_def PostHandle_def checkPortInUse_def split: if_splits)
  with x show ?thesis unfolding engine_said_def by blast
qed

lemma port_step_honest: "honest (step2CheckPortStatus te ssh c success local_out port)"
  by (auto simp: honest_def step2CheckPortStatus_def checkPortInUse_def st_ContainerExec_def split: prod.splits option.splits if_splits
      dest: handled_honest [unfolded honest_def, rule_format])

lemma port_steps_honest: "\<forall>s \<in> set (port_steps te ssh p img name ports). honest s"
  by (auto simp: port_steps_def port_step_honest st_PullImage_def st_CreateContainer_def handled_honest)
     (auto simp: honest_def st_StartContainer_def dest: handled_honest [unfolded honest_def, rule_format])

text \<open>
  The check of the ports: when the task of a service returns no error, then for each port the service will listen on, the
  engine ran the query for listening sockets in a container on the service's host, and it printed nothing, or the one
  message that is taken for nothing.
\<close>

theorem ports_checked:
  assumes "perform NewCheckPortInUseTask te cl mem p uuid dc w = (w', None)"
    and "dc_role dc \<noteq> ROLE_FS_MDS_CLI" and "dc_role dc \<noteq> ROLE_DINGODB_EXECUTOR"
  shows "\<exists>ssh addresses. host_ssh te cl (dc_host dc) = Inr ssh \<and> getServiceListenAddresses dc = Inr addresses \<and>
    (\<forall>a \<in> set addresses. \<exists>id out. engine_said te ssh (dk_ContainerExec id (port_command (ad_Port a)) NewShell) out \<and>
       (trim_newlines out = [] \<or> trim_newlines out = ''RTNETLINK answers: Invalid argument''))"
proof -
  have "\<exists>t. snd (NewCheckPortInUseTask te cl mem p uuid dc (w_db w)) = Inr (Some t)"
    using assms by (auto simp: perform_def NewCheckPortInUseTask_def resS_def res_simps split: sum.splits option.splits)
  then obtain hc ssh addresses img where h: "cli_GetHost (te_cli te) cl (dc_host dc) = Inr hc" "hc_GetSSHConfig (env_host (te_cli te)) hc = Inr ssh"
    "getServiceListenAddresses dc = Inr addresses" "GetContainerImage dc = Inr img"
    using assms(2,3) by (auto simp: NewCheckPortInUseTask_def resS_def res_simps)
  let ?ss = "port_steps te ssh p img (getCheckPortContainerName te cl dc) (map ad_Port addresses)"
  from assms h have "Task_Execute (remote_task te uuid ''Check Port In Use <network>'' (host_role dc @ '' ports={'' @ joinPorts dc addresses @ ''}'') ssh ?ss) w = (w', None)"
    by (simp add: perform_def NewCheckPortInUseTask_def resS_def)
  then obtain x where run: "run_steps ?ss (w\<lparr>w_ext := x\<rparr>) = (w', None)" by (cases rule: remote_task_cases) auto
  have "\<exists>id out. engine_said te ssh (dk_ContainerExec id (port_command (ad_Port a)) NewShell) out \<and>
       (trim_newlines out = [] \<or> trim_newlines out = ''RTNETLINK answers: Invalid argument'')" if "a \<in> set addresses" for a
  proof -
    have "step2CheckPortStatus te ssh (p @ ''containerId'') (p @ ''success'') (p @ ''local'') (ad_Port a) \<in> set ?ss"
      using that by (simp add: port_steps_def)
    from run_steps_all_pass [OF port_steps_honest run this] show ?thesis by (auto dest: port_step_passes)
  qed
  with h show ?thesis by (auto simp: host_ssh_def)
qed

section \<open>The theorems at work\<close>

definition dates_world :: "unit world" where
  "dates_world = (demo_world empty_db)\<lparr>w_dates := [(''a'', 1700000000), (''b'', 1700000016)]\<rparr>"



definition quiet_te :: "unit task_env" where
  "quiet_te = demo_te (\<lambda>_. ([], None))"

lemma quiet_te_runs:
  "dk_Execute (te_sys quiet_te) (Some ssh) xo cmd x = (x, Inr ([], None))" "NewSSHClient (te_sys quiet_te) (te_retries quiet_te) ssh x = (x, True)"
  by (simp_all add: quiet_te_def demo_te_def demo_sys_def dk_Execute_def execCommand_def Let_def NewSSHClient_def)

lemma quiet_te_ports:
  "snd (perform NewCheckPortInUseTask quiet_te check_cli mem p uuid life_dc (demo_world empty_db)) = None"
proof -
  have "case host_ssh quiet_te check_cli (dc_host life_dc) of Inl _ \<Rightarrow> False | Inr _ \<Rightarrow> True" by code_simp
  then obtain ssh where h: "host_ssh quiet_te check_cli (dc_host life_dc) = Inr ssh" using is_right by blast
  have "case getServiceListenAddresses life_dc of Inl _ \<Rightarrow> False | Inr _ \<Rightarrow> True" by code_simp
  then obtain ads where a: "getServiceListenAddresses life_dc = Inr ads" using is_right by blast
  have "case GetContainerImage life_dc of Inl _ \<Rightarrow> False | Inr _ \<Rightarrow> True" by code_simp
  then obtain img where i: "GetContainerImage life_dc = Inr img" using is_right by blast
  have r: "dc_role life_dc \<noteq> ROLE_DINGODB_EXECUTOR" by code_simp
  have n: "trim_newlines [] = []" by code_simp
  have "snd (s w) = None" if "s \<in> set (port_steps quiet_te ssh p img name ports)" for s w name ports
    using that
    by (auto simp: port_steps_def st_PullImage_def st_CreateContainer_def st_StartContainer_def step2CheckPortStatus_def
        st_ContainerExec_def handled_def on_ext_def quiet_te_runs PostHandle_def checkPortInUse_def n)
  then have "snd (run_steps (port_steps quiet_te ssh p img name ports) w) = None" for name ports w by (rule run_steps_pass)
  with h a i r life_demo(4) show ?thesis
    by (auto simp: perform_def NewCheckPortInUseTask_def resS_def Task_Execute_def remote_task_sel on_ext_def quiet_te_runs host_ssh_def res_simps)
qed

theorem ports_checked_witness:
  "\<exists>ssh addresses. host_ssh quiet_te check_cli (dc_host life_dc) = Inr ssh \<and> getServiceListenAddresses life_dc = Inr addresses \<and>
    (\<forall>a \<in> set addresses. \<exists>id out. engine_said quiet_te ssh (dk_ContainerExec id (port_command (ad_Port a)) NewShell) out \<and>
       (trim_newlines out = [] \<or> trim_newlines out = ''RTNETLINK answers: Invalid argument''))"
proof -
  have "dc_role life_dc \<noteq> ROLE_DINGODB_EXECUTOR" by code_simp
  from ports_checked [OF pair_of [OF quiet_te_ports] life_demo(4) this] show ?thesis .
qed

end
