(* ===== verification/Components.thy ===== *)
theory Components
  imports Utils "HOL-Library.List_Lexorder" "HOL-Library.Char_ord"
begin

text \<open>
  The component manager, \<open>internal/component\<close>, and the commands \<open>dingo component ...\<close> of
  \<open>cli/command/component\<close>: the binaries (client, cache, metadata server) that the command line
  downloads from a mirror, the file \<open>installed.json\<close> that lists them, and the version of each
  that is the default one.

  The network and the local disk are the fields of \<open>comp_env\<close>: the version file that a URL
  returns after its JSON is decoded, the bytes a URL returns, and whether writing a path works.
  The disk the commands leave behind is a \<open>comp_disk\<close>: the decoded \<open>installed.json\<close> (absent,
  unreadable or a list) and the downloaded files.  Strings are compared as Go compares them,
  byte by byte (\<open>HOL-Library.List_Lexorder\<close> over \<open>HOL-Library.Char_ord\<close>).
\<close>

section \<open>Versions in the repository\<close>

abbreviation DINGO_CLIENT :: string where "DINGO_CLIENT \<equiv> ''dingo-client''"
abbreviation DINGO_DACHE :: string where "DINGO_DACHE \<equiv> ''dingo-cache''"
abbreviation DINGO_MDS :: string where "DINGO_MDS \<equiv> ''dingo-mds''"
abbreviation DINGO_MDS_CLIENT :: string where "DINGO_MDS_CLIENT \<equiv> ''dingo-mds-client''"
abbreviation INSTALLED_FILE :: string where "INSTALLED_FILE \<equiv> ''installed.json''"
abbreviation LASTEST_VERSION :: string where "LASTEST_VERSION \<equiv> ''latest''"
abbreviation MAIN_VERSION :: string where "MAIN_VERSION \<equiv> ''main''"

abbreviation ErrAlreadyLatest :: gerr where "ErrAlreadyLatest \<equiv> RawErr ''already with latest build''"
abbreviation ErrAlreadyExist :: gerr where "ErrAlreadyExist \<equiv> RawErr ''already exist''"
abbreviation ErrNotFound :: gerr where "ErrNotFound \<equiv> RawErr ''not found''"

definition ALL_COMPONENTS :: "string list" where
  "ALL_COMPONENTS = [DINGO_CLIENT, DINGO_DACHE, DINGO_MDS, DINGO_MDS_CLIENT]"

record BinaryDetail =
  b_Path :: string
  b_BuildTime :: string
  b_Size :: string
  b_Commit :: string

record BinaryRepoData =
  r_Binary :: string
  r_GeneratedAt :: string
  r_Branches :: "(string \<times> BinaryDetail) list"
  r_Commits :: "(string \<times> BinaryDetail) list"
  r_Tags :: "(string \<times> BinaryDetail) list"

definition latest_tag :: "string list \<Rightarrow> string" where
  "latest_tag versions = fold (\<lambda>version latest. if latest < version then version else latest) versions ''v0.0.0''"

definition GetLatest :: "BinaryRepoData \<Rightarrow> (string \<times> BinaryDetail) option" where
  "GetLatest b =
     (let latest = latest_tag (map fst (r_Tags b))
      in map_option (Pair latest) (map_of (r_Tags b) latest))"

definition GetMain :: "BinaryRepoData \<Rightarrow> BinaryDetail option" where
  "GetMain b = map_of (r_Branches b) MAIN_VERSION"

definition repo_FindVersion :: "BinaryRepoData \<Rightarrow> string \<Rightarrow> BinaryDetail option" where
  "repo_FindVersion b tag = map_of (r_Tags b) tag"

text \<open>\<open>URLJoin\<close> on a URL of scheme, host and path with no query and no character that needs
  escaping: \<open>url.Parse\<close> splits it after the host, and \<open>String\<close> puts a slash before a path that
  has none.\<close>

definition url_split :: "string \<Rightarrow> string \<times> string" where
  "url_split u =
     (case split_on (CHR ''/'') u of
        scheme # [] # host # ps \<Rightarrow> (scheme @ ''//'' @ host, if ps = [] then [] else CHR ''/'' # join ''/'' ps)
      | _ \<Rightarrow> ([], u))"

definition URLJoin :: "string \<Rightarrow> string \<Rightarrow> string" where
  "URLJoin base p =
     (let (host, path) = url_split base;
          path' = (if p \<noteq> [] then path_join [path, p] else path)
      in host @ (if host \<noteq> [] \<and> path' \<noteq> [] \<and> \<not> has_prefix path' ''/'' then CHR ''/'' # path' else path'))"

definition ParseComponentVersion :: "string \<Rightarrow> string \<times> string" where
  "ParseComponentVersion input =
     (if CHR '':'' \<in> set input
      then (takeWhile (\<lambda>c. c \<noteq> CHR '':'') input, tl (dropWhile (\<lambda>c. c \<noteq> CHR '':'') input))
      else (input, []))"

section \<open>The manager\<close>

record Component =
  c_Name :: string
  c_Version :: string
  c_Commit :: string
  c_IsInstalled :: bool
  c_IsActive :: bool
  c_Release :: string
  c_Path :: string
  c_URL :: string

record ComponentManager =
  rootDir :: string
  installedFile :: string
  installed :: "Component list"
  avaliable :: "Component list"
  repodata :: "(string \<times> BinaryRepoData) list"
  mirror :: string

record comp_env =
  get_repo :: "string \<Rightarrow> BinaryRepoData res"
  fetch :: "string \<Rightarrow> string res"
  writable :: "string \<Rightarrow> bool"
  repo_dir :: string
  mirror_url :: string

record comp_disk =
  installed_json :: "Component list res option"
  disk_files :: "(string \<times> string) list"

text \<open>A component is known by its name and version.\<close>

definition is_comp :: "string \<Rightarrow> string \<Rightarrow> Component \<Rightarrow> bool" where
  "is_comp name version c \<longleftrightarrow> c_Name c = name \<and> c_Version c = version"

definition LoadInstalledComponents :: "comp_disk \<Rightarrow> ComponentManager \<Rightarrow> (ComponentManager \<times> Component list) res" where
  "LoadInstalledComponents d cm =
     (case installed_json d of
        None \<Rightarrow> Inr (cm, [])
      | Some (Inl e) \<Rightarrow> Inl (RawErr ''failed to read installed file'')
      | Some (Inr components) \<Rightarrow> Inr (cm\<lparr>installed := components\<rparr>, components))"

definition LoadAvailableComponentVersions :: "ComponentManager \<Rightarrow> string \<Rightarrow> Component list res" where
  "LoadAvailableComponentVersions cm name =
     (case map_of (repodata cm) name of
        None \<Rightarrow> Inl (RawErr ''component not found in repository'')
      | Some repo \<Rightarrow>
          Inr (map (\<lambda>(tagname, branch).
                  \<lparr>c_Name = name, c_Version = tagname, c_Commit = b_Commit branch, c_IsInstalled = False,
                   c_IsActive = False, c_Release = b_BuildTime branch, c_Path = [],
                   c_URL = URLJoin (mirror cm) (b_Path branch)\<rparr>) (r_Tags repo) @
               (case GetMain repo of
                  None \<Rightarrow> []
                | Some main \<Rightarrow>
                    [\<lparr>c_Name = name, c_Version = MAIN_VERSION, c_Commit = b_Commit main, c_IsInstalled = False,
                      c_IsActive = False, c_Release = b_BuildTime main, c_Path = [],
                      c_URL = URLJoin (mirror cm) (b_Path main)\<rparr>])))"

definition LoadAvailableComponents :: "ComponentManager \<Rightarrow> ComponentManager res" where
  "LoadAvailableComponents cm =
     bindR (mapR (LoadAvailableComponentVersions cm) ALL_COMPONENTS)
       (\<lambda>comps. Inr (cm\<lparr>avaliable := concat comps\<rparr>))"

definition NewBinaryRepoData :: "comp_env \<Rightarrow> string \<Rightarrow> string \<Rightarrow> BinaryRepoData res" where
  "NewBinaryRepoData env url name = get_repo env (URLJoin url (name @ ''.version''))"

definition NewComponentManager :: "comp_env \<Rightarrow> comp_disk \<Rightarrow> ComponentManager res" where
  "NewComponentManager env d =
     (if \<not> writable env (repo_dir env) then Inl GoPanic
      else bindR (mapR (\<lambda>name. bindR (NewBinaryRepoData env (mirror_url env) name) (\<lambda>repo. Inr (name, repo))) ALL_COMPONENTS)
        (\<lambda>repos. bindR (LoadInstalledComponents d
             \<lparr>rootDir = repo_dir env, installedFile = path_join [repo_dir env, INSTALLED_FILE], installed = [],
              avaliable = [], repodata = repos, mirror = mirror_url env\<rparr>)
        (\<lambda>(cm, _). LoadAvailableComponents cm)))"

definition SaveInstalledComponents :: "comp_env \<Rightarrow> comp_disk \<Rightarrow> ComponentManager \<Rightarrow> comp_disk \<times> unit res" where
  "SaveInstalledComponents env d cm =
     (if writable env (installedFile cm) then (d\<lparr>installed_json := Some (Inr (installed cm))\<rparr>, Inr ())
      else (d, Inl (RawErr ''write installed file'')))"

definition FindVersion :: "ComponentManager \<Rightarrow> string \<Rightarrow> string \<Rightarrow> (string \<times> BinaryDetail) res" where
  "FindVersion cm name version =
     (case map_of (repodata cm) name of
        None \<Rightarrow> Inl (RawErr ''component not found in repository'')
      | Some repo \<Rightarrow>
          if version = LASTEST_VERSION then
            (case GetLatest repo of None \<Rightarrow> Inl (RawErr ''No stable version available'') | Some r \<Rightarrow> Inr r)
          else if version = MAIN_VERSION then
            (case GetMain repo of None \<Rightarrow> Inl (RawErr ''main version not found'') | Some b \<Rightarrow> Inr (version, b))
          else
            (case repo_FindVersion repo version of
               None \<Rightarrow> Inl (RawErr ''version not found'') | Some b \<Rightarrow> Inr (version, b)))"

definition FindInstallComponent :: "ComponentManager \<Rightarrow> string \<Rightarrow> string \<Rightarrow> Component option" where
  "FindInstallComponent cm name version = find (is_comp name version) (installed cm)"

definition IsInstalled :: "ComponentManager \<Rightarrow> string \<Rightarrow> string \<Rightarrow> bool" where
  "IsInstalled cm name version \<longleftrightarrow> list_ex (is_comp name version) (installed cm)"

definition GetActiveComponent :: "ComponentManager \<Rightarrow> string \<Rightarrow> Component res" where
  "GetActiveComponent cm name =
     (case find (\<lambda>c. c_Name c = name \<and> c_IsActive c) (installed cm) of
        None \<Rightarrow> Inl (RawErr ''no active version'') | Some c \<Rightarrow> Inr c)"

definition ListComponents :: "ComponentManager \<Rightarrow> Component list" where
  "ListComponents cm =
     installed cm @ filter (\<lambda>c. \<not> IsInstalled cm (c_Name c) (c_Version c)) (avaliable cm)"

text \<open>\<open>SetDefaultVersion\<close>: the loop marks the version and clears the others of that name, also
  when it ends without having found the version.\<close>

definition mark_default :: "string \<Rightarrow> string \<Rightarrow> Component \<Rightarrow> Component" where
  "mark_default name version c =
     (if c_Name c = name then c\<lparr>c_IsActive := (c_Version c = version)\<rparr> else c)"

definition SetDefaultVersion :: "ComponentManager \<Rightarrow> string \<Rightarrow> string \<Rightarrow> ComponentManager \<times> unit res" where
  "SetDefaultVersion cm name version =
     (cm\<lparr>installed := map (mark_default name version) (installed cm)\<rparr>,
      if list_ex (is_comp name version) (installed cm) then Inr () else Inl (RawErr ''component not installed''))"

section \<open>Installing and removing\<close>

text \<open>\<open>DownloadFileWithProgress\<close> of \<open>internal/utils\<close>: the bytes go to a temporary file that is
  renamed at the end.  The status of the response is not looked at.\<close>

definition DownloadFileWithProgress :: "comp_env \<Rightarrow> comp_disk \<Rightarrow> string \<Rightarrow> string \<Rightarrow> string \<Rightarrow> comp_disk \<times> string res" where
  "DownloadFileWithProgress env d url destination filename =
     (let tmpFileName = (if filename = [] then last (split_on (CHR ''/'') url) else filename) @ ''.tmp'';
          filePath = path_join [destination, tmpFileName];
          target = path_join [destination, filename]
      in case fetch env url of
           Inl e \<Rightarrow> (d, Inl e)
         | Inr body \<Rightarrow>
             if \<not> writable env destination then (d, Inl (RawErr ''mkdir''))
             else if \<not> writable env filePath then (d, Inl (RawErr ''create''))
             else if \<not> writable env target
               then (d\<lparr>disk_files := AList.update filePath body (disk_files d)\<rparr>, Inl (RawErr ''rename''))
             else (d\<lparr>disk_files := AList.update target body (AList.delete filePath (disk_files d))\<rparr>, Inr filePath))"

definition os_Remove :: "string \<Rightarrow> comp_disk \<Rightarrow> comp_disk" where
  "os_Remove f d = d\<lparr>disk_files := AList.delete f (disk_files d)\<rparr>"

fun replace_first :: "('a \<Rightarrow> bool) \<Rightarrow> 'a \<Rightarrow> 'a list \<Rightarrow> 'a list" where
  "replace_first p y [] = []"
| "replace_first p y (x # xs) = (if p x then y # xs else x # replace_first p y xs)"

definition new_component :: "ComponentManager \<Rightarrow> string \<Rightarrow> string \<Rightarrow> BinaryDetail \<Rightarrow> Component" where
  "new_component cm name foundVersion b =
     \<lparr>c_Name = name, c_Version = foundVersion, c_Commit = b_Commit b, c_IsInstalled = True, c_IsActive = False,
      c_Release = b_BuildTime b, c_Path = path_join [rootDir cm, name, foundVersion],
      c_URL = URLJoin (mirror cm) (b_Path b)\<rparr>"

definition installOrUpdateComponent ::
  "comp_env \<Rightarrow> comp_disk \<Rightarrow> ComponentManager \<Rightarrow> string \<Rightarrow> string \<Rightarrow> bool \<Rightarrow> comp_disk \<times> ComponentManager \<times> Component res" where
  "installOrUpdateComponent env d cm name version isUpdate =
     (case FindVersion cm name version of
        Inl e \<Rightarrow> (d, cm, Inl e)
      | Inr (foundVersion, b) \<Rightarrow>
          (let existing = FindInstallComponent cm name foundVersion;
               new = new_component cm name foundVersion b
           in if \<not> isUpdate \<and> existing \<noteq> None then (d, cm, Inl (RawErr ''already installed''))
              else if isUpdate \<and> existing \<noteq> None \<and> version = LASTEST_VERSION then (d, cm, Inl ErrAlreadyExist)
              else if isUpdate \<and> existing \<noteq> None \<and> \<not> c_Release (the existing) < b_BuildTime b
                then (d, cm, Inl ErrAlreadyLatest)
              else
                (case DownloadFileWithProgress env d (c_URL new) (c_Path new) (c_Name new) of
                   (d1, Inl e) \<Rightarrow> (d1, cm, Inl (RawErr ''failed to download''))
                 | (d1, Inr _) \<Rightarrow>
                     (let cm1 = cm\<lparr>installed :=
                            (if isUpdate \<and> existing \<noteq> None
                             then replace_first (is_comp name foundVersion) new (installed cm)
                             else installed cm @ [new])\<rparr>
                      in case SetDefaultVersion cm1 name foundVersion of
                           (cm2, Inl e) \<Rightarrow> (d1, cm2, Inl e)
                         | (cm2, Inr _) \<Rightarrow>
                             (case SaveInstalledComponents env d1 cm2 of
                                (d2, Inl e) \<Rightarrow> (d2, cm2, Inl e)
                              | (d2, Inr _) \<Rightarrow> (d2, cm2, Inr new))))))"

definition InstallComponent ::
  "comp_env \<Rightarrow> comp_disk \<Rightarrow> ComponentManager \<Rightarrow> string \<Rightarrow> string \<Rightarrow> comp_disk \<times> ComponentManager \<times> Component res" where
  "InstallComponent env d cm name version = installOrUpdateComponent env d cm name version False"

definition UpdateComponent ::
  "comp_env \<Rightarrow> comp_disk \<Rightarrow> ComponentManager \<Rightarrow> string \<Rightarrow> string \<Rightarrow> comp_disk \<times> ComponentManager \<times> Component res" where
  "UpdateComponent env d cm name version = installOrUpdateComponent env d cm name version True"

text \<open>The loop of \<open>RemoveComponent\<close>: the components kept so far and the disk, or the error it
  stops at.  Files removed before an error stay removed.\<close>

fun remove_loop ::
  "string \<Rightarrow> string \<Rightarrow> bool \<Rightarrow> Component list \<Rightarrow> Component list \<Rightarrow> comp_disk \<Rightarrow> comp_disk \<times> Component list res" where
  "remove_loop name version force kept [] d = (d, Inr kept)"
| "remove_loop name version force kept (c # comps) d =
     (if is_comp name version c \<and> c_IsActive c \<and> \<not> force
        then (d, Inl (RawErr ''cannot remove active component''))
      else if \<not> is_comp name version c then remove_loop name version force (kept @ [c]) comps d
      else remove_loop name version force kept comps (os_Remove (path_join [c_Path c, name]) d))"

definition RemoveComponent ::
  "comp_env \<Rightarrow> comp_disk \<Rightarrow> ComponentManager \<Rightarrow> string \<Rightarrow> string \<Rightarrow> bool \<Rightarrow> bool \<Rightarrow> comp_disk \<times> ComponentManager \<times> unit res" where
  "RemoveComponent env d cm name version force saveToFile =
     (case remove_loop name version force [] (installed cm) d of
        (d1, Inl e) \<Rightarrow> (d1, cm, Inl e)
      | (d1, Inr kept) \<Rightarrow>
          if length kept = length (installed cm) then (d1, cm, Inl (RawErr ''component not installed''))
          else (let cm1 = cm\<lparr>installed := kept\<rparr>
                in if saveToFile then (case SaveInstalledComponents env d1 cm1 of (d2, r) \<Rightarrow> (d2, cm1, r))
                   else (d1, cm1, Inr ())))"

definition RemoveComponents ::
  "comp_env \<Rightarrow> comp_disk \<Rightarrow> ComponentManager \<Rightarrow> string \<Rightarrow> bool \<Rightarrow> comp_disk \<times> ComponentManager \<times> Component list res" where
  "RemoveComponents env d cm name saveToFile =
     (let removed = filter (\<lambda>c. c_Name c = name) (installed cm);
          kept = filter (\<lambda>c. \<not> c_Name c = name) (installed cm)
      in if removed = [] then (d, cm, Inl (RawErr ''component not installed''))
         else (let d1 = fold (\<lambda>c. os_Remove (path_join [c_Path c, c_Name c])) removed d;
                   cm1 = cm\<lparr>installed := kept\<rparr>
               in if saveToFile
                  then (case SaveInstalledComponents env d1 cm1 of
                          (d2, Inl e) \<Rightarrow> (d2, cm1, Inl e) | (d2, Inr _) \<Rightarrow> (d2, cm1, Inr removed))
                  else (d1, cm1, Inr removed)))"

section \<open>The commands\<close>

definition or_latest :: "string \<Rightarrow> string" where
  "or_latest version = Choose (version = []) LASTEST_VERSION version"

fun install_loop ::
  "comp_env \<Rightarrow> comp_disk \<Rightarrow> ComponentManager \<Rightarrow> string list \<Rightarrow> comp_disk \<times> ComponentManager \<times> string list res" where
  "install_loop env d cm [] = (d, cm, Inr [])"
| "install_loop env d cm (arg # args) =
     (let (name, version) = ParseComponentVersion arg
      in case InstallComponent env d cm name (or_latest version) of
           (d1, cm1, Inl e) \<Rightarrow> (d1, cm1, Inl e)
         | (d1, cm1, Inr c) \<Rightarrow>
             (case install_loop env d1 cm1 args of
                (d2, cm2, r) \<Rightarrow> (d2, cm2, bindR r (\<lambda>ns. Inr ((c_Name c @ '':'' @ c_Version c) # ns)))))"

definition runInstall :: "comp_env \<Rightarrow> comp_disk \<Rightarrow> string list \<Rightarrow> comp_disk \<times> string list res" where
  "runInstall env d components =
     (case NewComponentManager env d of
        Inl e \<Rightarrow> (d, Inl e)
      | Inr cm \<Rightarrow> (case install_loop env d cm components of (d1, _, r) \<Rightarrow> (d1, r)))"

definition runUninstall :: "comp_env \<Rightarrow> comp_disk \<Rightarrow> string \<Rightarrow> bool \<Rightarrow> bool \<Rightarrow> comp_disk \<times> unit res" where
  "runUninstall env d component everything force =
     (case NewComponentManager env d of
        Inl e \<Rightarrow> (d, Inl e)
      | Inr cm \<Rightarrow>
          (let (name, version) = ParseComponentVersion component
           in if everything then
                (if version \<noteq> [] then (d, Inl (RawErr ''cannot specify version when --all is set''))
                 else (case RemoveComponents env d cm name True of
                         (d1, _, Inl e) \<Rightarrow> (d1, Inl e)
                       | (d1, _, Inr removed) \<Rightarrow>
                           (fold (\<lambda>c. os_Remove (path_join [c_Path c, c_Name c])) removed d1, Inr ())))
              else if version = [] then (d, Inl (RawErr ''Must be specify version to uninstall''))
              else (case RemoveComponent env d cm name version force True of (d1, _, r) \<Rightarrow> (d1, r))))"

text \<open>\<open>updateFunc\<close> of \<open>runUpdate\<close>: the two errors that say nothing had to be done are errors of
  the command too.\<close>

definition updateFunc ::
  "comp_env \<Rightarrow> comp_disk \<Rightarrow> ComponentManager \<Rightarrow> string \<Rightarrow> string \<Rightarrow> comp_disk \<times> ComponentManager \<times> unit res" where
  "updateFunc env d cm name version =
     (case UpdateComponent env d cm name version of
        (d1, cm1, Inr c) \<Rightarrow> (d1, cm1, Inr ())
      | (d1, cm1, Inl e) \<Rightarrow>
          (d1, cm1, Inl (if e = ErrAlreadyLatest then e
                         else if e = ErrAlreadyExist then RawErr ''already installed''
                         else RawErr ''update component failed'')))"

fun update_loop ::
  "comp_env \<Rightarrow> comp_disk \<Rightarrow> ComponentManager \<Rightarrow> (string \<times> string) list \<Rightarrow> comp_disk \<times> ComponentManager \<times> unit res" where
  "update_loop env d cm [] = (d, cm, Inr ())"
| "update_loop env d cm ((name, version) # rest) =
     (case updateFunc env d cm name version of
        (d1, cm1, Inl e) \<Rightarrow> (d1, cm1, Inl e)
      | (d1, cm1, Inr _) \<Rightarrow> update_loop env d1 cm1 rest)"

definition runUpdate :: "comp_env \<Rightarrow> comp_disk \<Rightarrow> string list \<Rightarrow> bool \<Rightarrow> comp_disk \<times> unit res" where
  "runUpdate env d components everything =
     (case NewComponentManager env d of
        Inl e \<Rightarrow> (d, Inl e)
      | Inr cm0 \<Rightarrow>
          if everything then
            (case LoadInstalledComponents d cm0 of
               Inl e \<Rightarrow> (d, Inl e)
             | Inr (cm, comps) \<Rightarrow>
                 if comps = [] then (d, Inl (RawErr ''no component installed''))
                 else (case update_loop env d cm (map (\<lambda>c. (c_Name c, c_Version c)) comps) of (d1, _, r) \<Rightarrow> (d1, r)))
          else
            (case update_loop env d cm0
                    (map (\<lambda>info. case ParseComponentVersion info of (name, version) \<Rightarrow> (name, or_latest version)) components) of
               (d1, _, r) \<Rightarrow> (d1, r)))"

definition runUse :: "comp_env \<Rightarrow> comp_disk \<Rightarrow> string \<Rightarrow> comp_disk \<times> unit res" where
  "runUse env d component =
     (case NewComponentManager env d of
        Inl e \<Rightarrow> (d, Inl e)
      | Inr cm \<Rightarrow>
          (let (name, version) = ParseComponentVersion component
           in case SetDefaultVersion cm name (or_latest version) of
                (cm1, Inl e) \<Rightarrow> (d, Inl e)
              | (cm1, Inr _) \<Rightarrow> SaveInstalledComponents env d cm1))"

text \<open>The table of \<open>dingo component list\<close>, one list of cells per line.\<close>

definition FormatOutput :: "Component list \<Rightarrow> bool \<Rightarrow> bool \<Rightarrow> string list list" where
  "FormatOutput components verbose only_installed =
     (if verbose
      then [[''Name'', ''Version'', ''Installed'', ''Release'', ''Commit'', ''Active'', ''Path''],
            [''----'', ''-------'', ''---------'', ''-------'', ''------'', ''------'', ''----'']]
      else [[''Name'', ''Version'', ''Installed'', ''Commit'', ''Active''],
            [''----'', ''-------'', ''---------'', ''------'', ''------'']]) @
     map (\<lambda>c. let installText = Choose (c_IsInstalled c) ''Yes'' [];
                  activeText = Choose (c_IsInstalled c \<and> c_IsActive c) ''Yes'' []
              in if verbose
                 then [c_Name c, c_Version c, installText, c_Release c, c_Commit c, activeText, c_Path c]
                 else [c_Name c, c_Version c, installText, c_Commit c, activeText])
       (filter (\<lambda>c. \<not> (only_installed \<and> \<not> c_IsInstalled c)) components)"

definition runList :: "comp_env \<Rightarrow> comp_disk \<Rightarrow> bool \<Rightarrow> bool \<Rightarrow> string list list res" where
  "runList env d verbose only_installed =
     bindR (NewComponentManager env d)
       (\<lambda>cm. let components = ListComponents cm
             in if components = [] then Inr [[''No available components.'']]
                else Inr (FormatOutput components verbose only_installed))"

text \<open>The binary that \<open>dingo mds start\<close>, \<open>dingo fs mount\<close>, \<open>dingo cache start\<close> and \<open>dingo mds meta\<close>
  run: the active version, or else the latest one, installed on the way.\<close>

definition active_or_install :: "comp_env \<Rightarrow> comp_disk \<Rightarrow> string \<Rightarrow> comp_disk \<times> string res" where
  "active_or_install env d name =
     (case NewComponentManager env d of
        Inl e \<Rightarrow> (d, Inl e)
      | Inr cm \<Rightarrow>
          (case GetActiveComponent cm name of
             Inr c \<Rightarrow> (d, Inr (path_join [c_Path c, c_Name c]))
           | Inl _ \<Rightarrow>
               (case InstallComponent env d cm name LASTEST_VERSION of
                  (d1, _, Inl e) \<Rightarrow> (d1, Inl (RawErr ''failed to install binary''))
                | (d1, _, Inr c) \<Rightarrow> (d1, Inr (path_join [c_Path c, c_Name c])))))"

end
