(* ===== verification/Components_Spec.thy ===== *)
theory Components_Spec
  imports Components
begin

text \<open>
  The component manager is correct: the list of installed components keeps its invariant
  (\<open>comps_ok\<close>) over every sequence of commands, an installation makes the version it found the
  active one, and the latest version is the greatest tag.  The lemmas at the end state what the
  commands do in the cases where they surprise: versions that are compared as strings, \<open>use\<close>
  without a version, \<open>update --all\<close>, a binary with no active version.
\<close>

section \<open>The latest tag\<close>

lemma latest_fold:
  "fold (\<lambda>v l. if l < v then v else l) vs (a :: string) = Max (insert a (set vs))"
proof (induction vs arbitrary: a)
  case (Cons v vs)
  have "(if a < v then v else a) = max a v" by (simp add: max_def less_imp_le)
  moreover have "Max (insert (max a v) (set vs)) = Max (insert a (insert v (set vs)))"
    by (cases "set vs = {}") (simp_all add: ac_simps)
  ultimately show ?case using Cons.IH [of "max a v"] by simp
qed simp

lemma latest_tag_Max: "latest_tag vs = Max (insert ''v0.0.0'' (set vs))"
  by (simp add: latest_tag_def latest_fold)

lemma latest_below: "LASTEST_VERSION < ''v0.0.0''"
  by code_simp

lemma latest_tag_not_latest: "latest_tag vs \<noteq> LASTEST_VERSION"
proof -
  have "''v0.0.0'' \<le> latest_tag vs" by (simp add: latest_tag_Max)
  then show ?thesis using latest_below by auto
qed

lemma FindVersion_not_latest: "FindVersion cm name version = Inr (fv, b) \<Longrightarrow> fv \<noteq> LASTEST_VERSION"
  using latest_tag_not_latest
  by (auto simp: FindVersion_def GetLatest_def Let_def split: option.splits if_splits)

section \<open>The invariant of the list of installed components\<close>

definition comp_key :: "Component \<Rightarrow> string \<times> string" where
  "comp_key c = (c_Name c, c_Version c)"

definition comps_ok :: "Component list \<Rightarrow> bool" where
  "comps_ok l \<longleftrightarrow>
     distinct (map comp_key l) \<and> distinct (map c_Name (filter c_IsActive l)) \<and>
     list_all (\<lambda>c. c_IsInstalled c \<and> c_Version c \<noteq> LASTEST_VERSION) l"

fun installed_of :: "comp_disk \<Rightarrow> Component list" where
  "installed_of d = (case installed_json d of Some (Inr l) \<Rightarrow> l | _ \<Rightarrow> [])"

lemma is_comp_key: "is_comp n v c \<longleftrightarrow> comp_key c = (n, v)"
  by (auto simp: is_comp_def comp_key_def)

lemma comp_key_mark [simp]: "comp_key (mark_default n v c) = comp_key c"
  by (simp add: comp_key_def mark_default_def)

lemma installed_mark [simp]: "c_IsInstalled (mark_default n v c) = c_IsInstalled c"
  by (simp add: mark_default_def)

lemma version_mark [simp]: "c_Version (mark_default n v c) = c_Version c" "c_Name (mark_default n v c) = c_Name c"
  by (simp_all add: mark_default_def)

lemma active_mark: "c_IsActive (mark_default n v c) = (if c_Name c = n then c_Version c = v else c_IsActive c)"
  by (simp add: mark_default_def)

lemma distinct_active_marked:
  "distinct (map comp_key l) \<Longrightarrow> distinct (map c_Name (filter c_IsActive l)) \<Longrightarrow>
   distinct (map c_Name (filter c_IsActive (map (mark_default n v) l)))"
proof (induction l)
  case (Cons c l)
  then have IH: "distinct (map c_Name (filter c_IsActive (map (mark_default n v) l)))"
    by (auto split: if_splits)
  have "c_Name c' \<noteq> c_Name c"
    if "c_IsActive (mark_default n v c)" "c' \<in> set l" "c_IsActive (mark_default n v c')" for c'
  proof
    assume same: "c_Name c' = c_Name c"
    have "comp_key c' \<noteq> comp_key c" using Cons.prems(1) imageI [OF that(2), of comp_key] by auto
    then have "c_Version c' \<noteq> c_Version c" using same by (simp add: comp_key_def)
    moreover have "\<not> (c_IsActive c \<and> c_IsActive c')"
      using Cons.prems(2) imageI [of c' "{x \<in> set l. c_IsActive x}" c_Name] that(2) same by auto
    ultimately show False using that(1,3) same by (auto simp: active_mark split: if_splits)
  qed
  then have "c_IsActive (mark_default n v c) \<Longrightarrow>
      c_Name (mark_default n v c) \<notin> set (map c_Name (filter c_IsActive (map (mark_default n v) l)))"
    by (auto simp del: version_mark(1)) metis
  with IH show ?case by simp
qed simp

lemma comps_ok_mark:
  assumes "distinct (map comp_key l)" "distinct (map c_Name (filter c_IsActive l))"
    "list_all (\<lambda>c. c_IsInstalled c \<and> c_Version c \<noteq> LASTEST_VERSION) l"
  shows "comps_ok (map (mark_default n v) l)"
  using assms distinct_active_marked [OF assms(1,2)]
  by (simp add: comps_ok_def comp_def list_all_iff)

lemma comps_ok_filter: "comps_ok l \<Longrightarrow> comps_ok (filter p l)"
  by (auto simp: comps_ok_def list_all_iff distinct_map inj_on_def)

lemma comps_ok_Nil [simp]: "comps_ok []"
  by (simp add: comps_ok_def)

lemma replace_first_keys:
  "(\<And>x. p x \<Longrightarrow> f y = f x) \<Longrightarrow> map f (replace_first p y l) = map f l"
  by (induction l) auto

lemma replace_first_set: "set (replace_first p y l) \<subseteq> insert y (set l)"
  by (induction l) auto

lemma replace_first_active:
  "\<not> a y \<Longrightarrow> distinct (map f (filter a l)) \<Longrightarrow> distinct (map f (filter a (replace_first p y l)))"
proof (induction l)
  case (Cons x l)
  have sub: "set (filter a (replace_first p y l)) \<subseteq> set (filter a l)"
    using replace_first_set [of p y l] Cons.prems(1) by auto
  show ?case using Cons sub by (auto split: if_splits)
qed simp

section \<open>The operations keep the invariant\<close>

definition comp_state_ok :: "comp_disk \<Rightarrow> ComponentManager \<Rightarrow> bool" where
  "comp_state_ok d cm \<longleftrightarrow> comps_ok (installed_of d) \<and> comps_ok (installed cm)"

declare installed_of.simps [simp del]

lemma installed_of_files [simp]: "installed_of (d\<lparr>disk_files := f\<rparr>) = installed_of d"
  by (simp add: installed_of.simps)

lemma installed_of_remove [simp]: "installed_of (os_Remove f d) = installed_of d"
  by (simp add: os_Remove_def)

lemma installed_of_removes [simp]: "installed_of (fold (\<lambda>c. os_Remove (g c)) cs d) = installed_of d"
  by (induction cs arbitrary: d) simp_all

lemma installed_of_save [simp]: "installed_of (d\<lparr>installed_json := Some (Inr l)\<rparr>) = l"
  by (simp add: installed_of.simps)

lemma Download_installed: "DownloadFileWithProgress env d url dest f = (d', r) \<Longrightarrow> installed_of d' = installed_of d"
  by (auto simp: DownloadFileWithProgress_def Let_def split: sum.splits if_splits)

lemma Save_ok:
  "SaveInstalledComponents env d cm = (d', r) \<Longrightarrow> comp_state_ok d cm \<Longrightarrow> comp_state_ok d' cm"
  by (auto simp: SaveInstalledComponents_def comp_state_ok_def split: if_splits)

lemma new_component_sel [simp]:
  "comp_key (new_component cm name fv b) = (name, fv)" "c_IsInstalled (new_component cm name fv b)"
  "\<not> c_IsActive (new_component cm name fv b)" "c_Version (new_component cm name fv b) = fv"
  "c_Name (new_component cm name fv b) = name"
  "c_Path (new_component cm name fv b) = path_join [rootDir cm, name, fv]"
  "c_URL (new_component cm name fv b) = URLJoin (mirror cm) (b_Path b)"
  by (simp_all add: new_component_def comp_key_def)

definition with_new :: "ComponentManager \<Rightarrow> string \<Rightarrow> string \<Rightarrow> BinaryDetail \<Rightarrow> Component list" where
  "with_new cm name fv b =
     (if FindInstallComponent cm name fv \<noteq> None
      then replace_first (is_comp name fv) (new_component cm name fv b) (installed cm)
      else installed cm @ [new_component cm name fv b])"

lemma find_SomeD: "find p xs = Some x \<Longrightarrow> x \<in> set xs \<and> p x"
  by (induction xs) (auto split: if_splits)

lemma with_new_keys:
  "FindInstallComponent cm name fv \<noteq> None \<Longrightarrow> map comp_key (with_new cm name fv b) = map comp_key (installed cm)"
  using replace_first_keys [of "is_comp name fv" comp_key "new_component cm name fv b" "installed cm"]
  by (simp add: with_new_def is_comp_key)

lemma with_new_found: "list_ex (is_comp name fv) (with_new cm name fv b)"
proof (cases "FindInstallComponent cm name fv = None")
  case False
  then obtain c where c: "c \<in> set (installed cm)" "comp_key c = (name, fv)"
    by (auto simp: FindInstallComponent_def is_comp_key dest: find_SomeD)
  then have "(name, fv) \<in> comp_key ` set (with_new cm name fv b)"
    using with_new_keys [OF False, of b] by (metis imageI list.set_map)
  then show ?thesis by (auto simp: list_ex_iff is_comp_key)
qed (simp add: with_new_def is_comp_key)

lemma comps_ok_with_new:
  assumes "comps_ok (installed cm)" "fv \<noteq> LASTEST_VERSION"
  shows "comps_ok (map (mark_default name fv) (with_new cm name fv b))"
proof (rule comps_ok_mark)
  let ?new = "new_component cm name fv b"
  show "distinct (map comp_key (with_new cm name fv b))"
  proof (cases "FindInstallComponent cm name fv = None")
    case True
    then have "(name, fv) \<notin> comp_key ` set (installed cm)"
      by (auto simp: FindInstallComponent_def find_None_iff is_comp_key)
    then show ?thesis using assms(1) True by (simp add: with_new_def comps_ok_def)
  next
    case False
    then show ?thesis using assms(1) with_new_keys [OF False, of b] by (simp add: comps_ok_def)
  qed
  show "distinct (map c_Name (filter c_IsActive (with_new cm name fv b)))"
    using assms(1) by (simp add: with_new_def comps_ok_def replace_first_active)
  have "set (with_new cm name fv b) \<subseteq> insert ?new (set (installed cm))"
    using replace_first_set [of "is_comp name fv" ?new "installed cm"] by (auto simp: with_new_def)
  then show "list_all (\<lambda>c. c_IsInstalled c \<and> c_Version c \<noteq> LASTEST_VERSION) (with_new cm name fv b)"
    using assms by (auto simp: comps_ok_def list_all_iff)
qed

text \<open>What \<open>installOrUpdateComponent\<close> does: it fails and leaves the list alone, it cannot write
  the list, or the component is in the list and is the default of its name.\<close>

lemma installOrUpdate_cases:
  assumes "installOrUpdateComponent env d cm name version upd = (d', cm', r)"
  obtains (kept) e where "r = Inl e" "cm' = cm" "installed_of d' = installed_of d"
  | (changed) fv b d1 f where "FindVersion cm name version = Inr (fv, b)"
      "upd \<or> FindInstallComponent cm name fv = None"
      "DownloadFileWithProgress env d (URLJoin (mirror cm) (b_Path b)) (path_join [rootDir cm, name, fv]) name = (d1, Inr f)"
      "cm' = cm\<lparr>installed := map (mark_default name fv) (with_new cm name fv b)\<rparr>"
      "SaveInstalledComponents env d1 cm' = (d', if \<exists>e. r = Inl e then Inl (projl r) else Inr ())"
      "r = Inr (new_component cm name fv b) \<or> (\<exists>e. r = Inl e)"
proof -
  consider (find) e where "FindVersion cm name version = Inl e"
    | (found) fv b where "FindVersion cm name version = Inr (fv, b)"
    by (metis prod.exhaust_sel sum.exhaust_sel)
  then show ?thesis
  proof cases
    case find
    then show ?thesis using assms by (auto simp: installOrUpdateComponent_def intro: kept)
  next
    case (found fv b)
    let ?ex = "FindInstallComponent cm name fv" and ?new = "new_component cm name fv b"
    let ?dl = "DownloadFileWithProgress env d (URLJoin (mirror cm) (b_Path b)) (path_join [rootDir cm, name, fv]) name"
    obtain d1 r1 where dl: "?dl = (d1, r1)" by fastforce
    show ?thesis
    proof (cases "?ex \<noteq> None \<and> (\<not> upd \<or> version = LASTEST_VERSION \<or> \<not> c_Release (the ?ex) < b_BuildTime b)")
      case True
      define e where "e = (if \<not> upd then RawErr ''already installed''
          else if version = LASTEST_VERSION then ErrAlreadyExist else ErrAlreadyLatest)"
      have "installOrUpdateComponent env d cm name version upd = (d, cm, Inl e)"
        using True found by (auto simp: installOrUpdateComponent_def Let_def e_def)
      then show ?thesis using assms kept by simp
    next
      case go: False
      show ?thesis
      proof (cases r1)
        case (Inl e)
        then show ?thesis
          using assms found dl go kept Download_installed [OF dl]
          by (auto simp: installOrUpdateComponent_def Let_def)
      next
        case (Inr f)
        let ?cm = "cm\<lparr>installed := map (mark_default name fv) (with_new cm name fv b)\<rparr>"
        obtain d2 r2 where sv: "SaveInstalledComponents env d1 ?cm = (d2, r2)" by fastforce
        have set: "SetDefaultVersion (cm\<lparr>installed := with_new cm name fv b\<rparr>) name fv = (?cm, Inr ())"
          using with_new_found by (simp add: SetDefaultVersion_def)
        have inst: "(if upd \<and> ?ex \<noteq> None then replace_first (is_comp name fv) ?new (installed cm) else installed cm @ [?new])
            = with_new cm name fv b"
          using go by (auto simp: with_new_def)
        have "(d', cm', r) = (case r2 of Inl e \<Rightarrow> (d2, ?cm, Inl e) | Inr u \<Rightarrow> (d2, ?cm, Inr ?new))"
          using assms found dl Inr go set inst sv by (auto simp: installOrUpdateComponent_def Let_def split: sum.splits)
        then show ?thesis
          using go found dl Inr sv by (intro changed [of fv b d1 f]) (auto split: sum.splits)
      qed
    qed
  qed
qed

lemma installOrUpdate_ok:
  assumes "installOrUpdateComponent env d cm name version upd = (d', cm', r)" "comp_state_ok d cm"
  shows "comp_state_ok d' cm'"
  using assms(1)
proof (cases rule: installOrUpdate_cases)
  case (changed fv b d1 f)
  have "comps_ok (installed cm')"
    using changed(4) comps_ok_with_new [OF _ FindVersion_not_latest [OF changed(1)]] assms(2)
    by (simp add: comp_state_ok_def)
  then have "comp_state_ok d1 cm'"
    using assms(2) Download_installed [OF changed(3)] by (simp add: comp_state_ok_def)
  then show ?thesis using Save_ok [OF changed(5)] by simp
qed (use assms(2) in \<open>simp add: comp_state_ok_def\<close>)

lemma remove_loop_kept:
  "remove_loop name version force kept cs d = (d', r) \<Longrightarrow>
   installed_of d' = installed_of d \<and>
   (case r of Inl e \<Rightarrow> True | Inr kept' \<Rightarrow> kept' = kept @ filter (\<lambda>c. \<not> is_comp name version c) cs)"
  by (induction name version force kept cs d rule: remove_loop.induct) (auto split: if_splits sum.splits)

lemma RemoveComponent_ok:
  assumes "RemoveComponent env d cm name version force save = (d', cm', r)" "comp_state_ok d cm"
  shows "comp_state_ok d' cm'"
proof -
  obtain d1 r1 where l: "remove_loop name version force [] (installed cm) d = (d1, r1)" by fastforce
  let ?cm = "cm\<lparr>installed := filter (\<lambda>c. \<not> is_comp name version c) (installed cm)\<rparr>"
  have d1: "comp_state_ok d1 cm" using assms(2) remove_loop_kept [OF l] by (simp add: comp_state_ok_def)
  then have ok: "comp_state_ok d1 ?cm" using comps_ok_filter by (simp add: comp_state_ok_def)
  show ?thesis
  proof (cases r1)
    case (Inl e)
    then show ?thesis using assms(1) l d1 by (simp add: RemoveComponent_def)
  next
    case (Inr kept)
    then have kept: "kept = filter (\<lambda>c. \<not> is_comp name version c) (installed cm)"
      using remove_loop_kept [OF l] by simp
    obtain d2 r2 where sv: "SaveInstalledComponents env d1 ?cm = (d2, r2)" by fastforce
    have "comp_state_ok d2 ?cm" using Save_ok [OF sv ok] .
    then show ?thesis
      using assms(1) l Inr kept d1 ok sv by (auto simp: RemoveComponent_def Let_def split: if_splits)
  qed
qed

lemma RemoveComponents_ok:
  assumes "RemoveComponents env d cm name save = (d', cm', r)" "comp_state_ok d cm"
  shows "comp_state_ok d' cm'"
proof -
  let ?d = "fold (\<lambda>c. os_Remove (path_join [c_Path c, c_Name c])) (filter (\<lambda>c. c_Name c = name) (installed cm)) d"
  let ?cm = "cm\<lparr>installed := filter (\<lambda>c. \<not> c_Name c = name) (installed cm)\<rparr>"
  have ok: "comp_state_ok ?d ?cm" using assms(2) comps_ok_filter by (simp add: comp_state_ok_def)
  obtain d2 r2 where sv: "SaveInstalledComponents env ?d ?cm = (d2, r2)" by fastforce
  have "comp_state_ok d2 ?cm" using Save_ok [OF sv ok] .
  then show ?thesis
    using assms ok sv by (auto simp: RemoveComponents_def Let_def split: if_splits sum.splits)
qed

lemma LoadInstalled_installed:
  "LoadInstalledComponents d cm = Inr (cm', cs) \<Longrightarrow> installed cm = [] \<Longrightarrow> installed cm' = installed_of d \<and> cs = installed_of d"
  by (auto simp: LoadInstalledComponents_def installed_of.simps split: option.splits sum.splits)

lemma LoadAvailable_installed: "LoadAvailableComponents cm = Inr cm' \<Longrightarrow> installed cm' = installed cm"
  by (auto simp: LoadAvailableComponents_def res_simps)

lemma NewComponentManager_installed: "NewComponentManager env d = Inr cm \<Longrightarrow> installed cm = installed_of d"
  by (auto simp: NewComponentManager_def bindR_eq_Inr split: if_splits prod.splits
      dest!: LoadAvailable_installed LoadInstalled_installed)

lemma NewComponentManager_ok: "NewComponentManager env d = Inr cm \<Longrightarrow> comps_ok (installed_of d) \<Longrightarrow> comp_state_ok d cm"
  by (simp add: comp_state_ok_def NewComponentManager_installed)

lemma install_loop_ok:
  "install_loop env d cm args = (d', cm', r) \<Longrightarrow> comp_state_ok d cm \<Longrightarrow> comp_state_ok d' cm'"
proof (induction args arbitrary: d cm d' cm' r)
  case (Cons arg args)
  obtain name version where p: "ParseComponentVersion arg = (name, version)" by fastforce
  obtain d1 cm1 r1 where i: "InstallComponent env d cm name (or_latest version) = (d1, cm1, r1)"
    by (metis prod.exhaust_sel)
  have ok: "comp_state_ok d1 cm1"
    using installOrUpdate_ok Cons.prems(2) i by (simp add: InstallComponent_def)
  obtain d2 cm2 r2 where l: "install_loop env d1 cm1 args = (d2, cm2, r2)" by (metis prod.exhaust_sel)
  show ?case using Cons.prems(1) p i l ok Cons.IH [OF l ok] by (auto split: sum.splits)
qed simp

lemma update_loop_ok:
  "update_loop env d cm cs = (d', cm', r) \<Longrightarrow> comp_state_ok d cm \<Longrightarrow> comp_state_ok d' cm'"
proof (induction cs arbitrary: d cm d' cm' r)
  case (Cons c cs)
  obtain name version where c: "c = (name, version)" by fastforce
  obtain d1 cm1 r1 where u: "UpdateComponent env d cm name version = (d1, cm1, r1)"
    by (metis prod.exhaust_sel)
  have ok: "comp_state_ok d1 cm1"
    using installOrUpdate_ok Cons.prems(2) u by (simp add: UpdateComponent_def)
  then show ?case using Cons.prems(1) Cons.IH [OF _ ok] c u by (cases r1) (auto simp: updateFunc_def)
qed simp

lemma comps_ok_marked: "comps_ok l \<Longrightarrow> comps_ok (map (mark_default n v) l)"
  using comps_ok_mark by (simp add: comps_ok_def)

lemma SetDefault_ok: "comp_state_ok d cm \<Longrightarrow> SetDefaultVersion cm n v = (cm', r) \<Longrightarrow> comp_state_ok d cm'"
  by (auto simp: SetDefaultVersion_def comp_state_ok_def comps_ok_marked)

section \<open>The commands keep the invariant\<close>

text \<open>The disks that commands can leave behind, from one with no \<open>installed.json\<close>.  Every command
  may meet another network and another disk.\<close>

inductive comp_reach :: "comp_disk \<Rightarrow> bool" where
  comp_start: "installed_json d = None \<Longrightarrow> comp_reach d"
| comp_install: "comp_reach d \<Longrightarrow> runInstall env d args = (d', r) \<Longrightarrow> comp_reach d'"
| comp_uninstall: "comp_reach d \<Longrightarrow> runUninstall env d arg everything force = (d', u) \<Longrightarrow> comp_reach d'"
| comp_update: "comp_reach d \<Longrightarrow> runUpdate env d args everything = (d', u) \<Longrightarrow> comp_reach d'"
| comp_use: "comp_reach d \<Longrightarrow> runUse env d arg = (d', u) \<Longrightarrow> comp_reach d'"
| comp_run_binary: "comp_reach d \<Longrightarrow> active_or_install env d name = (d', s) \<Longrightarrow> comp_reach d'"

lemma runInstall_ok: "runInstall env d args = (d', r) \<Longrightarrow> comps_ok (installed_of d) \<Longrightarrow> comps_ok (installed_of d')"
  by (auto simp: runInstall_def split: sum.splits prod.splits
      dest!: install_loop_ok NewComponentManager_ok) (simp_all add: comp_state_ok_def)

lemma runUninstall_ok:
  "runUninstall env d arg everything force = (d', r) \<Longrightarrow> comps_ok (installed_of d) \<Longrightarrow> comps_ok (installed_of d')"
  by (auto simp: runUninstall_def split: sum.splits prod.splits if_splits
      dest!: RemoveComponents_ok RemoveComponent_ok NewComponentManager_ok) (simp_all add: comp_state_ok_def)

lemma runUpdate_ok:
  assumes "runUpdate env d args everything = (d', r)" "comps_ok (installed_of d)"
  shows "comps_ok (installed_of d')"
proof (cases "NewComponentManager env d")
  case (Inl e)
  then show ?thesis using assms by (simp add: runUpdate_def)
next
  case (Inr cm)
  have ok: "comp_state_ok d cm" using NewComponentManager_ok [OF Inr assms(2)] .
  have load: "comp_state_ok d cm'" if "LoadInstalledComponents d cm = Inr (cm', cs)" for cm' cs
    using that ok by (auto simp: LoadInstalledComponents_def comp_state_ok_def installed_of.simps
        split: option.splits sum.splits)
  show ?thesis
    using assms(1) Inr ok load
    by (auto simp: runUpdate_def split: sum.splits prod.splits if_splits dest!: update_loop_ok)
       (simp_all add: comp_state_ok_def)
qed

lemma runUse_ok:
  assumes "runUse env d arg = (d', r)" "comps_ok (installed_of d)"
  shows "comps_ok (installed_of d')"
proof (cases "NewComponentManager env d")
  case (Inr cm)
  obtain name version where p: "ParseComponentVersion arg = (name, version)" by fastforce
  obtain cm1 r1 where s: "SetDefaultVersion cm name (or_latest version) = (cm1, r1)" by fastforce
  have ok: "comp_state_ok d cm1" using SetDefault_ok [OF NewComponentManager_ok [OF Inr assms(2)] s] .
  obtain d2 r2 where sv: "SaveInstalledComponents env d cm1 = (d2, r2)" by fastforce
  have "comps_ok (installed_of d2)" using Save_ok [OF sv ok] by (simp add: comp_state_ok_def)
  then show ?thesis using assms Inr p s sv by (auto simp: runUse_def split: sum.splits)
qed (use assms in \<open>simp add: runUse_def\<close>)

lemma active_or_install_ok:
  assumes "active_or_install env d name = (d', r)" "comps_ok (installed_of d)"
  shows "comps_ok (installed_of d')"
proof (cases "NewComponentManager env d")
  case (Inr cm)
  obtain d1 cm1 r1 where i: "installOrUpdateComponent env d cm name LASTEST_VERSION False = (d1, cm1, r1)"
    by (metis prod.exhaust_sel)
  have "comps_ok (installed_of d1)"
    using installOrUpdate_ok [OF i NewComponentManager_ok [OF Inr assms(2)]] by (simp add: comp_state_ok_def)
  then show ?thesis
    using assms Inr i by (cases "GetActiveComponent cm name"; cases r1) (simp_all add: active_or_install_def InstallComponent_def)
qed (use assms in \<open>simp add: active_or_install_def\<close>)

lemma comp_reach_ok: "comp_reach d \<Longrightarrow> comps_ok (installed_of d)"
proof (induction rule: comp_reach.induct)
  case (comp_start d)
  then show ?case by (simp add: installed_of.simps)
qed (blast intro: runInstall_ok runUninstall_ok runUpdate_ok runUse_ok active_or_install_ok)+

section \<open>What the commands promise\<close>

lemma find_unique:
  assumes "c \<in> set l" "p c" "\<And>c'. c' \<in> set l \<Longrightarrow> p c' \<Longrightarrow> c' = c"
  shows "find p l = Some c"
proof -
  have "find p l \<noteq> None" using assms(1,2) by (auto simp: find_None_iff)
  then obtain c' where "find p l = Some c'" by blast
  then show ?thesis using assms(3) [of c'] find_SomeD [of p l c'] by simp
qed

lemma active_unique:
  assumes "comps_ok l" "c \<in> set l" "c_IsActive c" "c' \<in> set l" "c_IsActive c'" "c_Name c' = c_Name c"
  shows "c' = c"
proof -
  have "inj_on c_Name (set (filter c_IsActive l))" using assms(1) by (simp add: comps_ok_def distinct_map)
  then show ?thesis using assms by (auto dest: inj_onD)
qed

lemma GetActive_marked:
  assumes "installed cm = map (mark_default name v) (l @ [c])" "c_Name c = name" "c_Version c = v"
    "\<not> list_ex (is_comp name v) l"
  shows "GetActiveComponent cm name = Inr (c\<lparr>c_IsActive := True\<rparr>)"
proof -
  have "find (\<lambda>c. c_Name c = name \<and> c_IsActive c) (installed cm) = Some (mark_default name v c)"
    using assms by (intro find_unique) (auto simp: active_mark list_ex_iff is_comp_def)
  then show ?thesis using assms(2,3) by (simp add: GetActiveComponent_def mark_default_def)
qed

lemma Download_file:
  "DownloadFileWithProgress env d url dest f = (d', Inr p) \<Longrightarrow>
   \<exists>body. fetch env url = Inr body \<and> map_of (disk_files d') (path_join [dest, f]) = Some body"
  by (auto simp: DownloadFileWithProgress_def Let_def split: sum.splits if_splits)

lemma Save_Inr:
  "SaveInstalledComponents env d cm = (d', Inr u) \<Longrightarrow> installed_of d' = installed cm \<and> disk_files d' = disk_files d"
  by (auto simp: SaveInstalledComponents_def split: if_splits)

lemma with_new_absent:
  "FindInstallComponent cm name fv = None \<Longrightarrow>
   with_new cm name fv b = installed cm @ [new_component cm name fv b] \<and> \<not> list_ex (is_comp name fv) (installed cm)"
  by (simp add: with_new_def FindInstallComponent_def find_None_iff list_ex_iff)

text \<open>
  C25: the list of installed components, in every state that commands can reach, has one
  entry per name and version and at most one active version per name, and the active version of a
  name is the one that is used.\<close>

theorem components_invariant:
  assumes "comp_reach d" "NewComponentManager env d = Inr cm"
  shows "comps_ok (installed cm) \<and>
    (\<forall>c \<in> set (installed cm). c_IsActive c \<longrightarrow> GetActiveComponent cm (c_Name c) = Inr c)"
proof -
  have ok: "comps_ok (installed cm)"
    using comp_reach_ok [OF assms(1)] NewComponentManager_installed [OF assms(2)] by simp
  have "GetActiveComponent cm (c_Name c) = Inr c" if c: "c \<in> set (installed cm)" "c_IsActive c" for c
  proof -
    have "find (\<lambda>c'. c_Name c' = c_Name c \<and> c_IsActive c') (installed cm) = Some c"
      using active_unique [OF ok c] c by (intro find_unique) auto
    then show ?thesis by (simp add: GetActiveComponent_def)
  qed
  with ok show ?thesis by blast
qed

text \<open>
  C26: a successful \<open>dingo component install\<close> of one component: the version was found in
  the repository and was not installed; afterwards it is in \<open>installed.json\<close> behind the
  components that were there, it is the active version of its name for every later command, no
  component of another name has changed, and its file has the bytes of its URL.\<close>

theorem install_then_active:
  assumes "runInstall env d [arg] = (d', Inr ns)" "ParseComponentVersion arg = (name, version)"
  shows "\<exists>cm fv b new body.
    NewComponentManager env d = Inr cm \<and> FindVersion cm name (or_latest version) = Inr (fv, b) \<and>
    \<not> IsInstalled cm name fv \<and> ns = [name @ '':'' @ fv] \<and>
    new = (new_component cm name fv b)\<lparr>c_IsActive := True\<rparr> \<and>
    installed_of d' = map (mark_default name fv) (installed_of d) @ [new] \<and>
    (\<forall>env' cm'. NewComponentManager env' d' = Inr cm' \<longrightarrow> GetActiveComponent cm' name = Inr new) \<and>
    fetch env (c_URL new) = Inr body \<and> map_of (disk_files d') (path_join [c_Path new, name]) = Some body"
proof -
  obtain cm where cm: "NewComponentManager env d = Inr cm"
    using assms(1) by (auto simp: runInstall_def split: sum.splits)
  obtain d1 cm1 r1 where i: "installOrUpdateComponent env d cm name (or_latest version) False = (d1, cm1, r1)"
    by (metis prod.exhaust_sel)
  have r: "d1 = d'" "\<exists>c. r1 = Inr c \<and> ns = [c_Name c @ '':'' @ c_Version c]"
    using assms cm i by (auto simp: runInstall_def InstallComponent_def split: sum.splits)
  from i show ?thesis
  proof (cases rule: installOrUpdate_cases)
    case (changed fv b d0 f)
    let ?new = "(new_component cm name fv b)\<lparr>c_IsActive := True\<rparr>"
    have abs: "FindInstallComponent cm name fv = None" using changed(2) by simp
    have l: "with_new cm name fv b = installed cm @ [new_component cm name fv b]" "\<not> list_ex (is_comp name fv) (installed cm)"
      using with_new_absent [OF abs] by simp_all
    have sv: "installed_of d' = installed cm1" "disk_files d' = disk_files d0"
      using changed(5) r Save_Inr by auto
    have inst: "installed cm1 = map (mark_default name fv) (installed cm @ [new_component cm name fv b])"
      using changed(4) l(1) by simp
    obtain body where body: "fetch env (c_URL ?new) = Inr body" "map_of (disk_files d0) (path_join [c_Path ?new, name]) = Some body"
      using Download_file [OF changed(3)] by auto
    have act: "GetActiveComponent cm' name = Inr ?new" if "NewComponentManager env' d' = Inr cm'" for env' cm'
      using GetActive_marked [of cm' name fv "installed cm" "new_component cm name fv b"] l(2) inst sv(1)
        NewComponentManager_installed [OF that] by simp
    show ?thesis
      using cm changed(1,6) l(2) r sv inst body act NewComponentManager_installed [OF cm]
      by (intro exI [of _ cm] exI [of _ fv] exI [of _ b] exI [of _ ?new] exI [of _ body])
         (auto simp: IsInstalled_def mark_default_def)
  qed (use r in auto)
qed

text \<open>
  \<open>GetLatest\<close> finds the greatest tag in the order of strings, whatever the order in
  which the map of tags is read, provided that it is not below v0.0.0.\<close>

theorem GetLatest_greatest:
  assumes "distinct (map fst (r_Tags b))"
  shows "GetLatest b = Some (v, bd) \<longleftrightarrow>
    (v, bd) \<in> set (r_Tags b) \<and> ''v0.0.0'' \<le> v \<and> (\<forall>t \<in> fst ` set (r_Tags b). t \<le> v)"
proof -
  let ?m = "latest_tag (map fst (r_Tags b))"
  have m: "?m = Max (insert ''v0.0.0'' (fst ` set (r_Tags b)))" by (simp add: latest_tag_Max)
  have "?m = v \<longleftrightarrow> ''v0.0.0'' \<le> v \<and> (\<forall>t \<in> fst ` set (r_Tags b). t \<le> v)" if "v \<in> fst ` set (r_Tags b)"
    unfolding m using that by (subst Max_eq_iff) auto
  moreover have "GetLatest b = Some (v, bd) \<longleftrightarrow> ?m = v \<and> (v, bd) \<in> set (r_Tags b)"
    using map_of_eq_Some_iff [OF assms] by (auto simp: GetLatest_def Let_def)
  ultimately show ?thesis by force
qed

text \<open>The order of strings is not the order of versions.\<close>

lemma GetLatest_not_numeric:
  "GetLatest \<lparr>r_Binary = DINGO_MDS, r_GeneratedAt = [], r_Branches = [], r_Commits = [],
     r_Tags = [(''v9.0.0'', x), (''v10.0.0'', y)]\<rparr> = Some (''v9.0.0'', x)"
  by (simp add: GetLatest_def latest_tag_def)

text \<open>\<open>dingo component use\<close> with no version looks for a version called latest, which nothing
  ever installs.\<close>

lemma use_needs_version:
  assumes "comp_reach d" "NewComponentManager env d = Inr cm" "ParseComponentVersion arg = (name, [])"
  shows "runUse env d arg = (d, Inl (RawErr ''component not installed''))"
proof -
  have "\<not> list_ex (is_comp name LASTEST_VERSION) (installed cm)"
    using comp_reach_ok [OF assms(1)] NewComponentManager_installed [OF assms(2)]
    by (auto simp: comps_ok_def list_all_iff list_ex_iff is_comp_def)
  then show ?thesis
    using assms(2,3) by (simp add: runUse_def SetDefaultVersion_def or_latest_def Choose_def)
qed

text \<open>With the latest version installed and none active (after \<open>uninstall --force\<close>), a binary
  cannot be started.\<close>

lemma start_needs_active:
  assumes "NewComponentManager env d = Inr cm" "GetActiveComponent cm name = Inl e"
    "FindVersion cm name LASTEST_VERSION = Inr (fv, b)" "IsInstalled cm name fv"
  shows "active_or_install env d name = (d, Inl (RawErr ''failed to install binary''))"
proof -
  have "FindInstallComponent cm name fv \<noteq> None"
    using assms(4) by (auto simp: FindInstallComponent_def IsInstalled_def find_None_iff list_ex_iff)
  then show ?thesis
    using assms by (simp add: active_or_install_def InstallComponent_def installOrUpdateComponent_def Let_def)
qed

text \<open>\<open>update --all\<close> ends at the first component that is already at its latest build.\<close>

lemma update_all_stops:
  assumes "NewComponentManager env d = Inr cm" "installed_json d = Some (Inr (c # cs))"
    "FindVersion cm (c_Name c) (c_Version c) = Inr (c_Version c, b)" "c_Version c \<noteq> LASTEST_VERSION"
    "\<not> c_Release c < b_BuildTime b"
  shows "runUpdate env d args True = (d, Inl ErrAlreadyLatest)"
proof -
  have cm: "installed cm = c # cs" using NewComponentManager_installed [OF assms(1)] assms(2) by (simp add: installed_of.simps)
  then have "UpdateComponent env d cm (c_Name c) (c_Version c) = (d, cm, Inl ErrAlreadyLatest)"
    using assms(3-) by (simp add: UpdateComponent_def installOrUpdateComponent_def Let_def FindInstallComponent_def is_comp_def)
  moreover have "LoadInstalledComponents d cm = Inr (cm, c # cs)"
    using cm assms(2) by (simp add: LoadInstalledComponents_def)
  ultimately show ?thesis using assms(1) by (simp add: runUpdate_def updateFunc_def)
qed

section \<open>A first installation\<close>

definition demo_repo :: BinaryRepoData where
  "demo_repo = \<lparr>r_Binary = DINGO_MDS, r_GeneratedAt = [], r_Branches = [], r_Commits = [],
     r_Tags = [(''v3.0.5'', \<lparr>b_Path = ''mds/v3'', b_BuildTime = ''2025'', b_Size = ''1'', b_Commit = ''c''\<rparr>),
               (''v2.0.0'', \<lparr>b_Path = ''mds/v2'', b_BuildTime = ''2024'', b_Size = ''1'', b_Commit = ''b''\<rparr>)]\<rparr>"

definition demo_comp_env :: comp_env where
  "demo_comp_env = \<lparr>get_repo = (\<lambda>u. Inr demo_repo), fetch = (\<lambda>u. Inr u), writable = (\<lambda>p. True), repo_dir = ''/r'',
     mirror_url = ''https://m/d''\<rparr>"

definition demo_disk :: comp_disk where
  "demo_disk = \<lparr>installed_json = None, disk_files = []\<rparr>"

lemma demo_install:
  "runInstall demo_comp_env demo_disk [DINGO_MDS] =
     (\<lparr>installed_json = Some (Inr [\<lparr>c_Name = DINGO_MDS, c_Version = ''v3.0.5'', c_Commit = ''c'', c_IsInstalled = True,
          c_IsActive = True, c_Release = ''2025'', c_Path = ''/r/dingo-mds/v3.0.5'', c_URL = ''https://m/d/mds/v3''\<rparr>]),
       disk_files = [(''/r/dingo-mds/v3.0.5/dingo-mds'', ''https://m/d/mds/v3'')]\<rparr>, Inr [''dingo-mds:v3.0.5''])"
  by code_simp

lemma demo_repo_parse: "ParseComponentVersion DINGO_MDS = (DINGO_MDS, [])"
  by code_simp

theorem install_then_active_witness:
  "\<exists>d' ns. runInstall demo_comp_env demo_disk [DINGO_MDS] = (d', Inr ns) \<and>
    (\<exists>cm fv b new body.
    NewComponentManager demo_comp_env demo_disk = Inr cm \<and> FindVersion cm DINGO_MDS (or_latest []) = Inr (fv, b) \<and>
    \<not> IsInstalled cm DINGO_MDS fv \<and> ns = [DINGO_MDS @ '':'' @ fv] \<and>
    new = (new_component cm DINGO_MDS fv b)\<lparr>c_IsActive := True\<rparr> \<and>
    installed_of d' = map (mark_default DINGO_MDS fv) (installed_of demo_disk) @ [new] \<and>
    (\<forall>env' cm'. NewComponentManager env' d' = Inr cm' \<longrightarrow> GetActiveComponent cm' DINGO_MDS = Inr new) \<and>
    fetch demo_comp_env (c_URL new) = Inr body \<and> map_of (disk_files d') (path_join [c_Path new, DINGO_MDS]) = Some body)"
  using install_then_active [OF demo_install demo_repo_parse] demo_install by blast

lemma demo_reach: "comp_reach (fst (runInstall demo_comp_env demo_disk [DINGO_MDS]))"
proof (rule comp_install [OF comp_start])
  show "installed_json demo_disk = None" by (simp add: demo_disk_def)
qed (simp add: prod_eq_iff)

lemma demo_manager: "\<exists>cm. NewComponentManager demo_comp_env (fst (runInstall demo_comp_env demo_disk [DINGO_MDS])) = Inr cm"
proof -
  have "isl (NewComponentManager demo_comp_env (fst (runInstall demo_comp_env demo_disk [DINGO_MDS]))) = False" by code_simp
  then show ?thesis by (metis isl_def sum.exhaust)
qed

theorem components_invariant_witness:
  "\<exists>d cm. comp_reach d \<and> NewComponentManager demo_comp_env d = Inr cm \<and> comps_ok (installed cm) \<and>
    (\<forall>c \<in> set (installed cm). c_IsActive c \<longrightarrow> GetActiveComponent cm (c_Name c) = Inr c)"
  using components_invariant [OF demo_reach] demo_reach demo_manager by blast

theorem GetLatest_greatest_witness:
  "distinct (map fst (r_Tags demo_repo)) \<and>
   (GetLatest demo_repo = Some (''v3.0.5'', \<lparr>b_Path = ''mds/v3'', b_BuildTime = ''2025'', b_Size = ''1'', b_Commit = ''c''\<rparr>) \<longleftrightarrow>
    (''v3.0.5'', \<lparr>b_Path = ''mds/v3'', b_BuildTime = ''2025'', b_Size = ''1'', b_Commit = ''c''\<rparr>) \<in> set (r_Tags demo_repo) \<and>
    ''v0.0.0'' \<le> ''v3.0.5'' \<and> (\<forall>t \<in> fst ` set (r_Tags demo_repo). t \<le> ''v3.0.5''))"
proof -
  have d: "distinct (map fst (r_Tags demo_repo))" by code_simp
  show ?thesis using GetLatest_greatest [OF d] d by blast
qed

end
