(* ===== verification/Mds_Router.thy ===== *)
theory Mds_Router
  imports Go_Base "HOL-Library.Word"
begin

text \<open>
  The routing of requests to metadata servers: \<open>internal/common/mds_meta.go\<close> and \<open>mds_router.go\<close>.
  Inodes and server ids are 64 bits wide and buckets 32 bits; a conversion between \<open>int64\<close> and
  \<open>uint64\<close> keeps the bits, so both are \<open>64 word\<close>.  The messages of the protocol (\<open>MDS\<close>,
  \<open>PartitionPolicy\<close>, \<open>HashPartition\<close>) come from generated code: the records hold the fields the
  routers read, and a field of a missing message is an option.

  The Go interface \<open>MDSRouter\<close> is the locale \<open>mds_router\<close>, interpreted on both routers.
\<close>

section \<open>Servers and partitions\<close>

record mds =
  mds_Id :: "64 word"
  mds_Host :: string
  mds_Port :: int

datatype partition_type = MONOLITHIC_PARTITION | PARENT_ID_HASH_PARTITION

record hash_partition =
  BucketNum :: "32 word"
  Distributions :: "(64 word \<times> 32 word list) list"

record partition_policy =
  pp_Type :: partition_type
  pp_Epoch :: "64 word"
  pp_Mono :: "64 word option"
  pp_ParentHash :: "hash_partition option"

type_synonym mds_map = "(64 word \<times> mds) list"

definition SetMDS :: "mds list \<Rightarrow> mds_map \<Rightarrow> mds_map" where
  "SetMDS mdsSlice mdsMap = fold (\<lambda>m. AList.update (mds_Id m) m) mdsSlice mdsMap"

definition meta_GetMDS :: "mds_map \<Rightarrow> 64 word \<Rightarrow> mds option" where
  "meta_GetMDS mdsMap mdsId = map_of mdsMap mdsId"

definition NewMDSMeta :: mds_map where "NewMDSMeta = []"

section \<open>The routers\<close>

record hash_router =
  hashPartition :: "hash_partition option"
  mdsIdMap :: "(32 word \<times> 64 word) list"
  hash_mdsMeta :: mds_map

text \<open>The loop of \<open>Init\<close> over the distributions: it ends at the first server that is not in the
  list, with the buckets of the servers before it filled in.\<close>

fun fill_buckets ::
  "mds_map \<Rightarrow> (64 word \<times> 32 word list) list \<Rightarrow> (32 word \<times> 64 word) list \<Rightarrow> (32 word \<times> 64 word) list \<times> bool" where
  "fill_buckets meta [] ids = (ids, True)"
| "fill_buckets meta ((mdsId, bucketIds) # rest) ids =
     (if meta_GetMDS meta mdsId \<noteq> None
      then fill_buckets meta rest (fold (\<lambda>b. AList.update b mdsId) bucketIds ids)
      else (ids, False))"

definition hash_Init :: "hash_router \<Rightarrow> mds list \<Rightarrow> partition_policy \<Rightarrow> hash_router \<times> bool" where
  "hash_Init h mdsSlice policy =
     (let meta = SetMDS mdsSlice (hash_mdsMeta h);
          (ids, ok) = fill_buckets meta
             (case pp_ParentHash policy of None \<Rightarrow> [] | Some hp \<Rightarrow> Distributions hp) (mdsIdMap h)
      in (h\<lparr>hashPartition := pp_ParentHash policy, mdsIdMap := ids, hash_mdsMeta := meta\<rparr>, ok))"

definition bucket_of :: "64 word \<Rightarrow> 32 word \<Rightarrow> 32 word" where
  "bucket_of inodeId n = ucast (inodeId mod ucast n)"

definition hash_GetMDS :: "hash_router \<Rightarrow> 64 word \<Rightarrow> mds option res" where
  "hash_GetMDS h inodeId =
     (case hashPartition h of
        None \<Rightarrow> Inl GoPanic
      | Some hp \<Rightarrow>
          if BucketNum hp = 0 then Inl GoPanic
          else Inr (case map_of (mdsIdMap h) (bucket_of inodeId (BucketNum hp)) of
                      None \<Rightarrow> None | Some mdsId \<Rightarrow> meta_GetMDS (hash_mdsMeta h) mdsId))"

record mono_router =
  mono_mds :: "mds option"
  mono_mdsMeta :: mds_map

definition mono_Init :: "mono_router \<Rightarrow> mds list \<Rightarrow> partition_policy \<Rightarrow> mono_router \<times> bool" where
  "mono_Init m mdsSlice policy =
     (let meta = SetMDS mdsSlice (mono_mdsMeta m);
          mdsId = (case pp_Mono policy of None \<Rightarrow> 0 | Some i \<Rightarrow> i)
      in case meta_GetMDS meta mdsId of
           None \<Rightarrow> (m\<lparr>mono_mdsMeta := meta\<rparr>, False)
         | Some found \<Rightarrow> (m\<lparr>mono_mdsMeta := meta, mono_mds := Some found\<rparr>, True))"

definition mono_GetMDS :: "mono_router \<Rightarrow> 64 word \<Rightarrow> mds option res" where
  "mono_GetMDS m inodeId = Inr (mono_mds m)"

datatype MDSRouter = HashMDSRouter hash_router | MonoMDSRouter mono_router

definition new_hash :: hash_router where
  "new_hash = \<lparr>hashPartition = None, mdsIdMap = [], hash_mdsMeta = NewMDSMeta\<rparr>"

definition new_mono :: mono_router where
  "new_mono = \<lparr>mono_mds = None, mono_mdsMeta = NewMDSMeta\<rparr>"

definition NewMDSRouter :: "partition_type \<Rightarrow> MDSRouter" where
  "NewMDSRouter partitionType =
     (if partitionType = PARENT_ID_HASH_PARTITION then HashMDSRouter new_hash else MonoMDSRouter new_mono)"

fun router_Init :: "MDSRouter \<Rightarrow> mds list \<Rightarrow> partition_policy \<Rightarrow> MDSRouter \<times> bool" where
  "router_Init (HashMDSRouter h) ms p = map_prod HashMDSRouter (\<lambda>b. b) (hash_Init h ms p)"
| "router_Init (MonoMDSRouter m) ms p = map_prod MonoMDSRouter (\<lambda>b. b) (mono_Init m ms p)"

fun router_GetMDS :: "MDSRouter \<Rightarrow> 64 word \<Rightarrow> mds option res" where
  "router_GetMDS (HashMDSRouter h) i = hash_GetMDS h i"
| "router_GetMDS (MonoMDSRouter m) i = mono_GetMDS m i"

text \<open>\<open>GetEndPoint\<close> of \<open>internal/rpc/utils.go\<close>: the address of the server of an inode, or no
  address.\<close>

definition mds_address :: "mds \<Rightarrow> string" where
  "mds_address m = mds_Host m @ '':'' @ itoa (mds_Port m)"

definition endpoint_of :: "mds option \<Rightarrow> string list" where
  "endpoint_of m = (case m of None \<Rightarrow> [] | Some m \<Rightarrow> [mds_address m])"

definition GetEndPoint :: "MDSRouter option \<Rightarrow> 64 word \<Rightarrow> string list res" where
  "GetEndPoint r inodeId =
     (case r of None \<Rightarrow> Inl GoPanic | Some r \<Rightarrow> bindR (router_GetMDS r inodeId) (\<lambda>m. Inr (endpoint_of m)))"

section \<open>What a partition says\<close>

text \<open>The server that a policy gives an inode, as the policy is meant: the one whose bucket set
  holds the bucket of the inode, or the only one.\<close>

definition owns :: "partition_policy \<Rightarrow> 64 word \<Rightarrow> 64 word \<Rightarrow> bool" where
  "owns p inodeId mdsId \<longleftrightarrow>
     (case pp_Type p of
        PARENT_ID_HASH_PARTITION \<Rightarrow>
          (case pp_ParentHash p of
             None \<Rightarrow> False
           | Some hp \<Rightarrow> \<exists>(m, bs) \<in> set (Distributions hp). m = mdsId \<and>
               (\<exists>b \<in> set bs. unat b = unat inodeId mod unat (BucketNum hp)))
      | MONOLITHIC_PARTITION \<Rightarrow> pp_Mono p = Some mdsId)"

text \<open>A policy that the servers can serve: the servers it names are known, and for a partition by
  hash every bucket belongs to one server.\<close>

definition disjoint_buckets :: "(64 word \<times> 32 word list) list \<Rightarrow> bool" where
  "disjoint_buckets ds \<longleftrightarrow> (\<forall>(m, bs) \<in> set ds. \<forall>(m', bs') \<in> set ds. set bs \<inter> set bs' \<noteq> {} \<longrightarrow> m = m')"

definition servable :: "mds list \<Rightarrow> partition_policy \<Rightarrow> bool" where
  "servable ms p \<longleftrightarrow>
     distinct (map mds_Id ms) \<and>
     (case pp_Type p of
        PARENT_ID_HASH_PARTITION \<Rightarrow>
          (case pp_ParentHash p of
             None \<Rightarrow> False
           | Some hp \<Rightarrow>
               BucketNum hp \<noteq> 0 \<and> disjoint_buckets (Distributions hp) \<and>
               fst ` set (Distributions hp) \<subseteq> mds_Id ` set ms \<and>
               (\<forall>b < BucketNum hp. \<exists>(m, bs) \<in> set (Distributions hp). b \<in> set bs))
      | MONOLITHIC_PARTITION \<Rightarrow>
          (case pp_Mono p of None \<Rightarrow> False | Some i \<Rightarrow> i \<in> mds_Id ` set ms))"

section \<open>The interface\<close>

locale mds_router =
  fixes kind :: partition_type
    and fresh :: 'r
    and Init :: "'r \<Rightarrow> mds list \<Rightarrow> partition_policy \<Rightarrow> 'r \<times> bool"
    and Get :: "'r \<Rightarrow> 64 word \<Rightarrow> mds option res"
  assumes Init_servable: "pp_Type p = kind \<Longrightarrow> servable ms p \<Longrightarrow> snd (Init fresh ms p)"
    and Get_owner: "pp_Type p = kind \<Longrightarrow> servable ms p \<Longrightarrow>
      \<exists>m \<in> set ms. Get (fst (Init fresh ms p)) i = Inr (Some m) \<and> owns p i (mds_Id m)"
    and Get_known: "Get (fst (Init fresh ms p)) i = Inr (Some m) \<Longrightarrow> m \<in> set ms"
begin

lemma endpoint_servable:
  assumes "pp_Type p = kind" "servable ms p"
  shows "\<exists>m \<in> set ms. bindR (Get (fst (Init fresh ms p)) i) (\<lambda>m. Inr (endpoint_of m)) = Inr [mds_address m] \<and> owns p i (mds_Id m)"
  using Get_owner [OF assms, of i] by (auto simp: endpoint_of_def)

lemma endpoint_known:
  assumes "bindR (Get (fst (Init fresh ms p)) i) (\<lambda>m. Inr (endpoint_of m)) = Inr as"
  shows "as = [] \<or> (\<exists>m \<in> set ms. as = [mds_address m])"
  using assms Get_known [of ms p i] by (auto simp: endpoint_of_def res_simps split: option.splits)

end

section \<open>The routers implement the interface\<close>

lemma SetMDS_Some: "map_of (SetMDS ms meta) i = Some m \<Longrightarrow> m \<in> set ms \<and> mds_Id m = i \<or> map_of meta i = Some m"
proof (induction ms arbitrary: meta)
  case (Cons a ms)
  have "SetMDS (a # ms) meta = SetMDS ms (AList.update (mds_Id a) a meta)" by (simp add: SetMDS_def)
  then show ?case using Cons.IH [of "AList.update (mds_Id a) a meta"] Cons.prems by (auto split: if_splits)
qed (simp add: SetMDS_def)

lemma SetMDS_kept: "map_of meta i \<noteq> None \<Longrightarrow> map_of (SetMDS ms meta) i \<noteq> None"
  by (induction ms arbitrary: meta) (auto simp: SetMDS_def)

lemma SetMDS_known: "i \<in> mds_Id ` set ms \<Longrightarrow> map_of (SetMDS ms meta) i \<noteq> None"
proof (induction ms arbitrary: meta)
  case (Cons m ms)
  have eq: "SetMDS (m # ms) meta = SetMDS ms (AList.update (mds_Id m) m meta)" by (simp add: SetMDS_def)
  show ?case
  proof (cases "i = mds_Id m")
    case True
    then show ?thesis unfolding eq by (intro SetMDS_kept) simp
  next
    case False
    then show ?thesis using Cons unfolding eq by auto
  qed
qed simp

lemma SetMDS_server:
  assumes "i \<in> mds_Id ` set ms"
  obtains m where "m \<in> set ms" "mds_Id m = i" "meta_GetMDS (SetMDS ms NewMDSMeta) i = Some m"
  using SetMDS_known [OF assms, of "[]"] SetMDS_Some [of ms "[]" i]
  by (auto simp: meta_GetMDS_def NewMDSMeta_def)

lemma update_all_map: "map_of (fold (\<lambda>b. AList.update b v) bs m) b = (if b \<in> set bs then Some v else map_of m b)"
  by (induction bs arbitrary: m) auto

lemma fill_buckets_Some:
  "map_of (fst (fill_buckets meta ds ids)) b = Some m \<Longrightarrow>
   (\<exists>(m', bs) \<in> set ds. m' = m \<and> b \<in> set bs) \<or> map_of ids b = Some m"
  by (induction meta ds ids rule: fill_buckets.induct) (auto simp: update_all_map split: if_splits)

lemma fill_buckets_kept: "map_of ids b \<noteq> None \<Longrightarrow> map_of (fst (fill_buckets meta ds ids)) b \<noteq> None"
  by (induction meta ds ids rule: fill_buckets.induct) (auto simp: update_all_map)

lemma fill_buckets_all:
  assumes "\<And>i. i \<in> fst ` set ds \<Longrightarrow> meta_GetMDS meta i \<noteq> None"
  shows "snd (fill_buckets meta ds ids) \<and>
    (\<forall>(m, bs) \<in> set ds. \<forall>b \<in> set bs. map_of (fst (fill_buckets meta ds ids)) b \<noteq> None)"
  using assms
proof (induction meta ds ids rule: fill_buckets.induct)
  case (2 meta m bs rest ids)
  have known: "meta_GetMDS meta m \<noteq> None" using 2(2) by simp
  have kept: "map_of (fst (fill_buckets meta rest (fold (\<lambda>b. AList.update b m) bs ids))) b \<noteq> None" if "b \<in> set bs" for b
    using that by (intro fill_buckets_kept) (simp add: update_all_map)
  show ?case using 2(1) [OF known] 2(2) known kept by auto
qed simp

lemma unat_bucket_of: "n \<noteq> 0 \<Longrightarrow> unat (bucket_of i n) = unat i mod unat n"
proof -
  assume n: "n \<noteq> 0"
  have "unat i mod unat n < unat n" using n by (simp add: unat_gt_0)
  moreover have n32: "unat n < 2 ^ 32" using unsigned_less [of n] by simp
  ultimately have "unat i mod unat n < 2 ^ 32" by linarith
  moreover have "unat n mod 2 ^ 64 = unat n" using n32 by simp
  ultimately show ?thesis
    by (simp add: bucket_of_def unsigned_ucast_eq unsigned_take_bit_eq unat_mod_distrib take_bit_eq_mod)
qed

lemma bucket_of_less: "n \<noteq> 0 \<Longrightarrow> bucket_of i n < n"
  by (simp add: word_less_nat_alt unat_bucket_of unat_gt_0)

interpretation hash: mds_router PARENT_ID_HASH_PARTITION new_hash hash_Init hash_GetMDS
proof
  fix p ms i
  assume kind: "pp_Type p = PARENT_ID_HASH_PARTITION" and sv: "servable ms p"
  then obtain hp where hp: "pp_ParentHash p = Some hp" "BucketNum hp \<noteq> 0"
      "fst ` set (Distributions hp) \<subseteq> mds_Id ` set ms"
      "\<And>b. b < BucketNum hp \<Longrightarrow> \<exists>(m, bs) \<in> set (Distributions hp). b \<in> set bs"
    by (auto simp: servable_def split: option.splits)
  define meta where "meta = SetMDS ms NewMDSMeta"
  let ?f = "fill_buckets meta (Distributions hp) []"
  let ?h = "\<lparr>hashPartition = Some hp, mdsIdMap = fst ?f, hash_mdsMeta = meta\<rparr>"
  have known: "meta_GetMDS meta k \<noteq> None" if "k \<in> fst ` set (Distributions hp)" for k
    using SetMDS_known [of k ms "[]"] that hp(3) by (auto simp: meta_GetMDS_def meta_def NewMDSMeta_def)
  have init: "hash_Init new_hash ms p = (?h, snd ?f)"
    by (simp add: hash_Init_def new_hash_def hp(1) meta_def Let_def split: prod.splits)
  show "snd (hash_Init new_hash ms p)" using fill_buckets_all [OF known] init by simp
  let ?b = "bucket_of i (BucketNum hp)"
  obtain m0 bs0 where "(m0, bs0) \<in> set (Distributions hp)" "?b \<in> set bs0"
    using hp(4) [OF bucket_of_less [OF hp(2)]] by blast
  then obtain k where k: "map_of (fst ?f) ?b = Some k" using fill_buckets_all [OF known] by blast
  then have owner: "\<exists>(m', bs) \<in> set (Distributions hp). m' = k \<and> ?b \<in> set bs"
    using fill_buckets_Some [of meta "Distributions hp" "[]" ?b k] by simp
  then have "k \<in> mds_Id ` set ms" using hp(3) by force
  then obtain m where m: "m \<in> set ms" "mds_Id m = k" "meta_GetMDS meta k = Some m"
    unfolding meta_def by (rule SetMDS_server)
  show "\<exists>m \<in> set ms. hash_GetMDS (fst (hash_Init new_hash ms p)) i = Inr (Some m) \<and> owns p i (mds_Id m)"
    using m k owner kind hp(1,2) unat_bucket_of [OF hp(2), of i] unfolding init
    by (intro bexI [of _ m]) (auto simp: hash_GetMDS_def owns_def)
next
  fix p ms i m
  assume "hash_GetMDS (fst (hash_Init new_hash ms p)) i = Inr (Some m)"
  then show "m \<in> set ms"
    by (auto simp: hash_GetMDS_def hash_Init_def new_hash_def meta_GetMDS_def NewMDSMeta_def Let_def
        split: option.splits if_splits prod.splits dest: SetMDS_Some)
qed

interpretation mono: mds_router MONOLITHIC_PARTITION new_mono mono_Init mono_GetMDS
proof
  fix p ms i
  assume "pp_Type p = MONOLITHIC_PARTITION" "servable ms p"
  then obtain k where k: "pp_Mono p = Some k" "k \<in> mds_Id ` set ms" and kind: "pp_Type p = MONOLITHIC_PARTITION"
    by (auto simp: servable_def split: option.splits)
  obtain m where m: "m \<in> set ms" "mds_Id m = k" "meta_GetMDS (SetMDS ms NewMDSMeta) k = Some m"
    using SetMDS_server [OF k(2)] .
  then have init: "mono_Init new_mono ms p = (\<lparr>mono_mds = Some m, mono_mdsMeta = SetMDS ms NewMDSMeta\<rparr>, True)"
    using k by (simp add: mono_Init_def new_mono_def Let_def)
  show "snd (mono_Init new_mono ms p)" using init by simp
  show "\<exists>m \<in> set ms. mono_GetMDS (fst (mono_Init new_mono ms p)) i = Inr (Some m) \<and> owns p i (mds_Id m)"
    using init m k kind by (auto simp: mono_GetMDS_def owns_def)
next
  fix p ms i m
  assume "mono_GetMDS (fst (mono_Init new_mono ms p)) i = Inr (Some m)"
  then show "m \<in> set ms"
    by (auto simp: mono_GetMDS_def mono_Init_def new_mono_def meta_GetMDS_def NewMDSMeta_def Let_def
        split: option.splits dest: SetMDS_Some)
qed

section \<open>Requests reach the server that owns the inode\<close>

lemma GetEndPoint_new:
  "GetEndPoint (Some (fst (router_Init (NewMDSRouter t) ms p))) i =
   (if t = PARENT_ID_HASH_PARTITION
    then bindR (hash_GetMDS (fst (hash_Init new_hash ms p)) i) (\<lambda>m. Inr (endpoint_of m))
    else bindR (mono_GetMDS (fst (mono_Init new_mono ms p)) i) (\<lambda>m. Inr (endpoint_of m)))"
  by (simp add: GetEndPoint_def NewMDSRouter_def)

lemma owner_unique: "servable ms p \<Longrightarrow> owns p i k \<Longrightarrow> owns p i k' \<Longrightarrow> k' = k"
proof (cases "pp_Type p")
  case PARENT_ID_HASH_PARTITION
  assume "servable ms p" "owns p i k" "owns p i k'"
  then obtain hp bs bs' b b' where "pp_ParentHash p = Some hp" "disjoint_buckets (Distributions hp)"
      "(k, bs) \<in> set (Distributions hp)" "(k', bs') \<in> set (Distributions hp)" "b \<in> set bs" "b' \<in> set bs'" "unat b = unat b'"
    using PARENT_ID_HASH_PARTITION by (auto simp: servable_def owns_def split: option.splits)
  then show ?thesis unfolding disjoint_buckets_def word_unat_eq_iff [symmetric] by blast
qed (simp add: owns_def)

text \<open>
  C21: with a partition that the listed servers can serve, the router built for it accepts it, and
  the request for an inode goes to one address: that of the listed server to which the partition
  gives the inode, the only such server, whatever the order in which the maps are read.
\<close>

theorem router_finds_owner:
  assumes "servable ms p" "router_Init (NewMDSRouter (pp_Type p)) ms p = (r, ok)"
  shows "ok \<and> (\<exists>m \<in> set ms. GetEndPoint (Some r) i = Inr [mds_address m] \<and> owns p i (mds_Id m) \<and>
    (\<forall>k. owns p i k \<longrightarrow> k = mds_Id m))"
proof -
  have r: "r = fst (router_Init (NewMDSRouter (pp_Type p)) ms p)" "ok = snd (router_Init (NewMDSRouter (pp_Type p)) ms p)"
    using assms(2) by simp_all
  have "ok \<and> (\<exists>m \<in> set ms. GetEndPoint (Some r) i = Inr [mds_address m] \<and> owns p i (mds_Id m))"
  proof (cases "pp_Type p")
    case MONOLITHIC_PARTITION
    then show ?thesis
      unfolding r(1) GetEndPoint_new
      using mono.Init_servable [OF _ assms(1)] mono.endpoint_servable [OF _ assms(1), of i] r(2)
      by (simp add: NewMDSRouter_def)
  next
    case PARENT_ID_HASH_PARTITION
    then show ?thesis
      unfolding r(1) GetEndPoint_new
      using hash.Init_servable [OF _ assms(1)] hash.endpoint_servable [OF _ assms(1), of i] r(2)
      by (simp add: NewMDSRouter_def)
  qed
  then show ?thesis using owner_unique [OF assms(1)] by blast
qed

text \<open>An address is always that of a listed server, also when the partition names servers that are
  not listed.\<close>

lemma endpoint_listed:
  assumes "GetEndPoint (Some (fst (router_Init (NewMDSRouter t) ms p))) i = Inr as"
  shows "as = [] \<or> (\<exists>m \<in> set ms. as = [mds_address m])"
  using assms hash.endpoint_known mono.endpoint_known unfolding GetEndPoint_new by (simp split: if_splits)

text \<open>A partition by hash with no buckets, or none at all, makes the first request panic.\<close>

lemma no_buckets_panic:
  assumes "pp_Type p = PARENT_ID_HASH_PARTITION"
    "pp_ParentHash p = None \<or> (\<exists>hp. pp_ParentHash p = Some hp \<and> BucketNum hp = 0)"
  shows "GetEndPoint (Some (fst (router_Init (NewMDSRouter (pp_Type p)) ms p))) i = Inl GoPanic"
  using assms unfolding GetEndPoint_new
  by (auto simp: hash_GetMDS_def hash_Init_def Let_def split: prod.splits)

definition demo_servers :: "mds list" where
  "demo_servers = [\<lparr>mds_Id = 1, mds_Host = ''a'', mds_Port = 6900\<rparr>, \<lparr>mds_Id = 2, mds_Host = ''b'', mds_Port = 6900\<rparr>]"

definition demo_policy :: partition_policy where
  "demo_policy = \<lparr>pp_Type = PARENT_ID_HASH_PARTITION, pp_Epoch = 1, pp_Mono = None,
     pp_ParentHash = Some \<lparr>BucketNum = 2, Distributions = [(2, [0]), (1, [1])]\<rparr>\<rparr>"

lemma demo_servable: "servable demo_servers demo_policy"
proof -
  have two: "b = 0 \<or> b = 1" if "b < (2 :: 32 word)" for b
  proof -
    have "unat b = 0 \<or> unat b = 1" using that by (auto simp: word_less_nat_alt)
    then show ?thesis by (auto simp: word_unat_eq_iff)
  qed
  show ?thesis
    using two by (auto simp: servable_def demo_servers_def demo_policy_def disjoint_buckets_def)
qed

theorem router_finds_owner_witness:
  "servable demo_servers demo_policy \<and>
   snd (router_Init (NewMDSRouter (pp_Type demo_policy)) demo_servers demo_policy) \<and>
   (\<exists>m \<in> set demo_servers.
      GetEndPoint (Some (fst (router_Init (NewMDSRouter (pp_Type demo_policy)) demo_servers demo_policy))) 7 = Inr [mds_address m] \<and>
      owns demo_policy 7 (mds_Id m) \<and> (\<forall>k. owns demo_policy 7 k \<longrightarrow> k = mds_Id m))"
  using router_finds_owner [OF demo_servable, of
      "fst (router_Init (NewMDSRouter (pp_Type demo_policy)) demo_servers demo_policy)"
      "snd (router_Init (NewMDSRouter (pp_Type demo_policy)) demo_servers demo_policy)" 7] demo_servable
  by simp

end
