(* ===== verification/Mds_Rpc.thy ===== *)
theory Mds_Rpc
  imports Mds_Router
begin

text \<open>
  Requests to the metadata servers: the pool of connections (\<open>internal/rpc/pool.go\<close>), the client with
  its retries (\<open>client.go\<close>, \<open>status.go\<close>), the cache of file systems (\<open>internal/common/fs_meta.go\<close>)
  and the operations of \<open>operator.go\<close> and \<open>utils.go\<close> that send one request each.

  The network and the servers are the fields of \<open>rpc_net\<close>: dialling an address and sending a
  request over a connection, on an external state \<open>'x\<close>; connections are numbers.  Requests and
  responses come from generated code: the types hold the fields that the sources set and read, and
  \<open>mds_errno\<close> names the error codes that they name.  Timeouts, delays and logging are left out.
\<close>

section \<open>Messages\<close>

datatype mds_errno =
    Errno_OK | EREQUEST_FULL | EREDIRECT | ENOT_SERVE | EPARTIAL_SUCCESS | ESTORE_MAYBE_RETRY | Errno_other int

datatype file_type = FileType_FILE | FileType_DIRECTORY | FileType_SYM_LINK

record fs_info =
  fi_FsId :: "32 word"
  fi_FsName :: string
  fi_PartitionPolicy :: partition_policy

record dentry =
  de_Name :: string
  de_Ino :: "64 word"
  de_Parent :: "64 word"
  de_Type :: file_type

record inode =
  in_Ino :: "64 word"
  in_Length :: "64 word"
  in_Nlink :: "32 word"
  in_Parents :: "64 word list"

record quota =
  MaxBytes :: "64 word"
  MaxInodes :: "64 word"
  UsedBytes :: "64 word"
  UsedInodes :: "64 word"

record req_context =
  rc_Epoch :: "64 word"
  rc_IsBypassCache :: bool

datatype mds_request =
    GetMDSListRequest
  | ListFsInfoRequest
  | GetFsInfoRequest "32 word" string
  | GetDentryRequest req_context "32 word" "64 word" string
  | UnLinkRequest req_context "32 word" "64 word" string
  | RmDirRequest req_context "32 word" "64 word" string
  | MkDirRequest req_context "32 word" "64 word" string "32 word" "32 word"
  | GetInodeRequest req_context "32 word" "64 word"
  | ListDentryRequest req_context "32 word" "64 word"
  | GetDirQuotaRequest req_context "32 word" "64 word"
  | SetDirQuotaRequest req_context "32 word" "64 word" quota
  | DeleteDirQuotaRequest req_context "32 word" "64 word"

datatype mds_body =
    NoBody
  | MDSListBody "mds list"
  | FsInfosBody "fs_info list"
  | FsInfoBody fs_info
  | DentryBody dentry
  | DentriesBody "dentry list"
  | InodeBody inode
  | QuotaBody quota

record mds_response =
  rs_Error :: mds_errno
  rs_Body :: mds_body

definition CheckRpcNeedRetry :: "mds_response \<Rightarrow> bool" where
  "CheckRpcNeedRetry r \<longleftrightarrow>
     rs_Error r \<in> {EREQUEST_FULL, EREDIRECT, ENOT_SERVE, EPARTIAL_SUCCESS, ESTORE_MAYBE_RETRY}"

section \<open>The client\<close>

record 'x rpc_net =
  dial :: "string \<Rightarrow> 'x \<Rightarrow> 'x \<times> nat res"
  stub :: "nat \<Rightarrow> mds_request \<Rightarrow> 'x \<Rightarrow> 'x \<times> mds_response res"

record 'x rpc_state =
  connections :: "(string \<times> nat list) list"
  fsMetaCache :: "(32 word \<times> fs_info) list"
  mdsRouter :: "MDSRouter option"
  net_state :: 'x

type_synonym ('x, 'a) rpc_op = "'x rpc_state \<Rightarrow> 'x rpc_state \<times> 'a res"

definition bindO :: "('x, 'a) rpc_op \<Rightarrow> ('a \<Rightarrow> ('x, 'b) rpc_op) \<Rightarrow> ('x, 'b) rpc_op" where
  "bindO m f s = (case m s of (s1, Inl e) \<Rightarrow> (s1, Inl e) | (s1, Inr a) \<Rightarrow> f a s1)"

definition pureO :: "'a res \<Rightarrow> ('x, 'a) rpc_op" where
  "pureO r s = (s, r)"

fun dial_loop :: "'x rpc_net \<Rightarrow> string \<Rightarrow> nat \<Rightarrow> 'x \<Rightarrow> 'x \<times> nat res" where
  "dial_loop net address 0 x = dial net address x"
| "dial_loop net address (Suc retrytimes) x =
     (case dial net address x of
        (x1, Inr conn) \<Rightarrow> (x1, Inr conn)
      | (x1, Inl e) \<Rightarrow> dial_loop net address retrytimes x1)"

definition pooled :: "'x rpc_state \<Rightarrow> string \<Rightarrow> nat list" where
  "pooled s address = (case map_of (connections s) address of None \<Rightarrow> [] | Some cs \<Rightarrow> cs)"

definition GetConnection :: "'x rpc_net \<Rightarrow> string \<Rightarrow> nat \<Rightarrow> ('x, nat) rpc_op" where
  "GetConnection net address retrytimes s =
     (case pooled s address of
        conn # rest \<Rightarrow> (s\<lparr>connections := AList.update address rest (connections s)\<rparr>, Inr conn)
      | [] \<Rightarrow> (case dial_loop net address retrytimes (net_state s) of (x, r) \<Rightarrow> (s\<lparr>net_state := x\<rparr>, r)))"

definition PutConnection :: "string \<Rightarrow> nat \<Rightarrow> 'x rpc_state \<Rightarrow> 'x rpc_state" where
  "PutConnection address conn s =
     s\<lparr>connections := AList.update address (pooled s address @ [conn]) (connections s)\<rparr>"

definition ReleaseConnection :: "string \<Rightarrow> 'x rpc_state \<Rightarrow> 'x rpc_state" where
  "ReleaseConnection address s = s\<lparr>connections := AList.delete address (connections s)\<rparr>"

fun stub_loop :: "'x rpc_net \<Rightarrow> nat \<Rightarrow> mds_request \<Rightarrow> nat \<Rightarrow> 'x \<Rightarrow> 'x \<times> mds_response res" where
  "stub_loop net conn req 0 x =
     (case stub net conn req x of
        (x1, Inl e) \<Rightarrow> (x1, Inl (Ec ERR_RPC_FAILED)) | (x1, Inr r) \<Rightarrow> (x1, Inr r))"
| "stub_loop net conn req (Suc retryTimes) x =
     (case stub net conn req x of
        (x1, Inl e) \<Rightarrow> stub_loop net conn req retryTimes x1
      | (x1, Inr r) \<Rightarrow> if CheckRpcNeedRetry r then stub_loop net conn req retryTimes x1 else (x1, Inr r))"

text \<open>\<open>GetRpcResponse\<close>: the result of an address that cannot be reached is kept while the next one
  is tried; the first address that can be reached ends the loop, whatever its answer.  With no
  address the result stays empty, and reading its error code is a nil dereference.\<close>

fun rpc_addrs ::
  "'x rpc_net \<Rightarrow> nat \<Rightarrow> mds_request \<Rightarrow> string list \<Rightarrow> mds_response res option \<Rightarrow> ('x, mds_response) rpc_op" where
  "rpc_addrs net retries req [] result s = (s, case result of None \<Rightarrow> Inl GoPanic | Some r \<Rightarrow> r)"
| "rpc_addrs net retries req (address # rest) result s =
     (case GetConnection net address retries s of
        (s1, Inl e) \<Rightarrow> rpc_addrs net retries req rest (Some (Inl (Ec ERR_RPC_FAILED))) s1
      | (s1, Inr conn) \<Rightarrow>
          (case stub_loop net conn req retries (net_state s1) of
             (x, r) \<Rightarrow> (PutConnection address conn (s1\<lparr>net_state := x\<rparr>), r)))"

definition GetRpcResponse :: "'x rpc_net \<Rightarrow> nat \<Rightarrow> string list \<Rightarrow> mds_request \<Rightarrow> ('x, mds_response) rpc_op" where
  "GetRpcResponse net retries addrs req = rpc_addrs net retries req addrs None"

section \<open>Flags\<close>

record fs_flags =
  fl_fsid :: "32 word option"
  fl_fsname :: "string option"
  fl_mdsaddr :: string
  fl_retrytimes :: nat

text \<open>\<open>isIpAddrValid\<close>: the regular expression is not anchored, so a text is valid when four octets
  occur somewhere in it; the first of them can be the last digit of a longer number, and the last
  one the first digit.\<close>

definition octet :: "string \<Rightarrow> bool" where
  "octet s \<longleftrightarrow> s \<noteq> [] \<and> list_all is_digit s \<and> length s \<le> 3 \<and> (length s = 1 \<or> hd s \<noteq> CHR ''0'') \<and>
     (case read_dec 0 s of None \<Rightarrow> False | Some n \<Rightarrow> n \<le> 255)"

definition ip_at :: "string \<Rightarrow> bool" where
  "ip_at t \<longleftrightarrow>
     (case split_on (CHR ''.'') t of
        d # o1 # o2 # r # _ \<Rightarrow> length d = 1 \<and> octet d \<and> octet o1 \<and> octet o2 \<and> r \<noteq> [] \<and> is_digit (hd r)
      | _ \<Rightarrow> False)"

definition isIpAddrValid :: "string \<Rightarrow> bool" where
  "isIpAddrValid addr \<longleftrightarrow> list_ex (\<lambda>i. ip_at (drop i addr)) [0..<length addr]"

definition GetMDSAddrSlice :: "fs_flags \<Rightarrow> string list res" where
  "GetMDSAddrSlice fl =
     (let addrslice = split_on (CHR '','') (fl_mdsaddr fl)
      in if list_all isIpAddrValid addrslice then Inr addrslice else Inl (RawErr ''invalid address''))"

definition GetFsInfoFlagValue :: "fs_flags \<Rightarrow> (32 word \<times> string) res" where
  "GetFsInfoFlagValue fl =
     (if fl_fsname fl = None \<and> fl_fsid fl = None then Inl (RawErr ''fsname or fsid is required'')
      else let fsId = (case fl_fsid fl of Some i \<Rightarrow> i | None \<Rightarrow> 0);
               fsName = (case fl_fsid fl of Some i \<Rightarrow> [] | None \<Rightarrow> (case fl_fsname fl of Some n \<Rightarrow> n | None \<Rightarrow> []))
           in if fsId = 0 \<and> fsName = [] then Inl (RawErr ''fsname or fsid is invalid'') else Inr (fsId, fsName))"

section \<open>Operations\<close>

text \<open>The end of every operation: an error of the client is returned, an error code in the response
  becomes \<open>ERR_RPC_FAILED\<close>.\<close>

definition checked :: "mds_response \<Rightarrow> mds_body res" where
  "checked r = (if rs_Error r \<noteq> Errno_OK then Inl (Ec ERR_RPC_FAILED) else Inr (rs_Body r))"

definition call_mds :: "'x rpc_net \<Rightarrow> fs_flags \<Rightarrow> string list \<Rightarrow> mds_request \<Rightarrow> ('x, mds_body) rpc_op" where
  "call_mds net fl addrs req =
     bindO (GetRpcResponse net (fl_retrytimes fl) addrs req) (\<lambda>r. pureO (checked r))"

definition call_any :: "'x rpc_net \<Rightarrow> fs_flags \<Rightarrow> mds_request \<Rightarrow> ('x, mds_body) rpc_op" where
  "call_any net fl req = bindO (pureO (GetMDSAddrSlice fl)) (\<lambda>addrs. call_mds net fl addrs req)"

text \<open>An operation on an inode goes to the server of that inode.\<close>

definition at_endpoint :: "64 word \<Rightarrow> ('x, string list) rpc_op" where
  "at_endpoint inodeId s =
     (s, bindR (GetEndPoint (mdsRouter s) inodeId)
           (\<lambda>as. if as = [] then Inl (RawErr ''endpoint is null'') else Inr as))"

definition call_at :: "'x rpc_net \<Rightarrow> fs_flags \<Rightarrow> 64 word \<Rightarrow> mds_request \<Rightarrow> ('x, mds_body) rpc_op" where
  "call_at net fl inodeId req = bindO (at_endpoint inodeId) (\<lambda>as. call_mds net fl as req)"

fun mds_list_of :: "mds_body \<Rightarrow> mds list res" where
  "mds_list_of (MDSListBody l) = Inr l" | "mds_list_of _ = Inl GoPanic"
fun fs_infos_of :: "mds_body \<Rightarrow> fs_info list res" where
  "fs_infos_of (FsInfosBody l) = Inr l" | "fs_infos_of _ = Inl GoPanic"
fun fs_info_of :: "mds_body \<Rightarrow> fs_info res" where
  "fs_info_of (FsInfoBody i) = Inr i" | "fs_info_of _ = Inl GoPanic"
fun dentry_of :: "mds_body \<Rightarrow> dentry res" where
  "dentry_of (DentryBody d) = Inr d" | "dentry_of _ = Inl GoPanic"
fun dentries_of :: "mds_body \<Rightarrow> dentry list res" where
  "dentries_of (DentriesBody l) = Inr l" | "dentries_of _ = Inl GoPanic"
fun inode_of :: "mds_body \<Rightarrow> inode res" where
  "inode_of (InodeBody i) = Inr i" | "inode_of _ = Inl GoPanic"
fun quota_of :: "mds_body \<Rightarrow> quota res" where
  "quota_of (QuotaBody q) = Inr q" | "quota_of _ = Inl GoPanic"

definition GetMDSList :: "'x rpc_net \<Rightarrow> fs_flags \<Rightarrow> ('x, mds list) rpc_op" where
  "GetMDSList net fl = bindO (call_any net fl GetMDSListRequest) (\<lambda>b. pureO (mds_list_of b))"

definition SetFsInfo :: "fs_info \<Rightarrow> 'x rpc_state \<Rightarrow> 'x rpc_state" where
  "SetFsInfo i s = s\<lparr>fsMetaCache := AList.update (fi_FsId i) i (fsMetaCache s)\<rparr>"

definition ListFsInfo :: "'x rpc_net \<Rightarrow> fs_flags \<Rightarrow> ('x, fs_info list) rpc_op" where
  "ListFsInfo net fl =
     bindO (call_any net fl ListFsInfoRequest) (\<lambda>b. bindO (pureO (fs_infos_of b))
       (\<lambda>infos s. (fold SetFsInfo infos s, Inr infos)))"

definition GetFsInfo :: "'x rpc_net \<Rightarrow> fs_flags \<Rightarrow> 32 word \<Rightarrow> string \<Rightarrow> ('x, fs_info) rpc_op" where
  "GetFsInfo net fl fsId fsName s =
     (case map_of (fsMetaCache s) fsId of
        Some i \<Rightarrow> (s, Inr i)
      | None \<Rightarrow>
          bindO (call_any net fl (if fsId > 0 then GetFsInfoRequest fsId [] else GetFsInfoRequest 0 fsName))
            (\<lambda>b. bindO (pureO (fs_info_of b)) (\<lambda>i s. (SetFsInfo i s, Inr i))) s)"

definition GetFsId :: "'x rpc_net \<Rightarrow> fs_flags \<Rightarrow> ('x, 32 word) rpc_op" where
  "GetFsId net fl =
     bindO (pureO (GetFsInfoFlagValue fl)) (\<lambda>(fsId, fsName).
       if fsId = 0
       then bindO (GetFsInfo net fl 0 fsName)
              (\<lambda>i. pureO (if fi_FsId i = 0 then Inl (RawErr ''fsid is invalid'') else Inr (fi_FsId i)))
       else pureO (Inr fsId))"

definition GetFsName :: "'x rpc_net \<Rightarrow> fs_flags \<Rightarrow> ('x, string) rpc_op" where
  "GetFsName net fl =
     bindO (pureO (GetFsInfoFlagValue fl)) (\<lambda>(fsId, fsName).
       if fsName = []
       then bindO (GetFsInfo net fl fsId [])
              (\<lambda>i. pureO (if fi_FsName i = [] then Inl (RawErr ''fsName is invalid'') else Inr (fi_FsName i)))
       else pureO (Inr fsName))"

definition GetFsEpochByFsInfo :: "fs_info \<Rightarrow> 64 word" where
  "GetFsEpochByFsInfo i = pp_Epoch (fi_PartitionPolicy i)"

definition GetFsEpochByFsId :: "'x rpc_net \<Rightarrow> fs_flags \<Rightarrow> 32 word \<Rightarrow> ('x, 64 word) rpc_op" where
  "GetFsEpochByFsId net fl fsId = bindO (GetFsInfo net fl fsId []) (\<lambda>i. pureO (Inr (GetFsEpochByFsInfo i)))"

definition InitFsMDSRouter :: "'x rpc_net \<Rightarrow> fs_flags \<Rightarrow> 32 word \<Rightarrow> ('x, unit) rpc_op" where
  "InitFsMDSRouter net fl fsId =
     bindO (GetFsInfo net fl fsId []) (\<lambda>i. bindO (GetMDSList net fl) (\<lambda>ms s.
       (s\<lparr>mdsRouter := Some (fst (router_Init (NewMDSRouter (pp_Type (fi_PartitionPolicy i))) ms (fi_PartitionPolicy i)))\<rparr>,
        Inr ())))"

definition with_epoch :: "64 word \<Rightarrow> req_context" where
  "with_epoch epoch = \<lparr>rc_Epoch = epoch, rc_IsBypassCache = False\<rparr>"

definition GetDentry :: "'x rpc_net \<Rightarrow> fs_flags \<Rightarrow> 32 word \<Rightarrow> 64 word \<Rightarrow> string \<Rightarrow> 64 word \<Rightarrow> ('x, dentry) rpc_op" where
  "GetDentry net fl fsId parentId name epoch =
     bindO (call_at net fl parentId (GetDentryRequest (with_epoch epoch) fsId parentId name)) (\<lambda>b. pureO (dentry_of b))"

definition DeleteFile :: "'x rpc_net \<Rightarrow> fs_flags \<Rightarrow> 32 word \<Rightarrow> 64 word \<Rightarrow> string \<Rightarrow> 64 word \<Rightarrow> ('x, unit) rpc_op" where
  "DeleteFile net fl fsId parentId name epoch =
     bindO (call_at net fl parentId (UnLinkRequest (with_epoch epoch) fsId parentId name)) (\<lambda>b. pureO (Inr ()))"

definition DeleteDirectory :: "'x rpc_net \<Rightarrow> fs_flags \<Rightarrow> 32 word \<Rightarrow> 64 word \<Rightarrow> string \<Rightarrow> 64 word \<Rightarrow> ('x, unit) rpc_op" where
  "DeleteDirectory net fl fsId parentId name epoch =
     bindO (call_at net fl parentId (RmDirRequest (with_epoch epoch) fsId parentId name)) (\<lambda>b. pureO (Inr ()))"

unbundle bit_operations_syntax

definition IsDir :: "64 word \<Rightarrow> bool" where "IsDir inodeId \<longleftrightarrow> inodeId AND 1 = 1"
definition IsFile :: "64 word \<Rightarrow> bool" where "IsFile inodeId \<longleftrightarrow> inodeId AND 1 = 0"

definition GetInode :: "'x rpc_net \<Rightarrow> fs_flags \<Rightarrow> 32 word \<Rightarrow> 64 word \<Rightarrow> 64 word \<Rightarrow> 64 word \<Rightarrow> ('x, inode) rpc_op" where
  "GetInode net fl fsId inodeId parent epoch =
     bindO (call_at net fl (if IsFile inodeId \<and> parent > 0 then parent else inodeId)
              (GetInodeRequest \<lparr>rc_Epoch = epoch, rc_IsBypassCache = IsFile inodeId \<and> parent = 0\<rparr> fsId inodeId))
       (\<lambda>b. pureO (inode_of b))"

definition ListDentry :: "'x rpc_net \<Rightarrow> fs_flags \<Rightarrow> 32 word \<Rightarrow> 64 word \<Rightarrow> 64 word \<Rightarrow> ('x, dentry list) rpc_op" where
  "ListDentry net fl fsId inodeId epoch =
     bindO (call_at net fl inodeId (ListDentryRequest (with_epoch epoch) fsId inodeId)) (\<lambda>b. pureO (dentries_of b))"

abbreviation ROOTINODEID :: "64 word" where "ROOTINODEID \<equiv> 1"

text \<open>\<open>GetDirPathInodeId\<close>: the loop cuts the path at its first slash and goes on with the rest; its
  turns are the components of the path, of which the empty ones do nothing.\<close>

fun path_turns :: "'x rpc_net \<Rightarrow> fs_flags \<Rightarrow> 32 word \<Rightarrow> 64 word \<Rightarrow> string list \<Rightarrow> 64 word \<Rightarrow> ('x, 64 word) rpc_op" where
  "path_turns net fl fsId epoch [] inodeId = pureO (Inr inodeId)"
| "path_turns net fl fsId epoch (name # names) inodeId =
     (if name = [] then path_turns net fl fsId epoch names inodeId
      else bindO (GetDentry net fl fsId inodeId name epoch) (\<lambda>d.
             if de_Type d \<noteq> FileType_DIRECTORY then pureO (Inl (RawErr ''ENOTDIR''))
             else path_turns net fl fsId epoch names (de_Ino d)))"

definition GetDirPathInodeId :: "'x rpc_net \<Rightarrow> fs_flags \<Rightarrow> 32 word \<Rightarrow> string \<Rightarrow> 64 word \<Rightarrow> ('x, 64 word) rpc_op" where
  "GetDirPathInodeId net fl fsId path epoch =
     (if path = ''/'' then pureO (Inr ROOTINODEID)
      else path_turns net fl fsId epoch (split_on (CHR ''/'') path) ROOTINODEID)"

text \<open>\<open>GetInodePath\<close>: from the inode to its first parent, until the root; it does not return when it
  never reaches the root.  An inode that its parent does not list adds no name.\<close>

definition show_ino :: "64 word \<Rightarrow> string" where
  "show_ino i = itoa (uint i)"

partial_function (option) inode_path_loop ::
  "'x rpc_net \<Rightarrow> fs_flags \<Rightarrow> 32 word \<Rightarrow> 64 word \<Rightarrow> 64 word \<Rightarrow> string list \<Rightarrow> string list \<Rightarrow> 'x rpc_state \<Rightarrow>
   ('x rpc_state \<times> (string list \<times> string list) res) option" where
  "inode_path_loop net fl fsId epoch inodeId names inodes s =
     (if inodeId = ROOTINODEID then Some (s, Inr (names, inodes))
      else (case GetInode net fl fsId inodeId 0 epoch s of
              (s1, Inl e) \<Rightarrow> Some (s1, Inl e)
            | (s1, Inr i) \<Rightarrow>
                (case in_Parents i of
                   [] \<Rightarrow> Some (s1, Inl GoPanic)
                 | parentId # _ \<Rightarrow>
                     (case ListDentry net fl fsId parentId epoch s1 of
                        (s2, Inl e) \<Rightarrow> Some (s2, Inl e)
                      | (s2, Inr entries) \<Rightarrow>
                          (case find (\<lambda>e. de_Ino e = inodeId) entries of
                             None \<Rightarrow> inode_path_loop net fl fsId epoch parentId names inodes s2
                           | Some e \<Rightarrow> inode_path_loop net fl fsId epoch parentId (names @ [de_Name e]) (inodes @ [show_ino inodeId]) s2)))))"

definition GetInodePath ::
  "'x rpc_net \<Rightarrow> fs_flags \<Rightarrow> 32 word \<Rightarrow> 64 word \<Rightarrow> 64 word \<Rightarrow> 'x rpc_state \<Rightarrow> ('x rpc_state \<times> (string \<times> string) res) option" where
  "GetInodePath net fl fsId inodeId epoch s =
     (if inodeId = ROOTINODEID then Some (s, Inr (''/'', show_ino ROOTINODEID))
      else map_option (map_prod (\<lambda>s. s) (\<lambda>r. bindR r (\<lambda>(names, inodes).
             if names = [] then Inr ([], [])
             else Inr (path_join (rev (names @ [''/''])), path_join (rev (inodes @ [show_ino ROOTINODEID]))))))
           (inode_path_loop net fl fsId epoch inodeId [] [] s))"

section \<open>The frame of the commands\<close>

text \<open>The commands on directories start with the epoch and the router of the file system, and send
  their own request to the server of the directory; unlike the operations above they do not look
  whether that server is known.  In JSON format a command reports an error in its output and returns
  none.\<close>

definition open_fs :: "'x rpc_net \<Rightarrow> fs_flags \<Rightarrow> 32 word \<Rightarrow> ('x, 64 word) rpc_op" where
  "open_fs net fl fsId =
     bindO (GetFsEpochByFsId net fl fsId) (\<lambda>epoch. bindO (InitFsMDSRouter net fl fsId) (\<lambda>_. pureO (Inr epoch)))"

definition call_server :: "'x rpc_net \<Rightarrow> fs_flags \<Rightarrow> 64 word \<Rightarrow> mds_request \<Rightarrow> ('x, mds_body) rpc_op" where
  "call_server net fl inodeId req =
     bindO (\<lambda>s. (s, GetEndPoint (mdsRouter s) inodeId)) (\<lambda>as. call_mds net fl as req)"

fun reported :: "bool \<Rightarrow> 'a res \<Rightarrow> unit res" where
  "reported json (Inr x) = Inr ()"
| "reported json (Inl e) = (if json \<and> e \<noteq> GoPanic then Inr () else Inl e)"

definition output_of :: "bool \<Rightarrow> ('x, 'a) rpc_op \<Rightarrow> ('x, unit) rpc_op" where
  "output_of json m s = (case m s of (s1, r) \<Rightarrow> (s1, reported json r))"

lemma call_server_panic:
  "GetEndPoint (mdsRouter s) i = Inr [] \<Longrightarrow> snd (call_server net fl i req s) = Inl GoPanic"
  by (simp add: call_server_def bindO_def call_mds_def GetRpcResponse_def)

end
