(* ===== verification/Mds_Spec.thy ===== *)
theory Mds_Spec
  imports Mds_Rpc
begin

text \<open>
  What the client of the metadata servers promises: how often it asks and whose answer it returns,
  and that looking up a path and naming an inode are inverse to each other on a directory tree that
  does not change.
\<close>

section \<open>Attempts and answers\<close>

text \<open>The network with a record of the answers that the servers gave.\<close>

definition traced :: "'x rpc_net \<Rightarrow> ('x \<times> mds_response res list) rpc_net" where
  "traced net =
     \<lparr>dial = (\<lambda>a (x, ts). case dial net a x of (x1, r) \<Rightarrow> ((x1, ts), r)),
      stub = (\<lambda>c req (x, ts). case stub net c req x of (x1, r) \<Rightarrow> ((x1, ts @ [r]), r))\<rparr>"

definition asks_again :: "mds_response res \<Rightarrow> bool" where
  "asks_again t = (case t of Inl e \<Rightarrow> True | Inr r \<Rightarrow> CheckRpcNeedRetry r)"

definition answer_of :: "mds_response res \<Rightarrow> mds_response res" where
  "answer_of t = (case t of Inl e \<Rightarrow> Inl (Ec ERR_RPC_FAILED) | Inr r \<Rightarrow> Inr r)"

definition attempts :: "nat \<Rightarrow> mds_response res list \<Rightarrow> mds_response res \<Rightarrow> bool" where
  "attempts n ts r \<longleftrightarrow>
     ts \<noteq> [] \<and> length ts \<le> Suc n \<and> (\<forall>t \<in> set (butlast ts). asks_again t) \<and>
     (asks_again (last ts) \<longrightarrow> length ts = Suc n) \<and> r = answer_of (last ts)"

lemma dial_loop_traced: "dial_loop (traced net) a n (x, ts) = (x', r) \<Longrightarrow> snd x' = ts"
proof (induction n arbitrary: x ts)
  case 0
  then show ?case by (auto simp: traced_def split: prod.splits)
next
  case (Suc n)
  obtain x1 r1 where "dial net a x = (x1, r1)" by fastforce
  then show ?case using Suc by (cases r1) (auto simp: traced_def)
qed

lemma attempts_again:
  assumes "attempts n us r" "asks_again t"
  shows "attempts (Suc n) (t # us) r"
  using assms by (auto simp: attempts_def)

lemma stub_loop_traced:
  "stub_loop (traced net) c req n (x, ts) = (x', r) \<Longrightarrow> \<exists>us. snd x' = ts @ us \<and> attempts n us r"
proof (induction n arbitrary: x ts)
  case 0
  obtain x1 r1 where "stub net c req x = (x1, r1)" by fastforce
  then show ?case using 0
    by (intro exI [of _ "[r1]"]) (auto simp: traced_def attempts_def answer_of_def split: sum.splits)
next
  case (Suc n)
  obtain x1 r1 where st: "stub net c req x = (x1, r1)" by fastforce
  then have tr: "stub (traced net) c req (x, ts) = ((x1, ts @ [r1]), r1)" by (simp add: traced_def)
  show ?case
  proof (cases "asks_again r1")
    case True
    then have "stub_loop (traced net) c req n (x1, ts @ [r1]) = (x', r)"
      using Suc.prems tr by (auto simp: asks_again_def split: sum.splits)
    from Suc.IH [OF this] obtain us where "snd x' = (ts @ [r1]) @ us" "attempts n us r" by blast
    then show ?thesis using attempts_again [OF _ True] by (intro exI [of _ "r1 # us"]) simp
  next
    case False
    then show ?thesis
      using Suc.prems tr
      by (intro exI [of _ "[r1]"]) (auto simp: asks_again_def attempts_def answer_of_def split: sum.splits)
  qed
qed

lemma GetConnection_traced:
  "GetConnection (traced net) a n s = (s', r) \<Longrightarrow> snd (net_state s') = snd (net_state s)"
  by (auto simp: GetConnection_def split: list.splits prod.splits dest: dial_loop_traced [where ts = "snd (net_state s)" and x = "fst (net_state s)", simplified])

lemma rpc_addrs_traced:
  "rpc_addrs (traced net) n req addrs result s = (s', r) \<Longrightarrow> snd (net_state s) = [] \<Longrightarrow>
   snd (net_state s') = [] \<and> r = (if addrs = [] then (case result of None \<Rightarrow> Inl GoPanic | Some r \<Rightarrow> r) else Inl (Ec ERR_RPC_FAILED)) \<or>
   attempts n (snd (net_state s')) r"
proof (induction addrs arbitrary: result s)
  case (Cons a addrs)
  obtain s1 r1 where g: "GetConnection (traced net) a n s = (s1, r1)" by fastforce
  have s1: "snd (net_state s1) = []" using GetConnection_traced [OF g] Cons.prems(2) by simp
  show ?case
  proof (cases r1)
    case (Inl e)
    then have "rpc_addrs (traced net) n req addrs (Some (Inl (Ec ERR_RPC_FAILED))) s1 = (s', r)"
      using Cons.prems(1) g by simp
    from Cons.IH [OF this s1] show ?thesis by (auto split: if_splits)
  next
    case (Inr c)
    obtain x2 r2 where st: "stub_loop (traced net) c req n (net_state s1) = (x2, r2)" by fastforce
    moreover obtain x where "net_state s1 = (x, [])" using s1 by (metis prod.exhaust_sel)
    ultimately have "attempts n (snd x2) r2" using stub_loop_traced [of net c req n x "[]"] by simp
    then show ?thesis using Cons.prems(1) g Inr st by (auto simp: PutConnection_def)
  qed
qed simp

text \<open>
  C22: an answer of the client: with no address it panics; when no address can be reached the error
  is \<open>ERR_RPC_FAILED\<close> and no request is sent; otherwise at most one request more than there are
  retries is sent, all but the last one failed or got an error code that asks to try again, the last
  one did not unless the retries are used up, and its answer is the result.
\<close>

theorem rpc_outcome:
  assumes "GetRpcResponse (traced net) retries addrs req s = (s', r)" "snd (net_state s) = []"
  shows "snd (net_state s') = [] \<and> r = (if addrs = [] then Inl GoPanic else Inl (Ec ERR_RPC_FAILED)) \<or>
    attempts retries (snd (net_state s')) r"
  using rpc_addrs_traced [of net retries req addrs None s s' r] assms by (auto simp: GetRpcResponse_def split: if_splits)

section \<open>Servers that do not change\<close>

text \<open>An operation that keeps the router and answers \<open>v\<close>.\<close>

definition reads :: "MDSRouter \<Rightarrow> ('x, 'a) rpc_op \<Rightarrow> 'a res \<Rightarrow> bool" where
  "reads r f v \<longleftrightarrow> (\<forall>s. mdsRouter s = Some r \<longrightarrow> (\<exists>s'. mdsRouter s' = Some r \<and> f s = (s', v)))"

lemma readsE:
  assumes "reads r f v" "mdsRouter s = Some r"
  obtains s' where "mdsRouter s' = Some r" "f s = (s', v)"
  using assms by (auto simp: reads_def)

lemma reads_pure [simp]: "reads r (pureO v) v"
  by (simp add: reads_def pureO_def)

lemma reads_bind:
  fixes m :: "('x, 'a) rpc_op"
  assumes "reads r m v" "\<And>a. v = Inr a \<Longrightarrow> reads r (f a) (g a)"
  shows "reads r (bindO m f) (bindR v g)"
  unfolding reads_def
proof (intro allI impI)
  fix s :: "'x rpc_state"
  assume s: "mdsRouter s = Some r"
  obtain s1 where s1: "mdsRouter s1 = Some r" "m s = (s1, v)" using readsE [OF assms(1) s] .
  show "\<exists>s'. mdsRouter s' = Some r \<and> bindO m f s = (s', bindR v g)"
  proof (cases v)
    case (Inr a)
    then show ?thesis using assms(2) [OF Inr] s1 by (auto simp: reads_def bindO_def)
  qed (use s1 in \<open>simp add: bindO_def\<close>)
qed

text \<open>A directory tree: what each directory lists.\<close>

type_synonym dir_tree = "64 word \<Rightarrow> dentry list"

text \<open>The servers answer from the tree: an entry that is listed can be looked up by its name, a
  directory is listed, and the first parent of a listed inode is the directory that lists it.\<close>

definition serves :: "MDSRouter \<Rightarrow> 'x rpc_net \<Rightarrow> fs_flags \<Rightarrow> 32 word \<Rightarrow> 64 word \<Rightarrow> dir_tree \<Rightarrow> bool" where
  "serves r net fl fsId epoch tree \<longleftrightarrow>
     (\<forall>p. reads r (ListDentry net fl fsId p epoch) (Inr (tree p))) \<and>
     (\<forall>p. \<forall>d \<in> set (tree p). reads r (GetDentry net fl fsId p (de_Name d) epoch) (Inr d)) \<and>
     (\<forall>p. \<forall>d \<in> set (tree p). \<exists>i ps. reads r (GetInode net fl fsId (de_Ino d) 0 epoch) (Inr i) \<and> in_Parents i = p # ps)"

text \<open>A way down from a directory: entries that are directories, each listed once in the one
  before it, none of them the root.\<close>

fun way :: "dir_tree \<Rightarrow> 64 word \<Rightarrow> dentry list \<Rightarrow> bool" where
  "way tree p [] \<longleftrightarrow> True"
| "way tree p (d # ds) \<longleftrightarrow>
     d \<in> set (tree p) \<and> de_Type d = FileType_DIRECTORY \<and> de_Ino d \<noteq> ROOTINODEID \<and>
     (\<forall>d' \<in> set (tree p). de_Ino d' = de_Ino d \<longrightarrow> d' = d) \<and> way tree (de_Ino d) ds"

fun end_of :: "64 word \<Rightarrow> dentry list \<Rightarrow> 64 word" where
  "end_of p [] = p"
| "end_of p (d # ds) = end_of (de_Ino d) ds"

definition plain_name :: "string \<Rightarrow> bool" where
  "plain_name n \<longleftrightarrow> n \<noteq> [] \<and> CHR ''/'' \<notin> set n \<and> n \<noteq> ''.'' \<and> n \<noteq> ''..''"

lemma end_of_snoc [simp]: "end_of p (ds @ [d]) = de_Ino d"
  by (induction ds arbitrary: p) simp_all

lemma way_snoc: "way tree p (ds @ [d]) \<longleftrightarrow> way tree p ds \<and> way tree (end_of p ds) [d]"
  by (induction ds arbitrary: p) auto

lemma path_turns_way:
  assumes "serves r net fl fsId epoch tree" "way tree p ds" "\<forall>d \<in> set ds. plain_name (de_Name d)"
  shows "reads r (path_turns net fl fsId epoch (map de_Name ds) p) (Inr (end_of p ds))"
  using assms(2,3)
proof (induction ds arbitrary: p)
  case (Cons d ds)
  have look: "reads r (GetDentry net fl fsId p (de_Name d) epoch) (Inr d)"
    using assms(1) Cons.prems(1) by (auto simp: serves_def)
  have "reads r (bindO (GetDentry net fl fsId p (de_Name d) epoch)
      (\<lambda>d. if de_Type d \<noteq> FileType_DIRECTORY then pureO (Inl (RawErr ''ENOTDIR''))
        else path_turns net fl fsId epoch (map de_Name ds) (de_Ino d)))
      (bindR (Inr d) (\<lambda>d. Inr (end_of (de_Ino d) ds)))"
    using Cons by (intro reads_bind [OF look]) auto
  then show ?case using Cons.prems(2) by (simp add: plain_name_def)
qed simp

lemma find_listed:
  assumes "d \<in> set l" "\<forall>d' \<in> set l. de_Ino d' = de_Ino d \<longrightarrow> d' = d"
  shows "find (\<lambda>e. de_Ino e = de_Ino d) l = Some d"
  using assms by (induction l) auto

lemma inode_path_way:
  assumes "serves r net fl fsId epoch tree" "way tree ROOTINODEID ds" "mdsRouter s = Some r"
  shows "\<exists>s'. inode_path_loop net fl fsId epoch (end_of ROOTINODEID ds) names inodes s =
    Some (s', Inr (names @ rev (map de_Name ds), inodes @ rev (map (\<lambda>d. show_ino (de_Ino d)) ds)))"
  using assms(2,3)
proof (induction ds arbitrary: names inodes s rule: rev_induct)
  case Nil
  show ?case by (subst inode_path_loop.simps) simp
next
  case (snoc d ds)
  let ?p = "end_of ROOTINODEID ds"
  have w: "way tree ROOTINODEID ds" and d: "d \<in> set (tree ?p)" "de_Ino d \<noteq> ROOTINODEID"
      "\<forall>d' \<in> set (tree ?p). de_Ino d' = de_Ino d \<longrightarrow> d' = d"
    using snoc.prems(1) unfolding way_snoc by simp_all
  obtain i ps where i: "reads r (GetInode net fl fsId (de_Ino d) 0 epoch) (Inr i)" "in_Parents i = ?p # ps"
    using assms(1) d(1) unfolding serves_def by blast
  obtain s1 where s1: "mdsRouter s1 = Some r" "GetInode net fl fsId (de_Ino d) 0 epoch s = (s1, Inr i)"
    using readsE [OF i(1) snoc.prems(2)] .
  have "reads r (ListDentry net fl fsId ?p epoch) (Inr (tree ?p))" using assms(1) by (simp add: serves_def)
  then obtain s2 where s2: "mdsRouter s2 = Some r" "ListDentry net fl fsId ?p epoch s1 = (s2, Inr (tree ?p))"
    using readsE s1(1) by blast
  have "inode_path_loop net fl fsId epoch (de_Ino d) names inodes s =
      inode_path_loop net fl fsId epoch ?p (names @ [de_Name d]) (inodes @ [show_ino (de_Ino d)]) s2"
    using d(2) s1(2) s2(2) i(2) find_listed [OF d(1,3)] by (subst inode_path_loop.simps) simp
  then show ?case
    using snoc.IH [OF w s2(1), of "names @ [de_Name d]" "inodes @ [show_ino (de_Ino d)]"] by simp
qed

section \<open>Paths\<close>

lemma split_on_join:
  "ns \<noteq> [] \<Longrightarrow> \<forall>n \<in> set ns. CHR ''/'' \<notin> set n \<Longrightarrow> split_on (CHR ''/'') (join ''/'' ns) = ns"
  by (induction ns rule: induct_list012) (simp_all add: split_on_append split_on_join_free)

lemma clean_step_plain: "\<forall>n \<in> set ns. plain_name n \<Longrightarrow> clean_step b st ns = rev st @ ns"
  by (induction ns arbitrary: st) (simp_all add: plain_name_def)

lemma path_join_root:
  assumes "ns \<noteq> []" "\<forall>n \<in> set ns. plain_name n"
  shows "path_join (''/'' # ns) = CHR ''/'' # join ''/'' ns"
proof -
  have ne: "filter (\<lambda>p. p \<noteq> []) ns = ns" using assms(2) by (auto simp: filter_id_conv plain_name_def)
  have j: "join ''/'' (''/'' # ns) = CHR ''/'' # CHR ''/'' # join ''/'' ns" using assms(1) by (cases ns) simp_all
  have "split_on (CHR ''/'') (join ''/'' (''/'' # ns)) = [] # [] # ns"
    using split_on_join [OF assms(1)] assms(2) unfolding j by (simp add: plain_name_def)
  then show ?thesis
    using clean_step_plain [OF assms(2), of True "[]"]
    by (simp add: path_join_def path_clean_def ne j has_prefix_def Let_def)
qed

text \<open>
  C23: on a directory tree that does not change, a path of plain names leads to the inode at its
  end, and naming that inode returns, with the same path.
\<close>

theorem path_roundtrip:
  assumes "serves r net fl fsId epoch tree" "way tree ROOTINODEID ds" "ds \<noteq> []"
    "\<forall>d \<in> set ds. plain_name (de_Name d)" "mdsRouter s = Some r"
  shows "\<exists>s' s'' inodes.
    GetDirPathInodeId net fl fsId (CHR ''/'' # join ''/'' (map de_Name ds)) epoch s = (s', Inr (end_of ROOTINODEID ds)) \<and>
    GetInodePath net fl fsId (end_of ROOTINODEID ds) epoch s' =
      Some (s'', Inr (CHR ''/'' # join ''/'' (map de_Name ds), inodes))"
proof -
  let ?ns = "map de_Name ds"
  have plain: "\<forall>n \<in> set ?ns. plain_name n" using assms(4) by simp
  have ns: "?ns \<noteq> []" using assms(3) by simp
  have "join ''/'' ?ns \<noteq> []" using plain ns by (cases ds; cases "tl ds") (auto simp: plain_name_def)
  moreover have "split_on (CHR ''/'') (CHR ''/'' # join ''/'' ?ns) = [] # ?ns"
    using split_on_join [OF ns] plain by (simp add: plain_name_def)
  ultimately have "GetDirPathInodeId net fl fsId (CHR ''/'' # join ''/'' ?ns) epoch = path_turns net fl fsId epoch ?ns ROOTINODEID"
    by (simp add: GetDirPathInodeId_def)
  then obtain s' where s': "mdsRouter s' = Some r"
      "GetDirPathInodeId net fl fsId (CHR ''/'' # join ''/'' ?ns) epoch s = (s', Inr (end_of ROOTINODEID ds))"
    using readsE [OF path_turns_way [OF assms(1,2,4)] assms(5)] by metis
  have "end_of ROOTINODEID ds \<noteq> ROOTINODEID"
    using assms(2,3) by (cases ds rule: rev_cases) (auto simp: way_snoc)
  moreover obtain s'' where "inode_path_loop net fl fsId epoch (end_of ROOTINODEID ds) [] [] s' =
      Some (s'', Inr (rev ?ns, rev (map (\<lambda>d. show_ino (de_Ino d)) ds)))"
    using inode_path_way [OF assms(1,2) s'(1), of "[]" "[]"] by auto
  ultimately show ?thesis
    using s'(2) path_join_root [OF ns plain] assms(3) by (auto simp: GetInodePath_def)
qed

section \<open>A server that answers from a table\<close>

definition static_net :: "(mds_request \<Rightarrow> mds_response) \<Rightarrow> unit rpc_net" where
  "static_net ans = \<lparr>dial = (\<lambda>a x. (x, Inr 0)), stub = (\<lambda>c req x. (x, Inr (ans req)))\<rparr>"

lemma static_stub: "\<not> CheckRpcNeedRetry (ans req) \<Longrightarrow> stub_loop (static_net ans) c req n x = (x, Inr (ans req))"
  by (cases n) (simp_all add: static_net_def)

lemma static_rpc:
  assumes "\<not> CheckRpcNeedRetry (ans req)"
  obtains s' where "mdsRouter s' = mdsRouter s" "GetRpcResponse (static_net ans) n (a # as) req s = (s', Inr (ans req))"
proof -
  have "dial_loop (static_net ans) a n (net_state s) = (net_state s, Inr 0)" by (cases n) (simp_all add: static_net_def)
  then obtain s1 c where "GetConnection (static_net ans) a n s = (s1, Inr c)" "mdsRouter s1 = mdsRouter s"
    by (cases "pooled s a") (auto simp: GetConnection_def)
  then show thesis
    using static_stub [of ans req c n "net_state s1"] assms
    by (intro that [of "PutConnection a c (s1\<lparr>net_state := ()\<rparr>)"]) (auto simp: GetRpcResponse_def PutConnection_def)
qed

lemma static_call:
  assumes "\<not> CheckRpcNeedRetry (ans req)" "router_GetMDS r i = Inr (Some m)"
  shows "reads r (call_at (static_net ans) fl i req) (checked (ans req))"
  unfolding reads_def
proof (intro allI impI)
  fix s :: "unit rpc_state"
  assume r: "mdsRouter s = Some r"
  obtain s' where "mdsRouter s' = mdsRouter s"
      "GetRpcResponse (static_net ans) (fl_retrytimes fl) [mds_address m] req s = (s', Inr (ans req))"
    using static_rpc [of ans req] assms(1) by blast
  then show "\<exists>s'. mdsRouter s' = Some r \<and> call_at (static_net ans) fl i req s = (s', checked (ans req))"
    using r assms(2) by (auto simp: call_at_def at_endpoint_def call_mds_def bindO_def pureO_def GetEndPoint_def endpoint_of_def)
qed

definition demo_dir :: dentry where
  "demo_dir = \<lparr>de_Name = ''d'', de_Ino = 3, de_Parent = 1, de_Type = FileType_DIRECTORY\<rparr>"

definition demo_sub :: dentry where
  "demo_sub = \<lparr>de_Name = ''e'', de_Ino = 5, de_Parent = 3, de_Type = FileType_DIRECTORY\<rparr>"

definition demo_tree :: dir_tree where
  "demo_tree p = (if p = 1 then [demo_dir] else if p = 3 then [demo_sub] else [])"

fun demo_answer :: "mds_request \<Rightarrow> mds_response" where
  "demo_answer (ListDentryRequest c f p) = \<lparr>rs_Error = Errno_OK, rs_Body = DentriesBody (demo_tree p)\<rparr>"
| "demo_answer (GetDentryRequest c f p n) = \<lparr>rs_Error = Errno_OK, rs_Body = DentryBody (if p = 1 then demo_dir else demo_sub)\<rparr>"
| "demo_answer (GetInodeRequest c f i) = \<lparr>rs_Error = Errno_OK,
     rs_Body = InodeBody \<lparr>in_Ino = i, in_Length = 0, in_Nlink = 2, in_Parents = [if i = 3 then 1 else 3]\<rparr>\<rparr>"
| "demo_answer _ = \<lparr>rs_Error = EREQUEST_FULL, rs_Body = NoBody\<rparr>"

definition demo_router :: MDSRouter where
  "demo_router = MonoMDSRouter \<lparr>mono_mds = Some (hd demo_servers), mono_mdsMeta = []\<rparr>"

definition demo_flags :: fs_flags where
  "demo_flags = \<lparr>fl_fsid = Some 1, fl_fsname = None, fl_mdsaddr = ''10.0.0.1:6900'', fl_retrytimes = 2\<rparr>"

definition demo_state :: "unit rpc_state" where
  "demo_state = \<lparr>connections = [], fsMetaCache = [], mdsRouter = Some demo_router, net_state = ()\<rparr>"

lemma demo_reads:
  assumes "rs_Error (demo_answer req) = Errno_OK"
  shows "reads demo_router (bindO (call_at (static_net demo_answer) demo_flags i req) (\<lambda>b. pureO (f b)))
    (f (rs_Body (demo_answer req)))"
proof -
  have "\<not> CheckRpcNeedRetry (demo_answer req)" using assms by (simp add: CheckRpcNeedRetry_def)
  moreover have "router_GetMDS demo_router i = Inr (Some (hd demo_servers))" by (simp add: demo_router_def mono_GetMDS_def)
  ultimately have "reads demo_router (bindO (call_at (static_net demo_answer) demo_flags i req) (\<lambda>b. pureO (f b)))
      (bindR (checked (demo_answer req)) f)"
    by (intro reads_bind static_call) auto
  then show ?thesis using assms by (simp add: checked_def)
qed

lemma demo_serves: "serves demo_router (static_net demo_answer) demo_flags 1 1 demo_tree"
proof -
  have l: "reads demo_router (ListDentry (static_net demo_answer) demo_flags 1 p 1) (Inr (demo_tree p))" for p
    using demo_reads [of "ListDentryRequest (with_epoch 1) 1 p" p dentries_of] by (simp add: ListDentry_def)
  have g: "reads demo_router (GetDentry (static_net demo_answer) demo_flags 1 p n 1) (Inr (if p = 1 then demo_dir else demo_sub))" for p n
    using demo_reads [of "GetDentryRequest (with_epoch 1) 1 p n" p dentry_of] by (simp add: GetDentry_def)
  have i: "\<exists>x ps. reads demo_router (GetInode (static_net demo_answer) demo_flags 1 k 0 1) (Inr x) \<and>
      in_Parents x = (if k = 3 then 1 else 3) # ps" for k
    using demo_reads [of "GetInodeRequest \<lparr>rc_Epoch = 1, rc_IsBypassCache = IsFile k\<rparr> 1 k" k inode_of]
    by (intro exI conjI) (auto simp: GetInode_def)
  show ?thesis
    unfolding serves_def
    using l g [of 1] g [of 3] i [of 3] i [of 5] by (auto simp: demo_tree_def demo_dir_def demo_sub_def split: if_splits)
qed

lemma demo_way: "way demo_tree ROOTINODEID [demo_dir, demo_sub]"
  by (simp add: demo_tree_def demo_dir_def demo_sub_def)

theorem path_roundtrip_witness:
  "serves demo_router (static_net demo_answer) demo_flags 1 1 demo_tree \<and>
   (\<exists>s' s'' inodes.
     GetDirPathInodeId (static_net demo_answer) demo_flags 1 (CHR ''/'' # join ''/'' (map de_Name [demo_dir, demo_sub])) 1 demo_state =
       (s', Inr (end_of ROOTINODEID [demo_dir, demo_sub])) \<and>
     GetInodePath (static_net demo_answer) demo_flags 1 (end_of ROOTINODEID [demo_dir, demo_sub]) 1 s' =
       Some (s'', Inr (CHR ''/'' # join ''/'' (map de_Name [demo_dir, demo_sub]), inodes)))"
  using path_roundtrip [OF demo_serves demo_way, of demo_state] demo_serves
  by (simp add: demo_state_def plain_name_def demo_dir_def demo_sub_def)

theorem rpc_outcome_witness:
  "\<exists>s' r. GetRpcResponse (traced (static_net demo_answer)) 2 [''a''] GetMDSListRequest
       \<lparr>connections = [], fsMetaCache = [], mdsRouter = None, net_state = ((), [])\<rparr> = (s', r) \<and>
     (snd (net_state s') = [] \<and> r = (if [''a''] = [] then Inl GoPanic else Inl (Ec ERR_RPC_FAILED)) \<or>
      attempts 2 (snd (net_state s')) r)"
proof -
  let ?s = "\<lparr>connections = [], fsMetaCache = [], mdsRouter = None, net_state = ((), [])\<rparr> :: (unit \<times> mds_response res list) rpc_state"
  obtain s' r where "GetRpcResponse (traced (static_net demo_answer)) 2 [''a''] GetMDSListRequest ?s = (s', r)" by fastforce
  then show ?thesis using rpc_outcome [of "static_net demo_answer" 2 "[''a'']" GetMDSListRequest ?s s' r] by auto
qed

end
