(* ===== verification/Dir_Walk.thy ===== *)
theory Dir_Walk
  imports Mds_Rpc "HOL-Library.Multiset"
begin

text \<open>
  The concurrent walk over a directory tree that \<open>GetDirSummarySize\<close> (\<open>internal/rpc/operator.go\<close>)
  and \<open>deleteDirectoryAndData\<close> (\<open>cli/command/fs/subpath/delete.go\<close>) share: an invocation lists its
  directory and goes through the entries; for a directory among them it starts a goroutine when the
  channel \<open>concurrent\<close> has room, and otherwise calls itself; it waits for its goroutines before it
  returns; errors of goroutines arrive over a channel with room for one.

  \<^item> \<open>act\<close> is an invocation with everything it has started: not yet listed (\<open>Start\<close>), running with
    the entries that are left, the content of its error channel, the call it waits for and its
    goroutines (\<open>Run\<close>), or finished (\<open>Fin\<close>).
  \<^item> \<open>walk_step\<close> is one turn of one goroutine, whichever; \<open>select\<close> takes any case that is ready.  A
    turn of the loop up to its \<open>select\<close> is one step: its updates of shared state are atomic adds.
  \<^item> An invocation that returns early leaves its goroutines behind; they go on as orphans.
  \<^item> What a turn does with an entry and what an invocation does at its end are the fields of
    \<open>walker\<close>, on a shared state \<open>'s\<close>.

  The lemmas hold for every walker: a walk cannot get stuck, it ends, errors are never lost, and
  without an error every entry below the directory is visited exactly once.
\<close>

section \<open>The walk\<close>

record 's walker =
  w_list :: "64 word \<Rightarrow> dentry list res"
  w_visit :: "dentry \<Rightarrow> 's \<Rightarrow> 's \<times> unit res"
  w_leave :: "dentry \<Rightarrow> 's \<Rightarrow> 's \<times> unit res"

record 's walk_shared =
  ws_data :: 's
  ws_tokens :: nat
  ws_cancelled :: bool

datatype act =
    Start dentry
  | Run dentry "dentry list" "gerr option" "act option" "act list"
  | Fin dentry "unit res"

definition is_dir :: "dentry \<Rightarrow> bool" where
  "is_dir e \<longleftrightarrow> de_Type e = FileType_DIRECTORY"

definition keep_error :: "gerr option \<Rightarrow> unit res \<Rightarrow> gerr option" where
  "keep_error ch r = (case ch of Some e \<Rightarrow> Some e | None \<Rightarrow> (case r of Inl e \<Rightarrow> Some e | Inr _ \<Rightarrow> None))"

abbreviation cancel_error :: gerr where
  "cancel_error \<equiv> RawErr ''cancel for other goroutine error''"

inductive walk_step ::
  "'s walker \<Rightarrow> nat \<Rightarrow> 's walk_shared \<Rightarrow> act \<Rightarrow> 's walk_shared \<Rightarrow> act \<Rightarrow> act list \<Rightarrow> bool"
  for W :: "'s walker" and threads :: nat where
  list_ok: "w_list W (de_Ino d) = Inr es \<Longrightarrow> walk_step W threads s (Start d) s (Run d es None None []) []"
| list_err: "w_list W (de_Ino d) = Inl e \<Longrightarrow> walk_step W threads s (Start d) s (Fin d (Inl e)) []"
| visit_err: "w_visit W e (ws_data s) = (x, Inl err) \<Longrightarrow>
    walk_step W threads s (Run d (e # es) ch None cs) (s\<lparr>ws_data := x\<rparr>) (Fin d (Inl err)) cs"
| visit_other: "w_visit W e (ws_data s) = (x, Inr u) \<Longrightarrow> \<not> is_dir e \<Longrightarrow>
    walk_step W threads s (Run d (e # es) ch None cs) (s\<lparr>ws_data := x\<rparr>) (Run d es ch None cs) []"
| dir_error: "w_visit W e (ws_data s) = (x, Inr u) \<Longrightarrow> is_dir e \<Longrightarrow>
    walk_step W threads s (Run d (e # es) (Some err) None cs) (s\<lparr>ws_data := x, ws_cancelled := True\<rparr>) (Fin d (Inl err)) cs"
| dir_cancelled: "w_visit W e (ws_data s) = (x, Inr u) \<Longrightarrow> is_dir e \<Longrightarrow> ws_cancelled s \<Longrightarrow>
    walk_step W threads s (Run d (e # es) ch None cs) (s\<lparr>ws_data := x\<rparr>) (Fin d (Inl cancel_error)) cs"
| dir_spawn: "w_visit W e (ws_data s) = (x, Inr u) \<Longrightarrow> is_dir e \<Longrightarrow> ws_tokens s < threads \<Longrightarrow>
    walk_step W threads s (Run d (e # es) ch None cs) (s\<lparr>ws_data := x, ws_tokens := Suc (ws_tokens s)\<rparr>)
      (Run d es ch None (Start e # cs)) []"
| dir_call: "w_visit W e (ws_data s) = (x, Inr u) \<Longrightarrow> is_dir e \<Longrightarrow> \<not> ws_cancelled s \<Longrightarrow> \<not> ws_tokens s < threads \<Longrightarrow>
    walk_step W threads s (Run d (e # es) None None cs) (s\<lparr>ws_data := x\<rparr>) (Run d es None (Some (Start e)) cs) []"
| call_step: "walk_step W threads s a s' a' os \<Longrightarrow>
    walk_step W threads s (Run d es ch (Some a) cs) s' (Run d es ch (Some a') cs) os"
| call_ok: "walk_step W threads s (Run d es ch (Some (Fin d' (Inr u))) cs) s (Run d es ch None cs) []"
| call_err: "walk_step W threads s (Run d es ch (Some (Fin d' (Inl e))) cs) s (Fin d (Inl e)) cs"
| child_step: "walk_step W threads s a s' a' os \<Longrightarrow>
    walk_step W threads s (Run d es ch inl (as @ a # cs)) s' (Run d es ch inl (as @ a' # cs)) os"
| child_done: "walk_step W threads s (Run d es ch inl (as @ Fin d' r # cs)) (s\<lparr>ws_tokens := ws_tokens s - 1\<rparr>)
    (Run d es (keep_error ch r) inl (as @ cs)) []"
| end_error: "walk_step W threads s (Run d [] (Some e) None []) s (Fin d (Inl e)) []"
| end_leave: "w_leave W d (ws_data s) = (x, r) \<Longrightarrow>
    walk_step W threads s (Run d [] None None []) (s\<lparr>ws_data := x\<rparr>) (Fin d r) []"

record 's walk_conf =
  wc_shared :: "'s walk_shared"
  wc_root :: act
  wc_orphans :: "act list"

inductive conf_step :: "'s walker \<Rightarrow> nat \<Rightarrow> 's walk_conf \<Rightarrow> 's walk_conf \<Rightarrow> bool"
  for W :: "'s walker" and threads :: nat where
  root_step: "walk_step W threads s a s' a' new \<Longrightarrow>
    conf_step W threads \<lparr>wc_shared = s, wc_root = a, wc_orphans = os\<rparr> \<lparr>wc_shared = s', wc_root = a', wc_orphans = os @ new\<rparr>"
| orphan_step: "walk_step W threads s a s' a' new \<Longrightarrow>
    conf_step W threads \<lparr>wc_shared = s, wc_root = r, wc_orphans = xs @ a # ys\<rparr>
      \<lparr>wc_shared = s', wc_root = r, wc_orphans = (xs @ a' # ys) @ new\<rparr>"
| orphan_done: "conf_step W threads \<lparr>wc_shared = s, wc_root = r, wc_orphans = xs @ Fin d q # ys\<rparr>
      \<lparr>wc_shared = s\<lparr>ws_tokens := ws_tokens s - 1\<rparr>, wc_root = r, wc_orphans = xs @ ys\<rparr>"

definition walk_start :: "'s \<Rightarrow> dentry \<Rightarrow> 's walk_conf" where
  "walk_start x d = \<lparr>wc_shared = \<lparr>ws_data = x, ws_tokens = 0, ws_cancelled = False\<rparr>, wc_root = Start d, wc_orphans = []\<rparr>"

section \<open>A walk is never stuck\<close>

lemma keep_error_simps [simp]:
  "keep_error (Some e) r = Some e" "keep_error None (Inl e) = Some e" "keep_error None (Inr u) = None"
  "keep_error ch (Inr u) = ch"
  by (auto simp: keep_error_def split: option.splits)

lemma turn_possible: "\<exists>s' a' os. walk_step W threads s (Run d (e # es) ch None cs) s' a' os"
proof (cases "w_visit W e (ws_data s)")
  case (Pair x r)
  show ?thesis
  proof (cases r)
    case (Inl err)
    then show ?thesis using Pair by (blast intro: visit_err)
  next
    case (Inr u)
    then have v: "w_visit W e (ws_data s) = (x, Inr u)" using Pair by simp
    show ?thesis
    proof (cases "is_dir e")
      case True
      consider (error) err where "ch = Some err" | (cancelled) "ws_cancelled s" | (room) "ws_tokens s < threads"
        | (full) "ch = None" "\<not> ws_cancelled s" "\<not> ws_tokens s < threads"
        by blast
      then show ?thesis
      proof cases
        case error
        then show ?thesis using dir_error [OF v True] by blast
      next
        case cancelled
        then show ?thesis using dir_cancelled [OF v True] by blast
      next
        case room
        then show ?thesis using dir_spawn [OF v True] by blast
      next
        case full
        then show ?thesis using dir_call [OF v True] by blast
      qed
    next
      case False
      then show ?thesis using visit_other [OF v] by blast
    qed
  qed
qed

lemma walk_progress: "(\<exists>d r. a = Fin d r) \<or> (\<exists>s' a' os. walk_step W threads s a s' a' os)"
proof (induction a)
  case (Start d)
  then show ?case by (cases "w_list W (de_Ino d)") (blast intro: list_ok list_err)+
next
  case (Run d es ch inl cs)
  show ?case
  proof (cases inl)
    case (Some b)
    then have "(\<exists>d r. b = Fin d r) \<or> (\<exists>s' a' os. walk_step W threads s b s' a' os)" using Run(1) by simp
    then show ?thesis
    proof
      assume "\<exists>d r. b = Fin d r"
      then obtain d' r where b: "b = Fin d' r" by blast
      then show ?thesis using Some by (cases r) (blast intro: call_ok call_err)+
    qed (use Some in \<open>blast intro: call_step\<close>)
  next
    case None
    show ?thesis
    proof (cases es)
      case (Cons e es')
      then show ?thesis using None turn_possible by blast
    next
      case Nil
      show ?thesis
      proof (cases cs)
        case Nil': Nil
        show ?thesis
        proof (cases ch)
          case None': None
          obtain x r where "w_leave W d (ws_data s) = (x, r)" by fastforce
          then show ?thesis using None None' Nil Nil' by (blast intro: end_leave)
        qed (use None Nil Nil' in \<open>blast intro: end_error\<close>)
      next
        case (Cons c cs')
        then have "(\<exists>d r. c = Fin d r) \<or> (\<exists>s' a' os. walk_step W threads s c s' a' os)" using Run(2) by simp
        then show ?thesis
        proof (elim disjE exE)
          fix d' r assume "c = Fin d' r"
          then show ?thesis using Cons child_done [of W threads s d es ch inl "[]" d' r cs'] by auto
        next
          fix s' a' os assume "walk_step W threads s c s' a' os"
          then show ?thesis using Cons child_step [of W threads s c s' a' os d es ch inl "[]" cs'] by auto
        qed
      qed
    qed
  qed
qed simp

lemma conf_progress:
  assumes "\<nexists>d r. wc_root c = Fin d r"
  shows "\<exists>c'. conf_step W threads c c'"
proof -
  obtain s' a' os where "walk_step W threads (wc_shared c) (wc_root c) s' a' os"
    using walk_progress [of "wc_root c" W threads "wc_shared c"] assms by blast
  then show ?thesis using root_step [of W threads "wc_shared c" "wc_root c" s' a' os "wc_orphans c"] by (cases c) auto
qed

section \<open>What is left to do\<close>

text \<open>The tree below a directory, to a depth \<open>n\<close> that is enough for it (\<open>shallow\<close>): the entries in
  the order of a walk without goroutines.\<close>

fun shallow :: "'s walker \<Rightarrow> nat \<Rightarrow> 64 word \<Rightarrow> bool" where
  "shallow W 0 i \<longleftrightarrow> False"
| "shallow W (Suc n) i \<longleftrightarrow>
     (case w_list W i of Inl _ \<Rightarrow> True | Inr es \<Rightarrow> \<forall>e \<in> set es. is_dir e \<longrightarrow> shallow W n (de_Ino e))"

fun below :: "'s walker \<Rightarrow> nat \<Rightarrow> 64 word \<Rightarrow> dentry list" where
  "below W 0 i = []"
| "below W (Suc n) i =
     (case w_list W i of
        Inl _ \<Rightarrow> []
      | Inr es \<Rightarrow> concat (map (\<lambda>e. e # (if is_dir e then below W n (de_Ino e) else [])) es))"

definition turn_entries :: "'s walker \<Rightarrow> nat \<Rightarrow> dentry \<Rightarrow> dentry list" where
  "turn_entries W n e = e # (if is_dir e then below W n (de_Ino e) else [])"

lemma shallow_Suc: "shallow W n i \<Longrightarrow> shallow W (Suc n) i \<and> below W (Suc n) i = below W n i"
proof (induction W n i rule: shallow.induct)
  case (2 W n i)
  show ?case
  proof (cases "w_list W i")
    case (Inr es)
    have IH: "shallow W (Suc n) (de_Ino e) \<and> below W (Suc n) (de_Ino e) = below W n (de_Ino e)"
      if "e \<in> set es" "is_dir e" for e
      using 2 Inr that by simp
    have "shallow W (Suc (Suc n)) i"
      using IH Inr by (subst shallow.simps) simp
    moreover have "below W (Suc (Suc n)) i = below W (Suc n) i"
      using IH Inr by (subst (1 2) below.simps) (auto simp del: below.simps intro!: arg_cong [where f = concat] map_cong)
    ultimately show ?thesis by blast
  qed simp
qed simp

lemma shallow_listed:
  assumes "shallow W n i" "w_list W i = Inr es"
  shows "below W n i = concat (map (turn_entries W n) es)" "\<forall>e \<in> set es. is_dir e \<longrightarrow> shallow W n (de_Ino e)"
proof -
  obtain m where n: "n = Suc m" using assms(1) by (cases n) auto
  have sh: "shallow W m (de_Ino e)" if "e \<in> set es" "is_dir e" for e using assms n that by simp
  show "\<forall>e \<in> set es. is_dir e \<longrightarrow> shallow W n (de_Ino e)" using shallow_Suc [OF sh] n by blast
  have "below W (Suc m) (de_Ino e) = below W m (de_Ino e)" if "e \<in> set es" "is_dir e" for e
    using shallow_Suc [OF sh [OF that]] by blast
  then show "below W n i = concat (map (turn_entries W n) es)"
    using assms(2) unfolding n turn_entries_def
    by (subst below.simps) (auto simp del: below.simps intro!: arg_cong [where f = concat] map_cong)
qed

lemma below_unlisted: "w_list W i = Inl e \<Longrightarrow> below W n i = []"
  by (cases n) simp_all

fun fits :: "'s walker \<Rightarrow> nat \<Rightarrow> act \<Rightarrow> bool" where
  "fits W n (Start d) \<longleftrightarrow> shallow W n (de_Ino d)"
| "fits W n (Run d es ch inl cs) \<longleftrightarrow>
     (\<forall>e \<in> set es. is_dir e \<longrightarrow> shallow W n (de_Ino e)) \<and>
     (case inl of None \<Rightarrow> True | Some a \<Rightarrow> fits W n a) \<and> (\<forall>c \<in> set cs. fits W n c)"
| "fits W n (Fin d r) \<longleftrightarrow> True"

fun pend :: "'s walker \<Rightarrow> nat \<Rightarrow> act \<Rightarrow> dentry multiset" where
  "pend W n (Start d) = mset (below W n (de_Ino d))"
| "pend W n (Run d es ch inl cs) =
     mset (concat (map (turn_entries W n) es)) +
     (case inl of None \<Rightarrow> {#} | Some a \<Rightarrow> pend W n a) + sum_list (map (pend W n) cs)"
| "pend W n (Fin d r) = {#}"

fun nodes :: "act \<Rightarrow> nat" where
  "nodes (Start d) = 3"
| "nodes (Run d es ch inl cs) = 2 + (case inl of None \<Rightarrow> 0 | Some a \<Rightarrow> nodes a) + sum_list (map nodes cs)"
| "nodes (Fin d r) = 1"

definition weight :: "dentry \<Rightarrow> nat" where
  "weight e = (if is_dir e then 4 else 1)"

definition todo :: "'s walker \<Rightarrow> nat \<Rightarrow> act \<Rightarrow> nat" where
  "todo W n a = nodes a + sum_mset (image_mset weight (pend W n a))"

lemma pend_turn [simp]:
  "mset (turn_entries W n e) = add_mset e (if is_dir e then mset (below W n (de_Ino e)) else {#})"
  by (simp add: turn_entries_def)

lemma sum_mset_list: "sum_mset (image_mset f (sum_list (map g xs))) = sum_list (map (\<lambda>x. sum_mset (image_mset f (g x))) xs)"
  by (induction xs) simp_all

lemma todo_simps [simp]:
  "todo W n (Start d) = 3 + sum_list (map weight (below W n (de_Ino d)))"
  "todo W n (Run d es ch inl cs) =
     2 + sum_list (map (\<lambda>e. sum_list (map weight (turn_entries W n e))) es) +
     (case inl of None \<Rightarrow> 0 | Some a \<Rightarrow> todo W n a) + sum_list (map (todo W n) cs)"
  "todo W n (Fin d r) = 1"
proof -
  have c: "sum_mset (image_mset weight (mset (concat (map (turn_entries W n) es)))) =
      sum_list (map (\<lambda>e. sum_list (map weight (turn_entries W n e))) es)"
    by (induction es) (simp_all add: sum_mset_sum_list del: pend_turn flip: mset_map)
  have t: "sum_list (map (todo W n) cs) =
      sum_list (map nodes cs) + sum_mset (image_mset weight (sum_list (map (pend W n) cs)))"
    by (induction cs) (simp_all add: todo_def)
  show "todo W n (Run d es ch inl cs) =
     2 + sum_list (map (\<lambda>e. sum_list (map weight (turn_entries W n e))) es) +
     (case inl of None \<Rightarrow> 0 | Some a \<Rightarrow> todo W n a) + sum_list (map (todo W n) cs)"
    using c t by (cases inl) (simp_all add: todo_def)
qed (simp_all add: todo_def sum_mset_sum_list flip: mset_map)

lemma weight_turn:
  "sum_list (map weight (turn_entries W n e)) = (if is_dir e then 4 + sum_list (map weight (below W n (de_Ino e))) else 1)"
  by (simp add: turn_entries_def weight_def)

text \<open>Every step keeps the bound on the depth and makes what is left smaller, orphans included.\<close>

lemma walk_step_less:
  "walk_step W threads s a s' a' os \<Longrightarrow> fits W n a \<Longrightarrow>
   fits W n a' \<and> (\<forall>c \<in> set os. fits W n c) \<and> todo W n a' + sum_list (map (todo W n) os) < todo W n a"
proof (induction rule: walk_step.induct)
  case (list_ok d es s)
  then have sh: "shallow W n (de_Ino d)" by simp
  have "sum_list (map weight (below W n (de_Ino d))) = sum_list (map (\<lambda>e. sum_list (map weight (turn_entries W n e))) es)"
    unfolding shallow_listed(1) [OF sh list_ok(1)] by (induction es) simp_all
  then show ?case using shallow_listed(2) [OF sh list_ok(1)] by simp
next
  case (list_err d e s)
  then show ?case by simp
qed (auto simp: weight_turn)

lemma conf_step_less:
  assumes "conf_step W threads c c'" "\<forall>a \<in> set (wc_root c # wc_orphans c). fits W n a"
  shows "(\<forall>a \<in> set (wc_root c' # wc_orphans c'). fits W n a) \<and>
    sum_list (map (todo W n) (wc_root c' # wc_orphans c')) < sum_list (map (todo W n) (wc_root c # wc_orphans c))"
  using assms
proof (induction rule: conf_step.induct)
  case (root_step s a s' a' new os)
  then show ?case using walk_step_less [OF root_step(1), of n] by auto
next
  case (orphan_step s a s' a' new r xs ys)
  then show ?case using walk_step_less [OF orphan_step(1), of n] by auto
qed auto

lemma conf_steps_bounded:
  assumes "(conf_step W threads ^^ k) (walk_start x d) c" "shallow W n (de_Ino d)"
  shows "(\<forall>a \<in> set (wc_root c # wc_orphans c). fits W n a) \<and>
    k + sum_list (map (todo W n) (wc_root c # wc_orphans c)) \<le> todo W n (Start d)"
  using assms(1)
proof (induction k arbitrary: c)
  case 0
  then show ?case using assms(2) by (auto simp: walk_start_def)
next
  case (Suc k)
  then obtain c1 where c1: "(conf_step W threads ^^ k) (walk_start x d) c1" "conf_step W threads c1 c" by auto
  show ?case using conf_step_less [OF c1(2), of n] Suc.IH [OF c1(1)] by fastforce
qed

section \<open>Errors are not lost\<close>

text \<open>An invocation in which an error has happened and has not been returned yet.\<close>

fun bad :: "act \<Rightarrow> bool" where
  "bad (Start d) \<longleftrightarrow> False"
| "bad (Run d es ch inl cs) \<longleftrightarrow>
     ch \<noteq> None \<or> (case inl of None \<Rightarrow> False | Some a \<Rightarrow> bad a) \<or> (\<exists>c \<in> set cs. bad c)"
| "bad (Fin d r) \<longleftrightarrow> isl r"

lemma keep_error_None [simp]: "keep_error ch r = None \<longleftrightarrow> ch = None \<and> \<not> isl r"
  by (auto simp: keep_error_def split: option.splits sum.splits)

lemma walk_step_bad: "walk_step W threads s a s' a' os \<Longrightarrow> bad a \<or> os \<noteq> [] \<Longrightarrow> bad a'"
  by (induction rule: walk_step.induct) auto

lemma walk_step_cancelled: "walk_step W threads s a s' a' os \<Longrightarrow> ws_cancelled s' \<Longrightarrow> ws_cancelled s \<or> bad a'"
  by (induction rule: walk_step.induct) auto

text \<open>In every configuration of a walk: once an invocation has been abandoned or the walk has been
  cancelled, an error is on its way to the root.\<close>

definition errors_kept :: "'s walk_conf \<Rightarrow> bool" where
  "errors_kept c \<longleftrightarrow> (wc_orphans c \<noteq> [] \<or> ws_cancelled (wc_shared c) \<longrightarrow> bad (wc_root c))"

lemma conf_step_errors: "conf_step W threads c c' \<Longrightarrow> errors_kept c \<Longrightarrow> errors_kept c'"
proof (induction rule: conf_step.induct)
  case (root_step s a s' a' new os)
  then show ?case
    using walk_step_bad [OF root_step(1)] walk_step_cancelled [OF root_step(1)] by (auto simp: errors_kept_def)
qed (auto simp: errors_kept_def)

lemma conf_steps_errors: "(conf_step W threads)\<^sup>*\<^sup>* (walk_start x d) c \<Longrightarrow> errors_kept c"
proof (induction rule: rtranclp_induct)
  case base
  show ?case by (simp add: errors_kept_def walk_start_def)
qed (blast intro: conf_step_errors)

section \<open>Walks without an error\<close>

text \<open>One step of an invocation without an error: an entry is visited, a directory is left, or only
  the bookkeeping changes.\<close>

definition effect :: "'s walker \<Rightarrow> nat \<Rightarrow> 's \<Rightarrow> act \<Rightarrow> 's \<Rightarrow> act \<Rightarrow> bool" where
  "effect W n x a x' a' \<longleftrightarrow>
     x' = x \<and> pend W n a' = pend W n a \<or>
     (\<exists>e. w_visit W e x = (x', Inr ()) \<and> pend W n a = add_mset e (pend W n a')) \<or>
     (\<exists>d. w_leave W d x = (x', Inr ()) \<and> pend W n a' = pend W n a)"

lemma effect_mono:
  assumes "effect W n x a x' a'" "pend W n b = pend W n a + M" "pend W n b' = pend W n a' + M"
  shows "effect W n x b x' b'"
  using assms by (auto simp: effect_def)

lemma walk_step_effect:
  "walk_step W threads s a s' a' os \<Longrightarrow> fits W n a \<Longrightarrow> \<not> bad a' \<Longrightarrow> effect W n (ws_data s) a (ws_data s') a'"
proof (induction rule: walk_step.induct)
  case (list_ok d es s)
  then show ?case using shallow_listed(1) [of W n "de_Ino d" es] by (simp add: effect_def)
next
  case (call_step s a s' a' os d es ch cs)
  then have "effect W n (ws_data s) a (ws_data s') a'" by simp
  then show ?case by (rule effect_mono) (simp_all add: ac_simps)
next
  case (child_step s a s' a' os d es ch inl as cs)
  then have "effect W n (ws_data s) a (ws_data s') a'" by simp
  then show ?case by (rule effect_mono) (simp_all add: ac_simps)
next
  case (end_leave d s x r)
  then show ?case by (cases r) (auto simp: effect_def)
qed (auto simp: effect_def)

text \<open>A property of the shared state and the entries visited so far, kept by visits and by leaving a
  directory, holds at the end of a walk without an error for all the entries below the directory.\<close>

lemma walk_invariant:
  fixes I :: "dentry multiset \<Rightarrow> 's \<Rightarrow> bool"
  assumes run: "(conf_step W threads)\<^sup>*\<^sup>* (walk_start x d) c"
    and sh: "shallow W n (de_Ino d)"
    and start: "I {#} x"
    and visit: "\<And>P e y y'. I P y \<Longrightarrow> w_visit W e y = (y', Inr ()) \<Longrightarrow> I (add_mset e P) y'"
    and leave: "\<And>P e y y'. I P y \<Longrightarrow> w_leave W e y = (y', Inr ()) \<Longrightarrow> I P y'"
    and good: "\<not> bad (wc_root c)"
  shows "fits W n (wc_root c) \<and> (\<exists>P. mset (below W n (de_Ino d)) = P + pend W n (wc_root c) \<and> I P (ws_data (wc_shared c)))"
  using run good
proof (induction rule: rtranclp_induct)
  case base
  then show ?case using start sh by (simp add: walk_start_def)
next
  case (step c c')
  have kept: "errors_kept c" using conf_steps_errors [OF step(1)] .
  from step(2) show ?case
  proof cases
    case (root_step s a s' a' new os)
    have a: "\<not> bad a'" "\<not> bad a" using step(4) walk_step_bad [OF root_step(3)] root_step(2) by auto
    then obtain P where f: "fits W n a" and P: "mset (below W n (de_Ino d)) = P + pend W n a" "I P (ws_data s)"
      using step(3) root_step(1) by auto
    have "effect W n (ws_data s) a (ws_data s') a'" using walk_step_effect [OF root_step(3) f a(1)] .
    then have "\<exists>P. mset (below W n (de_Ino d)) = P + pend W n a' \<and> I P (ws_data s')"
      using P visit leave unfolding effect_def by (metis union_mset_add_mset_left union_mset_add_mset_right)
    then show ?thesis using walk_step_less [OF root_step(3) f] root_step(2) by simp
  next
    case (orphan_step s a s' a' new r xs ys)
    then show ?thesis using kept step(4) by (simp add: errors_kept_def)
  next
    case (orphan_done s r xs d' q ys)
    then show ?thesis using kept step(4) by (simp add: errors_kept_def)
  qed
qed

section \<open>When a walk succeeds\<close>

text \<open>Visits that fail or not whatever the shared state, and no failure at the end of a directory:
  then a walk succeeds when every directory can be listed and no visit fails.\<close>

definition entry_ok :: "'s walker \<Rightarrow> (dentry \<Rightarrow> bool) \<Rightarrow> dentry \<Rightarrow> bool" where
  "entry_ok W fails e \<longleftrightarrow> \<not> fails e \<and> (is_dir e \<longrightarrow> \<not> isl (w_list W (de_Ino e)))"

definition tree_ok :: "'s walker \<Rightarrow> (dentry \<Rightarrow> bool) \<Rightarrow> nat \<Rightarrow> 64 word \<Rightarrow> bool" where
  "tree_ok W fails n i \<longleftrightarrow> \<not> isl (w_list W i) \<and> (\<forall>e \<in> set (below W n i). entry_ok W fails e)"

fun act_ok :: "'s walker \<Rightarrow> (dentry \<Rightarrow> bool) \<Rightarrow> nat \<Rightarrow> act \<Rightarrow> bool" where
  "act_ok W fails n (Start d) \<longleftrightarrow> tree_ok W fails n (de_Ino d)"
| "act_ok W fails n (Run d es ch inl cs) \<longleftrightarrow>
     (\<forall>e \<in> set es. \<forall>x \<in> set (turn_entries W n e). entry_ok W fails x) \<and>
     (case inl of None \<Rightarrow> True | Some a \<Rightarrow> act_ok W fails n a) \<and> (\<forall>c \<in> set cs. act_ok W fails n c)"
| "act_ok W fails n (Fin d r) \<longleftrightarrow> True"

lemma turn_ok:
  "(\<forall>x \<in> set (turn_entries W n e). entry_ok W fails x) \<longleftrightarrow>
   \<not> fails e \<and> (is_dir e \<longrightarrow> tree_ok W fails n (de_Ino e))"
  by (auto simp: turn_entries_def entry_ok_def tree_ok_def)

lemma walk_step_ok:
  assumes "walk_step W threads s a s' a' os"
    and "\<And>e x. isl (snd (w_visit W e x)) \<longleftrightarrow> fails e" "\<And>d x. \<not> isl (snd (w_leave W d x))"
  shows "fits W n a \<Longrightarrow> \<not> ws_cancelled s \<Longrightarrow>
    (\<not> bad a \<and> act_ok W fails n a) \<longleftrightarrow> (\<not> bad a' \<and> act_ok W fails n a')"
  using assms(1)
proof (induction rule: walk_step.induct)
  case (list_ok d es s)
  then show ?case using shallow_listed(1) [of W n "de_Ino d" es] by (auto simp: tree_ok_def)
next
  case (list_err d e s)
  then show ?case by (simp add: tree_ok_def)
next
  case (visit_err e s x err d es ch cs)
  then show ?case using assms(2) [of e "ws_data s"] by (auto simp: turn_ok)
next
  case (visit_other e s x u d es ch cs)
  then show ?case using assms(2) [of e "ws_data s"] by (auto simp: turn_ok)
next
  case (dir_spawn e s x u d es ch cs)
  then show ?case using assms(2) [of e "ws_data s"] by (auto simp: turn_ok)
next
  case (dir_call e s x u d es cs)
  then show ?case using assms(2) [of e "ws_data s"] by (auto simp: turn_ok)
next
  case (end_leave d s x r)
  then show ?case using assms(3) [of d "ws_data s"] by simp
qed auto

lemma walk_success:
  assumes run: "(conf_step W threads)\<^sup>*\<^sup>* (walk_start x d) c" and sh: "shallow W n (de_Ino d)"
    and visits: "\<And>e x. isl (snd (w_visit W e x)) \<longleftrightarrow> fails e" and leaves: "\<And>d x. \<not> isl (snd (w_leave W d x))"
  shows "tree_ok W fails n (de_Ino d) \<longleftrightarrow> \<not> bad (wc_root c) \<and> act_ok W fails n (wc_root c)"
  using run
proof (induction rule: rtranclp_induct)
  case (step c c')
  have kept: "errors_kept c" using conf_steps_errors [OF step(1)] .
  have f: "fits W n (wc_root c)" using step(1) conf_steps_bounded [OF _ sh] by (auto dest!: rtranclp_imp_relpowp)
  from step(2) show ?case
  proof cases
    case (root_step s a s' a' new os)
    show ?thesis
    proof (cases "ws_cancelled s")
      case True
      then have "bad a" using kept root_step(1) by (simp add: errors_kept_def)
      then show ?thesis using step(3) root_step walk_step_bad [OF root_step(3)] by simp
    next
      case False
      then show ?thesis using step(3) root_step(1,2) f walk_step_ok [OF root_step(3) visits leaves, of n] by simp
    qed
  qed (use step(3) in auto)
qed (simp add: walk_start_def)

text \<open>At the end of a walk: it has succeeded exactly when everything could be read.\<close>

lemma walk_end:
  assumes "(conf_step W threads)\<^sup>*\<^sup>* (walk_start x d) c" "shallow W n (de_Ino d)" "wc_root c = Fin d' r"
    and "\<And>e x. isl (snd (w_visit W e x)) \<longleftrightarrow> fails e" "\<And>d x. \<not> isl (snd (w_leave W d x))"
  shows "r = Inr () \<longleftrightarrow> tree_ok W fails n (de_Ino d)"
  using walk_success [OF assms(1,2,4,5)] assms(3) by (cases r) auto

end
