(* ===== verification/Subpath.thy ===== *)
theory Subpath
  imports Dir_Walk
begin

text \<open>
  The commands \<open>dingo subpath create\<close> and \<open>delete\<close>, \<open>cli/command/fs/subpath\<close>.  Deleting is a walk
  (\<open>Dir_Walk\<close>) that unlinks files as it meets them and removes a directory when everything it started
  below it has ended; the shared state records the deletions in their order.  The results of
  \<open>ListDentry\<close> are those from before the walk, those of \<open>DeleteFile\<close> and \<open>DeleteDirectory\<close> are
  functions of the parent and the name.
\<close>

section \<open>Deleting a tree\<close>

record deletions =
  dl_log :: "dentry list"
  dl_Inodes :: "64 word"

definition note_deleted :: "dentry \<Rightarrow> unit res \<Rightarrow> deletions \<Rightarrow> deletions \<times> unit res" where
  "note_deleted e r s =
     (case r of Inl err \<Rightarrow> (s, Inl err)
      | Inr _ \<Rightarrow> (s\<lparr>dl_log := dl_log s @ [e], dl_Inodes := dl_Inodes s + 1\<rparr>, Inr ()))"

definition delete_visit ::
  "(64 word \<Rightarrow> string \<Rightarrow> unit res) \<Rightarrow> dentry \<Rightarrow> deletions \<Rightarrow> deletions \<times> unit res" where
  "delete_visit del_file entry s =
     (if is_dir entry then (s, Inr ()) else note_deleted entry (del_file (de_Parent entry) (de_Name entry)) s)"

definition delete_leave ::
  "(64 word \<Rightarrow> string \<Rightarrow> unit res) \<Rightarrow> dentry \<Rightarrow> deletions \<Rightarrow> deletions \<times> unit res" where
  "delete_leave del_dir d s = note_deleted d (del_dir (de_Parent d) (de_Name d)) s"

definition deleteDirectoryAndData ::
  "(64 word \<Rightarrow> dentry list res) \<Rightarrow> (64 word \<Rightarrow> string \<Rightarrow> unit res) \<Rightarrow> (64 word \<Rightarrow> string \<Rightarrow> unit res) \<Rightarrow> deletions walker" where
  "deleteDirectoryAndData list_dentry del_file del_dir =
     \<lparr>w_list = list_dentry, w_visit = delete_visit del_file, w_leave = delete_leave del_dir\<rparr>"

definition delete_start :: "dentry \<Rightarrow> deletions walk_conf" where
  "delete_start d = walk_start \<lparr>dl_log = [], dl_Inodes = 0\<rparr> d"

text \<open>\<open>deleteDirectory\<close>: the number of inodes deleted, or the error, without the number.\<close>

definition deleteDirectory ::
  "(64 word \<Rightarrow> dentry list res) \<Rightarrow> (64 word \<Rightarrow> string \<Rightarrow> unit res) \<Rightarrow> (64 word \<Rightarrow> string \<Rightarrow> unit res) \<Rightarrow> nat \<Rightarrow>
   64 word \<Rightarrow> 64 word \<Rightarrow> string \<Rightarrow> (64 word) res \<Rightarrow> bool" where
  "deleteDirectory list_dentry del_file del_dir threads parentInodeId dirInodeId name result \<longleftrightarrow>
     (\<exists>c d r. (conf_step (deleteDirectoryAndData list_dentry del_file del_dir) threads)\<^sup>*\<^sup>*
         (delete_start \<lparr>de_Name = name, de_Ino = dirInodeId, de_Parent = parentInodeId, de_Type = FileType_DIRECTORY\<rparr>) c \<and>
         wc_root c = Fin d r \<and> result = bindR r (\<lambda>_. Inr (dl_Inodes (ws_data (wc_shared c)))))"

section \<open>The commands\<close>

definition path_dir :: "string \<Rightarrow> string" where
  "path_dir p = path_clean (rev (dropWhile (\<lambda>c. c \<noteq> CHR ''/'') (rev p)))"

definition path_base :: "string \<Rightarrow> string" where
  "path_base p =
     (if p = [] then ''.''
      else let q = dropWhile (\<lambda>c. c = CHR ''/'') (rev p)
           in if q = [] then ''/'' else rev (takeWhile (\<lambda>c. c \<noteq> CHR ''/'') q))"

definition wrapO :: "errno \<Rightarrow> ('x, 'a) rpc_op \<Rightarrow> ('x, 'a) rpc_op" where
  "wrapO c m s = (case m s of (s1, r) \<Rightarrow> (s1, wrapE c r))"

definition checkPathIsExist :: "'x rpc_net \<Rightarrow> fs_flags \<Rightarrow> 32 word \<Rightarrow> string \<Rightarrow> 64 word \<Rightarrow> 64 word \<Rightarrow> ('x, unit) rpc_op" where
  "checkPathIsExist net fl fsId name parentId epoch =
     bindO (ListDentry net fl fsId parentId epoch) (\<lambda>entries.
       pureO (if list_ex (\<lambda>e. de_Name e = name) entries then Inr () else Inl (RawErr ''file does not exist'')))"

definition mkDir :: "'x rpc_net \<Rightarrow> fs_flags \<Rightarrow> 32 word \<Rightarrow> 64 word \<Rightarrow> string \<Rightarrow> 32 word \<Rightarrow> 32 word \<Rightarrow> 64 word \<Rightarrow> ('x, mds_body) rpc_op" where
  "mkDir net fl fsId parent name uid gid epoch =
     call_server net fl parent (MkDirRequest (with_epoch epoch) fsId parent name uid gid)"

definition subpath_runCreate ::
  "'x rpc_net \<Rightarrow> fs_flags \<Rightarrow> 32 word \<Rightarrow> string \<Rightarrow> 32 word \<Rightarrow> 32 word \<Rightarrow> bool \<Rightarrow> ('x, unit) rpc_op" where
  "subpath_runCreate net fl fsId flag_path uid gid json =
     (let path = path_clean flag_path
      in bindO (open_fs net fl fsId) (\<lambda>epoch.
         bindO (GetDirPathInodeId net fl fsId (path_dir path) epoch) (\<lambda>parentInodeId.
         output_of json
           (bindO (wrapO ERR_RPC_FAILED (checkPathIsExist net fl fsId (path_base path) parentInodeId epoch)) (\<lambda>_.
            mkDir net fl fsId parentInodeId (path_base path) uid gid epoch)))))"

definition GetInodeId :: "'x rpc_net \<Rightarrow> fs_flags \<Rightarrow> 32 word \<Rightarrow> string \<Rightarrow> 64 word \<Rightarrow> 64 word \<Rightarrow> ('x, 64 word) rpc_op" where
  "GetInodeId net fl fsId name parentId epoch =
     bindO (ListDentry net fl fsId parentId epoch) (\<lambda>entries.
       pureO (case find (\<lambda>e. de_Name e = name) entries of
                Some e \<Rightarrow> Inr (de_Ino e) | None \<Rightarrow> Inl (RawErr ''file does not exist'')))"

text \<open>\<open>runDelete\<close>, given what \<open>deleteDirectory\<close> returns for a parent, an inode and a name.  With an
  error \<open>deleteDirectory\<close> returns no summary, and the command reads the number of inodes of it.\<close>

definition subpath_runDelete ::
  "'x rpc_net \<Rightarrow> fs_flags \<Rightarrow> 32 word \<Rightarrow> string \<Rightarrow> bool \<Rightarrow> (64 word \<Rightarrow> 64 word \<Rightarrow> string \<Rightarrow> (64 word) res) \<Rightarrow> ('x, unit) rpc_op" where
  "subpath_runDelete net fl fsId flag_path json delete_directory =
     (let path = path_clean flag_path; name = path_base path
      in if trim_space name = ''/'' then pureO (Inl (RawErr ''root directory can not be deleted''))
         else bindO (open_fs net fl fsId) (\<lambda>epoch.
              bindO (GetDirPathInodeId net fl fsId (path_dir path) epoch) (\<lambda>parentInodeId.
              output_of json
                (bindO (wrapO ERR_RPC_FAILED (GetInodeId net fl fsId name parentInodeId epoch)) (\<lambda>inodeId.
                 pureO (case delete_directory parentInodeId inodeId name of
                          Inl e \<Rightarrow> Inl GoPanic | Inr deleteInodes \<Rightarrow> Inr deleteInodes))))))"

section \<open>Contents before directories\<close>

definition contents_first :: "(64 word \<Rightarrow> dentry list res) \<Rightarrow> dentry list \<Rightarrow> bool" where
  "contents_first l log \<longleftrightarrow>
     (\<forall>xs d ys. log = xs @ d # ys \<longrightarrow> is_dir d \<longrightarrow> (\<exists>es. l (de_Ino d) = Inr es \<and> set es \<subseteq> set xs))"

fun act_dir :: "act \<Rightarrow> dentry" where
  "act_dir (Start d) = d"
| "act_dir (Run d es ch inl cs) = d"
| "act_dir (Fin d r) = d"

text \<open>An invocation that may still remove its directory: every entry of it is deleted, still to be
  visited, or the directory of a call or goroutine that it waits for.\<close>

fun act_inv :: "(64 word \<Rightarrow> dentry list res) \<Rightarrow> dentry list \<Rightarrow> act \<Rightarrow> bool" where
  "act_inv l log (Start d) \<longleftrightarrow> is_dir d"
| "act_inv l log (Run d es ch inl cs) \<longleftrightarrow>
     is_dir d \<and>
     (ch = None \<longrightarrow> (\<exists>all. l (de_Ino d) = Inr all \<and>
        set all \<subseteq> set log \<union> set es \<union> (case inl of None \<Rightarrow> {} | Some a \<Rightarrow> {act_dir a}) \<union> act_dir ` set cs)) \<and>
     (case inl of None \<Rightarrow> True | Some a \<Rightarrow> act_inv l log a) \<and> (\<forall>c \<in> set cs. act_inv l log c)"
| "act_inv l log (Fin d r) \<longleftrightarrow> isl r \<or> d \<in> set log"

lemma contents_first_snoc:
  assumes "contents_first l log" "is_dir d \<Longrightarrow> \<exists>es. l (de_Ino d) = Inr es \<and> set es \<subseteq> set log"
  shows "contents_first l (log @ [d])"
  unfolding contents_first_def
proof (intro allI impI)
  fix xs e ys
  assume eq: "log @ [d] = xs @ e # ys" and dir: "is_dir e"
  show "\<exists>es. l (de_Ino e) = Inr es \<and> set es \<subseteq> set xs"
  proof (cases ys rule: rev_cases)
    case Nil
    then show ?thesis using eq dir assms(2) by simp
  next
    case (snoc zs z)
    then have "log = xs @ e # zs" using eq by simp
    then show ?thesis using assms(1) dir unfolding contents_first_def by blast
  qed
qed

lemma act_inv_mono: "act_inv l log a \<Longrightarrow> set log \<subseteq> set log' \<Longrightarrow> act_inv l log' a"
proof (induction a)
  case (Run d es ch inl cs)
  have "case inl of None \<Rightarrow> True | Some a \<Rightarrow> act_inv l log' a" using Run by (cases inl) auto
  then show ?case using Run by (cases ch; cases inl) (auto; blast)+
qed auto

lemma act_dir_step: "walk_step W threads s a s' a' os \<Longrightarrow> act_dir a' = act_dir a"
  by (induction rule: walk_step.induct) auto

lemma delete_walker_sel [simp]:
  "w_list (deleteDirectoryAndData l f g) = l" "w_visit (deleteDirectoryAndData l f g) = delete_visit f"
  "w_leave (deleteDirectoryAndData l f g) = delete_leave g"
  by (simp_all add: deleteDirectoryAndData_def)

lemma note_deleted_log:
  "note_deleted e r s = (s', q) \<Longrightarrow> q = r \<and> dl_log s' = (if isl r then dl_log s else dl_log s @ [e])"
  by (cases r) (auto simp: note_deleted_def)

lemma delete_visit_log:
  "delete_visit f e s = (s', r) \<Longrightarrow> dl_log s' = (if is_dir e \<or> isl r then dl_log s else dl_log s @ [e])"
  by (auto simp: delete_visit_def split: if_splits dest: note_deleted_log)

lemma delete_leave_log:
  "delete_leave g d s = (s', r) \<Longrightarrow> dl_log s' = (if isl r then dl_log s else dl_log s @ [d])"
  by (auto simp: delete_leave_def dest: note_deleted_log)

abbreviation log_of :: "deletions walk_shared \<Rightarrow> dentry list" where
  "log_of s \<equiv> dl_log (ws_data s)"

lemma delete_step_inv:
  "walk_step (deleteDirectoryAndData l f g) threads s a s' a' os \<Longrightarrow> act_inv l (log_of s) a \<Longrightarrow> contents_first l (log_of s) \<Longrightarrow>
   set (log_of s) \<subseteq> set (log_of s') \<and> contents_first l (log_of s') \<and> act_inv l (log_of s') a' \<and> (\<forall>c \<in> set os. act_inv l (log_of s') c)"
proof (induction rule: walk_step.induct)
  case (visit_err e s x err d es ch cs)
  then show ?case using delete_visit_log [of f e "ws_data s" x "Inl err"] by simp
next
  case (visit_other e s x u d es ch cs)
  then have x: "dl_log x = log_of s @ [e]" using delete_visit_log [of f e "ws_data s" x "Inr u"] by simp
  have "contents_first l (dl_log x)" unfolding x using visit_other by (intro contents_first_snoc) auto
  moreover have "act_inv l (dl_log x) c" if "c \<in> set cs" for c
    using act_inv_mono [of l "log_of s" c "dl_log x"] visit_other that x by auto
  ultimately show ?case using visit_other x by auto
next
  case (dir_spawn e s x u d es ch cs)
  then have "dl_log x = log_of s" using delete_visit_log [of f e "ws_data s" x "Inr u"] by simp
  then show ?case using dir_spawn by auto
next
  case (dir_call e s x u d es cs)
  then have "dl_log x = log_of s" using delete_visit_log [of f e "ws_data s" x "Inr u"] by simp
  then show ?case using dir_call by auto
next
  case (dir_error e s x u d es err cs)
  then show ?case using delete_visit_log [of f e "ws_data s" x "Inr u"] by simp
next
  case (dir_cancelled e s x u d es ch cs)
  then show ?case using delete_visit_log [of f e "ws_data s" x "Inr u"] by simp
next
  case (call_step s a s' a' os d es ch cs)
  then have IH: "set (log_of s) \<subseteq> set (log_of s')" "contents_first l (log_of s')" "act_inv l (log_of s') a'"
      "\<forall>c \<in> set os. act_inv l (log_of s') c" by auto
  have "act_inv l (log_of s') (Run d es ch (Some a') cs)"
    using act_inv_mono [OF call_step.prems(1) IH(1)] IH(3) act_dir_step [OF call_step(1)] by simp
  then show ?case using IH by blast
next
  case (child_step s a s' a' os d es ch inl as cs)
  then have IH: "set (log_of s) \<subseteq> set (log_of s')" "contents_first l (log_of s')" "act_inv l (log_of s') a'"
      "\<forall>c \<in> set os. act_inv l (log_of s') c" by auto
  have "act_inv l (log_of s') (Run d es ch inl (as @ a' # cs))"
    using act_inv_mono [OF child_step.prems(1) IH(1)] IH(3) act_dir_step [OF child_step(1)] by auto
  then show ?case using IH by blast
next
  case (child_done s d es ch inl as d' r cs)
  then show ?case by (cases ch; cases r) auto
next
  case (end_leave d s x r)
  then have x: "dl_log x = (if isl r then log_of s else log_of s @ [d])" using delete_leave_log by simp
  moreover have "contents_first l (log_of s @ [d])" using end_leave by (intro contents_first_snoc) auto
  ultimately show ?case using end_leave by auto
qed auto

definition delete_inv :: "(64 word \<Rightarrow> dentry list res) \<Rightarrow> deletions walk_conf \<Rightarrow> bool" where
  "delete_inv l c \<longleftrightarrow>
     contents_first l (log_of (wc_shared c)) \<and> (\<forall>a \<in> set (wc_root c # wc_orphans c). act_inv l (log_of (wc_shared c)) a)"

lemma delete_conf_inv:
  assumes "conf_step (deleteDirectoryAndData l f g) threads c c'" "delete_inv l c"
  shows "delete_inv l c'"
  using assms
proof (induction rule: conf_step.induct)
  case (root_step s a s' a' new os)
  have st: "set (log_of s) \<subseteq> set (log_of s')" "contents_first l (log_of s')" "act_inv l (log_of s') a'"
      "\<forall>c \<in> set new. act_inv l (log_of s') c"
    using delete_step_inv [OF root_step(1)] root_step(2) by (auto simp: delete_inv_def)
  then show ?case using root_step(2) act_inv_mono [OF _ st(1)] by (auto simp: delete_inv_def)
next
  case (orphan_step s a s' a' new r xs ys)
  have st: "set (log_of s) \<subseteq> set (log_of s')" "contents_first l (log_of s')" "act_inv l (log_of s') a'"
      "\<forall>c \<in> set new. act_inv l (log_of s') c"
    using delete_step_inv [OF orphan_step(1)] orphan_step(2) by (auto simp: delete_inv_def)
  then show ?case using orphan_step(2) act_inv_mono [OF _ st(1)] by (auto simp: delete_inv_def)
qed (auto simp: delete_inv_def)

lemma delete_reach_inv:
  assumes "(conf_step (deleteDirectoryAndData l f g) threads)\<^sup>*\<^sup>* (delete_start d) c" "is_dir d"
  shows "delete_inv l c \<and> act_dir (wc_root c) = d"
  using assms(1)
proof (induction rule: rtranclp_induct)
  case base
  show ?case using assms(2) by (simp add: delete_start_def walk_start_def delete_inv_def contents_first_def)
next
  case (step c c')
  have "act_dir (wc_root c') = act_dir (wc_root c)" using step(2) by cases (simp_all add: act_dir_step)
  then show ?case using step delete_conf_inv by blast
qed

text \<open>A log in which contents come before directories holds, with a directory, all that is below it.\<close>

lemma contents_closed:
  assumes "contents_first l log" "w_list W = l"
  shows "d \<in> set log \<Longrightarrow> is_dir d \<Longrightarrow> set (below W n (de_Ino d)) \<subseteq> set log"
proof (induction n arbitrary: d)
  case (Suc n)
  obtain xs ys where log: "log = xs @ d # ys" using Suc.prems(1) by (meson split_list)
  then obtain es where "l (de_Ino d) = Inr es" "set es \<subseteq> set xs"
    using assms(1) Suc.prems(2) unfolding contents_first_def by blast
  then have es: "l (de_Ino d) = Inr es" "set es \<subseteq> set log" using log by auto
  have "set (below W n (de_Ino e)) \<subseteq> set log" if "e \<in> set es" "is_dir e" for e
    using Suc.IH [of e] es(2) that by blast
  then show ?case using es assms(2) by auto
qed simp

text \<open>
  C20: deleting a directory, over every schedule of its goroutines and with any failures: a directory
  is removed only after every entry that was listed in it has been deleted, and when the deletion
  succeeds the directory and everything below it have been deleted.
\<close>

theorem delete_contents_first:
  assumes "(conf_step (deleteDirectoryAndData list_dentry del_file del_dir) threads)\<^sup>*\<^sup>* (delete_start d) c" "is_dir d"
  shows "contents_first list_dentry (log_of (wc_shared c)) \<and>
    (wc_root c = Fin d (Inr ()) \<longrightarrow>
      d \<in> set (log_of (wc_shared c)) \<and>
      set (below (deleteDirectoryAndData list_dentry del_file del_dir) n (de_Ino d)) \<subseteq> set (log_of (wc_shared c)))"
proof -
  have inv: "contents_first list_dentry (log_of (wc_shared c))" "act_inv list_dentry (log_of (wc_shared c)) (wc_root c)"
    using delete_reach_inv [OF assms] by (auto simp: delete_inv_def)
  have "d \<in> set (log_of (wc_shared c))" if "wc_root c = Fin d (Inr ())" using inv(2) that by simp
  then show ?thesis
    using inv(1) contents_closed [OF inv(1) delete_walker_sel(1) _ assms(2)] by blast
qed

section \<open>What the commands do\<close>

text \<open>\<open>subpath create\<close> fails for a name that the parent does not list: the check for existence is the
  wrong way round.\<close>

lemma create_needs_existing:
  assumes "ListDentry net fl fsId p epoch s = (s', Inr es)" "\<not> list_ex (\<lambda>e. de_Name e = name) es"
  shows "bindO (wrapO ERR_RPC_FAILED (checkPathIsExist net fl fsId name p epoch)) (\<lambda>_. mkDir net fl fsId p name uid gid epoch) s =
    (s', Inl (Ec ERR_RPC_FAILED))"
  using assms by (simp add: checkPathIsExist_def bindO_def wrapO_def pureO_def)

text \<open>A deletion that fails makes \<open>subpath delete\<close> panic.\<close>

lemma delete_error_panics:
  assumes "trim_space (path_base (path_clean path)) \<noteq> ''/''" "open_fs net fl fsId s = (s1, Inr epoch)"
    "GetDirPathInodeId net fl fsId (path_dir (path_clean path)) epoch s1 = (s2, Inr p)"
    "GetInodeId net fl fsId (path_base (path_clean path)) p epoch s2 = (s3, Inr i)"
    "del p i (path_base (path_clean path)) = Inl e"
  shows "subpath_runDelete net fl fsId path json del s = (s3, Inl GoPanic)"
  using assms by (simp add: subpath_runDelete_def bindO_def wrapO_def pureO_def output_of_def Let_def)

section \<open>A directory with a file and a directory\<close>

definition small_file :: dentry where
  "small_file = \<lparr>de_Name = ''f'', de_Ino = 4, de_Parent = 3, de_Type = FileType_FILE\<rparr>"

definition small_dir :: dentry where
  "small_dir = \<lparr>de_Name = ''d'', de_Ino = 3, de_Parent = 1, de_Type = FileType_DIRECTORY\<rparr>"

definition small_list :: "64 word \<Rightarrow> dentry list res" where
  "small_list i = Inr (if i = 3 then [small_file] else [])"

abbreviation small_walker :: "deletions walker" where
  "small_walker \<equiv> deleteDirectoryAndData small_list (\<lambda>p n. Inr ()) (\<lambda>p n. Inr ())"

definition small_conf :: "dentry list \<Rightarrow> 64 word \<Rightarrow> act \<Rightarrow> deletions walk_conf" where
  "small_conf log k a = \<lparr>wc_shared = \<lparr>ws_data = \<lparr>dl_log = log, dl_Inodes = k\<rparr>, ws_tokens = 0, ws_cancelled = False\<rparr>,
     wc_root = a, wc_orphans = []\<rparr>"

lemma small_step:
  assumes "walk_step small_walker 8 (wc_shared (small_conf log k a)) a (wc_shared (small_conf log' k' a')) a' []"
  shows "conf_step small_walker 8 (small_conf log k a) (small_conf log' k' a')"
  using root_step [OF assms, of "[]"] by (simp add: small_conf_def)

lemma small_run:
  "(conf_step small_walker 8)\<^sup>*\<^sup>* (delete_start small_dir) (small_conf [small_file, small_dir] 2 (Fin small_dir (Inr ())))"
proof -
  have start: "delete_start small_dir = small_conf [] 0 (Start small_dir)"
    by (simp add: delete_start_def walk_start_def small_conf_def)
  have 1: "conf_step small_walker 8 (small_conf [] 0 (Start small_dir)) (small_conf [] 0 (Run small_dir [small_file] None None []))"
    by (rule small_step, unfold small_conf_def, simp, rule list_ok) (simp add: small_list_def small_dir_def)
  have 2: "conf_step small_walker 8 (small_conf [] 0 (Run small_dir [small_file] None None []))
      (small_conf [small_file] 1 (Run small_dir [] None None []))"
    using visit_other [of small_walker small_file "wc_shared (small_conf [] 0 (Start small_dir))" "\<lparr>dl_log = [small_file], dl_Inodes = 1\<rparr>" "()"]
    by (intro small_step) (simp add: small_conf_def delete_visit_def note_deleted_def small_file_def is_dir_def)
  have 3: "conf_step small_walker 8 (small_conf [small_file] 1 (Run small_dir [] None None []))
      (small_conf [small_file, small_dir] 2 (Fin small_dir (Inr ())))"
    using end_leave [of small_walker small_dir "wc_shared (small_conf [small_file] 1 (Start small_dir))"
        "\<lparr>dl_log = [small_file, small_dir], dl_Inodes = 2\<rparr>" "Inr ()"]
    by (intro small_step) (simp add: small_conf_def delete_leave_def note_deleted_def)
  show ?thesis unfolding start using 1 2 3 by (meson converse_rtranclp_into_rtranclp rtranclp.rtrancl_refl)
qed

theorem delete_contents_first_witness:
  "\<exists>c. (conf_step small_walker 8)\<^sup>*\<^sup>* (delete_start small_dir) c \<and> is_dir small_dir \<and>
    contents_first small_list (log_of (wc_shared c)) \<and> wc_root c = Fin small_dir (Inr ()) \<and>
    small_dir \<in> set (log_of (wc_shared c)) \<and> set (below small_walker 2 (de_Ino small_dir)) \<subseteq> set (log_of (wc_shared c))"
proof -
  have d: "is_dir small_dir" by (simp add: is_dir_def small_dir_def)
  show ?thesis
    using delete_contents_first [OF small_run d, of 2] small_run d
    by (intro exI [of _ "small_conf [small_file, small_dir] 2 (Fin small_dir (Inr ()))"]) (simp add: small_conf_def)
qed

end
