(* ===== verification/Dir_Scan.thy ===== *)
theory Dir_Scan
  imports Dir_Walk
begin

text \<open>
  The use of space below a directory: \<open>GetDirSummarySize\<close> and \<open>GetDirectorySizeAndInodes\<close> of
  \<open>internal/rpc/operator.go\<close>, a walk (\<open>Dir_Walk\<close>) that adds up lengths and inodes in 64 bits; when a
  whole file system is checked, a file with several links is counted once.  \<open>ListDentry\<close> and
  \<open>GetInode\<close> are given by their results on a directory tree that does not change.

  The result does not depend on the schedule: every walk ends, it fails exactly when something could
  not be read, and otherwise its sums are those of \<open>usage\<close>, a list function on the entries.
\<close>

section \<open>Adding up\<close>

record summary =
  sm_Length :: "64 word"
  sm_Inodes :: "64 word"
  sm_inodeMap :: "64 word list"

definition scan_visit ::
  "(64 word \<Rightarrow> 64 word \<Rightarrow> inode res) \<Rightarrow> bool \<Rightarrow> dentry \<Rightarrow> summary \<Rightarrow> summary \<times> unit res" where
  "scan_visit get_inode isFsCheck entry s =
     (if de_Type entry = FileType_FILE then
        (case get_inode (de_Ino entry) (de_Parent entry) of
           Inl err \<Rightarrow> (s, Inl err)
         | Inr attr \<Rightarrow>
             if isFsCheck \<and> in_Nlink attr \<ge> 2 then
               (if in_Ino attr \<in> set (sm_inodeMap s) then (s, Inr ())
                else (s\<lparr>sm_inodeMap := in_Ino attr # sm_inodeMap s, sm_Length := sm_Length s + in_Length attr,
                        sm_Inodes := sm_Inodes s + 1\<rparr>, Inr ()))
             else (s\<lparr>sm_Length := sm_Length s + in_Length attr, sm_Inodes := sm_Inodes s + 1\<rparr>, Inr ()))
      else (s\<lparr>sm_Inodes := sm_Inodes s + 1\<rparr>, Inr ()))"

definition GetDirSummarySize ::
  "(64 word \<Rightarrow> dentry list res) \<Rightarrow> (64 word \<Rightarrow> 64 word \<Rightarrow> inode res) \<Rightarrow> bool \<Rightarrow> summary walker" where
  "GetDirSummarySize list_dentry get_inode isFsCheck =
     \<lparr>w_list = list_dentry, w_visit = scan_visit get_inode isFsCheck, w_leave = (\<lambda>d s. (s, Inr ()))\<rparr>"

definition scan_root :: "64 word \<Rightarrow> dentry" where
  "scan_root dirInode = \<lparr>de_Name = [], de_Ino = dirInode, de_Parent = 0, de_Type = FileType_DIRECTORY\<rparr>"

definition scan_start :: "64 word \<Rightarrow> summary walk_conf" where
  "scan_start dirInode = walk_start \<lparr>sm_Length = 0, sm_Inodes = 0, sm_inodeMap = []\<rparr> (scan_root dirInode)"

text \<open>What \<open>GetDirectorySizeAndInodes\<close> returns from a configuration in which the walk has ended: the
  directory itself is one inode more.\<close>

fun scan_result :: "summary walk_conf \<Rightarrow> (64 word \<times> 64 word) res option" where
  "scan_result c =
     (case wc_root c of
        Fin d r \<Rightarrow> Some (bindR r (\<lambda>_. Inr (sm_Length (ws_data (wc_shared c)), sm_Inodes (ws_data (wc_shared c)) + 1)))
      | _ \<Rightarrow> None)"

definition GetDirectorySizeAndInodes ::
  "(64 word \<Rightarrow> dentry list res) \<Rightarrow> (64 word \<Rightarrow> 64 word \<Rightarrow> inode res) \<Rightarrow> 64 word \<Rightarrow> bool \<Rightarrow> nat \<Rightarrow> (64 word \<times> 64 word) res \<Rightarrow> bool" where
  "GetDirectorySizeAndInodes list_dentry get_inode dirInode isFsCheck threads r \<longleftrightarrow>
     (\<exists>c. (conf_step (GetDirSummarySize list_dentry get_inode isFsCheck) threads)\<^sup>*\<^sup>* (scan_start dirInode) c \<and>
          scan_result c = Some r)"

section \<open>What the sums are\<close>

definition hard_linked :: "(64 word \<Rightarrow> inode) \<Rightarrow> bool \<Rightarrow> dentry \<Rightarrow> bool" where
  "hard_linked attr isFsCheck e \<longleftrightarrow> isFsCheck \<and> de_Type e = FileType_FILE \<and> in_Nlink (attr (de_Ino e)) \<ge> 2"

definition entry_length :: "(64 word \<Rightarrow> inode) \<Rightarrow> dentry \<Rightarrow> 64 word" where
  "entry_length attr e = (if de_Type e = FileType_FILE then in_Length (attr (de_Ino e)) else 0)"

definition usage :: "(64 word \<Rightarrow> inode) \<Rightarrow> bool \<Rightarrow> dentry list \<Rightarrow> 64 word \<times> 64 word" where
  "usage attr isFsCheck es =
     (let linked = remdups (map de_Ino (filter (hard_linked attr isFsCheck) es));
          single = filter (\<lambda>e. \<not> hard_linked attr isFsCheck e) es
      in (sum_list (map (entry_length attr) single) + sum_list (map (\<lambda>i. in_Length (attr i)) linked),
          of_nat (length single + length linked)))"

text \<open>The servers know the inodes by their number alone; the parent only says which server to ask.\<close>

definition knows :: "(64 word \<Rightarrow> 64 word \<Rightarrow> inode res) \<Rightarrow> (64 word \<Rightarrow> inode) \<Rightarrow> bool" where
  "knows get_inode attr \<longleftrightarrow> (\<forall>i p a. get_inode i p = Inr a \<longrightarrow> a = attr i \<and> in_Ino a = i)"

definition unreadable :: "(64 word \<Rightarrow> 64 word \<Rightarrow> inode res) \<Rightarrow> dentry \<Rightarrow> bool" where
  "unreadable get_inode e \<longleftrightarrow> de_Type e = FileType_FILE \<and> isl (get_inode (de_Ino e) (de_Parent e))"

definition summed :: "(64 word \<Rightarrow> inode) \<Rightarrow> bool \<Rightarrow> dentry multiset \<Rightarrow> summary \<Rightarrow> bool" where
  "summed attr isFsCheck P s \<longleftrightarrow>
     distinct (sm_inodeMap s) \<and> set (sm_inodeMap s) = de_Ino ` {e \<in> set_mset P. hard_linked attr isFsCheck e} \<and>
     sm_Inodes s = of_nat (size {#e \<in># P. \<not> hard_linked attr isFsCheck e#} + length (sm_inodeMap s)) \<and>
     sm_Length s = sum_mset (image_mset (entry_length attr) {#e \<in># P. \<not> hard_linked attr isFsCheck e#}) +
       sum_list (map (\<lambda>i. in_Length (attr i)) (sm_inodeMap s))"

lemma summed_visit:
  assumes "summed attr fs P s" "scan_visit get_inode fs e s = (s', Inr ())" "knows get_inode attr"
  shows "summed attr fs (add_mset e P) s'"
proof (cases "hard_linked attr fs e")
  case True
  obtain a where a: "get_inode (de_Ino e) (de_Parent e) = Inr a"
    using assms(2) True by (auto simp: scan_visit_def hard_linked_def split: sum.splits)
  then have at: "a = attr (de_Ino e)" "in_Ino a = de_Ino e" using assms(3) by (auto simp: knows_def)
  have img: "de_Ino ` {x \<in> set_mset (add_mset e P). hard_linked attr fs x} =
      insert (de_Ino e) (de_Ino ` {x \<in> set_mset P. hard_linked attr fs x})" using True by auto
  show ?thesis
    using assms(1,2) True a at unfolding summed_def img
    by (auto simp: scan_visit_def hard_linked_def insert_absorb algebra_simps split: if_splits)
next
  case False
  have img: "{x \<in> set_mset (add_mset e P). hard_linked attr fs x} = {x \<in> set_mset P. hard_linked attr fs x}"
    using False by auto
  consider (reg) a where "de_Type e = FileType_FILE" "get_inode (de_Ino e) (de_Parent e) = Inr a"
    | (other) "de_Type e \<noteq> FileType_FILE"
    using assms(2) by (cases "de_Type e = FileType_FILE"; cases "get_inode (de_Ino e) (de_Parent e)") (auto simp: scan_visit_def)
  then show ?thesis
  proof cases
    case reg
    then have at: "a = attr (de_Ino e)" using assms(3) by (auto simp: knows_def)
    then have "\<not> (fs \<and> in_Nlink a \<ge> 2)" using False reg(1) by (simp add: hard_linked_def)
    then have s': "s' = s\<lparr>sm_Length := sm_Length s + in_Length a, sm_Inodes := sm_Inodes s + 1\<rparr>"
      using assms(2) reg by (auto simp: scan_visit_def)
    show ?thesis using assms(1) False unfolding summed_def s' img
      by (simp add: entry_length_def reg(1) at algebra_simps)
  next
    case other
    then have s': "s' = s\<lparr>sm_Inodes := sm_Inodes s + 1\<rparr>" using assms(2) by (auto simp: scan_visit_def)
    show ?thesis using assms(1) False unfolding summed_def s' img
      by (simp add: entry_length_def other algebra_simps)
  qed
qed

lemma sum_distinct:
  fixes f :: "'a \<Rightarrow> 64 word"
  assumes "distinct xs" "distinct ys" "set xs = set ys"
  shows "sum_list (map f xs) = sum_list (map f ys) \<and> length xs = length ys"
  using assms by (metis distinct_card sum.distinct_set_conv_list)

lemma summed_usage:
  assumes "summed attr fs (mset es) s"
  shows "(sm_Length s, sm_Inodes s) = usage attr fs es"
proof -
  let ?linked = "remdups (map de_Ino (filter (hard_linked attr fs) es))"
  have "set (sm_inodeMap s) = set ?linked" "distinct (sm_inodeMap s)" using assms by (auto simp: summed_def)
  then have "sum_list (map (\<lambda>i. in_Length (attr i)) (sm_inodeMap s)) = sum_list (map (\<lambda>i. in_Length (attr i)) ?linked)"
      "length (sm_inodeMap s) = length ?linked"
    using sum_distinct [of "sm_inodeMap s" ?linked "\<lambda>i. in_Length (attr i)"] by simp_all
  moreover have "sum_mset (image_mset (entry_length attr) {#e \<in># mset es. \<not> hard_linked attr fs e#}) =
      sum_list (map (entry_length attr) (filter (\<lambda>e. \<not> hard_linked attr fs e) es))"
    by (metis mset_filter mset_map sum_mset_sum_list)
  moreover have "size {#e \<in># mset es. \<not> hard_linked attr fs e#} = length (filter (\<lambda>e. \<not> hard_linked attr fs e) es)"
    by (metis mset_filter size_mset)
  ultimately show ?thesis using assms by (simp add: summed_def usage_def Let_def)
qed

lemma scan_walker_sel [simp]:
  "w_list (GetDirSummarySize l g f) = l" "w_visit (GetDirSummarySize l g f) = scan_visit g f"
  "w_leave (GetDirSummarySize l g f) = (\<lambda>d s. (s, Inr ()))"
  by (simp_all add: GetDirSummarySize_def)

lemma scan_fails: "isl (snd (scan_visit g f e s)) \<longleftrightarrow> unreadable g e"
  by (auto simp: scan_visit_def unreadable_def split: sum.splits)

lemma scan_root_ino [simp]: "de_Ino (scan_root i) = i"
  by (simp add: scan_root_def)

lemma scan_correct:
  assumes "shallow (GetDirSummarySize list_dentry get_inode isFsCheck) n dirInode" "knows get_inode attr"
    and "GetDirectorySizeAndInodes list_dentry get_inode dirInode isFsCheck threads r"
  shows "if tree_ok (GetDirSummarySize list_dentry get_inode isFsCheck) (unreadable get_inode) n dirInode
    then r = Inr (apsnd (\<lambda>k. k + 1) (usage attr isFsCheck (below (GetDirSummarySize list_dentry get_inode isFsCheck) n dirInode)))
    else isl r"
proof -
  let ?W = "GetDirSummarySize list_dentry get_inode isFsCheck"
  let ?init = "\<lparr>sm_Length = 0, sm_Inodes = 0, sm_inodeMap = []\<rparr>"
  obtain c where run: "(conf_step ?W threads)\<^sup>*\<^sup>* (walk_start ?init (scan_root dirInode)) c" and res: "scan_result c = Some r"
    using assms(3) by (auto simp: GetDirectorySizeAndInodes_def scan_start_def)
  obtain d q where fin: "wc_root c = Fin d q" using res by (auto split: act.splits)
  let ?s = "ws_data (wc_shared c)"
  have r: "r = bindR q (\<lambda>_. Inr (sm_Length ?s, sm_Inodes ?s + 1))" using res fin by simp
  have sh: "shallow ?W n (de_Ino (scan_root dirInode))" using assms(1) by simp
  have ok: "q = Inr () \<longleftrightarrow> tree_ok ?W (unreadable get_inode) n dirInode"
    using walk_end [OF run sh fin, of "unreadable get_inode"] by (simp add: scan_fails)
  show ?thesis
  proof (cases q)
    case (Inr u)
    have "\<exists>P. mset (below ?W n (de_Ino (scan_root dirInode))) = P + pend ?W n (wc_root c) \<and> summed attr isFsCheck P ?s"
    proof (rule walk_invariant [where I = "summed attr isFsCheck", OF run sh, THEN conjunct2])
      show "summed attr isFsCheck {#} ?init" by (simp add: summed_def)
      show "\<not> bad (wc_root c)" using fin Inr by simp
    qed (use summed_visit [OF _ _ assms(2)] in auto)
    then have "summed attr isFsCheck (mset (below ?W n dirInode)) ?s" using fin by simp
    then have "usage attr isFsCheck (below ?W n dirInode) = (sm_Length ?s, sm_Inodes ?s)" using summed_usage by metis
    then show ?thesis using ok Inr r by simp
  qed (use ok r in auto)
qed

text \<open>
  C18: the use of a directory, over every schedule of its goroutines and for every number of threads:
  on a tree of finite depth whose inodes the servers know by number, the scan that has ended has
  failed exactly when a directory could not be listed or a file not be read, and otherwise returns
  the sums of the entries below the directory, each linked file counted once in a check of the file
  system, with one inode for the directory.
\<close>

theorem scan_any_schedule:
  assumes "shallow (GetDirSummarySize list_dentry get_inode isFsCheck) n dirInode" "knows get_inode attr"
    and "GetDirectorySizeAndInodes list_dentry get_inode dirInode isFsCheck threads r"
  shows "if tree_ok (GetDirSummarySize list_dentry get_inode isFsCheck) (unreadable get_inode) n dirInode
    then r = Inr (apsnd (\<lambda>k. k + 1) (usage attr isFsCheck (below (GetDirSummarySize list_dentry get_inode isFsCheck) n dirInode)))
    else isl r"
  using scan_correct [OF assms] .

lemma scan_bounded:
  assumes "shallow (GetDirSummarySize l g f) n dirInode" "(conf_step (GetDirSummarySize l g f) threads ^^ k) (scan_start dirInode) c"
  shows "k \<le> 3 + sum_list (map weight (below (GetDirSummarySize l g f) n dirInode))"
  using conf_steps_bounded [OF assms(2) [unfolded scan_start_def], of n] assms(1) by simp

lemma scan_goes_on: "scan_result c \<noteq> None \<or> (\<exists>c'. conf_step (GetDirSummarySize l g f) threads c c')"
  using conf_progress [of c "GetDirSummarySize l g f" threads] by (cases "wc_root c") auto

lemma scan_returns:
  assumes "shallow (GetDirSummarySize l g f) n dirInode"
  shows "\<exists>r. GetDirectorySizeAndInodes l g dirInode f threads r"
proof (rule ccontr)
  let ?step = "conf_step (GetDirSummarySize l g f) threads"
  assume none: "\<nexists>r. GetDirectorySizeAndInodes l g dirInode f threads r"
  have "\<exists>c. (?step ^^ k) (scan_start dirInode) c" for k
  proof (induction k)
    case (Suc k)
    then obtain c where c: "(?step ^^ k) (scan_start dirInode) c" by blast
    have "scan_result c = None"
      using none relpowp_imp_rtranclp [OF c] unfolding GetDirectorySizeAndInodes_def by (metis option.exhaust)
    then show ?case using scan_goes_on [of c l g f threads] relpowp_Suc_I [OF c] by blast
  qed simp
  then show False using scan_bounded [OF assms] not_less_eq_eq by blast
qed

text \<open>
  C19: a scan ends: while it has not returned some goroutine can go on, it takes no more than three
  steps and, for each entry below the directory, one step or, for a directory, four, and so there is
  a result.
\<close>

theorem scan_ends:
  assumes "shallow (GetDirSummarySize list_dentry get_inode isFsCheck) n dirInode"
    and "(conf_step (GetDirSummarySize list_dentry get_inode isFsCheck) threads ^^ k) (scan_start dirInode) c"
  shows "k \<le> 3 + sum_list (map weight (below (GetDirSummarySize list_dentry get_inode isFsCheck) n dirInode)) \<and>
    (scan_result c \<noteq> None \<or> (\<exists>c'. conf_step (GetDirSummarySize list_dentry get_inode isFsCheck) threads c c')) \<and>
    (\<exists>r. GetDirectorySizeAndInodes list_dentry get_inode dirInode isFsCheck threads r)"
  using scan_bounded [OF assms] scan_goes_on [of c list_dentry get_inode isFsCheck threads] scan_returns [OF assms(1)] by blast

section \<open>A directory with two links to a file\<close>

definition link_list :: "64 word \<Rightarrow> dentry list res" where
  "link_list i = Inr (if i = 1 then
     [\<lparr>de_Name = ''a'', de_Ino = 2, de_Parent = 1, de_Type = FileType_FILE\<rparr>,
      \<lparr>de_Name = ''d'', de_Ino = 3, de_Parent = 1, de_Type = FileType_DIRECTORY\<rparr>]
     else if i = 3 then [\<lparr>de_Name = ''b'', de_Ino = 2, de_Parent = 3, de_Type = FileType_FILE\<rparr>] else [])"

definition link_attr :: "64 word \<Rightarrow> inode" where
  "link_attr i = \<lparr>in_Ino = i, in_Length = 100, in_Nlink = 2, in_Parents = [1]\<rparr>"

definition link_get :: "64 word \<Rightarrow> 64 word \<Rightarrow> inode res" where
  "link_get i p = Inr (link_attr i)"

lemma link_shallow: "shallow (GetDirSummarySize link_list link_get True) 2 1"
  by (simp add: numeral_2_eq_2 link_list_def is_dir_def)

lemma link_knows: "knows link_get link_attr"
  by (simp add: knows_def link_get_def link_attr_def)

lemma link_tree_ok: "tree_ok (GetDirSummarySize link_list link_get True) (unreadable link_get) 2 1"
  by (auto simp: tree_ok_def entry_ok_def unreadable_def link_list_def link_get_def is_dir_def numeral_2_eq_2)

lemma link_usage:
  "usage link_attr True (below (GetDirSummarySize link_list link_get True) 2 1) = (100, 2)"
  by (simp add: usage_def hard_linked_def entry_length_def link_list_def link_attr_def is_dir_def numeral_2_eq_2 Let_def)

theorem scan_any_schedule_witness:
  "\<exists>r. GetDirectorySizeAndInodes link_list link_get 1 True 8 r \<and> r = Inr (100, 3)"
proof -
  obtain r where r: "GetDirectorySizeAndInodes link_list link_get 1 True 8 r" using scan_returns [OF link_shallow] by blast
  from scan_any_schedule [OF link_shallow link_knows r] show ?thesis using r link_tree_ok link_usage by auto
qed

theorem scan_ends_witness:
  "(\<exists>c'. conf_step (GetDirSummarySize link_list link_get True) 8 (scan_start 1) c') \<and>
   (\<exists>r. GetDirectorySizeAndInodes link_list link_get 1 True 8 r)"
proof -
  have "scan_result (scan_start 1) = None" by (simp add: scan_start_def walk_start_def)
  then show ?thesis using scan_ends [OF link_shallow, where threads = 8 and k = 0 and c = "scan_start 1"] by simp
qed

end
