(* ===== verification/Quota.thy ===== *)
theory Quota
  imports Dir_Scan
begin

text \<open>
  Quotas of directories: the values and the check of \<open>internal/utils/quota_utils.go\<close>, and the commands
  \<open>set\<close>, \<open>get\<close>, \<open>check\<close> and \<open>delete\<close> of \<open>cli/command/fs/quota\<close>.  Quantities are 64 bits wide.  The
  use of a directory is the result of \<open>GetDirectorySizeAndInodes\<close>, an argument of the commands: any
  result that \<open>Dir_Scan\<close> allows.  The text of a number (\<open>humanize.Comma\<close>) is an argument too; the
  percentages in the table of \<open>get\<close> are left out.
\<close>

section \<open>Values\<close>

abbreviation MaxInt64 :: "64 word" where "MaxInt64 \<equiv> 2 ^ 63 - 1"

definition GetQuotaValue :: "64 word option \<Rightarrow> 64 word option \<Rightarrow> (64 word \<times> 64 word) res" where
  "GetQuotaValue flag_capacity flag_inodes =
     (if flag_capacity = None \<and> flag_inodes = None then Inl (RawErr ''capacity or inodes is required'')
      else let maxBytes = (case flag_capacity of None \<Rightarrow> 0 | Some capacity \<Rightarrow> capacity * 1024 * 1024 * 1024);
               maxInodes = (case flag_inodes of None \<Rightarrow> 0 | Some inodes \<Rightarrow> inodes)
           in Inr (if maxBytes = 0 then MaxInt64 else maxBytes, if maxInodes = 0 then MaxInt64 else maxInodes))"

definition CheckQuota ::
  "(64 word \<Rightarrow> string) \<Rightarrow> 64 word \<Rightarrow> 64 word \<Rightarrow> 64 word \<Rightarrow> 64 word \<Rightarrow> 64 word \<Rightarrow> 64 word \<Rightarrow> string list \<times> bool" where
  "CheckQuota comma capacity usedBytes maxInodes usedInodes realUsedBytes realUsedInodes =
     (let checkResult = (usedBytes = realUsedBytes \<and> usedInodes = realUsedInodes)
      in ([if capacity = MaxInt64 then ''unlimited'' else comma capacity, comma usedBytes, comma realUsedBytes,
           if maxInodes = MaxInt64 then ''unlimited'' else comma maxInodes, comma usedInodes, comma realUsedInodes,
           if checkResult then ''success'' else ''failed''], checkResult))"

section \<open>The commands\<close>

definition GetDirQuotaData :: "'x rpc_net \<Rightarrow> fs_flags \<Rightarrow> 32 word \<Rightarrow> 64 word \<Rightarrow> 64 word \<Rightarrow> ('x, quota) rpc_op" where
  "GetDirQuotaData net fl fsId dirInodeId epoch =
     bindO (call_server net fl dirInodeId (GetDirQuotaRequest (with_epoch epoch) fsId dirInodeId)) (\<lambda>b. pureO (quota_of b))"

definition quota_runGet :: "'x rpc_net \<Rightarrow> fs_flags \<Rightarrow> 32 word \<Rightarrow> string \<Rightarrow> bool \<Rightarrow> ('x, unit) rpc_op" where
  "quota_runGet net fl fsId path json =
     bindO (open_fs net fl fsId) (\<lambda>epoch.
     bindO (GetDirPathInodeId net fl fsId path epoch) (\<lambda>dirInodeId.
     output_of json (GetDirQuotaData net fl fsId dirInodeId epoch)))"

definition quota_runSet ::
  "'x rpc_net \<Rightarrow> fs_flags \<Rightarrow> 32 word \<Rightarrow> string \<Rightarrow> 64 word option \<Rightarrow> 64 word option \<Rightarrow> bool \<Rightarrow>
   (64 word \<Rightarrow> (64 word \<times> 64 word) res) \<Rightarrow> ('x, unit) rpc_op" where
  "quota_runSet net fl fsId path flag_capacity flag_inodes json used =
     bindO (pureO (GetQuotaValue flag_capacity flag_inodes)) (\<lambda>(maxBytes, maxInodes).
     bindO (open_fs net fl fsId) (\<lambda>epoch.
     bindO (GetDirPathInodeId net fl fsId path epoch) (\<lambda>dirInodeId.
     bindO (\<lambda>s. (s, GetEndPoint (mdsRouter s) dirInodeId)) (\<lambda>endpoint.
     bindO (pureO (used dirInodeId)) (\<lambda>(dirUsedBytes, dirUsedInodes).
     output_of json (call_mds net fl endpoint (SetDirQuotaRequest (with_epoch epoch) fsId dirInodeId
       \<lparr>MaxBytes = maxBytes, MaxInodes = maxInodes, UsedBytes = dirUsedBytes, UsedInodes = dirUsedInodes\<rparr>)))))))"

text \<open>\<open>runCheck\<close>: the row of the table, or none when the quota has been repaired.  In JSON format it
  returns after reading the quota.\<close>

definition quota_runCheck ::
  "(64 word \<Rightarrow> string) \<Rightarrow> 'x rpc_net \<Rightarrow> fs_flags \<Rightarrow> 32 word \<Rightarrow> string \<Rightarrow> bool \<Rightarrow> bool \<Rightarrow>
   (64 word \<Rightarrow> (64 word \<times> 64 word) res) \<Rightarrow> ('x, string list option) rpc_op" where
  "quota_runCheck comma net fl fsId path json repair used =
     bindO (open_fs net fl fsId) (\<lambda>epoch.
     bindO (GetDirPathInodeId net fl fsId path epoch) (\<lambda>dirInodeId.
     if json then bindO (output_of True (GetDirQuotaData net fl fsId dirInodeId epoch)) (\<lambda>_. pureO (Inr None))
     else
       bindO (GetDirQuotaData net fl fsId dirInodeId epoch) (\<lambda>q.
       bindO (pureO (used dirInodeId)) (\<lambda>(dirUsedBytes, dirUsedInodes).
       case CheckQuota comma (MaxBytes q) (UsedBytes q) (MaxInodes q) (UsedInodes q) dirUsedBytes dirUsedInodes of
         (checkResult, ok) \<Rightarrow>
           if repair \<and> \<not> ok then
             bindO (call_any net fl (SetDirQuotaRequest \<lparr>rc_Epoch = epoch, rc_IsBypassCache = True\<rparr> fsId dirInodeId
                \<lparr>MaxBytes = 0, MaxInodes = 0, UsedBytes = dirUsedBytes, UsedInodes = dirUsedInodes\<rparr>)) (\<lambda>_. pureO (Inr None))
           else pureO (Inr (Some (itoa (uint dirInodeId) # path # checkResult)))))))"

definition quota_runDelete :: "'x rpc_net \<Rightarrow> fs_flags \<Rightarrow> 32 word \<Rightarrow> string \<Rightarrow> bool \<Rightarrow> ('x, unit) rpc_op" where
  "quota_runDelete net fl fsId path json =
     bindO (open_fs net fl fsId) (\<lambda>epoch.
     bindO (GetDirPathInodeId net fl fsId path epoch) (\<lambda>dirInodeId.
     output_of json (call_server net fl dirInodeId (DeleteDirQuotaRequest (with_epoch epoch) fsId dirInodeId))))"

section \<open>Values at their width\<close>

lemma bytes_of_capacity:
  fixes c :: "64 word"
  assumes "uint c < 2 ^ 33"
  shows "uint (c * 1024 * 1024 * 1024) = uint c * 2 ^ 30"
proof -
  have "c * 1024 * 1024 * 1024 = c * 2 ^ 30" by simp
  moreover have "uint c * 2 ^ 30 < 2 ^ 64" using assms by simp
  ultimately show ?thesis by (simp add: uint_word_ariths)
qed

lemma sint_small: "uint (w :: 64 word) < 2 ^ 63 \<Longrightarrow> sint w = uint w"
  using signed_take_bit_int_eq_self [of 63 "uint w"] uint_nonnegative [of w] by (simp add: sint_uint)

text \<open>
  The quota of a capacity of less than two to the 33 gibibytes is that many bytes, or the largest
  number for the capacity zero, and is positive as a signed number.
\<close>

theorem quota_value_exact:
  assumes "uint c < 2 ^ 33"
  shows "\<exists>b i. GetQuotaValue (Some c) flag_inodes = Inr (b, i) \<and>
    sint b = (if c = 0 then 2 ^ 63 - 1 else uint c * 2 ^ 30) \<and> 0 < sint b"
proof (cases "c = 0")
  case True
  then show ?thesis by (simp add: GetQuotaValue_def Let_def sint_small)
next
  case False
  let ?b = "c * 1024 * 1024 * 1024"
  have b: "uint ?b = uint c * 2 ^ 30" using bytes_of_capacity [OF assms] .
  have pos: "0 < uint c" using False by (metis uint_0_iff uint_nonnegative order_le_less)
  then have "?b \<noteq> 0" using b by (auto simp: uint_0_iff)
  moreover have "sint ?b = uint ?b" using b assms by (intro sint_small) simp
  ultimately show ?thesis using b pos False by (simp add: GetQuotaValue_def Let_def)
qed

theorem quota_value_exact_witness:
  "uint (10 :: 64 word) < 2 ^ 33 \<and>
   (\<exists>b i. GetQuotaValue (Some 10) None = Inr (b, i) \<and>
     sint b = (if (10 :: 64 word) = 0 then 2 ^ 63 - 1 else uint (10 :: 64 word) * 2 ^ 30) \<and> 0 < sint b)"
  using quota_value_exact [of 10 None] by simp

text \<open>Beyond that the product wraps: a capacity of two to the 34 gibibytes is no limit at all, and one
  of two to the 33 is a negative number of bytes.\<close>

lemma quota_value_wraps:
  "GetQuotaValue (Some (2 ^ 34)) None = Inr (MaxInt64, MaxInt64)"
  "GetQuotaValue (Some (2 ^ 33)) None = Inr (2 ^ 63, MaxInt64)"
  by (simp_all add: GetQuotaValue_def Let_def)

section \<open>The check\<close>

lemma bindO_Inr:
  "bindO m f s = (s', Inr b) \<longleftrightarrow> (\<exists>s1 a. m s = (s1, Inr a) \<and> f a s1 = (s', Inr b))"
  by (auto simp: bindO_def split: prod.splits sum.splits)

lemma pureO_Inr: "pureO r s = (s', Inr b) \<longleftrightarrow> s' = s \<and> r = Inr b"
  by (auto simp: pureO_def)

text \<open>
  C24: a check of a quota that prints a row has read the quota of the directory, and, when the use of
  directories is found by scans of a tree of finite depth whose inodes are known, the row says success
  exactly when the recorded use is that of the tree.
\<close>

theorem quota_check_correct:
  assumes "quota_runCheck comma net fl fsId path False repair used s = (s', Inr (Some row))"
    and "\<And>i. GetDirectorySizeAndInodes list_dentry get_inode i False threads (used i)" "knows get_inode attr"
  shows "\<exists>dir q epoch s1 s2. GetDirQuotaData net fl fsId dir epoch s1 = (s2, Inr q) \<and> hd row = itoa (uint dir) \<and>
    (shallow (GetDirSummarySize list_dentry get_inode False) n dir \<longrightarrow>
      (last row = ''success'' \<longleftrightarrow>
       (UsedBytes q, UsedInodes q) =
         apsnd (\<lambda>k. k + 1) (usage attr False (below (GetDirSummarySize list_dentry get_inode False) n dir))))"
proof -
  obtain dir q epoch s1 s2 p where q: "GetDirQuotaData net fl fsId dir epoch s1 = (s2, Inr q)" and u: "used dir = Inr p"
      and row: "row = itoa (uint dir) # path #
        fst (CheckQuota comma (MaxBytes q) (UsedBytes q) (MaxInodes q) (UsedInodes q) (fst p) (snd p))"
    using assms(1) by (auto simp: quota_runCheck_def bindO_Inr pureO_Inr split_beta split: if_splits)
  have "p = apsnd (\<lambda>k. k + 1) (usage attr False (below (GetDirSummarySize list_dentry get_inode False) n dir))"
    if "shallow (GetDirSummarySize list_dentry get_inode False) n dir"
    using scan_correct [OF that assms(3) assms(2) [of dir]] u by (simp split: if_splits)
  moreover have "last row = ''success'' \<longleftrightarrow> (UsedBytes q, UsedInodes q) = p"
    using row by (simp add: CheckQuota_def Let_def prod_eq_iff)
  moreover have "hd row = itoa (uint dir)" using row by simp
  ultimately show ?thesis using q by blast
qed

text \<open>In JSON format nothing is checked: the use of the directory does not matter.\<close>

lemma json_checks_nothing: "quota_runCheck comma net fl fsId path True repair used = quota_runCheck comma net fl fsId path True repair' used'"
  by (simp add: quota_runCheck_def)

fun quota_answer :: "mds_request \<Rightarrow> mds_response" where
  "quota_answer GetMDSListRequest = \<lparr>rs_Error = Errno_OK, rs_Body = MDSListBody [\<lparr>mds_Id = 1, mds_Host = ''a'', mds_Port = 6900\<rparr>]\<rparr>"
| "quota_answer (GetFsInfoRequest i n) = \<lparr>rs_Error = Errno_OK, rs_Body = FsInfoBody \<lparr>fi_FsId = 1, fi_FsName = ''fs'',
     fi_PartitionPolicy = \<lparr>pp_Type = MONOLITHIC_PARTITION, pp_Epoch = 1, pp_Mono = Some 1, pp_ParentHash = None\<rparr>\<rparr>\<rparr>"
| "quota_answer (GetDirQuotaRequest c f i) = \<lparr>rs_Error = Errno_OK,
     rs_Body = QuotaBody \<lparr>MaxBytes = MaxInt64, MaxInodes = MaxInt64, UsedBytes = 200, UsedInodes = 4\<rparr>\<rparr>"
| "quota_answer _ = \<lparr>rs_Error = Errno_other 1, rs_Body = NoBody\<rparr>"

definition quota_net :: "unit rpc_net" where
  "quota_net = \<lparr>dial = (\<lambda>a x. (x, Inr 0)), stub = (\<lambda>c req x. (x, Inr (quota_answer req)))\<rparr>"

definition quota_flags :: fs_flags where
  "quota_flags = \<lparr>fl_fsid = Some 1, fl_fsname = None, fl_mdsaddr = ''10.0.0.1:6900'', fl_retrytimes = 0\<rparr>"

definition quota_state :: "unit rpc_state" where
  "quota_state = \<lparr>connections = [], fsMetaCache = [], mdsRouter = None, net_state = ()\<rparr>"

lemma quota_demo_open:
  "\<exists>s1 s2. open_fs quota_net quota_flags 1 quota_state = (s1, Inr 1) \<and>
    GetDirQuotaData quota_net quota_flags 1 1 1 s1 =
      (s2, Inr \<lparr>MaxBytes = MaxInt64, MaxInodes = MaxInt64, UsedBytes = 200, UsedInodes = 4\<rparr>)"
proof -
  have "snd (open_fs quota_net quota_flags 1 quota_state) = Inr 1" by code_simp
  moreover have "snd (GetDirQuotaData quota_net quota_flags 1 1 1 (fst (open_fs quota_net quota_flags 1 quota_state))) =
      Inr \<lparr>MaxBytes = MaxInt64, MaxInodes = MaxInt64, UsedBytes = 200, UsedInodes = 4\<rparr>" by code_simp
  ultimately show ?thesis by (metis prod.collapse)
qed

lemma link_shallow_all: "shallow (GetDirSummarySize link_list link_get False) 2 i"
  by (simp add: numeral_2_eq_2 link_list_def is_dir_def)

lemma quota_demo_check:
  "\<exists>used s' row. quota_runCheck (\<lambda>w. itoa (sint w)) quota_net quota_flags 1 ''/'' False False used quota_state = (s', Inr (Some row)) \<and>
    (\<forall>i. GetDirectorySizeAndInodes link_list link_get i False 8 (used i))"
proof -
  obtain used where used: "\<forall>i. GetDirectorySizeAndInodes link_list link_get i False 8 (used i)"
    using choice [of "\<lambda>i. GetDirectorySizeAndInodes link_list link_get i False 8"] scan_returns [OF link_shallow_all] by blast
  have "tree_ok (GetDirSummarySize link_list link_get False) (unreadable link_get) 2 1"
    by (auto simp: tree_ok_def entry_ok_def unreadable_def link_list_def link_get_def is_dir_def numeral_2_eq_2)
  then obtain b i where u: "used 1 = Inr (b, i)"
    using scan_correct [OF link_shallow_all link_knows, of 1 8 "used 1"] used by (auto simp: apsnd_def map_prod_def split: prod.splits)
  obtain s1 s2 where "open_fs quota_net quota_flags 1 quota_state = (s1, Inr 1)"
      "GetDirQuotaData quota_net quota_flags 1 1 1 s1 =
       (s2, Inr \<lparr>MaxBytes = MaxInt64, MaxInodes = MaxInt64, UsedBytes = 200, UsedInodes = 4\<rparr>)"
    using quota_demo_open by blast
  then show ?thesis
    using used u by (intro exI [of _ used] exI [of _ s2])
      (auto simp: quota_runCheck_def bindO_def pureO_def GetDirPathInodeId_def split: prod.splits)
qed

theorem quota_check_correct_witness:
  "\<exists>used s' row. quota_runCheck (\<lambda>w. itoa (sint w)) quota_net quota_flags 1 ''/'' False False used quota_state = (s', Inr (Some row)) \<and>
   (\<exists>dir q epoch s1 s2. GetDirQuotaData quota_net quota_flags 1 dir epoch s1 = (s2, Inr q) \<and> hd row = itoa (uint dir) \<and>
    (shallow (GetDirSummarySize link_list link_get False) 2 dir \<longrightarrow>
      (last row = ''success'' \<longleftrightarrow>
       (UsedBytes q, UsedInodes q) =
         apsnd (\<lambda>k. k + 1) (usage link_attr False (below (GetDirSummarySize link_list link_get False) 2 dir)))))"
proof -
  obtain used s' row where run:
      "quota_runCheck (\<lambda>w. itoa (sint w)) quota_net quota_flags 1 ''/'' False False used quota_state = (s', Inr (Some row))"
      and used: "\<And>i. GetDirectorySizeAndInodes link_list link_get i False 8 (used i)"
    using quota_demo_check by blast
  show ?thesis using quota_check_correct [OF run used link_knows, of 2] run by blast
qed

end
