(* ===== verification/Spec2Isabelle.thy ===== *)
theory Spec2Isabelle
  imports Topology_Correct Cluster_Ops Cluster_Admin Monitor_Spec Monitor_Life Status_Spec Status_View Check_Spec Components_Spec Mds_Spec Subpath Quota
begin

text \<open>
  A verification development of DingoCli, the command line tool that deploys and operates DingoFS,
  dingo-store and DingoDB clusters (Go, under \<open>src/\<close>).

  \<^bold>\<open>The program.\<close>  A topology file describes the services of a cluster and a hosts file the hosts.
  Both are parsed into configurations (\<open>internal/configure\<close>), whose texts may use variables
  (\<open>pkg/variable\<close>).  A command (\<open>cli/command\<close>) opens a session (\<open>cli/cli/cli.go\<close>) on the local database
  (\<open>internal/storage\<close>), generates a playbook (\<open>internal/playbook\<close>), a list of steps over
  configurations, and runs it.  Each step makes a task per configuration (\<open>internal/task/task\<close>), a
  list of commands on a host (\<open>internal/task/step\<close>, \<open>pkg/module\<close>); a pool of workers runs the tasks
  concurrently (\<open>internal/tasks\<close>).  Besides, the tool installs programs (\<open>internal/component\<close>) and asks
  the metadata servers of a file system directly (\<open>internal/rpc\<close>, \<open>cli/command/fs\<close>).

  \<^bold>\<open>The base.\<close>
  \<^item> \<open>Errno\<close>: the registry of error codes, \<open>internal/errno/errno.go\<close>.  The report of duplicate codes is
    exact, and one code is registered twice.
  \<^item> \<open>Go_Base\<close>: the prelude.  Results of fallible code (\<open>'a res\<close>, with \<open>GoPanic\<close> for a panic), the
    combinators \<open>bindR\<close>, \<open>mapR\<close>, \<open>foldR\<close> with their rules, maps as association lists, decimal
    conversions, splitting and joining of text, 64 bit wrap-around.
  \<^item> \<open>Go_Slice\<close>: slices that share an array, and the removal in place that several commands use; the
    interface \<open>removal\<close>.
  \<^item> \<open>Utils\<close>: \<open>internal/utils/common.go\<close> and \<open>string.go\<close>: conversions and their round trip, copies,
    repeated trimming (which does not end for the empty suffix).
  \<^item> \<open>Variables\<close>: \<open>pkg/variable/variables.go\<close>.  \<open>resolve\<close> has fuel, one unit for each level of the recursion;
    the number of variables plus one is enough when the references are acyclic (\<open>acyclic_solves\<close>), and no fuel
    is enough on a cycle.  \<open>Build\<close> gives every variable its expansion in whatever order it visits them.

  \<^bold>\<open>Configuration.\<close>
  \<^item> \<open>Deploy_Config\<close>, \<open>Layout\<close>, \<open>Service_Vars\<close>, \<open>Topology\<close>: \<open>internal/configure/topology\<close>: the items, the
    configuration of a service as a record, its getters and container layout, its variables, merging,
    conversion and \<open>ParseTopology\<close>.
  \<^item> \<open>Topology_Correct\<close>: parsing gives exactly the services that are asked for, with resolved hosts, typed
    items and resolved variables; getters and layouts do not panic on them; the errors that a parse can
    give.  The two passes over the services are interpretations of \<open>indexed_pass\<close>.
  \<^item> \<open>Topology_Diff\<close>: \<open>diff.go\<close>, a refinement of the set of added, deleted and changed services.
  \<^item> \<open>Item_Set\<close>, \<open>Hosts\<close>: \<open>configure/common/item_set.go\<close> and \<open>configure/hosts\<close>: valid and distinct hosts,
    selection by label patterns as set operations.
  \<^item> \<open>Monitor_Config\<close>: \<open>configure/monitor.go\<close>: the monitor services of a file.

  \<^bold>\<open>Running things.\<close>
  \<^item> \<open>Tasks\<close>: \<open>task.go\<close> and \<open>internal/tasks\<close>.  The pool of workers is the step relation \<open>exec_step\<close>; over
    every schedule the result is that of the tasks, and a run ends within twice as many steps as tasks.
  \<^item> \<open>Playbook\<close>: \<open>configs.go\<close>, \<open>factory.go\<close>, \<open>playbook.go\<close>: which tasks a step gives, and that steps run in
    order up to the first failure and post steps always.  The constructors of tasks are an argument.
  \<^item> \<open>Module\<close>, \<open>Steps\<close>: \<open>pkg/module\<close> and \<open>internal/task/step\<close>: command lines, their execution on a system that is
    an argument (\<open>sys\<close>), and the steps of tasks as functions on a \<open>world\<close> of the program's variables, the
    database and the system.

  \<^bold>\<open>The session and the database.\<close>
  \<^item> \<open>Storage\<close>: \<open>storage.go\<close> and \<open>sql.go\<close> on tables as lists of rows, with a script of failing statements;
    the invariant of the tables holds over every sequence of operations.  \<open>Storage_Spec\<close>: the keyed tables
    implement maps (\<open>keyed_store\<close>, \<open>keyed_table\<close> and their interpretations).
  \<^item> \<open>Cli\<close>: \<open>cli.go\<close>: reading topologies and selecting services.
  \<^item> \<open>Topology_Check\<close>: \<open>checker/topology.go\<close>: the check succeeds exactly for the topologies described.
  \<^item> \<open>Cluster_Admin\<close>: start of a session, audit log, \<open>add\<close>, \<open>checkout\<close>, \<open>list\<close>, \<open>rename\<close>, \<open>rm\<close>, commit of hosts
    and topology, comparison of versions.

  \<^bold>\<open>Operating a cluster.\<close>
  \<^item> \<open>Deploy\<close>: \<open>deploy.go\<close>, \<open>precheck.go\<close>: each service is started once and after everything it needs; a
    reported success had all prechecks and steps succeed.
  \<^item> \<open>Cluster_Ops\<close>: \<open>start.go\<close>, \<open>stop.go\<close>, \<open>restart.go\<close>, \<open>clean.go\<close>, \<open>upgrade.go\<close>; the interface
    \<open>selected_command\<close>.
  \<^item> \<open>Service_Tasks\<close>, \<open>Config_Tasks\<close>, \<open>Status_Tasks\<close>, \<open>Check_Tasks\<close>: the tasks of \<open>internal/task/task/common\<close> and
    \<open>checker\<close>.  \<open>Service_Life\<close>: what they do to the record of containers, over the interface
    \<open>service_command\<close>.  \<open>Status_Spec\<close>, \<open>Check_Spec\<close>: what the reported states and the checks say of the hosts.
  \<^item> \<open>Status_View\<close>: \<open>cluster/status.go\<close>, \<open>internal/tui/service/status.go\<close> and the tables of \<open>internal/tui/common/tui.go\<close>:
    one row for the instances of a service on a host, and a table that is always shown.  Of \<open>sort.Slice\<close> only its
    documented promise is used.
  \<^item> \<open>Monitor_Ops\<close>, \<open>Monitor_Tasks\<close>, \<open>Monitor_Spec\<close>, \<open>Monitor_Life\<close>: the same for monitor services
    (\<open>cli/command/monitor\<close>, \<open>internal/task/task/monitor\<close>).

  \<^bold>\<open>Components.\<close>
  \<^item> \<open>Components\<close>: \<open>internal/component\<close> and \<open>cli/command/component\<close> on a model of the disk; the repository and
    downloads are arguments.  \<open>Components_Spec\<close>: the invariant of the installed components over the
    relation \<open>comp_reach\<close> of all sequences of commands, and what an installation leaves behind.

  \<^bold>\<open>File systems.\<close>
  \<^item> \<open>Mds_Router\<close>: \<open>internal/common/mds_meta.go\<close>, \<open>mds_router.go\<close>, \<open>internal/rpc/utils.go\<close>: a request goes to the
    server that owns the inode (interface \<open>mds_router\<close>, interpreted on both routers).
  \<^item> \<open>Mds_Rpc\<close>, \<open>Mds_Spec\<close>: \<open>pool.go\<close>, \<open>client.go\<close>, \<open>status.go\<close>, \<open>operator.go\<close> against a network that is an
    argument (\<open>rpc_net\<close>): the number of requests, whose answer is returned, and the round trip of paths.
    The walk from an inode to the root need not end and is a \<open>partial_function\<close>; on a tree it is shown to return.
  \<^item> \<open>Dir_Walk\<close>: the goroutines of a directory walk, as a relation on configurations of nested activities
    with a shared state, a bound on threads and a cancelled context.  It never gets stuck and ends: the
    depth \<open>n\<close> of \<open>shallow\<close> is any bound on the depth of the tree, which has no cycles.  \<open>Dir_Scan\<close>: the use of
    space is that of the tree over every schedule.  \<open>Subpath\<close>: \<open>cli/command/fs/subpath\<close>; contents are
    deleted before their directory.
  \<^item> \<open>Quota\<close>: \<open>quota_utils.go\<close> and \<open>cli/command/fs/quota\<close>: values in 64 bit words, and the check against the scan.

  This theory holds what spans the parts: from the parsed topology to the services that the deploy
  playbook starts, and a topology that parses but deploys nothing.

  \<^bold>\<open>Reading the model.\<close>  Every raise, panic and early return of the source is a value of a sum type.
  Maps whose order of iteration matters take the order as an argument or are shown to give the same result for
  every order.  Code outside \<open>src/\<close> (YAML, SQL drivers, uuid, hashing, ssh, docker, HTTP and the servers) is an
  argument of the definitions that use it.

  \<^bold>\<open>Not modelled.\<close>  The rest of the output to the terminal (\<open>internal/tui\<close>, \<open>internal/table\<close>, \<open>internal/output\<close>), logging
  (\<open>pkg/log\<close>, \<open>pkg/logger\<close>) and the registration of commands decide nothing.  The stubs of
  \<open>internal/rpc/mds.go\<close> and \<open>cachegroup.go\<close> only forward to generated code.  The drivers of the databases,
  \<open>internal/tools/ssh.go\<close>, mounting, the start of server processes and the nfs commands are calls of host programs.
  The remaining commands of \<open>cli/command/fs\<close>, \<open>mds\<close> and \<open>cache\<close> are single requests followed by
  output.  The configuration of clients (\<open>internal/configure/client.go\<close>) is not created by any command, and the
  settings of the tool (\<open>internal/configure/dingocli\<close>) are read by a library.  The copies of \<open>internal/tasks\<close>
  under \<open>internal/playbook/tasks\<close> and \<open>internal/task/tasks\<close> are not imported.
\<close>

section \<open>From the topology to the deployment\<close>

lemma cli_parsed:
  assumes "cli_ParseTopology e cl = Inr dcs"
  obtains t roles ctx ctx' where "topology_roles t ctx = Inr (roles, ctx')" "map signature dcs = planned t roles" "dcs \<noteq> []"
proof -
  from assms obtain ctx ctx' where "ParseTopology (env_read_topology e) (env_uuid e 0) (cl_clusterTopologyData cl) (Some ctx) = Inr (dcs, ctx')"
    and n: "dcs \<noteq> []"
    by (auto simp: cli_ParseTopology_def ParseTopologyData_def res_simps split: if_splits)
  from parsed_signature [OF this(1)] n that show thesis by blast
qed

lemma planned_roles:
  assumes "map signature dcs = planned t roles" and "dc \<in> set dcs"
  shows "dc_kind dc = topo_Kind t \<and> dc_role dc \<in> set roles"
proof -
  have "signature dc \<in> set (planned t roles)" using assms by (metis image_eqI list.set_map)
  then show ?thesis by (auto simp: planned_def signature_def)
qed

text \<open>The roles that a topology can have, by kind.\<close>

lemma topology_roles_cases:
  assumes "topology_roles t ctx = Inr (roles, ctx')"
  shows "known_kind (topo_Kind t) \<and>
    (topo_Kind t = KIND_DINGOSTORE \<longrightarrow> set roles = set DINGOSTORE_ROLES) \<and>
    (topo_Kind t = KIND_DINGODB \<longrightarrow> set roles = set DINGODB_ROLES) \<and>
    (topo_Kind t = KIND_DINGOFS \<longrightarrow>
       set roles \<subseteq> set DINGOFS_ROLES \<union> {ROLE_FS_MDS_CLI} \<and>
       (ROLE_FS_MDS_CLI \<in> set roles \<longrightarrow> set roles \<subseteq> {ROLE_FS_MDS, ROLE_COORDINATOR, ROLE_STORE, ROLE_FS_MDS_CLI, ROLE_DINGODB_EXECUTOR}))"
  using assms
  by (auto simp: topology_roles_def known_kind_def res_simps DINGOFS_MDSV2_FOLLOW_ROLES_def DINGOFS_MDSV2_ONLY_ROLES_def DINGOFS_ROLES_def
      split: if_splits)

abbreviation roles_of :: "deploy_config list \<Rightarrow> string set" where
  "roles_of dcs \<equiv> dc_role ` set dcs"

lemma role_trims:
  "trim_space ROLE_COORDINATOR = ROLE_COORDINATOR" "trim_space ROLE_FS_MDS = ROLE_FS_MDS"
  "trim_space ROLE_FS_MDS_CLI = ROLE_FS_MDS_CLI" "trim_space ROLE_STORE = ROLE_STORE" "trim_space ROLE_ETCD = ROLE_ETCD"
  "trim_space ROLE_METASERVER = ROLE_METASERVER" "trim_space ROLE_DINGODB_EXECUTOR = ROLE_DINGODB_EXECUTOR"
  by code_simp+

lemma Contains_roles: "r \<in> roles_of dcs \<Longrightarrow> Contains (GetRoles dcs) r"
  by (metis Contains_iff GetRoles_spec(1))


lemma runDeploy_etcd:
  fixes r :: "('cc, 's, 't) runner"
  assumes "cli_ParseTopology e cl = Inr dcs" and "do_insecure options" and "do_skip options = []"
    and "\<forall>dc \<in> set dcs. dc_kind dc = KIND_DINGOFS"
    and "ROLE_COORDINATOR \<notin> roles_of dcs" and "ROLE_FS_MDS_CLI \<notin> roles_of dcs"
  shows "runDeploy r e cl options (initial_tables, s) = ((initial_tables, s), None)"
proof -
  obtain t roles ctx ctx' where t: "topology_roles t ctx = Inr (roles, ctx')" "map signature dcs = planned t roles" "dcs \<noteq> []"
    using cli_parsed [OF assms(1)] .
  then obtain dc0 ds where dcs: "dcs = dc0 # ds" by (cases dcs) auto
  have k: "dc_kind dc0 = KIND_DINGOFS" using assms(4) by (simp add: dcs)
  have trim: "trim_space (dc_role d) = dc_role d" if "d \<in> set dcs" for d
  proof -
    have "dc_role d \<in> set roles" "topo_Kind t = KIND_DINGOFS" using planned_roles [OF t(2) that] assms(4) that by auto
    with topology_roles_cases [OF t(1)] have "dc_role d \<in> set DINGOFS_ROLES \<union> {ROLE_FS_MDS_CLI}" by blast
    then show ?thesis by (auto simp: DINGOFS_ROLES_def role_trims)
  qed
  have no: "\<not> Contains (GetRoles dcs) r" if "r \<notin> roles_of dcs" "trim_space r = r" for r
    using that trim by (auto simp: Contains_iff GetRoles_spec(1))
  have "deploy_table initial_tables (dc_kind dc0) (GetRoles dcs) = Inr None"
    using no [OF assms(5)] no [OF assms(6)] k by (simp add: deploy_table_def role_trims)
  then have "genDeployPlaybook e cl dcs options initial_tables = (initial_tables, Inr (NewPlaybook :: 'cc playbook))"
    by (simp add: genDeployPlaybook_def dcs skipDeploySteps_def)
  moreover have "skipServiceRole dcs options = dcs" using assms(3) by (simp add: skipServiceRole_def)
  ultimately show ?thesis
    using assms(1,2) by (simp add: runDeploy_def precheckBeforeDeploy_def run_playbook_def pb_Run_def NewPlaybook_def)
qed

text \<open>
  A dingofs topology without coordinators and without mds client (one with an etcd section) is deployed by an empty
  playbook: without the precheck the command does nothing at all and reports success.
\<close>

theorem etcd_topology_deploys_nothing:
  fixes r :: "('cc, 's, 't) runner"
  assumes "cli_ParseTopology e cl = Inr dcs" and "do_insecure options" and "do_skip options = []"
    and "\<forall>dc \<in> set dcs. dc_kind dc = KIND_DINGOFS"
    and "ROLE_COORDINATOR \<notin> roles_of dcs" and "ROLE_FS_MDS_CLI \<notin> roles_of dcs"
  shows "runDeploy r e cl options (initial_tables, s) = ((initial_tables, s), None)"
  using assms by (rule runDeploy_etcd)

section \<open>A small topology\<close>

definition etcd_topology :: topology where
  "etcd_topology =
     (demo_topology KIND_DINGOFS no_service)\<lparr>EtcdServices :=
       \<lparr>svc_Config = Some [(''listen.port'', GInt 2379)], svc_Deploy = Some [demo_host]\<rparr>\<rparr>"

definition etcd_env :: cli_env where
  "etcd_env = demo_cli_env\<lparr>env_host := demo_env,
     env_read_hosts := (\<lambda>_. Some \<lparr>hosts_Global = None,
       hosts_Host = [Some [(''host'', GStr ''h1''), (''hostname'', GStr ''10.0.0.1'')]]\<rparr>),
     env_read_topology := (\<lambda>_. Some etcd_topology)\<rparr>"

definition etcd_cli :: dingocli where
  "etcd_cli = demo_cli\<lparr>cl_hosts := ''hosts''\<rparr>"

lemma etcd_parses:
  "case cli_ParseTopology etcd_env etcd_cli of
     Inl _ \<Rightarrow> False
   | Inr dcs \<Rightarrow> list_all (\<lambda>dc. dc_kind dc = KIND_DINGOFS \<and> dc_role dc = ROLE_ETCD) dcs"
  by code_simp


lemma etcd_parse:
  obtains dcs where "cli_ParseTopology etcd_env etcd_cli = Inr dcs"
    "\<forall>dc \<in> set dcs. dc_kind dc = KIND_DINGOFS \<and> dc_role dc = ROLE_ETCD"
  using etcd_parses by (auto simp: list_all_iff split: sum.splits)

theorem etcd_topology_deploys_nothing_witness:
  "runDeploy ((\<lambda>(_ :: unit playbook_step) s. (s, Inr ())), (\<lambda>_ _ s. (s + 1, None))) etcd_env etcd_cli plain_options
     (initial_tables, 0 :: int) = ((initial_tables, 0), None)"
proof -
  obtain dcs where p: "cli_ParseTopology etcd_env etcd_cli = Inr dcs"
    and d: "\<forall>dc \<in> set dcs. dc_kind dc = KIND_DINGOFS \<and> dc_role dc = ROLE_ETCD" by (rule etcd_parse)
  show ?thesis
    by (rule etcd_topology_deploys_nothing [OF p]) (use d in \<open>auto simp: plain_options_def\<close>)
qed


definition store_topology :: topology where
  "store_topology =
     (demo_topology KIND_DINGOSTORE no_service)\<lparr>
       StoreServices := \<lparr>svc_Config = Some [(''server.port'', GInt 6601)], svc_Deploy = Some [demo_host]\<rparr>\<rparr>"

definition store_env :: cli_env where
  "store_env = etcd_env\<lparr>env_read_topology := (\<lambda>_. Some store_topology)\<rparr>"

lemma store_deploys:
  "case cli_ParseTopology store_env etcd_cli of
     Inl _ \<Rightarrow> False
   | Inr dcs \<Rightarrow>
       dcs \<noteq> [] \<and> list_all (\<lambda>dc. dc_kind dc = KIND_DINGOSTORE) dcs \<and>
       (case snd (genDeployPlaybook store_env etcd_cli dcs plain_options initial_tables :: step_tables \<times> unit playbook res) of
          Inl _ \<Rightarrow> False | Inr _ \<Rightarrow> True)"
  by code_simp

end
